(* ===== verification/Prelude.thy ===== *)
theory Prelude
  imports Complex_Main
begin

text \<open>
  Shared vocabulary of the development: instants, durations and identifiers as the program uses
  them, decimal rendering, the theorem collections the component theories feed, and generic facts.
\<close>

type_synonym datetime = int \<comment> \<open>an aware UTC datetime: microseconds since the epoch\<close>
type_synonym timedelta = int \<comment> \<open>a duration in microseconds\<close>
type_synonym uuid = nat

named_theorems monitor_defs \<open>definitions of the lifecycle monitors\<close>
named_theorems finding_facts \<open>what a finding of one monitor can be\<close>
named_theorems table_defs \<open>definitions of the operations on a database table\<close>
named_theorems table_simps \<open>effect of a table operation on one row\<close>

section \<open>Decimal rendering\<close>

fun digits_rev :: "nat \<Rightarrow> nat \<Rightarrow> string" where
  "digits_rev 0 n = []"
| "digits_rev (Suc k) n =
     char_of (48 + n mod 10) # (if n < 10 then [] else digits_rev k (n div 10))"

text \<open>A number below \<open>2 ^ k\<close> has at most \<open>k\<close> decimal digits, so the number itself is enough fuel.\<close>

definition str_nat :: "nat \<Rightarrow> string" where
  "str_nat n = rev (digits_rev (Suc n) n)"

definition str_int :: "int \<Rightarrow> string" where
  "str_int i = (if i < 0 then CHR ''-'' # str_nat (nat (- i)) else str_nat (nat i))"

lemma digits_rev_char: "c \<in> set (digits_rev k n) \<Longrightarrow> 48 \<le> (of_char c :: nat) \<and> (of_char c :: nat) < 58"
  by (induction k arbitrary: n) (auto split: if_splits)

lemma str_int_chars: "c \<in> set (str_int i) \<Longrightarrow> c = CHR ''-'' \<or> 48 \<le> (of_char c :: nat) \<and> (of_char c :: nat) < 58"
  by (auto simp: str_int_def str_nat_def dest: digits_rev_char split: if_splits)

text \<open>\<open>"|".join(parts)\<close>.\<close>

fun join_bar :: "string list \<Rightarrow> string" where
  "join_bar [] = []"
| "join_bar [s] = s"
| "join_bar (s # t # ts) = s @ CHR ''|'' # join_bar (t # ts)"

section \<open>Lists\<close>

text \<open>Python's \<open>max(xs, key=f)\<close>: the first element with the greatest key.\<close>

fun max_by :: "('a \<Rightarrow> 'k::linorder) \<Rightarrow> 'a \<Rightarrow> 'a list \<Rightarrow> 'a" where
  "max_by f best [] = best"
| "max_by f best (x # xs) = max_by f (if f best < f x then x else best) xs"

lemma max_by_in: "max_by f b xs \<in> set (b # xs)"
  by (induction xs arbitrary: b) auto

lemma max_by_ge: "x \<in> set (b # xs) \<Longrightarrow> f x \<le> f (max_by f b xs)"
proof (induction xs arbitrary: b x)
  case (Cons y ys)
  let ?c = "if f b < f y then y else b"
  have "f ?c \<le> f (max_by f ?c ys)" by (rule Cons.IH) simp
  then show ?case using Cons.IH [of x ?c] Cons.prems by (auto split: if_splits)
qed simp

lemma max_by_unique:
  assumes "x \<in> set (b # xs)" "\<forall>y \<in> set (b # xs). y \<noteq> x \<longrightarrow> f y < f x"
  shows "max_by f b xs = x"
  using max_by_in [of f b xs] max_by_ge [OF assms(1), of f] assms(2) by force

text \<open>Updating the rows of a table that satisfy a condition.\<close>

definition update_where :: "('r \<Rightarrow> bool) \<Rightarrow> ('r \<Rightarrow> 'r) \<Rightarrow> 'r list \<Rightarrow> 'r list" where
  "update_where c f = map (\<lambda>r. if c r then f r else r)"

definition row_count :: "('r \<Rightarrow> bool) \<Rightarrow> 'r list \<Rightarrow> nat" where
  "row_count c rs = length (filter c rs)"

lemma update_where_Nil [simp]: "update_where c f [] = []"
  and update_where_Cons [simp]:
    "update_where c f (r # rs) = (if c r then f r else r) # update_where c f rs"
  by (simp_all add: update_where_def)

lemma map_update_where: "(\<And>r. c r \<Longrightarrow> g (f r) = g r) \<Longrightarrow> map g (update_where c f rs) = map g rs"
  by (induction rs) auto

lemma set_update_where: "r \<in> set (update_where c f rs) \<longleftrightarrow>
    (r \<in> set rs \<and> \<not> c r) \<or> (\<exists>r' \<in> set rs. c r' \<and> r = f r')"
  by (induction rs) auto

lemma set_update_where_mem: "S \<subseteq> set rs \<Longrightarrow> set (update_where (\<lambda>r. r \<in> S) f rs) = (set rs - S) \<union> f ` S"
  unfolding update_where_def by auto

lemma updated_in: "r \<in> set rs \<Longrightarrow> (if c r then f r else r) \<in> set (update_where c f rs)"
  by (auto simp: set_update_where)

lemma row_count_pos: "0 < row_count c rs \<longleftrightarrow> (\<exists>r \<in> set rs. c r)"
  by (auto simp: row_count_def filter_empty_conv)

lemma row_count_zero: "row_count c rs = 0 \<longleftrightarrow> (\<forall>r \<in> set rs. \<not> c r)"
  by (auto simp: row_count_def filter_empty_conv)

lemma find_Some_in: "find P xs = Some x \<Longrightarrow> x \<in> set xs \<and> P x"
  by (auto simp: find_Some_iff)

lemma find_None_not: "find P xs = None \<longleftrightarrow> (\<forall>x \<in> set xs. \<not> P x)"
  by (auto simp: find_None_iff)

lemma find_append: "find P (xs @ ys) = (case find P xs of Some x \<Rightarrow> Some x | None \<Rightarrow> find P ys)"
  by (induction xs) auto

lemma find_update_where:
  assumes "\<And>r. c r \<Longrightarrow> k (f r) = k r"
  shows "find (\<lambda>r. k r = j) (update_where c f rs)
    = map_option (\<lambda>r. if c r then f r else r) (find (\<lambda>r. k r = j) rs)"
  by (induction rs) (auto simp: assms)

end
