(* ===== verification/Float64.thy ===== *)
theory Float64
  imports Prelude "HOL-Library.Log_Nat"
begin

text \<open>
  Python's \<open>float\<close>: finite binary64 numbers.  A finite float is the rational it denotes, and each
  arithmetic operation of the code rounds its exact result to the nearest representable number, ties
  to even (\<open>fl\<close>), with gradual underflow at exponent \<open>-1074\<close>.  Overflow to an infinity and NaN are
  outside the model.  The locale \<open>rounding\<close> states the laws the components rely on.
\<close>

section \<open>Rounding\<close>

type_synonym float64 = rat

definition round_half_even :: "rat \<Rightarrow> int" where
  "round_half_even x =
     (let f = \<lfloor>x\<rfloor>; r = x - of_int f
      in if r < 1 / 2 then f else if 1 / 2 < r then f + 1 else if even f then f else f + 1)"

definition ilog2 :: "rat \<Rightarrow> int" where
  "ilog2 x = (if 1 \<le> x then bitlen \<lfloor>x\<rfloor> - 1 else - bitlen (\<lceil>1 / x\<rceil> - 1))"

definition ulp_exponent :: "rat \<Rightarrow> int" where
  "ulp_exponent x = max (ilog2 \<bar>x\<bar> - 52) (- 1074)"

definition fl :: "rat \<Rightarrow> float64" where
  "fl x = (if x = 0 then 0
           else let u = 2 powi ulp_exponent x in of_int (round_half_even (x / u)) * u)"

definition fadd :: "float64 \<Rightarrow> float64 \<Rightarrow> float64" where "fadd a b = fl (a + b)"
definition fsub :: "float64 \<Rightarrow> float64 \<Rightarrow> float64" where "fsub a b = fl (a - b)"
definition fmul :: "float64 \<Rightarrow> float64 \<Rightarrow> float64" where "fmul a b = fl (a * b)"
definition fdiv :: "float64 \<Rightarrow> float64 \<Rightarrow> float64" where "fdiv a b = fl (a / b)"

section \<open>Rounding to an integer\<close>

lemma round_half_even_of_int [simp]: "round_half_even (of_int n) = n"
  by (simp add: round_half_even_def)

lemma round_half_even_bounds: "\<lfloor>x\<rfloor> \<le> round_half_even x \<and> round_half_even x \<le> \<lfloor>x\<rfloor> + 1"
  by (simp add: round_half_even_def Let_def)

lemma round_half_even_mono:
  assumes "x \<le> y"
  shows "round_half_even x \<le> round_half_even y"
proof (cases "\<lfloor>x\<rfloor> = \<lfloor>y\<rfloor>")
  case True
  with assms show ?thesis by (auto simp: round_half_even_def Let_def)
next
  case False
  with floor_mono [OF assms] have "\<lfloor>x\<rfloor> + 1 \<le> \<lfloor>y\<rfloor>" by linarith
  then show ?thesis
    using round_half_even_bounds [of x] round_half_even_bounds [of y] by linarith
qed

lemma floor_minus_nonint:
  fixes x :: rat
  assumes "x \<noteq> of_int \<lfloor>x\<rfloor>"
  shows "\<lfloor>- x\<rfloor> = - \<lfloor>x\<rfloor> - 1"
proof (rule floor_unique)
  show "of_int (- \<lfloor>x\<rfloor> - 1) \<le> - x" by simp linarith
  have "of_int \<lfloor>x\<rfloor> < x" using assms of_int_floor_le [of x] by linarith
  then show "- x < of_int (- \<lfloor>x\<rfloor> - 1) + 1" by simp
qed

lemma round_half_even_minus: "round_half_even (- x) = - round_half_even x"
proof (cases "x = of_int \<lfloor>x\<rfloor>")
  case True
  then show ?thesis by (metis of_int_minus round_half_even_of_int)
next
  case False
  let ?f = "\<lfloor>x\<rfloor>" and ?r = "x - of_int \<lfloor>x\<rfloor>"
  have "- x - of_int (- ?f - 1) = 1 - ?r" by simp
  with False show ?thesis
    by (auto simp: round_half_even_def Let_def floor_minus_nonint)
qed

section \<open>The binary exponent\<close>

lemma of_int_pow2: "0 \<le> k \<Longrightarrow> (of_int (2 ^ nat k) :: rat) = 2 powi k"
  by (simp add: power_int_nonneg_exp)

lemma ilog2_bounds_ge1:
  assumes "1 \<le> x"
  shows "2 powi ilog2 x \<le> x \<and> x < 2 powi (ilog2 x + 1)"
proof -
  let ?n = "\<lfloor>x\<rfloor>"
  have n: "0 < ?n" using assms by simp
  then have b: "1 \<le> bitlen ?n" by (simp add: bitlen_ge_iff_power)
  have lo: "2 ^ nat (bitlen ?n - 1) \<le> ?n" and hi: "?n + 1 \<le> 2 ^ nat (bitlen ?n)"
    using bitlen_bounds [OF n] by auto
  have "2 powi (bitlen ?n - 1) = (of_int (2 ^ nat (bitlen ?n - 1)) :: rat)"
    using b by (subst of_int_pow2) auto
  also have "\<dots> \<le> of_int ?n" using lo by (simp only: of_int_le_iff)
  also have "\<dots> \<le> x" by simp
  finally have 1: "2 powi (bitlen ?n - 1) \<le> x" .
  have "x < of_int (?n + 1)" by linarith
  also have "\<dots> \<le> (of_int (2 ^ nat (bitlen ?n)) :: rat)" using hi by (simp only: of_int_le_iff)
  also have "\<dots> = 2 powi bitlen ?n" using b by (subst of_int_pow2) auto
  finally show ?thesis using 1 assms by (simp add: ilog2_def)
qed

lemma ilog2_bounds_lt1:
  assumes "0 < x" "x < 1"
  shows "2 powi ilog2 x \<le> x \<and> x < 2 powi (ilog2 x + 1)"
proof -
  let ?m = "\<lceil>1 / x\<rceil>" and ?k = "bitlen (\<lceil>1 / x\<rceil> - 1)"
  have inv: "1 < 1 / x" using assms by simp
  then have m: "0 < ?m - 1" by linarith
  then have k: "1 \<le> ?k" by (simp add: bitlen_ge_iff_power)
  have lo: "2 ^ nat (?k - 1) \<le> ?m - 1" and hi: "?m \<le> 2 ^ nat ?k"
    using bitlen_bounds [OF m] by auto
  have "1 / x \<le> of_int ?m" by simp
  also have "\<dots> \<le> (of_int (2 ^ nat ?k) :: rat)" using hi by (simp only: of_int_le_iff)
  also have "\<dots> = 2 powi ?k" using k by (subst of_int_pow2) auto
  finally have 1: "2 powi (- ?k) \<le> x"
    using assms by (simp add: power_int_minus_divide field_simps)
  have "2 powi (?k - 1) = (of_int (2 ^ nat (?k - 1)) :: rat)" using k by (subst of_int_pow2) auto
  also have "\<dots> \<le> of_int (?m - 1)" using lo by (simp only: of_int_le_iff)
  also have "\<dots> < 1 / x" by linarith
  finally have "x < 1 / 2 powi (?k - 1)" using assms by (simp add: field_simps)
  also have "\<dots> = 2 powi (- ?k + 1)" by (simp add: power_int_minus_divide [symmetric])
  finally show ?thesis using 1 assms by (simp add: ilog2_def)
qed

lemma ilog2_bounds: "0 < x \<Longrightarrow> 2 powi ilog2 x \<le> x \<and> x < 2 powi (ilog2 x + 1)"
  using ilog2_bounds_ge1 ilog2_bounds_lt1 by (metis not_less)

lemma ilog2_le:
  assumes "0 < x" "x < 2 powi (n + 1)"
  shows "ilog2 x \<le> n"
proof (rule ccontr)
  assume "\<not> ilog2 x \<le> n"
  then have "(2::rat) powi (n + 1) \<le> 2 powi ilog2 x" by (intro power_int_increasing) auto
  also have "\<dots> \<le> x" using ilog2_bounds assms(1) by blast
  finally show False using assms(2) by simp
qed

lemma ilog2_mono:
  assumes "0 < x" "x \<le> y"
  shows "ilog2 x \<le> ilog2 y"
  using assms ilog2_bounds [of y] by (intro ilog2_le) auto

section \<open>Rounding to a float\<close>

lemma fl_zero [simp]: "fl 0 = 0"
  by (simp add: fl_def)

lemma fl_minus: "fl (- x) = - fl x"
  by (simp add: fl_def ulp_exponent_def Let_def round_half_even_minus)

lemma pow2_pos [simp]: "0 < (2::rat) powi e"
  by simp

text \<open>A multiple of the unit in the last place is a fixed point of rounding.\<close>

lemma fl_multiple:
  assumes "x = of_int m * 2 powi ulp_exponent x"
  shows "fl x = x"
proof -
  have "x / 2 powi ulp_exponent x = of_int m"
    using assms by (metis nonzero_mult_div_cancel_right order_less_irrefl pow2_pos)
  then show ?thesis using assms by (auto simp: fl_def)
qed

lemma multiple_coarser:
  assumes "e \<le> e'"
  shows "\<exists>m. (2::rat) powi e' = of_int m * 2 powi e"
proof
  have "(2::rat) powi e' = 2 powi (e' - e) * 2 powi e" by (simp add: power_int_add [symmetric])
  also have "\<dots> = of_int (2 ^ nat (e' - e)) * 2 powi e" 
    using assms by (subst of_int_pow2) auto
  finally show "(2::rat) powi e' = of_int (2 ^ nat (e' - e)) * 2 powi e" .
qed

lemma fl_coarser_multiple:
  assumes "ulp_exponent (of_int m * 2 powi e) \<le> e"
  shows "fl (of_int m * 2 powi e) = of_int m * 2 powi e"
proof -
  let ?u = "(2::rat) powi ulp_exponent (of_int m * 2 powi e)"
  obtain k where "(2::rat) powi e = of_int k * ?u" using multiple_coarser assms by blast
  then have "of_int m * 2 powi e = of_int (m * k) * ?u" by simp
  then show ?thesis by (rule fl_multiple)
qed

lemma abs_of_int_pow2_less:
  assumes "\<bar>m\<bar> < 2 ^ 53"
  shows "\<bar>of_int m * 2 powi e\<bar> < (2::rat) powi (53 + e)"
proof -
  have "\<bar>of_int m :: rat\<bar> < of_int (2 ^ 53)"
    using assms by (simp only: of_int_abs [symmetric] of_int_less_iff)
  also have "\<dots> = 2 powi 53" by simp
  finally have "\<bar>of_int m :: rat\<bar> * 2 powi e < 2 powi 53 * 2 powi e"
    by (rule mult_strict_right_mono) simp
  also have "\<dots> = (2::rat) powi (53 + e)" by (subst power_int_add) auto
  finally show ?thesis by (simp only: abs_mult) simp
qed

text \<open>Every \<open>m * 2 ^ e\<close> with a significand of at most 53 bits is a float.\<close>

lemma fl_representable_less:
  assumes "\<bar>m\<bar> < 2 ^ 53" "- 1074 \<le> e"
  shows "fl (of_int m * 2 powi e) = of_int m * 2 powi e"
proof (cases "m = 0")
  case False
  then have "0 < \<bar>of_int m * (2::rat) powi e\<bar>" by simp
  then have "ilog2 \<bar>of_int m * 2 powi e\<bar> \<le> 52 + e"
    using abs_of_int_pow2_less [OF assms(1), of e] by (intro ilog2_le) (simp_all add: add.commute)
  then show ?thesis using assms(2) by (intro fl_coarser_multiple) (simp add: ulp_exponent_def)
qed simp

lemma fl_pow2: "- 1074 \<le> e \<Longrightarrow> fl (2 powi e) = 2 powi e"
  using fl_representable_less [of 1 e] by simp

lemma fl_representable:
  assumes "\<bar>m\<bar> \<le> 2 ^ 53" "- 1074 \<le> e"
  shows "fl (of_int m * 2 powi e) = of_int m * 2 powi e"
proof (cases "\<bar>m\<bar> < 2 ^ 53")
  case False
  have top: "(2 ^ 53 :: rat) * 2 powi e = 2 powi (53 + e)" by (subst power_int_add) auto
  have "m = 2 ^ 53 \<or> m = - (2 ^ 53)" using False assms(1) by linarith
  then show ?thesis
  proof
    assume "m = 2 ^ 53"
    then have "of_int m * 2 powi e = (2::rat) powi (53 + e)" using top by simp
    then show ?thesis using fl_pow2 [of "53 + e"] assms(2) by simp
  next
    assume "m = - (2 ^ 53)"
    then have "of_int m * 2 powi e = - ((2::rat) powi (53 + e))" using top by simp
    then show ?thesis using fl_pow2 [of "53 + e"] assms(2) by (simp add: fl_minus)
  qed
qed (use assms fl_representable_less in blast)

lemma fl_of_int: "\<bar>n\<bar> \<le> 2 ^ 53 \<Longrightarrow> fl (of_int n) = of_int n"
  using fl_representable [of n 0] by simp

text \<open>Rounding a float again changes nothing: the rounded significand has at most 53 bits.\<close>

lemma significand_bound:
  assumes "0 < x"
  shows "x / 2 powi ulp_exponent x \<le> 2 ^ 53"
proof -
  have "x < 2 powi (ilog2 x + 1)" using ilog2_bounds assms by blast
  also have "\<dots> \<le> 2 powi (53 + ulp_exponent x)"
    using assms by (intro power_int_increasing) (auto simp: ulp_exponent_def)
  also have "\<dots> = 2 ^ 53 * 2 powi ulp_exponent x" by (subst power_int_add) auto
  finally show ?thesis by (simp add: divide_le_eq)
qed

lemma fl_idem_pos:
  assumes "0 < x"
  shows "fl (fl x) = fl x"
proof -
  let ?u = "(2::rat) powi ulp_exponent x"
  let ?m = "round_half_even (x / ?u)"
  have "?m \<le> 2 ^ 53"
    using round_half_even_mono [OF significand_bound [OF assms]] round_half_even_of_int [of "2 ^ 53"]
    by simp
  moreover have "0 \<le> ?m"
    using round_half_even_mono [of 0 "x / ?u"] round_half_even_of_int [of 0] assms by simp
  ultimately have "fl (of_int ?m * ?u) = of_int ?m * ?u"
    by (intro fl_representable) (auto simp: ulp_exponent_def)
  then show ?thesis using assms by (simp add: fl_def Let_def)
qed

lemma fl_idem [simp]: "fl (fl x) = fl x"
proof (cases "x < 0")
  case True
  then have "fl (fl (- x)) = fl (- x)" by (intro fl_idem_pos) auto
  then show ?thesis by (simp add: fl_minus)
next
  case False
  then show ?thesis by (cases "x = 0") (auto intro: fl_idem_pos)
qed

section \<open>Monotonicity\<close>

lemma ulp_exponent_mono: "0 < x \<Longrightarrow> x \<le> y \<Longrightarrow> ulp_exponent x \<le> ulp_exponent y"
  using ilog2_mono by (fastforce simp: ulp_exponent_def)

lemma fl_same_exponent:
  assumes "0 < x" "x \<le> y" "ulp_exponent x = ulp_exponent y"
  shows "fl x \<le> fl y"
proof -
  have "round_half_even (x / 2 powi ulp_exponent y) \<le> round_half_even (y / 2 powi ulp_exponent y)"
    using assms by (intro round_half_even_mono divide_right_mono) auto
  then show ?thesis using assms by (simp add: fl_def Let_def mult_right_mono)
qed

text \<open>Across a binade boundary \<open>2 ^ k\<close> the two results lie on either side of it.\<close>

lemma fl_le_pow2:
  assumes "0 < x" "x \<le> 2 powi k" "ulp_exponent x \<le> k"
  shows "fl x \<le> 2 powi k"
proof -
  let ?u = "(2::rat) powi ulp_exponent x"
  obtain m where m: "(2::rat) powi k = of_int m * ?u" using multiple_coarser assms(3) by blast
  then have "x / ?u \<le> of_int m" using assms(2) by (simp add: divide_le_eq)
  then have "round_half_even (x / ?u) \<le> m"
    using round_half_even_mono [of "x / ?u" "of_int m"] by simp
  then have "of_int (round_half_even (x / ?u)) * ?u \<le> of_int m * ?u"
    by (intro mult_right_mono) auto
  then show ?thesis using assms(1) m by (simp add: fl_def Let_def)
qed

lemma fl_ge_pow2:
  assumes "2 powi k \<le> x" "ulp_exponent x \<le> k"
  shows "2 powi k \<le> fl x"
proof -
  let ?u = "(2::rat) powi ulp_exponent x"
  have pos: "0 < x" using assms(1) pow2_pos [of k] by linarith
  obtain m where m: "(2::rat) powi k = of_int m * ?u" using multiple_coarser assms(2) by blast
  then have "of_int m \<le> x / ?u" using assms(1) by (simp add: le_divide_eq)
  then have "m \<le> round_half_even (x / ?u)"
    using round_half_even_mono [of "of_int m" "x / ?u"] by simp
  then have "of_int m * ?u \<le> of_int (round_half_even (x / ?u)) * ?u"
    by (intro mult_right_mono) auto
  then show ?thesis using pos m by (simp add: fl_def Let_def)
qed

lemma fl_nonneg: "0 \<le> x \<Longrightarrow> 0 \<le> fl x"
  using round_half_even_mono [of 0 "x / 2 powi ulp_exponent x"] round_half_even_of_int [of 0]
  by (simp add: fl_def Let_def)

lemma fl_mono_pos:
  assumes "0 < x" "x \<le> y"
  shows "fl x \<le> fl y"
proof (cases "ulp_exponent x = ulp_exponent y")
  case False
  let ?k = "ilog2 y"
  have lt: "ulp_exponent x < ulp_exponent y" using False ulp_exponent_mono [OF assms] by simp
  then have y: "ulp_exponent y = ?k - 52" using assms by (auto simp: ulp_exponent_def)
  then have "ilog2 x < ?k" using lt assms by (auto simp: ulp_exponent_def)
  then have "(2::rat) powi (ilog2 x + 1) \<le> 2 powi ?k" by (intro power_int_increasing) auto
  then have "x \<le> 2 powi ?k" using ilog2_bounds [OF assms(1)] by simp
  moreover have "2 powi ?k \<le> y" using ilog2_bounds assms by auto
  ultimately show ?thesis
    using fl_le_pow2 [of x ?k] fl_ge_pow2 [of ?k y] assms lt y by linarith
qed (use assms fl_same_exponent in blast)

lemma fl_mono:
  assumes "x \<le> y"
  shows "fl x \<le> fl y"
proof -
  consider "0 < x" | "x \<le> 0" "0 \<le> y" | "y < 0" using assms by linarith
  then show ?thesis
  proof cases
    case 1
    then show ?thesis using assms by (rule fl_mono_pos)
  next
    case 2
    then have "0 \<le> fl (- x)" "0 \<le> fl y" by (auto intro: fl_nonneg)
    then show ?thesis by (simp add: fl_minus)
  next
    case 3
    then have "fl (- y) \<le> fl (- x)" using assms by (intro fl_mono_pos) auto
    then show ?thesis by (simp add: fl_minus)
  qed
qed

section \<open>The laws of rounded arithmetic\<close>

locale rounding =
  fixes rnd :: "rat \<Rightarrow> rat"
  assumes rnd_mono: "x \<le> y \<Longrightarrow> rnd x \<le> rnd y"
    and rnd_zero: "rnd 0 = 0"
    and rnd_minus: "rnd (- x) = - rnd x"
    and rnd_idem: "rnd (rnd x) = rnd x"
begin

lemma nonneg: "0 \<le> x \<Longrightarrow> 0 \<le> rnd x"
  using rnd_mono [of 0 x] by (simp add: rnd_zero)

lemma nonpos: "x \<le> 0 \<Longrightarrow> rnd x \<le> 0"
  using rnd_mono [of x 0] by (simp add: rnd_zero)

text \<open>A representable bound survives rounding: this is how range checks on floats are sound.\<close>

lemma le_representable: "x \<le> y \<Longrightarrow> rnd y = y \<Longrightarrow> rnd x \<le> y"
  using rnd_mono [of x y] by simp

lemma ge_representable: "y \<le> x \<Longrightarrow> rnd y = y \<Longrightarrow> y \<le> rnd x"
  using rnd_mono [of y x] by simp

lemma sub_le: "0 \<le> y \<Longrightarrow> rnd x = x \<Longrightarrow> rnd (x - y) \<le> x"
  by (rule le_representable) auto

lemma add_ge: "0 \<le> y \<Longrightarrow> rnd x = x \<Longrightarrow> x \<le> rnd (x + y)"
  by (rule ge_representable) auto

lemma abs_rnd: "\<bar>rnd x\<bar> = rnd \<bar>x\<bar>"
  using nonneg [of x] nonpos [of x] by (cases "0 \<le> x") (auto simp: rnd_minus abs_if)

end

interpretation binary64: rounding fl
  by unfold_locales (auto simp: fl_mono fl_minus)

definition is_float :: "rat \<Rightarrow> bool" where
  "is_float x \<longleftrightarrow> fl x = x"

lemma is_float_ops [simp]:
  "is_float (fadd a b)" "is_float (fsub a b)" "is_float (fmul a b)" "is_float (fdiv a b)"
  by (simp_all add: is_float_def fadd_def fsub_def fmul_def fdiv_def)

text \<open>Small integers are exact.\<close>

lemma fl_numerals:
  "fl 1 = 1" "numeral n \<le> (9007199254740992::int) \<Longrightarrow> fl (numeral n) = numeral n"
  "numeral n \<le> (9007199254740992::int) \<Longrightarrow> fl (- numeral n) = - numeral n"
  using fl_of_int [of 1] fl_of_int [of "numeral n"] fl_of_int [of "- numeral n"] by simp_all

section \<open>Durations\<close>

text \<open>
  \<open>timedelta.total_seconds()\<close> is the correctly rounded quotient of the microseconds by \<open>10 ** 6\<close>;
  \<open>timedelta(seconds=s)\<close> splits a float into its whole and fractional part, scales the latter (one
  rounding) and rounds the sum to the nearest microsecond, ties to even.
\<close>

definition total_seconds :: "timedelta \<Rightarrow> float64" where
  "total_seconds d = fl (of_int d / 1000000)"

definition truncate_float :: "float64 \<Rightarrow> int" where
  "truncate_float s = (if 0 \<le> s then \<lfloor>s\<rfloor> else \<lceil>s\<rceil>)"

definition timedelta_seconds :: "float64 \<Rightarrow> timedelta" where
  "timedelta_seconds s =
     (let whole = truncate_float s
      in whole * 1000000 + round_half_even (fl (1000000 * (s - of_int whole))))"

lemma total_seconds_mono: "d \<le> e \<Longrightarrow> total_seconds d \<le> total_seconds e"
  unfolding total_seconds_def by (rule fl_mono) (simp add: divide_right_mono)

lemma total_seconds_nonneg: "0 \<le> d \<Longrightarrow> 0 \<le> total_seconds d"
  unfolding total_seconds_def by (rule binary64.nonneg) simp

lemma timedelta_seconds_of_int: "timedelta_seconds (of_int n) = n * 1000000"
  using round_half_even_of_int [of 0]
  by (simp add: timedelta_seconds_def truncate_float_def Let_def)

lemma timedelta_seconds_nonneg:
  assumes "0 \<le> s"
  shows "0 \<le> timedelta_seconds s"
proof -
  have "0 \<le> fl (1000000 * (s - of_int \<lfloor>s\<rfloor>))" by (rule fl_nonneg) simp
  then have "0 \<le> round_half_even (fl (1000000 * (s - of_int \<lfloor>s\<rfloor>)))"
    using round_half_even_mono [of 0] round_half_even_of_int [of 0] by fastforce
  then show ?thesis using assms by (simp add: timedelta_seconds_def truncate_float_def Let_def)
qed

end
