(* ===== verification/Signal_Types.thy ===== *)
theory Signal_Types
  imports Float64
begin

text \<open>
  The vocabulary of the signal lifecycle: the enumerations of \<open>app/signals/enums.py\<close>, the value
  objects of \<open>app/signals/models.py\<close> and the settings of \<open>SignalLifecycleSettings\<close> in
  \<open>app/config.py\<close>.  Enumeration members keep their names, with a prefix where two enumerations
  share one.  Human-readable reasons become values of the datatype \<open>reason\<close>, which keeps the data
  they interpolate; the display-only \<open>metadata\<close> dictionaries are left out.
\<close>

section \<open>Enumerations\<close>

datatype signal_state =
    DRAFT | PENDING_ADMISSION | WATCHING_ENTRY | ENTRY_CONFIRMED | ACTIVE_RESEARCH
  | TARGET_1_REACHED | TARGET_2_REACHED | TRAILING_RESEARCH | TECHNICAL_EXIT | INVALIDATED
  | EXPIRED | SUPERSEDED | PAUSED | REJECTED | DATA_INVALID

datatype signal_rejection_code =
    RC_PLAN_NOT_ELIGIBLE | RC_PLAN_EXPIRED | RC_CANDIDATE_NOT_CONFIRMED | RC_CANDIDATE_EXPIRED
  | RC_CANDIDATE_SUPERSEDED | RC_WATCHLIST_NOT_ACTIVE | RC_SESSION_NOT_ALLOWED
  | RC_MARKET_QUALITY_INSUFFICIENT | RC_DATA_QUALITY_INSUFFICIENT | RC_ORDERBOOK_NOT_FRESH
  | RC_PLAN_SNAPSHOT_STALE | RC_CANDIDATE_SNAPSHOT_STALE | RC_INSTRUMENT_SNAPSHOT_STALE
  | RC_BOT_PAUSED | RC_ACTIVE_SIGNAL_LIMIT_REACHED | RC_SIGNAL_DUPLICATE
  | RC_ADMISSION_CONFIGURATION_INVALID | RC_ADMISSION_ERROR | RC_INVALID_TRANSITION
  | RC_STATE_VERSION_CONFLICT

datatype signal_event_type =
    EV_CREATED | EV_ADMITTED | EV_WATCHING_ENTRY | EV_ENTRY_CONFIRMED | EV_ACTIVE_RESEARCH
  | EV_TARGET_1_REACHED | EV_TARGET_2_REACHED | EV_TRAILING_RESEARCH | EV_TECHNICAL_EXIT
  | EV_INVALIDATED | EV_EXPIRED | EV_SUPERSEDED | EV_PAUSED | EV_REJECTED | EV_DATA_INVALID

datatype signal_update_type =
    UP_ADMITTED | UP_WATCHING_ENTRY | UP_ENTRY_CONDITION_OBSERVED | UP_ENTRY_CONFIRMED
  | UP_TARGET_1_OBSERVED | UP_TARGET_2_OBSERVED | UP_TECHNICAL_EXIT_CONDITION
  | UP_INVALIDATION_CONDITION | UP_DATA_QUALITY_DEGRADED | UP_SESSION_TRANSITION
  | UP_PLAN_CHANGED | UP_CANDIDATE_CHANGED | UP_EXPIRY_WARNING | UP_SUPERSEDE_WARNING
  | UP_LIFECYCLE_ERROR

datatype entry_trigger_type =
    ZONE_TOUCH | ZONE_TOUCH_AND_5M_CLOSE_CONFIRM | RECLAIM_LEVEL_CLOSE_CONFIRM | RETEST_CONFIRM
  | BREAKOUT_CLOSE_CONFIRM

datatype invalidation_trigger_policy =
    INV_MARK_PRICE_TOUCH | INV_BBO_TOUCH | INV_FIVE_M_CLOSE_BEYOND_LEVEL
  | INV_CONSERVATIVE_COMBINED

datatype target_trigger_policy =
    TGT_MARK_PRICE_TOUCH | TGT_BBO_TOUCH | TGT_FIVE_M_CLOSE_AT_OR_BEYOND_TARGET

datatype session_end_policy = SESSION_EXPIRE | SESSION_PAUSE | SESSION_TECHNICAL_EXIT

datatype post_entry_expiry_policy = POST_ENTRY_EXPIRE | POST_ENTRY_TECHNICAL_EXIT

section \<open>Settings\<close>

record signal_settings =
  lifecycle_enabled :: bool
  lifecycle_model_name :: string
  lifecycle_model_version :: string
  lifecycle_monitor_refresh_seconds :: float64
  lifecycle_max_concurrent_monitors :: int
  lifecycle_max_active_per_instrument :: int
  lifecycle_dedupe_seconds :: float64
  lifecycle_plan_max_age_seconds :: float64
  lifecycle_candidate_max_age_seconds :: float64
  lifecycle_snapshot_max_age_seconds :: float64
  lifecycle_entry_max_wait_seconds :: float64
  lifecycle_active_max_duration_seconds :: float64
  lifecycle_data_degraded_grace_seconds :: float64
  lifecycle_queue_size :: int
  lifecycle_lease_seconds :: float64
  lifecycle_event_schema_version :: string
  lifecycle_update_schema_version :: string
  lifecycle_rejection_persist_seconds :: float64
  lifecycle_require_eligible_plan :: bool
  lifecycle_require_confirmed_candidate :: bool
  lifecycle_require_active_watchlist :: bool
  lifecycle_require_allowed_session :: bool
  lifecycle_require_healthy_data :: bool
  lifecycle_allow_degraded_data :: bool
  lifecycle_require_fresh_orderbook :: bool
  lifecycle_min_market_quality_score :: int
  entry_trigger_default :: entry_trigger_type
  invalidation_trigger_default :: invalidation_trigger_policy
  target_trigger_default :: target_trigger_policy
  entry_zone_tolerance_bps :: float64
  entry_close_confirmation_required :: bool
  invalidation_close_confirmation_required :: bool
  target_close_confirmation_required :: bool
  monitor_use_mark_price :: bool
  monitor_use_bbo :: bool
  monitor_structure_exit_enabled :: bool
  monitor_targets_enabled :: bool
  monitor_session_end_policy :: session_end_policy
  monitor_post_entry_expiry_policy :: post_entry_expiry_policy
  monitor_event_priority :: "(string \<times> int) list"
  lifecycle_persist_updates :: bool
  lifecycle_notify_enabled :: bool
  lifecycle_telegram_output_enabled :: bool

definition default_priorities :: "(string \<times> int) list" where
  "default_priorities =
     [(''DATA_INVALID'', 100), (''INVALIDATED'', 90), (''SUPERSEDED'', 80), (''EXPIRED'', 70),
      (''PAUSED'', 65), (''TECHNICAL_EXIT'', 60), (''TARGET_2_REACHED'', 50),
      (''TARGET_1_REACHED'', 40), (''ENTRY_CONFIRMED'', 30), (''INFO'', 10)]"

definition default_signal_settings :: signal_settings where
  "default_signal_settings = \<lparr>
     lifecycle_enabled = True,
     lifecycle_model_name = ''internal_research_lifecycle_v1'',
     lifecycle_model_version = ''1.0.0'',
     lifecycle_monitor_refresh_seconds = 10,
     lifecycle_max_concurrent_monitors = 4,
     lifecycle_max_active_per_instrument = 2,
     lifecycle_dedupe_seconds = 900,
     lifecycle_plan_max_age_seconds = 1800,
     lifecycle_candidate_max_age_seconds = 3600,
     lifecycle_snapshot_max_age_seconds = 900,
     lifecycle_entry_max_wait_seconds = 1800,
     lifecycle_active_max_duration_seconds = 21600,
     lifecycle_data_degraded_grace_seconds = 120,
     lifecycle_queue_size = 256,
     lifecycle_lease_seconds = 60,
     lifecycle_event_schema_version = ''sev-1'',
     lifecycle_update_schema_version = ''suv-1'',
     lifecycle_rejection_persist_seconds = 300,
     lifecycle_require_eligible_plan = True,
     lifecycle_require_confirmed_candidate = True,
     lifecycle_require_active_watchlist = True,
     lifecycle_require_allowed_session = True,
     lifecycle_require_healthy_data = True,
     lifecycle_allow_degraded_data = False,
     lifecycle_require_fresh_orderbook = True,
     lifecycle_min_market_quality_score = 70,
     entry_trigger_default = ZONE_TOUCH_AND_5M_CLOSE_CONFIRM,
     invalidation_trigger_default = INV_CONSERVATIVE_COMBINED,
     target_trigger_default = TGT_FIVE_M_CLOSE_AT_OR_BEYOND_TARGET,
     entry_zone_tolerance_bps = 5,
     entry_close_confirmation_required = True,
     invalidation_close_confirmation_required = False,
     target_close_confirmation_required = True,
     monitor_use_mark_price = True,
     monitor_use_bbo = True,
     monitor_structure_exit_enabled = True,
     monitor_targets_enabled = True,
     monitor_session_end_policy = SESSION_EXPIRE,
     monitor_post_entry_expiry_policy = POST_ENTRY_EXPIRE,
     monitor_event_priority = default_priorities,
     lifecycle_persist_updates = True,
     lifecycle_notify_enabled = False,
     lifecycle_telegram_output_enabled = False\<rparr>"

text \<open>
  The field validator of the priority map: exactly the ten known keys, pairwise distinct values,
  \<open>DATA_INVALID\<close> on top and \<open>INVALIDATED\<close> above the second target.  The map is a dictionary, so its
  keys are distinct.
\<close>

definition priority_keys :: "string list" where
  "priority_keys =
     [''DATA_INVALID'', ''INVALIDATED'', ''SUPERSEDED'', ''EXPIRED'', ''PAUSED'',
      ''TECHNICAL_EXIT'', ''TARGET_2_REACHED'', ''TARGET_1_REACHED'', ''ENTRY_CONFIRMED'',
      ''INFO'']"

definition priority_of :: "(string \<times> int) list \<Rightarrow> string \<Rightarrow> int" where
  "priority_of ps k = (case map_of ps k of Some p \<Rightarrow> p | None \<Rightarrow> 0)"

definition validate_priorities :: "(string \<times> int) list \<Rightarrow> bool" where
  "validate_priorities ps \<longleftrightarrow>
     distinct (map fst ps) \<and> set (map fst ps) = set priority_keys \<and>
     card (set (map snd ps)) = length ps \<and>
     (case ps of [] \<Rightarrow> False | q # qs \<Rightarrow> fst (max_by snd q qs) = ''DATA_INVALID'') \<and>
     priority_of ps ''TARGET_2_REACHED'' < priority_of ps ''INVALIDATED''"

lemma default_priorities_valid: "validate_priorities default_priorities"
  by (simp add: validate_priorities_def default_priorities_def priority_keys_def priority_of_def
      insert_commute)

text \<open>The settings the configuration accepts: all field validators together.\<close>

definition valid_signal_settings :: "signal_settings \<Rightarrow> bool" where
  "valid_signal_settings st \<longleftrightarrow>
     \<not> lifecycle_telegram_output_enabled st \<and>
     validate_priorities (monitor_event_priority st) \<and>
     0 \<le> lifecycle_min_market_quality_score st \<and> lifecycle_min_market_quality_score st \<le> 100 \<and>
     (\<forall>v \<in> set [lifecycle_monitor_refresh_seconds st, lifecycle_dedupe_seconds st,
        lifecycle_plan_max_age_seconds st, lifecycle_candidate_max_age_seconds st,
        lifecycle_snapshot_max_age_seconds st, lifecycle_entry_max_wait_seconds st,
        lifecycle_active_max_duration_seconds st, lifecycle_lease_seconds st]. 0 < v) \<and>
     0 \<le> lifecycle_data_degraded_grace_seconds st \<and> 0 \<le> entry_zone_tolerance_bps st"

lemma default_settings_valid: "valid_signal_settings default_signal_settings"
  by (simp add: valid_signal_settings_def default_signal_settings_def default_priorities_valid)

section \<open>Snapshots\<close>

record plan_snapshot =
  ps_plan_id :: uuid
  ps_candidate_id :: uuid
  ps_status :: string
  ps_instrument_pk :: int
  ps_instrument_id :: int
  ps_symbol :: string
  ps_asset_class :: string
  ps_candidate_type :: string
  ps_direction :: string
  ps_entry_low :: float64
  ps_entry_high :: float64
  ps_entry_reference_price :: float64
  ps_entry_basis :: string
  ps_invalidation_price :: float64
  ps_invalidation_basis :: string
  ps_target_prices :: "float64 list"
  ps_as_of :: datetime
  ps_expiry_at :: datetime
  ps_dedupe_key :: string
  ps_strategy_version :: string
  ps_risk_model_version :: string
  ps_cost_model_version :: string
  ps_fee_schedule_version :: string
  ps_risk_config_hash :: string
  ps_cost_config_hash :: string

record candidate_state_snapshot =
  cs_candidate_id :: uuid
  cs_state :: string
  cs_expiry_at :: "datetime option"
  cs_as_of :: "datetime option"

record market_state_snapshot =
  mk_mark_price :: "float64 option"
  mk_best_bid :: "float64 option"
  mk_best_ask :: "float64 option"
  mk_bbo_fresh :: bool
  mk_book_fresh :: bool
  mk_book_resyncing :: bool
  mk_last_closed_5m_close :: "float64 option"
  mk_last_closed_5m_low :: "float64 option"
  mk_last_closed_5m_high :: "float64 option"
  mk_last_closed_5m_close_time :: "datetime option"
  mk_data_quality_status :: string
  mk_data_quality_ok :: bool
  mk_snapshot_at :: "datetime option"

record signal_snapshot =
  sg_signal_id :: uuid
  sg_plan_id :: uuid
  sg_candidate_id :: uuid
  sg_state :: signal_state
  sg_state_version :: int
  sg_direction :: string
  sg_candidate_type :: string
  sg_instrument_pk :: int
  sg_instrument_id :: int
  sg_symbol :: string
  sg_asset_class :: string
  sg_entry_low :: float64
  sg_entry_high :: float64
  sg_entry_reference_price :: float64
  sg_invalidation_price :: float64
  sg_target_prices :: "float64 list"
  sg_entry_trigger :: entry_trigger_type
  sg_expires_at :: datetime
  sg_watching_entry_at :: "datetime option"
  sg_entry_confirmed_at :: "datetime option"
  sg_data_degraded_since :: "datetime option"
  sg_dedupe_key :: string
  sg_correlation_id :: string

definition bullish :: "signal_snapshot \<Rightarrow> bool" where
  "bullish sg \<longleftrightarrow> sg_direction sg = ''BULLISH''"

record monitor_context =
  mc_signal :: signal_snapshot
  mc_plan :: "plan_snapshot option"
  mc_candidate :: "candidate_state_snapshot option"
  mc_market :: market_state_snapshot
  mc_session_state :: string
  mc_session_allowed :: bool
  mc_watchlist_active :: bool
  mc_market_quality_score :: "int option"
  mc_bot_paused :: bool
  mc_opposing_structure_events :: "string list"
  mc_superseding_plan_id :: "uuid option"
  mc_as_of :: datetime

section \<open>Findings and results\<close>

datatype expiry_cause = Signal_Expiry_Reached | Entry_Wait_Exceeded | Active_Duration_Exceeded

datatype reason =
    Quality_Recovered
  | Quality_Beyond_Grace string float64
  | Quality_Degraded_Until string datetime
  | Plan_Lost
  | Plan_Superseded
  | Plan_Expired
  | Plan_Data_Invalid
  | Plan_Ineligible_After_Entry string
  | Plan_Ineligible_Before_Entry string
  | Candidate_Lost
  | Candidate_Superseded
  | Candidate_Ended_Before_Entry string
  | Newer_Plan_Replaced
  | Expiry_Technical_Exit expiry_cause
  | Expiry_Window_Ended expiry_cause
  | Expires_In float64
  | Session_Blocked string string session_end_policy bool
  | Level_Breached_After_Targets string float64 float64
  | Level_Breached string float64 float64
  | Opposing_Structure_Change
  | Close_Back_Beyond_Anchor float64 float64
  | Reference_Target_Reached nat float64 string
  | Entry_Condition_Confirmed string
  | Entry_Zone_Touched
  | Active_Research_Begins
  | Trailing_Begins

record monitor_finding =
  mf_monitor :: string
  mf_priority_key :: string
  mf_to_state :: "signal_state option"
  mf_event_type :: "signal_event_type option"
  mf_reason :: reason
  mf_updates :: "(signal_update_type \<times> string) list"
  mf_approximation_flags :: "string list"

record transition_step =
  ts_from_state :: signal_state
  ts_to_state :: signal_state
  ts_event_type :: signal_event_type
  ts_reason :: reason
  ts_priority :: int

datatype observation = Observed string reason | Outranked string reason string

datatype suppression = Invalid_Transition string signal_state signal_state reason

record engine_result =
  er_signal_id :: uuid
  er_transitions :: "transition_step list"
  er_updates :: "(signal_update_type \<times> string) list"
  er_observed :: "observation list"
  er_suppressed_findings :: "suppression list"
  er_warnings :: "string list"

definition final_state :: "engine_result \<Rightarrow> signal_state option" where
  "final_state r = (if er_transitions r = [] then None
                    else Some (ts_to_state (last (er_transitions r))))"

record admission_decision =
  ad_admitted :: bool
  ad_code :: "signal_rejection_code option"
  ad_detail :: string
  ad_trigger :: "entry_trigger_type option"
  ad_approximation_flags :: "string list"

end
