(* ===== verification/Signal_Triggers.thy ===== *)
theory Signal_Triggers
  imports Signal_Types
begin

text \<open>
  Entry triggers (\<open>app/signals/entry_trigger.py\<close>): the tolerance-widened reference zone, which
  executable price touches it, and the close confirmations on the last closed 5m candle.
\<close>

definition candle_approximation_flag :: string where
  "candle_approximation_flag = ''CANDLE_APPROXIMATED_INTRABAR_ORDER''"

definition trigger_by_candidate_type :: "(string \<times> entry_trigger_type) list" where
  "trigger_by_candidate_type =
     [(''BULLISH_SWEEP_REVERSAL'', RECLAIM_LEVEL_CLOSE_CONFIRM),
      (''BEARISH_SWEEP_REVERSAL'', RECLAIM_LEVEL_CLOSE_CONFIRM),
      (''BULLISH_RECLAIM_CONTINUATION'', RETEST_CONFIRM),
      (''BEARISH_REJECTION_CONTINUATION'', RETEST_CONFIRM),
      (''RANGE_BREAKOUT_UP'', BREAKOUT_CLOSE_CONFIRM),
      (''RANGE_BREAKOUT_DOWN'', BREAKOUT_CLOSE_CONFIRM)]"

definition default_trigger_for :: "string \<Rightarrow> signal_settings \<Rightarrow> entry_trigger_type" where
  "default_trigger_for candidate_type st =
     (if \<not> entry_close_confirmation_required st then ZONE_TOUCH
      else case map_of trigger_by_candidate_type candidate_type of
             Some t \<Rightarrow> t | None \<Rightarrow> entry_trigger_default st)"

record trigger_evaluation =
  te_triggered :: bool
  te_touched :: bool
  te_reference_price :: "float64 option"
  te_source :: string
  te_confidence :: float64
  te_detail :: string
  te_approximation_flags :: "string list"

definition zone_bounds :: "signal_snapshot \<Rightarrow> float64 \<Rightarrow> float64 \<times> float64" where
  "zone_bounds sg tolerance_bps =
     (let tolerance = fdiv (fmul (sg_entry_reference_price sg) tolerance_bps) 10000
      in (fsub (sg_entry_low sg) tolerance, fadd (sg_entry_high sg) tolerance))"

definition executable_price :: "signal_snapshot \<Rightarrow> market_state_snapshot \<Rightarrow> float64 option" where
  "executable_price sg mk = (if bullish sg then mk_best_ask mk else mk_best_bid mk)"

definition zone_touch ::
  "signal_snapshot \<Rightarrow> market_state_snapshot \<Rightarrow> float64 \<Rightarrow> float64 \<Rightarrow> bool \<times> float64 option \<times> string"
where
  "zone_touch sg mk low high =
     (let executable = executable_price sg mk in
      if mk_bbo_fresh mk \<and> (case executable of Some x \<Rightarrow> low \<le> x \<and> x \<le> high | None \<Rightarrow> False)
      then (True, executable, ''BBO'')
      else case mk_mark_price mk of
             Some m \<Rightarrow> if low \<le> m \<and> m \<le> high
                       then (True, (case executable of Some x \<Rightarrow> Some x | None \<Rightarrow> Some m), ''MARK_PRICE'')
                       else (False, None, ''NONE'')
           | None \<Rightarrow> (False, None, ''NONE''))"

definition closed_candle :: "market_state_snapshot \<Rightarrow> (float64 \<times> float64 \<times> float64) option" where
  "closed_candle mk =
     (case (mk_last_closed_5m_close mk, mk_last_closed_5m_low mk, mk_last_closed_5m_high mk,
            mk_last_closed_5m_close_time mk) of
        (Some c, Some l, Some h, Some t) \<Rightarrow> Some (c, l, h) | _ \<Rightarrow> None)"

text \<open>
  The confirmation of each close trigger, for a candle (close, low, high), the widened zone and the
  anchor: the lower entry bound of a bullish signal, the upper one of a bearish signal.
\<close>

fun close_confirms ::
  "entry_trigger_type \<Rightarrow> signal_snapshot \<Rightarrow> float64 \<Rightarrow> float64 \<Rightarrow> float64 \<times> float64 \<times> float64 \<Rightarrow> bool \<times> string"
where
  "close_confirms ZONE_TOUCH_AND_5M_CLOSE_CONFIRM sg low high (close, candle_low, candle_high) =
     (let candle_touched = candle_low \<le> high \<and> low \<le> candle_high;
          confirmed = candle_touched \<and> low \<le> close \<and> close \<le> high
      in (confirmed, if confirmed then ''closed 5m candle touched the zone and closed inside it''
                     else ''no closed 5m candle confirming the zone''))"
| "close_confirms RECLAIM_LEVEL_CLOSE_CONFIRM sg low high (close, candle_low, candle_high) =
     (let confirmed = (if bullish sg then sg_entry_low sg \<le> close \<and> close \<le> high
                       else close \<le> sg_entry_high sg \<and> low \<le> close)
      in (confirmed, if confirmed then ''closed 5m candle reclaimed the technical anchor level''
                     else ''no close-confirmed reclaim of the anchor level''))"
| "close_confirms RETEST_CONFIRM sg low high (close, candle_low, candle_high) =
     (let confirmed = (if bullish sg
                       then candle_low \<le> sg_entry_high sg \<and> sg_entry_low sg \<le> close \<and> close \<le> high
                       else sg_entry_low sg \<le> candle_high \<and> low \<le> close \<and> close \<le> sg_entry_high sg)
      in (confirmed, if confirmed
                     then ''closed 5m candle retested the zone and closed back on the valid side''
                     else ''no close-confirmed retest of the zone''))"
| "close_confirms BREAKOUT_CLOSE_CONFIRM sg low high (close, candle_low, candle_high) =
     (let confirmed = (if bullish sg then sg_entry_low sg \<le> close else close \<le> sg_entry_high sg)
                      \<and> low \<le> close \<and> close \<le> high
      in (confirmed, if confirmed then ''closed 5m candle confirmed the breakout level''
                     else ''no close-confirmed breakout of the level''))"
| "close_confirms ZONE_TOUCH sg low high candle = (False, ''unsupported trigger ZONE_TOUCH'')"

definition evaluate_entry_trigger ::
  "signal_snapshot \<Rightarrow> market_state_snapshot \<Rightarrow> entry_trigger_type \<Rightarrow> signal_settings \<Rightarrow> trigger_evaluation"
where
  "evaluate_entry_trigger sg mk trigger st =
     (let (low, high) = zone_bounds sg (entry_zone_tolerance_bps st);
          (touched, executable, source) = zone_touch sg mk low high in
      if trigger = ZONE_TOUCH then
        if touched \<and> source = ''BBO''
        then \<lparr>te_triggered = True, te_touched = True, te_reference_price = executable,
              te_source = source, te_confidence = fl (7 / 10),
              te_detail = ''fresh BBO inside the technical reference entry zone'',
              te_approximation_flags = []\<rparr>
        else \<lparr>te_triggered = False, te_touched = touched, te_reference_price = executable,
              te_source = source, te_confidence = 0,
              te_detail = ''zone not touched by fresh BBO'', te_approximation_flags = []\<rparr>
      else case closed_candle mk of
        None \<Rightarrow>
          \<lparr>te_triggered = False, te_touched = touched, te_reference_price = executable,
           te_source = source, te_confidence = 0,
           te_detail = ''no fresh closed 5m candle for close confirmation'',
           te_approximation_flags = []\<rparr>
      | Some (close, candle_low, candle_high) \<Rightarrow>
          let (confirmed, detail) = close_confirms trigger sg low high (close, candle_low, candle_high)
          in \<lparr>te_triggered = confirmed, te_touched = touched \<or> confirmed,
              te_reference_price = (case executable of Some x \<Rightarrow> Some x | None \<Rightarrow> Some close),
              te_source = (if confirmed then ''5M_CLOSE'' else source),
              te_confidence = (if confirmed then fl (8 / 10) else 0),
              te_detail = detail,
              te_approximation_flags = (if confirmed then [candle_approximation_flag] else [])\<rparr>)"

section \<open>The zone\<close>

text \<open>A signal whose zone is well formed: ordered float bounds and a non-negative reference.\<close>

definition zone_ok :: "signal_snapshot \<Rightarrow> bool" where
  "zone_ok sg \<longleftrightarrow> is_float (sg_entry_low sg) \<and> is_float (sg_entry_high sg) \<and>
     sg_entry_low sg \<le> sg_entry_high sg \<and> 0 \<le> sg_entry_reference_price sg"

lemma zone_tolerance_nonneg:
  "0 \<le> p \<Longrightarrow> 0 \<le> bps \<Longrightarrow> 0 \<le> fdiv (fmul p bps) 10000"
  by (simp add: fdiv_def fmul_def binary64.nonneg)

lemma zone_bounds_widen:
  assumes "zone_ok sg" "0 \<le> bps" "zone_bounds sg bps = (low, high)"
  shows "low \<le> sg_entry_low sg \<and> sg_entry_high sg \<le> high"
  using assms binary64.sub_le binary64.add_ge zone_tolerance_nonneg
  by (auto simp: zone_bounds_def zone_ok_def is_float_def fsub_def fadd_def Let_def)

lemma close_confirms_in_zone:
  assumes "fst (close_confirms trigger sg low high (close, l, h))"
    and "low \<le> sg_entry_low sg" "sg_entry_low sg \<le> sg_entry_high sg" "sg_entry_high sg \<le> high"
  shows "low \<le> close \<and> close \<le> high"
  using assms by (cases trigger) (auto simp: Let_def split: if_splits)

lemma zone_touch_bbo:
  "zone_touch sg mk low high = (True, x, ''BBO'') \<Longrightarrow>
     mk_bbo_fresh mk \<and> x = executable_price sg mk \<and> (\<exists>p. x = Some p \<and> low \<le> p \<and> p \<le> high)"
  by (auto simp: zone_touch_def Let_def split: if_splits option.splits)

section \<open>Properties\<close>

text \<open>
  A triggered entry rests on a price inside the widened zone: a zone touch on the fresh BBO side the
  signal would have to cross, every other trigger on the close of a closed 5m candle, and then the
  evaluation carries the candle-approximation flag.  Both prices lie within the zone after rounding.
\<close>

theorem triggered_entry_in_zone:
  assumes ok: "zone_ok sg" "0 \<le> entry_zone_tolerance_bps st"
    and trig: "te_triggered (evaluate_entry_trigger sg mk trigger st)"
    and zone: "zone_bounds sg (entry_zone_tolerance_bps st) = (low, high)"
  shows "if trigger = ZONE_TOUCH
         then mk_bbo_fresh mk \<and> (\<exists>p. executable_price sg mk = Some p \<and> low \<le> p \<and> p \<le> high \<and>
                te_reference_price (evaluate_entry_trigger sg mk trigger st) = Some p)
         else (\<exists>close l h. closed_candle mk = Some (close, l, h) \<and> low \<le> close \<and> close \<le> high) \<and>
              te_approximation_flags (evaluate_entry_trigger sg mk trigger st)
                = [candle_approximation_flag]"
proof (cases "trigger = ZONE_TOUCH")
  case True
  obtain touched x source where t: "zone_touch sg mk low high = (touched, x, source)"
    by (metis prod_cases3)
  with True trig zone have "touched" "source = ''BBO''"
    by (auto simp: evaluate_entry_trigger_def split: if_splits)
  with t True zone show ?thesis
    using zone_touch_bbo [of sg mk low high x] by (auto simp: evaluate_entry_trigger_def)
next
  case False
  with trig zone obtain close l h where c: "closed_candle mk = Some (close, l, h)"
    and conf: "fst (close_confirms trigger sg low high (close, l, h))"
    by (auto simp: evaluate_entry_trigger_def Let_def split: prod.splits option.splits)
  have "low \<le> close \<and> close \<le> high"
    using close_confirms_in_zone [OF conf] zone_bounds_widen [OF ok zone] ok by (auto simp: zone_ok_def)
  with False c conf zone show ?thesis
    by (auto simp: evaluate_entry_trigger_def Let_def split: prod.splits)
qed

definition example_signal :: signal_snapshot where
  "example_signal = \<lparr>sg_signal_id = 7, sg_plan_id = 1, sg_candidate_id = 2,
     sg_state = WATCHING_ENTRY, sg_state_version = 2, sg_direction = ''BULLISH'',
     sg_candidate_type = ''BULLISH_SWEEP_REVERSAL'', sg_instrument_pk = 1, sg_instrument_id = 11,
     sg_symbol = ''BTC-PERP'', sg_asset_class = ''CRYPTO'', sg_entry_low = 100, sg_entry_high = 102,
     sg_entry_reference_price = 101, sg_invalidation_price = 98, sg_target_prices = [106, 110],
     sg_entry_trigger = RECLAIM_LEVEL_CLOSE_CONFIRM, sg_expires_at = 3600000000,
     sg_watching_entry_at = Some 0, sg_entry_confirmed_at = None, sg_data_degraded_since = None,
     sg_dedupe_key = ''k'', sg_correlation_id = ''c''\<rparr>"

definition example_market :: market_state_snapshot where
  "example_market = \<lparr>mk_mark_price = Some 101, mk_best_bid = Some (1009/10),
     mk_best_ask = Some (1011/10), mk_bbo_fresh = True, mk_book_fresh = True,
     mk_book_resyncing = False, mk_last_closed_5m_close = Some 101,
     mk_last_closed_5m_low = Some 99, mk_last_closed_5m_high = Some 102,
     mk_last_closed_5m_close_time = Some 0, mk_data_quality_status = ''HEALTHY'',
     mk_data_quality_ok = True, mk_snapshot_at = Some 0\<rparr>"

lemma example_zone_ok: "zone_ok example_signal"
  using fl_of_int [of 100] fl_of_int [of 102] by (simp add: zone_ok_def example_signal_def is_float_def)

theorem triggered_entry_in_zone_witness:
  "\<exists>close l h. closed_candle example_market = Some (close, l, h) \<and>
     fst (zone_bounds example_signal 5) \<le> close \<and> close \<le> snd (zone_bounds example_signal 5)"
proof -
  have "te_triggered (evaluate_entry_trigger example_signal example_market
          RECLAIM_LEVEL_CLOSE_CONFIRM default_signal_settings)"
    by code_simp
  moreover have "0 \<le> entry_zone_tolerance_bps default_signal_settings"
    by (simp add: default_signal_settings_def)
  moreover have "entry_zone_tolerance_bps default_signal_settings = 5"
    by (simp add: default_signal_settings_def)
  ultimately show ?thesis
    using triggered_entry_in_zone [OF example_zone_ok, of default_signal_settings example_market
        RECLAIM_LEVEL_CLOSE_CONFIRM "fst (zone_bounds example_signal 5)" "snd (zone_bounds example_signal 5)"]
    by auto
qed

text \<open>
  The reference price of a touch need not lie in the zone: when the mark price touches it while the
  BBO is not fresh, the reported price is the last best ask, however far away and however old.
\<close>

lemma stale_reference_price:
  assumes "bullish sg" "\<not> mk_bbo_fresh mk" "mk_best_ask mk = Some ask"
    and "mk_mark_price mk = Some m" "low \<le> m" "m \<le> high"
  shows "zone_touch sg mk low high = (True, Some ask, ''MARK_PRICE'')"
  using assms by (simp add: zone_touch_def executable_price_def)

end
