(* ===== verification/Transition_Graphs.thy ===== *)
theory Transition_Graphs
  imports Prelude
begin

text \<open>
  Transition maps as graphs: a map from a state to the set of its successors, the walks along it,
  and what follows for a map whose terminal states are exactly the dead ends (\<open>state_graph\<close>) and for
  one in which every edge climbs a rank (\<open>ranked_graph\<close>).
\<close>

fun walk :: "('s \<Rightarrow> 's set) \<Rightarrow> 's \<Rightarrow> 's list \<Rightarrow> bool" where
  "walk e s [] = True"
| "walk e s (t # ts) = (t \<in> e s \<and> walk e t ts)"

lemma walk_append: "walk e s (ts @ us) \<longleftrightarrow> walk e s ts \<and> walk e (last (s # ts)) us"
  by (induction ts arbitrary: s) auto

text \<open>
  A set of states that can only be entered through one gate state: every walk that starts outside
  and visits the set has passed the gate.
\<close>

lemma walk_through_gate:
  assumes gate: "\<And>s t. s \<notin> A \<Longrightarrow> t \<in> e s \<Longrightarrow> t \<in> A \<Longrightarrow> t = g"
    and "walk e s ts" "s \<notin> A" "a \<in> set ts" "a \<in> A"
  shows "g \<in> set ts"
  using assms(2-)
proof (induction ts arbitrary: s)
  case (Cons t ts)
  then show ?case
  proof (cases "t \<in> A")
    case True
    then show ?thesis using Cons.prems gate by auto
  next
    case False
    then show ?thesis using Cons by auto
  qed
qed simp

text \<open>A set of states that no edge leaves is never left.\<close>

lemma walk_closed:
  assumes closed: "\<And>s t. s \<in> A \<Longrightarrow> t \<in> e s \<Longrightarrow> t \<in> A"
    and "walk e s ts" "s \<in> A"
  shows "set ts \<subseteq> A"
  using assms(2-) by (induction ts arbitrary: s) (auto dest: closed)

locale state_graph =
  fixes edges :: "'s \<Rightarrow> 's set"
    and terminal :: "'s \<Rightarrow> bool"
  assumes terminal_iff: "terminal s \<longleftrightarrow> edges s = {}"
begin

lemma terminal_stuck: "terminal s \<Longrightarrow> walk edges s ts \<Longrightarrow> ts = []"
  by (cases ts) (auto simp: terminal_iff)

lemma not_terminal_moves: "\<not> terminal s \<Longrightarrow> \<exists>t. t \<in> edges s"
  by (auto simp: terminal_iff)

text \<open>On a walk only the last state can be terminal.\<close>

lemma terminal_last:
  assumes "walk edges s (ts @ t # us)" "terminal t"
  shows "us = []"
  using assms terminal_stuck [of t us] by (auto simp: walk_append)

end

locale ranked_graph = state_graph +
  fixes rank :: "'s \<Rightarrow> nat"
  assumes rank_less: "t \<in> edges s \<Longrightarrow> rank s < rank t"
begin

lemma walk_rank: "walk edges s ts \<Longrightarrow> rank s + length ts \<le> rank (last (s # ts))"
proof (induction ts arbitrary: s)
  case (Cons t ts)
  then have "rank t + length ts \<le> rank (last (t # ts))" by simp
  then show ?case using rank_less [of t s] Cons.prems by auto
qed simp

lemma walk_rank_mem: "walk edges s ts \<Longrightarrow> t \<in> set ts \<Longrightarrow> rank s < rank t"
proof (induction ts arbitrary: s)
  case (Cons u us)
  then show ?case using rank_less [of u s] by (auto intro: less_trans)
qed simp

lemma walk_distinct: "walk edges s ts \<Longrightarrow> distinct (s # ts)"
proof (induction ts arbitrary: s)
  case (Cons t ts)
  then show ?case using walk_rank_mem [OF Cons.prems, of s] Cons.IH [of t] by auto
qed simp

text \<open>From every state a maximal walk exists and ends in a terminal state.\<close>

lemma walk_to_terminal:
  assumes bound: "\<And>s. rank s \<le> b"
  shows "\<exists>ts. walk edges s ts \<and> terminal (last (s # ts))"
proof (induction "b - rank s" arbitrary: s rule: less_induct)
  case less
  show ?case
  proof (cases "terminal s")
    case True
    then show ?thesis by (intro exI [of _ "[]"]) simp
  next
    case False
    then obtain t where t: "t \<in> edges s" using not_terminal_moves by blast
    then have "b - rank t < b - rank s" using rank_less [OF t] bound [of t] by linarith
    then obtain ts where "walk edges t ts" "terminal (last (t # ts))" using less by blast
    with t show ?thesis by (intro exI [of _ "t # ts"]) simp
  qed
qed

end

end
