(* ===== verification/Signal_Machine.thy ===== *)
theory Signal_Machine
  imports Signal_Types Transition_Graphs
begin

text \<open>
  The signal state machine of \<open>app/signals/state_machine.py\<close>: the closed transition map, the
  terminal and post-entry states, the event of each state, and the persisted names of the states.
\<close>

section \<open>The transition map\<close>

definition terminal_states :: "signal_state set" where
  "terminal_states = {TECHNICAL_EXIT, INVALIDATED, EXPIRED, SUPERSEDED, REJECTED, DATA_INVALID}"

definition post_entry_states :: "signal_state set" where
  "post_entry_states =
     {ENTRY_CONFIRMED, ACTIVE_RESEARCH, TARGET_1_REACHED, TARGET_2_REACHED, TRAILING_RESEARCH}"

fun transitions :: "signal_state \<Rightarrow> signal_state set" where
  "transitions DRAFT = {PENDING_ADMISSION, REJECTED}"
| "transitions PENDING_ADMISSION = {WATCHING_ENTRY, REJECTED, EXPIRED, PAUSED, DATA_INVALID}"
| "transitions WATCHING_ENTRY =
     {ENTRY_CONFIRMED, INVALIDATED, EXPIRED, SUPERSEDED, PAUSED, DATA_INVALID, REJECTED}"
| "transitions ENTRY_CONFIRMED =
     {ACTIVE_RESEARCH, INVALIDATED, EXPIRED, SUPERSEDED, PAUSED, DATA_INVALID}"
| "transitions ACTIVE_RESEARCH =
     {TARGET_1_REACHED, TARGET_2_REACHED, TRAILING_RESEARCH, TECHNICAL_EXIT, INVALIDATED, EXPIRED,
      SUPERSEDED, PAUSED, DATA_INVALID}"
| "transitions TARGET_1_REACHED =
     {TARGET_2_REACHED, TRAILING_RESEARCH, TECHNICAL_EXIT, INVALIDATED, EXPIRED, SUPERSEDED,
      PAUSED, DATA_INVALID}"
| "transitions TARGET_2_REACHED =
     {TRAILING_RESEARCH, TECHNICAL_EXIT, EXPIRED, SUPERSEDED, PAUSED, DATA_INVALID}"
| "transitions TRAILING_RESEARCH = {TECHNICAL_EXIT, EXPIRED, SUPERSEDED, PAUSED, DATA_INVALID}"
| "transitions PAUSED = {EXPIRED, SUPERSEDED, DATA_INVALID}"
| "transitions TECHNICAL_EXIT = {}"
| "transitions INVALIDATED = {}"
| "transitions EXPIRED = {}"
| "transitions SUPERSEDED = {}"
| "transitions REJECTED = {}"
| "transitions DATA_INVALID = {}"

fun event_for_state :: "signal_state \<Rightarrow> signal_event_type option" where
  "event_for_state DRAFT = None"
| "event_for_state PENDING_ADMISSION = Some EV_ADMITTED"
| "event_for_state WATCHING_ENTRY = Some EV_WATCHING_ENTRY"
| "event_for_state ENTRY_CONFIRMED = Some EV_ENTRY_CONFIRMED"
| "event_for_state ACTIVE_RESEARCH = Some EV_ACTIVE_RESEARCH"
| "event_for_state TARGET_1_REACHED = Some EV_TARGET_1_REACHED"
| "event_for_state TARGET_2_REACHED = Some EV_TARGET_2_REACHED"
| "event_for_state TRAILING_RESEARCH = Some EV_TRAILING_RESEARCH"
| "event_for_state TECHNICAL_EXIT = Some EV_TECHNICAL_EXIT"
| "event_for_state INVALIDATED = Some EV_INVALIDATED"
| "event_for_state EXPIRED = Some EV_EXPIRED"
| "event_for_state SUPERSEDED = Some EV_SUPERSEDED"
| "event_for_state PAUSED = Some EV_PAUSED"
| "event_for_state REJECTED = Some EV_REJECTED"
| "event_for_state DATA_INVALID = Some EV_DATA_INVALID"

definition is_terminal :: "signal_state \<Rightarrow> bool" where
  "is_terminal s \<longleftrightarrow> s \<in> terminal_states"

definition is_post_entry :: "signal_state \<Rightarrow> bool" where
  "is_post_entry s \<longleftrightarrow> s \<in> post_entry_states"

definition can_transition :: "signal_state \<Rightarrow> signal_state \<Rightarrow> bool" where
  "can_transition s t \<longleftrightarrow> t \<in> transitions s"

datatype transition_error = InvalidTransitionError signal_state signal_state

definition validate_transition :: "signal_state \<Rightarrow> signal_state \<Rightarrow> transition_error + unit" where
  "validate_transition s t =
     (if can_transition s t then Inr () else Inl (InvalidTransitionError s t))"

section \<open>Persisted names\<close>

fun state_value :: "signal_state \<Rightarrow> string" where
  "state_value DRAFT = ''DRAFT''"
| "state_value PENDING_ADMISSION = ''PENDING_ADMISSION''"
| "state_value WATCHING_ENTRY = ''WATCHING_ENTRY''"
| "state_value ENTRY_CONFIRMED = ''ENTRY_CONFIRMED''"
| "state_value ACTIVE_RESEARCH = ''ACTIVE_RESEARCH''"
| "state_value TARGET_1_REACHED = ''TARGET_1_REACHED''"
| "state_value TARGET_2_REACHED = ''TARGET_2_REACHED''"
| "state_value TRAILING_RESEARCH = ''TRAILING_RESEARCH''"
| "state_value TECHNICAL_EXIT = ''TECHNICAL_EXIT''"
| "state_value INVALIDATED = ''INVALIDATED''"
| "state_value EXPIRED = ''EXPIRED''"
| "state_value SUPERSEDED = ''SUPERSEDED''"
| "state_value PAUSED = ''PAUSED''"
| "state_value REJECTED = ''REJECTED''"
| "state_value DATA_INVALID = ''DATA_INVALID''"

lemma state_value_inj [simp]: "state_value s = state_value t \<longleftrightarrow> s = t"
  by (cases s; cases t) simp_all

section \<open>Steps of one signal\<close>

inductive signal_step :: "signal_state \<Rightarrow> signal_state \<Rightarrow> bool" where
  step: "t \<in> transitions s \<Longrightarrow> signal_step s t"

code_pred signal_step .

inductive_simps signal_step_iff: "signal_step s t"
inductive_cases step_from_paused: "signal_step PAUSED t"

lemma signal_step_can: "signal_step s t \<longleftrightarrow> can_transition s t"
  by (simp add: signal_step_iff can_transition_def)

lemma paused_only_closes: "signal_step PAUSED t \<Longrightarrow> is_terminal t"
  by (elim step_from_paused) (auto simp: is_terminal_def terminal_states_def)

text \<open>How far along its life a state is: every transition climbs.\<close>

fun stage :: "signal_state \<Rightarrow> nat" where
  "stage DRAFT = 0"
| "stage PENDING_ADMISSION = 1"
| "stage WATCHING_ENTRY = 2"
| "stage ENTRY_CONFIRMED = 3"
| "stage ACTIVE_RESEARCH = 4"
| "stage TARGET_1_REACHED = 5"
| "stage TARGET_2_REACHED = 6"
| "stage TRAILING_RESEARCH = 7"
| "stage PAUSED = 8"
| "stage _ = 9"

lemma terminal_iff_no_transitions: "is_terminal s \<longleftrightarrow> transitions s = {}"
  by (cases s) (auto simp: is_terminal_def terminal_states_def)

lemma stage_less: "t \<in> transitions s \<Longrightarrow> stage s < stage t"
  by (cases s) auto

lemma stage_bound: "stage s \<le> 9"
  by (cases s) auto

interpretation lifecycle: ranked_graph transitions is_terminal stage
  by unfold_locales (use terminal_iff_no_transitions stage_less in auto)

lemma transitions_irrefl [simp]: "s \<notin> transitions s"
  using stage_less by blast

lemma event_for_successor: "t \<in> transitions s \<Longrightarrow> \<exists>e. event_for_state t = Some e"
  by (cases s; cases t) auto

lemma post_entry_gate:
  "s \<notin> post_entry_states \<Longrightarrow> t \<in> transitions s \<Longrightarrow> t \<in> post_entry_states \<Longrightarrow> t = ENTRY_CONFIRMED"
  by (cases s) (auto simp: post_entry_states_def)

lemmas walk_needs_entry =
  walk_through_gate [of post_entry_states transitions ENTRY_CONFIRMED, OF post_entry_gate]

section \<open>Properties\<close>

text \<open>
  C9.  A signal's life is finite: along the transition map no state is ever visited twice, a signal
  makes at most nine transitions, nothing follows a terminal state, and from every state a terminal
  state can be reached.
\<close>

theorem lifecycle_bounded:
  "(walk transitions s ts \<longrightarrow>
      distinct (s # ts) \<and> length ts \<le> 9 \<and> (\<forall>t us vs. ts = us @ t # vs \<and> is_terminal t \<longrightarrow> vs = []))
   \<and> (\<exists>ts. walk transitions s ts \<and> is_terminal (last (s # ts)))"
proof (intro conjI impI allI; (elim conjE)?)
  assume w: "walk transitions s ts"
  show "distinct (s # ts)" using lifecycle.walk_distinct [OF w] .
  show "length ts \<le> 9" using lifecycle.walk_rank [OF w] stage_bound [of "last (s # ts)"] by linarith
  show "vs = []" if "ts = us @ t # vs" "is_terminal t" for t us vs
    using lifecycle.terminal_last w that by blast
next
  show "\<exists>ts. walk transitions s ts \<and> is_terminal (last (s # ts))"
    by (rule lifecycle.walk_to_terminal) (rule stage_bound)
qed

theorem lifecycle_bounded_witness:
  "distinct [DRAFT, PENDING_ADMISSION, WATCHING_ENTRY, ENTRY_CONFIRMED, INVALIDATED] \<and>
   length [PENDING_ADMISSION, WATCHING_ENTRY, ENTRY_CONFIRMED, INVALIDATED] \<le> (9::nat)"
  using lifecycle_bounded [of DRAFT "[PENDING_ADMISSION, WATCHING_ENTRY, ENTRY_CONFIRMED, INVALIDATED]"]
  by simp

text \<open>
  No post-entry state without a confirmed entry, and no invalidation after the second target: on
  every walk from \<open>DRAFT\<close> that visits a post-entry state, \<open>ENTRY_CONFIRMED\<close> is visited, and once
  \<open>TARGET_2_REACHED\<close>, \<open>TRAILING_RESEARCH\<close> or \<open>PAUSED\<close> is reached the signal can no longer become
  \<open>INVALIDATED\<close> or \<open>REJECTED\<close>.
\<close>

theorem post_entry_needs_confirmation:
  assumes "walk transitions DRAFT ts"
  shows "((\<exists>s \<in> set ts. is_post_entry s) \<longrightarrow> ENTRY_CONFIRMED \<in> set ts) \<and>
    (\<forall>us s vs. ts = us @ s # vs \<and> s \<in> {TARGET_2_REACHED, TRAILING_RESEARCH, PAUSED} \<longrightarrow>
       INVALIDATED \<notin> set vs \<and> REJECTED \<notin> set vs)"
proof (intro conjI impI allI)
  assume "\<exists>s \<in> set ts. is_post_entry s"
  then obtain s where "s \<in> set ts" "s \<in> post_entry_states" by (auto simp: is_post_entry_def)
  then show "ENTRY_CONFIRMED \<in> set ts"
    using walk_needs_entry [OF _ _ _ assms] by (simp add: post_entry_states_def)
next
  fix us s vs
  let ?A = "{TARGET_2_REACHED, TRAILING_RESEARCH, PAUSED, TECHNICAL_EXIT, EXPIRED, SUPERSEDED,
             DATA_INVALID}"
  assume a: "ts = us @ s # vs \<and> s \<in> {TARGET_2_REACHED, TRAILING_RESEARCH, PAUSED}"
  then have "walk transitions s vs" using assms by (simp add: walk_append)
  then have "set vs \<subseteq> ?A" using a by (intro walk_closed [of ?A]) auto
  then show "INVALIDATED \<notin> set vs" "REJECTED \<notin> set vs" by auto
qed

theorem post_entry_needs_confirmation_witness:
  "ENTRY_CONFIRMED \<in> set [PENDING_ADMISSION, WATCHING_ENTRY, ENTRY_CONFIRMED, ACTIVE_RESEARCH]"
  using post_entry_needs_confirmation
    [of "[PENDING_ADMISSION, WATCHING_ENTRY, ENTRY_CONFIRMED, ACTIVE_RESEARCH]"]
  by simp

end
