(* ===== verification/Signal_Monitors.thy ===== *)
theory Signal_Monitors
  imports Signal_Triggers Signal_Machine
begin

text \<open>
  The nine lifecycle monitors of \<open>app/signals\<close>, each a function from one immutable context to at most
  one finding, and the contract (\<open>lifecycle_monitor\<close>) the engine relies on: a finding that proposes a
  state carries the event of that state and a priority key the configuration knows.
\<close>

section \<open>Data quality\<close>

definition observation_finding ::
  "string \<Rightarrow> reason \<Rightarrow> (signal_update_type \<times> string) list \<Rightarrow> monitor_finding" where
  "observation_finding m r us = \<lparr>mf_monitor = m, mf_priority_key = ''INFO'', mf_to_state = None,
     mf_event_type = None, mf_reason = r, mf_updates = us, mf_approximation_flags = []\<rparr>"

definition transition_finding ::
  "string \<Rightarrow> string \<Rightarrow> signal_state \<Rightarrow> signal_event_type \<Rightarrow> reason \<Rightarrow> (signal_update_type \<times> string) list
   \<Rightarrow> monitor_finding" where
  "transition_finding m key t ev r us = \<lparr>mf_monitor = m, mf_priority_key = key, mf_to_state = Some t,
     mf_event_type = Some ev, mf_reason = r, mf_updates = us, mf_approximation_flags = []\<rparr>"

definition market_healthy :: "market_state_snapshot \<Rightarrow> bool" where
  "market_healthy mk \<longleftrightarrow> mk_data_quality_ok mk \<and> \<not> mk_book_resyncing mk"

definition check_data_quality ::
  "monitor_context \<Rightarrow> signal_settings \<Rightarrow> monitor_finding option" where
  "check_data_quality c st =
     (let sg = mc_signal c; mk = mc_market c; now = mc_as_of c; status = mk_data_quality_status mk in
      if market_healthy mk then
        (case sg_data_degraded_since sg of
           Some _ \<Rightarrow> Some (observation_finding ''data_quality'' Quality_Recovered
                       [(UP_DATA_QUALITY_DEGRADED, ''data quality recovered'')])
         | None \<Rightarrow> None)
      else
        let since = (case sg_data_degraded_since sg of Some d \<Rightarrow> d | None \<Rightarrow> now);
            elapsed = total_seconds (now - since);
            grace = lifecycle_data_degraded_grace_seconds st in
        if grace < elapsed then
          Some (transition_finding ''data_quality'' ''DATA_INVALID'' DATA_INVALID EV_DATA_INVALID
                  (Quality_Beyond_Grace status grace)
                  [(UP_DATA_QUALITY_DEGRADED, ''data quality '' @ status @ '' beyond grace'')])
        else
          Some (observation_finding ''data_quality''
                  (Quality_Degraded_Until status (since + timedelta_seconds grace))
                  [(UP_DATA_QUALITY_DEGRADED, ''data quality '' @ status @ '' (grace running)'')]))"

section \<open>Plan, candidate and supersede\<close>

definition check_plan :: "monitor_context \<Rightarrow> signal_settings \<Rightarrow> monitor_finding option" where
  "check_plan c st =
     (let post_entry = is_post_entry (sg_state (mc_signal c)) in
      case mc_plan c of
        None \<Rightarrow> Some (transition_finding ''plan'' ''DATA_INVALID'' DATA_INVALID EV_DATA_INVALID
                        Plan_Lost [(UP_PLAN_CHANGED, ''plan context lost'')])
      | Some plan \<Rightarrow>
          let status = ps_status plan in
          if status = ''SUPERSEDED'' then
            Some (transition_finding ''plan'' ''SUPERSEDED'' SUPERSEDED EV_SUPERSEDED
                    Plan_Superseded [(UP_PLAN_CHANGED, ''plan superseded'')])
          else if status = ''EXPIRED'' then
            Some (transition_finding ''plan'' ''EXPIRED'' EXPIRED EV_EXPIRED
                    Plan_Expired [(UP_PLAN_CHANGED, ''plan expired'')])
          else if status = ''DATA_INVALID'' then
            Some (transition_finding ''plan'' ''DATA_INVALID'' DATA_INVALID EV_DATA_INVALID
                    Plan_Data_Invalid [(UP_PLAN_CHANGED, ''plan data-invalid'')])
          else if status \<noteq> ''ELIGIBLE'' then
            if post_entry then
              Some (transition_finding ''plan'' ''DATA_INVALID'' DATA_INVALID EV_DATA_INVALID
                      (Plan_Ineligible_After_Entry status) [(UP_PLAN_CHANGED, ''plan '' @ status)])
            else
              Some (transition_finding ''plan'' ''EXPIRED'' REJECTED EV_REJECTED
                      (Plan_Ineligible_Before_Entry status) [(UP_PLAN_CHANGED, ''plan '' @ status)])
          else
            case mc_candidate c of
              None \<Rightarrow> Some (transition_finding ''plan'' ''DATA_INVALID'' DATA_INVALID EV_DATA_INVALID
                              Candidate_Lost [(UP_CANDIDATE_CHANGED, ''candidate context lost'')])
            | Some candidate \<Rightarrow>
                if cs_state candidate = ''SUPERSEDED'' then
                  Some (transition_finding ''plan'' ''SUPERSEDED'' SUPERSEDED EV_SUPERSEDED
                          Candidate_Superseded [(UP_CANDIDATE_CHANGED, ''candidate superseded'')])
                else if cs_state candidate \<in> {''EXPIRED'', ''REJECTED''} \<and> \<not> post_entry then
                  Some (transition_finding ''plan'' ''EXPIRED'' EXPIRED EV_EXPIRED
                          (Candidate_Ended_Before_Entry (cs_state candidate))
                          [(UP_CANDIDATE_CHANGED, ''candidate '' @ cs_state candidate)])
                else None)"

definition check_supersede :: "monitor_context \<Rightarrow> signal_settings \<Rightarrow> monitor_finding option" where
  "check_supersede c st =
     (case mc_superseding_plan_id c of
        None \<Rightarrow> None
      | Some p \<Rightarrow>
          if p = sg_plan_id (mc_signal c) then None
          else Some (transition_finding ''supersede'' ''SUPERSEDED'' SUPERSEDED EV_SUPERSEDED
                       Newer_Plan_Replaced
                       [(UP_SUPERSEDE_WARNING, ''research context superseded by a newer plan'')]))"

section \<open>Expiry\<close>

definition expiry_warning_seconds :: float64 where
  "expiry_warning_seconds = 300"

definition expire_finding ::
  "monitor_context \<Rightarrow> bool \<Rightarrow> expiry_cause \<Rightarrow> signal_settings \<Rightarrow> monitor_finding" where
  "expire_finding c post_entry cause st =
     (if post_entry \<and> monitor_post_entry_expiry_policy st = POST_ENTRY_TECHNICAL_EXIT
      then transition_finding ''expiry'' ''TECHNICAL_EXIT'' TECHNICAL_EXIT EV_TECHNICAL_EXIT
             (Expiry_Technical_Exit cause) []
      else transition_finding ''expiry'' ''EXPIRED'' EXPIRED EV_EXPIRED
             (Expiry_Window_Ended cause) [])"

definition exceeds :: "datetime option \<Rightarrow> datetime \<Rightarrow> float64 \<Rightarrow> bool" where
  "exceeds since now limit =
     (case since of Some t \<Rightarrow> timedelta_seconds limit < now - t | None \<Rightarrow> False)"

definition check_expiry :: "monitor_context \<Rightarrow> signal_settings \<Rightarrow> monitor_finding option" where
  "check_expiry c st =
     (let sg = mc_signal c; now = mc_as_of c; post_entry = is_post_entry (sg_state sg);
          remaining = total_seconds (sg_expires_at sg - now) in
      if sg_expires_at sg \<le> now then Some (expire_finding c post_entry Signal_Expiry_Reached st)
      else if sg_state sg = WATCHING_ENTRY \<and>
              exceeds (sg_watching_entry_at sg) now (lifecycle_entry_max_wait_seconds st)
      then Some (expire_finding c False Entry_Wait_Exceeded st)
      else if post_entry \<and>
              exceeds (sg_entry_confirmed_at sg) now (lifecycle_active_max_duration_seconds st)
      then Some (expire_finding c True Active_Duration_Exceeded st)
      else if 0 < remaining \<and> remaining \<le> expiry_warning_seconds
      then Some (observation_finding ''expiry'' (Expires_In remaining)
             [(UP_EXPIRY_WARNING,
               ''research window ends in '' @ str_int (round_half_even remaining) @ ''s'')])
      else None)"

section \<open>Session\<close>

fun state_for_policy :: "session_end_policy \<Rightarrow> signal_state \<times> signal_event_type \<times> string" where
  "state_for_policy SESSION_EXPIRE = (EXPIRED, EV_EXPIRED, ''EXPIRED'')"
| "state_for_policy SESSION_PAUSE = (PAUSED, EV_PAUSED, ''PAUSED'')"
| "state_for_policy SESSION_TECHNICAL_EXIT =
     (TECHNICAL_EXIT, EV_TECHNICAL_EXIT, ''TECHNICAL_EXIT'')"

definition check_session :: "monitor_context \<Rightarrow> signal_settings \<Rightarrow> monitor_finding option" where
  "check_session c st =
     (let sg = mc_signal c; post_entry = is_post_entry (sg_state sg) in
      if mc_session_allowed c then None
      else if sg_state sg = PAUSED then None
      else
        let policy = (if \<not> post_entry \<and> monitor_session_end_policy st = SESSION_TECHNICAL_EXIT
                      then SESSION_EXPIRE else monitor_session_end_policy st);
            (to_state, event, key) = state_for_policy policy
        in Some (transition_finding ''session'' key to_state event
             (Session_Blocked (mc_session_state c) (sg_asset_class sg) policy post_entry)
             [(UP_SESSION_TRANSITION,
               ''session became '' @ mc_session_state c @ '' (blocked)'')]))"

section \<open>Invalidation\<close>

definition invalidatable :: "signal_state set" where
  "invalidatable = {WATCHING_ENTRY, ENTRY_CONFIRMED, ACTIVE_RESEARCH, TARGET_1_REACHED}"

definition exit_mapped :: "signal_state set" where
  "exit_mapped = {TARGET_2_REACHED, TRAILING_RESEARCH}"

text \<open>At or beyond a level, on the adverse side.\<close>

definition beyond :: "signal_snapshot \<Rightarrow> float64 \<Rightarrow> float64 \<Rightarrow> bool" where
  "beyond sg price level = (if bullish sg then price \<le> level else level \<le> price)"

definition exit_side_price :: "signal_snapshot \<Rightarrow> market_state_snapshot \<Rightarrow> float64 option" where
  "exit_side_price sg mk = (if bullish sg then mk_best_bid mk else mk_best_ask mk)"

definition hit :: "string \<Rightarrow> bool \<Rightarrow> (float64 \<Rightarrow> bool) \<Rightarrow> float64 option \<Rightarrow> (string \<times> float64) list" where
  "hit source usable test price =
     (case price of Some p \<Rightarrow> if usable \<and> test p then [(source, p)] else [] | None \<Rightarrow> [])"

definition sources_beyond_level ::
  "monitor_context \<Rightarrow> signal_settings \<Rightarrow> (string \<times> float64) list" where
  "sources_beyond_level c st =
     (let sg = mc_signal c; mk = mc_market c; test = (\<lambda>p. beyond sg p (sg_invalidation_price sg)) in
      hit ''MARK_PRICE'' (monitor_use_mark_price st \<and> mk_data_quality_ok mk) test (mk_mark_price mk)
      @ hit ''BBO'' (monitor_use_bbo st \<and> mk_bbo_fresh mk) test (exit_side_price sg mk)
      @ hit ''5M_CLOSE'' (mk_last_closed_5m_close_time mk \<noteq> None) test (mk_last_closed_5m_close mk))"

definition check_invalidation :: "monitor_context \<Rightarrow> signal_settings \<Rightarrow> monitor_finding option" where
  "check_invalidation c st =
     (let sg = mc_signal c; mk = mc_market c; policy = invalidation_trigger_default st;
          hits = sources_beyond_level c st; sources = set (map fst hits) in
      if sg_state sg \<notin> invalidatable \<and> sg_state sg \<notin> exit_mapped then None
      else if \<not> mk_data_quality_ok mk \<and> \<not> mk_bbo_fresh mk then None
      else case hits of
        [] \<Rightarrow> None
      | (source, price) # _ \<Rightarrow>
          if policy = INV_MARK_PRICE_TOUCH \<and> ''MARK_PRICE'' \<notin> sources then None
          else if policy = INV_BBO_TOUCH \<and> ''BBO'' \<notin> sources then None
          else if policy = INV_FIVE_M_CLOSE_BEYOND_LEVEL \<and> ''5M_CLOSE'' \<notin> sources then None
          else if invalidation_close_confirmation_required st \<and> ''5M_CLOSE'' \<notin> sources then None
          else
            let us = [(UP_INVALIDATION_CONDITION,
                       ''invalidation condition via '' @ source @ '' (research lifecycle)'')] in
            if sg_state sg \<in> exit_mapped
            then Some (transition_finding ''invalidation'' ''TECHNICAL_EXIT'' TECHNICAL_EXIT
                   EV_TECHNICAL_EXIT
                   (Level_Breached_After_Targets source price (sg_invalidation_price sg)) us)
            else Some (transition_finding ''invalidation'' ''INVALIDATED'' INVALIDATED EV_INVALIDATED
                   (Level_Breached source price (sg_invalidation_price sg)) us))"

section \<open>Structure exit\<close>

definition structure_states :: "signal_state set" where
  "structure_states = {ACTIVE_RESEARCH, TARGET_1_REACHED, TARGET_2_REACHED, TRAILING_RESEARCH}"

definition breakout_types :: "string set" where
  "breakout_types = {''RANGE_BREAKOUT_UP'', ''RANGE_BREAKOUT_DOWN''}"

definition check_structure_exit ::
  "monitor_context \<Rightarrow> signal_settings \<Rightarrow> monitor_finding option" where
  "check_structure_exit c st =
     (let sg = mc_signal c; mk = mc_market c in
      if \<not> monitor_structure_exit_enabled st \<or> sg_state sg \<notin> structure_states then None
      else if mc_opposing_structure_events c \<noteq> [] then
        Some (transition_finding ''structure_exit'' ''TECHNICAL_EXIT'' TECHNICAL_EXIT
          EV_TECHNICAL_EXIT Opposing_Structure_Change
          [(UP_TECHNICAL_EXIT_CONDITION,
            ''opposing structure change confirmed (research lifecycle)'')])
      else case mk_last_closed_5m_close mk of
        None \<Rightarrow> None
      | Some close \<Rightarrow>
          if sg_candidate_type sg \<in> breakout_types \<and> mk_last_closed_5m_close_time mk \<noteq> None \<and>
             mk_data_quality_ok mk
          then
            let anchor = (if bullish sg then sg_entry_low sg else sg_entry_high sg);
                back_inside = (if bullish sg then close < anchor else anchor < close);
                still_above_invalidation =
                  (if bullish sg then sg_invalidation_price sg < close
                   else close < sg_invalidation_price sg) in
            if back_inside \<and> still_above_invalidation
            then Some (transition_finding ''structure_exit'' ''TECHNICAL_EXIT'' TECHNICAL_EXIT
                   EV_TECHNICAL_EXIT (Close_Back_Beyond_Anchor close anchor)
                   [(UP_TECHNICAL_EXIT_CONDITION,
                     ''close back inside prior range (research lifecycle)'')])
            else None
          else None)"

section \<open>Targets\<close>

definition targetable :: "signal_state set" where
  "targetable = {ACTIVE_RESEARCH, TARGET_1_REACHED}"

text \<open>At or beyond a target, on the favourable side.\<close>

definition at_target :: "signal_snapshot \<Rightarrow> float64 \<Rightarrow> float64 \<Rightarrow> bool" where
  "at_target sg price target = (if bullish sg then target \<le> price else price \<le> target)"

definition target_reached ::
  "monitor_context \<Rightarrow> float64 \<Rightarrow> signal_settings \<Rightarrow> bool \<times> string \<times> float64 option" where
  "target_reached c target st =
     (let sg = mc_signal c; mk = mc_market c in
      case target_trigger_default st of
        TGT_MARK_PRICE_TOUCH \<Rightarrow>
          (case mk_mark_price mk of
             Some p \<Rightarrow> if mk_data_quality_ok mk then (at_target sg p target, ''MARK_PRICE'', Some p)
                       else (False, ''MARK_PRICE'', None)
           | None \<Rightarrow> (False, ''MARK_PRICE'', None))
      | TGT_BBO_TOUCH \<Rightarrow>
          (case exit_side_price sg mk of
             Some p \<Rightarrow> if mk_bbo_fresh mk then (at_target sg p target, ''BBO'', Some p)
                       else (False, ''BBO'', None)
           | None \<Rightarrow> (False, ''BBO'', None))
      | TGT_FIVE_M_CLOSE_AT_OR_BEYOND_TARGET \<Rightarrow>
          (case mk_last_closed_5m_close mk of
             Some p \<Rightarrow> if mk_last_closed_5m_close_time mk \<noteq> None
                       then (at_target sg p target, ''5M_CLOSE'', Some p)
                       else (False, ''5M_CLOSE'', None)
           | None \<Rightarrow> (False, ''5M_CLOSE'', None)))"

definition target_finding ::
  "nat \<Rightarrow> string \<Rightarrow> signal_state \<Rightarrow> signal_event_type \<Rightarrow> signal_update_type \<Rightarrow> float64 \<Rightarrow> string \<Rightarrow> monitor_finding"
where
  "target_finding n key t ev up target source =
     transition_finding ''target'' key t ev (Reference_Target_Reached n target source)
       [(up, ''reference target '' @ str_nat n @ '' observed via '' @ source @ '' (research lifecycle)'')]"

definition check_target_1 ::
  "monitor_context \<Rightarrow> float64 \<Rightarrow> signal_settings \<Rightarrow> monitor_finding option" where
  "check_target_1 c target_1 st =
     (if sg_state (mc_signal c) = TARGET_1_REACHED then None
      else let (reached, source, price) = target_reached c target_1 st in
        if reached
        then Some (target_finding 1 ''TARGET_1_REACHED'' TARGET_1_REACHED EV_TARGET_1_REACHED
               UP_TARGET_1_OBSERVED target_1 source)
        else None)"

definition check_targets :: "monitor_context \<Rightarrow> signal_settings \<Rightarrow> monitor_finding option" where
  "check_targets c st =
     (let sg = mc_signal c in
      if \<not> monitor_targets_enabled st \<or> sg_state sg \<notin> targetable then None
      else case sg_target_prices sg of
        [] \<Rightarrow> None
      | [target_1] \<Rightarrow> check_target_1 c target_1 st
      | target_1 # target_2 # _ \<Rightarrow>
          let (reached, source, price) = target_reached c target_2 st in
          if reached
          then Some (target_finding 2 ''TARGET_2_REACHED'' TARGET_2_REACHED EV_TARGET_2_REACHED
                 UP_TARGET_2_OBSERVED target_2 source)
          else check_target_1 c target_1 st)"

section \<open>Entry\<close>

definition conservative_side_price :: "monitor_context \<Rightarrow> float64 option" where
  "conservative_side_price c =
     (let sg = mc_signal c; mk = mc_market c;
          bbo = (if mk_bbo_fresh mk then exit_side_price sg mk else None) in
      case (bbo, mk_mark_price mk) of
        (Some b, Some m) \<Rightarrow> Some (if bullish sg then min b m else max b m)
      | (Some b, None) \<Rightarrow> Some b
      | (None, Some m) \<Rightarrow> Some m
      | (None, None) \<Rightarrow> None)"

definition check_entry :: "monitor_context \<Rightarrow> signal_settings \<Rightarrow> monitor_finding option" where
  "check_entry c st =
     (let sg = mc_signal c; mk = mc_market c in
      if sg_state sg \<noteq> WATCHING_ENTRY then None
      else if mc_bot_paused c then None
      else if \<not> mc_session_allowed c then None
      else if \<not> mk_data_quality_ok mk \<or> mk_book_resyncing mk then None
      else if sg_expires_at sg \<le> mc_as_of c then None
      else case conservative_side_price c of
        None \<Rightarrow> None
      | Some side_price \<Rightarrow>
          let valid_side = (if bullish sg then sg_invalidation_price sg < side_price
                            else side_price < sg_invalidation_price sg) in
          if \<not> valid_side then None
          else
            let ev = evaluate_entry_trigger sg mk (sg_entry_trigger sg) st in
            if te_triggered ev
            then Some (transition_finding ''entry'' ''ENTRY_CONFIRMED'' ENTRY_CONFIRMED
                   EV_ENTRY_CONFIRMED (Entry_Condition_Confirmed (te_detail ev))
                   [(UP_ENTRY_CONFIRMED, ''entry condition confirmed via '' @ te_source ev @
                     '' (research lifecycle, no execution)'')]
                   \<lparr>mf_approximation_flags := te_approximation_flags ev\<rparr>)
            else if te_touched ev
            then Some (observation_finding ''entry'' Entry_Zone_Touched
                   [(UP_ENTRY_CONDITION_OBSERVED, ''reference entry zone touched ('' @ te_source ev @
                     ''), confirmation pending'')])
            else None)"

section \<open>The contract of a monitor\<close>

text \<open>
  The priority slot of a proposed state: its own name, except that the two automatic progressions rank
  as \<open>INFO\<close> and a pre-entry rejection uses the \<open>EXPIRED\<close> slot.
\<close>

fun key_of_state :: "signal_state \<Rightarrow> string" where
  "key_of_state REJECTED = ''EXPIRED''"
| "key_of_state ACTIVE_RESEARCH = ''INFO''"
| "key_of_state TRAILING_RESEARCH = ''INFO''"
| "key_of_state s = state_value s"

definition proposable :: "signal_state set" where
  "proposable = UNIV - {DRAFT, PENDING_ADMISSION, WATCHING_ENTRY}"

lemma key_of_state_known: "t \<in> proposable \<Longrightarrow> key_of_state t \<in> set priority_keys"
  by (cases t) (simp_all add: proposable_def priority_keys_def)

definition proper_finding :: "string \<Rightarrow> monitor_finding \<Rightarrow> bool" where
  "proper_finding name f \<longleftrightarrow> mf_monitor f = name \<and>
     (case mf_to_state f of
        None \<Rightarrow> mf_event_type f = None \<and> mf_priority_key f = ''INFO''
      | Some t \<Rightarrow> t \<in> proposable \<and> mf_event_type f = event_for_state t \<and>
                  mf_priority_key f = key_of_state t)"

lemma proper_observation [simp]: "proper_finding m (observation_finding m r us)"
  by (simp add: proper_finding_def observation_finding_def)

lemma proper_transition [simp]:
  "proper_finding m (transition_finding m key t ev r us) \<longleftrightarrow>
     t \<in> proposable \<and> Some ev = event_for_state t \<and> key = key_of_state t"
  by (auto simp: proper_finding_def transition_finding_def)

lemma finding_selectors [simp]:
  "mf_to_state (observation_finding m r us) = None"
  "mf_to_state (transition_finding m key t ev r us) = Some t"
  "mf_priority_key (transition_finding m key t ev r us) = key"
  "mf_updates (observation_finding m r us) = us"
  "mf_updates (transition_finding m key t ev r us) = us"
  by (simp_all add: observation_finding_def transition_finding_def)

locale lifecycle_monitor =
  fixes check :: "monitor_context \<Rightarrow> signal_settings \<Rightarrow> monitor_finding option"
    and name :: string
  assumes proper: "check c st = Some f \<Longrightarrow> proper_finding name f"
begin

lemma event_of_state:
  "check c st = Some f \<Longrightarrow> mf_to_state f = Some t \<Longrightarrow> mf_event_type f = event_for_state t"
  using proper [of c st f] by (simp add: proper_finding_def)

lemma event_present:
  "check c st = Some f \<Longrightarrow> mf_to_state f = Some t \<Longrightarrow> mf_event_type f \<noteq> None"
  using proper [of c st f] by (cases t) (simp_all add: proper_finding_def proposable_def)

text \<open>A validated priority map knows the key of every finding: the engine never has to skip one.\<close>

lemma key_known:
  assumes "check c st = Some f" "set (map fst ps) = set priority_keys"
  shows "mf_priority_key f \<in> fst ` set ps"
  using proper [OF assms(1)] assms(2) key_of_state_known
  by (cases "mf_to_state f") (auto simp: proper_finding_def priority_keys_def)

end

text \<open>A monitor that speaks only from some states, and proposes a state only when it is \<open>ready\<close>.\<close>

locale gated_monitor = lifecycle_monitor +
  fixes sources :: "signal_state set"
    and ready :: "monitor_context \<Rightarrow> bool"
  assumes source: "check c st = Some f \<Longrightarrow> sg_state (mc_signal c) \<in> sources"
    and gate: "check c st = Some f \<Longrightarrow> mf_to_state f = Some t \<Longrightarrow> ready c"
begin

lemma silent: "sg_state (mc_signal c) \<notin> sources \<Longrightarrow> check c st = None"
  using source [of c st] by (cases "check c st") auto

lemma not_ready_no_transition: "\<not> ready c \<Longrightarrow> check c st = Some f \<Longrightarrow> mf_to_state f = None"
  using gate [of c st f] by (cases "mf_to_state f") auto

end

lemmas finding_splits = if_splits option.splits list.splits prod.splits

lemma proper_expire_finding [simp]: "proper_finding ''expiry'' (expire_finding c b cause st)"
  by (simp add: expire_finding_def proposable_def)

lemma proper_flags [simp]:
  "proper_finding m (f\<lparr>mf_approximation_flags := x\<rparr>) = proper_finding m f"
  by (simp add: proper_finding_def split: option.split)

interpretation quality_monitor: lifecycle_monitor check_data_quality "''data_quality''"
  by unfold_locales
    (auto simp: check_data_quality_def Let_def proposable_def split: finding_splits)

interpretation plan_monitor: lifecycle_monitor check_plan "''plan''"
  by unfold_locales (auto simp: check_plan_def Let_def proposable_def split: finding_splits)

interpretation supersede_monitor: lifecycle_monitor check_supersede "''supersede''"
  by unfold_locales (auto simp: check_supersede_def proposable_def split: finding_splits)

interpretation expiry_monitor: lifecycle_monitor check_expiry "''expiry''"
  by unfold_locales (auto simp: check_expiry_def Let_def split: finding_splits)

lemma proper_policy:
  "state_for_policy p = (t, ev, key) \<Longrightarrow>
     t \<in> proposable \<and> Some ev = event_for_state t \<and> key = key_of_state t"
  by (cases p) (auto simp: proposable_def)

interpretation session_monitor: lifecycle_monitor check_session "''session''"
  by unfold_locales
    (auto simp: check_session_def Let_def proposable_def dest!: proper_policy
      split: finding_splits)

interpretation invalidation_monitor: gated_monitor check_invalidation "''invalidation''"
  "invalidatable \<union> exit_mapped" "\<lambda>c. mk_data_quality_ok (mc_market c) \<or> mk_bbo_fresh (mc_market c)"
  by unfold_locales
    (auto simp: check_invalidation_def Let_def proposable_def split: finding_splits)

interpretation structure_monitor: gated_monitor check_structure_exit "''structure_exit''"
  structure_states
  "\<lambda>c. mc_opposing_structure_events c \<noteq> [] \<or> mk_data_quality_ok (mc_market c)"
  by unfold_locales
    (auto simp: check_structure_exit_def Let_def proposable_def split: finding_splits)

definition target_source_fresh :: "signal_settings \<Rightarrow> monitor_context \<Rightarrow> bool" where
  "target_source_fresh st c =
     (case target_trigger_default st of
        TGT_MARK_PRICE_TOUCH \<Rightarrow> mk_data_quality_ok (mc_market c)
      | TGT_BBO_TOUCH \<Rightarrow> mk_bbo_fresh (mc_market c)
      | TGT_FIVE_M_CLOSE_AT_OR_BEYOND_TARGET \<Rightarrow> mk_last_closed_5m_close_time (mc_market c) \<noteq> None)"

lemma target_reached_fresh:
  "target_reached c target st = (True, source, price) \<Longrightarrow> target_source_fresh st c"
  by (auto simp: target_reached_def target_source_fresh_def Let_def
      split: target_trigger_policy.splits finding_splits)

lemma check_target_1_facts:
  "check_target_1 c t st = Some f \<Longrightarrow> proper_finding ''target'' f \<and> target_source_fresh st c"
  by (auto simp: check_target_1_def target_finding_def proposable_def
      dest: target_reached_fresh split: finding_splits)

lemma check_targets_facts:
  assumes "check_targets c st = Some f"
  shows "proper_finding ''target'' f \<and> target_source_fresh st c \<and>
         sg_state (mc_signal c) \<in> targetable"
  using assms
  by (auto simp: check_targets_def target_finding_def proposable_def Let_def
      dest: target_reached_fresh check_target_1_facts split: finding_splits)

definition some_target_source :: "monitor_context \<Rightarrow> bool" where
  "some_target_source c \<longleftrightarrow> mk_data_quality_ok (mc_market c) \<or> mk_bbo_fresh (mc_market c) \<or>
     mk_last_closed_5m_close_time (mc_market c) \<noteq> None"

lemma target_source_fresh_some: "target_source_fresh st c \<Longrightarrow> some_target_source c"
  by (cases "target_trigger_default st") (auto simp: target_source_fresh_def some_target_source_def)

interpretation target_monitor: gated_monitor check_targets "''target''" targetable some_target_source
  by unfold_locales (blast dest: check_targets_facts target_source_fresh_some)+

definition entry_ready :: "monitor_context \<Rightarrow> bool" where
  "entry_ready c \<longleftrightarrow> \<not> mc_bot_paused c \<and> mc_session_allowed c \<and> market_healthy (mc_market c) \<and>
     mc_as_of c < sg_expires_at (mc_signal c)"

interpretation entry_monitor: gated_monitor check_entry "''entry''" "{WATCHING_ENTRY}" entry_ready
  by unfold_locales
    (auto simp: check_entry_def entry_ready_def market_healthy_def Let_def proposable_def
      split: finding_splits)

end
