(* ===== verification/Signal_Engine.thy ===== *)
theory Signal_Engine
  imports Signal_Monitors
begin

text \<open>
  One lifecycle evaluation (\<open>evaluate_signal\<close> in \<open>app/signals/lifecycle_engine.py\<close>): every monitor runs
  over the same context, the findings are sorted into observations, suppressed proposals, unknown keys
  and competing transitions, and the competitor with the greatest priority wins the cycle.  A missing
  priority key raises as in Python (\<open>KeyError\<close>).
\<close>

section \<open>The evaluation\<close>

datatype engine_error = KeyError string

definition paused_monitors :: "string set" where
  "paused_monitors = {''data_quality'', ''plan'', ''supersede'', ''expiry''}"

definition monitors :: "(monitor_context \<Rightarrow> signal_settings \<Rightarrow> monitor_finding option) list" where
  "monitors = [check_data_quality, check_plan, check_supersede, check_expiry, check_session,
               check_invalidation, check_structure_exit, check_targets, check_entry]"

definition monitor_findings :: "monitor_context \<Rightarrow> signal_settings \<Rightarrow> monitor_finding list" where
  "monitor_findings c st =
     filter (\<lambda>f. sg_state (mc_signal c) = PAUSED \<longrightarrow> mf_monitor f \<in> paused_monitors)
       (List.map_filter (\<lambda>m. m c st) monitors)"

definition auto_progression :: "signal_state \<Rightarrow> monitor_finding list" where
  "auto_progression s =
     (if s = ENTRY_CONFIRMED then
        [transition_finding ''engine'' ''INFO'' ACTIVE_RESEARCH EV_ACTIVE_RESEARCH
           Active_Research_Begins []]
      else if s = TARGET_2_REACHED then
        [transition_finding ''engine'' ''INFO'' TRAILING_RESEARCH EV_TRAILING_RESEARCH
           Trailing_Begins []]
      else [])"

definition all_findings :: "monitor_context \<Rightarrow> signal_settings \<Rightarrow> monitor_finding list" where
  "all_findings c st = monitor_findings c st @ auto_progression (sg_state (mc_signal c))"

fun observed_of :: "monitor_finding \<Rightarrow> observation list" where
  "observed_of f = (if mf_to_state f = None \<or> mf_event_type f = None
                    then [Observed (mf_monitor f) (mf_reason f)] else [])"

fun suppressed_of :: "signal_state \<Rightarrow> monitor_finding \<Rightarrow> suppression list" where
  "suppressed_of s f =
     (case (mf_to_state f, mf_event_type f) of
        (Some t, Some ev) \<Rightarrow> if t \<noteq> s \<and> \<not> can_transition s t
                             then [Invalid_Transition (mf_monitor f) s t (mf_reason f)] else []
      | _ \<Rightarrow> [])"

definition legal_proposal :: "signal_state \<Rightarrow> monitor_finding \<Rightarrow> bool" where
  "legal_proposal s f \<longleftrightarrow>
     (case (mf_to_state f, mf_event_type f) of
        (Some t, Some ev) \<Rightarrow> t \<noteq> s \<and> can_transition s t | _ \<Rightarrow> False)"

definition known_key :: "signal_settings \<Rightarrow> monitor_finding \<Rightarrow> bool" where
  "known_key st f \<longleftrightarrow> mf_priority_key f \<in> set (map fst (monitor_event_priority st))"

definition finding_priority :: "signal_settings \<Rightarrow> monitor_finding \<Rightarrow> int" where
  "finding_priority st f = priority_of (monitor_event_priority st) (mf_priority_key f)"

definition competitors :: "monitor_context \<Rightarrow> signal_settings \<Rightarrow> monitor_finding list" where
  "competitors c st =
     filter (\<lambda>f. legal_proposal (sg_state (mc_signal c)) f \<and> known_key st f) (all_findings c st)"

definition unknown_keys :: "monitor_context \<Rightarrow> signal_settings \<Rightarrow> string list" where
  "unknown_keys c st = map mf_priority_key
     (filter (\<lambda>f. legal_proposal (sg_state (mc_signal c)) f \<and> \<not> known_key st f) (all_findings c st))"

definition winning_steps ::
  "signal_state \<Rightarrow> signal_settings \<Rightarrow> monitor_finding \<Rightarrow> engine_error + transition_step list" where
  "winning_steps s st w =
     (let t = the (mf_to_state w);
          first = \<lparr>ts_from_state = s, ts_to_state = t, ts_event_type = the (mf_event_type w),
                   ts_reason = mf_reason w, ts_priority = finding_priority st w\<rparr> in
      if t = ENTRY_CONFIRMED then
        (case map_of (monitor_event_priority st) ''INFO'' of
           None \<Rightarrow> Inl (KeyError ''INFO'')
         | Some p \<Rightarrow> Inr [first, \<lparr>ts_from_state = ENTRY_CONFIRMED, ts_to_state = ACTIVE_RESEARCH,
                          ts_event_type = EV_ACTIVE_RESEARCH, ts_reason = Active_Research_Begins,
                          ts_priority = p\<rparr>])
      else Inr [first])"

definition evaluate_signal :: "monitor_context \<Rightarrow> signal_settings \<Rightarrow> engine_error + engine_result" where
  "evaluate_signal c st =
     (let sg = mc_signal c; s = sg_state sg in
      if is_terminal s then
        Inr \<lparr>er_signal_id = sg_signal_id sg, er_transitions = [], er_updates = [], er_observed = [],
             er_suppressed_findings = [], er_warnings = []\<rparr>
      else
        let findings = all_findings c st;
            base = \<lparr>er_signal_id = sg_signal_id sg, er_transitions = [],
              er_updates = concat (map mf_updates findings),
              er_observed = concat (map observed_of findings),
              er_suppressed_findings = concat (map (suppressed_of s) findings),
              er_warnings = unknown_keys c st\<rparr> in
        case competitors c st of
          [] \<Rightarrow> Inr base
        | f # fs \<Rightarrow>
            let w = max_by (finding_priority st) f fs in
            (case winning_steps s st w of
               Inl e \<Rightarrow> Inl e
             | Inr steps \<Rightarrow>
                 Inr (base\<lparr>er_transitions := steps,
                   er_observed := er_observed base @
                     map (\<lambda>g. Outranked (mf_monitor g) (mf_reason g) (mf_priority_key w))
                       (filter (\<lambda>g. g \<noteq> w) (f # fs))\<rparr>)))"

section \<open>What the findings are\<close>

lemma set_map_filter: "set (List.map_filter g xs) = {y. \<exists>x \<in> set xs. g x = Some y}"
  by (force simp: List.map_filter_def)

lemma policy_state: "state_for_policy p = (t, ev, key) \<Longrightarrow> t \<in> {EXPIRED, PAUSED, TECHNICAL_EXIT}"
  by (cases p) auto

lemma monitor_proper:
  assumes "m \<in> set monitors" "m c st = Some f"
  shows "\<exists>n. proper_finding n f"
  using assms unfolding monitors_def
  by (auto intro: quality_monitor.proper plan_monitor.proper supersede_monitor.proper
      expiry_monitor.proper session_monitor.proper invalidation_monitor.proper
      structure_monitor.proper target_monitor.proper entry_monitor.proper)

text \<open>Only the entry monitor proposes \<open>ENTRY_CONFIRMED\<close>.\<close>

lemma only_entry_confirms:
  "m c st = Some f \<Longrightarrow> mf_to_state f = Some ENTRY_CONFIRMED \<Longrightarrow>
     m \<notin> {check_data_quality, check_plan, check_supersede, check_expiry, check_session,
            check_invalidation, check_structure_exit, check_targets}"
  by (auto simp: check_data_quality_def check_plan_def check_supersede_def check_expiry_def
      expire_finding_def check_session_def check_invalidation_def check_structure_exit_def
      check_targets_def check_target_1_def target_finding_def Let_def
      dest!: policy_state split: finding_splits)

lemma auto_progression_proper: "f \<in> set (auto_progression s) \<Longrightarrow> proper_finding ''engine'' f"
  by (auto simp: auto_progression_def proposable_def split: if_splits)

lemma all_findings_proper: "f \<in> set (all_findings c st) \<Longrightarrow> \<exists>n. proper_finding n f"
  using monitor_proper auto_progression_proper
  by (fastforce simp: all_findings_def monitor_findings_def set_map_filter)

lemma competitor_facts:
  assumes "f \<in> set (competitors c st)"
  shows "\<exists>t ev. mf_to_state f = Some t \<and> mf_event_type f = Some ev \<and> event_for_state t = Some ev \<and>
           mf_priority_key f = key_of_state t \<and> t \<in> proposable \<and>
           t \<in> transitions (sg_state (mc_signal c))"
proof -
  from assms have l: "legal_proposal (sg_state (mc_signal c)) f"
    and "f \<in> set (all_findings c st)" by (auto simp: competitors_def)
  then obtain n where "proper_finding n f" using all_findings_proper by blast
  with l show ?thesis
    by (auto simp: legal_proposal_def proper_finding_def can_transition_def split: option.splits)
qed

text \<open>A legal proposal of a monitor always competes when the priority map is the validated one.\<close>

lemma valid_keys: "validate_priorities ps \<Longrightarrow> set (map fst ps) = set priority_keys"
  by (simp add: validate_priorities_def)

lemma competes:
  assumes "m \<in> set monitors" "m c st = Some f" "mf_to_state f = Some t"
    and "t \<in> transitions (sg_state (mc_signal c))"
    and "sg_state (mc_signal c) = PAUSED \<Longrightarrow> mf_monitor f \<in> paused_monitors"
    and valid: "validate_priorities (monitor_event_priority st)"
  shows "f \<in> set (competitors c st)"
proof -
  obtain n where n: "proper_finding n f" using assms(1,2) monitor_proper by blast
  have "f \<in> set (all_findings c st)"
    using assms(1,2,5) by (auto simp: all_findings_def monitor_findings_def set_map_filter)
  moreover have "known_key st f"
    using n assms(3) valid_keys [OF valid] key_of_state_known
    by (simp add: known_key_def proper_finding_def)
  moreover have "legal_proposal (sg_state (mc_signal c)) f"
    using n assms(3,4) event_for_successor [OF assms(4)]
    by (auto simp: legal_proposal_def proper_finding_def can_transition_def)
  ultimately show ?thesis by (simp add: competitors_def)
qed

section \<open>What the evaluation returns\<close>

definition winner :: "monitor_context \<Rightarrow> signal_settings \<Rightarrow> monitor_finding option" where
  "winner c st = (case competitors c st of [] \<Rightarrow> None
                  | f # fs \<Rightarrow> Some (max_by (finding_priority st) f fs))"

lemma winner_competes: "winner c st = Some w \<Longrightarrow> w \<in> set (competitors c st)"
  using max_by_in by (fastforce simp: winner_def split: list.splits)

lemma winner_max: "winner c st = Some w \<Longrightarrow> f \<in> set (competitors c st) \<Longrightarrow>
    finding_priority st f \<le> finding_priority st w"
  using max_by_ge [of f] by (fastforce simp: winner_def split: list.splits)

lemma winner_exists: "f \<in> set (competitors c st) \<Longrightarrow> \<exists>w. winner c st = Some w"
  by (auto simp: winner_def split: list.splits)

lemma evaluate_transitions:
  assumes "evaluate_signal c st = Inr r" "\<not> is_terminal (sg_state (mc_signal c))"
  shows "case winner c st of None \<Rightarrow> er_transitions r = []
         | Some w \<Rightarrow> winning_steps (sg_state (mc_signal c)) st w = Inr (er_transitions r)"
  using assms by (auto simp: evaluate_signal_def winner_def Let_def split: list.splits sum.splits)

lemma evaluate_total:
  assumes "validate_priorities (monitor_event_priority st)"
  shows "\<exists>r. evaluate_signal c st = Inr r"
proof -
  have "''INFO'' \<in> fst ` set (monitor_event_priority st)"
    using valid_keys [OF assms] by (simp add: priority_keys_def)
  then obtain p where "map_of (monitor_event_priority st) ''INFO'' = Some p"
    by (metis domD dom_map_of_conv_image_fst)
  then show ?thesis by (auto simp: evaluate_signal_def winning_steps_def Let_def split: list.splits)
qed

lemma final_of_winner:
  assumes "evaluate_signal c st = Inr r" "\<not> is_terminal (sg_state (mc_signal c))"
    and "winner c st = Some w" "mf_to_state w = Some t"
  shows "final_state r = Some (if t = ENTRY_CONFIRMED then ACTIVE_RESEARCH else t)"
  using evaluate_transitions [OF assms(1,2)] assms(3,4)
  by (auto simp: winning_steps_def final_state_def Let_def
      dest!: sym [where t = "er_transitions r"] split: if_splits option.splits)

section \<open>Priorities\<close>

text \<open>In a validated map \<open>DATA_INVALID\<close> ranks strictly above every other key.\<close>

lemma data_invalid_top:
  assumes valid: "validate_priorities ps" and k: "k \<in> set priority_keys" "k \<noteq> ''DATA_INVALID''"
  shows "priority_of ps k < priority_of ps ''DATA_INVALID''"
proof -
  obtain q qs where ps: "ps = q # qs" and top: "fst (max_by snd q qs) = ''DATA_INVALID''"
    using valid by (auto simp: validate_priorities_def split: list.splits)
  let ?m = "max_by snd q qs"
  have dist: "distinct (map fst ps)" and "card (set (map snd ps)) = length (map snd ps)"
    using valid by (auto simp: validate_priorities_def)
  then have inj: "inj_on snd (set ps)" using card_distinct distinct_map by blast
  have m: "?m \<in> set ps" using max_by_in [of snd q qs] ps by simp
  obtain p where p: "(k, p) \<in> set ps" using k(1) valid_keys [OF valid] by fastforce
  have "p \<le> snd ?m" using max_by_ge [of "(k, p)" q qs snd] p ps by simp
  moreover have "p \<noteq> snd ?m" using inj p m top k(2) by (metis fst_conv inj_onD snd_conv)
  moreover have "map_of ps k = Some p" "map_of ps ''DATA_INVALID'' = Some (snd ?m)"
    using dist p m top by (auto simp: map_of_eq_Some_iff) (metis prod.collapse)
  ultimately show ?thesis by (simp add: priority_of_def)
qed

lemma competitor_priority:
  assumes "f \<in> set (competitors c st)" "mf_to_state f = Some t"
  shows "finding_priority st f = priority_of (monitor_event_priority st) (key_of_state t)"
  using competitor_facts [OF assms(1)] assms(2) by (auto simp: finding_priority_def)

text \<open>
  The cycle's outcome when a legal proposal is on the table: some proposal at least as high wins.
\<close>

lemma outcome_at_least:
  assumes valid: "validate_priorities (monitor_event_priority st)"
    and live: "\<not> is_terminal (sg_state (mc_signal c))"
    and f: "f \<in> set (competitors c st)"
  shows "\<exists>r w t. evaluate_signal c st = Inr r \<and> winner c st = Some w \<and> mf_to_state w = Some t \<and>
           t \<in> proposable \<and> final_state r = Some (if t = ENTRY_CONFIRMED then ACTIVE_RESEARCH else t) \<and>
           finding_priority st f \<le> priority_of (monitor_event_priority st) (key_of_state t)"
proof -
  obtain w where w: "winner c st = Some w" using winner_exists [OF f] by blast
  then have wc: "w \<in> set (competitors c st)" by (rule winner_competes)
  then obtain t where t: "mf_to_state w = Some t" "t \<in> proposable" using competitor_facts by blast
  obtain r where r: "evaluate_signal c st = Inr r" using evaluate_total [OF valid] by blast
  have "finding_priority st f \<le> priority_of (monitor_event_priority st) (key_of_state t)"
    using winner_max [OF w f] competitor_priority [OF wc t(1)] by simp
  with r w t final_of_winner [OF r live w t(1)] show ?thesis by blast
qed

lemma default_at_least_90:
  "t \<in> proposable \<Longrightarrow> 90 \<le> priority_of default_priorities (key_of_state t) \<Longrightarrow>
     t \<in> {DATA_INVALID, INVALIDATED}"
  by (cases t) (simp_all add: default_priorities_def priority_of_def proposable_def)

lemma default_at_least_70:
  "t \<in> proposable \<Longrightarrow> 70 \<le> priority_of default_priorities (key_of_state t) \<Longrightarrow> is_terminal t"
  by (cases t) (simp_all add: default_priorities_def priority_of_def proposable_def
      is_terminal_def terminal_states_def)

lemma expiry_when_due:
  assumes "monitor_post_entry_expiry_policy st = POST_ENTRY_EXPIRE"
    and "sg_expires_at (mc_signal c) \<le> mc_as_of c \<or>
      sg_state (mc_signal c) = WATCHING_ENTRY \<and>
        exceeds (sg_watching_entry_at (mc_signal c)) (mc_as_of c) (lifecycle_entry_max_wait_seconds st) \<or>
      is_post_entry (sg_state (mc_signal c)) \<and>
        exceeds (sg_entry_confirmed_at (mc_signal c)) (mc_as_of c)
          (lifecycle_active_max_duration_seconds st)"
  shows "\<exists>cause. check_expiry c st = Some (transition_finding ''expiry'' ''EXPIRED'' EXPIRED EV_EXPIRED
           (Expiry_Window_Ended cause) [])"
proof -
  have "expire_finding c b cause st = transition_finding ''expiry'' ''EXPIRED'' EXPIRED EV_EXPIRED
          (Expiry_Window_Ended cause) []" for b cause
    using assms(1) by (simp add: expire_finding_def)
  with assms(2) show ?thesis by (auto simp: check_expiry_def Let_def)
qed

lemma data_invalid_reachable: "\<not> is_terminal s \<Longrightarrow> s \<noteq> DRAFT \<Longrightarrow> DATA_INVALID \<in> transitions s"
  and expired_reachable: "\<not> is_terminal s \<Longrightarrow> s \<noteq> DRAFT \<Longrightarrow> EXPIRED \<in> transitions s"
  by (cases s; simp add: is_terminal_def terminal_states_def)+

definition example_plan :: plan_snapshot where
  "example_plan = \<lparr>ps_plan_id = 1, ps_candidate_id = 2, ps_status = ''ELIGIBLE'',
     ps_instrument_pk = 1, ps_instrument_id = 11, ps_symbol = ''BTC-PERP'',
     ps_asset_class = ''CRYPTO'', ps_candidate_type = ''BULLISH_SWEEP_REVERSAL'',
     ps_direction = ''BULLISH'', ps_entry_low = 100, ps_entry_high = 102,
     ps_entry_reference_price = 101, ps_entry_basis = ''b'', ps_invalidation_price = 98,
     ps_invalidation_basis = ''b'', ps_target_prices = [106, 110], ps_as_of = 0,
     ps_expiry_at = 3600000000, ps_dedupe_key = ''k'', ps_strategy_version = ''1'',
     ps_risk_model_version = ''1'', ps_cost_model_version = ''1'', ps_fee_schedule_version = ''1'',
     ps_risk_config_hash = ''h'', ps_cost_config_hash = ''h''\<rparr>"

definition example_candidate :: candidate_state_snapshot where
  "example_candidate = \<lparr>cs_candidate_id = 2, cs_state = ''CONFIRMED'', cs_expiry_at = None,
     cs_as_of = Some 0\<rparr>"

definition example_context :: monitor_context where
  "example_context = \<lparr>mc_signal = example_signal, mc_plan = Some example_plan,
     mc_candidate = Some example_candidate, mc_market = example_market,
     mc_session_state = ''CRYPTO_24_7'', mc_session_allowed = True, mc_watchlist_active = True,
     mc_market_quality_score = Some 90, mc_bot_paused = False, mc_opposing_structure_events = [],
     mc_superseding_plan_id = None, mc_as_of = 60000000\<rparr>"

lemmas example_defs = example_context_def example_signal_def example_market_def
  example_plan_def example_candidate_def default_signal_settings_def

section \<open>Properties\<close>

lemma evaluation_legal:
  assumes "validate_priorities (monitor_event_priority st)"
  shows "\<exists>r. evaluate_signal c st = Inr r \<and>
    walk transitions (sg_state (mc_signal c)) (map ts_to_state (er_transitions r)) \<and>
    map ts_from_state (er_transitions r)
      = take (length (er_transitions r)) (sg_state (mc_signal c) # map ts_to_state (er_transitions r)) \<and>
    (\<forall>e \<in> set (er_transitions r). event_for_state (ts_to_state e) = Some (ts_event_type e)) \<and>
    (is_terminal (sg_state (mc_signal c)) \<longrightarrow> er_transitions r = []) \<and>
    (length (er_transitions r) \<le> 1 \<or>
       sg_state (mc_signal c) = WATCHING_ENTRY \<and>
       map ts_to_state (er_transitions r) = [ENTRY_CONFIRMED, ACTIVE_RESEARCH])"
proof -
  obtain r where r: "evaluate_signal c st = Inr r" using evaluate_total [OF assms] by blast
  show ?thesis
  proof (cases "is_terminal (sg_state (mc_signal c))")
    case True
    with r show ?thesis by (intro exI [of _ r]) (auto simp: evaluate_signal_def)
  next
    case False
    show ?thesis
    proof (cases "winner c st")
      case None
      with r False evaluate_transitions [OF r False] show ?thesis by (intro exI [of _ r]) auto
    next
      case (Some w)
      from competitor_facts [OF winner_competes [OF Some]] obtain t ev
        where t: "mf_to_state w = Some t" "mf_event_type w = Some ev" "event_for_state t = Some ev"
          and edge: "t \<in> transitions (sg_state (mc_signal c))" by blast
      have "t = ENTRY_CONFIRMED \<Longrightarrow> sg_state (mc_signal c) = WATCHING_ENTRY"
        using edge by (cases "sg_state (mc_signal c)") auto
      with r False t edge evaluate_transitions [OF r False] Some show ?thesis
        by (intro exI [of _ r])
          (auto simp: winning_steps_def Let_def dest!: sym [where t = "er_transitions r"]
            split: if_splits option.splits)
    qed
  qed
qed

text \<open>
  C1.  Every evaluation is one legal move: with a validated configuration it returns, its steps form a
  walk along the transition map from the signal's own state, each with the event of its target state,
  nothing happens to a terminal signal, and two steps occur only as the entry chain.
\<close>

theorem evaluation_is_legal:
  assumes "validate_priorities (monitor_event_priority st)"
  shows "\<exists>r. evaluate_signal c st = Inr r \<and>
    walk transitions (sg_state (mc_signal c)) (map ts_to_state (er_transitions r)) \<and>
    map ts_from_state (er_transitions r)
      = take (length (er_transitions r)) (sg_state (mc_signal c) # map ts_to_state (er_transitions r)) \<and>
    (\<forall>e \<in> set (er_transitions r). event_for_state (ts_to_state e) = Some (ts_event_type e)) \<and>
    (is_terminal (sg_state (mc_signal c)) \<longrightarrow> er_transitions r = []) \<and>
    (length (er_transitions r) \<le> 1 \<or>
       sg_state (mc_signal c) = WATCHING_ENTRY \<and>
       map ts_to_state (er_transitions r) = [ENTRY_CONFIRMED, ACTIVE_RESEARCH])"
  by (rule evaluation_legal [OF assms])

theorem evaluation_is_legal_witness:
  "\<exists>r. evaluate_signal example_context default_signal_settings = Inr r \<and>
     walk transitions WATCHING_ENTRY (map ts_to_state (er_transitions r))"
proof -
  have "validate_priorities (monitor_event_priority default_signal_settings)"
    by (simp add: default_signal_settings_def default_priorities_valid)
  then show ?thesis
    using evaluation_is_legal [of default_signal_settings example_context]
    by (auto simp: example_context_def example_signal_def)
qed

lemma bad_data_invalidates:
  assumes valid: "validate_priorities (monitor_event_priority st)"
    and live: "\<not> is_terminal (sg_state (mc_signal c))" "sg_state (mc_signal c) \<noteq> DRAFT"
    and bad: "\<not> market_healthy (mc_market c)"
    and since: "sg_data_degraded_since (mc_signal c) = Some since"
    and grace: "lifecycle_data_degraded_grace_seconds st < total_seconds (mc_as_of c - since)"
  shows "\<exists>r. evaluate_signal c st = Inr r \<and> final_state r = Some DATA_INVALID"
proof -
  obtain f where f: "check_data_quality c st = Some f" "mf_to_state f = Some DATA_INVALID"
    and name: "mf_monitor f = ''data_quality''"
    using bad since grace by (auto simp: check_data_quality_def Let_def transition_finding_def)
  have "f \<in> set (competitors c st)"
    using f data_invalid_reachable [OF live] valid name
    by (intro competes [of check_data_quality]) (auto simp: monitors_def paused_monitors_def)
  from outcome_at_least [OF valid live(1) this] competitor_priority [OF this f(2)]
  obtain r t where r: "evaluate_signal c st = Inr r" and t: "t \<in> proposable"
    and fin: "final_state r = Some (if t = ENTRY_CONFIRMED then ACTIVE_RESEARCH else t)"
    and le: "priority_of (monitor_event_priority st) ''DATA_INVALID''
             \<le> priority_of (monitor_event_priority st) (key_of_state t)" by auto
  have "key_of_state t = ''DATA_INVALID''"
    using data_invalid_top [OF valid key_of_state_known [OF t]] le by linarith
  then have "t = DATA_INVALID" by (cases t) auto
  with r fin show ?thesis by auto
qed

text \<open>
  Bad data always ends the monitoring: for every validated priority map, a live signal whose data has
  been unhealthy for longer than the grace period leaves the cycle as \<open>DATA_INVALID\<close>, whatever the
  other monitors report.
\<close>

theorem bad_data_ends_monitoring:
  assumes valid: "validate_priorities (monitor_event_priority st)"
    and live: "\<not> is_terminal (sg_state (mc_signal c))" "sg_state (mc_signal c) \<noteq> DRAFT"
    and bad: "\<not> market_healthy (mc_market c)"
    and since: "sg_data_degraded_since (mc_signal c) = Some since"
    and grace: "lifecycle_data_degraded_grace_seconds st < total_seconds (mc_as_of c - since)"
  shows "\<exists>r. evaluate_signal c st = Inr r \<and> final_state r = Some DATA_INVALID"
  by (rule bad_data_invalidates [OF assms])

theorem bad_data_ends_monitoring_witness:
  "\<exists>r. evaluate_signal (example_context\<lparr>mc_signal := example_signal\<lparr>sg_data_degraded_since := Some 0\<rparr>,
         mc_market := example_market\<lparr>mk_data_quality_ok := False\<rparr>, mc_as_of := 200000000\<rparr>)
         default_signal_settings = Inr r \<and> final_state r = Some DATA_INVALID"
proof -
  have "lifecycle_data_degraded_grace_seconds default_signal_settings < total_seconds 200000000"
    using fl_of_int [of 200] by (simp add: default_signal_settings_def total_seconds_def)
  then show ?thesis
    using default_priorities_valid
    by (intro bad_data_ends_monitoring [where since = 0])
      (simp_all add: default_signal_settings_def market_healthy_def example_signal_def
        is_terminal_def terminal_states_def)
qed

text \<open>
  C6.  An invalidation is never lost: under the default priorities, when the invalidation monitor
  reports a breached level the cycle ends in \<open>INVALIDATED\<close> or, if the data ended it, \<open>DATA_INVALID\<close>,
  whatever targets, exits or expiries fire in the same cycle.
\<close>

theorem invalidation_outranks_targets:
  assumes prio: "monitor_event_priority st = default_priorities"
    and f: "check_invalidation c st = Some f" "mf_to_state f = Some INVALIDATED"
  shows "\<exists>r. evaluate_signal c st = Inr r \<and> final_state r \<in> {Some INVALIDATED, Some DATA_INVALID}"
proof -
  have valid: "validate_priorities (monitor_event_priority st)"
    by (simp add: prio default_priorities_valid)
  have src: "sg_state (mc_signal c) \<in> invalidatable \<union> exit_mapped"
    and nexit: "sg_state (mc_signal c) \<notin> exit_mapped"
    using f by (auto simp: check_invalidation_def Let_def split: finding_splits)
  then have edge: "INVALIDATED \<in> transitions (sg_state (mc_signal c))"
    and live: "\<not> is_terminal (sg_state (mc_signal c))"
    and np: "sg_state (mc_signal c) \<noteq> PAUSED"
    by (auto simp: invalidatable_def is_terminal_def terminal_states_def)
  have comp: "f \<in> set (competitors c st)"
    using f edge np valid by (intro competes [of check_invalidation]) (auto simp: monitors_def)
  have "finding_priority st f = 90"
    using competitor_priority [OF comp f(2)] by (simp add: prio priority_of_def default_priorities_def)
  with outcome_at_least [OF valid live comp] prio obtain r t
    where "evaluate_signal c st = Inr r" "t \<in> proposable"
      "final_state r = Some (if t = ENTRY_CONFIRMED then ACTIVE_RESEARCH else t)"
      "90 \<le> priority_of default_priorities (key_of_state t)" by auto
  with default_at_least_90 show ?thesis by fastforce
qed

definition breached_context :: monitor_context where
  "breached_context = example_context\<lparr>
     mc_signal := example_signal\<lparr>sg_state := ACTIVE_RESEARCH, sg_entry_confirmed_at := Some 0\<rparr>,
     mc_market := example_market\<lparr>mk_mark_price := Some 97, mk_last_closed_5m_close := Some 107\<rparr>\<rparr>"

theorem invalidation_outranks_targets_witness:
  "\<exists>f r. check_targets breached_context default_signal_settings = Some f \<and>
     evaluate_signal breached_context default_signal_settings = Inr r \<and>
     final_state r \<in> {Some INVALIDATED, Some DATA_INVALID}"
proof -
  obtain f where "check_invalidation breached_context default_signal_settings = Some f"
    "mf_to_state f = Some INVALIDATED"
    by (simp add: breached_context_def example_defs check_invalidation_def sources_beyond_level_def
        hit_def invalidatable_def exit_mapped_def beyond_def bullish_def Let_def)
  moreover obtain g where "check_targets breached_context default_signal_settings = Some g"
    by (simp add: breached_context_def example_defs check_targets_def check_target_1_def targetable_def
        target_reached_def at_target_def bullish_def Let_def)
  moreover have "monitor_event_priority default_signal_settings = default_priorities"
    by (simp add: default_signal_settings_def)
  ultimately show ?thesis using invalidation_outranks_targets by blast
qed

lemma entry_confirmed_ready:
  assumes watching: "sg_state (mc_signal c) = WATCHING_ENTRY"
    and r: "evaluate_signal c st = Inr r" "final_state r = Some ACTIVE_RESEARCH"
  shows "entry_ready c \<and>
    te_triggered (evaluate_entry_trigger (mc_signal c) (mc_market c) (sg_entry_trigger (mc_signal c)) st) \<and>
    (\<exists>p. conservative_side_price c = Some p \<and> \<not> beyond (mc_signal c) p (sg_invalidation_price (mc_signal c)))"
proof -
  have live: "\<not> is_terminal (sg_state (mc_signal c))"
    by (simp add: watching is_terminal_def terminal_states_def)
  obtain w where w: "winner c st = Some w"
    using evaluate_transitions [OF r(1) live] r(2) by (auto simp: final_state_def split: option.splits)
  have wc: "w \<in> set (competitors c st)" by (rule winner_competes [OF w])
  then obtain t where t: "mf_to_state w = Some t" "t \<in> transitions WATCHING_ENTRY"
    using competitor_facts watching by metis
  with final_of_winner [OF r(1) live w t(1)] r(2) have te: "mf_to_state w = Some ENTRY_CONFIRMED"
    by (auto split: if_splits)
  from wc have "w \<in> set (monitor_findings c st)"
    by (auto simp: competitors_def all_findings_def auto_progression_def watching)
  then obtain m where "m \<in> set monitors" "m c st = Some w"
    by (auto simp: monitor_findings_def set_map_filter)
  with only_entry_confirms [OF _ te] have "check_entry c st = Some w"
    unfolding monitors_def by fastforce
  with te show ?thesis
    by (auto simp: check_entry_def entry_ready_def market_healthy_def beyond_def Let_def
        split: finding_splits)
qed

text \<open>
  C7.  Entry is confirmed only on purpose: when a watched signal leaves the cycle as active research, the
  bot is not paused, the session is allowed, the data is healthy, the signal has not expired, its
  trigger fired, and the conservative price lies on the valid side of the invalidation level.
\<close>

theorem entry_only_when_ready:
  assumes "sg_state (mc_signal c) = WATCHING_ENTRY"
    and "evaluate_signal c st = Inr r" "final_state r = Some ACTIVE_RESEARCH"
  shows "entry_ready c \<and>
    te_triggered (evaluate_entry_trigger (mc_signal c) (mc_market c) (sg_entry_trigger (mc_signal c)) st) \<and>
    (\<exists>p. conservative_side_price c = Some p \<and> \<not> beyond (mc_signal c) p (sg_invalidation_price (mc_signal c)))"
  by (rule entry_confirmed_ready [OF assms])

theorem entry_only_when_ready_witness:
  "entry_ready example_context \<and> (\<exists>p. conservative_side_price example_context = Some p \<and> 98 < p)"
proof -
  obtain r where "evaluate_signal example_context default_signal_settings = Inr r"
    "final_state r = Some ACTIVE_RESEARCH"
  proof -
    have "(case evaluate_signal example_context default_signal_settings of
             Inr r \<Rightarrow> final_state r = Some ACTIVE_RESEARCH | Inl _ \<Rightarrow> False)"
      by code_simp
    with that show ?thesis by (auto split: sum.splits)
  qed
  from entry_only_when_ready [OF _ this] show ?thesis
    by (auto simp: example_context_def example_signal_def beyond_def bullish_def)
qed

text \<open>
  Every signal ends in time: under the default priorities and expiry policy, a live signal past its
  deadline, past the entry waiting time or past its active duration is terminal after the cycle.
\<close>

theorem deadline_ends_monitoring:
  assumes prio: "monitor_event_priority st = default_priorities"
    and policy: "monitor_post_entry_expiry_policy st = POST_ENTRY_EXPIRE"
    and live: "\<not> is_terminal (sg_state (mc_signal c))" "sg_state (mc_signal c) \<noteq> DRAFT"
    and due: "sg_expires_at (mc_signal c) \<le> mc_as_of c \<or>
      sg_state (mc_signal c) = WATCHING_ENTRY \<and>
        exceeds (sg_watching_entry_at (mc_signal c)) (mc_as_of c) (lifecycle_entry_max_wait_seconds st) \<or>
      is_post_entry (sg_state (mc_signal c)) \<and>
        exceeds (sg_entry_confirmed_at (mc_signal c)) (mc_as_of c)
          (lifecycle_active_max_duration_seconds st)"
  shows "\<exists>r t. evaluate_signal c st = Inr r \<and> final_state r = Some t \<and> is_terminal t"
proof -
  have valid: "validate_priorities (monitor_event_priority st)"
    by (simp add: prio default_priorities_valid)
  obtain f where f: "check_expiry c st = Some f" "mf_to_state f = Some EXPIRED"
    and name: "mf_monitor f = ''expiry''"
    using expiry_when_due [OF policy due] by (auto simp: transition_finding_def)
  have comp: "f \<in> set (competitors c st)"
    using f expired_reachable [OF live] valid name
    by (intro competes [of check_expiry]) (auto simp: monitors_def paused_monitors_def)
  have "finding_priority st f = 70"
    using competitor_priority [OF comp f(2)] by (simp add: prio priority_of_def default_priorities_def)
  with outcome_at_least [OF valid live(1) comp] prio obtain r t
    where r: "evaluate_signal c st = Inr r" "t \<in> proposable"
      "final_state r = Some (if t = ENTRY_CONFIRMED then ACTIVE_RESEARCH else t)"
      "70 \<le> priority_of default_priorities (key_of_state t)" by auto
  then have "is_terminal t" using default_at_least_70 by blast
  moreover from this have "t \<noteq> ENTRY_CONFIRMED" by (auto simp: is_terminal_def terminal_states_def)
  ultimately show ?thesis using r by auto
qed

theorem deadline_ends_monitoring_witness:
  "\<exists>r t. evaluate_signal (example_context\<lparr>mc_as_of := 3600000000\<rparr>) default_signal_settings = Inr r \<and>
     final_state r = Some t \<and> is_terminal t"
  by (rule deadline_ends_monitoring)
    (simp_all add: example_defs is_terminal_def terminal_states_def)

definition stale_context :: monitor_context where
  "stale_context = example_context\<lparr>
     mc_signal := example_signal\<lparr>sg_state := ACTIVE_RESEARCH, sg_entry_confirmed_at := Some 0,
       sg_data_degraded_since := Some 50000000\<rparr>,
     mc_market := example_market\<lparr>mk_bbo_fresh := False, mk_book_fresh := False,
       mk_data_quality_ok := False, mk_data_quality_status := ''STALE'',
       mk_last_closed_5m_close := Some 107\<rparr>\<rparr>"

text \<open>
  The target monitor does not look at data quality under the default settings: with unhealthy data
  and a stale book, inside the grace period, an old closed candle beyond the first target still moves
  the signal to \<open>TARGET_1_REACHED\<close>.
\<close>

theorem stale_data_confirms_target:
  "\<not> market_healthy (mc_market stale_context) \<and>
   (case evaluate_signal stale_context default_signal_settings of
      Inr r \<Rightarrow> final_state r = Some TARGET_1_REACHED | Inl _ \<Rightarrow> False)"
  by code_simp

definition permissive_priorities :: "(string \<times> int) list" where
  "permissive_priorities = map (\<lambda>(k, p). (k, if k = ''TARGET_1_REACHED'' then 95 else p)) default_priorities"

text \<open>
  The priority validator lets a first target outrank an invalidation: it compares
  \<open>INVALIDATED\<close> with the second target only, so with a map it accepts the simultaneous breach of the
  invalidation level loses to the target and the signal stays live.
\<close>

theorem accepted_priorities_can_hide_invalidation:
  "validate_priorities permissive_priorities \<and>
   (case evaluate_signal breached_context
           (default_signal_settings\<lparr>monitor_event_priority := permissive_priorities\<rparr>) of
      Inr r \<Rightarrow> final_state r = Some TARGET_1_REACHED | Inl _ \<Rightarrow> False)"
  by code_simp

end
