(* ===== verification/Signal_Keys.thy ===== *)
theory Signal_Keys
  imports Signal_Machine
begin

text \<open>
  Identity of lifecycle records: the textual form of identifiers and enumeration members, the dedupe key
  of a signal (\<open>app/signals/version.py\<close>), the idempotency keys of events and updates
  (\<open>app/signals/idempotency.py\<close>) and the payloads built from them (\<open>event_builder.py\<close>,
  \<open>signal_update_builder.py\<close>).  The SHA-256 hex digest is a parameter \<open>sha\<close>.
\<close>

section \<open>Text\<close>

definition hex_char :: "nat \<Rightarrow> char" where
  "hex_char d = (if d < 10 then char_of (48 + d) else char_of (87 + d))"

fun hex_digits :: "nat \<Rightarrow> nat \<Rightarrow> string" where
  "hex_digits 0 n = []"
| "hex_digits (Suc k) n = hex_digits k (n div 16) @ [hex_char (n mod 16)]"

text \<open>\<open>str(uuid.UUID)\<close>: 32 hexadecimal digits in groups of 8, 4, 4, 4 and 12.\<close>

definition str_uuid :: "uuid \<Rightarrow> string" where
  "str_uuid u =
     (let h = hex_digits 32 u in
      take 8 h @ ''-'' @ take 4 (drop 8 h) @ ''-'' @ take 4 (drop 12 h) @ ''-'' @
      take 4 (drop 16 h) @ ''-'' @ drop 20 h)"

fun event_value :: "signal_event_type \<Rightarrow> string" where
  "event_value EV_CREATED = ''CREATED''"
| "event_value EV_ADMITTED = ''ADMITTED''"
| "event_value EV_WATCHING_ENTRY = ''WATCHING_ENTRY''"
| "event_value EV_ENTRY_CONFIRMED = ''ENTRY_CONFIRMED''"
| "event_value EV_ACTIVE_RESEARCH = ''ACTIVE_RESEARCH''"
| "event_value EV_TARGET_1_REACHED = ''TARGET_1_REACHED''"
| "event_value EV_TARGET_2_REACHED = ''TARGET_2_REACHED''"
| "event_value EV_TRAILING_RESEARCH = ''TRAILING_RESEARCH''"
| "event_value EV_TECHNICAL_EXIT = ''TECHNICAL_EXIT''"
| "event_value EV_INVALIDATED = ''INVALIDATED''"
| "event_value EV_EXPIRED = ''EXPIRED''"
| "event_value EV_SUPERSEDED = ''SUPERSEDED''"
| "event_value EV_PAUSED = ''PAUSED''"
| "event_value EV_REJECTED = ''REJECTED''"
| "event_value EV_DATA_INVALID = ''DATA_INVALID''"

fun update_value :: "signal_update_type \<Rightarrow> string" where
  "update_value UP_ADMITTED = ''ADMITTED''"
| "update_value UP_WATCHING_ENTRY = ''WATCHING_ENTRY''"
| "update_value UP_ENTRY_CONDITION_OBSERVED = ''ENTRY_CONDITION_OBSERVED''"
| "update_value UP_ENTRY_CONFIRMED = ''ENTRY_CONFIRMED''"
| "update_value UP_TARGET_1_OBSERVED = ''TARGET_1_OBSERVED''"
| "update_value UP_TARGET_2_OBSERVED = ''TARGET_2_OBSERVED''"
| "update_value UP_TECHNICAL_EXIT_CONDITION = ''TECHNICAL_EXIT_CONDITION''"
| "update_value UP_INVALIDATION_CONDITION = ''INVALIDATION_CONDITION''"
| "update_value UP_DATA_QUALITY_DEGRADED = ''DATA_QUALITY_DEGRADED''"
| "update_value UP_SESSION_TRANSITION = ''SESSION_TRANSITION''"
| "update_value UP_PLAN_CHANGED = ''PLAN_CHANGED''"
| "update_value UP_CANDIDATE_CHANGED = ''CANDIDATE_CHANGED''"
| "update_value UP_EXPIRY_WARNING = ''EXPIRY_WARNING''"
| "update_value UP_SUPERSEDE_WARNING = ''SUPERSEDE_WARNING''"
| "update_value UP_LIFECYCLE_ERROR = ''LIFECYCLE_ERROR''"

fun trigger_value :: "entry_trigger_type \<Rightarrow> string" where
  "trigger_value ZONE_TOUCH = ''ZONE_TOUCH''"
| "trigger_value ZONE_TOUCH_AND_5M_CLOSE_CONFIRM = ''ZONE_TOUCH_AND_5M_CLOSE_CONFIRM''"
| "trigger_value RECLAIM_LEVEL_CLOSE_CONFIRM = ''RECLAIM_LEVEL_CLOSE_CONFIRM''"
| "trigger_value RETEST_CONFIRM = ''RETEST_CONFIRM''"
| "trigger_value BREAKOUT_CLOSE_CONFIRM = ''BREAKOUT_CLOSE_CONFIRM''"

lemma event_value_inj [simp]: "event_value e = event_value e' \<longleftrightarrow> e = e'"
  by (cases e; cases e'; simp)

lemma update_value_inj [simp]: "update_value u = update_value u' \<longleftrightarrow> u = u'"
  by (cases u; cases u'; simp)

section \<open>Keys\<close>

definition signal_dedupe_key ::
  "(string \<Rightarrow> string) \<Rightarrow> string \<Rightarrow> string \<Rightarrow> string \<Rightarrow> string \<Rightarrow> string" where
  "signal_dedupe_key sha plan_id candidate_id model_version config_hash =
     take 24 (sha (join_bar [plan_id, candidate_id, model_version, config_hash]))"

definition digest32 :: "(string \<Rightarrow> string) \<Rightarrow> string \<Rightarrow> string" where
  "digest32 sha raw = take 32 (sha raw)"

definition event_key_material ::
  "string \<Rightarrow> string \<Rightarrow> string \<Rightarrow> int \<Rightarrow> string \<Rightarrow> string" where
  "event_key_material signal_id event_type to_state version marker =
     join_bar [signal_id, event_type, to_state, str_int version, marker]"

definition event_idempotency_key ::
  "(string \<Rightarrow> string) \<Rightarrow> string \<Rightarrow> string \<Rightarrow> string \<Rightarrow> int \<Rightarrow> string \<Rightarrow> string" where
  "event_idempotency_key sha signal_id event_type to_state version marker =
     digest32 sha (event_key_material signal_id event_type to_state version marker)"

text \<open>The start of the aggregation window, in whole seconds since the epoch.\<close>

definition window_bucket :: "datetime \<Rightarrow> float64 \<Rightarrow> int" where
  "window_bucket as_of window_seconds =
     (let epoch = truncate_float (total_seconds as_of)
      in epoch - epoch mod max 1 (truncate_float window_seconds))"

definition update_key_material :: "string \<Rightarrow> string \<Rightarrow> int \<Rightarrow> string \<Rightarrow> string" where
  "update_key_material signal_id update_type bucket marker =
     join_bar [signal_id, update_type, str_int bucket, marker]"

definition update_idempotency_key ::
  "(string \<Rightarrow> string) \<Rightarrow> string \<Rightarrow> string \<Rightarrow> datetime \<Rightarrow> float64 \<Rightarrow> string \<Rightarrow> string" where
  "update_idempotency_key sha signal_id update_type as_of window_seconds marker =
     digest32 sha (update_key_material signal_id update_type
       (window_bucket as_of window_seconds) marker)"

section \<open>Payloads\<close>

record event_row =
  ev_signal_id :: uuid
  ev_event_type :: signal_event_type
  ev_from_state :: "signal_state option"
  ev_to_state :: signal_state
  ev_state_version :: int
  ev_priority :: "int option"
  ev_idempotency_key :: string
  ev_reason :: "reason option"
  ev_schema :: string
  ev_correlation_id :: string
  ev_as_of :: datetime

definition build_transition_event ::
  "(string \<Rightarrow> string) \<Rightarrow> uuid \<Rightarrow> transition_step \<Rightarrow> int \<Rightarrow> string \<Rightarrow> datetime \<Rightarrow> string \<Rightarrow> event_row" where
  "build_transition_event sha signal_id step version schema as_of correlation_id =
     \<lparr>ev_signal_id = signal_id, ev_event_type = ts_event_type step,
      ev_from_state = Some (ts_from_state step), ev_to_state = ts_to_state step,
      ev_state_version = version + 1, ev_priority = Some (ts_priority step),
      ev_idempotency_key = event_idempotency_key sha (str_uuid signal_id)
        (event_value (ts_event_type step)) (state_value (ts_to_state step)) version [],
      ev_reason = Some (ts_reason step), ev_schema = schema, ev_correlation_id = correlation_id,
      ev_as_of = as_of\<rparr>"

record update_payload =
  up_signal_id :: uuid
  up_update_type :: signal_update_type
  up_idempotency_key :: string
  up_detail :: string
  up_schema :: string
  up_as_of :: datetime

definition build_update ::
  "(string \<Rightarrow> string) \<Rightarrow> uuid \<Rightarrow> signal_update_type \<Rightarrow> string \<Rightarrow> string \<Rightarrow> datetime \<Rightarrow> float64 \<Rightarrow>
     update_payload" where
  "build_update sha signal_id update_type detail schema as_of window =
     \<lparr>up_signal_id = signal_id, up_update_type = update_type,
      up_idempotency_key = update_idempotency_key sha (str_uuid signal_id)
        (update_value update_type) as_of window [],
      up_detail = ''Research Lifecycle: '' @ detail, up_schema = schema, up_as_of = as_of\<rparr>"

section \<open>Injectivity of the textual forms\<close>

lemma hex_char_inj: "i < 16 \<Longrightarrow> j < 16 \<Longrightarrow> hex_char i = hex_char j \<longleftrightarrow> i = j"
  by (auto simp: hex_char_def dest!: arg_cong [where f = "of_char :: char \<Rightarrow> nat"] split: if_splits)

lemma hex_char_plain: "d < 16 \<Longrightarrow> hex_char d \<noteq> CHR ''-'' \<and> hex_char d \<noteq> CHR ''|''"
  by (auto simp: hex_char_def dest!: arg_cong [where f = "of_char :: char \<Rightarrow> nat"] split: if_splits)

lemma hex_digits_length [simp]: "length (hex_digits k n) = k"
  by (induction k arbitrary: n) auto

lemma hex_digits_plain: "c \<in> set (hex_digits k n) \<Longrightarrow> c \<noteq> CHR ''-'' \<and> c \<noteq> CHR ''|''"
proof (induction k arbitrary: n)
  case (Suc k)
  then show ?case using hex_char_plain [of "n mod 16"] by auto
qed simp

lemma hex_digits_inj: "m < 16 ^ k \<Longrightarrow> n < 16 ^ k \<Longrightarrow> hex_digits k m = hex_digits k n \<Longrightarrow> m = n"
proof (induction k arbitrary: m n)
  case (Suc k)
  then have "m div 16 = n div 16" by (simp add: less_mult_imp_div_less)
  moreover have "m mod 16 = n mod 16" using Suc.prems hex_char_inj [of "m mod 16" "n mod 16"] by simp
  ultimately show ?case by (metis div_mult_mod_eq)
qed simp

lemma str_uuid_digits: "filter (\<lambda>c. c \<noteq> CHR ''-'') (str_uuid u) = hex_digits 32 u"
proof -
  let ?h = "hex_digits 32 u"
  have plain: "filter (\<lambda>c. c \<noteq> CHR ''-'') xs = xs" if "set xs \<subseteq> set ?h" for xs
    using that hex_digits_plain by (auto simp: filter_id_conv)
  have "take 8 ?h @ take 4 (drop 8 ?h) @ take 4 (drop 12 ?h) @ take 4 (drop 16 ?h) @ drop 20 ?h = ?h"
    using append_take_drop_id [of 8 ?h] append_take_drop_id [of 4 "drop 8 ?h"]
      append_take_drop_id [of 4 "drop 12 ?h"] append_take_drop_id [of 4 "drop 16 ?h"]
    by (simp del: append_take_drop_id)
  moreover have "set (take i ?h) \<subseteq> set ?h" "set (drop i ?h) \<subseteq> set ?h"
    "set (take j (drop i ?h)) \<subseteq> set ?h" for i j
    by (auto dest: in_set_takeD in_set_dropD)
  ultimately show ?thesis by (simp add: str_uuid_def Let_def plain)
qed

lemma str_uuid_inj: "u < 16 ^ 32 \<Longrightarrow> v < 16 ^ 32 \<Longrightarrow> str_uuid u = str_uuid v \<Longrightarrow> u = v"
  by (metis hex_digits_inj str_uuid_digits)

lemma str_uuid_plain: "CHR ''|'' \<notin> set (str_uuid u)"
  using hex_digits_plain by (auto simp: str_uuid_def Let_def dest!: in_set_takeD in_set_dropD)

lemma value_plain:
  "CHR ''|'' \<notin> set (event_value e)" "CHR ''|'' \<notin> set (state_value s)" "CHR ''|'' \<notin> set (update_value u)"
  by ((cases e; simp), (cases s; simp), (cases u; simp))

text \<open>The value of a decimal string, least significant digit first.\<close>

definition digits_value :: "string \<Rightarrow> nat" where
  "digits_value cs = foldr (\<lambda>c n. (of_char c - 48) + 10 * n) cs 0"

lemma digits_value_rev: "n < 10 ^ Suc k \<Longrightarrow> digits_value (digits_rev (Suc k) n) = n"
proof (induction k arbitrary: n)
  case (Suc k)
  have "n div 10 < 10 ^ Suc k" using Suc.prems by (simp add: less_mult_imp_div_less mult.commute)
  with Suc.IH [OF this] show ?case by (simp add: digits_value_def)
qed (simp add: digits_value_def)

lemma str_nat_inj: "str_nat m = str_nat n \<longleftrightarrow> m = n"
proof -
  have "k < 10 ^ Suc k" for k :: nat
    by (induction k) auto
  then have "digits_value (rev (str_nat k)) = k" for k
    using digits_value_rev [of k k] by (simp add: str_nat_def del: digits_rev.simps)
  then show ?thesis by metis
qed

lemma str_int_plain: "CHR ''|'' \<notin> set (str_int i)"
  using str_int_chars [of "CHR ''|''" i] by auto

lemma str_nat_no_minus: "str_nat n \<noteq> CHR ''-'' # xs"
proof
  assume "str_nat n = CHR ''-'' # xs"
  then have "CHR ''-'' \<in> set (digits_rev (Suc n) n)" by (metis list.set_intros(1) set_rev str_nat_def)
  then show False using digits_rev_char [of "CHR ''-''" "Suc n" n] by auto
qed

lemma str_int_inj: "str_int i = str_int j \<longleftrightarrow> i = j"
  using str_nat_no_minus str_nat_no_minus [symmetric]
  by (auto simp: str_int_def str_nat_inj split: if_splits)

lemma bar_cancel:
  "CHR ''|'' \<notin> set a \<Longrightarrow> CHR ''|'' \<notin> set b \<Longrightarrow> a @ CHR ''|'' # x = b @ CHR ''|'' # y \<longleftrightarrow> a = b \<and> x = y"
proof (induction a arbitrary: b)
  case Nil then show ?case by (cases b) auto
next
  case (Cons c a) then show ?case by (cases b) auto
qed

lemma join_bar_inj:
  assumes "length xs = length ys" "\<forall>s \<in> set (butlast xs) \<union> set (butlast ys). CHR ''|'' \<notin> set s"
    and "join_bar xs = join_bar ys"
  shows "xs = ys"
  using assms
proof (induction xs ys rule: list_induct2)
  case (Cons x xs y ys)
  then show ?case
    by (cases xs; cases ys) (auto simp: bar_cancel)
qed simp

lemma event_key_material_inj:
  assumes "u < 16 ^ 32" "v < 16 ^ 32"
    and "event_key_material (str_uuid u) (event_value e) (state_value s) i m
       = event_key_material (str_uuid v) (event_value e') (state_value s') j m'"
  shows "u = v \<and> e = e' \<and> s = s' \<and> i = j \<and> m = m'"
  using join_bar_inj [OF _ _ assms(3) [unfolded event_key_material_def]] assms(1,2)
    str_uuid_inj [OF assms(1,2)]
  by (simp add: str_uuid_plain value_plain str_int_plain str_int_inj)

section \<open>Properties\<close>

text \<open>
  An event's idempotency key identifies the logical transition: unless SHA-256 collides on the two
  inputs, two keys agree exactly when signal, event type, target state and the version the transition
  was computed against agree.  So a retry deduplicates and two different transitions never do.
\<close>

theorem event_key_identifies_transition:
  assumes "u < 16 ^ 32" "v < 16 ^ 32"
    and "inj_on (digest32 sha)
      {event_key_material (str_uuid u) (event_value e) (state_value s) i [],
       event_key_material (str_uuid v) (event_value e') (state_value s') j []}"
  shows "event_idempotency_key sha (str_uuid u) (event_value e) (state_value s) i []
       = event_idempotency_key sha (str_uuid v) (event_value e') (state_value s') j [] \<longleftrightarrow>
     u = v \<and> e = e' \<and> s = s' \<and> i = j"
proof -
  have "event_idempotency_key sha (str_uuid u) (event_value e) (state_value s) i []
       = event_idempotency_key sha (str_uuid v) (event_value e') (state_value s') j [] \<longleftrightarrow>
     event_key_material (str_uuid u) (event_value e) (state_value s) i []
       = event_key_material (str_uuid v) (event_value e') (state_value s') j []"
    unfolding event_idempotency_key_def using assms(3) by (rule inj_on_eq_iff) simp_all
  then show ?thesis using event_key_material_inj [OF assms(1,2)] by blast
qed

text \<open>A stand-in digest for the examples: the last characters of the input, reversed.\<close>

definition example_sha :: "string \<Rightarrow> string" where
  "example_sha s = rev s"

theorem event_key_identifies_transition_witness:
  "event_idempotency_key example_sha (str_uuid 7) ''EXPIRED'' ''EXPIRED'' 2 []
     \<noteq> event_idempotency_key example_sha (str_uuid 7) ''EXPIRED'' ''EXPIRED'' 3 []"
proof -
  have "digest32 example_sha (event_key_material (str_uuid 7) (event_value EV_EXPIRED) (state_value EXPIRED) 2 [])
      \<noteq> digest32 example_sha (event_key_material (str_uuid 7) (event_value EV_EXPIRED) (state_value EXPIRED) 3 [])"
    by code_simp
  then have "inj_on (digest32 example_sha)
      {event_key_material (str_uuid 7) (event_value EV_EXPIRED) (state_value EXPIRED) 2 [],
       event_key_material (str_uuid 7) (event_value EV_EXPIRED) (state_value EXPIRED) 3 []}"
    by (auto simp: inj_on_def)
  from event_key_identifies_transition [OF _ _ this] show ?thesis by simp
qed

definition epoch_second :: "datetime \<Rightarrow> int" where
  "epoch_second t = truncate_float (total_seconds t)"

definition window_length :: "float64 \<Rightarrow> int" where
  "window_length w = max 1 (truncate_float w)"

lemma window_bucket_eq:
  "window_bucket t w = epoch_second t div window_length w * window_length w"
  by (simp add: window_bucket_def epoch_second_def window_length_def Let_def
      minus_mod_eq_div_mult)

lemma window_bucket_iff:
  "window_bucket t w = window_bucket t' w \<longleftrightarrow>
     epoch_second t div window_length w = epoch_second t' div window_length w"
  unfolding window_bucket_eq by (auto simp: window_length_def max_def)

text \<open>
  Repeated observations aggregate by window: unless SHA-256 collides, two update keys of one signal
  and type agree exactly when both instants fall into the same window of \<open>max(1, int(window))\<close> seconds.
\<close>

theorem update_key_identifies_window:
  assumes "inj_on (digest32 sha)
      {update_key_material (str_uuid u) (update_value ty) (window_bucket t w) [],
       update_key_material (str_uuid u) (update_value ty) (window_bucket t' w) []}"
  shows "update_idempotency_key sha (str_uuid u) (update_value ty) t w []
       = update_idempotency_key sha (str_uuid u) (update_value ty) t' w [] \<longleftrightarrow>
     epoch_second t div window_length w = epoch_second t' div window_length w"
proof -
  have "update_idempotency_key sha (str_uuid u) (update_value ty) t w []
       = update_idempotency_key sha (str_uuid u) (update_value ty) t' w [] \<longleftrightarrow>
     update_key_material (str_uuid u) (update_value ty) (window_bucket t w) []
       = update_key_material (str_uuid u) (update_value ty) (window_bucket t' w) []"
    unfolding update_idempotency_key_def using assms by (rule inj_on_eq_iff) simp_all
  also have "\<dots> \<longleftrightarrow> window_bucket t w = window_bucket t' w"
    by (simp add: update_key_material_def bar_cancel str_uuid_plain value_plain str_int_plain
        str_int_inj)
  finally show ?thesis by (simp add: window_bucket_iff)
qed

theorem update_key_identifies_window_witness:
  "update_idempotency_key example_sha (str_uuid 7) ''EXPIRY_WARNING'' 899000000 900 []
       \<noteq> update_idempotency_key example_sha (str_uuid 7) ''EXPIRY_WARNING'' 900000000 900 []"
proof -
  have "digest32 example_sha (update_key_material (str_uuid 7) (update_value UP_EXPIRY_WARNING)
          (window_bucket 899000000 900) [])
      \<noteq> digest32 example_sha (update_key_material (str_uuid 7) (update_value UP_EXPIRY_WARNING)
          (window_bucket 900000000 900) [])" by code_simp
  then have "inj_on (digest32 example_sha)
      {update_key_material (str_uuid 7) (update_value UP_EXPIRY_WARNING) (window_bucket 899000000 900) [],
       update_key_material (str_uuid 7) (update_value UP_EXPIRY_WARNING) (window_bucket 900000000 900) []}"
    by (auto simp: inj_on_def)
  moreover have "epoch_second 899000000 div window_length 900 \<noteq> epoch_second 900000000 div window_length 900"
    by code_simp
  ultimately show ?thesis
    using update_key_identifies_window [of example_sha 7 UP_EXPIRY_WARNING 899000000 900 900000000]
    by simp
qed

end
