(* ===== verification/Signal_Admission.thy ===== *)
theory Signal_Admission
  imports Signal_Keys Signal_Triggers
begin

text \<open>
  Admission of a research plan into the lifecycle (\<open>app/signals/admission.py\<close>), the instance built from
  an admitted plan (\<open>app/signals/lifecycle.py\<close>) and the rejection records
  (\<open>app/signals/rejection.py\<close>).  The fresh identifier of a new record is an argument.
\<close>

section \<open>The gates\<close>

record admission_context =
  ac_plan :: plan_snapshot
  ac_candidate :: "candidate_state_snapshot option"
  ac_market :: market_state_snapshot
  ac_session_state :: string
  ac_session_allowed :: bool
  ac_watchlist_active :: bool
  ac_market_quality_score :: "int option"
  ac_bot_paused :: bool
  ac_active_signal_count :: int
  ac_duplicate_exists :: bool
  ac_instrument_snapshot_age_seconds :: "float64 option"
  ac_as_of :: datetime

text \<open>Python's \<open>f"{x:.0f}"\<close> for the positive limits of the settings.\<close>

definition fixed0 :: "float64 \<Rightarrow> string" where
  "fixed0 x = str_int (round_half_even x)"

definition rejected :: "signal_rejection_code \<Rightarrow> string \<Rightarrow> admission_decision" where
  "rejected code detail = \<lparr>ad_admitted = False, ad_code = Some code, ad_detail = detail,
     ad_trigger = None, ad_approximation_flags = []\<rparr>"

definition admit_levels :: "admission_context \<Rightarrow> signal_settings \<Rightarrow> admission_decision" where
  "admit_levels c st =
     (let plan = ac_plan c in
      if ac_duplicate_exists c then
        rejected RC_SIGNAL_DUPLICATE
          ''an active lifecycle signal for this plan/config context already exists''
      else if lifecycle_max_active_per_instrument st \<le> ac_active_signal_count c then
        rejected RC_ACTIVE_SIGNAL_LIMIT_REACHED
          (''active research signal limit ('' @ str_int (lifecycle_max_active_per_instrument st) @ '') reached'')
      else if ps_target_prices plan = [] \<or> ps_entry_reference_price plan \<le> 0 then
        rejected RC_ADMISSION_CONFIGURATION_INVALID ''plan reference levels incomplete''
      else
        let trigger = default_trigger_for (ps_candidate_type plan) st in
        \<lparr>ad_admitted = True, ad_code = None,
         ad_detail = ''admitted with entry trigger '' @ trigger_value trigger,
         ad_trigger = Some trigger,
         ad_approximation_flags = (if trigger \<noteq> ZONE_TOUCH then [candle_approximation_flag] else [])\<rparr>)"

definition admit_market :: "admission_context \<Rightarrow> signal_settings \<Rightarrow> admission_decision" where
  "admit_market c st =
     (let market = ac_market c;
          quality_ok = mk_data_quality_ok market \<or>
            (lifecycle_allow_degraded_data st \<and> mk_data_quality_status market = ''DEGRADED'') in
      if lifecycle_require_active_watchlist st \<and> \<not> ac_watchlist_active c then
        rejected RC_WATCHLIST_NOT_ACTIVE ''instrument not on active watchlist''
      else if lifecycle_require_allowed_session st \<and> \<not> ac_session_allowed c then
        rejected RC_SESSION_NOT_ALLOWED (''session '' @ ac_session_state c @ '' not allowed'')
      else if (case ac_market_quality_score c of None \<Rightarrow> True
               | Some q \<Rightarrow> q < lifecycle_min_market_quality_score st) then
        rejected RC_MARKET_QUALITY_INSUFFICIENT
          (''market quality '' @
           (case ac_market_quality_score c of None \<Rightarrow> ''None'' | Some q \<Rightarrow> str_int q) @
           '' below '' @ str_int (lifecycle_min_market_quality_score st))
      else if lifecycle_require_healthy_data st \<and> \<not> quality_ok then
        rejected RC_DATA_QUALITY_INSUFFICIENT (''data quality '' @ mk_data_quality_status market)
      else if lifecycle_require_fresh_orderbook st \<and>
              (\<not> mk_book_fresh market \<or> mk_book_resyncing market \<or> \<not> mk_bbo_fresh market) then
        rejected RC_ORDERBOOK_NOT_FRESH ''orderbook/BBO not fresh or resyncing''
      else if (case ac_instrument_snapshot_age_seconds c of None \<Rightarrow> True
               | Some age \<Rightarrow> lifecycle_snapshot_max_age_seconds st < age) then
        rejected RC_INSTRUMENT_SNAPSHOT_STALE
          (''instrument snapshot missing or older than '' @
           fixed0 (lifecycle_snapshot_max_age_seconds st) @ ''s'')
      else admit_levels c st)"

definition admit_candidate ::
  "admission_context \<Rightarrow> candidate_state_snapshot \<Rightarrow> signal_settings \<Rightarrow> admission_decision" where
  "admit_candidate c candidate st =
     (let now = ac_as_of c in
      if cs_state candidate = ''SUPERSEDED'' then
        rejected RC_CANDIDATE_SUPERSEDED ''candidate superseded''
      else if cs_state candidate = ''EXPIRED'' \<or>
              (case cs_expiry_at candidate of None \<Rightarrow> False | Some e \<Rightarrow> e \<le> now) then
        rejected RC_CANDIDATE_EXPIRED ''candidate expired''
      else if lifecycle_require_confirmed_candidate st \<and> cs_state candidate \<noteq> ''CONFIRMED'' then
        rejected RC_CANDIDATE_NOT_CONFIRMED (''candidate state '' @ cs_state candidate)
      else if (case cs_as_of candidate of None \<Rightarrow> False
               | Some t \<Rightarrow> lifecycle_candidate_max_age_seconds st < total_seconds (now - t)) then
        rejected RC_CANDIDATE_SNAPSHOT_STALE
          (''candidate snapshot older than '' @ fixed0 (lifecycle_candidate_max_age_seconds st) @ ''s'')
      else admit_market c st)"

definition admit :: "admission_context \<Rightarrow> signal_settings \<Rightarrow> admission_decision" where
  "admit c st =
     (let plan = ac_plan c; now = ac_as_of c in
      if ac_bot_paused c then rejected RC_BOT_PAUSED ''global paused mode - no admission''
      else if lifecycle_require_eligible_plan st \<and> ps_status plan \<noteq> ''ELIGIBLE'' then
        rejected RC_PLAN_NOT_ELIGIBLE (''plan status '' @ ps_status plan)
      else if ps_expiry_at plan \<le> now then rejected RC_PLAN_EXPIRED ''plan already expired''
      else if lifecycle_plan_max_age_seconds st < total_seconds (now - ps_as_of plan) then
        rejected RC_PLAN_SNAPSHOT_STALE
          (''plan snapshot older than '' @ fixed0 (lifecycle_plan_max_age_seconds st) @ ''s'')
      else case ac_candidate c of
        None \<Rightarrow> rejected RC_CANDIDATE_NOT_CONFIRMED ''candidate not loadable''
      | Some candidate \<Rightarrow> admit_candidate c candidate st)"

lemmas admit_defs = admit_def admit_candidate_def admit_market_def admit_levels_def

section \<open>The new instance\<close>

record reference_levels =
  rl_label :: string
  rl_entry_zone :: "float64 list"
  rl_entry_reference_price :: float64
  rl_entry_basis :: string
  rl_invalidation_price :: float64
  rl_invalidation_basis :: string
  rl_target_prices :: "float64 list"
  rl_entry_trigger :: string
  rl_plan_as_of :: datetime
  rl_risk_config_hash :: string
  rl_cost_config_hash :: string

record new_signal =
  ns_signal_id :: uuid
  ns_plan_id :: uuid
  ns_candidate_id :: uuid
  ns_state :: signal_state
  ns_instrument_pk :: int
  ns_instrument_id :: int
  ns_symbol :: string
  ns_asset_class :: string
  ns_candidate_type :: string
  ns_direction :: string
  ns_entry_low :: float64
  ns_entry_high :: float64
  ns_entry_reference_price :: float64
  ns_invalidation_price :: float64
  ns_target_prices :: "float64 list"
  ns_entry_trigger :: entry_trigger_type
  ns_expires_at :: datetime
  ns_admission_at :: datetime
  ns_dedupe_key :: string
  ns_correlation_id :: string
  ns_lifecycle_model_name :: string
  ns_lifecycle_model_version :: string
  ns_lifecycle_config_hash :: string
  ns_strategy_version :: string
  ns_risk_model_version :: string
  ns_cost_model_version :: string
  ns_fee_schedule_version :: string
  ns_approximation_warnings :: "string list"
  ns_reference_snapshot :: reference_levels

definition new_signal_from_plan ::
  "(string \<Rightarrow> string) \<Rightarrow> uuid \<Rightarrow> plan_snapshot \<Rightarrow> entry_trigger_type \<Rightarrow> signal_settings \<Rightarrow> string \<Rightarrow>
     string list \<Rightarrow> datetime \<Rightarrow> string \<Rightarrow> new_signal" where
  "new_signal_from_plan sha fresh plan trigger st config_hash flags now correlation_id =
     \<lparr>ns_signal_id = fresh, ns_plan_id = ps_plan_id plan, ns_candidate_id = ps_candidate_id plan,
      ns_state = WATCHING_ENTRY, ns_instrument_pk = ps_instrument_pk plan,
      ns_instrument_id = ps_instrument_id plan, ns_symbol = ps_symbol plan,
      ns_asset_class = ps_asset_class plan, ns_candidate_type = ps_candidate_type plan,
      ns_direction = ps_direction plan, ns_entry_low = ps_entry_low plan,
      ns_entry_high = ps_entry_high plan, ns_entry_reference_price = ps_entry_reference_price plan,
      ns_invalidation_price = ps_invalidation_price plan, ns_target_prices = ps_target_prices plan,
      ns_entry_trigger = trigger, ns_expires_at = ps_expiry_at plan, ns_admission_at = now,
      ns_dedupe_key = signal_dedupe_key sha (str_uuid (ps_plan_id plan))
        (str_uuid (ps_candidate_id plan)) (lifecycle_model_version st) config_hash,
      ns_correlation_id = correlation_id, ns_lifecycle_model_name = lifecycle_model_name st,
      ns_lifecycle_model_version = lifecycle_model_version st,
      ns_lifecycle_config_hash = config_hash, ns_strategy_version = ps_strategy_version plan,
      ns_risk_model_version = ps_risk_model_version plan,
      ns_cost_model_version = ps_cost_model_version plan,
      ns_fee_schedule_version = ps_fee_schedule_version plan, ns_approximation_warnings = flags,
      ns_reference_snapshot =
        \<lparr>rl_label = ''Interne Modell-Referenzwerte - keine Handelsanweisung'',
         rl_entry_zone = [ps_entry_low plan, ps_entry_high plan],
         rl_entry_reference_price = ps_entry_reference_price plan,
         rl_entry_basis = ps_entry_basis plan, rl_invalidation_price = ps_invalidation_price plan,
         rl_invalidation_basis = ps_invalidation_basis plan,
         rl_target_prices = ps_target_prices plan, rl_entry_trigger = trigger_value trigger,
         rl_plan_as_of = ps_as_of plan, rl_risk_config_hash = ps_risk_config_hash plan,
         rl_cost_config_hash = ps_cost_config_hash plan\<rparr>\<rparr>"

definition snapshot_from_new_signal :: "new_signal \<Rightarrow> signal_snapshot" where
  "snapshot_from_new_signal n =
     \<lparr>sg_signal_id = ns_signal_id n, sg_plan_id = ns_plan_id n, sg_candidate_id = ns_candidate_id n,
      sg_state = ns_state n, sg_state_version = 2, sg_direction = ns_direction n,
      sg_candidate_type = ns_candidate_type n, sg_instrument_pk = ns_instrument_pk n,
      sg_instrument_id = ns_instrument_id n, sg_symbol = ns_symbol n,
      sg_asset_class = ns_asset_class n, sg_entry_low = ns_entry_low n,
      sg_entry_high = ns_entry_high n, sg_entry_reference_price = ns_entry_reference_price n,
      sg_invalidation_price = ns_invalidation_price n, sg_target_prices = ns_target_prices n,
      sg_entry_trigger = ns_entry_trigger n, sg_expires_at = ns_expires_at n,
      sg_watching_entry_at = Some (ns_admission_at n), sg_entry_confirmed_at = None,
      sg_data_degraded_since = None, sg_dedupe_key = ns_dedupe_key n,
      sg_correlation_id = ns_correlation_id n\<rparr>"

section \<open>Rejection records\<close>

record signal_rejection =
  rj_rejection_id :: uuid
  rj_plan_id :: "uuid option"
  rj_candidate_id :: "uuid option"
  rj_signal_id :: "uuid option"
  rj_instrument_pk :: int
  rj_symbol :: string
  rj_as_of :: datetime
  rj_primary_code :: signal_rejection_code
  rj_codes :: "signal_rejection_code list"
  rj_detail :: string
  rj_lifecycle_model_version :: string
  rj_lifecycle_config_hash :: string

definition build_admission_rejection ::
  "uuid \<Rightarrow> plan_snapshot \<Rightarrow> signal_rejection_code \<Rightarrow> string \<Rightarrow> string \<Rightarrow> string \<Rightarrow> datetime \<Rightarrow> signal_rejection"
where
  "build_admission_rejection fresh plan code detail model_version config_hash as_of =
     \<lparr>rj_rejection_id = fresh, rj_plan_id = Some (ps_plan_id plan),
      rj_candidate_id = Some (ps_candidate_id plan), rj_signal_id = None,
      rj_instrument_pk = ps_instrument_pk plan, rj_symbol = ps_symbol plan, rj_as_of = as_of,
      rj_primary_code = code, rj_codes = [code], rj_detail = detail,
      rj_lifecycle_model_version = model_version, rj_lifecycle_config_hash = config_hash\<rparr>"

definition build_lifecycle_rejection ::
  "uuid \<Rightarrow> uuid \<Rightarrow> uuid option \<Rightarrow> uuid option \<Rightarrow> int \<Rightarrow> string \<Rightarrow> signal_rejection_code \<Rightarrow> string \<Rightarrow>
     string \<Rightarrow> string \<Rightarrow> datetime \<Rightarrow> signal_rejection" where
  "build_lifecycle_rejection fresh signal_id plan_id candidate_id pk symbol code detail
     model_version config_hash as_of =
     \<lparr>rj_rejection_id = fresh, rj_plan_id = plan_id, rj_candidate_id = candidate_id,
      rj_signal_id = Some signal_id, rj_instrument_pk = pk, rj_symbol = symbol, rj_as_of = as_of,
      rj_primary_code = code, rj_codes = [code], rj_detail = detail,
      rj_lifecycle_model_version = model_version, rj_lifecycle_config_hash = config_hash\<rparr>"

section \<open>The order of the candidate gates\<close>

lemma rejected_simps [simp]:
  "ad_admitted (rejected k d) = False" "ad_code (rejected k d) = Some k"
  "ad_trigger (rejected k d) = None" "ad_approximation_flags (rejected k d) = []"
  by (simp_all add: rejected_def)

text \<open>
  What an admitted plan passed, of the gates on the plan and its candidate and the session.
\<close>

lemma admitted_if: "ad_admitted (if b then rejected k d else x) \<longleftrightarrow> \<not> b \<and> ad_admitted x"
  by simp

lemma admitted_levels:
  assumes "ad_admitted (admit_levels c st)"
  shows "ad_trigger (admit_levels c st) = Some (default_trigger_for (ps_candidate_type (ac_plan c)) st)"
  using assms by (auto simp: admit_levels_def Let_def admitted_if)

lemma admitted_market:
  assumes "ad_admitted (admit_market c st)"
  shows "admit_market c st = admit_levels c st" "lifecycle_require_allowed_session st \<longrightarrow> ac_session_allowed c"
  using assms unfolding admit_market_def Let_def admitted_if
  by (auto simp only: if_False simp_thms)

lemma admitted_candidate:
  assumes "ad_admitted (admit_candidate c cd st)"
  shows "admit_candidate c cd st = admit_market c st"
    "cs_state cd \<noteq> ''SUPERSEDED''" "cs_state cd \<noteq> ''EXPIRED''"
    "lifecycle_require_confirmed_candidate st \<longrightarrow> cs_state cd = ''CONFIRMED''"
  using assms unfolding admit_candidate_def Let_def admitted_if
  by (auto simp only: if_False simp_thms)

lemma admitted_plan:
  assumes "ad_admitted (admit c st)"
  shows "\<not> ac_bot_paused c" "lifecycle_require_eligible_plan st \<longrightarrow> ps_status (ac_plan c) = ''ELIGIBLE''"
    "ac_as_of c < ps_expiry_at (ac_plan c)"
    "\<exists>cd. ac_candidate c = Some cd \<and> admit c st = admit_candidate c cd st"
  using assms unfolding admit_def Let_def admitted_if
  by (cases "ac_candidate c"; auto simp only: if_False simp_thms not_le option.case rejected_simps)+

lemma admitted_passes:
  assumes "ad_admitted (admit c st)"
  shows "\<exists>cd. ac_candidate c = Some cd \<and> cs_state cd \<notin> {''SUPERSEDED'', ''EXPIRED''} \<and>
      (lifecycle_require_confirmed_candidate st \<longrightarrow> cs_state cd = ''CONFIRMED'')"
    and "lifecycle_require_allowed_session st \<longrightarrow> ac_session_allowed c"
    and "ad_trigger (admit c st) = Some (default_trigger_for (ps_candidate_type (ac_plan c)) st)"
proof -
  obtain cd where cd: "ac_candidate c = Some cd" "admit c st = admit_candidate c cd st"
    using admitted_plan(4) [OF assms] by blast
  with assms have k: "ad_admitted (admit_candidate c cd st)" by simp
  note k' = admitted_candidate [OF this]
  with k have m: "ad_admitted (admit_market c st)" by simp
  note m' = admitted_market [OF this]
  show "\<exists>cd. ac_candidate c = Some cd \<and> cs_state cd \<notin> {''SUPERSEDED'', ''EXPIRED''} \<and>
      (lifecycle_require_confirmed_candidate st \<longrightarrow> cs_state cd = ''CONFIRMED'')"
    using cd(1) k' by blast
  show "lifecycle_require_allowed_session st \<longrightarrow> ac_session_allowed c" by (rule m'(2))
  show "ad_trigger (admit c st) = Some (default_trigger_for (ps_candidate_type (ac_plan c)) st)"
    using admitted_levels [of c st] m m'(1) k'(1) cd(2) by simp
qed

text \<open>
  A candidate that is both superseded or expired and not confirmed is rejected as superseded or expired:
  the check of the confirmation comes last of the three.
\<close>

lemma unconfirmed_checked_last:
  assumes "cs_state cd \<in> {''SUPERSEDED'', ''EXPIRED''}"
  shows "ad_code (admit_candidate c cd st) \<in> {Some RC_CANDIDATE_SUPERSEDED, Some RC_CANDIDATE_EXPIRED}"
  using assms by (auto simp: admit_candidate_def Let_def)

end
