(* ===== verification/Signal_Repository.thy ===== *)
theory Signal_Repository
  imports Signal_Admission
begin

text \<open>
  The tables of the lifecycle and the operations on them
  (\<open>app/repositories/signal_lifecycle_repository.py\<close>, \<open>signal_event_repository.py\<close>,
  \<open>signal_update_repository.py\<close>, \<open>signal_rejection_repository.py\<close>; columns and constraints in \<open>orm.py\<close>).
  A table is the list of its rows in insertion order, a statement a function on it, and a unique
  constraint a test that makes the insertion fail.  Each method runs without interleaving; the faults of
  a database connection are an argument.
\<close>

section \<open>Tables\<close>

text \<open>
  A row of \<open>signal_lifecycles\<close>: the columns copied from the admitted instance, never written again, are
  kept together as \<open>lr_new\<close>.
\<close>

record lifecycle_row =
  lr_new :: new_signal
  lr_state :: signal_state
  lr_state_version :: int
  lr_watching_entry_at :: "datetime option"
  lr_entry_confirmed_at :: "datetime option"
  lr_active_research_at :: "datetime option"
  lr_terminal_at :: "datetime option"
  lr_last_evaluated_at :: "datetime option"
  lr_last_market_data_at :: "datetime option"
  lr_last_data_quality_status :: string
  lr_last_session_state :: string
  lr_last_event_type :: "signal_event_type option"
  lr_data_degraded_since :: "datetime option"
  lr_active_key :: "string option"
  lr_lease_owner :: "string option"
  lr_lease_expires_at :: "datetime option"
  lr_created_at :: datetime
  lr_updated_at :: datetime

record update_row =
  ur_signal_id :: uuid
  ur_update_type :: signal_update_type
  ur_idempotency_key :: string
  ur_detail :: string
  ur_schema :: string
  ur_count :: int
  ur_first_as_of :: datetime
  ur_last_as_of :: datetime

record rejection_row =
  rr_rejection :: signal_rejection
  rr_context_key :: string
  rr_window_bucket :: string
  rr_detail :: string
  rr_count :: int
  rr_first_as_of :: datetime
  rr_last_as_of :: datetime

record signal_db =
  db_signals :: "lifecycle_row list"
  db_events :: "event_row list"
  db_updates :: "update_row list"
  db_rejections :: "rejection_row list"

definition empty_db :: signal_db where
  "empty_db = \<lparr>db_signals = [], db_events = [], db_updates = [], db_rejections = []\<rparr>"

definition lr_id :: "lifecycle_row \<Rightarrow> uuid" where
  "lr_id r = ns_signal_id (lr_new r)"

definition lr_dedupe_key :: "lifecycle_row \<Rightarrow> string" where
  "lr_dedupe_key r = ns_dedupe_key (lr_new r)"

text \<open>The view of a row the lifecycle core works on (\<open>signal_snapshot_from_record\<close>).\<close>

definition signal_snapshot_from_record :: "lifecycle_row \<Rightarrow> signal_snapshot" where
  "signal_snapshot_from_record r =
     (let n = lr_new r in
      \<lparr>sg_signal_id = ns_signal_id n, sg_plan_id = ns_plan_id n, sg_candidate_id = ns_candidate_id n,
       sg_state = lr_state r, sg_state_version = lr_state_version r, sg_direction = ns_direction n,
       sg_candidate_type = ns_candidate_type n, sg_instrument_pk = ns_instrument_pk n,
       sg_instrument_id = ns_instrument_id n, sg_symbol = ns_symbol n,
       sg_asset_class = ns_asset_class n, sg_entry_low = ns_entry_low n,
       sg_entry_high = ns_entry_high n, sg_entry_reference_price = ns_entry_reference_price n,
       sg_invalidation_price = ns_invalidation_price n, sg_target_prices = ns_target_prices n,
       sg_entry_trigger = ns_entry_trigger n, sg_expires_at = ns_expires_at n,
       sg_watching_entry_at = lr_watching_entry_at r, sg_entry_confirmed_at = lr_entry_confirmed_at r,
       sg_data_degraded_since = lr_data_degraded_since r, sg_dedupe_key = ns_dedupe_key n,
       sg_correlation_id = ns_correlation_id n\<rparr>)"

section \<open>Creation\<close>

definition new_row :: "new_signal \<Rightarrow> lifecycle_row" where
  "new_row n =
     \<lparr>lr_new = n, lr_state = ns_state n, lr_state_version = 2,
      lr_watching_entry_at = Some (ns_admission_at n), lr_entry_confirmed_at = None,
      lr_active_research_at = None, lr_terminal_at = None, lr_last_evaluated_at = None,
      lr_last_market_data_at = None, lr_last_data_quality_status = ''UNKNOWN'',
      lr_last_session_state = ''UNKNOWN'', lr_last_event_type = Some EV_WATCHING_ENTRY,
      lr_data_degraded_since = None, lr_active_key = Some (ns_dedupe_key n), lr_lease_owner = None,
      lr_lease_expires_at = None, lr_created_at = ns_admission_at n,
      lr_updated_at = ns_admission_at n\<rparr>"

text \<open>The primary key and the unique \<open>active_key\<close>; SQL's NULLs never collide.\<close>

definition row_conflicts :: "lifecycle_row \<Rightarrow> lifecycle_row \<Rightarrow> bool" where
  "row_conflicts r r' \<longleftrightarrow>
     lr_id r = lr_id r' \<or> (lr_active_key r \<noteq> None \<and> lr_active_key r = lr_active_key r')"

definition insert_row :: "lifecycle_row \<Rightarrow> signal_db \<Rightarrow> signal_db option" where
  "insert_row r db =
     (if list_ex (row_conflicts r) (db_signals db) then None
      else Some (db\<lparr>db_signals := db_signals db @ [r]\<rparr>))"

text \<open>One commit of several events: all of them, or none when a key is taken.\<close>

definition insert_events :: "event_row list \<Rightarrow> signal_db \<Rightarrow> signal_db option" where
  "insert_events es db =
     (if distinct (map ev_idempotency_key (db_events db @ es))
      then Some (db\<lparr>db_events := db_events db @ es\<rparr>) else None)"

definition creation_chain :: "(signal_event_type \<times> signal_state option \<times> signal_state \<times> int) list" where
  "creation_chain =
     [(EV_CREATED, None, DRAFT, 0),
      (EV_ADMITTED, Some DRAFT, PENDING_ADMISSION, 1),
      (EV_WATCHING_ENTRY, Some PENDING_ADMISSION, WATCHING_ENTRY, 2)]"

fun creation_event ::
  "(string \<Rightarrow> string) \<Rightarrow> new_signal \<Rightarrow> string \<Rightarrow>
     signal_event_type \<times> signal_state option \<times> signal_state \<times> int \<Rightarrow> event_row" where
  "creation_event sha n schema (event_type, from_state, to_state, version) =
     \<lparr>ev_signal_id = ns_signal_id n, ev_event_type = event_type, ev_from_state = from_state,
      ev_to_state = to_state, ev_state_version = version, ev_priority = None,
      ev_idempotency_key = event_idempotency_key sha (str_uuid (ns_signal_id n))
        (event_value event_type) (state_value to_state) (version - 1) [],
      ev_reason = None, ev_schema = schema, ev_correlation_id = ns_correlation_id n,
      ev_as_of = ns_admission_at n\<rparr>"

text \<open>
  What a broken connection does to a method with two commits: nothing, or an exception before the
  first, or one between the two.
\<close>

datatype db_fault = No_Fault | Fails_First | Fails_Second

datatype db_error = Database_Error

definition insert_new ::
  "(string \<Rightarrow> string) \<Rightarrow> db_fault \<Rightarrow> new_signal \<Rightarrow> string \<Rightarrow> signal_db \<Rightarrow> (db_error + bool) \<times> signal_db" where
  "insert_new sha fault n schema db =
     (if fault = Fails_First then (Inl Database_Error, db)
      else case insert_row (new_row n) db of
        None \<Rightarrow> (Inr False, db)
      | Some db' \<Rightarrow>
          if fault = Fails_Second then (Inl Database_Error, db')
          else case insert_events (map (creation_event sha n schema) creation_chain) db' of
            None \<Rightarrow> (Inr True, db')
          | Some db'' \<Rightarrow> (Inr True, db''))"

section \<open>Transitions\<close>

datatype transition_outcome = APPLIED | CONFLICT | NOT_FOUND | FAILED

definition transition_row :: "int \<Rightarrow> transition_step \<Rightarrow> datetime \<Rightarrow> lifecycle_row \<Rightarrow> lifecycle_row" where
  "transition_row expected step as_of r =
     (let t = ts_to_state step; terminal = is_terminal t in
      r\<lparr>lr_state := t, lr_state_version := expected + 1,
        lr_last_event_type := Some (ts_event_type step), lr_updated_at := as_of,
        lr_terminal_at := (if terminal then Some as_of else lr_terminal_at r),
        lr_active_key := (if terminal then None else lr_active_key r),
        lr_entry_confirmed_at := (if t = ENTRY_CONFIRMED then Some as_of else lr_entry_confirmed_at r),
        lr_active_research_at := (if t = ACTIVE_RESEARCH then Some as_of else lr_active_research_at r)\<rparr>)"

definition locked_row :: "uuid \<Rightarrow> int \<Rightarrow> transition_step \<Rightarrow> lifecycle_row \<Rightarrow> bool" where
  "locked_row sid expected step r \<longleftrightarrow>
     lr_id r = sid \<and> lr_state_version r = expected \<and> lr_state r = ts_from_state step"

definition apply_transition ::
  "db_fault \<Rightarrow> uuid \<Rightarrow> int \<Rightarrow> transition_step \<Rightarrow> event_row \<Rightarrow> datetime \<Rightarrow> signal_db \<Rightarrow>
     transition_outcome \<times> signal_db" where
  "apply_transition fault sid expected step event as_of db =
     (if fault = Fails_First then (FAILED, db)
      else
        let rows = row_count (locked_row sid expected step) (db_signals db);
            db' = db\<lparr>db_signals := update_where (locked_row sid expected step)
                       (transition_row expected step as_of) (db_signals db)\<rparr> in
        if rows = 0 then
          (if fault = Fails_Second then FAILED
           else if list_ex (\<lambda>r. lr_id r = sid) (db_signals db) then CONFLICT else NOT_FOUND, db')
        else if fault = Fails_Second then (FAILED, db')
        else case insert_events [event] db' of
          None \<Rightarrow> (APPLIED, db')
        | Some db'' \<Rightarrow> (APPLIED, db''))"

section \<open>Leases\<close>

definition claimable :: "uuid \<Rightarrow> string \<Rightarrow> datetime \<Rightarrow> lifecycle_row \<Rightarrow> bool" where
  "claimable sid owner now r \<longleftrightarrow> lr_id r = sid \<and>
     (lr_lease_owner r = None \<or>
      (case lr_lease_expires_at r of None \<Rightarrow> False | Some e \<Rightarrow> e < now) \<or>
      lr_lease_owner r = Some owner)"

definition claim ::
  "uuid \<Rightarrow> string \<Rightarrow> datetime \<Rightarrow> float64 \<Rightarrow> signal_db \<Rightarrow> bool \<times> signal_db" where
  "claim sid owner now lease_seconds db =
     (0 < row_count (claimable sid owner now) (db_signals db),
      db\<lparr>db_signals := update_where (claimable sid owner now)
        (\<lambda>r. r\<lparr>lr_lease_owner := Some owner,
               lr_lease_expires_at := Some (now + timedelta_seconds lease_seconds)\<rparr>)
        (db_signals db)\<rparr>)"

definition release :: "uuid \<Rightarrow> string \<Rightarrow> signal_db \<Rightarrow> signal_db" where
  "release sid owner db =
     db\<lparr>db_signals := update_where (\<lambda>r. lr_id r = sid \<and> lr_lease_owner r = Some owner)
       (\<lambda>r. r\<lparr>lr_lease_owner := None, lr_lease_expires_at := None\<rparr>) (db_signals db)\<rparr>"

definition expired_lease_count :: "datetime \<Rightarrow> signal_db \<Rightarrow> nat" where
  "expired_lease_count now db =
     row_count (\<lambda>r. lr_lease_owner r \<noteq> None \<and>
       (case lr_lease_expires_at r of None \<Rightarrow> False | Some e \<Rightarrow> e < now)) (db_signals db)"

section \<open>Monitoring fields\<close>

record monitoring_fields =
  md_last_evaluated_at :: datetime
  md_last_market_data_at :: "datetime option"
  md_data_quality_status :: string
  md_session_state :: string
  md_data_degraded_since :: "datetime option"
  md_clear_degraded :: bool

definition monitored_row :: "monitoring_fields \<Rightarrow> lifecycle_row \<Rightarrow> lifecycle_row" where
  "monitored_row m r =
     r\<lparr>lr_last_evaluated_at := Some (md_last_evaluated_at m),
       lr_last_market_data_at := md_last_market_data_at m,
       lr_last_data_quality_status := md_data_quality_status m,
       lr_last_session_state := md_session_state m,
       lr_data_degraded_since :=
         (if md_clear_degraded m then None
          else if md_data_degraded_since m \<noteq> None then md_data_degraded_since m
          else lr_data_degraded_since r)\<rparr>"

definition update_monitoring_fields :: "uuid \<Rightarrow> monitoring_fields \<Rightarrow> signal_db \<Rightarrow> signal_db" where
  "update_monitoring_fields sid m db =
     db\<lparr>db_signals := update_where (\<lambda>r. lr_id r = sid) (monitored_row m) (db_signals db)\<rparr>"

section \<open>Reads\<close>

definition get_signal :: "uuid \<Rightarrow> signal_db \<Rightarrow> lifecycle_row option" where
  "get_signal sid db = find (\<lambda>r. lr_id r = sid) (db_signals db)"

definition non_terminal :: "signal_db \<Rightarrow> lifecycle_row list" where
  "non_terminal db =
     sort_key lr_created_at (filter (\<lambda>r. \<not> is_terminal (lr_state r)) (db_signals db))"

definition active_by_dedupe_key :: "string \<Rightarrow> signal_db \<Rightarrow> lifecycle_row option" where
  "active_by_dedupe_key k db = find (\<lambda>r. lr_active_key r = Some k) (db_signals db)"

definition active_count_for_instrument :: "int \<Rightarrow> signal_db \<Rightarrow> nat" where
  "active_count_for_instrument pk db =
     row_count (\<lambda>r. ns_instrument_pk (lr_new r) = pk \<and> \<not> is_terminal (lr_state r)) (db_signals db)"

definition signal_exists_for_plan :: "uuid \<Rightarrow> signal_db \<Rightarrow> bool" where
  "signal_exists_for_plan plan db = (0 < row_count (\<lambda>r. ns_plan_id (lr_new r) = plan) (db_signals db))"

definition counts_by_state :: "signal_db \<Rightarrow> (signal_state \<times> nat) list" where
  "counts_by_state db =
     map (\<lambda>s. (s, row_count (\<lambda>r. lr_state r = s) (db_signals db)))
       (remdups (map lr_state (db_signals db)))"

definition recent :: "nat \<Rightarrow> signal_db \<Rightarrow> lifecycle_row list" where
  "recent limit db = take limit (sort_key (\<lambda>r. - lr_updated_at r) (db_signals db))"

section \<open>Events, updates and rejections\<close>

definition add_event :: "event_row \<Rightarrow> signal_db \<Rightarrow> bool \<times> signal_db" where
  "add_event e db = (case insert_events [e] db of None \<Rightarrow> (False, db) | Some db' \<Rightarrow> (True, db'))"

definition events_for :: "uuid \<Rightarrow> signal_db \<Rightarrow> event_row list" where
  "events_for sid db = sort_key ev_state_version (filter (\<lambda>e. ev_signal_id e = sid) (db_events db))"

text \<open>Insert, or count one more when the key is taken.\<close>

definition add_update :: "update_payload \<Rightarrow> signal_db \<Rightarrow> bool \<times> signal_db" where
  "add_update u db =
     (if list_ex (\<lambda>r. ur_idempotency_key r = up_idempotency_key u) (db_updates db)
      then (False, db\<lparr>db_updates := update_where (\<lambda>r. ur_idempotency_key r = up_idempotency_key u)
              (\<lambda>r. r\<lparr>ur_count := ur_count r + 1, ur_last_as_of := up_as_of u\<rparr>) (db_updates db)\<rparr>)
      else (True, db\<lparr>db_updates := db_updates db @
              [\<lparr>ur_signal_id = up_signal_id u, ur_update_type = up_update_type u,
                ur_idempotency_key = up_idempotency_key u, ur_detail = up_detail u,
                ur_schema = up_schema u, ur_count = 1, ur_first_as_of = up_as_of u,
                ur_last_as_of = up_as_of u\<rparr>]\<rparr>))"

definition updates_for :: "uuid \<Rightarrow> signal_db \<Rightarrow> update_row list" where
  "updates_for sid db = sort_key ur_last_as_of (filter (\<lambda>u. ur_signal_id u = sid) (db_updates db))"

definition context_key :: "signal_rejection \<Rightarrow> string" where
  "context_key rj = (case rj_signal_id rj of Some s \<Rightarrow> str_uuid s
     | None \<Rightarrow> (case rj_plan_id rj of Some p \<Rightarrow> str_uuid p | None \<Rightarrow> ''-''))"

definition same_rejection :: "signal_rejection \<Rightarrow> string \<Rightarrow> rejection_row \<Rightarrow> bool" where
  "same_rejection rj bucket r \<longleftrightarrow>
     rr_context_key r = context_key rj \<and> rj_primary_code (rr_rejection r) = rj_primary_code rj \<and>
     rr_window_bucket r = bucket \<and>
     rj_lifecycle_model_version (rr_rejection r) = rj_lifecycle_model_version rj"

definition record_rejection ::
  "signal_rejection \<Rightarrow> float64 \<Rightarrow> signal_db \<Rightarrow> bool \<times> signal_db" where
  "record_rejection rj window db =
     (let bucket = str_int (window_bucket (rj_as_of rj) window) in
      if list_ex (same_rejection rj bucket) (db_rejections db)
      then (False, db\<lparr>db_rejections := update_where (same_rejection rj bucket)
              (\<lambda>r. r\<lparr>rr_count := rr_count r + 1, rr_last_as_of := rj_as_of rj,
                     rr_detail := rj_detail rj\<rparr>) (db_rejections db)\<rparr>)
      else (True, db\<lparr>db_rejections := db_rejections db @
              [\<lparr>rr_rejection = rj, rr_context_key = context_key rj, rr_window_bucket = bucket,
                rr_detail = rj_detail rj, rr_count = 1, rr_first_as_of = rj_as_of rj,
                rr_last_as_of = rj_as_of rj\<rparr>]\<rparr>))"

definition rejections_since :: "datetime \<Rightarrow> signal_db \<Rightarrow> int" where
  "rejections_since since db =
     sum_list (map rr_count (filter (\<lambda>r. since \<le> rr_last_as_of r) (db_rejections db)))"

end
