(* ===== verification/Decimal28.thy ===== *)
theory Decimal28
  imports Float64
begin

text \<open>
  Python's \<open>decimal.Decimal\<close> under the default context: a finite decimal is the rational it denotes,
  and the result of an addition, subtraction, multiplication or division is rounded to 28 significant
  digits, ties to even (\<open>dec\<close>).  The exponent limits of the context are far outside the prices and
  quantities of the program and not modelled.  Instants come from \<open>datetime.fromtimestamp\<close>.
\<close>

type_synonym decimal = rat

definition ilog10 :: "rat \<Rightarrow> int" where
  "ilog10 x = (if 1 \<le> x then int (floorlog 10 (nat \<lfloor>x\<rfloor>)) - 1
               else - int (floorlog 10 (nat (\<lceil>1 / x\<rceil> - 1))))"

definition dec :: "rat \<Rightarrow> decimal" where
  "dec x = (if x = 0 then 0
            else let u = 10 powi (ilog10 \<bar>x\<bar> - 27) in of_int (round_half_even (x / u)) * u)"

definition dadd :: "decimal \<Rightarrow> decimal \<Rightarrow> decimal" where "dadd a b = dec (a + b)"
definition dsub :: "decimal \<Rightarrow> decimal \<Rightarrow> decimal" where "dsub a b = dec (a - b)"
definition dmul :: "decimal \<Rightarrow> decimal \<Rightarrow> decimal" where "dmul a b = dec (a * b)"
definition ddiv :: "decimal \<Rightarrow> decimal \<Rightarrow> decimal" where "ddiv a b = dec (a / b)"

text \<open>\<open>sum(xs, Decimal(0))\<close>\<close>

definition dsum :: "decimal list \<Rightarrow> decimal" where
  "dsum xs = foldl dadd 0 xs"

lemma dec_zero [simp]: "dec 0 = 0"
  by (simp add: dec_def)

lemma dec_minus: "dec (- x) = - dec x"
  by (simp add: dec_def Let_def round_half_even_minus)

lemma dec_nonneg: "0 \<le> x \<Longrightarrow> 0 \<le> dec x"
  using round_half_even_mono [of 0 "x / 10 powi (ilog10 \<bar>x\<bar> - 27)"] round_half_even_of_int [of 0]
  by (simp add: dec_def Let_def)

lemma dsum_nonneg: "\<forall>x \<in> set xs. 0 \<le> x \<Longrightarrow> 0 \<le> dsum xs"
proof -
  have "0 \<le> a \<Longrightarrow> \<forall>x \<in> set xs. 0 \<le> x \<Longrightarrow> 0 \<le> foldl dadd a xs" for a
    by (induction xs arbitrary: a) (auto simp: dadd_def dec_nonneg)
  then show "\<forall>x \<in> set xs. 0 \<le> x \<Longrightarrow> 0 \<le> dsum xs" by (simp add: dsum_def)
qed

text \<open>\<open>datetime.fromtimestamp(timestamp_ms / 1000.0)\<close> splits and rounds like a \<open>timedelta\<close>.\<close>

definition ms_to_utc :: "int \<Rightarrow> datetime" where
  "ms_to_utc ms = timedelta_seconds (fdiv (of_int ms) 1000)"

end
