(* ===== verification/Orderbook.thy ===== *)
theory Orderbook
  imports Decimal28 "HOL-Library.AList"
begin

text \<open>
  The in-memory order book (\<open>app/data/orderbook_service.py\<close>): a snapshot followed by sequenced deltas,
  with gap and crossing detection, and the manager that routes messages to the book of an instrument.  A
  dictionary is its list of entries in insertion order.
\<close>

section \<open>State\<close>

type_synonym level = "decimal \<times> decimal"

record book_message =
  bm_instrument_id :: int
  bm_is_snapshot :: bool
  bm_bids :: "level list"
  bm_asks :: "level list"
  bm_ts_ms :: int
  bm_sequence :: "int option"

record orderbook_state =
  ob_instrument_id :: int
  ob_initialized :: bool
  ob_needs_resync :: bool
  ob_resync_count :: int
  ob_sequence_gaps :: int
  ob_last_sequence :: "int option"
  ob_last_reliable_update :: "datetime option"
  ob_last_snapshot_at :: "datetime option"
  ob_bids :: "level list"
  ob_asks :: "level list"

definition new_book :: "int \<Rightarrow> orderbook_state" where
  "new_book i = \<lparr>ob_instrument_id = i, ob_initialized = False, ob_needs_resync = False,
     ob_resync_count = 0, ob_sequence_gaps = 0, ob_last_sequence = None,
     ob_last_reliable_update = None, ob_last_snapshot_at = None, ob_bids = [], ob_asks = []\<rparr>"

definition reliable :: "orderbook_state \<Rightarrow> bool" where
  "reliable b \<longleftrightarrow> ob_initialized b \<and> \<not> ob_needs_resync b"

definition mark_unreliable :: "orderbook_state \<Rightarrow> orderbook_state" where
  "mark_unreliable b = b\<lparr>ob_needs_resync := True\<rparr>"

definition reset_for_resync :: "orderbook_state \<Rightarrow> orderbook_state" where
  "reset_for_resync b =
     b\<lparr>ob_bids := [], ob_asks := [], ob_initialized := False, ob_last_sequence := None\<rparr>"

section \<open>Derived values\<close>

definition min_price :: "level list \<Rightarrow> decimal option" where
  "min_price ls = (if ls = [] then None else Some (Min (set (map fst ls))))"

definition max_price :: "level list \<Rightarrow> decimal option" where
  "max_price ls = (if ls = [] then None else Some (Max (set (map fst ls))))"

definition crossed :: "orderbook_state \<Rightarrow> bool" where
  "crossed b = (case (min_price (ob_asks b), max_price (ob_bids b)) of
     (Some a, Some p) \<Rightarrow> a < p | _ \<Rightarrow> False)"

definition best_bid :: "orderbook_state \<Rightarrow> level option" where
  "best_bid b = map_option (\<lambda>p. (p, the (map_of (ob_bids b) p))) (max_price (ob_bids b))"

definition best_ask :: "orderbook_state \<Rightarrow> level option" where
  "best_ask b = map_option (\<lambda>p. (p, the (map_of (ob_asks b) p))) (min_price (ob_asks b))"

definition mid_price :: "orderbook_state \<Rightarrow> decimal option" where
  "mid_price b = (case (best_bid b, best_ask b) of
     (Some (bid, _), Some (ask, _)) \<Rightarrow> Some (ddiv (dadd bid ask) 2) | _ \<Rightarrow> None)"

definition spread_abs :: "orderbook_state \<Rightarrow> decimal option" where
  "spread_abs b = (case (best_bid b, best_ask b) of
     (Some (bid, _), Some (ask, _)) \<Rightarrow> Some (dsub ask bid) | _ \<Rightarrow> None)"

definition spread_bps :: "orderbook_state \<Rightarrow> decimal option" where
  "spread_bps b = (case (mid_price b, spread_abs b) of
     (Some mid, Some spread) \<Rightarrow> if mid = 0 then None else Some (dmul (ddiv spread mid) 10000)
   | _ \<Rightarrow> None)"

record book_top =
  bt_best_bid :: "level option"
  bt_best_ask :: "level option"
  bt_mid_price :: "decimal option"
  bt_spread_abs :: "decimal option"
  bt_spread_bps :: "decimal option"

definition top_of_book :: "orderbook_state \<Rightarrow> book_top" where
  "top_of_book b = \<lparr>bt_best_bid = best_bid b, bt_best_ask = best_ask b, bt_mid_price = mid_price b,
     bt_spread_abs = spread_abs b, bt_spread_bps = spread_bps b\<rparr>"

datatype book_error = Unknown_Side string

definition depth_within_bps ::
  "orderbook_state \<Rightarrow> string \<Rightarrow> decimal \<Rightarrow> book_error + decimal" where
  "depth_within_bps b side bps =
     (case mid_price b of
        None \<Rightarrow> Inr 0
      | Some mid \<Rightarrow>
          if mid = 0 then Inr 0
          else let threshold = ddiv (dmul mid bps) 10000 in
            if side = ''bid'' then
              Inr (dsum (map snd (filter (\<lambda>(p, q). dsub mid p \<le> threshold) (ob_bids b))))
            else if side = ''ask'' then
              Inr (dsum (map snd (filter (\<lambda>(p, q). dsub p mid \<le> threshold) (ob_asks b))))
            else Inl (Unknown_Side side))"

definition best_levels :: "orderbook_state \<Rightarrow> string \<Rightarrow> nat \<Rightarrow> book_error + level list" where
  "best_levels b side n =
     (if side = ''bid'' then Inr (take n (rev (sort_key fst (ob_bids b))))
      else if side = ''ask'' then Inr (take n (sort_key fst (ob_asks b)))
      else Inl (Unknown_Side side))"

definition depth_top_levels :: "orderbook_state \<Rightarrow> string \<Rightarrow> nat \<Rightarrow> book_error + decimal" where
  "depth_top_levels b side n =
     (case best_levels b side n of Inl e \<Rightarrow> Inl e | Inr ls \<Rightarrow> Inr (dsum (map snd ls)))"

section \<open>Messages\<close>

definition snapshot_side :: "level list \<Rightarrow> level list" where
  "snapshot_side ls = fold (\<lambda>(p, q) d. AList.update p q d) (filter (\<lambda>(p, q). 0 < q) ls) []"

definition apply_snapshot :: "book_message \<Rightarrow> orderbook_state \<Rightarrow> bool \<times> orderbook_state" where
  "apply_snapshot m b =
     (let ts = ms_to_utc (bm_ts_ms m);
          b' = b\<lparr>ob_bids := snapshot_side (bm_bids m), ob_asks := snapshot_side (bm_asks m),
                 ob_last_sequence := bm_sequence m, ob_initialized := True,
                 ob_needs_resync := False, ob_last_snapshot_at := Some ts\<rparr> in
      if crossed b' then (False, mark_unreliable b')
      else (True, b'\<lparr>ob_resync_count := ob_resync_count b + (if ob_needs_resync b then 1 else 0),
                     ob_last_reliable_update := Some ts\<rparr>))"

definition delta_level :: "level \<Rightarrow> level list \<Rightarrow> level list" where
  "delta_level l d = (case l of (p, q) \<Rightarrow> if q = 0 then AList.delete p d else AList.update p q d)"

definition delta_side :: "level list \<Rightarrow> level list \<Rightarrow> level list" where
  "delta_side ls d = fold delta_level ls d"

definition apply_delta :: "book_message \<Rightarrow> orderbook_state \<Rightarrow> bool \<times> orderbook_state" where
  "apply_delta m b =
     (let apply_levels =
        (let b' = b\<lparr>ob_last_sequence := (case bm_sequence m of None \<Rightarrow> ob_last_sequence b | s \<Rightarrow> s),
                    ob_bids := delta_side (bm_bids m) (ob_bids b),
                    ob_asks := delta_side (bm_asks m) (ob_asks b)\<rparr> in
         if crossed b' then (False, mark_unreliable b')
         else (True, b'\<lparr>ob_last_reliable_update := Some (ms_to_utc (bm_ts_ms m))\<rparr>)) in
      if \<not> ob_initialized b then (False, mark_unreliable b)
      else if ob_needs_resync b then (False, b)
      else case (bm_sequence m, ob_last_sequence b) of
        (Some s, Some l) \<Rightarrow>
          if s \<le> l then (True, b)
          else if s \<noteq> l + 1 then
            (False, mark_unreliable (b\<lparr>ob_sequence_gaps := ob_sequence_gaps b + 1\<rparr>))
          else apply_levels
      | _ \<Rightarrow> apply_levels)"

definition apply_message :: "book_message \<Rightarrow> orderbook_state \<Rightarrow> bool \<times> orderbook_state" where
  "apply_message m b = (if bm_is_snapshot m then apply_snapshot m b else apply_delta m b)"

definition apply_stream :: "book_message list \<Rightarrow> orderbook_state \<Rightarrow> orderbook_state" where
  "apply_stream ms b = fold (\<lambda>m b. snd (apply_message m b)) ms b"

section \<open>The manager\<close>

type_synonym orderbook_manager = "(int \<times> orderbook_state) list"

definition book_of :: "orderbook_manager \<Rightarrow> int \<Rightarrow> orderbook_state" where
  "book_of mgr i = (case map_of mgr i of None \<Rightarrow> new_book i | Some b \<Rightarrow> b)"

definition ensure_book :: "int \<Rightarrow> orderbook_manager \<Rightarrow> orderbook_manager" where
  "ensure_book i mgr = (case map_of mgr i of None \<Rightarrow> mgr @ [(i, new_book i)] | Some _ \<Rightarrow> mgr)"

definition manager_apply :: "book_message \<Rightarrow> orderbook_manager \<Rightarrow> bool \<times> orderbook_manager" where
  "manager_apply m mgr =
     (let i = bm_instrument_id m; (ok, b) = apply_message m (book_of mgr i)
      in (ok, AList.update i b (ensure_book i mgr)))"

definition books_needing_resync :: "orderbook_manager \<Rightarrow> int list" where
  "books_needing_resync mgr =
     map ob_instrument_id (filter ob_needs_resync (map snd mgr))"

definition drop_book :: "int \<Rightarrow> orderbook_manager \<Rightarrow> orderbook_manager" where
  "drop_book i mgr = AList.delete i mgr"

section \<open>A book as a pair of maps\<close>

type_synonym side_map = "decimal \<Rightarrow> decimal option"

definition sides :: "orderbook_state \<Rightarrow> side_map \<times> side_map" where
  "sides b = (map_of (ob_bids b), map_of (ob_asks b))"

definition patch_side :: "level list \<Rightarrow> side_map \<Rightarrow> side_map" where
  "patch_side ls m = fold (\<lambda>(p, q) m. m(p := if q = 0 then None else Some q)) ls m"

definition patch :: "book_message \<Rightarrow> side_map \<times> side_map \<Rightarrow> side_map \<times> side_map" where
  "patch m s = (patch_side (bm_bids m) (fst s), patch_side (bm_asks m) (snd s))"

lemma map_of_delta_side: "map_of (delta_side ls d) = patch_side ls (map_of d)"
  unfolding delta_side_def patch_side_def
  by (induction ls arbitrary: d)
    (auto simp: delta_level_def AList.update_conv' AList.delete_conv' fun_upd_def)

text \<open>
  The exchange's book after its first \<open>k\<close> deltas, and the messages an honest feed can deliver: its
  \<open>k\<close>-th delta, numbered \<open>s0 + k + 1\<close>, or a snapshot of some state, numbered like it.
\<close>

fun true_book :: "(nat \<Rightarrow> book_message) \<Rightarrow> side_map \<times> side_map \<Rightarrow> nat \<Rightarrow> side_map \<times> side_map" where
  "true_book feed start 0 = start"
| "true_book feed start (Suc k) = patch (feed k) (true_book feed start k)"

definition genuine ::
  "(nat \<Rightarrow> book_message) \<Rightarrow> int \<Rightarrow> side_map \<times> side_map \<Rightarrow> book_message \<Rightarrow> bool" where
  "genuine feed s0 start m \<longleftrightarrow>
     (\<exists>k. if bm_is_snapshot m
          then bm_sequence m = Some (s0 + int k) \<and>
               (map_of (snapshot_side (bm_bids m)), map_of (snapshot_side (bm_asks m)))
                 = true_book feed start k
          else bm_sequence m = Some (s0 + int k + 1) \<and> m = feed k)"

definition follows_feed ::
  "(nat \<Rightarrow> book_message) \<Rightarrow> int \<Rightarrow> side_map \<times> side_map \<Rightarrow> orderbook_state \<Rightarrow> bool" where
  "follows_feed feed s0 start b \<longleftrightarrow>
     (\<exists>k. ob_last_sequence b = Some (s0 + int k) \<and> sides b = true_book feed start k)"

lemma apply_stream_simps [simp]:
  "apply_stream [] b = b"
  "apply_stream (m # ms) b = apply_stream ms (snd (apply_message m b))"
  by (simp_all add: apply_stream_def)

text \<open>Whatever the message, a reliable book is not crossed.\<close>

lemma crossed_cong:
  "ob_bids b = ob_bids b' \<Longrightarrow> ob_asks b = ob_asks b' \<Longrightarrow> crossed b = crossed b'"
  by (simp add: crossed_def)

lemma message_uncrossed:
  assumes "reliable b \<Longrightarrow> \<not> crossed b" "reliable (snd (apply_message m b))"
  shows "\<not> crossed (snd (apply_message m b))"
  using assms
  by (auto simp: apply_message_def apply_snapshot_def apply_delta_def reliable_def mark_unreliable_def
      Let_def crossed_def split: if_splits option.splits)

lemma stream_uncrossed:
  "(reliable b \<Longrightarrow> \<not> crossed b) \<Longrightarrow> reliable (apply_stream ms b) \<Longrightarrow> \<not> crossed (apply_stream ms b)"
proof (induction ms arbitrary: b)
  case (Cons m ms)
  then show ?case using message_uncrossed [OF Cons.prems(1)] by simp
qed simp

lemma delta_sides:
  "sides (b\<lparr>ob_last_sequence := s, ob_bids := delta_side (bm_bids m) (ob_bids b),
            ob_asks := delta_side (bm_asks m) (ob_asks b)\<rparr>) = patch m (sides b)"
  by (simp add: sides_def patch_def map_of_delta_side)

lemma message_follows:
  assumes gen: "genuine feed s0 start m"
    and inv: "reliable b \<Longrightarrow> follows_feed feed s0 start b"
    and rel: "reliable (snd (apply_message m b))"
  shows "follows_feed feed s0 start (snd (apply_message m b))"
proof (cases "bm_is_snapshot m")
  case True
  with gen obtain k where k: "bm_sequence m = Some (s0 + int k)"
    "(map_of (snapshot_side (bm_bids m)), map_of (snapshot_side (bm_asks m))) = true_book feed start k"
    by (auto simp: genuine_def)
  then show ?thesis using True
    by (auto simp: apply_message_def apply_snapshot_def follows_feed_def sides_def mark_unreliable_def
        Let_def intro!: exI [of _ k])
next
  case False
  with gen obtain k where k: "bm_sequence m = Some (s0 + int k + 1)" "m = feed k"
    by (auto simp: genuine_def)
  have ready: "ob_initialized b" "\<not> ob_needs_resync b"
    using rel False by (auto simp: apply_message_def apply_delta_def reliable_def mark_unreliable_def
        Let_def split: if_splits)
  then obtain j where j: "ob_last_sequence b = Some (s0 + int j)" "sides b = true_book feed start j"
    using inv by (auto simp: reliable_def follows_feed_def)
  show ?thesis
  proof (cases "s0 + int k + 1 \<le> s0 + int j")
    case True
    then show ?thesis using False ready j k(1)
      by (auto simp: apply_message_def apply_delta_def follows_feed_def Let_def)
  next
    case new: False
    show ?thesis
    proof (cases "k = j")
      case True
      then show ?thesis using False ready j k new delta_sides [where b = b and m = m]
        by (auto simp: apply_message_def apply_delta_def follows_feed_def mark_unreliable_def sides_def
            patch_def Let_def intro!: exI [of _ "Suc j"])
    next
      case gap: False
      then show ?thesis using False ready j k(1) new rel
        by (auto simp: apply_message_def apply_delta_def reliable_def mark_unreliable_def Let_def)
    qed
  qed
qed

lemma stream_follows:
  "\<forall>m \<in> set ms. genuine feed s0 start m \<Longrightarrow> (reliable b \<Longrightarrow> follows_feed feed s0 start b) \<Longrightarrow>
     reliable (apply_stream ms b) \<Longrightarrow> follows_feed feed s0 start (apply_stream ms b)"
proof (induction ms arbitrary: b)
  case (Cons m ms)
  then show ?case using message_follows [of feed s0 start m b] by simp
qed simp

section \<open>The manager routes\<close>

lemma book_of_apply:
  "book_of (snd (manager_apply m mgr)) i =
     (if i = bm_instrument_id m then snd (apply_message m (book_of mgr i)) else book_of mgr i)"
proof -
  have "map_of (ensure_book j mgr) i = (if i = j then Some (book_of mgr j) else map_of mgr i)" for j
    by (auto simp: ensure_book_def book_of_def map_add_def split: option.splits)
  then show ?thesis
    by (auto simp: manager_apply_def book_of_def AList.update_conv' Let_def split: prod.splits)
qed

section \<open>Properties\<close>

text \<open>
  C10.  A reliable book is the exchange's book: whatever an honest feed's messages the program receives,
  in any order, with losses, repetitions and snapshots in between, whenever the book reports itself
  reliable it equals the exchange's book at the sequence number it carries.
\<close>

theorem reliable_book_is_true:
  assumes "\<forall>m \<in> set ms. genuine feed s0 start m" "reliable (apply_stream ms (new_book i))"
  shows "\<exists>k. ob_last_sequence (apply_stream ms (new_book i)) = Some (s0 + int k) \<and>
    sides (apply_stream ms (new_book i)) = true_book feed start k"
proof -
  have "\<not> reliable (new_book i)" by (simp add: reliable_def new_book_def)
  with stream_follows [OF assms(1) _ assms(2)] show ?thesis by (auto simp: follows_feed_def)
qed

definition example_delta :: "nat \<Rightarrow> book_message" where
  "example_delta k = \<lparr>bm_instrument_id = 11, bm_is_snapshot = False, bm_bids = [(100 + of_nat k, 1)],
     bm_asks = [], bm_ts_ms = 1700000000000, bm_sequence = Some (int k + 1)\<rparr>"

definition example_snapshot :: book_message where
  "example_snapshot = \<lparr>bm_instrument_id = 11, bm_is_snapshot = True, bm_bids = [(99, 1)],
     bm_asks = [(105, 2)], bm_ts_ms = 1700000000000, bm_sequence = Some 0\<rparr>"

theorem reliable_book_is_true_witness:
  "\<exists>k. ob_last_sequence (apply_stream [example_snapshot, example_delta 0, example_delta 0, example_delta 1]
         (new_book 11)) = Some (int k) \<and>
       sides (apply_stream [example_snapshot, example_delta 0, example_delta 0, example_delta 1] (new_book 11))
         = true_book example_delta ([99 \<mapsto> 1], [105 \<mapsto> 2]) k"
proof -
  let ?ms = "[example_snapshot, example_delta 0, example_delta 0, example_delta 1]"
  have "genuine example_delta 0 ([99 \<mapsto> 1], [105 \<mapsto> 2]) example_snapshot"
    by (auto simp: genuine_def example_snapshot_def snapshot_side_def intro!: exI [of _ 0])
  moreover have "genuine example_delta 0 ([99 \<mapsto> 1], [105 \<mapsto> 2]) (example_delta k)" for k
    by (auto simp: genuine_def example_delta_def intro!: exI [of _ k])
  ultimately have "\<forall>m \<in> set ?ms. genuine example_delta 0 ([99 \<mapsto> 1], [105 \<mapsto> 2]) m" by simp
  moreover have "reliable (apply_stream ?ms (new_book 11))" by code_simp
  ultimately show ?thesis using reliable_book_is_true [of ?ms example_delta 0 _ 11] by simp
qed

text \<open>
  A reliable book is never crossed: after any stream of messages, if the book reports itself reliable
  and has both sides, its best bid does not exceed its best ask.
\<close>

theorem reliable_book_not_crossed:
  assumes "reliable (apply_stream ms (new_book i))"
    and "best_bid (apply_stream ms (new_book i)) = Some (bid, q)"
    and "best_ask (apply_stream ms (new_book i)) = Some (ask, q')"
  shows "bid \<le> ask"
proof -
  have "\<not> crossed (apply_stream ms (new_book i))"
    using stream_uncrossed [OF _ assms(1)] by (simp add: crossed_def new_book_def min_price_def)
  with assms(2,3) show ?thesis by (auto simp: crossed_def best_bid_def best_ask_def)
qed

theorem reliable_book_not_crossed_witness:
  "best_bid (apply_stream [example_snapshot, example_delta 0] (new_book 11)) = Some (100, 1) \<and>
   best_ask (apply_stream [example_snapshot, example_delta 0] (new_book 11)) = Some (105, 2) \<and>
   (100 :: decimal) \<le> 105"
proof (intro conjI)
  show bid: "best_bid (apply_stream [example_snapshot, example_delta 0] (new_book 11)) = Some (100, 1)"
    by code_simp
  show ask: "best_ask (apply_stream [example_snapshot, example_delta 0] (new_book 11)) = Some (105, 2)"
    by code_simp
  have "reliable (apply_stream [example_snapshot, example_delta 0] (new_book 11))" by code_simp
  then show "(100 :: decimal) \<le> 105" using bid ask by (rule reliable_book_not_crossed)
qed

text \<open>
  Only a snapshot heals a book: once a book needs a resync no stream of deltas makes it reliable
  again, and the next snapshot does exactly when it is not crossed itself.
\<close>

theorem only_snapshot_heals:
  assumes "ob_needs_resync b" "\<forall>d \<in> set ds. \<not> bm_is_snapshot d" "bm_is_snapshot m"
  shows "\<not> reliable (apply_stream ds b) \<and>
    (reliable (apply_stream (ds @ [m]) b) \<longleftrightarrow>
       \<not> crossed (new_book i\<lparr>ob_bids := snapshot_side (bm_bids m), ob_asks := snapshot_side (bm_asks m)\<rparr>))"
proof -
  have "ob_needs_resync (apply_stream ds b)"
    using assms(1,2)
    by (induction ds arbitrary: b) (auto simp: apply_message_def apply_delta_def mark_unreliable_def Let_def)
  moreover have "apply_stream (ds @ [m]) b = snd (apply_snapshot m (apply_stream ds b))"
    using assms(3) by (simp add: apply_stream_def apply_message_def)
  ultimately show ?thesis
    by (auto simp: reliable_def apply_snapshot_def mark_unreliable_def crossed_def Let_def
        split: option.splits if_splits)
qed

theorem only_snapshot_heals_witness:
  "\<not> reliable (apply_stream [example_delta 1] (snd (apply_message (example_delta 0) (new_book 11))))"
proof -
  have "ob_needs_resync (snd (apply_message (example_delta 0) (new_book 11)))" by code_simp
  then show ?thesis
    using only_snapshot_heals [of "snd (apply_message (example_delta 0) (new_book 11))" "[example_delta 1]"
        example_snapshot] by (simp add: example_delta_def example_snapshot_def)
qed

text \<open>
  Instruments do not interfere: after any interleaved stream the manager's book of an instrument is
  the book that the instrument's own messages, in their order, build from nothing.
\<close>

theorem manager_isolates_instruments:
  "book_of (fold (\<lambda>m mgr. snd (manager_apply m mgr)) ms []) i
     = apply_stream (filter (\<lambda>m. bm_instrument_id m = i) ms) (new_book i)"
proof -
  have "book_of (fold (\<lambda>m mgr. snd (manager_apply m mgr)) ms mgr) i
     = apply_stream (filter (\<lambda>m. bm_instrument_id m = i) ms) (book_of mgr i)" for mgr
    by (induction ms arbitrary: mgr) (auto simp: book_of_apply)
  then show ?thesis by (simp add: book_of_def)
qed

end
