(* ===== verification/Event_Validation.thy ===== *)
theory Event_Validation
  imports Orderbook
begin

text \<open>
  Validation of incoming market events (\<open>app/data/event_validation.py\<close>).  A payload arrives parsed into
  the fields the validators read: a number field is absent (\<open>None\<close> or the empty string), unusable (not a
  number, NaN, infinite, a boolean) or a finite decimal, an integer field is absent or unusable
  (\<open>None\<close>) or an integer.  A payload that is no dictionary is \<open>None\<close>.
\<close>

section \<open>Outcomes\<close>

datatype reject_reason =
    MALFORMED | MISSING_FIELD | BAD_TIMESTAMP | NON_FINITE_VALUE | NON_POSITIVE_PRICE
  | NEGATIVE_QUANTITY | CROSSED_BBO | CROSSED_BOOK | INVALID_TIMEFRAME | OUTLIER_PRICE
  | OUT_OF_ORDER | BAD_SEQUENCE

datatype raw = Absent | Garbage | Number decimal

definition raw_decimal :: "raw \<Rightarrow> decimal option" where
  "raw_decimal r = (case r of Number d \<Rightarrow> Some d | _ \<Rightarrow> None)"

text \<open>\<open>datetime.fromtimestamp\<close> raises outside the years 1 to 9999.\<close>

definition representable_ms :: "int \<Rightarrow> bool" where
  "representable_ms ms \<longleftrightarrow> - 62135596800000 \<le> ms \<and> ms < 253402300800000"

definition timestamp_ms :: "int option \<Rightarrow> int option" where
  "timestamp_ms v = (case v of None \<Rightarrow> None
     | Some ts \<Rightarrow> if ts < 1000000000000 \<or> 9999999999999 < ts then None else Some ts)"

definition positive_id :: "int option \<Rightarrow> int option" where
  "positive_id v = (case v of None \<Rightarrow> None | Some i \<Rightarrow> if 0 < i then Some i else None)"

definition deviation_bps :: "decimal \<Rightarrow> decimal \<Rightarrow> decimal" where
  "deviation_bps price reference =
     (if reference = 0 then 0
      else dmul (ddiv \<bar>dsub price reference\<bar> reference) 10000)"

definition outlier :: "decimal \<Rightarrow> decimal option \<Rightarrow> decimal \<Rightarrow> bool" where
  "outlier price reference max_bps =
     (case reference of None \<Rightarrow> False
      | Some r \<Rightarrow> 0 < r \<and> max_bps < deviation_bps price r)"

section \<open>Tickers\<close>

record raw_ticker =
  rt_instrument_id :: "int option"
  rt_timestamp :: "int option"
  rt_mark_price :: raw
  rt_index_price :: raw
  rt_last_price :: raw
  rt_mid_price :: raw
  rt_open_interest :: raw
  rt_funding_rate :: raw
  rt_next_funding :: "int option option" \<comment> \<open>absent or falsy, or present and an integer or not\<close>

record ticker_data =
  td_instrument_id :: int
  td_mark_price :: "decimal option"
  td_index_price :: "decimal option"
  td_last_price :: "decimal option"
  td_mid_price :: "decimal option"
  td_open_interest :: "decimal option"
  td_funding_rate :: "decimal option"
  td_next_funding_at :: "datetime option"
  td_ts :: datetime

fun check_price :: "raw \<Rightarrow> reject_reason option" where
  "check_price Absent = None"
| "check_price Garbage = Some NON_FINITE_VALUE"
| "check_price (Number v) = (if v \<le> 0 then Some NON_POSITIVE_PRICE else None)"

fun check_quantity :: "raw \<Rightarrow> reject_reason option" where
  "check_quantity Absent = None"
| "check_quantity Garbage = Some NON_FINITE_VALUE"
| "check_quantity (Number v) = (if v < 0 then Some NEGATIVE_QUANTITY else None)"

fun first_reason :: "reject_reason option list \<Rightarrow> reject_reason option" where
  "first_reason [] = None"
| "first_reason (r # rs) = (case r of None \<Rightarrow> first_reason rs | Some k \<Rightarrow> Some k)"

definition validate_ticker ::
  "raw_ticker option \<Rightarrow> decimal option \<Rightarrow> decimal \<Rightarrow> reject_reason + ticker_data" where
  "validate_ticker payload reference max_bps =
     (case payload of None \<Rightarrow> Inl MALFORMED
      | Some p \<Rightarrow>
        case positive_id (rt_instrument_id p) of None \<Rightarrow> Inl MISSING_FIELD
      | Some i \<Rightarrow>
        case timestamp_ms (rt_timestamp p) of None \<Rightarrow> Inl BAD_TIMESTAMP
      | Some ts \<Rightarrow>
        let mark = raw_decimal (rt_mark_price p) in
        case first_reason
          [check_price (rt_mark_price p), check_price (rt_index_price p),
           check_price (rt_last_price p), check_price (rt_mid_price p),
           (case mark of None \<Rightarrow> None
            | Some m \<Rightarrow> if outlier m reference max_bps then Some OUTLIER_PRICE else None),
           check_quantity (rt_open_interest p),
           (if rt_funding_rate p = Garbage then Some NON_FINITE_VALUE else None),
           (case rt_next_funding p of
              Some None \<Rightarrow> Some MALFORMED
            | Some (Some n) \<Rightarrow> if representable_ms n then None else Some MALFORMED
            | None \<Rightarrow> None)] of
          Some k \<Rightarrow> Inl k
        | None \<Rightarrow> Inr \<lparr>td_instrument_id = i, td_mark_price = mark,
            td_index_price = raw_decimal (rt_index_price p),
            td_last_price = raw_decimal (rt_last_price p),
            td_mid_price = raw_decimal (rt_mid_price p),
            td_open_interest = raw_decimal (rt_open_interest p),
            td_funding_rate = raw_decimal (rt_funding_rate p),
            td_next_funding_at =
              (case rt_next_funding p of Some (Some n) \<Rightarrow> Some (ms_to_utc n) | _ \<Rightarrow> None),
            td_ts = ms_to_utc ts\<rparr>)"

section \<open>Best bid and offer\<close>

record raw_bbo =
  rb_instrument_id :: "int option"
  rb_timestamp :: "int option"
  rb_short :: bool \<comment> \<open>the pairs of the list form have fewer than two entries\<close>
  rb_bid_price :: raw
  rb_bid_quantity :: raw
  rb_ask_price :: raw
  rb_ask_quantity :: raw

record bbo_update =
  bb_instrument_id :: int
  bb_bid_price :: decimal
  bb_bid_quantity :: decimal
  bb_ask_price :: decimal
  bb_ask_quantity :: decimal
  bb_ts_ms :: int

definition bbo_mid_price :: "bbo_update \<Rightarrow> decimal" where
  "bbo_mid_price b = ddiv (dadd (bb_bid_price b) (bb_ask_price b)) 2"

definition bbo_spread_bps :: "bbo_update \<Rightarrow> decimal option" where
  "bbo_spread_bps b =
     (if bbo_mid_price b = 0 then None
      else Some (dmul (ddiv (dsub (bb_ask_price b) (bb_bid_price b)) (bbo_mid_price b)) 10000))"

definition validate_bbo :: "raw_bbo option \<Rightarrow> reject_reason + bbo_update" where
  "validate_bbo payload =
     (case payload of None \<Rightarrow> Inl MALFORMED
      | Some p \<Rightarrow>
        case positive_id (rb_instrument_id p) of None \<Rightarrow> Inl MISSING_FIELD
      | Some i \<Rightarrow>
        case timestamp_ms (rb_timestamp p) of None \<Rightarrow> Inl BAD_TIMESTAMP
      | Some ts \<Rightarrow>
        if rb_short p then Inl MISSING_FIELD
        else case (raw_decimal (rb_bid_price p), raw_decimal (rb_bid_quantity p),
                   raw_decimal (rb_ask_price p), raw_decimal (rb_ask_quantity p)) of
          (Some bid, Some bid_q, Some ask, Some ask_q) \<Rightarrow>
            if bid \<le> 0 \<or> ask \<le> 0 then Inl NON_POSITIVE_PRICE
            else if bid_q < 0 \<or> ask_q < 0 then Inl NEGATIVE_QUANTITY
            else if ask < bid then Inl CROSSED_BBO
            else Inr \<lparr>bb_instrument_id = i, bb_bid_price = bid, bb_bid_quantity = bid_q,
                      bb_ask_price = ask, bb_ask_quantity = ask_q, bb_ts_ms = ts\<rparr>
        | _ \<Rightarrow> Inl NON_FINITE_VALUE)"

section \<open>Trades\<close>

record raw_trade =
  rd_instrument_id :: "int option"
  rd_timestamp :: "int option"
  rd_price :: raw
  rd_quantity :: raw
  rd_trade_id :: "int option"
  rd_side :: string

record trade_data =
  tr_trade_id :: int
  tr_instrument_id :: int
  tr_side :: string
  tr_price :: decimal
  tr_quantity :: decimal
  tr_ts :: datetime

definition validate_trade ::
  "raw_trade option \<Rightarrow> decimal option \<Rightarrow> decimal \<Rightarrow> reject_reason + trade_data" where
  "validate_trade payload reference max_bps =
     (case payload of None \<Rightarrow> Inl MALFORMED
      | Some p \<Rightarrow>
        case positive_id (rd_instrument_id p) of None \<Rightarrow> Inl MISSING_FIELD
      | Some i \<Rightarrow>
        case timestamp_ms (rd_timestamp p) of None \<Rightarrow> Inl BAD_TIMESTAMP
      | Some ts \<Rightarrow>
        case (raw_decimal (rd_price p), raw_decimal (rd_quantity p)) of
          (Some price, Some quantity) \<Rightarrow>
            if price \<le> 0 then Inl NON_POSITIVE_PRICE
            else if quantity \<le> 0 then Inl NEGATIVE_QUANTITY
            else if outlier price reference max_bps then Inl OUTLIER_PRICE
            else (case rd_trade_id p of
                None \<Rightarrow> Inl MALFORMED
              | Some n \<Rightarrow> Inr \<lparr>tr_trade_id = n, tr_instrument_id = i, tr_side = rd_side p,
                    tr_price = price, tr_quantity = quantity, tr_ts = ms_to_utc ts\<rparr>)
        | _ \<Rightarrow> Inl NON_FINITE_VALUE)"

section \<open>Candles\<close>

datatype timeframe = M1 | M5 | M15 | H1

fun timeframe_ms :: "timeframe \<Rightarrow> int" where
  "timeframe_ms M1 = 60000"
| "timeframe_ms M5 = 300000"
| "timeframe_ms M15 = 900000"
| "timeframe_ms H1 = 3600000"

definition timeframe_of :: "string \<Rightarrow> timeframe option" where
  "timeframe_of s = map_of [(''1m'', M1), (''5m'', M5), (''15m'', M15), (''1h'', H1)] s"

text \<open>A row of at least six fields, in any of the accepted shapes.\<close>

record raw_kline =
  rk_timestamp :: "int option"
  rk_open :: raw
  rk_high :: raw
  rk_low :: raw
  rk_close :: raw
  rk_volume :: raw
  rk_trades :: "int option option" \<comment> \<open>absent, or present and an integer or not\<close>

record candle_data =
  cd_timeframe :: timeframe
  cd_open_time :: datetime
  cd_open :: decimal
  cd_high :: decimal
  cd_low :: decimal
  cd_close :: decimal
  cd_volume :: decimal
  cd_trade_count :: int

definition validate_kline :: "raw_kline option \<Rightarrow> string \<Rightarrow> reject_reason + candle_data" where
  "validate_kline payload timeframe_value =
     (case timeframe_of timeframe_value of None \<Rightarrow> Inl INVALID_TIMEFRAME
      | Some tf \<Rightarrow>
        case payload of None \<Rightarrow> Inl MALFORMED
      | Some p \<Rightarrow>
        case timestamp_ms (rk_timestamp p) of None \<Rightarrow> Inl BAD_TIMESTAMP
      | Some ts \<Rightarrow>
        case (raw_decimal (rk_open p), raw_decimal (rk_high p), raw_decimal (rk_low p),
              raw_decimal (rk_close p), raw_decimal (rk_volume p)) of
          (Some op, Some hi, Some lo, Some cl, Some vol) \<Rightarrow>
            if op \<le> 0 \<or> hi \<le> 0 \<or> lo \<le> 0 \<or> cl \<le> 0 then Inl NON_POSITIVE_PRICE
            else if vol < 0 then Inl NEGATIVE_QUANTITY
            else if hi < lo \<or> \<not> (lo \<le> op \<and> op \<le> hi) \<or> \<not> (lo \<le> cl \<and> cl \<le> hi) then Inl MALFORMED
            else (case rk_trades p of
                Some None \<Rightarrow> Inl MALFORMED
              | tc \<Rightarrow> Inr \<lparr>cd_timeframe = tf, cd_open_time = ms_to_utc ts, cd_open = op,
                    cd_high = hi, cd_low = lo, cd_close = cl, cd_volume = vol,
                    cd_trade_count = (case tc of Some (Some n) \<Rightarrow> n | _ \<Rightarrow> 0)\<rparr>)
        | _ \<Rightarrow> Inl NON_FINITE_VALUE)"

section \<open>Order book messages\<close>

record raw_book =
  ro_instrument_id :: "int option"
  ro_timestamp :: "int option"
  ro_sequence :: "int option option" \<comment> \<open>absent, or present and an integer or not\<close>
  ro_is_snapshot :: bool
  ro_bids :: "(raw \<times> raw) list option" \<comment> \<open>\<open>None\<close>: no list of pairs\<close>
  ro_asks :: "(raw \<times> raw) list option"

definition parse_levels :: "(raw \<times> raw) list option \<Rightarrow> level list option" where
  "parse_levels levels =
     (case levels of None \<Rightarrow> None
      | Some ls \<Rightarrow> those (map (\<lambda>(p, q). case (raw_decimal p, raw_decimal q) of
            (Some price, Some quantity) \<Rightarrow>
              if price \<le> 0 \<or> quantity < 0 then None else Some (price, quantity)
          | _ \<Rightarrow> None) ls))"

definition crossed_levels :: "level list \<Rightarrow> level list \<Rightarrow> bool" where
  "crossed_levels bids asks =
     (case (max_price (filter (\<lambda>(p, q). 0 < q) bids), min_price (filter (\<lambda>(p, q). 0 < q) asks)) of
        (Some bid, Some ask) \<Rightarrow> ask < bid | _ \<Rightarrow> False)"

definition validate_book_message ::
  "raw_book option \<Rightarrow> int option \<Rightarrow> reject_reason + book_message" where
  "validate_book_message payload instrument_id =
     (case payload of None \<Rightarrow> Inl MALFORMED
      | Some p \<Rightarrow>
        case (case positive_id (ro_instrument_id p) of None \<Rightarrow> instrument_id | Some i \<Rightarrow> Some i) of
          None \<Rightarrow> Inl MISSING_FIELD
      | Some i \<Rightarrow>
        case timestamp_ms (ro_timestamp p) of None \<Rightarrow> Inl BAD_TIMESTAMP
      | Some ts \<Rightarrow>
        if ro_sequence p = Some None then Inl BAD_SEQUENCE
        else case (parse_levels (ro_bids p), parse_levels (ro_asks p)) of
          (Some bids, Some asks) \<Rightarrow>
            if ro_is_snapshot p \<and> crossed_levels bids asks then Inl CROSSED_BOOK
            else Inr \<lparr>bm_instrument_id = i, bm_is_snapshot = ro_is_snapshot p, bm_bids = bids,
              bm_asks = asks, bm_ts_ms = ts,
              bm_sequence = (case ro_sequence p of Some s \<Rightarrow> s | None \<Rightarrow> None)\<rparr>
        | _ \<Rightarrow> Inl NEGATIVE_QUANTITY)"

section \<open>What an accepted event satisfies\<close>

lemma accepted_bbo:
  "validate_bbo p = Inr b \<Longrightarrow>
     0 < bb_bid_price b \<and> bb_bid_price b \<le> bb_ask_price b \<and> 0 \<le> bb_bid_quantity b \<and>
     0 \<le> bb_ask_quantity b \<and> 0 < bb_instrument_id b"
  by (auto simp: validate_bbo_def positive_id_def not_le not_less split: option.splits if_splits)

lemma accepted_candle:
  "validate_kline p tf = Inr c \<Longrightarrow>
     0 < cd_low c \<and> cd_low c \<le> cd_open c \<and> cd_open c \<le> cd_high c \<and> cd_low c \<le> cd_close c \<and>
     cd_close c \<le> cd_high c \<and> 0 \<le> cd_volume c \<and> timeframe_of tf = Some (cd_timeframe c)"
  by (auto simp: validate_kline_def not_le not_less split: option.splits if_splits)

lemma those_in: "those xs = Some ys \<Longrightarrow> y \<in> set ys \<Longrightarrow> Some y \<in> set xs"
  by (induction xs arbitrary: ys) (auto split: option.splits)

lemma parse_levels_sound:
  "parse_levels ls = Some ys \<Longrightarrow> (p, q) \<in> set ys \<Longrightarrow> 0 < p \<and> 0 \<le> q"
  by (auto simp: parse_levels_def dest!: those_in split: option.splits if_splits)

end
