(* ===== verification/Market_Data.thy ===== *)
theory Market_Data
  imports Event_Validation
begin

text \<open>
  The event handlers of \<open>app/data/market_data_service.py\<close>: every frame is validated, filtered by the time
  order of its channel, and recorded in the tracker of its instrument, in the order books and in the
  persistence buffers.  The caches, metrics and logs are left out; the buffers are the lists of what is
  appended to them.
\<close>

section \<open>State\<close>

datatype channel = TICKER | BBO | TRADES | ORDERBOOK | KLINES | STATISTICS

record channel_health =
  ch_last_event_ts :: "datetime option"
  ch_last_local_at :: "datetime option"
  ch_valid_count :: int
  ch_invalid_count :: int
  ch_last_invalid_reason :: "reject_reason option"
  ch_invalid_times :: "float64 list"

definition new_health :: channel_health where
  "new_health = \<lparr>ch_last_event_ts = None, ch_last_local_at = None, ch_valid_count = 0,
     ch_invalid_count = 0, ch_last_invalid_reason = None, ch_invalid_times = []\<rparr>"

record instrument_tracker =
  it_instrument_pk :: int
  it_instrument_id :: int
  it_symbol :: string
  it_channels :: "(channel \<times> channel_health) list"
  it_last_mark_price :: "decimal option"
  it_last_index_price :: "decimal option"
  it_last_funding_rate :: "decimal option"
  it_last_bbo :: "bbo_update option"
  it_last_volume_24h :: "decimal option"
  it_last_next_funding_at :: "datetime option"
  it_last_funding_rate_at :: "datetime option"
  it_last_stats_at :: "datetime option"
  it_last_resync_request_at :: "float64 option"
  it_resync_requests :: int

definition new_tracker :: "int \<Rightarrow> int \<Rightarrow> string \<Rightarrow> instrument_tracker" where
  "new_tracker pk i symbol = \<lparr>it_instrument_pk = pk, it_instrument_id = i, it_symbol = symbol,
     it_channels = [], it_last_mark_price = None, it_last_index_price = None,
     it_last_funding_rate = None, it_last_bbo = None, it_last_volume_24h = None,
     it_last_next_funding_at = None, it_last_funding_rate_at = None, it_last_stats_at = None,
     it_last_resync_request_at = None, it_resync_requests = 0\<rparr>"

definition health_of :: "instrument_tracker \<Rightarrow> channel \<Rightarrow> channel_health" where
  "health_of t ch = (case map_of (it_channels t) ch of None \<Rightarrow> new_health | Some h \<Rightarrow> h)"

definition set_health :: "channel \<Rightarrow> channel_health \<Rightarrow> instrument_tracker \<Rightarrow> instrument_tracker" where
  "set_health ch h t = t\<lparr>it_channels := AList.update ch h (it_channels t)\<rparr>"

text \<open>The service's clocks: \<open>now\<close> is the wall clock, \<open>mono\<close> the monotonic one.\<close>

record market_clock =
  mt_now :: datetime
  mt_mono :: float64

definition record_valid ::
  "market_clock \<Rightarrow> channel \<Rightarrow> datetime \<Rightarrow> instrument_tracker \<Rightarrow> instrument_tracker" where
  "record_valid clk ch ts t =
     (let h = health_of t ch in
      set_health ch (h\<lparr>ch_valid_count := ch_valid_count h + 1, ch_last_event_ts := Some ts,
                       ch_last_local_at := Some (mt_now clk)\<rparr>) t)"

definition record_invalid ::
  "market_clock \<Rightarrow> channel \<Rightarrow> reject_reason \<Rightarrow> instrument_tracker \<Rightarrow> instrument_tracker" where
  "record_invalid clk ch reason t =
     (let h = health_of t ch in
      set_health ch (h\<lparr>ch_invalid_count := ch_invalid_count h + 1,
                       ch_last_invalid_reason := Some reason,
                       ch_invalid_times := ch_invalid_times h @ [mt_mono clk]\<rparr>) t)"

definition out_of_order :: "instrument_tracker \<Rightarrow> channel \<Rightarrow> datetime \<Rightarrow> bool" where
  "out_of_order t ch ts =
     (case ch_last_event_ts (health_of t ch) of None \<Rightarrow> False | Some seen \<Rightarrow> ts < seen)"

text \<open>Appends to the buffers of one handled event; the book buffer takes the rows of accepted snapshots.\<close>

record book_row =
  br_instrument_pk :: int
  br_ts :: datetime
  br_sequence :: "int option"
  br_bids :: "level list"
  br_asks :: "level list"
  br_best_bid :: "decimal option"
  br_best_ask :: "decimal option"
  br_spread_bps :: "decimal option"

definition book_persist_levels :: nat where
  "book_persist_levels = 20"


record appended =
  ap_ticks :: "(int \<times> ticker_data) list"
  ap_funding :: "(int \<times> decimal \<times> datetime) list"
  ap_candles :: "(int \<times> candle_data) list"

definition nothing :: appended where
  "nothing = \<lparr>ap_ticks = [], ap_funding = [], ap_candles = []\<rparr>"

section \<open>Handlers\<close>

definition handle_ticker ::
  "market_clock \<Rightarrow> decimal \<Rightarrow> raw_ticker option \<Rightarrow> instrument_tracker \<Rightarrow> appended \<times> instrument_tracker"
where
  "handle_ticker clk max_bps payload t =
     (case validate_ticker payload (it_last_mark_price t) max_bps of
        Inl reason \<Rightarrow> (nothing, record_invalid clk TICKER reason t)
      | Inr td \<Rightarrow>
          if out_of_order t TICKER (td_ts td)
          then (nothing, record_invalid clk TICKER OUT_OF_ORDER t)
          else
            let funding_changed =
                  td_funding_rate td \<noteq> None \<and> td_funding_rate td \<noteq> it_last_funding_rate t;
                pk = it_instrument_pk t;
                keep = (\<lambda>new old. case new of None \<Rightarrow> old | Some x \<Rightarrow> Some x);
                t' = record_valid clk TICKER (td_ts td) t in
            (nothing\<lparr>ap_ticks := [(pk, td)],
                ap_funding := (case td_funding_rate td of
                  Some r \<Rightarrow> if funding_changed then [(pk, r, td_ts td)] else [] | None \<Rightarrow> [])\<rparr>,
             t'\<lparr>it_last_mark_price := keep (td_mark_price td) (it_last_mark_price t),
                it_last_index_price := keep (td_index_price td) (it_last_index_price t),
                it_last_next_funding_at :=
                  (case td_next_funding_at td of None \<Rightarrow> it_last_next_funding_at t | x \<Rightarrow> x),
                it_last_funding_rate := keep (td_funding_rate td) (it_last_funding_rate t),
                it_last_funding_rate_at :=
                  (if td_funding_rate td \<noteq> None then Some (td_ts td)
                   else it_last_funding_rate_at t)\<rparr>))"

definition handle_bbo ::
  "market_clock \<Rightarrow> raw_bbo option \<Rightarrow> instrument_tracker \<Rightarrow> appended \<times> instrument_tracker" where
  "handle_bbo clk payload t =
     (case validate_bbo payload of
        Inl reason \<Rightarrow> (nothing, record_invalid clk BBO reason t)
      | Inr b \<Rightarrow>
          let ts = ms_to_utc (bb_ts_ms b) in
          if out_of_order t BBO ts then (nothing, record_invalid clk BBO OUT_OF_ORDER t)
          else (nothing, (record_valid clk BBO ts t)\<lparr>it_last_bbo := Some b\<rparr>))"

fun check_trades ::
  "market_clock \<Rightarrow> decimal \<Rightarrow> raw_trade option list \<Rightarrow> datetime option \<Rightarrow> instrument_tracker \<Rightarrow>
     datetime option \<times> instrument_tracker" where
  "check_trades clk max_bps [] latest t = (latest, t)"
| "check_trades clk max_bps (p # ps) latest t =
     (case validate_trade p (it_last_mark_price t) max_bps of
        Inl reason \<Rightarrow> check_trades clk max_bps ps latest (record_invalid clk TRADES reason t)
      | Inr d \<Rightarrow> check_trades clk max_bps ps
                   (Some (case latest of None \<Rightarrow> tr_ts d | Some l \<Rightarrow> max l (tr_ts d))) t)"

definition handle_trades ::
  "market_clock \<Rightarrow> decimal \<Rightarrow> raw_trade option list \<Rightarrow> instrument_tracker \<Rightarrow> appended \<times> instrument_tracker"
where
  "handle_trades clk max_bps entries t =
     (case check_trades clk max_bps entries None t of
        (None, t') \<Rightarrow> (nothing, t')
      | (Some ts, t') \<Rightarrow> (nothing, record_valid clk TRADES ts t'))"

definition handle_kline ::
  "market_clock \<Rightarrow> raw_kline option \<Rightarrow> string \<Rightarrow> instrument_tracker \<Rightarrow> appended \<times> instrument_tracker"
where
  "handle_kline clk payload timeframe t =
     (case validate_kline payload timeframe of
        Inl reason \<Rightarrow> (nothing, record_invalid clk KLINES reason t)
      | Inr c \<Rightarrow>
          if out_of_order t KLINES (cd_open_time c)
          then (nothing, record_invalid clk KLINES OUT_OF_ORDER t)
          else (nothing\<lparr>ap_candles := [(it_instrument_pk t, c)]\<rparr>,
                record_valid clk KLINES (cd_open_time c) t))"

definition resync_min_interval :: float64 where
  "resync_min_interval = 5"

text \<open>A resync request, unless the last one is too recent; the flag says whether it was sent.\<close>

definition request_book_resync ::
  "market_clock \<Rightarrow> instrument_tracker \<Rightarrow> orderbook_manager \<Rightarrow>
     bool \<times> instrument_tracker \<times> orderbook_manager" where
  "request_book_resync clk t mgr =
     (if (case it_last_resync_request_at t of None \<Rightarrow> False
          | Some sent \<Rightarrow> fsub (mt_mono clk) sent < resync_min_interval)
      then (False, t, mgr)
      else (True,
        t\<lparr>it_last_resync_request_at := Some (mt_mono clk),
          it_resync_requests := it_resync_requests t + 1\<rparr>,
        AList.update (it_instrument_id t) (reset_for_resync (book_of mgr (it_instrument_id t)))
          (ensure_book (it_instrument_id t) mgr)))"

definition book_row :: "instrument_tracker \<Rightarrow> book_message \<Rightarrow> orderbook_state \<Rightarrow> book_row" where
  "book_row t m book =
     (let top = top_of_book book;
          levels = (\<lambda>side. case best_levels book side book_persist_levels of Inr ls \<Rightarrow> ls | Inl _ \<Rightarrow> []) in
      \<lparr>br_instrument_pk = it_instrument_pk t, br_ts = ms_to_utc (bm_ts_ms m), br_sequence = bm_sequence m,
       br_bids = levels ''bid'', br_asks = levels ''ask'',
       br_best_bid = map_option fst (bt_best_bid top), br_best_ask = map_option fst (bt_best_ask top),
       br_spread_bps = bt_spread_bps top\<rparr>)"

text \<open>The rows to persist, whether the channel is resubscribed, the tracker and the books.\<close>

definition handle_book ::
  "market_clock \<Rightarrow> raw_book option \<Rightarrow> instrument_tracker \<Rightarrow> orderbook_manager \<Rightarrow>
     book_row list \<times> bool \<times> instrument_tracker \<times> orderbook_manager" where
  "handle_book clk payload t mgr =
     (case validate_book_message payload (Some (it_instrument_id t)) of
        Inl reason \<Rightarrow> ([], False, record_invalid clk ORDERBOOK reason t, mgr)
      | Inr m \<Rightarrow>
          let (ok, mgr1) = manager_apply m mgr;
              mgr' = ensure_book (it_instrument_id t) mgr1;
              book = book_of mgr' (it_instrument_id t) in
          if \<not> ok \<or> ob_needs_resync book
          then ([], request_book_resync clk (record_invalid clk ORDERBOOK BAD_SEQUENCE t) mgr')
          else (if bm_is_snapshot m then [book_row t m book] else [], False,
                record_valid clk ORDERBOOK (ms_to_utc (bm_ts_ms m)) t, mgr'))"

text \<open>
  Statistics carry at most a volume: absent, unusable or a number.  A timestamp that is no datetime raises
  before anything changes, and the consumer drops the frame.
\<close>

definition handle_statistics ::
  "market_clock \<Rightarrow> (raw \<times> int option) option \<Rightarrow> instrument_tracker \<Rightarrow> instrument_tracker" where
  "handle_statistics clk payload t =
     (case payload of None \<Rightarrow> record_invalid clk STATISTICS MALFORMED t
      | Some (volume, ts_ms) \<Rightarrow>
          if ts_ms \<noteq> None \<and> \<not> representable_ms (the ts_ms) then t
          else
            let ts = (case ts_ms of Some ms \<Rightarrow> if ms = 0 then mt_now clk else ms_to_utc ms
                      | None \<Rightarrow> mt_now clk) in
            case volume of
              Absent \<Rightarrow> record_valid clk STATISTICS ts t
            | Garbage \<Rightarrow> record_invalid clk STATISTICS NON_FINITE_VALUE t
            | Number v \<Rightarrow>
                if v < 0 then record_invalid clk STATISTICS NON_FINITE_VALUE t
                else record_valid clk STATISTICS ts
                       (t\<lparr>it_last_volume_24h := Some v, it_last_stats_at := Some ts\<rparr>))"

section \<open>The service\<close>

datatype payload =
    P_Ticker "raw_ticker option" | P_Bbo "raw_bbo option" | P_Trades "raw_trade option list"
  | P_Book "raw_book option" | P_Kline "raw_kline option" string
  | P_Statistics "(raw \<times> int option) option"

text \<open>A frame of a known channel names its instrument, or no integer; other channels are unknown.\<close>

datatype frame = Unknown_Channel | Frame "int option" payload

record market_state =
  ms_trackers :: "(int \<times> instrument_tracker) list"
  ms_books :: orderbook_manager
  ms_ticks :: "(int \<times> ticker_data) list"
  ms_funding :: "(int \<times> decimal \<times> datetime) list"
  ms_candles :: "(int \<times> candle_data) list"
  ms_book_rows :: "book_row list"
  ms_resubscribed :: "int list"
  ms_unknown_instrument_frames :: int
  ms_unknown_channel_frames :: int

definition empty_market :: market_state where
  "empty_market = \<lparr>ms_trackers = [], ms_books = [], ms_ticks = [], ms_funding = [], ms_candles = [],
     ms_book_rows = [], ms_resubscribed = [], ms_unknown_instrument_frames = 0,
     ms_unknown_channel_frames = 0\<rparr>"

definition store_event ::
  "int \<Rightarrow> appended \<times> instrument_tracker \<Rightarrow> market_state \<Rightarrow> market_state" where
  "store_event i r s = (case r of (a, t) \<Rightarrow>
     s\<lparr>ms_trackers := AList.update i t (ms_trackers s), ms_ticks := ms_ticks s @ ap_ticks a,
       ms_funding := ms_funding s @ ap_funding a, ms_candles := ms_candles s @ ap_candles a\<rparr>)"

definition handle_payload ::
  "market_clock \<Rightarrow> decimal \<Rightarrow> payload \<Rightarrow> instrument_tracker \<Rightarrow> market_state \<Rightarrow> market_state" where
  "handle_payload clk max_bps p t s =
     (let i = it_instrument_id t in
      case p of
        P_Ticker q \<Rightarrow> store_event i (handle_ticker clk max_bps q t) s
      | P_Bbo q \<Rightarrow> store_event i (handle_bbo clk q t) s
      | P_Trades qs \<Rightarrow> store_event i (handle_trades clk max_bps qs t) s
      | P_Kline q tf \<Rightarrow> store_event i (handle_kline clk q tf t) s
      | P_Statistics q \<Rightarrow> store_event i (nothing, handle_statistics clk q t) s
      | P_Book q \<Rightarrow>
          (let (rows, resub, t', mgr) = handle_book clk q t (ms_books s) in
           s\<lparr>ms_trackers := AList.update i t' (ms_trackers s), ms_books := mgr,
             ms_book_rows := ms_book_rows s @ rows,
             ms_resubscribed := ms_resubscribed s @ (if resub then [i] else [])\<rparr>))"

definition handle_frame ::
  "market_clock \<Rightarrow> decimal \<Rightarrow> frame \<Rightarrow> market_state \<Rightarrow> market_state" where
  "handle_frame clk max_bps f s =
     (case f of
        Unknown_Channel \<Rightarrow> s\<lparr>ms_unknown_channel_frames := ms_unknown_channel_frames s + 1\<rparr>
      | Frame None p \<Rightarrow> s\<lparr>ms_unknown_channel_frames := ms_unknown_channel_frames s + 1\<rparr>
      | Frame (Some i) p \<Rightarrow>
          (case map_of (ms_trackers s) i of
             None \<Rightarrow> s\<lparr>ms_unknown_instrument_frames := ms_unknown_instrument_frames s + 1\<rparr>
           | Some t \<Rightarrow> handle_payload clk max_bps p t s))"

text \<open>Reconciling the universe: dropped instruments lose tracker and book, new ones get a tracker.\<close>

definition add_tracker ::
  "int \<times> int \<times> string \<Rightarrow> (int \<times> instrument_tracker) list \<Rightarrow> (int \<times> instrument_tracker) list" where
  "add_tracker u ts = (case u of (pk, i, symbol) \<Rightarrow>
     (case map_of ts i of None \<Rightarrow> ts @ [(i, new_tracker pk i symbol)] | Some _ \<Rightarrow> ts))"

definition sync_universe :: "(int \<times> int \<times> string) list \<Rightarrow> market_state \<Rightarrow> market_state" where
  "sync_universe instruments s =
     (let new_ids = set (map (\<lambda>(pk, i, symbol). i) instruments);
          removed = filter (\<lambda>i. i \<notin> new_ids) (map fst (ms_trackers s));
          kept = filter (\<lambda>(i, t). i \<in> new_ids) (ms_trackers s) in
      s\<lparr>ms_books := fold drop_book removed (ms_books s),
        ms_trackers := fold add_tracker instruments kept\<rparr>)"

end
