(* ===== verification/Market_Invariants.thy ===== *)
theory Market_Invariants
  imports Market_Data
begin

text \<open>
  What the event handlers of \<open>app/data/market_data_service.py\<close> keep: the trackers, the order books and the
  persistence buffers hold only validated values, and the event time of a channel never goes back.
\<close>

section \<open>Only valid data is stored\<close>

definition positive_option :: "decimal option \<Rightarrow> bool" where
  "positive_option x = (case x of None \<Rightarrow> True | Some v \<Rightarrow> 0 < v)"

definition bbo_valid :: "bbo_update \<Rightarrow> bool" where
  "bbo_valid b \<longleftrightarrow> 0 < bb_bid_price b \<and> bb_bid_price b \<le> bb_ask_price b \<and>
     0 \<le> bb_bid_quantity b \<and> 0 \<le> bb_ask_quantity b"

definition tracker_valid :: "instrument_tracker \<Rightarrow> bool" where
  "tracker_valid t \<longleftrightarrow> positive_option (it_last_mark_price t) \<and>
     positive_option (it_last_index_price t) \<and>
     (case it_last_bbo t of None \<Rightarrow> True | Some b \<Rightarrow> bbo_valid b) \<and>
     (case it_last_volume_24h t of None \<Rightarrow> True | Some v \<Rightarrow> 0 \<le> v)"

definition candle_valid :: "candle_data \<Rightarrow> bool" where
  "candle_valid c \<longleftrightarrow> 0 < cd_low c \<and> cd_low c \<le> cd_open c \<and> cd_open c \<le> cd_high c \<and>
     cd_low c \<le> cd_close c \<and> cd_close c \<le> cd_high c \<and> 0 \<le> cd_volume c"

definition ticker_valid :: "ticker_data \<Rightarrow> bool" where
  "ticker_valid td \<longleftrightarrow> positive_option (td_mark_price td) \<and> positive_option (td_index_price td) \<and>
     positive_option (td_last_price td) \<and> positive_option (td_mid_price td)"

definition levels_valid :: "level list \<Rightarrow> bool" where
  "levels_valid ls \<longleftrightarrow> list_all (\<lambda>(p, q). 0 < p \<and> 0 < q) ls"

definition book_valid :: "orderbook_state \<Rightarrow> bool" where
  "book_valid b \<longleftrightarrow> levels_valid (ob_bids b) \<and> levels_valid (ob_asks b)"

definition books_valid :: "orderbook_manager \<Rightarrow> bool" where
  "books_valid mgr \<longleftrightarrow> list_all (\<lambda>(i, b). book_valid b) mgr"

definition stored_valid :: "market_state \<Rightarrow> bool" where
  "stored_valid s \<longleftrightarrow> list_all (\<lambda>(i, t). tracker_valid t) (ms_trackers s) \<and>
     books_valid (ms_books s) \<and> list_all (\<lambda>(pk, td). ticker_valid td) (ms_ticks s) \<and>
     list_all (\<lambda>(pk, c). candle_valid c) (ms_candles s)"

lemma record_valid_fields [simp]:
  "it_last_mark_price (record_valid clk ch ts t) = it_last_mark_price t"
  "it_last_index_price (record_valid clk ch ts t) = it_last_index_price t"
  "it_last_bbo (record_valid clk ch ts t) = it_last_bbo t"
  "it_last_volume_24h (record_valid clk ch ts t) = it_last_volume_24h t"
  "it_last_mark_price (record_invalid clk ch r t) = it_last_mark_price t"
  "it_last_index_price (record_invalid clk ch r t) = it_last_index_price t"
  "it_last_bbo (record_invalid clk ch r t) = it_last_bbo t"
  "it_last_volume_24h (record_invalid clk ch r t) = it_last_volume_24h t"
  by (simp_all add: record_valid_def record_invalid_def set_health_def Let_def)

lemma tracker_valid_record [simp]:
  "tracker_valid (record_valid clk ch ts t) = tracker_valid t"
  "tracker_valid (record_invalid clk ch r t) = tracker_valid t"
  by (simp_all add: tracker_valid_def)

lemma first_reason_None: "first_reason rs = None \<longleftrightarrow> (\<forall>r \<in> set rs. r = None)"
  by (induction rs) (auto split: option.splits)

lemma check_price_positive: "check_price r = None \<Longrightarrow> positive_option (raw_decimal r)"
  by (cases r) (auto simp: positive_option_def raw_decimal_def split: if_splits)

lemma accepted_ticker:
  assumes "validate_ticker p ref mb = Inr td"
  shows "ticker_valid td"
proof -
  obtain q where p: "p = Some q" using assms by (cases p) (simp_all add: validate_ticker_def)
  have q: "check_price (rt_mark_price q) = None \<and> check_price (rt_index_price q) = None \<and>
      check_price (rt_last_price q) = None \<and> check_price (rt_mid_price q) = None"
    using assms by (auto simp: p validate_ticker_def Let_def split: option.splits)
  have td: "td_mark_price td = raw_decimal (rt_mark_price q)"
      "td_index_price td = raw_decimal (rt_index_price q)"
      "td_last_price td = raw_decimal (rt_last_price q)"
      "td_mid_price td = raw_decimal (rt_mid_price q)"
    using assms by (auto simp: p validate_ticker_def Let_def split: option.splits)
  show ?thesis unfolding ticker_valid_def td using q by (simp add: check_price_positive)
qed

lemma ticker_stores_valid:
  assumes "tracker_valid t" "handle_ticker clk mb p t = (a, t')"
  shows "tracker_valid t' \<and> list_all (\<lambda>(pk, td). ticker_valid td) (ap_ticks a) \<and> ap_candles a = []"
proof (cases "validate_ticker p (it_last_mark_price t) mb")
  case (Inl k)
  then show ?thesis using assms by (auto simp: handle_ticker_def nothing_def)
next
  case (Inr td)
  note v = accepted_ticker [OF Inr]
  show ?thesis
  proof (cases "out_of_order t TICKER (td_ts td)")
    case True
    then show ?thesis using assms Inr by (auto simp: handle_ticker_def nothing_def)
  next
    case False
    have "ap_ticks a = [(it_instrument_pk t, td)]" "ap_candles a = []"
      "it_last_mark_price t' = (case td_mark_price td of None \<Rightarrow> it_last_mark_price t | Some x \<Rightarrow> Some x)"
      "it_last_index_price t' = (case td_index_price td of None \<Rightarrow> it_last_index_price t | Some x \<Rightarrow> Some x)"
      "it_last_bbo t' = it_last_bbo t" "it_last_volume_24h t' = it_last_volume_24h t"
      using assms(2) Inr False by (auto simp: handle_ticker_def nothing_def Let_def)
    then show ?thesis using v assms(1)
      by (cases "td_mark_price td"; cases "td_index_price td")
        (simp_all add: tracker_valid_def ticker_valid_def nothing_def)
  qed
qed

lemma bbo_stores_valid:
  assumes "tracker_valid t" "handle_bbo clk p t = (a, t')"
  shows "tracker_valid t' \<and> a = nothing"
proof -
  have "bbo_valid b" if "validate_bbo p = Inr b" for b
    using accepted_bbo [OF that] by (simp add: bbo_valid_def)
  with assms show ?thesis
    by (auto simp: handle_bbo_def tracker_valid_def Let_def split: sum.splits if_splits)
qed

lemma check_trades_valid:
  "tracker_valid t \<Longrightarrow> check_trades clk mb ps l t = (l', t') \<Longrightarrow> tracker_valid t'"
  by (induction clk mb ps l t rule: check_trades.induct) (auto split: sum.splits)

lemma trades_stores_valid:
  "tracker_valid t \<Longrightarrow> handle_trades clk mb ps t = (a, t') \<Longrightarrow> tracker_valid t' \<and> a = nothing"
  by (auto simp: handle_trades_def dest: check_trades_valid split: prod.splits option.splits)

lemma kline_stores_valid:
  assumes "tracker_valid t" "handle_kline clk p tf t = (a, t')"
  shows "tracker_valid t' \<and> ap_ticks a = [] \<and> list_all (\<lambda>(pk, c). candle_valid c) (ap_candles a)"
proof -
  have "candle_valid c" if "validate_kline p tf = Inr c" for c
    using accepted_candle [OF that] by (simp add: candle_valid_def)
  with assms show ?thesis
    by (auto simp: handle_kline_def nothing_def split: sum.splits if_splits)
qed

lemma statistics_stores_valid: "tracker_valid t \<Longrightarrow> tracker_valid (handle_statistics clk p t)"
  by (auto simp: handle_statistics_def tracker_valid_def Let_def split: option.splits raw.splits prod.splits)

lemma levels_valid_ops:
  "levels_valid []"
  "levels_valid d \<Longrightarrow> 0 < p \<Longrightarrow> 0 < q \<Longrightarrow> levels_valid (AList.update p q d)"
  "levels_valid d \<Longrightarrow> levels_valid (AList.delete p d)"
proof -
  show "levels_valid []" by (simp add: levels_valid_def)
  show "levels_valid d \<Longrightarrow> 0 < p \<Longrightarrow> 0 < q \<Longrightarrow> levels_valid (AList.update p q d)"
    unfolding levels_valid_def by (induction d) auto
  show "levels_valid d \<Longrightarrow> levels_valid (AList.delete p d)"
    unfolding levels_valid_def list_all_iff AList.delete_eq by simp
qed

lemma snapshot_side_valid:
  assumes "list_all (\<lambda>(p, q). 0 < p \<and> 0 \<le> q) ls"
  shows "levels_valid (snapshot_side ls)"
proof -
  have "levels_valid xs \<Longrightarrow> levels_valid d \<Longrightarrow>
      levels_valid (fold (\<lambda>(p, q) d. AList.update p q d) xs d)" for xs d
  proof (induction xs arbitrary: d)
    case (Cons x xs)
    obtain p q where x: "x = (p, q)" by fastforce
    with Cons.prems have "levels_valid xs" "0 < p" "0 < q" by (simp_all add: levels_valid_def)
    with Cons x show ?case by (simp add: levels_valid_ops)
  qed simp
  moreover have "levels_valid (filter (\<lambda>(p, q). 0 < q) ls)"
    using assms unfolding levels_valid_def by (induction ls) auto
  ultimately show ?thesis by (simp add: snapshot_side_def levels_valid_ops)
qed

lemma delta_side_valid:
  "list_all (\<lambda>(p, q). 0 < p \<and> 0 \<le> q) ls \<Longrightarrow> levels_valid d \<Longrightarrow> levels_valid (delta_side ls d)"
  unfolding delta_side_def
proof (induction ls arbitrary: d)
  case (Cons l ls)
  have "levels_valid (delta_level l d)"
    using Cons.prems by (cases l) (simp add: delta_level_def levels_valid_ops)
  with Cons show ?case by simp
qed simp

lemma message_book_valid:
  assumes "book_valid b" "list_all (\<lambda>(p, q). 0 < p \<and> 0 \<le> q) (bm_bids m)"
    "list_all (\<lambda>(p, q). 0 < p \<and> 0 \<le> q) (bm_asks m)"
  shows "book_valid (snd (apply_message m b))"
proof -
  have "levels_valid (snapshot_side (bm_bids m))" "levels_valid (snapshot_side (bm_asks m))"
    "levels_valid (delta_side (bm_bids m) (ob_bids b))" "levels_valid (delta_side (bm_asks m) (ob_asks b))"
    using assms by (simp_all add: snapshot_side_valid delta_side_valid book_valid_def)
  then show ?thesis using assms(1)
    by (simp add: apply_message_def apply_snapshot_def apply_delta_def book_valid_def
        mark_unreliable_def Let_def split: option.split)
qed

lemma new_book_valid [simp]: "book_valid (new_book i)"
  by (simp add: book_valid_def new_book_def levels_valid_ops)

lemma reset_book_valid [simp]: "book_valid (reset_for_resync b)"
  by (simp add: book_valid_def reset_for_resync_def levels_valid_ops)

lemma book_of_valid: "books_valid mgr \<Longrightarrow> book_valid (book_of mgr i)"
  by (auto simp: books_valid_def book_of_def list_all_iff dest!: map_of_SomeD split: option.split)

lemma books_valid_update: "books_valid mgr \<Longrightarrow> book_valid b \<Longrightarrow> books_valid (AList.update i b mgr)"
  unfolding books_valid_def by (induction mgr) auto

lemma books_valid_ensure: "books_valid mgr \<Longrightarrow> books_valid (ensure_book i mgr)"
  unfolding books_valid_def by (simp add: ensure_book_def split: option.split)

lemma books_valid_drop: "books_valid mgr \<Longrightarrow> books_valid (drop_book i mgr)"
  unfolding books_valid_def drop_book_def AList.delete_eq by (simp add: list_all_iff)

lemmas books_valid_ops = book_of_valid books_valid_update books_valid_ensure books_valid_drop

lemma manager_apply_valid:
  assumes "books_valid mgr" "list_all (\<lambda>(p, q). 0 < p \<and> 0 \<le> q) (bm_bids m)"
    "list_all (\<lambda>(p, q). 0 < p \<and> 0 \<le> q) (bm_asks m)"
  shows "books_valid (snd (manager_apply m mgr))"
proof -
  have "book_valid (snd (apply_message m (book_of mgr (bm_instrument_id m))))"
    by (rule message_book_valid [OF book_of_valid [OF assms(1)] assms(2,3)])
  then show ?thesis using assms(1)
    by (cases "apply_message m (book_of mgr (bm_instrument_id m))")
      (simp add: manager_apply_def Let_def books_valid_ops)
qed

lemma accepted_book:
  assumes "validate_book_message p i = Inr m"
  shows "list_all (\<lambda>(p, q). 0 < p \<and> 0 \<le> q) (bm_bids m) \<and> list_all (\<lambda>(p, q). 0 < p \<and> 0 \<le> q) (bm_asks m)"
proof -
  obtain q where p: "p = Some q" using assms by (cases p) (simp_all add: validate_book_message_def)
  have "parse_levels (ro_bids q) = Some (bm_bids m) \<and> parse_levels (ro_asks q) = Some (bm_asks m)"
    using assms by (auto simp: p validate_book_message_def split: option.splits if_splits)
  then show ?thesis by (auto simp: list_all_iff dest: parse_levels_sound)
qed

lemma resync_stores_valid:
  assumes "tracker_valid t" "books_valid mgr" "request_book_resync clk t mgr = (r, t', mgr')"
  shows "tracker_valid t' \<and> books_valid mgr'"
proof -
  have "books_valid mgr'" using assms(2,3)
    by (auto simp: request_book_resync_def books_valid_ops split: if_splits)
  moreover have "tracker_valid t'" using assms(1,3)
    by (auto simp: request_book_resync_def tracker_valid_def split: if_splits)
  ultimately show ?thesis by simp
qed

lemma book_stores_valid:
  assumes "tracker_valid t" "books_valid mgr" "handle_book clk p t mgr = (rows, r, t', mgr')"
  shows "tracker_valid t' \<and> books_valid mgr'"
proof (cases "validate_book_message p (Some (it_instrument_id t))")
  case (Inl k)
  then show ?thesis using assms by (auto simp: handle_book_def)
next
  case (Inr m)
  obtain ok mgr1 where m1: "manager_apply m mgr = (ok, mgr1)" by (cases "manager_apply m mgr")
  define mgr2 where "mgr2 = ensure_book (it_instrument_id t) mgr1"
  from m1 manager_apply_valid [OF assms(2), of m] accepted_book [OF Inr] have v: "books_valid mgr2"
    by (simp add: mgr2_def books_valid_ensure)
  show ?thesis
  proof (cases "\<not> ok \<or> ob_needs_resync (book_of mgr2 (it_instrument_id t))")
    case True
    then show ?thesis
      using resync_stores_valid [OF _ v, of "record_invalid clk ORDERBOOK BAD_SEQUENCE t" clk] Inr m1 assms
      by (simp add: handle_book_def Let_def mgr2_def)
  next
    case False
    then show ?thesis using Inr m1 v assms by (auto simp: handle_book_def Let_def mgr2_def)
  qed
qed

lemma update_tracker_valid:
  assumes "list_all (\<lambda>(i, t). tracker_valid t) ts" "tracker_valid t'"
  shows "list_all (\<lambda>(i, t). tracker_valid t) (AList.update i t' ts)"
  using assms by (induction ts) auto

lemma stored_put:
  assumes "stored_valid s" "tracker_valid t'" "list_all (\<lambda>(pk, td). ticker_valid td) (ap_ticks a)"
    and "list_all (\<lambda>(pk, c). candle_valid c) (ap_candles a)"
  shows "stored_valid (store_event i (a, t') s)"
  using assms by (simp add: stored_valid_def store_event_def update_tracker_valid)

lemma store_nothing [simp]: "ap_ticks nothing = []" "ap_candles nothing = []"
  by (simp_all add: nothing_def)

lemma payload_stores_valid:
  assumes "stored_valid s" "tracker_valid t"
  shows "stored_valid (handle_payload clk mb p t s)"
proof (cases p)
  case (P_Ticker q)
  obtain a t' where "handle_ticker clk mb q t = (a, t')" by fastforce
  with P_Ticker ticker_stores_valid [OF assms(2) this] stored_put [OF assms(1)] show ?thesis
    by (simp add: handle_payload_def)
next
  case (P_Bbo q)
  obtain a t' where "handle_bbo clk q t = (a, t')" by fastforce
  with P_Bbo bbo_stores_valid [OF assms(2) this] stored_put [OF assms(1)] show ?thesis
    by (simp add: handle_payload_def)
next
  case (P_Trades q)
  obtain a t' where "handle_trades clk mb q t = (a, t')" by fastforce
  with P_Trades trades_stores_valid [OF assms(2) this] stored_put [OF assms(1)] show ?thesis
    by (simp add: handle_payload_def)
next
  case (P_Kline q tf)
  obtain a t' where "handle_kline clk q tf t = (a, t')" by fastforce
  with P_Kline kline_stores_valid [OF assms(2) this] stored_put [OF assms(1)] show ?thesis
    by (simp add: handle_payload_def)
next
  case (P_Statistics q)
  with statistics_stores_valid [OF assms(2)] stored_put [OF assms(1)] show ?thesis
    by (simp add: handle_payload_def)
next
  case (P_Book q)
  obtain rows r t' mgr where h: "handle_book clk q t (ms_books s) = (rows, r, t', mgr)"
    by (metis prod_cases4)
  have "books_valid (ms_books s)" using assms(1) by (simp add: stored_valid_def)
  with P_Book book_stores_valid [OF assms(2) _ h] h assms(1) show ?thesis
    by (simp add: handle_payload_def stored_valid_def update_tracker_valid Let_def)
qed

lemma frame_stores_valid:
  assumes "stored_valid s"
  shows "stored_valid (handle_frame clk mb f s)"
proof (cases f)
  case Unknown_Channel
  with assms show ?thesis by (simp add: handle_frame_def stored_valid_def)
next
  case (Frame j p)
  show ?thesis
  proof (cases j)
    case None
    with Frame assms show ?thesis by (simp add: handle_frame_def stored_valid_def)
  next
    case (Some i)
    show ?thesis
    proof (cases "map_of (ms_trackers s) i")
      case None
      with Frame Some assms show ?thesis by (simp add: handle_frame_def stored_valid_def)
    next
      case t: (Some t)
      then have "tracker_valid t" using assms
        by (auto simp: stored_valid_def list_all_iff dest!: map_of_SomeD)
      with Frame Some t payload_stores_valid [OF assms] show ?thesis by (simp add: handle_frame_def)
    qed
  qed
qed

lemma new_tracker_valid [simp]: "tracker_valid (new_tracker pk i symbol)"
  by (simp add: tracker_valid_def new_tracker_def positive_option_def)

lemma add_trackers_valid:
  "list_all (\<lambda>(i, t). tracker_valid t) ts \<Longrightarrow> list_all (\<lambda>(i, t). tracker_valid t) (fold add_tracker us ts)"
proof (induction us arbitrary: ts)
  case (Cons u us)
  have "list_all (\<lambda>(i, t). tracker_valid t) (add_tracker u ts)"
    using Cons.prems by (cases u) (simp add: add_tracker_def split: option.split)
  with Cons.IH show ?case by simp
qed simp

lemma sync_stores_valid:
  assumes "stored_valid s"
  shows "stored_valid (sync_universe us s)"
proof -
  have "books_valid (fold drop_book is mgr)" if "books_valid mgr" for "is" mgr
    using that by (induction "is" arbitrary: mgr) (auto intro: books_valid_ops)
  moreover have "list_all (\<lambda>(i, t). tracker_valid t) (filter (\<lambda>(i, t). P i) (ms_trackers s))" for P
    using assms by (auto simp: stored_valid_def list_all_iff)
  ultimately show ?thesis
    using assms by (simp add: sync_universe_def stored_valid_def Let_def add_trackers_valid)
qed

section \<open>Event time\<close>

text \<open>An accepted event never precedes the last one of its channel.\<close>

definition channel_time :: "channel \<Rightarrow> instrument_tracker \<Rightarrow> datetime option" where
  "channel_time ch t = ch_last_event_ts (health_of t ch)"

definition later :: "datetime option \<Rightarrow> datetime option \<Rightarrow> bool" where
  "later old new = (case old of None \<Rightarrow> True
     | Some a \<Rightarrow> (case new of None \<Rightarrow> False | Some b \<Rightarrow> a \<le> b))"

lemma later_refl [simp]: "later a a"
  by (simp add: later_def split: option.split)

lemma later_trans: "later a b \<Longrightarrow> later b c \<Longrightarrow> later a c"
  by (auto simp: later_def split: option.splits)

lemma health_set [simp]: "health_of (set_health ch h t) ch' = (if ch' = ch then h else health_of t ch')"
  by (simp add: health_of_def set_health_def AList.update_conv')

lemma channel_time_record [simp]:
  "channel_time ch (record_valid clk ch' ts t) = (if ch = ch' then Some ts else channel_time ch t)"
  "channel_time ch (record_invalid clk ch' r t) = channel_time ch t"
  by (simp_all add: channel_time_def record_valid_def record_invalid_def Let_def)

lemma channel_time_fields [simp]:
  "channel_time ch (t\<lparr>it_last_mark_price := a, it_last_index_price := b, it_last_next_funding_at := c,
     it_last_funding_rate := d, it_last_funding_rate_at := e\<rparr>) = channel_time ch t"
  "channel_time ch (t\<lparr>it_last_bbo := f\<rparr>) = channel_time ch t"
  by (simp_all add: channel_time_def health_of_def)

lemma in_order_later: "\<not> out_of_order t ch ts \<Longrightarrow> later (channel_time ch t) (Some ts)"
  by (simp add: out_of_order_def later_def channel_time_def split: option.splits)

lemma ticker_time: "later (channel_time ch t) (channel_time ch (snd (handle_ticker clk mb p t)))"
  by (auto simp: handle_ticker_def Let_def in_order_later split: sum.split)

lemma bbo_time: "later (channel_time ch t) (channel_time ch (snd (handle_bbo clk p t)))"
  by (auto simp: handle_bbo_def Let_def in_order_later split: sum.split)

lemma kline_time: "later (channel_time ch t) (channel_time ch (snd (handle_kline clk p tf t)))"
  by (auto simp: handle_kline_def in_order_later split: sum.split)

lemmas handler_time = ticker_time bbo_time kline_time

text \<open>The other handlers leave the times of these channels alone.\<close>

lemma check_trades_frame:
  "check_trades clk mb ps l t = (l', t') \<Longrightarrow>
     channel_time ch t' = channel_time ch t \<and> it_instrument_id t' = it_instrument_id t"
  by (induction clk mb ps l t rule: check_trades.induct)
    (auto simp: record_invalid_def set_health_def channel_time_def health_of_def AList.update_conv'
      Let_def split: sum.splits)

lemma record_id [simp]:
  "it_instrument_id (record_valid clk ch ts t) = it_instrument_id t"
  "it_instrument_id (record_invalid clk ch r t) = it_instrument_id t"
  by (simp_all add: record_valid_def record_invalid_def set_health_def Let_def)

lemma trades_time:
  "ch \<noteq> TRADES \<Longrightarrow> channel_time ch (snd (handle_trades clk mb ps t)) = channel_time ch t"
  by (auto simp: handle_trades_def dest: check_trades_frame [where ch = ch] split: prod.split option.split)

lemma statistics_time:
  "ch \<noteq> STATISTICS \<Longrightarrow> channel_time ch (handle_statistics clk p t) = channel_time ch t"
  by (auto simp: handle_statistics_def Let_def channel_time_def health_of_def record_valid_def
      record_invalid_def set_health_def AList.update_conv' split: option.split raw.split)

lemma resync_frame:
  "request_book_resync clk t mgr = (r, t', mgr') \<Longrightarrow>
     channel_time ch t' = channel_time ch t \<and> it_instrument_id t' = it_instrument_id t"
  by (auto simp: request_book_resync_def channel_time_def health_of_def split: if_splits)

lemma book_frame:
  assumes "handle_book clk p t mgr = (rows, r, t', mgr')"
  shows "(ch \<noteq> ORDERBOOK \<longrightarrow> channel_time ch t' = channel_time ch t) \<and>
    it_instrument_id t' = it_instrument_id t"
  using assms
  by (auto simp: handle_book_def Let_def dest!: resync_frame [where ch = ch]
      split: sum.splits prod.splits if_splits)

lemma handler_id:
  "it_instrument_id (snd (handle_ticker clk mb p1 t)) = it_instrument_id t"
  "it_instrument_id (snd (handle_bbo clk p2 t)) = it_instrument_id t"
  "it_instrument_id (snd (handle_trades clk mb p3 t)) = it_instrument_id t"
  "it_instrument_id (snd (handle_kline clk p4 tf t)) = it_instrument_id t"
  "it_instrument_id (handle_statistics clk p5 t) = it_instrument_id t"
  by (auto simp: handle_ticker_def handle_bbo_def handle_trades_def handle_kline_def
      handle_statistics_def Let_def dest: check_trades_frame
      split: sum.split prod.split option.split raw.split)

definition market_time :: "channel \<Rightarrow> int \<Rightarrow> market_state \<Rightarrow> datetime option" where
  "market_time ch i s = (case map_of (ms_trackers s) i of None \<Rightarrow> None | Some t \<Rightarrow> channel_time ch t)"

definition ids_match :: "market_state \<Rightarrow> bool" where
  "ids_match s \<longleftrightarrow> (\<forall>i t. map_of (ms_trackers s) i = Some t \<longrightarrow> it_instrument_id t = i)"

lemma put_tracker_time:
  assumes "map_of (ms_trackers s) i = Some t" "it_instrument_id t' = i" "ids_match s"
    "later (channel_time ch t) (channel_time ch t')" "ms_trackers s' = AList.update i t' (ms_trackers s)"
  shows "ids_match s' \<and> later (market_time ch j s) (market_time ch j s')"
proof
  show "ids_match s'" using assms by (auto simp: ids_match_def AList.update_conv')
  show "later (market_time ch j s) (market_time ch j s')"
    using assms(1,4,5) by (cases "j = i") (simp_all add: market_time_def AList.update_conv')
qed

lemma payload_time:
  assumes "map_of (ms_trackers s) i = Some t" "ids_match s" "ch = TICKER \<or> ch = BBO \<or> ch = KLINES"
  shows "ids_match (handle_payload clk mb p t s) \<and>
    later (market_time ch j s) (market_time ch j (handle_payload clk mb p t s))"
proof -
  have i: "it_instrument_id t = i" using assms(1,2) by (simp add: ids_match_def)
  have ch: "ch \<noteq> TRADES" "ch \<noteq> ORDERBOOK" "ch \<noteq> STATISTICS" using assms(3) by auto
  have store: "ids_match (store_event i r s) \<and> later (market_time ch j s) (market_time ch j (store_event i r s))"
    if "it_instrument_id (snd r) = i" "later (channel_time ch t) (channel_time ch (snd r))" for r
    using put_tracker_time [OF assms(1) that(1) assms(2) that(2), of "store_event i r s"]
    by (simp add: store_event_def split: prod.split)
  show ?thesis
  proof (cases p)
    case (P_Book q)
    obtain rows r t' mgr where h: "handle_book clk q t (ms_books s) = (rows, r, t', mgr)"
      by (metis prod_cases4)
    with P_Book i put_tracker_time [OF assms(1) _ assms(2), of t' ch] book_frame [OF h, of ch] ch
    show ?thesis by (simp add: handle_payload_def Let_def)
  qed (use i ch in \<open>simp_all add: handle_payload_def store handler_id handler_time trades_time statistics_time\<close>)
qed

lemma frame_time:
  assumes "ids_match s" "ch = TICKER \<or> ch = BBO \<or> ch = KLINES"
  shows "ids_match (handle_frame clk mb f s) \<and>
    later (market_time ch j s) (market_time ch j (handle_frame clk mb f s))"
proof (cases f)
  case Unknown_Channel
  with assms(1) show ?thesis by (simp add: handle_frame_def ids_match_def market_time_def)
next
  case (Frame k p)
  show ?thesis
  proof (cases "case k of None \<Rightarrow> None | Some i \<Rightarrow> map_of (ms_trackers s) i")
    case None
    with Frame assms(1) show ?thesis
      by (auto simp: handle_frame_def ids_match_def market_time_def split: option.splits)
  next
    case (Some t)
    with Frame payload_time [OF _ assms, of _ t clk mb p j] show ?thesis
      by (auto simp: handle_frame_def split: option.splits)
  qed
qed

section \<open>Properties\<close>

text \<open>The states the service can be in, under a bound \<open>mb\<close> on outliers.\<close>

inductive market_reachable :: "decimal \<Rightarrow> market_state \<Rightarrow> bool" for mb where
  start: "market_reachable mb empty_market"
| frame: "market_reachable mb s \<Longrightarrow> market_reachable mb (handle_frame clk mb f s)"
| sync: "market_reachable mb s \<Longrightarrow> market_reachable mb (sync_universe us s)"

definition example_clock :: market_clock where
  "example_clock = \<lparr>mt_now = 1700000000000000, mt_mono = 100\<rparr>"

definition example_ticker :: "decimal \<Rightarrow> int \<Rightarrow> raw_ticker option" where
  "example_ticker mark ms = Some \<lparr>rt_instrument_id = Some 7, rt_timestamp = Some ms,
     rt_mark_price = Number mark, rt_index_price = Absent, rt_last_price = Absent,
     rt_mid_price = Absent, rt_open_interest = Absent, rt_funding_rate = Absent,
     rt_next_funding = None\<rparr>"

definition example_kline :: "int \<Rightarrow> raw_kline option" where
  "example_kline ms = Some \<lparr>rk_timestamp = Some ms, rk_open = Number 100, rk_high = Number 102,
     rk_low = Number 99, rk_close = Number 101, rk_volume = Number 5, rk_trades = None\<rparr>"

text \<open>
  C11.  Only validated data is stored: in every state the service reaches from its start, whatever frames and
  universe updates come in which order, the trackers hold positive reference prices, an uncrossed BBO and a
  non-negative volume, the order books hold positive prices with positive quantities, and the tick and
  candle buffers hold only positive prices and candles whose open and close lie between low and high.
\<close>

theorem only_valid_data_stored:
  "market_reachable mb s \<Longrightarrow> stored_valid s"
proof (induction rule: market_reachable.induct)
  case start
  show ?case by (simp add: stored_valid_def empty_market_def books_valid_def)
qed (simp_all add: frame_stores_valid sync_stores_valid)

theorem only_valid_data_stored_witness:
  "stored_valid (handle_frame example_clock 500 (Frame (Some 7) (P_Ticker (example_ticker 100 1700000000000)))
     (sync_universe [(1, 7, ''BTC'')] empty_market))"
  by (rule only_valid_data_stored [where mb = 500])
    (intro market_reachable.frame market_reachable.sync market_reachable.start)

text \<open>
  Event time never goes back: over any sequence of frames, the time of the last accepted ticker, BBO or
  candle of an instrument never decreases, and once there is one there always is.
\<close>

theorem event_time_never_goes_back:
  assumes "ids_match s" "ch = TICKER \<or> ch = BBO \<or> ch = KLINES"
  shows "later (market_time ch i s) (market_time ch i (fold (\<lambda>(clk, f). handle_frame clk mb f) fs s))"
  using assms(1)
proof (induction fs arbitrary: s)
  case (Cons x fs)
  obtain clk f where x: "x = (clk, f)" by fastforce
  with frame_time [OF Cons.prems assms(2), of clk mb f i] Cons.IH [of "handle_frame clk mb f s"]
  show ?case by (auto intro: later_trans)
qed simp

theorem event_time_never_goes_back_witness:
  "later (Some 1700000000000000) (market_time TICKER 7 (fold (\<lambda>(clk, f). handle_frame clk 500 f)
     [(example_clock, Frame (Some 7) (P_Ticker (example_ticker 101 1690000000000)))]
     (handle_frame example_clock 500 (Frame (Some 7) (P_Ticker (example_ticker 100 1700000000000)))
       (sync_universe [(1, 7, ''BTC'')] empty_market))))"
proof -
  let ?first = "sync_universe [(1, 7, ''BTC'')] empty_market"
  let ?s = "handle_frame example_clock 500 (Frame (Some 7) (P_Ticker (example_ticker 100 1700000000000))) ?first"
  have "ids_match ?first"
    by (simp add: ids_match_def sync_universe_def empty_market_def add_tracker_def new_tracker_def)
  then have "ids_match ?s" by (rule conjunct1 [OF frame_time [where ch = TICKER]]) simp
  moreover have "market_time TICKER 7 ?s = Some 1700000000000000" by code_simp
  ultimately show ?thesis using event_time_never_goes_back [of ?s TICKER 7 500] by metis
qed

text \<open>
  Candles of different timeframes share one clock: once a candle is accepted, every valid candle of any
  timeframe that opened earlier is rejected as out of order and nothing is stored.  A coarse bucket opens
  before the finer ones inside it, so after its first minute none of its updates is accepted any more.
\<close>

theorem coarse_candle_starved:
  assumes "validate_kline fine tf = Inr c" "\<not> out_of_order t KLINES (cd_open_time c)"
    and "validate_kline coarse tf' = Inr d" "cd_open_time d < cd_open_time c"
  shows "handle_kline clk' coarse tf' (snd (handle_kline clk fine tf t))
     = (nothing, record_invalid clk' KLINES OUT_OF_ORDER (snd (handle_kline clk fine tf t)))"
proof -
  have "channel_time KLINES (snd (handle_kline clk fine tf t)) = Some (cd_open_time c)"
    using assms(1,2) by (simp add: handle_kline_def)
  then show ?thesis using assms(3,4)
    by (simp add: handle_kline_def [of clk' coarse] out_of_order_def channel_time_def)
qed

theorem coarse_candle_starved_witness:
  "handle_kline example_clock (example_kline 1700000100000) ''5m''
     (snd (handle_kline example_clock (example_kline 1700000160000) ''1m'' (new_tracker 1 7 ''BTC'')))
   = (nothing, record_invalid example_clock KLINES OUT_OF_ORDER
       (snd (handle_kline example_clock (example_kline 1700000160000) ''1m'' (new_tracker 1 7 ''BTC''))))"
proof -
  obtain c where c: "validate_kline (example_kline 1700000160000) ''1m'' = Inr c"
    "cd_open_time c = 1700000160000000"
    by (rule that [of "projr (validate_kline (example_kline 1700000160000) ''1m'')"]) code_simp+
  obtain d where d: "validate_kline (example_kline 1700000100000) ''5m'' = Inr d"
    "cd_open_time d = 1700000100000000"
    by (rule that [of "projr (validate_kline (example_kline 1700000100000) ''5m'')"]) code_simp+
  have "\<not> out_of_order (new_tracker 1 7 ''BTC'') KLINES (cd_open_time c)"
    unfolding c(2) by code_simp
  then show ?thesis using coarse_candle_starved [OF c(1) _ d(1)] c(2) d(2) by simp
qed

text \<open>The tickers of one instrument handled one after the other, with what is stored of them.\<close>

fun run_tickers ::
  "decimal \<Rightarrow> (market_clock \<times> raw_ticker option) list \<Rightarrow> instrument_tracker \<Rightarrow>
     (int \<times> ticker_data) list \<times> instrument_tracker" where
  "run_tickers mb [] t = ([], t)"
| "run_tickers mb ((clk, p) # ps) t =
     (let (a, t1) = handle_ticker clk mb p t; (out, t2) = run_tickers mb ps t1 in (ap_ticks a @ out, t2))"

lemma outlier_rejected:
  assumes "it_last_mark_price t = Some r" "0 < r" "rt_mark_price q = Number m" "mb < deviation_bps m r"
  shows "\<exists>k. handle_ticker clk mb (Some q) t = (nothing, record_invalid clk TICKER k t)"
proof -
  have "\<exists>k. validate_ticker (Some q) (Some r) mb = Inl k"
  proof (cases "validate_ticker (Some q) (Some r) mb")
    case (Inr td)
    then show ?thesis using assms(2-4)
      by (auto simp: validate_ticker_def raw_decimal_def outlier_def Let_def split: option.splits)
  qed simp
  then show ?thesis using assms(1) by (auto simp: handle_ticker_def)
qed

text \<open>
  A price jump locks an instrument out: once the last mark price is \<open>r\<close>, tickers whose mark deviates from
  \<open>r\<close> by more than the bound are all rejected, however many arrive and however consistent they are with
  each other; nothing is stored, each counts as an invalid event, and the reference \<open>r\<close> stays.
\<close>

theorem outlier_locks_out:
  assumes "it_last_mark_price t = Some r" "0 < r"
    and "\<forall>(clk, p) \<in> set ps. \<exists>q m. p = Some q \<and> rt_mark_price q = Number m \<and> mb < deviation_bps m r"
  shows "fst (run_tickers mb ps t) = [] \<and> it_last_mark_price (snd (run_tickers mb ps t)) = Some r \<and>
    ch_invalid_count (health_of (snd (run_tickers mb ps t)) TICKER)
      = ch_invalid_count (health_of t TICKER) + int (length ps)"
  using assms(1,3)
proof (induction ps arbitrary: t)
  case (Cons x ps)
  then obtain clk q m where x: "x = (clk, Some q)" "rt_mark_price q = Number m" "mb < deviation_bps m r"
    by auto
  obtain k where k: "handle_ticker clk mb (Some q) t = (nothing, record_invalid clk TICKER k t)"
    using outlier_rejected [OF Cons.prems(1) assms(2) x(2,3)] by blast
  have "ch_invalid_count (health_of (record_invalid clk TICKER k t) TICKER)
      = ch_invalid_count (health_of t TICKER) + 1"
    by (simp add: record_invalid_def Let_def)
  then show ?case using Cons.IH [of "record_invalid clk TICKER k t"] Cons.prems k x(1)
    by (simp add: split: prod.split)
qed simp

theorem outlier_locks_out_witness:
  "fst (run_tickers 500 (map (\<lambda>k. (example_clock, example_ticker 110 (1700000000000 + k))) [1, 2, 3])
     (snd (handle_ticker example_clock 500 (example_ticker 100 1700000000000) (new_tracker 1 7 ''BTC'')))) = []"
proof -
  let ?t = "snd (handle_ticker example_clock 500 (example_ticker 100 1700000000000) (new_tracker 1 7 ''BTC''))"
  have "it_last_mark_price ?t = Some 100" by code_simp
  moreover have "(500 :: decimal) < deviation_bps 110 100" by code_simp
  ultimately show ?thesis
    using outlier_locks_out [of ?t 100 "map (\<lambda>k. (example_clock, example_ticker 110 (1700000000000 + k))) [1, 2, 3]"]
    by (simp add: example_ticker_def)
qed

end
