(* ===== verification/Data_Quality.thy ===== *)
theory Data_Quality
  imports Market_Invariants
begin

text \<open>
  The data quality evaluation of \<open>app/data/data_quality.py\<close>: the freshness of the channels of an
  instrument and the one status derived from it.  Reading the freshness prunes the invalid-event times
  that left the window and creates a missing order book, so the operations return the market state.
\<close>

section \<open>Settings and statuses\<close>

datatype ws_connection_state =
    WS_DISCONNECTED | WS_CONNECTING | WS_CONNECTED | WS_RECONNECTING | WS_DEGRADED | WS_STOPPING

datatype freshness_status = FRESH | AGING | STALE | INVALID | RESYNCING | UNKNOWN

datatype instrument_quality_status =
    Q_HEALTHY | Q_DEGRADED | Q_DATA_STALE | Q_DATA_INVALID | Q_ORDERBOOK_RESYNCING | Q_UNAVAILABLE

record freshness_settings =
  fs_ticker_seconds :: float64
  fs_bbo_seconds :: float64
  fs_orderbook_seconds :: float64
  fs_trades_seconds :: float64
  fs_candles_seconds :: float64
  fs_aging_fraction :: float64

record quality_settings =
  qs_invalid_event_threshold :: int
  qs_invalid_event_window_seconds :: float64
  qs_mark_divergence_degraded_bps :: float64

definition default_freshness :: freshness_settings where
  "default_freshness = \<lparr>fs_ticker_seconds = 15, fs_bbo_seconds = 10, fs_orderbook_seconds = 15,
     fs_trades_seconds = 300, fs_candles_seconds = 180, fs_aging_fraction = 1 / 2\<rparr>"

definition default_quality :: quality_settings where
  "default_quality = \<lparr>qs_invalid_event_threshold = 20, qs_invalid_event_window_seconds = 60,
     qs_mark_divergence_degraded_bps = 300\<rparr>"

text \<open>What an evaluation reads besides the market state: settings, clocks, socket, buffers, cache.\<close>

record quality_env =
  qe_freshness :: freshness_settings
  qe_quality :: quality_settings
  qe_now :: datetime
  qe_mono :: float64
  qe_ws_state :: ws_connection_state
  qe_buffers_degraded :: bool
  qe_cache_degraded :: bool

definition critical_channels :: "channel list" where
  "critical_channels = [TICKER, BBO, ORDERBOOK]"

definition non_critical_channels :: "channel list" where
  "non_critical_channels = [TRADES, KLINES]"

fun channel_threshold :: "freshness_settings \<Rightarrow> channel \<Rightarrow> float64" where
  "channel_threshold fs TICKER = fs_ticker_seconds fs"
| "channel_threshold fs BBO = fs_bbo_seconds fs"
| "channel_threshold fs ORDERBOOK = fs_orderbook_seconds fs"
| "channel_threshold fs TRADES = fs_trades_seconds fs"
| "channel_threshold fs KLINES = fs_candles_seconds fs"
| "channel_threshold fs STATISTICS = fs_trades_seconds fs"

section \<open>Freshness\<close>

text \<open>\<open>popleft\<close> while the oldest time is outside the window.\<close>

definition prune :: "quality_env \<Rightarrow> channel_health \<Rightarrow> channel_health" where
  "prune env h = h\<lparr>ch_invalid_times :=
     dropWhile (\<lambda>t. qs_invalid_event_window_seconds (qe_quality env) < fsub (qe_mono env) t)
       (ch_invalid_times h)\<rparr>"

definition age_status :: "quality_env \<Rightarrow> channel \<Rightarrow> datetime \<Rightarrow> freshness_status" where
  "age_status env ch seen =
     (let age = total_seconds (qe_now env - seen); threshold = channel_threshold (qe_freshness env) ch in
      if age \<le> fmul threshold (fs_aging_fraction (qe_freshness env)) then FRESH
      else if age \<le> threshold then AGING else STALE)"

definition put_tracker :: "int \<Rightarrow> instrument_tracker \<Rightarrow> market_state \<Rightarrow> market_state" where
  "put_tracker i t s = s\<lparr>ms_trackers := AList.update i t (ms_trackers s)\<rparr>"

definition channel_freshness ::
  "quality_env \<Rightarrow> int \<Rightarrow> channel \<Rightarrow> market_state \<Rightarrow> freshness_status \<times> market_state" where
  "channel_freshness env i ch s =
     (case map_of (ms_trackers s) i of None \<Rightarrow> (UNKNOWN, s)
      | Some t \<Rightarrow>
          let s1 = (if ch = ORDERBOOK then s\<lparr>ms_books := ensure_book i (ms_books s)\<rparr> else s) in
          if ch = ORDERBOOK \<and> ob_needs_resync (book_of (ms_books s1) i) then (RESYNCING, s1)
          else case map_of (it_channels t) ch of None \<Rightarrow> (UNKNOWN, s1)
          | Some h \<Rightarrow>
              case ch_last_local_at h of None \<Rightarrow> (UNKNOWN, s1)
              | Some seen \<Rightarrow>
                  (if qs_invalid_event_threshold (qe_quality env)
                        \<le> int (length (ch_invalid_times (prune env h)))
                   then INVALID else age_status env ch seen,
                   put_tracker i (set_health ch (prune env h) t) s1))"

section \<open>Evaluation\<close>

definition invalid_in_window :: "quality_env \<Rightarrow> instrument_tracker \<Rightarrow> int \<times> instrument_tracker" where
  "invalid_in_window env t =
     (let channels = map (\<lambda>(ch, h). (ch, prune env h)) (it_channels t) in
      (sum_list (map (\<lambda>(ch, h). int (length (ch_invalid_times h))) channels),
       t\<lparr>it_channels := channels\<rparr>))"

definition last_event_at :: "instrument_tracker \<Rightarrow> datetime option" where
  "last_event_at t =
     (case List.map_filter (\<lambda>(ch, h). ch_last_local_at h) (it_channels t) of
        [] \<Rightarrow> None | x # xs \<Rightarrow> Some (foldl max x xs))"

definition mark_divergence_bps :: "instrument_tracker \<Rightarrow> orderbook_state \<Rightarrow> float64 option" where
  "mark_divergence_bps t book =
     (let vs_index = (case (it_last_mark_price t, it_last_index_price t) of
            (Some mark, Some index) \<Rightarrow> if 0 < index then [fl (deviation_bps mark index)] else []
          | _ \<Rightarrow> []);
          mid = (if reliable book then mid_price book else None);
          vs_mid = (case (it_last_mark_price t, mid) of
            (Some mark, Some m) \<Rightarrow> if 0 < m then [fl (deviation_bps mark m)] else []
          | _ \<Rightarrow> []) in
      case vs_index @ vs_mid of [] \<Rightarrow> None | x # xs \<Rightarrow> Some (foldl max x xs))"

datatype quality_reason =
    Not_Tracked | No_Data_Not_Connected | Socket_Down_All_Stale ws_connection_state
  | Invalid_Events int float64 | Book_Resync | Critical_Stale "channel list"
  | Critical_Aging "channel list" | Non_Critical_Stale "channel list"
  | Socket_State ws_connection_state | Buffers_Degraded | Cache_Degraded | Divergence float64

definition degraded_reasons ::
  "quality_env \<Rightarrow> instrument_tracker \<Rightarrow> orderbook_state \<Rightarrow> (channel \<Rightarrow> freshness_status) \<Rightarrow>
     quality_reason list" where
  "degraded_reasons env t book fresh =
     (let aging = filter (\<lambda>ch. fresh ch = AGING) critical_channels;
          stale = filter (\<lambda>ch. fresh ch = STALE) non_critical_channels;
          bound = qs_mark_divergence_degraded_bps (qe_quality env) in
      (if aging = [] then [] else [Critical_Aging aging]) @
      (if stale = [] then [] else [Non_Critical_Stale stale]) @
      (if qe_ws_state env = WS_RECONNECTING \<or> qe_ws_state env = WS_DEGRADED
       then [Socket_State (qe_ws_state env)] else []) @
      (if qe_buffers_degraded env then [Buffers_Degraded] else []) @
      (if qe_cache_degraded env then [Cache_Degraded] else []) @
      (case mark_divergence_bps t book of
         Some d \<Rightarrow> if bound < d then [Divergence d] else [] | None \<Rightarrow> []))"

definition classify ::
  "quality_env \<Rightarrow> instrument_tracker \<Rightarrow> orderbook_state \<Rightarrow> (channel \<Rightarrow> freshness_status) \<Rightarrow> int \<Rightarrow>
     datetime option \<Rightarrow> instrument_quality_status \<times> quality_reason list" where
  "classify env t book fresh invalid last_at =
     (let ws = qe_ws_state env;
          ws_down = (ws = WS_DISCONNECTED \<or> ws = WS_CONNECTING \<or> ws = WS_DEGRADED);
          stale = filter (\<lambda>ch. fresh ch = STALE \<or> fresh ch = UNKNOWN \<or> fresh ch = INVALID)
                    critical_channels;
          degraded = degraded_reasons env t book fresh in
      if last_at = None \<and> ws \<noteq> WS_CONNECTED then (Q_UNAVAILABLE, [No_Data_Not_Connected])
      else if ws_down \<and> list_all (\<lambda>ch. fresh ch = UNKNOWN \<or> fresh ch = STALE) critical_channels
      then (Q_UNAVAILABLE, [Socket_Down_All_Stale ws])
      else if qs_invalid_event_threshold (qe_quality env) \<le> invalid
      then (Q_DATA_INVALID, [Invalid_Events invalid (qs_invalid_event_window_seconds (qe_quality env))])
      else if fresh ORDERBOOK = RESYNCING then (Q_ORDERBOOK_RESYNCING, [Book_Resync])
      else if stale \<noteq> [] then (Q_DATA_STALE, [Critical_Stale stale])
      else if degraded \<noteq> [] then (Q_DEGRADED, degraded)
      else (Q_HEALTHY, []))"

record quality_report =
  qr_instrument_id :: int
  qr_symbol :: string
  qr_status :: instrument_quality_status
  qr_channel_freshness :: "(channel \<times> freshness_status) list"
  qr_invalid_events_in_window :: int
  qr_resync_requests :: int
  qr_reasons :: "quality_reason list"
  qr_last_event_at :: "datetime option"

fun freshness_all ::
  "quality_env \<Rightarrow> int \<Rightarrow> channel list \<Rightarrow> market_state \<Rightarrow> (channel \<times> freshness_status) list \<times> market_state"
where
  "freshness_all env i [] s = ([], s)"
| "freshness_all env i (ch # chs) s =
     (let (f, s1) = channel_freshness env i ch s; (fs, s2) = freshness_all env i chs s1
      in ((ch, f) # fs, s2))"

definition lookup_freshness :: "(channel \<times> freshness_status) list \<Rightarrow> channel \<Rightarrow> freshness_status" where
  "lookup_freshness fs ch = (case map_of fs ch of Some f \<Rightarrow> f | None \<Rightarrow> UNKNOWN)"

text \<open>The divergence reads the order book through \<open>books.book\<close>, which exists by then.\<close>

definition evaluate_quality :: "quality_env \<Rightarrow> int \<Rightarrow> market_state \<Rightarrow> quality_report \<times> market_state" where
  "evaluate_quality env i s =
     (case map_of (ms_trackers s) i of
        None \<Rightarrow> (\<lparr>qr_instrument_id = i, qr_symbol = ''?'', qr_status = Q_UNAVAILABLE,
          qr_channel_freshness = [], qr_invalid_events_in_window = 0, qr_resync_requests = 0,
          qr_reasons = [Not_Tracked], qr_last_event_at = None\<rparr>, s)
      | Some t0 \<Rightarrow>
          let (fs, s1) = freshness_all env i (critical_channels @ non_critical_channels) s;
              t1 = (case map_of (ms_trackers s1) i of Some t \<Rightarrow> t | None \<Rightarrow> t0);
              (invalid, t2) = invalid_in_window env t1;
              newest = last_event_at t2;
              (status, reasons) =
                classify env t2 (book_of (ms_books s1) i) (lookup_freshness fs) invalid newest in
          (\<lparr>qr_instrument_id = i, qr_symbol = it_symbol t2, qr_status = status,
            qr_channel_freshness = fs, qr_invalid_events_in_window = invalid,
            qr_resync_requests = it_resync_requests t2, qr_reasons = reasons,
            qr_last_event_at = newest\<rparr>, put_tracker i t2 s1))"

text \<open>The counts of the service's summary over all tracked instruments.\<close>

fun evaluate_all :: "quality_env \<Rightarrow> int list \<Rightarrow> market_state \<Rightarrow> quality_report list \<times> market_state" where
  "evaluate_all env [] s = ([], s)"
| "evaluate_all env (i # rest) s =
     (let (r, s1) = evaluate_quality env i s; (rs, s2) = evaluate_all env rest s1 in (r # rs, s2))"

definition quality_summary ::
  "quality_env \<Rightarrow> market_state \<Rightarrow>
     (instrument_quality_status \<Rightarrow> nat) \<times> nat \<times> quality_report list \<times> market_state" where
  "quality_summary env s =
     (let (rs, s') = evaluate_all env (map (\<lambda>(i, t). it_instrument_id t) (ms_trackers s)) s;
          bad = [Q_DATA_STALE, Q_DATA_INVALID, Q_UNAVAILABLE] in
      (\<lambda>st. length (filter (\<lambda>r. qr_status r = st) rs),
       length (filter (\<lambda>r. qr_status r \<in> set bad) rs), rs, s'))"

section \<open>Evaluation only prunes\<close>

text \<open>What an evaluation can see of a state: the trackers with the old times pruned, and the books.\<close>

definition pruned :: "quality_env \<Rightarrow> instrument_tracker \<Rightarrow> instrument_tracker" where
  "pruned env t = t\<lparr>it_channels := map (\<lambda>(ch, h). (ch, prune env h)) (it_channels t)\<rparr>"

definition same_view :: "quality_env \<Rightarrow> market_state \<Rightarrow> market_state \<Rightarrow> bool" where
  "same_view env s s' \<longleftrightarrow>
     (\<forall>i. map_option (pruned env) (map_of (ms_trackers s) i)
            = map_option (pruned env) (map_of (ms_trackers s') i)) \<and>
     (\<forall>i. book_of (ms_books s) i = book_of (ms_books s') i)"

lemma same_view_refl [simp]: "same_view env s s"
  by (simp add: same_view_def)

lemma same_view_sym: "same_view env s s' \<Longrightarrow> same_view env s' s"
  by (simp add: same_view_def)

lemma same_view_trans: "same_view env s s' \<Longrightarrow> same_view env s' s'' \<Longrightarrow> same_view env s s''"
  by (simp add: same_view_def)

lemma dropWhile_again: "dropWhile P (dropWhile P xs) = dropWhile P xs"
  by (induction xs) auto

lemma prune_prune [simp]: "prune env (prune env h) = prune env h"
  by (simp add: prune_def dropWhile_again)

lemma prune_local_at [simp]: "ch_last_local_at (prune env h) = ch_last_local_at h"
  by (simp add: prune_def)

lemma map_update_same:
  "map_of xs k = Some v \<Longrightarrow> f v' = f v \<Longrightarrow>
     map (\<lambda>(k, v). (k, f v)) (AList.update k v' xs) = map (\<lambda>(k, v). (k, f v)) xs"
  by (induction xs) (auto split: if_splits)

lemma pruned_set_health:
  "map_of (it_channels t) ch = Some h \<Longrightarrow> pruned env (set_health ch (prune env h) t) = pruned env t"
  by (simp add: pruned_def set_health_def map_update_same)

lemma book_of_ensure [simp]: "book_of (ensure_book i mgr) j = book_of mgr j"
  by (auto simp: book_of_def ensure_book_def map_add_def split: option.splits)

lemma put_pruned_view:
  "map_of (ms_trackers s) i = Some t \<Longrightarrow> pruned env t' = pruned env t \<Longrightarrow>
     same_view env (put_tracker i t' s) s"
  by (simp add: same_view_def put_tracker_def AList.update_conv')

lemma ensure_view: "same_view env (s\<lparr>ms_books := ensure_book i (ms_books s)\<rparr>) s"
  by (simp add: same_view_def)

lemma channel_freshness_view: "same_view env (snd (channel_freshness env i ch s)) s"
proof (cases "map_of (ms_trackers s) i")
  case None
  then show ?thesis by (simp add: channel_freshness_def)
next
  case (Some t)
  let ?s1 = "if ch = ORDERBOOK then s\<lparr>ms_books := ensure_book i (ms_books s)\<rparr> else s"
  have v: "same_view env ?s1 s" and t: "map_of (ms_trackers ?s1) i = Some t"
    using Some ensure_view by simp_all
  have "same_view env (put_tracker i (set_health ch (prune env h) t) ?s1) ?s1"
    if "map_of (it_channels t) ch = Some h" for h
    by (rule put_pruned_view [OF t pruned_set_health [OF that]])
  with v Some show ?thesis
    by (auto simp: channel_freshness_def Let_def intro: same_view_trans split: option.split)
qed

lemma channels_pruned:
  "map_of (map (\<lambda>(ch, h). (ch, prune env h)) xs) ch = map_option (prune env) (map_of xs ch)"
  by (induction xs) auto

lemma pruned_channels [simp]:
  "it_channels (pruned env t) = map (\<lambda>(ch, h). (ch, prune env h)) (it_channels t)"
  by (simp add: pruned_def)

lemma pruned_channel:
  assumes "pruned env t = pruned env t'"
  shows "map_option (prune env) (map_of (it_channels t) ch) = map_option (prune env) (map_of (it_channels t') ch)"
proof -
  have "map_of (it_channels (pruned env t)) ch = map_of (it_channels (pruned env t')) ch"
    using assms by simp
  then show ?thesis by (simp add: channels_pruned)
qed

lemma same_view_cases:
  assumes "same_view env s s'"
  obtains (untracked) "map_of (ms_trackers s) i = None" "map_of (ms_trackers s') i = None"
  | (tracked) t t' where "map_of (ms_trackers s) i = Some t" "map_of (ms_trackers s') i = Some t'"
      "pruned env t = pruned env t'"
proof -
  have "map_option (pruned env) (map_of (ms_trackers s) i)
      = map_option (pruned env) (map_of (ms_trackers s') i)"
    using assms by (simp add: same_view_def)
  then show thesis using untracked tracked
    by (cases "map_of (ms_trackers s) i"; cases "map_of (ms_trackers s') i") simp_all
qed

text \<open>The status of a channel as a function of what can be seen.\<close>

definition freshness_spec ::
  "quality_env \<Rightarrow> channel \<Rightarrow> orderbook_state \<Rightarrow> channel_health option \<Rightarrow> freshness_status" where
  "freshness_spec env ch book h =
     (if ch = ORDERBOOK \<and> ob_needs_resync book then RESYNCING
      else case h of None \<Rightarrow> UNKNOWN
      | Some h \<Rightarrow> (case ch_last_local_at h of None \<Rightarrow> UNKNOWN
          | Some seen \<Rightarrow>
              if qs_invalid_event_threshold (qe_quality env) \<le> int (length (ch_invalid_times h))
              then INVALID else age_status env ch seen))"

lemma channel_freshness_spec:
  "map_of (ms_trackers s) i = Some t \<Longrightarrow>
     fst (channel_freshness env i ch s)
       = freshness_spec env ch (book_of (ms_books s) i) (map_option (prune env) (map_of (it_channels t) ch))"
  by (simp add: channel_freshness_def freshness_spec_def Let_def split: option.split)

lemma channel_freshness_cong:
  assumes "same_view env s s'"
  shows "fst (channel_freshness env i ch s) = fst (channel_freshness env i ch s')"
  using assms
proof (cases rule: same_view_cases [where i = i])
  case untracked
  then show ?thesis by (simp add: channel_freshness_def)
next
  case (tracked t t')
  have "book_of (ms_books s) i = book_of (ms_books s') i" using assms by (simp add: same_view_def)
  then show ?thesis
    by (simp add: channel_freshness_spec [OF tracked(1)] channel_freshness_spec [OF tracked(2)]
        pruned_channel [OF tracked(3)])
qed

lemma freshness_all_simps:
  "snd (freshness_all env i (ch # chs) s) = snd (freshness_all env i chs (snd (channel_freshness env i ch s)))"
  "fst (freshness_all env i (ch # chs) s)
     = (ch, fst (channel_freshness env i ch s)) # fst (freshness_all env i chs (snd (channel_freshness env i ch s)))"
  by (simp_all add: Let_def split: prod.split)

lemma freshness_all_view: "same_view env (snd (freshness_all env i chs s)) s"
proof (induction chs arbitrary: s)
  case (Cons ch chs)
  show ?case unfolding freshness_all_simps
    by (rule same_view_trans [OF Cons.IH channel_freshness_view])
qed simp

lemma freshness_all_spec:
  "fst (freshness_all env i chs s) = map (\<lambda>ch. (ch, fst (channel_freshness env i ch s))) chs"
proof (induction chs arbitrary: s)
  case (Cons ch chs)
  then show ?case unfolding freshness_all_simps
    using channel_freshness_cong [OF channel_freshness_view [of env i ch s], of i] by simp
qed simp

text \<open>The status of an instrument as a function of its pruned tracker and its book.\<close>

definition quality_spec ::
  "quality_env \<Rightarrow> instrument_tracker \<Rightarrow> orderbook_state \<Rightarrow> instrument_quality_status \<times> quality_reason list"
where
  "quality_spec env t book =
     classify env t book
       (\<lambda>ch. if ch \<in> set (critical_channels @ non_critical_channels)
             then freshness_spec env ch book (map_of (it_channels t) ch) else UNKNOWN)
       (fst (invalid_in_window env t)) (last_event_at t)"

lemma pruned_again [simp]: "pruned env (pruned env t) = pruned env t"
  by (simp add: pruned_def case_prod_unfold)

lemma invalid_in_window_pruned: "invalid_in_window env t = (fst (invalid_in_window env (pruned env t)), pruned env t)"
  by (simp add: invalid_in_window_def pruned_def case_prod_unfold comp_def)

lemma pruned_fields:
  "it_symbol (pruned env t) = it_symbol t" "it_resync_requests (pruned env t) = it_resync_requests t"
  by (simp_all add: pruned_def)

lemma map_of_keyed: "map_of (map (\<lambda>k. (k, f k)) ks) k = (if k \<in> set ks then Some (f k) else None)"
  by (induction ks) auto

lemma freshness_all_lookup:
  assumes "map_of (ms_trackers s) i = Some t"
  shows "lookup_freshness (fst (freshness_all env i chs s)) ch
    = (if ch \<in> set chs
       then freshness_spec env ch (book_of (ms_books s) i) (map_of (it_channels (pruned env t)) ch)
       else UNKNOWN)"
  unfolding freshness_all_spec lookup_freshness_def map_of_keyed
  by (simp add: channel_freshness_spec [OF assms] channels_pruned)

lemma evaluate_quality_spec:
  assumes t: "map_of (ms_trackers s) i = Some t"
  shows "fst (evaluate_quality env i s) =
    \<lparr>qr_instrument_id = i, qr_symbol = it_symbol t,
     qr_status = fst (quality_spec env (pruned env t) (book_of (ms_books s) i)),
     qr_channel_freshness = map (\<lambda>ch. (ch, freshness_spec env ch (book_of (ms_books s) i)
         (map_of (it_channels (pruned env t)) ch))) (critical_channels @ non_critical_channels),
     qr_invalid_events_in_window = fst (invalid_in_window env (pruned env t)),
     qr_resync_requests = it_resync_requests t,
     qr_reasons = snd (quality_spec env (pruned env t) (book_of (ms_books s) i)),
     qr_last_event_at = last_event_at (pruned env t)\<rparr>" (is ?report)
    and "same_view env (snd (evaluate_quality env i s)) s" (is ?view)
proof -
  let ?chs = "critical_channels @ non_critical_channels"
  obtain fs s1 where f: "freshness_all env i ?chs s = (fs, s1)" by fastforce
  with freshness_all_view [of env i ?chs s] have v: "same_view env s1 s" by simp
  then obtain t1 where t1: "map_of (ms_trackers s1) i = Some t1" "pruned env t1 = pruned env t"
    using t by (cases rule: same_view_cases [where i = i]) auto
  have book: "book_of (ms_books s1) i = book_of (ms_books s) i" using v by (simp add: same_view_def)
  have look: "lookup_freshness fs = (\<lambda>ch. if ch \<in> set ?chs
      then freshness_spec env ch (book_of (ms_books s) i) (map_of (it_channels (pruned env t)) ch) else UNKNOWN)"
    using freshness_all_lookup [OF t, of env ?chs] f by auto
  have fs: "fs = map (\<lambda>ch. (ch, freshness_spec env ch (book_of (ms_books s) i)
         (map_of (it_channels (pruned env t)) ch))) ?chs"
    using freshness_all_spec [of env i ?chs s] f by (simp add: channel_freshness_spec [OF t] channels_pruned)
  have eval: "evaluate_quality env i s =
      (let (invalid, t2) = invalid_in_window env t1;
           (status, reasons) = classify env t2 (book_of (ms_books s1) i) (lookup_freshness fs) invalid
              (last_event_at t2) in
       (\<lparr>qr_instrument_id = i, qr_symbol = it_symbol t2, qr_status = status, qr_channel_freshness = fs,
         qr_invalid_events_in_window = invalid, qr_resync_requests = it_resync_requests t2,
         qr_reasons = reasons, qr_last_event_at = last_event_at t2\<rparr>, put_tracker i t2 s1))"
    using t f t1(1) by (simp add: evaluate_quality_def Let_def)
  note eval' = eval [unfolded invalid_in_window_pruned [of env t1] t1(2) book look]
  show ?report unfolding eval'
    by (simp add: Let_def quality_spec_def pruned_fields fs split: prod.split)
  have "snd (evaluate_quality env i s) = put_tracker i (pruned env t) s1"
    unfolding eval' by (simp add: Let_def split: prod.split)
  moreover have "same_view env (put_tracker i (pruned env t) s1) s1"
    by (rule put_pruned_view [OF t1(1)]) (simp add: t1(2))
  ultimately show ?view using v by (auto intro: same_view_trans)
qed

lemma evaluate_quality_cong:
  assumes "same_view env s s'"
  shows "fst (evaluate_quality env i s) = fst (evaluate_quality env i s')"
  using assms
proof (cases rule: same_view_cases [where i = i])
  case untracked
  then show ?thesis by (simp add: evaluate_quality_def)
next
  case (tracked t t')
  have book: "book_of (ms_books s) i = book_of (ms_books s') i" using assms by (simp add: same_view_def)
  have fields: "it_symbol t = it_symbol t'" "it_resync_requests t = it_resync_requests t'"
    using tracked(3) pruned_fields by metis+
  show ?thesis
    unfolding evaluate_quality_spec(1) [OF tracked(1)] evaluate_quality_spec(1) [OF tracked(2)]
      book fields tracked(3) ..
qed

lemma evaluate_quality_view: "same_view env (snd (evaluate_quality env i s)) s"
proof (cases "map_of (ms_trackers s) i")
  case None
  then show ?thesis by (simp add: evaluate_quality_def)
qed (rule evaluate_quality_spec(2))

section \<open>Properties\<close>

text \<open>
  Looking changes nothing: evaluating one instrument, which prunes old invalid-event times and may
  create an order book, does not change what an evaluation of any instrument reports.
\<close>

theorem evaluation_only_observes:
  "fst (evaluate_quality env j (snd (evaluate_quality env i s))) = fst (evaluate_quality env j s)"
  by (rule evaluate_quality_cong [OF evaluate_quality_view])

lemma spec_current:
  assumes "freshness_spec env ch book (map_of (it_channels (pruned env t)) ch) = FRESH \<or>
    freshness_spec env ch book (map_of (it_channels (pruned env t)) ch) = AGING"
  obtains seen where "ch_last_local_at (health_of t ch) = Some seen" "age_status env ch seen \<noteq> STALE"
    "freshness_spec env ch book (map_of (it_channels (pruned env t)) ch) = age_status env ch seen"
proof -
  obtain h where h: "map_of (it_channels t) ch = Some h"
    using assms by (cases "map_of (it_channels t) ch")
      (auto simp: freshness_spec_def channels_pruned split: if_splits)
  with assms obtain seen where "ch_last_local_at h = Some seen"
    by (cases "ch_last_local_at h") (auto simp: freshness_spec_def channels_pruned split: if_splits)
  with that [of seen] h assms show thesis
    by (auto simp: freshness_spec_def channels_pruned health_of_def split: if_splits)
qed

lemma usable_classified:
  assumes "fst (classify env t book fresh invalid last_at) = Q_HEALTHY \<or>
    fst (classify env t book fresh invalid last_at) = Q_DEGRADED" "ch \<in> set critical_channels"
  shows "invalid < qs_invalid_event_threshold (qe_quality env)"
    and "fresh ch = FRESH \<or> fresh ch = AGING \<or> (fresh ch = RESYNCING \<and> ch \<noteq> ORDERBOOK)"
    and "fst (classify env t book fresh invalid last_at) = Q_HEALTHY \<Longrightarrow> fresh ch \<noteq> AGING"
  using assms
  by (cases "fresh ch"; auto simp: classify_def critical_channels_def degraded_reasons_def Let_def
      filter_empty_conv split: if_splits)+

lemma age_bounds:
  "age_status env ch seen = FRESH \<Longrightarrow> total_seconds (qe_now env - seen)
     \<le> fmul (channel_threshold (qe_freshness env) ch) (fs_aging_fraction (qe_freshness env))"
  "age_status env ch seen \<noteq> STALE \<Longrightarrow> total_seconds (qe_now env - seen)
     \<le> max (channel_threshold (qe_freshness env) ch)
         (fmul (channel_threshold (qe_freshness env) ch) (fs_aging_fraction (qe_freshness env)))"
  by (auto simp: age_status_def Let_def split: if_splits)

text \<open>
  C12.  Usable means recent: an instrument reported as healthy or degraded is tracked, and each of its ticker,
  BBO and order book channels accepted an event whose age is within the channel's threshold; when it is
  reported as healthy, within the aging fraction of the threshold.  Its order book awaits no snapshot.
\<close>

theorem usable_means_recent:
  assumes "qr_status (fst (evaluate_quality env i s)) = Q_HEALTHY \<or>
      qr_status (fst (evaluate_quality env i s)) = Q_DEGRADED" "ch \<in> set critical_channels"
  shows "\<exists>t seen. map_of (ms_trackers s) i = Some t \<and> ch_last_local_at (health_of t ch) = Some seen \<and>
    total_seconds (qe_now env - seen)
      \<le> (if qr_status (fst (evaluate_quality env i s)) = Q_HEALTHY
         then fmul (channel_threshold (qe_freshness env) ch) (fs_aging_fraction (qe_freshness env))
         else max (channel_threshold (qe_freshness env) ch)
           (fmul (channel_threshold (qe_freshness env) ch) (fs_aging_fraction (qe_freshness env)))) \<and>
    \<not> ob_needs_resync (book_of (ms_books s) i)"
proof -
  obtain t where t: "map_of (ms_trackers s) i = Some t"
    using assms(1) by (cases "map_of (ms_trackers s) i") (auto simp: evaluate_quality_def)
  let ?book = "book_of (ms_books s) i"
  let ?f = "\<lambda>ch. freshness_spec env ch ?book (map_of (it_channels (pruned env t)) ch)"
  let ?fresh = "\<lambda>ch. if ch \<in> set (critical_channels @ non_critical_channels) then ?f ch else UNKNOWN"
  have st: "qr_status (fst (evaluate_quality env i s)) = fst (classify env (pruned env t) ?book ?fresh
      (fst (invalid_in_window env (pruned env t))) (last_event_at (pruned env t)))"
    by (simp add: evaluate_quality_spec(1) [OF t] quality_spec_def)
  note u = usable_classified [OF assms(1) [unfolded st]]
  have ob: "ORDERBOOK \<in> set critical_channels" by (simp add: critical_channels_def)
  have "?f ORDERBOOK \<noteq> RESYNCING" using u(2) [OF ob] ob by auto
  then have sync: "\<not> ob_needs_resync ?book" by (auto simp: freshness_spec_def)
  have "?f ch \<noteq> RESYNCING"
    using sync by (auto simp: freshness_spec_def age_status_def Let_def split: option.split)
  then have cur: "?f ch = FRESH \<or> ?f ch = AGING" using u(2) [OF assms(2)] assms(2) by auto
  then obtain seen where seen: "ch_last_local_at (health_of t ch) = Some seen"
    "age_status env ch seen \<noteq> STALE" "?f ch = age_status env ch seen"
    by (rule spec_current)
  have "age_status env ch seen = FRESH" if "qr_status (fst (evaluate_quality env i s)) = Q_HEALTHY"
    using u(3) [OF assms(2) that [unfolded st]] cur seen(3) assms(2) by auto
  with t seen sync age_bounds [of env ch seen] show ?thesis by (intro exI [of _ t] exI [of _ seen]) simp
qed

definition example_env :: quality_env where
  "example_env = \<lparr>qe_freshness = default_freshness, qe_quality = default_quality,
     qe_now = 1700000002000000, qe_mono = 102, qe_ws_state = WS_CONNECTED,
     qe_buffers_degraded = False, qe_cache_degraded = False\<rparr>"

definition example_start :: market_state where
  "example_start = sync_universe [(1, 7, ''BTC'')] empty_market"

definition example_bbo :: "raw_bbo option" where
  "example_bbo = Some \<lparr>rb_instrument_id = Some 7, rb_timestamp = Some 1700000000000, rb_short = False,
     rb_bid_price = Number 99, rb_bid_quantity = Number 1, rb_ask_price = Number 101,
     rb_ask_quantity = Number 1\<rparr>"

definition example_book :: "raw_book option" where
  "example_book = Some \<lparr>ro_instrument_id = Some 7, ro_timestamp = Some 1700000000000, ro_sequence = None,
     ro_is_snapshot = True, ro_bids = Some [(Number 99, Number 1)], ro_asks = Some [(Number 101, Number 1)]\<rparr>"

definition example_market :: market_state where
  "example_market = fold (handle_frame example_clock 500 \<circ> Frame (Some 7))
     [P_Ticker (example_ticker 100 1700000000000), P_Bbo example_bbo, P_Book example_book] example_start"

theorem usable_means_recent_witness:
  "\<exists>t seen. map_of (ms_trackers example_market) 7 = Some t \<and>
     ch_last_local_at (health_of t BBO) = Some seen \<and> total_seconds (1700000002000000 - seen) \<le> 5"
proof -
  have st: "qr_status (fst (evaluate_quality example_env 7 example_market)) = Q_HEALTHY" by code_simp
  have "fmul (channel_threshold (qe_freshness example_env) BBO) (fs_aging_fraction (qe_freshness example_env)) = 5"
    by code_simp
  moreover have "qe_now example_env = 1700000002000000" by (simp add: example_env_def)
  moreover have "BBO \<in> set critical_channels" by (simp add: critical_channels_def)
  ultimately show ?thesis
    using usable_means_recent [of example_env 7 example_market BBO] st by auto
qed

text \<open>
  A frame that carries a valid candle of instrument \<open>i\<close> that opened before \<open>c\<close>: the update of a coarser
  bucket, once a finer candle inside it was accepted.
\<close>

definition late_candle :: "int \<Rightarrow> datetime \<Rightarrow> market_clock \<times> frame \<Rightarrow> bool" where
  "late_candle i c x = (case snd x of Frame (Some j) (P_Kline p tf) \<Rightarrow>
     j = i \<and> (case validate_kline p tf of Inr d \<Rightarrow> cd_open_time d < c | Inl _ \<Rightarrow> False) | _ \<Rightarrow> False)"

definition recent_frame :: "quality_env \<Rightarrow> market_clock \<times> frame \<Rightarrow> bool" where
  "recent_frame env x \<longleftrightarrow>
     fsub (qe_mono env) (mt_mono (fst x)) \<le> qs_invalid_event_window_seconds (qe_quality env)"

abbreviation run_frames :: "decimal \<Rightarrow> (market_clock \<times> frame) list \<Rightarrow> market_state \<Rightarrow> market_state" where
  "run_frames mb fs s \<equiv> fold (\<lambda>(clk, f). handle_frame clk mb f) fs s"

lemma late_candle_step:
  assumes "late_candle i c (clk, f)" "map_of (ms_trackers s) i = Some t" "it_instrument_id t = i"
    "channel_time KLINES t = Some c"
  shows "map_of (ms_trackers (handle_frame clk mb f s)) i
    = Some (record_invalid clk KLINES OUT_OF_ORDER t)"
proof -
  obtain p tf d where f: "f = Frame (Some i) (P_Kline p tf)" "validate_kline p tf = Inr d" "cd_open_time d < c"
    using assms(1) by (auto simp: late_candle_def split: frame.splits option.splits payload.splits sum.splits)
  then have "handle_kline clk p tf t = (nothing, record_invalid clk KLINES OUT_OF_ORDER t)"
    using assms(4) by (simp add: handle_kline_def out_of_order_def channel_time_def)
  with f assms(2,3) show ?thesis
    by (simp add: handle_frame_def handle_payload_def store_event_def AList.update_conv')
qed

lemma late_candles_counted:
  assumes "list_all (late_candle i c) fs" "map_of (ms_trackers s) i = Some t" "it_instrument_id t = i"
    "channel_time KLINES t = Some c"
  shows "\<exists>t'. map_of (ms_trackers (run_frames mb fs s)) i = Some t' \<and>
    ch_invalid_times (health_of t' KLINES)
      = ch_invalid_times (health_of t KLINES) @ map (\<lambda>(clk, f). mt_mono clk) fs"
  using assms
proof (induction fs arbitrary: s t)
  case (Cons x fs)
  obtain clk f where x: "x = (clk, f)" by fastforce
  let ?t = "record_invalid clk KLINES OUT_OF_ORDER t"
  have "ch_invalid_times (health_of ?t KLINES) = ch_invalid_times (health_of t KLINES) @ [mt_mono clk]"
    by (simp add: record_invalid_def Let_def)
  moreover have "map_of (ms_trackers (handle_frame clk mb f s)) i = Some ?t"
    by (rule late_candle_step) (use Cons.prems x in simp_all)
  ultimately show ?case
    using Cons.IH [of "handle_frame clk mb f s" ?t] Cons.prems x by simp
qed simp

lemma dropWhile_keeps: "list_all (\<lambda>x. \<not> P x) ys \<Longrightarrow> length ys \<le> length (dropWhile P (xs @ ys))"
proof (induction xs)
  case Nil
  then show ?case by (cases ys) simp_all
qed simp

lemma invalid_times_counted:
  assumes "map_of (it_channels t) ch = Some h"
  shows "int (length (ch_invalid_times (prune env h))) \<le> fst (invalid_in_window env t)"
proof -
  have "int (length (ch_invalid_times (prune env h)))
      \<le> sum_list (map (\<lambda>(ch, h). int (length (ch_invalid_times (prune env h)))) xs)"
    if "map_of xs ch = Some h" for xs :: "(channel \<times> channel_health) list"
    using that
  proof (induction xs)
    case (Cons x xs)
    have "0 \<le> sum_list (map (\<lambda>(ch, h). int (length (ch_invalid_times (prune env h)))) xs)"
      by (rule sum_list_nonneg) auto
    with Cons show ?case by (cases x) (auto split: if_splits)
  qed simp
  from this [OF assms] show ?thesis by (simp add: invalid_in_window_def Let_def case_prod_unfold comp_def)
qed

text \<open>
  Shared candle time blocks an instrument: once a candle that opened at \<open>c\<close> was accepted, as many
  well-formed updates of coarser buckets as the invalid-event threshold, received within the window, make
  the evaluation report the instrument as invalid or unavailable, however healthy its other channels are.
\<close>

theorem late_candles_invalidate:
  assumes "ids_match s" "market_time KLINES i s = Some c"
    and "list_all (late_candle i c) fs" "list_all (recent_frame env) fs"
    and "fs \<noteq> []" "qs_invalid_event_threshold (qe_quality env) \<le> int (length fs)"
  shows "qr_status (fst (evaluate_quality env i (run_frames mb fs s))) = Q_DATA_INVALID \<or>
    qr_status (fst (evaluate_quality env i (run_frames mb fs s))) = Q_UNAVAILABLE"
proof -
  obtain t where t: "map_of (ms_trackers s) i = Some t" "channel_time KLINES t = Some c"
    using assms(2) by (auto simp: market_time_def split: option.splits)
  with assms(1) have "it_instrument_id t = i" by (simp add: ids_match_def)
  then obtain t' where t': "map_of (ms_trackers (run_frames mb fs s)) i = Some t'"
    "ch_invalid_times (health_of t' KLINES)
       = ch_invalid_times (health_of t KLINES) @ map (\<lambda>(clk, f). mt_mono clk) fs"
    using late_candles_counted [OF assms(3) t(1) _ t(2)] by blast
  obtain h where h: "map_of (it_channels t') KLINES = Some h" "health_of t' KLINES = h"
    using t'(2) assms(5) by (cases "map_of (it_channels t') KLINES") (auto simp: health_of_def new_health_def)
  have "list_all (\<lambda>x. \<not> qs_invalid_event_window_seconds (qe_quality env) < fsub (qe_mono env) x)
      (map (\<lambda>(clk, f). mt_mono clk) fs)"
    using assms(4) by (induction fs) (auto simp: recent_frame_def)
  from dropWhile_keeps [OF this] h t'(2)
  have "length fs \<le> length (ch_invalid_times (prune env h))" by (simp add: prune_def)
  with invalid_times_counted [OF h(1), of env] assms(6)
  have "qs_invalid_event_threshold (qe_quality env) \<le> fst (invalid_in_window env t')" by linarith
  then have "qs_invalid_event_threshold (qe_quality env) \<le> fst (invalid_in_window env (pruned env t'))"
    using invalid_in_window_pruned [of env t'] by (metis fst_conv)
  then show ?thesis
    unfolding evaluate_quality_spec(1) [OF t'(1)] by (simp add: quality_spec_def classify_def Let_def)
qed

theorem late_candles_invalidate_witness:
  "qr_status (fst (evaluate_quality example_env 7 (run_frames 500
       (replicate 20 (example_clock, Frame (Some 7) (P_Kline (example_kline 1700000100000) ''5m'')))
       (handle_frame example_clock 500 (Frame (Some 7) (P_Kline (example_kline 1700000160000) ''1m''))
         example_start)))) = Q_DATA_INVALID \<or>
   qr_status (fst (evaluate_quality example_env 7 (run_frames 500
       (replicate 20 (example_clock, Frame (Some 7) (P_Kline (example_kline 1700000100000) ''5m'')))
       (handle_frame example_clock 500 (Frame (Some 7) (P_Kline (example_kline 1700000160000) ''1m''))
         example_start)))) = Q_UNAVAILABLE"
proof (rule late_candles_invalidate [where c = 1700000160000000])
  have "ids_match example_start"
    by (simp add: example_start_def ids_match_def sync_universe_def empty_market_def add_tracker_def
        new_tracker_def)
  then show "ids_match (handle_frame example_clock 500
      (Frame (Some 7) (P_Kline (example_kline 1700000160000) ''1m'')) example_start)"
    by (rule conjunct1 [OF frame_time [where ch = KLINES]]) simp
  show "market_time KLINES 7 (handle_frame example_clock 500
      (Frame (Some 7) (P_Kline (example_kline 1700000160000) ''1m'')) example_start) = Some 1700000160000000"
    by code_simp
  have "late_candle 7 1700000160000000
      (example_clock, Frame (Some 7) (P_Kline (example_kline 1700000100000) ''5m''))" by code_simp
  then show "list_all (late_candle 7 1700000160000000)
      (replicate 20 (example_clock, Frame (Some 7) (P_Kline (example_kline 1700000100000) ''5m'')))"
    by (simp add: list_all_length)
  have "recent_frame example_env (example_clock, Frame (Some 7) (P_Kline (example_kline 1700000100000) ''5m''))"
    by code_simp
  then show "list_all (recent_frame example_env)
      (replicate 20 (example_clock, Frame (Some 7) (P_Kline (example_kline 1700000100000) ''5m'')))"
    by (simp add: list_all_length)
qed (simp_all add: example_env_def default_quality_def)

end
