(* ===== verification/Keyed_Store.thy ===== *)
theory Keyed_Store
  imports Prelude "HOL-Library.AList"
begin

text \<open>
  The contract of a store that keeps one value per key and is written by upserts: what a lookup returns
  after one write, and what follows for a batch of writes.  The association lists of the market data
  service, the candle table and the persistence buffers provide it.
\<close>

locale keyed_store =
  fixes key :: "'v \<Rightarrow> 'k"
    and upsert :: "'v \<Rightarrow> 't \<Rightarrow> 't"
    and lookup :: "'t \<Rightarrow> 'k \<Rightarrow> 'v option"
  assumes lookup_upsert: "lookup (upsert v t) k = (if k = key v then Some v else lookup t k)"
begin

abbreviation latest :: "'v list \<Rightarrow> 'k \<Rightarrow> 'v option" where
  "latest vs \<equiv> map_of (rev (map (\<lambda>v. (key v, v)) vs))"

text \<open>The last write of a key wins, and other keys keep their value.\<close>

lemma lookup_fold:
  "lookup (fold upsert vs t) k = (case latest vs k of Some v \<Rightarrow> Some v | None \<Rightarrow> lookup t k)"
proof (induction vs arbitrary: t)
  case (Cons v vs)
  then show ?case by (simp add: lookup_upsert map_add_def split: option.split)
qed simp

lemma lookup_fold_other: "k \<notin> key ` set vs \<Longrightarrow> lookup (fold upsert vs t) k = lookup t k"
  by (induction vs arbitrary: t) (auto simp: lookup_upsert)

lemma lookup_fold_distinct:
  assumes "distinct (map key vs)" "v \<in> set vs"
  shows "lookup (fold upsert vs t) (key v) = Some v"
  using assms
proof (induction vs arbitrary: t)
  case (Cons w vs)
  then show ?case
    by (cases "v = w") (auto simp: lookup_fold_other lookup_upsert)
qed simp

text \<open>Writing a batch again changes nothing a lookup can see.\<close>

lemma fold_again: "lookup (fold upsert vs (fold upsert vs t)) k = lookup (fold upsert vs t) k"
  by (simp add: lookup_fold split: option.split)

end

interpretation alist_store: keyed_store fst "\<lambda>(k, v). AList.update k v"
  "\<lambda>t k. map_option (Pair k) (map_of t k)"
  by unfold_locales (auto simp: AList.update_conv' split: prod.split)

end
