(* ===== verification/Candle_Store.thy ===== *)
theory Candle_Store
  imports Event_Validation Keyed_Store
begin

text \<open>
  The candle table (\<open>app/repositories/candle_repository.py\<close>), the writer of the candle buffer
  (\<open>flush_candles\<close> in \<open>app/bootstrap.py\<close>) and the gap detection of \<open>app/data/candle_service.py\<close>.
\<close>

section \<open>The table\<close>

datatype data_source = SRC_REST | SRC_WEBSOCKET

record candle_row =
  cr_instrument_pk :: int
  cr_candle :: candle_data
  cr_source :: data_source

type_synonym candle_id = "int \<times> timeframe \<times> datetime"

definition candle_id :: "int \<times> candle_data \<Rightarrow> candle_id" where
  "candle_id x = (fst x, cd_timeframe (snd x), cd_open_time (snd x))"

definition row_id :: "candle_row \<Rightarrow> candle_id" where
  "row_id r = candle_id (cr_instrument_pk r, cr_candle r)"

definition known_candle :: "candle_row list \<Rightarrow> int \<times> candle_data \<Rightarrow> bool" where
  "known_candle rows x = list_ex (\<lambda>r. row_id r = candle_id x) rows"

definition overwrite_candle :: "data_source \<Rightarrow> int \<times> candle_data \<Rightarrow> candle_row list \<Rightarrow> candle_row list" where
  "overwrite_candle src x rows =
     update_where (\<lambda>r. row_id r = candle_id x) (\<lambda>r. r\<lparr>cr_candle := snd x, cr_source := src\<rparr>) rows"

definition new_candle :: "data_source \<Rightarrow> int \<times> candle_data \<Rightarrow> candle_row" where
  "new_candle src x = \<lparr>cr_instrument_pk = fst x, cr_candle = snd x, cr_source = src\<rparr>"

datatype store_error = Integrity_Error

text \<open>
  One transaction.  The session does not flush before a query, so two new candles with one identity are
  both added and the unique constraint fails the commit.
\<close>

definition upsert_candles ::
  "int \<Rightarrow> candle_data list \<Rightarrow> data_source \<Rightarrow> candle_row list \<Rightarrow> (store_error + nat) \<times> candle_row list" where
  "upsert_candles pk candles src rows =
     (let items = map (Pair pk) candles; fresh = filter (\<lambda>x. \<not> known_candle rows x) items in
      if \<not> distinct (map candle_id fresh) then (Inl Integrity_Error, rows)
      else (Inr (length candles),
            fold (overwrite_candle src) (filter (known_candle rows) items) rows @
            map (new_candle src) fresh))"

definition get_range :: "int \<Rightarrow> timeframe \<Rightarrow> datetime \<Rightarrow> datetime \<Rightarrow> candle_row list \<Rightarrow> candle_row list" where
  "get_range pk tf start stop rows =
     sort_key (\<lambda>r. cd_open_time (cr_candle r))
       (filter (\<lambda>r. cr_instrument_pk r = pk \<and> cd_timeframe (cr_candle r) = tf \<and>
          start \<le> cd_open_time (cr_candle r) \<and> cd_open_time (cr_candle r) < stop) rows)"

definition latest_open_time :: "int \<Rightarrow> timeframe \<Rightarrow> candle_row list \<Rightarrow> datetime option" where
  "latest_open_time pk tf rows =
     (case map (\<lambda>r. cd_open_time (cr_candle r))
        (filter (\<lambda>r. cr_instrument_pk r = pk \<and> cd_timeframe (cr_candle r) = tf) rows) of
        [] \<Rightarrow> None | x # xs \<Rightarrow> Some (foldl max x xs))"

text \<open>The writer of the candle buffer: one transaction per instrument, in order of first appearance.\<close>

fun flush_groups ::
  "int list \<Rightarrow> (int \<times> candle_data) list \<Rightarrow> candle_row list \<Rightarrow> (store_error + unit) \<times> candle_row list" where
  "flush_groups [] records rows = (Inr (), rows)"
| "flush_groups (pk # pks) records rows =
     (case upsert_candles pk (map snd (filter (\<lambda>x. fst x = pk) records)) SRC_WEBSOCKET rows of
        (Inl e, rows') \<Rightarrow> (Inl e, rows')
      | (Inr _, rows') \<Rightarrow> flush_groups pks records rows')"

definition flush_candles ::
  "(int \<times> candle_data) list \<Rightarrow> candle_row list \<Rightarrow> (store_error + unit) \<times> candle_row list" where
  "flush_candles records rows = flush_groups (rev (remdups (rev (map fst records)))) records rows"

section \<open>The table as a keyed store\<close>

definition stored_candle :: "candle_row list \<Rightarrow> candle_id \<Rightarrow> (int \<times> candle_data) option" where
  "stored_candle rows k =
     map_option (\<lambda>r. (cr_instrument_pk r, cr_candle r)) (find (\<lambda>r. row_id r = k) rows)"

definition write_candle :: "data_source \<Rightarrow> int \<times> candle_data \<Rightarrow> candle_row list \<Rightarrow> candle_row list" where
  "write_candle src x rows =
     (if known_candle rows x then overwrite_candle src x rows else rows @ [new_candle src x])"

lemma known_stored: "known_candle rows x \<longleftrightarrow> stored_candle rows (candle_id x) \<noteq> None"
  by (auto simp: known_candle_def stored_candle_def list_ex_iff find_None_not)

lemma stored_overwrite:
  "stored_candle (overwrite_candle src x rows) k
     = (if k = candle_id x \<and> known_candle rows x then Some x else stored_candle rows k)"
proof -
  have found: "find (\<lambda>r. row_id r = k) (overwrite_candle src x rows)
      = map_option (\<lambda>r. if row_id r = candle_id x then r\<lparr>cr_candle := snd x, cr_source := src\<rparr> else r)
          (find (\<lambda>r. row_id r = k) rows)"
    unfolding overwrite_candle_def
    by (rule find_update_where) (auto simp: row_id_def candle_id_def)
  show ?thesis
  proof (cases "find (\<lambda>r. row_id r = k) rows")
    case None
    then show ?thesis using found by (auto simp: stored_candle_def known_stored)
  next
    case (Some r)
    then have r: "row_id r = k" by (auto dest: find_Some_in)
    then have "k = candle_id x \<Longrightarrow> cr_instrument_pk r = fst x" by (simp add: row_id_def candle_id_def)
    with Some r found show ?thesis by (auto simp: stored_candle_def known_stored)
  qed
qed

lemma new_candle_fields [simp]:
  "row_id (new_candle src x) = candle_id x" "cr_instrument_pk (new_candle src x) = fst x"
  "cr_candle (new_candle src x) = snd x"
  by (simp_all add: row_id_def new_candle_def)

lemma stored_append_new:
  "stored_candle (rows @ [new_candle src x]) k
     = (case stored_candle rows k of Some y \<Rightarrow> Some y | None \<Rightarrow> if k = candle_id x then Some x else None)"
  by (auto simp: stored_candle_def find_append split: option.split)

lemma stored_write:
  "stored_candle (write_candle src x rows) k = (if k = candle_id x then Some x else stored_candle rows k)"
  by (auto simp: write_candle_def stored_overwrite stored_append_new known_stored split: option.split)

interpretation candle_table: keyed_store candle_id "write_candle src" stored_candle for src
  by unfold_locales (rule stored_write)

text \<open>A transaction whose identities are distinct is the batch of its writes.\<close>

lemma stored_overwrites:
  "\<forall>x \<in> set xs. known_candle rows x \<Longrightarrow>
     stored_candle (fold (overwrite_candle src) xs rows) = stored_candle (fold (write_candle src) xs rows)"
proof (induction xs arbitrary: rows)
  case (Cons x xs)
  have "overwrite_candle src x rows = write_candle src x rows"
    using Cons.prems by (simp add: write_candle_def)
  moreover have "\<forall>y \<in> set xs. known_candle (write_candle src x rows) y"
    using Cons.prems by (simp add: known_stored stored_write)
  ultimately show ?case using Cons.IH by simp
qed simp

lemma stored_additions:
  "\<forall>x \<in> set xs. \<not> known_candle rows x \<Longrightarrow> distinct (map candle_id xs) \<Longrightarrow>
     stored_candle (rows @ map (new_candle src) xs) = stored_candle (fold (write_candle src) xs rows)"
proof (induction xs arbitrary: rows)
  case (Cons x xs)
  have w: "rows @ [new_candle src x] = write_candle src x rows"
    using Cons.prems by (simp add: write_candle_def)
  have "\<not> known_candle (write_candle src x rows) y" if "y \<in> set xs" for y
  proof -
    have "candle_id y \<noteq> candle_id x" using Cons.prems(2) that by (metis distinct.simps(2) image_eqI list.simps(9) set_map)
    then show ?thesis using Cons.prems(1) that by (simp add: known_stored stored_write)
  qed
  then show ?case using Cons.IH [of "write_candle src x rows"] Cons.prems(2) by (simp flip: w)
qed simp

lemma stored_fold_order:
  assumes "distinct (map candle_id xs)"
  shows "stored_candle (fold (write_candle src) xs rows) k
    = (case find (\<lambda>x. candle_id x = k) xs of Some x \<Rightarrow> Some x | None \<Rightarrow> stored_candle rows k)"
proof (cases "find (\<lambda>x. candle_id x = k) xs")
  case None
  then have "k \<notin> candle_id ` set xs" by (auto simp: find_None_not)
  with None show ?thesis by (simp add: candle_table.lookup_fold_other)
next
  case (Some x)
  then have "x \<in> set xs" "candle_id x = k" by (auto dest: find_Some_in)
  with candle_table.lookup_fold_distinct [OF assms, of x src rows] Some show ?thesis by simp
qed

lemma find_filter_split:
  "distinct (map f xs) \<Longrightarrow> find (\<lambda>x. f x = k) xs =
     (case find (\<lambda>x. f x = k) (filter P xs) of Some x \<Rightarrow> Some x
      | None \<Rightarrow> find (\<lambda>x. f x = k) (filter (\<lambda>x. \<not> P x) xs))"
  by (induction xs) (auto simp: find_None_not split: option.splits dest!: find_Some_in)

lemma upsert_candles_stored:
  assumes "distinct (map candle_id (map (Pair pk) cs))"
  shows "fst (upsert_candles pk cs src rows) = Inr (length cs) \<and>
    stored_candle (snd (upsert_candles pk cs src rows)) k
      = (case find (\<lambda>x. candle_id x = k) (map (Pair pk) cs) of Some x \<Rightarrow> Some x
         | None \<Rightarrow> stored_candle rows k)"
proof -
  let ?xs = "map (Pair pk) cs"
  let ?known = "filter (known_candle rows) ?xs"
  let ?fresh = "filter (\<lambda>x. \<not> known_candle rows x) ?xs"
  let ?rows = "fold (overwrite_candle src) ?known rows"
  have d: "distinct (map candle_id ?fresh)" "distinct (map candle_id ?known)"
    using assms by (simp_all add: distinct_map_filter del: map_map)
  have k: "stored_candle ?rows = stored_candle (fold (write_candle src) ?known rows)"
    by (rule stored_overwrites) simp
  have "\<not> known_candle ?rows x" if "x \<in> set ?fresh" for x
  proof -
    have "candle_id x \<notin> candle_id ` set ?known"
      using that by (auto simp: known_stored)
    then have "stored_candle ?rows (candle_id x) = stored_candle rows (candle_id x)"
      unfolding k by (rule candle_table.lookup_fold_other)
    with that show ?thesis by (simp add: known_stored)
  qed
  then have "stored_candle (?rows @ map (new_candle src) ?fresh) k
      = stored_candle (fold (write_candle src) ?fresh ?rows) k"
    using stored_additions d(1) by metis
  also have "\<dots> = (case find (\<lambda>x. candle_id x = k) ?xs of Some x \<Rightarrow> Some x | None \<Rightarrow> stored_candle rows k)"
    using stored_fold_order [OF d(1), of src ?rows k] stored_fold_order [OF d(2), of src rows k]
      find_filter_split [OF assms, of k "\<lambda>x. \<not> known_candle rows x"] k
    by (simp del: map_map split: option.split)
  finally show ?thesis using d(1) by (simp add: upsert_candles_def Let_def del: map_map)
qed

section \<open>Flushing and reading back\<close>

lemma group_items: "map (Pair pk) (map snd (filter (\<lambda>x. fst x = pk) xs)) = filter (\<lambda>x. fst x = pk) xs"
  by (induction xs) auto

lemma upsert_group:
  assumes "distinct (map candle_id records)"
  shows "fst (upsert_candles pk (map snd (filter (\<lambda>x. fst x = pk) records)) src rows) =
      Inr (length (filter (\<lambda>x. fst x = pk) records))"
    and "stored_candle (snd (upsert_candles pk (map snd (filter (\<lambda>x. fst x = pk) records)) src rows)) k
      = (case find (\<lambda>x. candle_id x = k) (filter (\<lambda>x. fst x = pk) records) of Some x \<Rightarrow> Some x
         | None \<Rightarrow> stored_candle rows k)"
proof -
  let ?cs = "map snd (filter (\<lambda>x. fst x = pk) records)"
  have "distinct (map candle_id (map (Pair pk) ?cs))"
    unfolding group_items using assms by (rule distinct_map_filter)
  note u = upsert_candles_stored [OF this, of src rows k, unfolded group_items]
  show "fst (upsert_candles pk ?cs src rows) = Inr (length (filter (\<lambda>x. fst x = pk) records))"
    using u by (metis length_map)
  show "stored_candle (snd (upsert_candles pk ?cs src rows)) k
      = (case find (\<lambda>x. candle_id x = k) (filter (\<lambda>x. fst x = pk) records) of Some x \<Rightarrow> Some x
         | None \<Rightarrow> stored_candle rows k)"
    using u by blast
qed

lemma find_filter_implied: "(\<And>x. P x \<Longrightarrow> Q x) \<Longrightarrow> find P (filter Q xs) = find P xs"
  by (induction xs) auto

lemma find_id_group:
  "find (\<lambda>x. candle_id x = (pk, tf, t)) (filter (\<lambda>x. fst x = i) records)
     = (if i = pk then find (\<lambda>x. candle_id x = (pk, tf, t)) records else None)"
proof (cases "i = pk")
  case True
  moreover have "find (\<lambda>x. candle_id x = (pk, tf, t)) (filter (\<lambda>x. fst x = pk) records)
      = find (\<lambda>x. candle_id x = (pk, tf, t)) records"
    by (rule find_filter_implied) (simp add: candle_id_def)
  ultimately show ?thesis by simp
next
  case False
  then show ?thesis by (simp add: find_None_not candle_id_def)
qed

lemma flush_groups_stored:
  assumes "distinct (map candle_id records)"
  shows "fst (flush_groups pks records rows) = Inr () \<and>
    stored_candle (snd (flush_groups pks records rows)) (pk, tf, t)
      = (case find (\<lambda>x. candle_id x = (pk, tf, t)) records of
           Some x \<Rightarrow> if pk \<in> set pks then Some x else stored_candle rows (pk, tf, t)
         | None \<Rightarrow> stored_candle rows (pk, tf, t))"
proof (induction pks arbitrary: rows)
  case Nil
  show ?case by (simp split: option.split)
next
  case (Cons i pks)
  let ?u = "upsert_candles i (map snd (filter (\<lambda>x. fst x = i) records)) SRC_WEBSOCKET rows"
  obtain n rows' where u: "?u = (Inr n, rows')"
    using upsert_group(1) [OF assms, of i SRC_WEBSOCKET rows] by (cases ?u) auto
  with upsert_group(2) [OF assms, of i SRC_WEBSOCKET rows "(pk, tf, t)"]
  have "stored_candle rows' (pk, tf, t) = (case if i = pk then find (\<lambda>x. candle_id x = (pk, tf, t)) records
      else None of Some x \<Rightarrow> Some x | None \<Rightarrow> stored_candle rows (pk, tf, t))"
    unfolding find_id_group by simp
  with Cons.IH [of rows'] u show ?case by (auto split: option.split)
qed

lemma overwrite_ids: "map row_id (overwrite_candle src x rows) = map row_id rows"
  unfolding overwrite_candle_def by (rule map_update_where) (simp add: row_id_def candle_id_def)

lemma fold_overwrite_ids: "map row_id (fold (overwrite_candle src) xs rows) = map row_id rows"
  by (induction xs arbitrary: rows) (simp_all add: overwrite_ids)

lemma upsert_ids_distinct:
  assumes "distinct (map row_id rows)"
  shows "distinct (map row_id (snd (upsert_candles pk cs src rows)))"
proof -
  let ?items = "map (Pair pk) cs"
  let ?fresh = "filter (\<lambda>x. \<not> known_candle rows x) ?items"
  let ?rows = "fold (overwrite_candle src) (filter (known_candle rows) ?items) rows"
  have new: "map row_id (map (new_candle src) xs) = map candle_id xs" for xs by simp
  have "candle_id x \<notin> set (map row_id rows)" if "x \<in> set ?fresh" for x
  proof
    assume "candle_id x \<in> set (map row_id rows)"
    then obtain r where "r \<in> set rows" "row_id r = candle_id x" by (metis imageE set_map)
    with that show False by (auto simp: known_candle_def list_ex_iff)
  qed
  then have disjoint: "set (map row_id rows) \<inter> set (map candle_id ?fresh) = {}"
    unfolding set_map [of candle_id] by blast
  show ?thesis
  proof (cases "distinct (map candle_id ?fresh)")
    case True
    have "map row_id (snd (upsert_candles pk cs src rows)) = map row_id rows @ map candle_id ?fresh"
      using True unfolding upsert_candles_def Let_def
      by (simp only: simp_thms if_False snd_conv map_append fold_overwrite_ids new)
    with True assms disjoint show ?thesis by (simp only: distinct_append)
  next
    case False
    then show ?thesis using assms unfolding upsert_candles_def Let_def by (simp only: simp_thms if_True snd_conv)
  qed
qed

lemma flush_ids_distinct:
  "distinct (map row_id rows) \<Longrightarrow> distinct (map row_id (snd (flush_groups pks records rows)))"
proof (induction pks arbitrary: rows)
  case (Cons i pks)
  have "distinct (map row_id (snd (upsert_candles i (map snd (filter (\<lambda>x. fst x = i) records))
      SRC_WEBSOCKET rows)))"
    by (rule upsert_ids_distinct [OF Cons.prems])
  with Cons.IH show ?case by (auto split: prod.split sum.split)
qed simp

lemma filter_unique: "distinct (map f xs) \<Longrightarrow> x \<in> set xs \<Longrightarrow> filter (\<lambda>y. f y = f x) xs = [x]"
proof (induction xs)
  case (Cons y ys)
  show ?case
  proof (cases "x = y")
    case True
    have "\<forall>z \<in> set ys. f z \<noteq> f y"
      using Cons.prems(1) by (metis distinct.simps(2) image_eqI list.simps(9) set_map)
    with True show ?thesis by (simp add: filter_empty_conv)
  next
    case False
    then have "x \<in> set ys" using Cons.prems(2) by simp
    moreover from this have "f y \<noteq> f x" using Cons.prems(1) by (metis distinct.simps(2) image_eqI list.simps(9) set_map)
    ultimately show ?thesis using Cons by simp
  qed
qed simp

text \<open>Reading one bucket of a table with unique rows is a lookup.\<close>

lemma range_of_stored:
  assumes "distinct (map row_id rows)"
  shows "map cr_candle (get_range pk tf t (t + 1) rows)
    = (case stored_candle rows (pk, tf, t) of Some x \<Rightarrow> [snd x] | None \<Rightarrow> [])"
proof -
  have bucket: "filter (\<lambda>r. cr_instrument_pk r = pk \<and> cd_timeframe (cr_candle r) = tf \<and>
      t \<le> cd_open_time (cr_candle r) \<and> cd_open_time (cr_candle r) < t + 1) rows
    = filter (\<lambda>r. row_id r = (pk, tf, t)) rows"
    by (rule filter_cong) (auto simp: row_id_def candle_id_def)
  show ?thesis
  proof (cases "find (\<lambda>r. row_id r = (pk, tf, t)) rows")
    case None
    then have "filter (\<lambda>r. row_id r = (pk, tf, t)) rows = []" by (auto simp: find_None_not filter_empty_conv)
    with None show ?thesis unfolding get_range_def bucket by (simp add: stored_candle_def)
  next
    case (Some r)
    then have r: "r \<in> set rows" "row_id r = (pk, tf, t)" by (auto dest: find_Some_in)
    then have "filter (\<lambda>y. row_id y = (pk, tf, t)) rows = [r]" using filter_unique [OF assms r(1)] by simp
    with Some show ?thesis unfolding get_range_def bucket by (simp add: stored_candle_def)
  qed
qed

section \<open>Gaps\<close>

record candle_gap =
  cg_timeframe :: timeframe
  cg_start :: datetime
  cg_end :: datetime

definition timestamp_x1000 :: "datetime \<Rightarrow> float64" where
  "timestamp_x1000 t = fmul (total_seconds t) 1000"

definition from_timestamp_ms :: "float64 \<Rightarrow> datetime" where
  "from_timestamp_ms ms = timedelta_seconds (fdiv ms 1000)"

definition missing_buckets :: "candle_gap \<Rightarrow> int" where
  "missing_buckets g =
     \<lfloor>fmul (total_seconds (cg_end g - cg_start g)) 1000 / of_int (timeframe_ms (cg_timeframe g))\<rfloor>"

fun neighbours :: "'a list \<Rightarrow> ('a \<times> 'a) list" where
  "neighbours (x # y # zs) = (x, y) # neighbours (y # zs)"
| "neighbours _ = []"

definition find_gaps ::
  "candle_data list \<Rightarrow> timeframe \<Rightarrow> datetime option \<Rightarrow> datetime option \<Rightarrow> candle_gap list" where
  "find_gaps candles tf start stop =
     (let next_ms = (\<lambda>t. fadd (timestamp_x1000 t) (of_int (timeframe_ms tf)));
          gap = (\<lambda>a b. \<lparr>cg_timeframe = tf, cg_start = a, cg_end = b\<rparr>) in
      case sort (remdups (map cd_open_time candles)) of
        [] \<Rightarrow> (case (start, stop) of (Some a, Some b) \<Rightarrow> if a < b then [gap a b] else [] | _ \<Rightarrow> [])
      | x # xs \<Rightarrow>
          (case start of Some a \<Rightarrow> if a < x then [gap a x] else [] | None \<Rightarrow> []) @
          List.map_filter (\<lambda>(p, c). if next_ms p < timestamp_x1000 c
             then Some (gap (from_timestamp_ms (next_ms p)) c) else None) (neighbours (x # xs)) @
          (case stop of Some b \<Rightarrow> if next_ms (last (x # xs)) < timestamp_x1000 b
             then [gap (from_timestamp_ms (next_ms (last (x # xs)))) b] else [] | None \<Rightarrow> []))"

text \<open>On whole seconds the float arithmetic is exact, as long as the milliseconds fit 53 bits.\<close>

definition whole_second :: "datetime \<Rightarrow> bool" where
  "whole_second t \<longleftrightarrow> 1000000 dvd t \<and> \<bar>t\<bar> \<le> 1000 * 2 ^ 52"

lemma timestamp_exact:
  assumes "whole_second t"
  shows "timestamp_x1000 t = of_int (t div 1000)"
proof -
  obtain n where n: "t = 1000000 * n" using assms by (auto simp: whole_second_def)
  have "\<bar>n\<bar> \<le> 2 ^ 53" "\<bar>n * 1000\<bar> \<le> 2 ^ 53" using assms by (auto simp: whole_second_def n abs_mult)
  then have "total_seconds t = of_int n" "fl (of_int (n * 1000)) = of_int (n * 1000)"
    using fl_of_int [of n] fl_of_int [of "n * 1000"] by (simp_all add: total_seconds_def n)
  then show ?thesis by (simp add: timestamp_x1000_def fmul_def n)
qed

lemma timeframe_ms_facts: "0 < timeframe_ms tf" "timeframe_ms tf \<le> 3600000" "1000 dvd timeframe_ms tf"
  by (cases tf; simp)+

lemma next_exact:
  assumes "whole_second t"
  shows "fadd (timestamp_x1000 t) (of_int (timeframe_ms tf)) = of_int (t div 1000 + timeframe_ms tf)"
    and "from_timestamp_ms (of_int (t div 1000 + timeframe_ms tf)) = t + 1000 * timeframe_ms tf"
proof -
  obtain n where n: "t = 1000000 * n" using assms by (auto simp: whole_second_def)
  obtain m where m: "timeframe_ms tf = 1000 * m" using timeframe_ms_facts(3) by (auto elim: dvdE)
  have b: "\<bar>1000 * n\<bar> \<le> 2 ^ 52" using assms by (auto simp: whole_second_def n abs_mult)
  have "\<bar>1000 * n + timeframe_ms tf\<bar> \<le> 2 ^ 53" using b timeframe_ms_facts [of tf] by simp
  from fl_of_int [OF this]
  show "fadd (timestamp_x1000 t) (of_int (timeframe_ms tf)) = of_int (t div 1000 + timeframe_ms tf)"
    unfolding timestamp_exact [OF assms] by (simp add: fadd_def n)
  have "\<bar>n + m\<bar> \<le> 2 ^ 53" using b timeframe_ms_facts [of tf] by (simp add: m abs_mult)
  from fl_of_int [OF this] have "fdiv (of_int (1000 * n + 1000 * m)) 1000 = of_int (n + m)"
    by (simp add: fdiv_def add_divide_distrib)
  then show "from_timestamp_ms (of_int (t div 1000 + timeframe_ms tf)) = t + 1000 * timeframe_ms tf"
    using timedelta_seconds_of_int [of "n + m"] by (simp add: from_timestamp_ms_def n m algebra_simps)
qed

definition in_gap :: "datetime \<Rightarrow> candle_gap \<Rightarrow> bool" where
  "in_gap t g \<longleftrightarrow> cg_start g \<le> t \<and> t < cg_end g"

text \<open>The gaps of whole-second times are half-open intervals between buckets.\<close>

lemma between_exact:
  assumes "whole_second p" "whole_second c"
  shows "fadd (timestamp_x1000 p) (of_int (timeframe_ms tf)) < timestamp_x1000 c
    \<longleftrightarrow> p + 1000 * timeframe_ms tf < c"
proof -
  obtain n where "p = 1000000 * n" using assms(1) by (auto simp: whole_second_def)
  moreover obtain m where "c = 1000000 * m" using assms(2) by (auto simp: whole_second_def)
  ultimately show ?thesis unfolding next_exact(1) [OF assms(1)] timestamp_exact [OF assms(2)] of_int_less_iff
    by (simp, linarith)
qed

lemma pair_gap:
  assumes "whole_second p" "whole_second c"
  shows "(case (if fadd (timestamp_x1000 p) (of_int (timeframe_ms tf)) < timestamp_x1000 c
      then Some \<lparr>cg_timeframe = tf,
        cg_start = from_timestamp_ms (fadd (timestamp_x1000 p) (of_int (timeframe_ms tf))), cg_end = c\<rparr>
      else None) of None \<Rightarrow> False | Some g \<Rightarrow> in_gap t g) \<longleftrightarrow> p + 1000 * timeframe_ms tf \<le> t \<and> t < c"
  using between_exact [OF assms, of tf] next_exact [OF assms(1), of tf] by (auto simp: in_gap_def)

lemma last_gap:
  assumes "whole_second p" "whole_second b" "t < b"
  shows "list_ex (in_gap t) (if fadd (timestamp_x1000 p) (of_int (timeframe_ms tf)) < timestamp_x1000 b
      then [\<lparr>cg_timeframe = tf,
        cg_start = from_timestamp_ms (fadd (timestamp_x1000 p) (of_int (timeframe_ms tf))), cg_end = b\<rparr>]
      else []) \<longleftrightarrow> p + 1000 * timeframe_ms tf \<le> t"
  using between_exact [OF assms(1,2), of tf] next_exact [OF assms(1), of tf] assms(3)
  by (auto simp: in_gap_def)

lemma list_ex_map_filter:
  "list_ex P (List.map_filter f xs) \<longleftrightarrow> list_ex (\<lambda>x. case f x of None \<Rightarrow> False | Some y \<Rightarrow> P y) xs"
  by (induction xs) (auto simp: List.map_filter_def split: option.split)

lemma neighbours_in: "(p, c) \<in> set (neighbours zs) \<Longrightarrow> p \<in> set zs \<and> c \<in> set zs"
  by (induction zs rule: neighbours.induct) auto

lemma sorted_last_max: "sorted xs \<Longrightarrow> y \<in> set xs \<Longrightarrow> y \<le> last xs"
  by (induction xs) (auto split: if_splits)

lemma next_bucket:
  assumes "(w::int) dvd (t - y)" "0 < w"
  shows "y + w \<le> t \<longleftrightarrow> y < t"
proof
  assume "y < t"
  moreover obtain k where k: "t - y = w * k" using assms(1) by (auto elim: dvdE)
  ultimately have "0 < w * k" by simp
  then have "1 \<le> k" using assms(2) by (simp add: zero_less_mult_iff)
  then have "w * 1 \<le> w * k" using assms(2) by (intro mult_left_mono) simp_all
  then show "y + w \<le> t" using k by simp
qed (use assms(2) in simp)

text \<open>In a sorted list of buckets, a bucket between first and last is in the list or between two neighbours.\<close>

lemma between_neighbours:
  assumes "sorted (x # xs)" "distinct (x # xs)" "x \<le> (t::int)" "0 < w" "\<forall>y \<in> set (x # xs). w dvd (t - y)"
  shows "list_ex (\<lambda>(p, c). p + w \<le> t \<and> t < c) (neighbours (x # xs))
    \<longleftrightarrow> t \<notin> set (x # xs) \<and> t < last (x # xs)"
  using assms
proof (induction xs arbitrary: x)
  case (Cons y ys)
  show ?case
  proof (cases "y \<le> t")
    case True
    have "x < y" using Cons.prems by (auto simp: less_le)
    with True have "t \<noteq> x" "\<not> t < y" by simp_all
    moreover have "y \<noteq> last (y # ys) \<Longrightarrow> ys \<noteq> []" by auto
    ultimately show ?thesis using True Cons.IH [of y] Cons.prems by auto
  next
    case False
    have later: "\<forall>z \<in> set (y # ys). t < z" using False Cons.prems(1) by auto
    then have "\<not> (p + w \<le> t \<and> t < c)" if "(p, c) \<in> set (neighbours (y # ys))" for p c
    proof -
      have "t < p" using neighbours_in [OF that] later by blast
      with Cons.prems(4) show ?thesis by linarith
    qed
    then have no: "\<not> list_ex (\<lambda>(p, c). p + w \<le> t \<and> t < c) (neighbours (y # ys))"
      by (auto simp: list_ex_iff)
    have "x + w \<le> t \<longleftrightarrow> x < t" using next_bucket [of w t x] Cons.prems(4,5) by simp
    then have "x + w \<le> t \<longleftrightarrow> t \<noteq> x" using Cons.prems(3) by auto
    with no later False show ?thesis using last_in_set [of "y # ys"] by auto
  qed
qed simp

text \<open>A bucket outside the closed intervals that start at the buckets of a sorted list.\<close>

definition uncovered :: "int \<Rightarrow> int \<Rightarrow> int \<Rightarrow> int list \<Rightarrow> bool" where
  "uncovered w t x xs \<longleftrightarrow> t < x \<or> list_ex (\<lambda>(p, c). p + w \<le> t \<and> t < c) (neighbours (x # xs)) \<or>
     last (x # xs) + w \<le> t"

lemma uncovered_missing:
  assumes "sorted (x # xs)" "distinct (x # xs)" "0 < w" "\<forall>y \<in> set (x # xs). w dvd (t - y)"
  shows "uncovered w t x xs \<longleftrightarrow> t \<notin> set (x # xs)"
proof (cases "x \<le> t")
  case False
  have "\<forall>y \<in> set (x # xs). x \<le> y" using assms(1) by simp
  with False have "t \<notin> set (x # xs)" by auto
  with False show ?thesis unfolding uncovered_def by simp
next
  case True
  have "w dvd (t - last (x # xs))" using assms(4) last_in_set [of "x # xs"] by blast
  then have "last (x # xs) + w \<le> t \<longleftrightarrow> last (x # xs) < t" using assms(3) by (rule next_bucket)
  moreover have "last (x # xs) \<in> set (x # xs)" by simp
  moreover have "\<forall>y \<in> set (x # xs). y \<le> last (x # xs)" using sorted_last_max [OF assms(1)] by blast
  ultimately show ?thesis
    unfolding uncovered_def between_neighbours [OF assms(1,2) True assms(3,4)]
    using True by (cases t "last (x # xs)" rule: linorder_cases) auto
qed

lemma gaps_uncovered:
  assumes "sort (remdups (map cd_open_time candles)) = x # xs" "\<forall>y \<in> set (x # xs). whole_second y"
    and "whole_second b" "a \<le> t" "t < b"
  shows "list_ex (in_gap t) (find_gaps candles tf (Some a) (Some b)) \<longleftrightarrow>
    uncovered (1000 * timeframe_ms tf) t x xs"
proof -
  let ?w = "1000 * timeframe_ms tf"
  have "list_ex (in_gap t) (List.map_filter (\<lambda>(p, c). if fadd (timestamp_x1000 p) (of_int (timeframe_ms tf))
      < timestamp_x1000 c then Some \<lparr>cg_timeframe = tf, cg_start = from_timestamp_ms
        (fadd (timestamp_x1000 p) (of_int (timeframe_ms tf))), cg_end = c\<rparr> else None) (neighbours (x # xs)))
    \<longleftrightarrow> list_ex (\<lambda>(p, c). p + ?w \<le> t \<and> t < c) (neighbours (x # xs))"
    unfolding list_ex_map_filter list_ex_iff [where xs = "neighbours (x # xs)"]
  proof (rule bex_cong [OF refl], goal_cases)
    case (1 pc)
    obtain p c where pc: "pc = (p, c)" by fastforce
    with 1 neighbours_in [of p c "x # xs"] assms(2) have "whole_second p" "whole_second c" by auto
    from pair_gap [OF this, of t tf] show ?case unfolding pc by (simp only: prod.case)
  qed
  moreover have "list_ex (in_gap t) (if fadd (timestamp_x1000 (last (x # xs))) (of_int (timeframe_ms tf))
        < timestamp_x1000 b then [\<lparr>cg_timeframe = tf, cg_start = from_timestamp_ms
          (fadd (timestamp_x1000 (last (x # xs))) (of_int (timeframe_ms tf))), cg_end = b\<rparr>] else [])
    \<longleftrightarrow> last (x # xs) + ?w \<le> t"
    using assms(2) last_in_set [of "x # xs"] by (intro last_gap [OF _ assms(3,5)]) blast
  moreover have "list_ex (in_gap t) (if a < x then [\<lparr>cg_timeframe = tf, cg_start = a, cg_end = x\<rparr>] else [])
    \<longleftrightarrow> t < x" using assms(4) by (simp add: in_gap_def)
  ultimately show ?thesis
    unfolding find_gaps_def Let_def assms(1) list.case option.case list_ex_append uncovered_def by blast
qed

section \<open>Properties\<close>

text \<open>
  C13.  Flushed candles are read back: a batch whose keys are distinct, as the keys of the candle buffer are,
  is written without an error into any table with unique rows, rows stay unique, and reading any bucket of
  any series afterwards returns the candle of the batch with that key, or, where the batch has none, what
  the bucket held before.
\<close>

theorem flushed_candles_read_back:
  assumes "distinct (map candle_id records)" "distinct (map row_id rows)"
  shows "fst (flush_candles records rows) = Inr () \<and>
    distinct (map row_id (snd (flush_candles records rows))) \<and>
    map cr_candle (get_range pk tf t (t + 1) (snd (flush_candles records rows))) =
      (case find (\<lambda>x. candle_id x = (pk, tf, t)) records of
         Some x \<Rightarrow> [snd x]
       | None \<Rightarrow> map cr_candle (get_range pk tf t (t + 1) rows))"
proof -
  let ?pks = "rev (remdups (rev (map fst records)))"
  have uniq: "distinct (map row_id (snd (flush_candles records rows)))"
    unfolding flush_candles_def by (rule flush_ids_distinct [OF assms(2)])
  have "pk \<in> set ?pks" if "find (\<lambda>x. candle_id x = (pk, tf, t)) records = Some x" for x
    using that by (force dest!: find_Some_in simp: candle_id_def)
  with flush_groups_stored [OF assms(1), of ?pks rows pk tf t]
  have "fst (flush_candles records rows) = Inr ()"
    "stored_candle (snd (flush_candles records rows)) (pk, tf, t) =
      (case find (\<lambda>x. candle_id x = (pk, tf, t)) records of
         Some x \<Rightarrow> Some x | None \<Rightarrow> stored_candle rows (pk, tf, t))"
    unfolding flush_candles_def by (auto split: option.splits)
  then show ?thesis
    unfolding range_of_stored [OF uniq] range_of_stored [OF assms(2)] using uniq
    by (auto split: option.splits)
qed

definition example_candle :: "timeframe \<Rightarrow> int \<Rightarrow> candle_data" where
  "example_candle tf t = \<lparr>cd_timeframe = tf, cd_open_time = t, cd_open = 100, cd_high = 102, cd_low = 99,
     cd_close = 101, cd_volume = 5, cd_trade_count = 3\<rparr>"

theorem flushed_candles_read_back_witness:
  "let rows = [new_candle SRC_WEBSOCKET (3, example_candle M5 0), new_candle SRC_WEBSOCKET (1, example_candle M1 0)];
       new = (example_candle M1 0)\<lparr>cd_close := 102\<rparr>;
       after = snd (flush_candles [(1, new), (2, example_candle M1 60000000)] rows) in
   map cr_candle (get_range 1 M1 0 1 after) = [new] \<and>
   map cr_candle (get_range 3 M5 0 1 after) = [example_candle M5 0]"
proof -
  let ?rows = "[new_candle SRC_WEBSOCKET (3, example_candle M5 0), new_candle SRC_WEBSOCKET (1, example_candle M1 0)]"
  let ?new = "(example_candle M1 0)\<lparr>cd_close := 102\<rparr>"
  let ?batch = "[(1, ?new), (2, example_candle M1 60000000)]"
  have d: "distinct (map candle_id ?batch)" "distinct (map row_id ?rows)"
    by (simp_all add: example_candle_def candle_id_def)
  have "find (\<lambda>x. candle_id x = (1, M1, 0)) ?batch = Some (1, ?new)"
    "find (\<lambda>x. candle_id x = (3, M5, 0)) ?batch = None"
    "map cr_candle (get_range 3 M5 0 1 ?rows) = [example_candle M5 0]"
    by (simp_all add: example_candle_def candle_id_def get_range_def new_candle_def)
  with flushed_candles_read_back [OF d, of 1 M1 0] flushed_candles_read_back [OF d, of 3 M5 0]
  show ?thesis by (simp add: Let_def)
qed

text \<open>
  C14.  Gap detection is complete and exact: between two expected bounds, for candles of one timeframe at whole
  seconds, a bucket time lies in a reported gap exactly when no candle of the series opened then.
\<close>

theorem gaps_are_the_missing_buckets:
  assumes "\<forall>c \<in> set candles. whole_second (cd_open_time c) \<and> a \<le> cd_open_time c \<and>
      1000 * timeframe_ms tf dvd (t - cd_open_time c)"
    and "whole_second b" "a \<le> t" "t < b"
  shows "list_ex (in_gap t) (find_gaps candles tf (Some a) (Some b)) \<longleftrightarrow> t \<notin> cd_open_time ` set candles"
proof (cases "sort (remdups (map cd_open_time candles))")
  case Nil
  then have "set (sort (remdups (map cd_open_time candles))) = {}" by simp
  then have "candles = []" by simp
  then show ?thesis using assms(3,4) by (simp add: find_gaps_def in_gap_def)
next
  case (Cons x xs)
  have "set (sort (remdups (map cd_open_time candles))) = cd_open_time ` set candles" by simp
  then have elems: "set (x # xs) = cd_open_time ` set candles" unfolding Cons .
  have "sorted (x # xs)" "distinct (x # xs)" unfolding Cons [symmetric] by simp_all
  moreover have each: "\<forall>y \<in> set (x # xs). whole_second y \<and> 1000 * timeframe_ms tf dvd (t - y)"
    unfolding elems using assms(1) by auto
  moreover have "0 < 1000 * timeframe_ms tf" using timeframe_ms_facts by simp
  ultimately have "uncovered (1000 * timeframe_ms tf) t x xs \<longleftrightarrow> t \<notin> set (x # xs)"
    by (intro uncovered_missing) auto
  moreover have "list_ex (in_gap t) (find_gaps candles tf (Some a) (Some b)) \<longleftrightarrow>
      uncovered (1000 * timeframe_ms tf) t x xs"
    using each by (intro gaps_uncovered [OF Cons _ assms(2-4)]) blast
  ultimately show ?thesis unfolding elems by simp
qed

theorem gaps_are_the_missing_buckets_witness:
  "list_ex (in_gap 900000000) (find_gaps [example_candle M5 300000000, example_candle M5 1200000000] M5
     (Some 0) (Some 1800000000)) \<longleftrightarrow> (900000000 :: int) \<notin> {300000000, 1200000000}"
  using gaps_are_the_missing_buckets [of "[example_candle M5 300000000, example_candle M5 1200000000]" 0 M5
      900000000 1800000000] by (simp add: example_candle_def whole_second_def)

end
