(* ===== verification/Sessions.thy ===== *)
theory Sessions
  imports Prelude
begin

text \<open>
  The trading sessions (\<open>app/sessions\<close>): the versioned equity calendar, the equity and crypto session
  managers, and the verdict of a session for an asset class
  (\<open>session_verdict_for_asset_class\<close> in \<open>app/selection/market_selection_engine.py\<close>).

  A date is its day number since 1970-01-01, a time of day its minute, and a New York wall-clock instant
  the microseconds since 1970-01-01 00:00 on that clock.  The time zone database is a parameter: how an
  instant reads on the wall clock, and which instant a wall-clock reading is.
\<close>

section \<open>Dates\<close>

definition day_us :: int where
  "day_us = 86400000000"

definition minute_us :: int where
  "minute_us = 60000000"

text \<open>The proleptic Gregorian calendar of Python's \<open>datetime.date\<close>; years start in March here.\<close>

definition day_of :: "int \<Rightarrow> int \<Rightarrow> int \<Rightarrow> int" where
  "day_of y m d =
     (let y' = (if m \<le> 2 then y - 1 else y); era = y' div 400; yoe = y' mod 400;
          doy = (153 * (if 2 < m then m - 3 else m + 9) + 2) div 5 + d - 1;
          doe = yoe * 365 + yoe div 4 - yoe div 100 + doy
      in era * 146097 + doe - 719468)"

definition civil :: "int \<Rightarrow> int \<times> int \<times> int" where
  "civil day =
     (let z = day + 719468; era = z div 146097; doe = z mod 146097;
          yoe = (doe - doe div 1460 + doe div 36524 - doe div 146096) div 365;
          doy = doe - (365 * yoe + yoe div 4 - yoe div 100); mp = (5 * doy + 2) div 153;
          m = (if mp < 10 then mp + 3 else mp - 9);
          y = yoe + era * 400 + (if m \<le> 2 then 1 else 0)
      in (y, m, doy - (153 * mp + 2) div 5 + 1))"

definition year_of :: "int \<Rightarrow> int" where
  "year_of day = fst (civil day)"

text \<open>Monday is 0; 1970-01-01 was a Thursday.\<close>

definition weekday :: "int \<Rightarrow> int" where
  "weekday day = (day + 3) mod 7"

definition date_part :: "int \<Rightarrow> int" where
  "date_part t = t div day_us"

definition at_minute :: "int \<Rightarrow> int \<Rightarrow> int" where
  "at_minute day minute = day * day_us + minute * minute_us"

definition pad2 :: "int \<Rightarrow> string" where
  "pad2 n = (if n < 10 then ''0'' @ str_int n else str_int n)"

definition iso_date :: "int \<Rightarrow> string" where
  "iso_date day = (let (y, m, d) = civil day in str_int y @ ''-'' @ pad2 m @ ''-'' @ pad2 d)"

record time_zone =
  to_new_york :: "datetime \<Rightarrow> int"
  from_new_york :: "int \<Rightarrow> datetime"

section \<open>Settings and the calendar\<close>

record equity_session_settings =
  es_calendar_enabled :: bool
  es_calendar_version :: string
  es_calendar_min_year :: int
  es_calendar_max_year :: int
  es_regular_session_open :: int
  es_regular_session_close :: int
  es_early_close_default :: int
  es_premarket_enabled :: bool
  es_after_hours_enabled :: bool
  es_premarket_analysis_enabled :: bool
  es_after_hours_analysis_enabled :: bool

definition default_equity_settings :: equity_session_settings where
  "default_equity_settings = \<lparr>es_calendar_enabled = True, es_calendar_version = ''us-equity-2026.1'',
     es_calendar_min_year = 2026, es_calendar_max_year = 2028, es_regular_session_open = 570,
     es_regular_session_close = 960, es_early_close_default = 780, es_premarket_enabled = True,
     es_after_hours_enabled = True, es_premarket_analysis_enabled = False,
     es_after_hours_analysis_enabled = False\<rparr>"

record calendar_data =
  cal_version :: string
  cal_min_year :: int
  cal_max_year :: int
  cal_holidays :: "(int \<times> string) list"
  cal_early_closes :: "(int \<times> string) list"

definition us_equity_calendar :: calendar_data where
  "us_equity_calendar = \<lparr>
     cal_version = ''us-equity-2026.1'', cal_min_year = 2026, cal_max_year = 2028,
     cal_holidays =
      [(day_of 2026 1 1, ''New Year's Day''),
       (day_of 2026 1 19, ''Martin Luther King, Jr. Day''),
       (day_of 2026 2 16, ''Washington's Birthday''),
       (day_of 2026 4 3, ''Good Friday''),
       (day_of 2026 5 25, ''Memorial Day''),
       (day_of 2026 6 19, ''Juneteenth National Independence Day''),
       (day_of 2026 7 3, ''Independence Day (observed)''),
       (day_of 2026 9 7, ''Labor Day''),
       (day_of 2026 11 26, ''Thanksgiving Day''),
       (day_of 2026 12 25, ''Christmas Day''),
       (day_of 2027 1 1, ''New Year's Day''),
       (day_of 2027 1 18, ''Martin Luther King, Jr. Day''),
       (day_of 2027 2 15, ''Washington's Birthday''),
       (day_of 2027 3 26, ''Good Friday''),
       (day_of 2027 5 31, ''Memorial Day''),
       (day_of 2027 6 18, ''Juneteenth (observed)''),
       (day_of 2027 7 5, ''Independence Day (observed)''),
       (day_of 2027 9 6, ''Labor Day''),
       (day_of 2027 11 25, ''Thanksgiving Day''),
       (day_of 2027 12 24, ''Christmas Day (observed)''),
       (day_of 2028 1 17, ''Martin Luther King, Jr. Day''),
       (day_of 2028 2 21, ''Washington's Birthday''),
       (day_of 2028 4 14, ''Good Friday''),
       (day_of 2028 5 29, ''Memorial Day''),
       (day_of 2028 6 19, ''Juneteenth National Independence Day''),
       (day_of 2028 7 4, ''Independence Day''),
       (day_of 2028 9 4, ''Labor Day''),
       (day_of 2028 11 23, ''Thanksgiving Day''),
       (day_of 2028 12 25, ''Christmas Day'')],
     cal_early_closes =
      [(day_of 2026 11 27, ''Day after Thanksgiving''),
       (day_of 2026 12 24, ''Christmas Eve''),
       (day_of 2027 11 26, ''Day after Thanksgiving''),
       (day_of 2028 7 3, ''Day before Independence Day''),
       (day_of 2028 11 24, ''Day after Thanksgiving'')]\<rparr>"

record trading_day =
  td_day :: int
  td_covered :: bool
  td_is_weekend :: bool
  td_holiday_name :: "string option"
  td_early_close_reason :: "string option"
  td_open :: int
  td_close :: int

definition is_trading_day :: "trading_day \<Rightarrow> bool" where
  "is_trading_day td \<longleftrightarrow> td_covered td \<and> \<not> td_is_weekend td \<and> td_holiday_name td = None"

definition is_early_close :: "trading_day \<Rightarrow> bool" where
  "is_early_close td \<longleftrightarrow> is_trading_day td \<and> td_early_close_reason td \<noteq> None"

definition covers :: "calendar_data \<Rightarrow> int \<Rightarrow> bool" where
  "covers cal day \<longleftrightarrow> cal_min_year cal \<le> year_of day \<and> year_of day \<le> cal_max_year cal"

definition version_matches_config :: "equity_session_settings \<Rightarrow> calendar_data \<Rightarrow> bool" where
  "version_matches_config st cal \<longleftrightarrow> cal_version cal = es_calendar_version st"

definition classify_day :: "equity_session_settings \<Rightarrow> calendar_data \<Rightarrow> int \<Rightarrow> trading_day" where
  "classify_day st cal day =
     (let early = map_of (cal_early_closes cal) day in
      \<lparr>td_day = day,
       td_covered = (covers cal day \<and> es_calendar_min_year st \<le> year_of day \<and>
         year_of day \<le> es_calendar_max_year st),
       td_is_weekend = (5 \<le> weekday day), td_holiday_name = map_of (cal_holidays cal) day,
       td_early_close_reason = early, td_open = es_regular_session_open st,
       td_close = (case early of Some (c # cs) \<Rightarrow> es_early_close_default st
         | _ \<Rightarrow> es_regular_session_close st)\<rparr>)"

section \<open>The equity session\<close>

datatype equity_state =
    EQUITY_CLOSED | EQUITY_PREMARKET | EQUITY_REGULAR | EQUITY_EARLY_CLOSE | EQUITY_AFTER_HOURS
  | EQUITY_HOLIDAY | EQUITY_WEEKEND

record equity_snapshot =
  eq_state :: equity_state
  eq_evaluated_at :: datetime
  eq_calendar_available :: bool
  eq_calendar_version :: "string option"
  eq_analysis_allowed :: bool
  eq_holiday_name :: "string option"
  eq_early_close_reason :: "string option"
  eq_next_transition_at :: "datetime option"
  eq_next_transition_state :: "equity_state option"
  eq_detail :: "string option"

definition unavailable_equity :: "datetime \<Rightarrow> string option \<Rightarrow> string \<Rightarrow> equity_snapshot" where
  "unavailable_equity now version detail = \<lparr>eq_state = EQUITY_CLOSED, eq_evaluated_at = now,
     eq_calendar_available = False, eq_calendar_version = version, eq_analysis_allowed = False,
     eq_holiday_name = None, eq_early_close_reason = None, eq_next_transition_at = None,
     eq_next_transition_state = None, eq_detail = Some detail\<rparr>"

definition available_equity ::
  "datetime \<Rightarrow> string \<Rightarrow> equity_state \<Rightarrow> bool \<Rightarrow> string option \<Rightarrow> string option \<Rightarrow> datetime option \<Rightarrow>
     equity_state \<Rightarrow> equity_snapshot" where
  "available_equity now version state allowed holiday early next_at next_state =
     \<lparr>eq_state = state, eq_evaluated_at = now, eq_calendar_available = True,
      eq_calendar_version = Some version, eq_analysis_allowed = allowed, eq_holiday_name = holiday,
      eq_early_close_reason = early, eq_next_transition_at = next_at,
      eq_next_transition_state = Some next_state, eq_detail = None\<rparr>"

text \<open>The search of \<open>_next_open_after\<close> from an offset on, over at most so many days.\<close>

fun next_open_from ::
  "equity_session_settings \<Rightarrow> calendar_data \<Rightarrow> time_zone \<Rightarrow> int \<Rightarrow> int \<Rightarrow> nat \<Rightarrow> datetime option" where
  "next_open_from st cal tz wall day 0 = None"
| "next_open_from st cal tz wall day (Suc n) =
     (let info = classify_day st cal day; candidate = at_minute day (es_regular_session_open st) in
      if \<not> td_covered info then None
      else if is_trading_day info \<and> wall < candidate then Some (from_new_york tz candidate)
      else next_open_from st cal tz wall (day + 1) n)"

definition next_open_after ::
  "equity_session_settings \<Rightarrow> calendar_data \<Rightarrow> time_zone \<Rightarrow> int \<Rightarrow> datetime option" where
  "next_open_after st cal tz wall = next_open_from st cal tz wall (date_part wall) 14"

definition evaluate_equity ::
  "equity_session_settings \<Rightarrow> calendar_data \<Rightarrow> time_zone \<Rightarrow> datetime \<Rightarrow> equity_snapshot" where
  "evaluate_equity st cal tz now =
     (let version = cal_version cal in
      if \<not> es_calendar_enabled st then
        unavailable_equity now None ''equity calendar disabled by configuration''
      else if \<not> version_matches_config st cal then
        unavailable_equity now (Some version)
          (''calendar version mismatch: data='' @ version @ '' config='' @ es_calendar_version st)
      else
        let wall = to_new_york tz now; day = date_part wall; info = classify_day st cal day in
        if \<not> td_covered info then
          unavailable_equity now (Some version) (''date '' @ iso_date day @ '' outside calendar coverage'')
        else if td_is_weekend info then
          available_equity now version EQUITY_WEEKEND False None None
            (next_open_after st cal tz wall) EQUITY_REGULAR
        else if td_holiday_name info \<noteq> None then
          available_equity now version EQUITY_HOLIDAY False (td_holiday_name info) None
            (next_open_after st cal tz wall) EQUITY_REGULAR
        else
          let early = td_early_close_reason info;
              open_dt = at_minute day (td_open info); close_dt = at_minute day (td_close info);
              premarket_start = at_minute day 240; after_hours_end = at_minute day 1200;
              open_state = (if is_early_close info then EQUITY_EARLY_CLOSE else EQUITY_REGULAR) in
          if wall < open_dt then
            let state = (if es_premarket_enabled st \<and> premarket_start \<le> wall
                         then EQUITY_PREMARKET else EQUITY_CLOSED) in
            available_equity now version state
              (state = EQUITY_PREMARKET \<and> es_premarket_analysis_enabled st) None early
              (Some (from_new_york tz open_dt)) open_state
          else if wall < close_dt then
            available_equity now version open_state True None early (Some (from_new_york tz close_dt))
              (if es_after_hours_enabled st then EQUITY_AFTER_HOURS else EQUITY_CLOSED)
          else if es_after_hours_enabled st \<and> wall < after_hours_end then
            available_equity now version EQUITY_AFTER_HOURS (es_after_hours_analysis_enabled st) None early
              (Some (from_new_york tz after_hours_end)) EQUITY_CLOSED
          else available_equity now version EQUITY_CLOSED False None early
              (next_open_after st cal tz wall) EQUITY_REGULAR)"

section \<open>The crypto session\<close>

datatype crypto_state = CRYPTO_24_7 | CRYPTO_THIN_LIQUIDITY | CRYPTO_DISABLED

text \<open>A thin-liquidity window in UTC: its days, and its start and end minutes.\<close>

record thin_window =
  tw_days :: "int list"
  tw_start :: int
  tw_end :: int

record crypto_session_settings =
  cs_session_enabled :: bool
  cs_thin_windows :: "thin_window list"
  cs_limited_session :: bool

definition default_crypto_settings :: crypto_session_settings where
  "default_crypto_settings = \<lparr>cs_session_enabled = True, cs_thin_windows = [], cs_limited_session = True\<rparr>"

record crypto_snapshot =
  cy_state :: crypto_state
  cy_evaluated_at :: datetime
  cy_analysis_allowed :: bool
  cy_limited :: bool
  cy_window_detail :: "thin_window option"

definition minute_of_day :: "datetime \<Rightarrow> int" where
  "minute_of_day t = t mod day_us div minute_us"

definition in_window :: "datetime \<Rightarrow> thin_window \<Rightarrow> bool" where
  "in_window now w =
     (let now_time = minute_of_day now; wd = weekday (date_part now) in
      if tw_start w \<le> tw_end w then wd \<in> set (tw_days w) \<and> tw_start w \<le> now_time \<and> now_time < tw_end w
      else (wd \<in> set (tw_days w) \<and> tw_start w \<le> now_time) \<or>
           ((wd - 1) mod 7 \<in> set (tw_days w) \<and> now_time < tw_end w))"

definition active_thin_window :: "crypto_session_settings \<Rightarrow> datetime \<Rightarrow> thin_window option" where
  "active_thin_window st now = find (in_window now) (cs_thin_windows st)"

definition evaluate_crypto :: "crypto_session_settings \<Rightarrow> datetime \<Rightarrow> crypto_snapshot" where
  "evaluate_crypto st now =
     (if \<not> cs_session_enabled st then
        \<lparr>cy_state = CRYPTO_DISABLED, cy_evaluated_at = now, cy_analysis_allowed = False,
         cy_limited = False, cy_window_detail = None\<rparr>
      else case active_thin_window st now of
        Some w \<Rightarrow>
          if cs_limited_session st then
            \<lparr>cy_state = CRYPTO_THIN_LIQUIDITY, cy_evaluated_at = now, cy_analysis_allowed = True,
             cy_limited = True, cy_window_detail = Some w\<rparr>
          else \<lparr>cy_state = CRYPTO_24_7, cy_evaluated_at = now, cy_analysis_allowed = True,
             cy_limited = False, cy_window_detail = None\<rparr>
      | None \<Rightarrow> \<lparr>cy_state = CRYPTO_24_7, cy_evaluated_at = now, cy_analysis_allowed = True,
             cy_limited = False, cy_window_detail = None\<rparr>)"

section \<open>The verdict\<close>

datatype asset_class =
    AC_EQUITY | AC_INDEX | AC_CRYPTO | AC_COMMODITY | AC_FX | AC_UNKNOWN

definition asset_class_of :: "string \<Rightarrow> asset_class option" where
  "asset_class_of s = map_of
     [(''EQUITY'', AC_EQUITY), (''INDEX'', AC_INDEX), (''CRYPTO'', AC_CRYPTO),
      (''COMMODITY'', AC_COMMODITY), (''FX'', AC_FX), (''UNKNOWN'', AC_UNKNOWN)] s"

datatype eligibility_status =
    ELIGIBLE | INELIGIBLE | DISABLED_BY_POLICY | DISABLED_BY_CONFIG | MARKET_INACTIVE
  | ASSET_CLASS_UNSUPPORTED | SESSION_CLOSED | HOLIDAY_CLOSED | WEEKEND_CLOSED | EARLY_CLOSE_ENDED
  | CALENDAR_UNAVAILABLE | EL_DATA_UNAVAILABLE | EL_DATA_STALE | EL_DATA_INVALID
  | EL_ORDERBOOK_RESYNCING | LOW_VOLUME | SPREAD_TOO_WIDE | INSUFFICIENT_DEPTH | PRICE_INVALID
  | VOLUME_UNAVAILABLE | INSTRUMENT_NOT_CONFIGURED | INSTRUMENT_DELISTED | INSTRUMENT_UNKNOWN

fun equity_state_value :: "equity_state \<Rightarrow> string" where
  "equity_state_value EQUITY_CLOSED = ''EQUITY_CLOSED''"
| "equity_state_value EQUITY_PREMARKET = ''EQUITY_PREMARKET''"
| "equity_state_value EQUITY_REGULAR = ''EQUITY_REGULAR''"
| "equity_state_value EQUITY_EARLY_CLOSE = ''EQUITY_EARLY_CLOSE''"
| "equity_state_value EQUITY_AFTER_HOURS = ''EQUITY_AFTER_HOURS''"
| "equity_state_value EQUITY_HOLIDAY = ''EQUITY_HOLIDAY''"
| "equity_state_value EQUITY_WEEKEND = ''EQUITY_WEEKEND''"

fun crypto_state_value :: "crypto_state \<Rightarrow> string" where
  "crypto_state_value CRYPTO_24_7 = ''CRYPTO_24_7''"
| "crypto_state_value CRYPTO_THIN_LIQUIDITY = ''CRYPTO_THIN_LIQUIDITY''"
| "crypto_state_value CRYPTO_DISABLED = ''CRYPTO_DISABLED''"

text \<open>The display-only \<open>detail\<close> is left out.\<close>

record session_verdict =
  sv_session_state :: string
  sv_analysis_allowed :: bool
  sv_blocking_status :: "eligibility_status option"
  sv_calendar_version :: "string option"
  sv_limited_liquidity :: bool

definition equity_blocking :: "equity_snapshot \<Rightarrow> eligibility_status option" where
  "equity_blocking e =
     (if eq_state e = EQUITY_WEEKEND then Some WEEKEND_CLOSED
      else if eq_state e = EQUITY_HOLIDAY then Some HOLIDAY_CLOSED
      else if \<not> eq_analysis_allowed e then
        (if eq_early_close_reason e \<noteq> None \<and> eq_state e \<in> {EQUITY_AFTER_HOURS, EQUITY_CLOSED}
         then Some EARLY_CLOSE_ENDED else Some SESSION_CLOSED)
      else None)"

definition session_verdict_for_asset_class ::
  "asset_class \<Rightarrow> equity_snapshot \<Rightarrow> crypto_snapshot \<Rightarrow> session_verdict" where
  "session_verdict_for_asset_class ac e c =
     (if ac = AC_EQUITY then
        if \<not> eq_calendar_available e then
          \<lparr>sv_session_state = equity_state_value (eq_state e), sv_analysis_allowed = False,
           sv_blocking_status = Some CALENDAR_UNAVAILABLE, sv_calendar_version = eq_calendar_version e,
           sv_limited_liquidity = False\<rparr>
        else
          \<lparr>sv_session_state = equity_state_value (eq_state e),
           sv_analysis_allowed = (equity_blocking e = None), sv_blocking_status = equity_blocking e,
           sv_calendar_version = eq_calendar_version e, sv_limited_liquidity = False\<rparr>
      else if cy_state c = CRYPTO_DISABLED \<or> \<not> cy_analysis_allowed c then
        \<lparr>sv_session_state = crypto_state_value (cy_state c), sv_analysis_allowed = False,
         sv_blocking_status = Some SESSION_CLOSED, sv_calendar_version = None,
         sv_limited_liquidity = False\<rparr>
      else
        \<lparr>sv_session_state = crypto_state_value (cy_state c), sv_analysis_allowed = True,
         sv_blocking_status = None, sv_calendar_version = None, sv_limited_liquidity = cy_limited c\<rparr>)"


section \<open>The next open\<close>

definition opens_after ::
  "equity_session_settings \<Rightarrow> calendar_data \<Rightarrow> int \<Rightarrow> int \<Rightarrow> bool" where
  "opens_after st cal wall day \<longleftrightarrow> is_trading_day (classify_day st cal day) \<and>
     wall < at_minute day (es_regular_session_open st)"

text \<open>What the search finds is the first regular open after the instant, within the coming days.\<close>

lemma next_open_from_first:
  "next_open_from st cal tz wall day n = Some t \<Longrightarrow>
     \<exists>k < n. t = from_new_york tz (at_minute (day + int k) (es_regular_session_open st)) \<and>
       opens_after st cal wall (day + int k) \<and> (\<forall>j < k. \<not> opens_after st cal wall (day + int j))"
proof (induction n arbitrary: day)
  case (Suc n)
  show ?case
  proof (cases "opens_after st cal wall day")
    case True
    with Suc.prems show ?thesis
      by (intro exI [of _ 0]) (auto simp: opens_after_def Let_def is_trading_day_def split: if_splits)
  next
    case False
    then have "next_open_from st cal tz wall (day + 1) n = Some t"
      using Suc.prems by (auto simp: opens_after_def Let_def split: if_splits)
    then obtain k where k: "k < n" "t = from_new_york tz (at_minute (day + 1 + int k) (es_regular_session_open st))"
      "opens_after st cal wall (day + 1 + int k)" "\<forall>j < k. \<not> opens_after st cal wall (day + 1 + int j)"
      using Suc.IH by blast
    have "\<not> opens_after st cal wall (day + int j)" if "j < Suc k" for j
      using that False k(4) by (cases j) (auto simp: algebra_simps)
    with k show ?thesis by (intro exI [of _ "Suc k"]) (auto simp: algebra_simps)
  qed
qed simp

lemma next_open_after_first:
  "next_open_after st cal tz wall = Some t \<Longrightarrow>
     \<exists>k < 14. t = from_new_york tz (at_minute (date_part wall + int k) (es_regular_session_open st)) \<and>
       opens_after st cal wall (date_part wall + int k) \<and>
       (\<forall>j < k. \<not> opens_after st cal wall (date_part wall + int j))"
  unfolding next_open_after_def by (rule next_open_from_first)

section \<open>Thin-liquidity windows\<close>

text \<open>
  A window is the union of one interval per listed day, from its start to its end, which lies on the next
  day when the end comes before the start.
\<close>

definition window_holds :: "int \<Rightarrow> thin_window \<Rightarrow> int \<Rightarrow> bool" where
  "window_holds minute w day \<longleftrightarrow> weekday day \<in> set (tw_days w) \<and> day * 1440 + tw_start w \<le> minute \<and>
     minute < day * 1440 + tw_end w + (if tw_start w \<le> tw_end w then 0 else 1440)"

lemma minute_split: "t div minute_us = date_part t * 1440 + minute_of_day t"
proof -
  have "t = date_part t * 1440 * minute_us + t mod day_us"
    by (simp add: date_part_def minute_us_def day_us_def)
  then have "t div minute_us = (date_part t * 1440 * minute_us + t mod day_us) div minute_us" by simp
  then show ?thesis by (simp add: minute_of_day_def minute_us_def)
qed

lemma minute_range: "0 \<le> minute_of_day t \<and> minute_of_day t < 1440"
proof -
  have "t mod 86400000000 \<le> 86399999999" using pos_mod_bound [of 86400000000 t] by linarith
  then have "t mod 86400000000 div 60000000 \<le> 86399999999 div 60000000" by (rule zdiv_mono1) simp
  moreover have "0 \<le> t mod 86400000000 div 60000000" by (simp add: pos_imp_zdiv_nonneg_iff)
  ultimately show ?thesis by (simp add: minute_of_day_def day_us_def minute_us_def)
qed

lemma weekday_before: "weekday (day - 1) = (weekday day - 1) mod 7"
  by (simp add: weekday_def mod_simps)

lemma in_window_interval:
  assumes "0 \<le> tw_start w" "tw_start w < 1440" "0 \<le> tw_end w" "tw_end w < 1440"
  shows "in_window now w \<longleftrightarrow> window_holds (now div minute_us) w (date_part now) \<or>
    window_holds (now div minute_us) w (date_part now - 1)"
  using assms minute_range [of now]
  by (auto simp: in_window_def window_holds_def minute_split weekday_before Let_def)

section \<open>The session gate\<close>

text \<open>An example: the US calendar with New York four hours behind UTC all year.\<close>

definition summer_zone :: time_zone where
  "summer_zone = \<lparr>to_new_york = (\<lambda>t. t - 240 * minute_us), from_new_york = (\<lambda>t. t + 240 * minute_us)\<rparr>"

text \<open>
  The snapshot's next transition passes over the start of the premarket: before 4:00 on a trading day the
  session is closed and the reported next transition is the regular open, though at 4:00 the state is
  \<open>EQUITY_PREMARKET\<close>.
\<close>

lemma next_transition_skips_premarket:
  "let night = from_new_york summer_zone (at_minute (day_of 2026 7 7) 180);
       e = evaluate_equity default_equity_settings us_equity_calendar summer_zone night;
       four = from_new_york summer_zone (at_minute (day_of 2026 7 7) 240) in
   eq_state e = EQUITY_CLOSED \<and> eq_next_transition_state e = Some EQUITY_REGULAR \<and>
   eq_state (evaluate_equity default_equity_settings us_equity_calendar summer_zone four) = EQUITY_PREMARKET"
  by code_simp

text \<open>The shipped data: covered dates, no holiday on a weekend, early closes on trading days.\<close>

lemma calendar_consistent:
  "list_all (\<lambda>(day, name). covers us_equity_calendar day \<and> weekday day < 5) (cal_holidays us_equity_calendar) \<and>
   list_all (\<lambda>(day, name). is_trading_day (classify_day default_equity_settings us_equity_calendar day) \<and>
     name \<noteq> []) (cal_early_closes us_equity_calendar) \<and>
   distinct (map fst (cal_holidays us_equity_calendar @ cal_early_closes us_equity_calendar))"
  by code_simp

text \<open>
  C18.  Equities pass the session gate exactly in the hours of analysis: the verdict does not block just
  when the calendar is enabled, is of the configured version, covers the New York date, the date is a
  trading day, and the wall clock lies in the regular hours, from the open up to the close (the early close
  on a day that has one); or, where the premarket and its analysis are both switched on, from 4:00 up to the
  open; or, where the after-hours session and its analysis are both switched on, from the close up to 20:00.
  With both analyses off, as the settings are by default, the regular hours are all.
\<close>

theorem equity_gate_is_trading_hours:
  "sv_blocking_status (session_verdict_for_asset_class AC_EQUITY (evaluate_equity st cal tz now) c) = None \<longleftrightarrow>
    es_calendar_enabled st \<and> version_matches_config st cal \<and>
    (let wall = to_new_york tz now; day = date_part wall; info = classify_day st cal day;
         opens = at_minute day (td_open info); closes = at_minute day (td_close info) in
     is_trading_day info \<and>
     (opens \<le> wall \<and> wall < closes \<or>
      es_premarket_enabled st \<and> es_premarket_analysis_enabled st \<and> at_minute day 240 \<le> wall \<and> wall < opens \<or>
      es_after_hours_enabled st \<and> es_after_hours_analysis_enabled st \<and> opens \<le> wall \<and> closes \<le> wall \<and>
      wall < at_minute day 1200))"
  by (auto simp: session_verdict_for_asset_class_def evaluate_equity_def unavailable_equity_def
      available_equity_def equity_blocking_def is_trading_day_def is_early_close_def Let_def)

theorem equity_gate_is_trading_hours_witness:
  "sv_blocking_status (session_verdict_for_asset_class AC_EQUITY
     (evaluate_equity default_equity_settings us_equity_calendar summer_zone
       (from_new_york summer_zone (at_minute (day_of 2026 11 27) 779))) (evaluate_crypto default_crypto_settings 0)) = None \<and>
   sv_blocking_status (session_verdict_for_asset_class AC_EQUITY
     (evaluate_equity default_equity_settings us_equity_calendar summer_zone
       (from_new_york summer_zone (at_minute (day_of 2026 11 27) 780))) (evaluate_crypto default_crypto_settings 0)) \<noteq> None"
proof -
  let ?st = default_equity_settings and ?cal = us_equity_calendar and ?day = "day_of 2026 11 27"
  have info: "classify_day ?st ?cal ?day = \<lparr>td_day = ?day, td_covered = True, td_is_weekend = False,
      td_holiday_name = None, td_early_close_reason = Some ''Day after Thanksgiving'', td_open = 570,
      td_close = 780\<rparr>" by code_simp
  have wall: "to_new_york summer_zone (from_new_york summer_zone t) = t" for t
    by (simp add: summer_zone_def)
  have date: "date_part (at_minute ?day 779) = ?day" "date_part (at_minute ?day 780) = ?day"
    by code_simp+
  have on: "es_calendar_enabled ?st" "version_matches_config ?st ?cal"
    "\<not> es_premarket_analysis_enabled ?st" "\<not> es_after_hours_analysis_enabled ?st"
    by code_simp+
  show ?thesis
    unfolding equity_gate_is_trading_hours wall date info Let_def
    using on by (simp add: is_trading_day_def at_minute_def minute_us_def)
qed

end
