(* ===== verification/Signal_Context.thy ===== *)
theory Signal_Context
  imports Signal_Engine Signal_Repository Data_Quality Candle_Store Sessions "HOL-Library.Sublist"
begin

text \<open>
  The context of a lifecycle evaluation (\<open>app/signals/lifecycle_context.py\<close>): plan rows, candidate rows,
  stored candles, structure events and the live market data become the snapshots the pure core reads.
  The queries are those of the plan, candle, feature and risk snapshot repositories.  The display texts of
  structure events keep the timeframe and the marker; \<open>data_timestamps\<close>, which nothing reads, is left out.
\<close>

section \<open>Plans\<close>

text \<open>
  A row of \<open>risk_plans\<close>.  Of the payload, the model reference levels: each number is a float, or \<open>None\<close> when
  it is missing or no number.
\<close>

record risk_plan_row =
  rp_id :: uuid
  rp_candidate_id :: uuid
  rp_status :: string
  rp_instrument_pk :: int
  rp_instrument_id :: int
  rp_symbol :: string
  rp_asset_class :: string
  rp_candidate_type :: string
  rp_direction :: string
  rp_entry_zone :: "float64 option list"
  rp_entry_reference :: "float64 option"
  rp_technical_invalidation :: "float64 option"
  rp_entry_basis :: string
  rp_invalidation_basis :: string
  rp_targets :: "float64 option list"
  rp_as_of :: datetime
  rp_expiry_at :: datetime
  rp_created_at :: datetime
  rp_dedupe_key :: string
  rp_strategy_version :: string
  rp_risk_model_version :: string
  rp_cost_model_version :: string
  rp_fee_schedule_version :: string
  rp_risk_config_hash :: string
  rp_cost_config_hash :: string

definition basis_or_unknown :: "string \<Rightarrow> string" where
  "basis_or_unknown b = (if b = [] then ''UNKNOWN'' else b)"

definition plan_snapshot_from_record :: "risk_plan_row \<Rightarrow> plan_snapshot option" where
  "plan_snapshot_from_record r =
     (case (rp_entry_zone r, rp_entry_reference r, rp_technical_invalidation r) of
        (Some low # Some high # _, Some reference, Some invalidation) \<Rightarrow>
          Some \<lparr>ps_plan_id = rp_id r, ps_candidate_id = rp_candidate_id r, ps_status = rp_status r,
            ps_instrument_pk = rp_instrument_pk r, ps_instrument_id = rp_instrument_id r,
            ps_symbol = rp_symbol r, ps_asset_class = rp_asset_class r,
            ps_candidate_type = rp_candidate_type r, ps_direction = rp_direction r,
            ps_entry_low = low, ps_entry_high = high, ps_entry_reference_price = reference,
            ps_entry_basis = basis_or_unknown (rp_entry_basis r), ps_invalidation_price = invalidation,
            ps_invalidation_basis = basis_or_unknown (rp_invalidation_basis r),
            ps_target_prices = List.map_filter (\<lambda>x. x) (rp_targets r),
            ps_as_of = rp_as_of r, ps_expiry_at = rp_expiry_at r, ps_dedupe_key = rp_dedupe_key r,
            ps_strategy_version = rp_strategy_version r,
            ps_risk_model_version = rp_risk_model_version r,
            ps_cost_model_version = rp_cost_model_version r,
            ps_fee_schedule_version = rp_fee_schedule_version r,
            ps_risk_config_hash = rp_risk_config_hash r, ps_cost_config_hash = rp_cost_config_hash r\<rparr>
      | _ \<Rightarrow> None)"

definition active_plans :: "risk_plan_row list \<Rightarrow> risk_plan_row list" where
  "active_plans rows = sort_key rp_created_at (filter (\<lambda>r. rp_status r = ''ELIGIBLE'') rows)"

definition plans_for_candidate :: "uuid \<Rightarrow> risk_plan_row list \<Rightarrow> risk_plan_row list" where
  "plans_for_candidate c rows = sort_key rp_created_at (filter (\<lambda>r. rp_candidate_id r = c) rows)"

definition superseding_plan :: "uuid \<Rightarrow> datetime option \<Rightarrow> risk_plan_row list \<Rightarrow> uuid option" where
  "superseding_plan own own_created rows =
     fold (\<lambda>r found.
         if rp_id r = own \<or> rp_status r \<noteq> ''ELIGIBLE'' then found
         else case own_created of None \<Rightarrow> Some (rp_id r)
              | Some c \<Rightarrow> if c \<le> rp_created_at r then Some (rp_id r) else found) rows None"

definition plan_relations ::
  "risk_plan_row list \<Rightarrow> signal_snapshot \<Rightarrow> plan_snapshot option \<times> uuid option" where
  "plan_relations plans sg =
     (let rows = plans_for_candidate (sg_candidate_id sg) plans;
          own = find (\<lambda>r. rp_id r = sg_plan_id sg) rows in
      (Option.bind own plan_snapshot_from_record,
       superseding_plan (sg_plan_id sg) (map_option rp_created_at own) rows))"

section \<open>Candidates, structure and risk snapshots\<close>

record candidate_row =
  cw_id :: uuid
  cw_state :: string
  cw_expiry_at :: "datetime option"
  cw_as_of :: "datetime option"

definition candidate_state :: "candidate_row list \<Rightarrow> uuid \<Rightarrow> candidate_state_snapshot option" where
  "candidate_state rows c = map_option (\<lambda>r. \<lparr>cs_candidate_id = cw_id r, cs_state = cw_state r,
     cs_expiry_at = cw_expiry_at r, cs_as_of = cw_as_of r\<rparr>) (find (\<lambda>r. cw_id r = c) rows)"

record structure_row =
  sx_id :: int
  sx_instrument_pk :: int
  sx_timeframe :: string
  sx_event_type :: string
  sx_confirm_close_time :: datetime
  sx_detail :: "string option"

definition structure_events_since :: "int \<Rightarrow> datetime \<Rightarrow> nat \<Rightarrow> structure_row list \<Rightarrow> structure_row list" where
  "structure_events_since pk since limit rows =
     take limit (sort_key (\<lambda>r. - sx_confirm_close_time r) (sort_key (\<lambda>r. - sx_id r)
       (filter (\<lambda>r. sx_instrument_pk r = pk \<and> since \<le> sx_confirm_close_time r) rows)))"

definition opposing_structure_events :: "structure_row list \<Rightarrow> signal_snapshot \<Rightarrow> string list" where
  "opposing_structure_events rows sg =
     (case sg_entry_confirmed_at sg of None \<Rightarrow> []
      | Some anchor \<Rightarrow>
          let marker = (if bullish sg then ''bearish ChoCh'' else ''bullish ChoCh'') in
          take 5 (map (\<lambda>r. sx_timeframe r @ '' '' @ marker)
            (filter (\<lambda>r. sx_event_type r = ''CHANGE_OF_CHARACTER'' \<and>
               (case sx_detail r of None \<Rightarrow> False | Some d \<Rightarrow> d \<noteq> [] \<and> sublist marker d))
              (structure_events_since (sg_instrument_pk sg) anchor 50 rows))))"

record risk_snapshot_row =
  sr_instrument_pk :: int
  sr_as_of :: datetime
  sr_created_at :: datetime

definition latest_risk_snapshot :: "int \<Rightarrow> risk_snapshot_row list \<Rightarrow> risk_snapshot_row option" where
  "latest_risk_snapshot pk rows =
     (case sort_key (\<lambda>r. - sr_as_of r) (sort_key (\<lambda>r. - sr_created_at r)
         (filter (\<lambda>r. sr_instrument_pk r = pk) rows)) of [] \<Rightarrow> None | r # _ \<Rightarrow> Some r)"

definition instrument_snapshot_age_seconds ::
  "risk_snapshot_row list \<Rightarrow> int \<Rightarrow> datetime \<Rightarrow> float64 option" where
  "instrument_snapshot_age_seconds rows pk as_of =
     map_option (\<lambda>r. max 0 (total_seconds (as_of - sr_as_of r))) (latest_risk_snapshot pk rows)"

section \<open>The live market\<close>

definition candle_window :: timedelta where
  "candle_window = 45 * 60 * 1000000"

definition candle_duration :: timedelta where
  "candle_duration = 1000 * timeframe_ms M5"

text \<open>The last candle of the window that closed by \<open>as_of\<close>: close, low, high and close time.\<close>

definition last_closed_5m ::
  "candle_row list \<Rightarrow> int \<Rightarrow> datetime \<Rightarrow> (float64 \<times> float64 \<times> float64 \<times> datetime) option" where
  "last_closed_5m rows pk as_of =
     map_option (\<lambda>r. let c = cr_candle r in
         (fl (cd_close c), fl (cd_low c), fl (cd_high c), cd_open_time c + candle_duration))
       (find (\<lambda>r. cd_open_time (cr_candle r) + candle_duration \<le> as_of)
         (rev (get_range pk M5 (as_of - candle_window) (as_of + 1000000) rows)))"

fun quality_value :: "instrument_quality_status \<Rightarrow> string" where
  "quality_value Q_HEALTHY = ''HEALTHY''"
| "quality_value Q_DEGRADED = ''DEGRADED''"
| "quality_value Q_DATA_STALE = ''DATA_STALE''"
| "quality_value Q_DATA_INVALID = ''DATA_INVALID''"
| "quality_value Q_ORDERBOOK_RESYNCING = ''ORDERBOOK_RESYNCING''"
| "quality_value Q_UNAVAILABLE = ''UNAVAILABLE''"

text \<open>The adapters the builder was given; each may be missing.\<close>

record adapters =
  da_market_data :: bool
  da_data_quality :: bool
  da_books :: bool

definition fresh_enough :: "freshness_status \<Rightarrow> bool" where
  "fresh_enough f \<longleftrightarrow> f = FRESH \<or> f = AGING"

text \<open>A freshness query that is made only when \<open>wanted\<close>, as \<open>and\<close> evaluates its operands.\<close>

definition ask_freshness ::
  "bool \<Rightarrow> quality_env \<Rightarrow> int \<Rightarrow> channel \<Rightarrow> market_state \<Rightarrow> bool \<times> market_state" where
  "ask_freshness wanted env i ch s =
     (if wanted then let (f, s') = channel_freshness env i ch s in (fresh_enough f, s') else (False, s))"

text \<open>
  The part of \<open>market_state\<close> before the candle is read, with the candle's fields still empty; and the
  snapshot once the candle is there.
\<close>

definition live_market_state ::
  "signal_settings \<Rightarrow> adapters \<Rightarrow> quality_env \<Rightarrow> int \<Rightarrow> market_state \<Rightarrow>
     market_state_snapshot \<times> market_state" where
  "live_market_state st ad env i s =
     (let tracker = (if da_market_data ad then map_of (ms_trackers s) i else None);
          bbo = Option.bind tracker it_last_bbo;
          (bbo_fresh, s1) = ask_freshness (bbo \<noteq> None \<and> da_data_quality ad) env i BBO s;
          s2 = (if da_books ad then s1\<lparr>ms_books := ensure_book i (ms_books s1)\<rparr> else s1);
          book = book_of (ms_books s2) i;
          (book_fresh, s3) =
            ask_freshness (da_books ad \<and> reliable book \<and> da_data_quality ad) env i ORDERBOOK s2;
          (report, s4) = (if da_data_quality ad
            then let (r, s') = evaluate_quality env i s3 in (Some r, s') else (None, s3)) in
      (\<lparr>mk_mark_price = map_option fl (Option.bind tracker it_last_mark_price),
        mk_best_bid = map_option (\<lambda>b. fl (bb_bid_price b)) bbo,
        mk_best_ask = map_option (\<lambda>b. fl (bb_ask_price b)) bbo,
        mk_bbo_fresh = bbo_fresh, mk_book_fresh = book_fresh,
        mk_book_resyncing = (da_books ad \<and> ob_needs_resync book),
        mk_last_closed_5m_close = None, mk_last_closed_5m_low = None,
        mk_last_closed_5m_high = None, mk_last_closed_5m_close_time = None,
        mk_data_quality_status = (case report of None \<Rightarrow> ''UNKNOWN'' | Some r \<Rightarrow> quality_value (qr_status r)),
        mk_data_quality_ok = (case report of None \<Rightarrow> False
          | Some r \<Rightarrow> qr_status r = Q_HEALTHY \<or>
              (qr_status r = Q_DEGRADED \<and> lifecycle_allow_degraded_data st)),
        mk_snapshot_at = map_option (\<lambda>b. ms_to_utc (bb_ts_ms b)) bbo\<rparr>, s4))"

definition with_candle ::
  "(float64 \<times> float64 \<times> float64 \<times> datetime) option \<Rightarrow> market_state_snapshot \<Rightarrow>
     market_state_snapshot" where
  "with_candle candle mk =
     (case candle of None \<Rightarrow> mk
      | Some (c, l, h, t) \<Rightarrow>
          mk\<lparr>mk_last_closed_5m_close := Some c, mk_last_closed_5m_low := Some l,
             mk_last_closed_5m_high := Some h, mk_last_closed_5m_close_time := Some t,
             mk_snapshot_at := (if mk_snapshot_at mk = None then Some t else mk_snapshot_at mk)\<rparr>)"

section \<open>The whole context\<close>

text \<open>The tables the builder reads besides the lifecycle tables, and what the cycle hands in.\<close>

record lifecycle_sources =
  so_plans :: "risk_plan_row list"
  so_candidates :: "candidate_row list"
  so_candles :: "candle_row list"
  so_structure :: "structure_row list"
  so_risk_snapshots :: "risk_snapshot_row list"

record watch_entry =
  we_session_state :: string
  we_session_allowed :: bool
  we_quality_score :: "int option"

definition session_of :: "watch_entry option \<Rightarrow> string \<times> bool \<times> bool \<times> int option" where
  "session_of e = (case e of None \<Rightarrow> (''UNKNOWN'', False, False, None)
     | Some w \<Rightarrow> (we_session_state w, we_session_allowed w, True, we_quality_score w))"

definition monitor_context_of ::
  "signal_snapshot \<Rightarrow> plan_snapshot option \<times> uuid option \<Rightarrow> candidate_state_snapshot option \<Rightarrow>
     market_state_snapshot \<Rightarrow> string list \<Rightarrow> watch_entry option \<Rightarrow> bool \<Rightarrow> datetime \<Rightarrow> monitor_context" where
  "monitor_context_of sg relations candidate market opposing entry paused as_of =
     (let (plan, superseding) = relations;
          (session_state, session_allowed, active, score) = session_of entry in
      \<lparr>mc_signal = sg, mc_plan = plan, mc_candidate = candidate, mc_market = market,
       mc_session_state = session_state, mc_session_allowed = session_allowed,
       mc_watchlist_active = active, mc_market_quality_score = score, mc_bot_paused = paused,
       mc_opposing_structure_events = opposing, mc_superseding_plan_id = superseding,
       mc_as_of = as_of\<rparr>)"

section \<open>The watchlist of a cycle\<close>

text \<open>An entry of \<open>market_watchlist_entries\<close> and the snapshots the selection coordinator holds.\<close>

record watchlist_row =
  wl_instrument_pk :: int
  wl_asset_class :: string
  wl_state :: string
  wl_quality_score :: "int option"

record selection_view =
  sl_rows :: "watchlist_row list option" \<comment> \<open>\<open>None\<close>: the load failed\<close>
  sl_equity :: "equity_snapshot option"
  sl_crypto :: "crypto_snapshot option"

definition active_watchlist_rows :: "selection_view \<Rightarrow> watchlist_row list" where
  "active_watchlist_rows v = (case sl_rows v of None \<Rightarrow> []
     | Some rows \<Rightarrow> filter (\<lambda>r. wl_state r = ''WATCHLIST_ACTIVE'') rows)"

definition watch_entry_of :: "selection_view \<Rightarrow> watchlist_row \<Rightarrow> watch_entry" where
  "watch_entry_of v r =
     (case (sl_equity v, sl_crypto v, asset_class_of (wl_asset_class r)) of
        (Some e, Some c, Some ac) \<Rightarrow>
          let verdict = session_verdict_for_asset_class ac e c in
          \<lparr>we_session_state = sv_session_state verdict,
           we_session_allowed = (sv_blocking_status verdict = None),
           we_quality_score = wl_quality_score r\<rparr>
      | _ \<Rightarrow> \<lparr>we_session_state = ''UNKNOWN'', we_session_allowed = False,
              we_quality_score = wl_quality_score r\<rparr>)"

text \<open>A dictionary by instrument; later rows overwrite earlier ones.\<close>

definition watchlist_entries :: "selection_view option \<Rightarrow> (int \<times> watch_entry) list" where
  "watchlist_entries sel =
     (case sel of None \<Rightarrow> []
      | Some v \<Rightarrow> fold (\<lambda>r. AList.update (wl_instrument_pk r) (watch_entry_of v r))
                    (active_watchlist_rows v) [])"

section \<open>What the market looks like\<close>

lemma ask_freshness_view: "same_view env (snd (ask_freshness wanted env i ch s)) s"
  using channel_freshness_view [of env i ch s]
  by (auto simp: ask_freshness_def split: prod.split)

definition usable :: "signal_settings \<Rightarrow> instrument_quality_status \<Rightarrow> bool" where
  "usable st q \<longleftrightarrow> q = Q_HEALTHY \<or> q = Q_DEGRADED \<and> lifecycle_allow_degraded_data st"

text \<open>
  Looking at the market only prunes, so a later evaluation sees the same; and the status in the snapshot
  is that of an evaluation of the state it started from.
\<close>

lemma live_market_view: "same_view env (snd (live_market_state st ad env i s)) s"
  and live_market_ok: "mk_data_quality_ok (fst (live_market_state st ad env i s)) \<longleftrightarrow>
     da_data_quality ad \<and> usable st (qr_status (fst (evaluate_quality env i s)))"
proof -
  obtain b s1 where f1: "ask_freshness
      (Option.bind (if da_market_data ad then map_of (ms_trackers s) i else None) it_last_bbo \<noteq> None
        \<and> da_data_quality ad) env i BBO s = (b, s1)" by fastforce
  let ?s2 = "if da_books ad then s1\<lparr>ms_books := ensure_book i (ms_books s1)\<rparr> else s1"
  obtain c s3 where f2: "ask_freshness (da_books ad \<and> reliable (book_of (ms_books ?s2) i) \<and>
      da_data_quality ad) env i ORDERBOOK ?s2 = (c, s3)" by fastforce
  have v1: "same_view env s1 s" using ask_freshness_view f1 by (metis snd_conv)
  have v2: "same_view env ?s2 s1" using ensure_view by simp
  have v3: "same_view env s3 ?s2" using ask_freshness_view f2 by (metis snd_conv)
  have v: "same_view env s3 s" using v1 v2 v3 same_view_trans by metis
  have "snd (live_market_state st ad env i s) = (if da_data_quality ad then snd (evaluate_quality env i s3) else s3)"
    unfolding live_market_state_def Let_def f1 split_conv f2 by (simp split: prod.split)
  with v show "same_view env (snd (live_market_state st ad env i s)) s"
    using evaluate_quality_view [of env i s3] same_view_trans by auto
  show "mk_data_quality_ok (fst (live_market_state st ad env i s)) \<longleftrightarrow>
     da_data_quality ad \<and> usable st (qr_status (fst (evaluate_quality env i s)))"
    using evaluate_quality_cong [OF v, of i]
    unfolding live_market_state_def Let_def f1 split_conv f2
    by (auto simp: usable_def split: prod.split)
qed

lemma with_candle_fields [simp]:
  "mk_data_quality_ok (with_candle c mk) = mk_data_quality_ok mk"
  "mk_book_resyncing (with_candle c mk) = mk_book_resyncing mk"
  by (simp_all add: with_candle_def split: option.split)

end
