(* ===== verification/Signal_Store.thy ===== *)
theory Signal_Store
  imports Signal_Repository
begin

text \<open>
  What the lifecycle tables guarantee under arbitrary interleavings of the workers' calls: the invariant
  of the rows, optimistic locking, exclusive leases, and the event history as the record of every
  transition.  A run is the list of the calls in the order the database serialises them.
\<close>

section \<open>Runs\<close>

datatype db_op =
    Op_Insert db_fault new_signal
  | Op_Apply db_fault uuid int transition_step datetime string
  | Op_Claim uuid string datetime float64
  | Op_Release uuid string
  | Op_Monitor uuid monitoring_fields
  | Op_Update update_payload
  | Op_Reject signal_rejection float64

fun exec :: "(string \<Rightarrow> string) \<Rightarrow> string \<Rightarrow> db_op \<Rightarrow> signal_db \<Rightarrow> signal_db" where
  "exec sha schema (Op_Insert fault n) db = snd (insert_new sha fault n schema db)"
| "exec sha schema (Op_Apply fault i v step t corr) db =
     snd (apply_transition fault i v step (build_transition_event sha i step v schema t corr) t db)"
| "exec sha schema (Op_Claim i owner now lease) db = snd (claim i owner now lease db)"
| "exec sha schema (Op_Release i owner) db = release i owner db"
| "exec sha schema (Op_Monitor i m) db = update_monitoring_fields i m db"
| "exec sha schema (Op_Update u) db = snd (add_update u db)"
| "exec sha schema (Op_Reject rj w) db = snd (record_rejection rj w db)"

definition run :: "(string \<Rightarrow> string) \<Rightarrow> string \<Rightarrow> db_op list \<Rightarrow> signal_db \<Rightarrow> signal_db" where
  "run sha schema ops db = fold (exec sha schema) ops db"

lemma run_simps [simp]:
  "run sha schema [] db = db"
  "run sha schema (op # ops) db = run sha schema ops (exec sha schema op db)"
  "run sha schema (ops @ ops') db = run sha schema ops' (run sha schema ops db)"
  by (simp_all add: run_def)

text \<open>What the callers hand in: fresh instances start watching, and every step follows the map.\<close>

fun legal_op :: "db_op \<Rightarrow> bool" where
  "legal_op (Op_Insert fault n) \<longleftrightarrow> ns_state n = WATCHING_ENTRY"
| "legal_op (Op_Apply fault i v step t corr) \<longleftrightarrow> ts_to_state step \<in> transitions (ts_from_state step)"
| "legal_op op \<longleftrightarrow> True"

section \<open>The shape of a change\<close>

definition row_move :: "lifecycle_row \<Rightarrow> lifecycle_row \<Rightarrow> bool" where
  "row_move r r' \<longleftrightarrow> lr_new r' = lr_new r \<and> lr_active_key r' \<in> {lr_active_key r, None} \<and>
     lr_state_version r \<le> lr_state_version r'"

lemma insert_events_signals [simp]: "insert_events es db = Some db' \<Longrightarrow> db_signals db' = db_signals db"
  by (auto simp: insert_events_def split: if_splits)

lemma insert_new_signals:
  "db_signals (snd (insert_new sha fault n schema db)) = db_signals db \<or>
   (\<not> list_ex (row_conflicts (new_row n)) (db_signals db) \<and>
    db_signals (snd (insert_new sha fault n schema db)) = db_signals db @ [new_row n])"
  by (auto simp: insert_new_def insert_row_def split: option.splits)

lemma apply_transition_signals:
  "db_signals (snd (apply_transition fault i v step e t db)) =
     (if fault = Fails_First then db_signals db
      else update_where (locked_row i v step) (transition_row v step t) (db_signals db))"
  by (auto simp: apply_transition_def Let_def split: option.splits)

lemma exec_signals:
  "(\<exists>n. \<not> list_ex (row_conflicts (new_row n)) (db_signals db) \<and>
       db_signals (exec sha schema op db) = db_signals db @ [new_row n]) \<or>
   (\<exists>c f. (\<forall>r. c r \<longrightarrow> row_move r (f r)) \<and>
       db_signals (exec sha schema op db) = update_where c f (db_signals db))"
proof -
  have same: "\<exists>c f. (\<forall>r. c r \<longrightarrow> row_move r (f r)) \<and> rs = update_where c f rs" for rs
    by (rule exI [of _ "\<lambda>r. False"], rule exI [of _ "\<lambda>r. r"]) (simp add: update_where_def)
  have upd: "\<exists>c' f'. (\<forall>r. c' r \<longrightarrow> row_move r (f' r)) \<and> update_where c f rs = update_where c' f' rs"
    if "\<And>r. c r \<Longrightarrow> row_move r (f r)" for c f rs
    using that by blast
  show ?thesis
  proof (cases op)
    case (Op_Insert fault n)
    then show ?thesis using insert_new_signals [of sha fault n schema db] same by fastforce
  next
    case (Op_Apply fault i v step t corr)
    have "locked_row i v step r \<Longrightarrow> row_move r (transition_row v step t r)" for r
      by (simp add: row_move_def locked_row_def transition_row_def Let_def)
    then show ?thesis using Op_Apply same upd by (simp add: apply_transition_signals)
  next
    case (Op_Claim i owner now lease)
    then show ?thesis by (simp add: claim_def) (intro disjI2 upd, simp add: row_move_def)
  next
    case (Op_Release i owner)
    then show ?thesis by (simp add: release_def) (intro disjI2 upd, simp add: row_move_def)
  next
    case (Op_Monitor i m)
    then show ?thesis
      by (simp add: update_monitoring_fields_def)
        (intro disjI2 upd, simp add: monitored_row_def row_move_def)
  qed (use same in \<open>auto simp: add_update_def record_rejection_def Let_def\<close>)
qed

section \<open>Rows\<close>

definition distinct_keys :: "signal_db \<Rightarrow> bool" where
  "distinct_keys db \<longleftrightarrow> distinct (map lr_id (db_signals db)) \<and>
     distinct (List.map_filter lr_active_key (db_signals db))"

lemma set_map_filter_iff: "y \<in> set (List.map_filter g xs) \<longleftrightarrow> (\<exists>x \<in> set xs. g x = Some y)"
  by (force simp: List.map_filter_def)

lemma map_filter_Cons: "List.map_filter g (x # xs) =
    (case g x of None \<Rightarrow> List.map_filter g xs | Some y \<Rightarrow> y # List.map_filter g xs)"
  by (simp add: List.map_filter_def split: option.split)

lemma distinct_active_update:
  assumes "\<And>r. c r \<Longrightarrow> g (f r) \<in> {g r, None}"
  shows "set (List.map_filter g (update_where c f rs)) \<subseteq> set (List.map_filter g rs) \<and>
    (distinct (List.map_filter g rs) \<longrightarrow> distinct (List.map_filter g (update_where c f rs)))"
proof (induction rs)
  case (Cons r rs)
  then show ?case
    using assms [of r] by (cases "g r"; cases "c r") (auto simp: map_filter_Cons split: option.splits)
qed (simp add: List.map_filter_def)

lemma exec_distinct_keys:
  assumes "distinct_keys db"
  shows "distinct_keys (exec sha schema op db)"
  using exec_signals [of db sha schema op]
proof (elim disjE exE conjE)
  fix n assume new: "\<not> list_ex (row_conflicts (new_row n)) (db_signals db)"
    "db_signals (exec sha schema op db) = db_signals db @ [new_row n]"
  have "ns_dedupe_key n \<notin> set (List.map_filter lr_active_key (db_signals db))"
    using new(1) by (auto simp: list_ex_iff row_conflicts_def new_row_def set_map_filter_iff)
  moreover have "lr_id (new_row n) \<notin> set (map lr_id (db_signals db))"
    using new(1) by (auto simp: list_ex_iff row_conflicts_def)
  moreover have "List.map_filter lr_active_key (db_signals db @ [new_row n])
      = List.map_filter lr_active_key (db_signals db) @ [ns_dedupe_key n]"
    by (simp add: List.map_filter_def new_row_def)
  ultimately show ?thesis using assms new(2) by (simp add: distinct_keys_def)
next
  fix c f assume f: "\<forall>r. c r \<longrightarrow> row_move r (f r)"
    "db_signals (exec sha schema op db) = update_where c f (db_signals db)"
  have "map lr_id (update_where c f (db_signals db)) = map lr_id (db_signals db)"
    using f(1) by (intro map_update_where) (simp add: row_move_def lr_id_def)
  moreover have "lr_active_key (f r) \<in> {lr_active_key r, None}" if "c r" for r
    using that f(1) by (auto simp: row_move_def)
  ultimately show ?thesis
    using assms f(2) distinct_active_update [of c lr_active_key f "db_signals db"]
    by (simp add: distinct_keys_def)
qed

lemma empty_distinct_keys [simp]: "distinct_keys empty_db"
  by (simp add: distinct_keys_def empty_db_def List.map_filter_def)

lemma run_distinct_keys: "distinct_keys db \<Longrightarrow> distinct_keys (run sha schema ops db)"
  by (induction ops arbitrary: db) (auto intro: exec_distinct_keys)

text \<open>The fields of a row agree with its state.\<close>

definition row_ok :: "lifecycle_row \<Rightarrow> bool" where
  "row_ok r \<longleftrightarrow> 2 \<le> lr_state_version r \<and> lr_state r \<notin> {DRAFT, PENDING_ADMISSION} \<and>
     lr_active_key r = (if is_terminal (lr_state r) then None else Some (lr_dedupe_key r)) \<and>
     (lr_terminal_at r = None \<longleftrightarrow> \<not> is_terminal (lr_state r)) \<and>
     (is_post_entry (lr_state r) \<longrightarrow> lr_entry_confirmed_at r \<noteq> None) \<and>
     (lr_lease_owner r = None \<longleftrightarrow> lr_lease_expires_at r = None)"

lemma new_row_ok: "ns_state n = WATCHING_ENTRY \<Longrightarrow> row_ok (new_row n)"
  by (simp add: row_ok_def new_row_def lr_dedupe_key_def is_terminal_def terminal_states_def
      is_post_entry_def post_entry_states_def)

lemma post_entry_predecessor:
  "t \<in> transitions s \<Longrightarrow> is_post_entry t \<Longrightarrow> t = ENTRY_CONFIRMED \<or> is_post_entry s"
  and terminal_no_successor: "t \<in> transitions s \<Longrightarrow> \<not> is_terminal s"
  and no_return_to_start: "t \<in> transitions s \<Longrightarrow> s \<notin> {DRAFT, PENDING_ADMISSION} \<Longrightarrow>
    t \<notin> {DRAFT, PENDING_ADMISSION}"
  by (cases s; auto simp: is_post_entry_def post_entry_states_def is_terminal_def terminal_states_def)+

lemma transition_row_ok:
  assumes "row_ok r" "locked_row i v step r" "ts_to_state step \<in> transitions (ts_from_state step)"
  shows "row_ok (transition_row v step t r)"
proof -
  from assms(2,3) have e: "ts_to_state step \<in> transitions (lr_state r)"
    and v: "v = lr_state_version r" by (auto simp: locked_row_def)
  note post_entry_predecessor [OF e] terminal_no_successor [OF e] no_return_to_start [OF e]
  with assms(1) v show ?thesis
    by (auto simp: row_ok_def transition_row_def lr_dedupe_key_def Let_def)
qed

lemma rows_ok_update:
  "\<forall>r \<in> set rs. row_ok r \<Longrightarrow> (\<And>r. c r \<Longrightarrow> row_ok r \<Longrightarrow> row_ok (f r)) \<Longrightarrow>
     \<forall>r \<in> set (update_where c f rs). row_ok r"
  by (auto simp: set_update_where)

lemma row_ok_fields:
  "row_ok r \<Longrightarrow> row_ok (r\<lparr>lr_lease_owner := Some x, lr_lease_expires_at := Some y\<rparr>)"
  "row_ok r \<Longrightarrow> row_ok (r\<lparr>lr_lease_owner := None, lr_lease_expires_at := None\<rparr>)"
  "row_ok r \<Longrightarrow> row_ok (monitored_row m r)"
  by (simp_all add: row_ok_def monitored_row_def lr_dedupe_key_def)

lemma exec_rows_ok:
  assumes "legal_op op" "\<forall>r \<in> set (db_signals db). row_ok r"
  shows "\<forall>r \<in> set (db_signals (exec sha schema op db)). row_ok r"
proof (cases op)
  case (Op_Insert fault n)
  then show ?thesis
    using assms insert_new_signals [of sha fault n schema db] new_row_ok [of n] by auto
next
  case (Op_Apply fault i v step t corr)
  then show ?thesis
    using assms transition_row_ok
      rows_ok_update [OF assms(2), of "locked_row i v step" "transition_row v step t"]
    by (auto simp: apply_transition_signals)
next
  case (Op_Claim i owner now lease)
  then show ?thesis by (simp add: claim_def) (intro rows_ok_update [OF assms(2)] row_ok_fields)
next
  case (Op_Release i owner)
  then show ?thesis by (simp add: release_def) (intro rows_ok_update [OF assms(2)] row_ok_fields)
next
  case (Op_Monitor i m)
  then show ?thesis
    by (simp add: update_monitoring_fields_def) (intro rows_ok_update [OF assms(2)] row_ok_fields)
qed (use assms(2) in \<open>auto simp: add_update_def record_rejection_def Let_def\<close>)

lemma run_rows_ok:
  "\<forall>op \<in> set ops. legal_op op \<Longrightarrow> \<forall>r \<in> set (db_signals db). row_ok r \<Longrightarrow>
     \<forall>r \<in> set (db_signals (run sha schema ops db)). row_ok r"
  by (induction ops arbitrary: db) (auto dest!: exec_rows_ok)

section \<open>Optimistic locking\<close>

text \<open>
  A store whose entries carry a version: an operation \<open>takes\<close> an entry at a version only when that is
  its current version, which it then leaves behind for good.
\<close>

locale versioned_store =
  fixes execute :: "'op \<Rightarrow> 'db \<Rightarrow> 'db"
    and version :: "'id \<Rightarrow> 'db \<Rightarrow> int option"
    and takes :: "'op \<Rightarrow> 'db \<Rightarrow> 'id \<Rightarrow> int \<Rightarrow> bool"
    and good :: "'db \<Rightarrow> bool"
  assumes good_execute: "good db \<Longrightarrow> good (execute op db)"
    and takes_current: "good db \<Longrightarrow> takes op db i v \<Longrightarrow> version i db = Some v"
    and takes_advances: "good db \<Longrightarrow> takes op db i v \<Longrightarrow> version i (execute op db) = Some (v + 1)"
    and never_back: "good db \<Longrightarrow> version i db = Some v \<Longrightarrow>
      \<exists>w. version i (execute op db) = Some w \<and> v \<le> w"
begin

lemma good_fold: "good db \<Longrightarrow> good (fold execute ops db)"
  by (induction ops arbitrary: db) (auto intro: good_execute)

lemma version_fold:
  "good db \<Longrightarrow> version i db = Some v \<Longrightarrow> \<exists>w. version i (fold execute ops db) = Some w \<and> v \<le> w"
proof (induction ops arbitrary: db v)
  case (Cons op ops)
  from never_back [OF Cons.prems] obtain w where w: "version i (execute op db) = Some w" "v \<le> w"
    by blast
  from Cons.IH [OF good_execute [OF Cons.prems(1)] w(1)] w(2) show ?case by fastforce
qed auto

text \<open>A version is taken at most once, whatever runs in between.\<close>

lemma takes_once:
  assumes "good db" "takes op db i v"
  shows "\<not> takes op' (fold execute ops (execute op db)) i v"
proof
  let ?db = "fold execute ops (execute op db)"
  assume t: "takes op' ?db i v"
  have "good ?db" using assms(1) good_fold good_execute by blast
  then have "version i ?db = Some v" using takes_current t by blast
  moreover obtain w where "version i ?db = Some w" "v + 1 \<le> w"
    using version_fold [OF good_execute [OF assms(1)] takes_advances [OF assms]] by blast
  ultimately show False by simp
qed

end

definition row_version :: "uuid \<Rightarrow> signal_db \<Rightarrow> int option" where
  "row_version i db = map_option lr_state_version (get_signal i db)"

text \<open>A transition call that gets past the row update, whether or not its event was recorded.\<close>

fun takes_version :: "db_op \<Rightarrow> signal_db \<Rightarrow> uuid \<Rightarrow> int \<Rightarrow> bool" where
  "takes_version (Op_Apply fault j v step t corr) db i w \<longleftrightarrow>
     fault \<noteq> Fails_First \<and> i = j \<and> v = w \<and> 0 < row_count (locked_row j v step) (db_signals db)"
| "takes_version op db i w \<longleftrightarrow> False"

lemma find_unique:
  "distinct (map k xs) \<Longrightarrow> x \<in> set xs \<Longrightarrow> find (\<lambda>y. k y = k x) xs = Some x"
  by (induction xs) auto

lemma get_signal_iff:
  "distinct_keys db \<Longrightarrow> get_signal i db = Some r \<longleftrightarrow> r \<in> set (db_signals db) \<and> lr_id r = i"
  using find_unique [of lr_id "db_signals db" r]
  by (auto simp: distinct_keys_def get_signal_def dest: find_Some_in)

lemma get_signal_exec:
  assumes "distinct_keys db" "get_signal i db = Some r"
  shows "\<exists>r'. get_signal i (exec sha schema op db) = Some r' \<and> lr_new r' = lr_new r \<and>
           lr_state_version r \<le> lr_state_version r'"
proof -
  have r: "r \<in> set (db_signals db)" "lr_id r = i" using assms get_signal_iff by auto
  have "\<exists>r' \<in> set (db_signals (exec sha schema op db)). lr_new r' = lr_new r \<and>
          lr_state_version r \<le> lr_state_version r'"
    using exec_signals [of db sha schema op]
  proof (elim disjE exE conjE)
    fix c f assume f: "\<forall>r. c r \<longrightarrow> row_move r (f r)"
      "db_signals (exec sha schema op db) = update_where c f (db_signals db)"
    then show ?thesis
      using updated_in [OF r(1), of c f]
      by (intro bexI [of _ "if c r then f r else r"]) (auto simp: row_move_def)
  qed (use r(1) in auto)
  then show ?thesis
    using r(2) get_signal_iff [OF exec_distinct_keys [OF assms(1)]] by (fastforce simp: lr_id_def)
qed

lemma takes_version_signal:
  assumes "distinct_keys db" "takes_version op db i v"
  obtains fault step t corr r where "op = Op_Apply fault i v step t corr" "fault \<noteq> Fails_First"
    "get_signal i db = Some r" "locked_row i v step r"
    "get_signal i (exec sha schema op db) = Some (transition_row v step t r)"
proof -
  obtain fault step t corr where op: "op = Op_Apply fault i v step t corr" "fault \<noteq> Fails_First"
    and n: "0 < row_count (locked_row i v step) (db_signals db)"
    using assms(2) by (cases op) auto
  obtain r where r: "r \<in> set (db_signals db)" "locked_row i v step r"
    using n by (auto simp: row_count_pos)
  then have g: "get_signal i db = Some r" using get_signal_iff [OF assms(1)] by (auto simp: locked_row_def)
  have "transition_row v step t r \<in> set (db_signals (exec sha schema op db))"
    using op r by (auto simp: apply_transition_signals set_update_where)
  moreover have "lr_id (transition_row v step t r) = i"
    using r(2) by (simp add: transition_row_def locked_row_def lr_id_def Let_def)
  ultimately show ?thesis
    using that op r(2) g get_signal_iff [OF exec_distinct_keys [OF assms(1)]] by blast
qed

interpretation lifecycle_store: versioned_store "exec sha schema" row_version takes_version distinct_keys
  for sha schema
proof (unfold_locales, goal_cases)
  case (1 db op)
  then show ?case by (rule exec_distinct_keys)
next
  case (2 db op i v)
  then show ?case
    by (auto elim!: takes_version_signal [where sha = sha and schema = schema]
        simp: row_version_def locked_row_def)
next
  case (3 db op i v)
  then show ?case
    by (auto elim!: takes_version_signal [where sha = sha and schema = schema]
        simp: row_version_def transition_row_def Let_def)
next
  case (4 db i v op)
  then show ?case
    using get_signal_exec [of db i _ sha schema op] by (fastforce simp: row_version_def)
qed

lemma applied_takes:
  assumes "fst (apply_transition fault i v step e t db) = APPLIED"
  shows "takes_version (Op_Apply fault i v step t corr) db i v"
  using assms by (auto simp: apply_transition_def Let_def split: if_splits option.splits)

section \<open>Leases\<close>

text \<open>A store of leases: who holds an entry until when, and which operations leave the holder alone.\<close>

locale lease_store =
  fixes execute :: "'op \<Rightarrow> 'db \<Rightarrow> 'db"
    and lease :: "'id \<Rightarrow> 'db \<Rightarrow> ('owner \<times> datetime) option"
    and spares :: "'id \<Rightarrow> 'owner \<Rightarrow> datetime \<Rightarrow> 'op \<Rightarrow> bool"
    and good :: "'db \<Rightarrow> bool"
  assumes good_execute: "good db \<Longrightarrow> good (execute op db)"
    and lease_kept: "good db \<Longrightarrow> lease i db = Some (w, e) \<Longrightarrow> e0 \<le> e \<Longrightarrow> spares i w e0 op \<Longrightarrow>
      \<exists>e'. lease i (execute op db) = Some (w, e') \<and> e0 \<le> e'"
begin

lemma lease_held:
  "good db \<Longrightarrow> lease i db = Some (w, e) \<Longrightarrow> e0 \<le> e \<Longrightarrow> \<forall>op \<in> set ops. spares i w e0 op \<Longrightarrow>
     good (fold execute ops db) \<and> (\<exists>e'. lease i (fold execute ops db) = Some (w, e') \<and> e0 \<le> e')"
proof (induction ops arbitrary: db e)
  case (Cons op ops)
  from lease_kept [OF Cons.prems(1-3), of op] Cons.prems(4) obtain e'
    where "lease i (execute op db) = Some (w, e')" "e0 \<le> e'" by auto
  with Cons.IH [OF good_execute [OF Cons.prems(1)]] Cons.prems(4) show ?case by auto
qed auto

end

definition row_lease :: "uuid \<Rightarrow> signal_db \<Rightarrow> (string \<times> datetime) option" where
  "row_lease i db = (case get_signal i db of None \<Rightarrow> None
     | Some r \<Rightarrow> (case (lr_lease_owner r, lr_lease_expires_at r) of
         (Some w, Some e) \<Rightarrow> Some (w, e) | _ \<Rightarrow> None))"

text \<open>
  Every call except a release by the holder itself, a renewal that would shorten the lease and a claim
  by another worker whose clock is already past the lease.
\<close>

fun spares_lease :: "uuid \<Rightarrow> string \<Rightarrow> datetime \<Rightarrow> db_op \<Rightarrow> bool" where
  "spares_lease i w e (Op_Claim j owner now secs) \<longleftrightarrow>
     j \<noteq> i \<or> (if owner = w then e \<le> now + timedelta_seconds secs else now \<le> e)"
| "spares_lease i w e (Op_Release j owner) \<longleftrightarrow> j \<noteq> i \<or> owner \<noteq> w"
| "spares_lease i w e op \<longleftrightarrow> True"

lemma row_lease_iff:
  "distinct_keys db \<Longrightarrow> row_lease i db = Some (w, e) \<longleftrightarrow>
     (\<exists>r \<in> set (db_signals db). lr_id r = i \<and> lr_lease_owner r = Some w \<and>
        lr_lease_expires_at r = Some e)"
  using get_signal_iff [of db i]
  by (auto simp: row_lease_def split: option.splits) (metis option.inject option.distinct(1))+

lemma exec_lease_kept:
  assumes "distinct_keys db" "row_lease i db = Some (w, e)" "e0 \<le> e" "spares_lease i w e0 op"
  shows "\<exists>e'. row_lease i (exec sha schema op db) = Some (w, e') \<and> e0 \<le> e'"
proof -
  obtain r where r: "r \<in> set (db_signals db)" "lr_id r = i" "lr_lease_owner r = Some w"
    "lr_lease_expires_at r = Some e" using assms(1,2) row_lease_iff by blast
  let ?held = "\<lambda>r'. lr_id r' = i \<and> lr_lease_owner r' = Some w \<and>
          (\<exists>e'. lr_lease_expires_at r' = Some e' \<and> e0 \<le> e')"
  have upd: "Bex (set (update_where c f (db_signals db))) ?held" if "c r \<Longrightarrow> ?held (f r)" for c f
    using updated_in [OF r(1), of c f] that r assms(3)
    by (intro bexI [of _ "if c r then f r else r"]) auto
  have "Bex (set (db_signals (exec sha schema op db))) ?held"
  proof (cases op)
    case (Op_Insert fault n)
    then show ?thesis using r assms(3) insert_new_signals [of sha fault n schema db] by auto
  next
    case (Op_Apply fault j v step t corr)
    then show ?thesis
      using r assms(3) upd [of "locked_row j v step" "transition_row v step t"]
      by (auto simp: apply_transition_signals transition_row_def lr_id_def Let_def)
  next
    case (Op_Claim j owner now secs)
    then show ?thesis
      using r assms(3,4) by (simp add: claim_def, intro upd) (auto simp: claimable_def lr_id_def split: if_splits)
  next
    case (Op_Release j owner)
    then show ?thesis
      using r assms(3,4) by (simp add: release_def, intro upd) auto
  next
    case (Op_Monitor j m)
    then show ?thesis
      using r assms(3)
      by (simp add: update_monitoring_fields_def, intro upd) (auto simp: monitored_row_def lr_id_def)
  qed (use r assms(3) in \<open>auto simp: add_update_def record_rejection_def Let_def\<close>)
  then show ?thesis using row_lease_iff [OF exec_distinct_keys [OF assms(1)]] by blast
qed

interpretation lifecycle_leases: lease_store "exec sha schema" row_lease spares_lease distinct_keys
  for sha schema
  by unfold_locales (auto intro: exec_distinct_keys exec_lease_kept)

lemma claim_leases:
  assumes "distinct_keys db" "fst (claim i w now secs db)"
  shows "row_lease i (snd (claim i w now secs db)) = Some (w, now + timedelta_seconds secs)"
proof -
  let ?f = "\<lambda>r. r\<lparr>lr_lease_owner := Some w, lr_lease_expires_at := Some (now + timedelta_seconds secs)\<rparr>"
  obtain r where r: "r \<in> set (db_signals db)" "claimable i w now r"
    using assms(2) by (auto simp: claim_def row_count_pos)
  have "?f r \<in> set (db_signals (snd (claim i w now secs db)))"
    using updated_in [OF r(1), of "claimable i w now" ?f] r(2) by (simp add: claim_def)
  moreover have "lr_id (?f r) = i" using r(2) by (simp add: claimable_def lr_id_def)
  moreover have "distinct_keys (snd (claim i w now secs db))"
    using exec_distinct_keys [OF assms(1), of _ _ "Op_Claim i w now secs"] by simp
  ultimately show ?thesis by (subst row_lease_iff) auto
qed

section \<open>Properties\<close>

text \<open>
  C4.  The table is sound in every state any interleaving of legal calls and faults reaches: identifiers
  are unique, at most one live signal exists per dedupe key, and in every row the active key, the terminal
  instant, the entry instant, the version and the lease agree with the state.
\<close>

theorem lifecycle_table_sound:
  assumes "\<forall>op \<in> set ops. legal_op op"
  shows "let rows = db_signals (run sha schema ops empty_db) in
    distinct (map lr_id rows) \<and> (\<forall>r \<in> set rows. row_ok r) \<and>
    (\<forall>r \<in> set rows. \<forall>r' \<in> set rows.
       \<not> is_terminal (lr_state r) \<and> \<not> is_terminal (lr_state r') \<and> lr_dedupe_key r = lr_dedupe_key r'
         \<longrightarrow> r = r')"
proof -
  let ?db = "run sha schema ops empty_db"
  have ok: "\<forall>r \<in> set (db_signals ?db). row_ok r"
    using run_rows_ok [OF assms, of empty_db] by (simp add: empty_db_def)
  have dist: "distinct_keys ?db" by (rule run_distinct_keys) simp
  have inj: "distinct (List.map_filter g rs) \<Longrightarrow> x \<in> set rs \<Longrightarrow> y \<in> set rs \<Longrightarrow>
      g x = Some k \<Longrightarrow> g y = Some k \<Longrightarrow> x = y" for g :: "lifecycle_row \<Rightarrow> string option" and rs x y k
    by (induction rs) (auto simp: map_filter_Cons set_map_filter_iff split: option.splits)
  have "r = r'" if "r \<in> set (db_signals ?db)" "r' \<in> set (db_signals ?db)"
    "\<not> is_terminal (lr_state r)" "\<not> is_terminal (lr_state r')" "lr_dedupe_key r = lr_dedupe_key r'" for r r'
    using that ok dist inj [of lr_active_key "db_signals ?db" r r' "lr_dedupe_key r"]
    by (auto simp: distinct_keys_def row_ok_def)
  with ok dist show ?thesis by (auto simp: Let_def distinct_keys_def)
qed

definition example_new :: new_signal where
  "example_new = \<lparr>ns_signal_id = 7, ns_plan_id = 1, ns_candidate_id = 2, ns_state = WATCHING_ENTRY,
     ns_instrument_pk = 1, ns_instrument_id = 11, ns_symbol = ''BTC-PERP'', ns_asset_class = ''CRYPTO'',
     ns_candidate_type = ''BULLISH_SWEEP_REVERSAL'', ns_direction = ''BULLISH'', ns_entry_low = 100,
     ns_entry_high = 102, ns_entry_reference_price = 101, ns_invalidation_price = 98,
     ns_target_prices = [106, 110], ns_entry_trigger = RECLAIM_LEVEL_CLOSE_CONFIRM,
     ns_expires_at = 3600000000, ns_admission_at = 0, ns_dedupe_key = ''k'',
     ns_correlation_id = ''c'', ns_lifecycle_model_name = ''m'', ns_lifecycle_model_version = ''1'',
     ns_lifecycle_config_hash = ''h'', ns_strategy_version = ''1'', ns_risk_model_version = ''1'',
     ns_cost_model_version = ''1'', ns_fee_schedule_version = ''1'', ns_approximation_warnings = [],
     ns_reference_snapshot = \<lparr>rl_label = [], rl_entry_zone = [100, 102],
       rl_entry_reference_price = 101, rl_entry_basis = ''b'', rl_invalidation_price = 98,
       rl_invalidation_basis = ''b'', rl_target_prices = [106, 110], rl_entry_trigger = [],
       rl_plan_as_of = 0, rl_risk_config_hash = ''h'', rl_cost_config_hash = ''h''\<rparr>\<rparr>"

definition example_entry_step :: transition_step where
  "example_entry_step = \<lparr>ts_from_state = WATCHING_ENTRY, ts_to_state = ENTRY_CONFIRMED,
     ts_event_type = EV_ENTRY_CONFIRMED, ts_reason = Entry_Condition_Confirmed [], ts_priority = 30\<rparr>"

definition example_expiry_step :: transition_step where
  "example_expiry_step = \<lparr>ts_from_state = WATCHING_ENTRY, ts_to_state = EXPIRED,
     ts_event_type = EV_EXPIRED, ts_reason = Expiry_Window_Ended Signal_Expiry_Reached,
     ts_priority = 70\<rparr>"

definition example_ops :: "db_op list" where
  "example_ops = [Op_Insert No_Fault example_new, Op_Claim 7 ''A'' 10 60,
     Op_Apply No_Fault 7 2 example_entry_step 20 ''c'']"

theorem lifecycle_table_sound_witness:
  "list_all row_ok (db_signals (run example_sha ''sev-1'' example_ops empty_db))"
proof -
  have "\<forall>op \<in> set example_ops. legal_op op"
    by (simp add: example_ops_def example_new_def example_entry_step_def)
  from lifecycle_table_sound [OF this, of example_sha "''sev-1''"] show ?thesis
    unfolding Let_def list_all_iff by blast
qed

text \<open>
  C3.  Optimistic locking admits one winner: once a transition computed against version \<open>v\<close> of a signal
  has been applied, no later transition against \<open>v\<close> is applied, whatever calls and faults come between.
\<close>

theorem version_applied_once:
  assumes "fst (apply_transition fault i v step e t (run sha schema ops empty_db)) = APPLIED"
  shows "fst (apply_transition fault' i v step' e' t'
    (run sha schema (ops @ Op_Apply fault i v step t corr # ops') empty_db)) \<noteq> APPLIED"
proof
  let ?db = "run sha schema ops empty_db"
  assume "fst (apply_transition fault' i v step' e' t'
    (run sha schema (ops @ Op_Apply fault i v step t corr # ops') empty_db)) = APPLIED"
  from applied_takes [OF this, of corr] applied_takes [OF assms, of corr]
    lifecycle_store.takes_once [of ?db "Op_Apply fault i v step t corr" i v
      "Op_Apply fault' i v step' t' corr" sha schema ops'] run_distinct_keys [of empty_db]
  show False by (simp add: run_def)
qed

theorem version_applied_once_witness:
  "fst (apply_transition No_Fault 7 2 example_expiry_step
      (build_transition_event example_sha 7 example_expiry_step 2 ''sev-1'' 30 ''c'') 30
      (run example_sha ''sev-1'' example_ops empty_db)) \<noteq> APPLIED"
proof -
  let ?ops = "[Op_Insert No_Fault example_new, Op_Claim 7 ''A'' 10 60]"
  have "fst (apply_transition No_Fault 7 2 example_entry_step
      (build_transition_event example_sha 7 example_entry_step 2 ''sev-1'' 20 ''c'') 20
      (run example_sha ''sev-1'' ?ops empty_db)) = APPLIED" by code_simp
  from version_applied_once [OF this, of No_Fault example_expiry_step
      "build_transition_event example_sha 7 example_expiry_step 2 ''sev-1'' 30 ''c''" 30 "''c''" "[]"]
  show ?thesis by (simp add: example_ops_def)
qed

text \<open>
  C5.  A lease is exclusive: after a worker's successful claim, until it expires, a claim by another worker
  fails, whatever happens in between except the holder's own release or shortening, and claims by
  clocks already past the lease.
\<close>

theorem lease_is_exclusive:
  assumes "fst (claim i w now secs (run sha schema ops empty_db))"
    and "e = now + timedelta_seconds secs"
    and "\<forall>op \<in> set ops'. spares_lease i w e op"
    and "w' \<noteq> w" "now' \<le> e"
  shows "\<not> fst (claim i w' now' secs' (run sha schema (ops @ Op_Claim i w now secs # ops') empty_db))"
proof -
  let ?db = "run sha schema ops empty_db"
  let ?db1 = "snd (claim i w now secs ?db)"
  let ?db2 = "run sha schema ops' ?db1"
  have good: "distinct_keys ?db" by (rule run_distinct_keys) simp
  then have good1: "distinct_keys ?db1" using exec_distinct_keys [of ?db sha schema "Op_Claim i w now secs"] by simp
  have "row_lease i ?db1 = Some (w, e)" using claim_leases [OF good assms(1)] assms(2) by simp
  from lifecycle_leases.lease_held [OF good1 this order_refl assms(3), of sha schema]
  obtain e' where good2: "distinct_keys ?db2" and held: "row_lease i ?db2 = Some (w, e')" "e \<le> e'"
    by (auto simp: run_def)
  have "\<not> claimable i w' now' r'" if "r' \<in> set (db_signals ?db2)" for r'
  proof -
    obtain r2 where r2: "r2 \<in> set (db_signals ?db2)" "lr_id r2 = i" "lr_lease_owner r2 = Some w"
      "lr_lease_expires_at r2 = Some e'" using held(1) row_lease_iff [OF good2] by blast
    have "lr_id r' = i \<Longrightarrow> r' = r2"
      using good2 that r2 by (metis distinct_keys_def distinct_map inj_onD)
    with r2 assms(4,5) held(2) show ?thesis by (auto simp: claimable_def)
  qed
  then show ?thesis by (simp add: claim_def row_count_def)
qed

theorem lease_is_exclusive_witness:
  "\<not> fst (claim 7 ''B'' 60000010 60 (run example_sha ''sev-1''
     [Op_Insert No_Fault example_new, Op_Claim 7 ''A'' 10 60,
      Op_Apply No_Fault 7 2 example_entry_step 20 ''c''] empty_db))"
proof -
  have "fst (claim 7 ''A'' 10 60 (run example_sha ''sev-1'' [Op_Insert No_Fault example_new] empty_db))"
    by code_simp
  moreover have "(60000010 :: datetime) = 10 + timedelta_seconds 60" by code_simp
  ultimately show ?thesis
    using lease_is_exclusive [of 7 "''A''" 10 60 example_sha "''sev-1''"
        "[Op_Insert No_Fault example_new]" 60000010 "[Op_Apply No_Fault 7 2 example_entry_step 20 ''c'']"
        "''B''" 60000010 60] by simp
qed

end
