(* ===== verification/Signal_History.thy ===== *)
theory Signal_History
  imports Signal_Store
begin

text \<open>
  The event table as the history of the signals: as long as no connection breaks between the two commits
  of a call and SHA-256 does not collide on the keys in use, the events of every signal record its whole
  path from \<open>DRAFT\<close> to its current state without gap; a broken connection leaves a gap that stays.
\<close>

section \<open>Recorded rows\<close>

definition events_of :: "uuid \<Rightarrow> signal_db \<Rightarrow> event_row list" where
  "events_of i db = filter (\<lambda>e. ev_signal_id e = i) (db_events db)"

fun follows :: "signal_state option \<Rightarrow> event_row list \<Rightarrow> bool" where
  "follows s [] \<longleftrightarrow> True"
| "follows s (e # es) \<longleftrightarrow> ev_from_state e = s \<and>
     (case s of None \<Rightarrow> ev_to_state e = DRAFT | Some x \<Rightarrow> ev_to_state e \<in> transitions x) \<and>
     follows (Some (ev_to_state e)) es"

definition end_state :: "signal_state option \<Rightarrow> event_row list \<Rightarrow> signal_state option" where
  "end_state s es = (if es = [] then s else Some (ev_to_state (last es)))"

lemma end_state_simps [simp]:
  "end_state s [] = s" "end_state s (e # es) = end_state (Some (ev_to_state e)) es"
  "end_state s (es @ [e]) = Some (ev_to_state e)"
  by (simp_all add: end_state_def)

lemma follows_append: "follows s (es @ es') \<longleftrightarrow> follows s es \<and> follows (end_state s es) es'"
  by (induction es arbitrary: s) auto

text \<open>The events of a row: versions without gap, a walk from \<open>DRAFT\<close>, the row's state at the end.\<close>

definition recorded :: "event_row list \<Rightarrow> lifecycle_row \<Rightarrow> bool" where
  "recorded es r \<longleftrightarrow> map ev_state_version es = [0..lr_state_version r] \<and> follows None es \<and>
     end_state None es = Some (lr_state r)"

section \<open>Keys in use\<close>

definition event_material :: "event_row \<Rightarrow> string" where
  "event_material e = event_key_material (str_uuid (ev_signal_id e)) (event_value (ev_event_type e))
     (state_value (ev_to_state e)) (ev_state_version e - 1) []"

fun op_materials :: "db_op \<Rightarrow> string list" where
  "op_materials (Op_Insert fault n) =
     map (\<lambda>(ty, from, to, v). event_key_material (str_uuid (ns_signal_id n)) (event_value ty)
            (state_value to) (v - 1) []) creation_chain"
| "op_materials (Op_Apply fault i v step t corr) =
     [event_key_material (str_uuid i) (event_value (ts_event_type step))
        (state_value (ts_to_state step)) v []]"
| "op_materials op = []"

text \<open>Identifiers are 128 bits wide, and no connection breaks between two commits.\<close>

fun whole_op :: "db_op \<Rightarrow> bool" where
  "whole_op (Op_Insert fault n) \<longleftrightarrow> fault \<noteq> Fails_Second \<and> ns_signal_id n < 16 ^ 32"
| "whole_op (Op_Apply fault i v step t corr) \<longleftrightarrow> fault \<noteq> Fails_Second \<and> i < 16 ^ 32"
| "whole_op op \<longleftrightarrow> True"

definition keyed :: "(string \<Rightarrow> string) \<Rightarrow> string set \<Rightarrow> event_row \<Rightarrow> bool" where
  "keyed sha M e \<longleftrightarrow> ev_idempotency_key e = digest32 sha (event_material e) \<and>
     event_material e \<in> M \<and> ev_signal_id e < 16 ^ 32"

lemma keyed_unique:
  assumes "inj_on (digest32 sha) M" "keyed sha M e" "keyed sha M e'"
    and "ev_idempotency_key e = ev_idempotency_key e'"
  shows "ev_signal_id e = ev_signal_id e' \<and> ev_state_version e = ev_state_version e'"
proof -
  have "event_material e = event_material e'"
    using assms unfolding keyed_def by (metis inj_onD)
  from event_key_material_inj [OF _ _ this [unfolded event_material_def]] assms(2,3)
  show ?thesis unfolding keyed_def by linarith
qed

definition history_ok :: "(string \<Rightarrow> string) \<Rightarrow> string set \<Rightarrow> signal_db \<Rightarrow> bool" where
  "history_ok sha M db \<longleftrightarrow> distinct_keys db \<and>
     distinct (map ev_idempotency_key (db_events db)) \<and>
     (\<forall>e \<in> set (db_events db). keyed sha M e \<and> (\<exists>r \<in> set (db_signals db). lr_id r = ev_signal_id e)) \<and>
     (\<forall>r \<in> set (db_signals db). recorded (events_of (lr_id r) db) r)"

section \<open>Each call keeps the history\<close>

lemma update_where_none: "\<forall>r \<in> set rs. \<not> c r \<Longrightarrow> update_where c f rs = rs"
  by (induction rs) auto

lemma history_unchanged:
  assumes "history_ok sha M db" "distinct_keys db'" "db_events db' = db_events db"
    and "map lr_id (db_signals db') = map lr_id (db_signals db)"
    and "\<And>r'. r' \<in> set (db_signals db') \<Longrightarrow> \<exists>r \<in> set (db_signals db). lr_id r' = lr_id r \<and>
           lr_state_version r' = lr_state_version r \<and> lr_state r' = lr_state r"
  shows "history_ok sha M db'"
proof -
  have ids: "lr_id ` set (db_signals db') = lr_id ` set (db_signals db)"
    using assms(4) by (metis set_map)
  have "\<exists>r' \<in> set (db_signals db'). lr_id r' = i" if "\<exists>r \<in> set (db_signals db). lr_id r = i" for i
    using that ids by (metis image_iff)
  moreover have "recorded (events_of (lr_id r') db') r'" if r': "r' \<in> set (db_signals db')" for r'
  proof -
    obtain r where "r \<in> set (db_signals db)" "lr_id r' = lr_id r"
      "lr_state_version r' = lr_state_version r" "lr_state r' = lr_state r"
      using assms(5) [OF r'] by blast
    then show ?thesis using assms(1,3) by (auto simp: history_ok_def recorded_def events_of_def)
  qed
  ultimately show ?thesis using assms(1-3) by (simp add: history_ok_def)
qed

lemma history_update_where:
  assumes "history_ok sha M db" "distinct_keys db'" "db_events db' = db_events db"
    and "db_signals db' = update_where c f (db_signals db)"
    and "\<And>r. c r \<Longrightarrow> lr_id (f r) = lr_id r \<and> lr_state_version (f r) = lr_state_version r \<and>
           lr_state (f r) = lr_state r"
  shows "history_ok sha M db'"
proof (rule history_unchanged [OF assms(1-3)])
  show "map lr_id (db_signals db') = map lr_id (db_signals db)"
    using assms(4,5) by (simp add: map_update_where)
  show "\<exists>r \<in> set (db_signals db). lr_id r' = lr_id r \<and>
      lr_state_version r' = lr_state_version r \<and> lr_state r' = lr_state r"
    if "r' \<in> set (db_signals db')" for r'
    using that assms(4,5) by (auto simp: set_update_where)
qed

lemma insert_events_ok:
  "distinct (map ev_idempotency_key (db_events db @ es)) \<Longrightarrow>
     insert_events es db = Some (db\<lparr>db_events := db_events db @ es\<rparr>)"
  by (simp only: insert_events_def if_True)

lemma insert_new_recorded:
  assumes "fault = No_Fault" "\<not> list_ex (row_conflicts (new_row n)) (db_signals db)"
    and "distinct (map ev_idempotency_key
           (db_events db @ map (creation_event sha n schema) creation_chain))"
  shows "insert_new sha fault n schema db =
    (Inr True, db\<lparr>db_signals := db_signals db @ [new_row n],
       db_events := db_events db @ map (creation_event sha n schema) creation_chain\<rparr>)"
proof -
  have "insert_events (map (creation_event sha n schema) creation_chain)
      (db\<lparr>db_signals := db_signals db @ [new_row n]\<rparr>)
      = Some (db\<lparr>db_signals := db_signals db @ [new_row n],
          db_events := db_events db @ map (creation_event sha n schema) creation_chain\<rparr>)"
    using insert_events_ok [of "db\<lparr>db_signals := db_signals db @ [new_row n]\<rparr>"] assms(3)
    by (simp del: map_append distinct_append)
  with assms(1,2) show ?thesis by (simp add: insert_new_def insert_row_def)
qed

lemma apply_transition_recorded:
  assumes "fault = No_Fault" "row_count (locked_row i v step) (db_signals db) \<noteq> 0"
    and "distinct (map ev_idempotency_key (db_events db @ [e]))"
  shows "apply_transition fault i v step e t db =
    (APPLIED, db\<lparr>db_signals := update_where (locked_row i v step) (transition_row v step t) (db_signals db),
       db_events := db_events db @ [e]\<rparr>)"
proof -
  let ?rows = "update_where (locked_row i v step) (transition_row v step t) (db_signals db)"
  have "insert_events [e] (db\<lparr>db_signals := ?rows\<rparr>)
      = Some (db\<lparr>db_signals := ?rows, db_events := db_events db @ [e]\<rparr>)"
    using insert_events_ok [of "db\<lparr>db_signals := ?rows\<rparr>" "[e]"] assms(3)
    by (simp del: map_append distinct_append)
  with assms(1,2) show ?thesis by (simp add: apply_transition_def Let_def)
qed

lemma chain_keyed:
  assumes "ns_signal_id n < 16 ^ 32" "set (op_materials (Op_Insert fault n)) \<subseteq> M"
    and "e \<in> set (map (creation_event sha n schema) creation_chain)"
  shows "keyed sha M e \<and> ev_signal_id e = ns_signal_id n"
  using assms by (auto simp: keyed_def event_material_def creation_chain_def event_idempotency_key_def)

lemma chain_events: "filter (\<lambda>e. ev_signal_id e = i) (map (creation_event sha n schema) creation_chain) =
    (if i = ns_signal_id n then map (creation_event sha n schema) creation_chain else [])"
  by (simp add: creation_chain_def)

lemma recorded_version: "recorded es r \<Longrightarrow> 0 \<le> lr_state_version r"
  by (cases es) (auto simp: recorded_def upto.simps split: if_splits)

lemma new_row_id: "lr_id (new_row n) = ns_signal_id n"
  by (simp add: lr_id_def new_row_def)

lemma history_insert:
  assumes "history_ok sha M db" "inj_on (digest32 sha) M" "legal_op (Op_Insert fault n)"
    and "whole_op (Op_Insert fault n)" "set (op_materials (Op_Insert fault n)) \<subseteq> M"
  shows "history_ok sha M (exec sha schema (Op_Insert fault n) db)"
proof (cases "fault = Fails_First \<or> list_ex (row_conflicts (new_row n)) (db_signals db)")
  case True
  then show ?thesis using assms(1) by (auto simp: insert_new_def insert_row_def)
next
  case False
  let ?chain = "map (creation_event sha n schema) creation_chain"
  let ?db = "db\<lparr>db_signals := db_signals db @ [new_row n]\<rparr>"
  have fresh: "\<forall>r \<in> set (db_signals db). lr_id r \<noteq> ns_signal_id n"
    using False unfolding list_ex_iff row_conflicts_def new_row_id by metis
  then have no_events: "\<forall>e \<in> set (db_events db). ev_signal_id e \<noteq> ns_signal_id n"
    using assms(1) by (fastforce simp: history_ok_def)
  have chain: "keyed sha M e \<and> ev_signal_id e = ns_signal_id n" if "e \<in> set ?chain" for e
    using chain_keyed [OF _ assms(5) that] assms(4) by simp
  have "distinct (map ev_idempotency_key ?chain)"
  proof -
    have "distinct (map ev_state_version ?chain)" by (simp add: creation_chain_def)
    moreover have "inj_on ev_idempotency_key (set ?chain)"
    proof (rule inj_onI)
      fix e e' assume e: "e \<in> set ?chain" "e' \<in> set ?chain" "ev_idempotency_key e = ev_idempotency_key e'"
      then have "ev_state_version e = ev_state_version e'"
        using keyed_unique [OF assms(2)] chain by blast
      moreover have "inj_on ev_state_version (set ?chain)"
        using \<open>distinct (map ev_state_version ?chain)\<close> distinct_map by blast
      ultimately show "e = e'" using e(1,2) by (meson inj_onD)
    qed
    ultimately show ?thesis
      unfolding distinct_map [of ev_idempotency_key ?chain] by (metis distinct_map)
  qed
  moreover have "ev_idempotency_key e \<noteq> ev_idempotency_key e'"
    if "e \<in> set (db_events db)" "e' \<in> set ?chain" for e e'
    using that assms(1) chain [OF that(2)] no_events keyed_unique [OF assms(2), of e e']
    by (auto simp: history_ok_def)
  ultimately have dist: "distinct (map ev_idempotency_key (db_events db @ ?chain))"
    using assms(1) by (fastforce simp: history_ok_def)
  have exec: "exec sha schema (Op_Insert fault n) db = ?db\<lparr>db_events := db_events db @ ?chain\<rparr>"
  proof -
    have "fault = No_Fault" using assms(4) False by (cases fault) auto
    then show ?thesis using insert_new_recorded [of fault n db sha schema] False dist by simp
  qed
  define db' where "db' = ?db\<lparr>db_events := db_events db @ ?chain\<rparr>"
  have tables: "db_signals db' = db_signals db @ [new_row n]" "db_events db' = db_events db @ ?chain"
    by (simp_all add: db'_def)
  have "events_of (ns_signal_id n) db' = ?chain"
    using no_events by (simp add: events_of_def tables chain_events filter_empty_conv)
  then have new: "recorded (events_of (lr_id (new_row n)) db') (new_row n)"
    using assms(3) by (simp add: recorded_def new_row_id) (simp add: new_row_def creation_chain_def upto.simps)
  have "events_of (lr_id r) db' = events_of (lr_id r) db" if "r \<in> set (db_signals db)" for r
    using fresh that by (simp add: events_of_def tables chain_events)
  then have "\<forall>r \<in> set (db_signals db'). recorded (events_of (lr_id r) db') r"
    using assms(1) new by (auto simp: history_ok_def tables)
  moreover have "\<forall>e \<in> set (db_events db'). keyed sha M e \<and> (\<exists>r \<in> set (db_signals db'). lr_id r = ev_signal_id e)"
    using assms(1) chain new_row_id [of n] unfolding history_ok_def tables set_append
    by (metis Un_iff list.set_intros(1))
  moreover have "distinct_keys db'"
    using assms(1) exec_distinct_keys [of db sha schema "Op_Insert fault n"]
    by (simp only: exec db'_def history_ok_def)
  moreover have "distinct (map ev_idempotency_key (db_events db'))" using dist tables(2) by metis
  ultimately show ?thesis unfolding exec db'_def [symmetric] history_ok_def by (intro conjI)
qed

lemma history_apply:
  assumes "history_ok sha M db" "inj_on (digest32 sha) M" "legal_op (Op_Apply fault i v step t corr)"
    and "whole_op (Op_Apply fault i v step t corr)"
    and "set (op_materials (Op_Apply fault i v step t corr)) \<subseteq> M"
  shows "history_ok sha M (exec sha schema (Op_Apply fault i v step t corr) db)"
proof (cases "fault = Fails_First \<or> row_count (locked_row i v step) (db_signals db) = 0")
  case True
  then have "exec sha schema (Op_Apply fault i v step t corr) db = db"
    using update_where_none [of "db_signals db" "locked_row i v step"]
    by (auto simp: apply_transition_def Let_def row_count_zero)
  then show ?thesis using assms(1) by simp
next
  case False
  let ?e = "build_transition_event sha i step v schema t corr"
  let ?rows = "update_where (locked_row i v step) (transition_row v step t) (db_signals db)"
  have dist: "distinct_keys db" using assms(1) by (simp add: history_ok_def)
  obtain r where r: "r \<in> set (db_signals db)" "locked_row i v step r"
    using False by (auto simp: row_count_zero)
  then have rec: "recorded (events_of i db) r" and i: "lr_id r = i" and v: "lr_state_version r = v"
    using assms(1) by (auto simp: history_ok_def locked_row_def)
  have keyed: "keyed sha M ?e"
    using assms(4,5) by (auto simp: keyed_def event_material_def build_transition_event_def
        event_idempotency_key_def)
  have "ev_idempotency_key e \<noteq> ev_idempotency_key ?e" if "e \<in> set (db_events db)" for e
  proof
    assume "ev_idempotency_key e = ev_idempotency_key ?e"
    moreover have "keyed sha M e" using assms(1) that by (auto simp: history_ok_def)
    ultimately have "ev_signal_id e = i" "ev_state_version e = v + 1"
      using keyed_unique [OF assms(2) _ keyed] by (auto simp: build_transition_event_def)
    moreover have "ev_state_version e \<in> set [0..v]" if "e \<in> set (events_of i db)"
      using rec v that by (metis recorded_def image_eqI set_map)
    ultimately show False using that by (auto simp: events_of_def)
  qed
  then have fresh: "ev_idempotency_key ?e \<notin> ev_idempotency_key ` set (db_events db)" by (metis imageE)
  have exec: "exec sha schema (Op_Apply fault i v step t corr) db
      = db\<lparr>db_signals := ?rows, db_events := db_events db @ [?e]\<rparr>"
  proof -
    have "distinct (map ev_idempotency_key (db_events db @ [?e]))"
      using assms(1) fresh by (simp add: history_ok_def)
    moreover have "fault = No_Fault" using assms(4) False by (cases fault) auto
    ultimately show ?thesis
      using apply_transition_recorded [of fault i v step db ?e t] False by (simp del: map_append)
  qed
  define db' where "db' = db\<lparr>db_signals := ?rows, db_events := db_events db @ [?e]\<rparr>"
  have tables: "db_signals db' = ?rows" "db_events db' = db_events db @ [?e]"
    by (simp_all add: db'_def)
  have eid: "ev_signal_id ?e = i" by (simp add: build_transition_event_def)
  have es: "events_of j db' = (if j = i then events_of i db @ [?e] else events_of j db)" for j
    by (simp add: events_of_def tables eid)
  have tid: "lr_id (transition_row v step t x) = lr_id x" for x
    by (simp add: transition_row_def lr_id_def Let_def)
  have moved: "recorded (events_of i db @ [?e]) (transition_row v step t r)"
    using rec v r(2) assms(3) recorded_version [OF rec]
    by (auto simp: recorded_def follows_append transition_row_def build_transition_event_def
        locked_row_def Let_def upto_rec2)
  have only: "x = r" if "x \<in> set (db_signals db)" "lr_id x = i" for x
    using dist that r(1) i by (metis distinct_keys_def distinct_map inj_onD)
  have "recorded (events_of (lr_id y) db') y" if "y \<in> set (db_signals db')" for y
  proof -
    from that obtain x where x: "x \<in> set (db_signals db)"
      "y = (if locked_row i v step x then transition_row v step t x else x)"
      by (auto simp: tables set_update_where)
    show ?thesis
    proof (cases "lr_id x = i")
      case True
      then show ?thesis using only [OF x(1)] x(2) r(2) moved i by (simp add: es tid)
    next
      case False
      then have "y = x" using x(2) by (simp add: locked_row_def)
      then show ?thesis using assms(1) x(1) False by (simp add: es history_ok_def)
    qed
  qed
  moreover have ids: "map lr_id (db_signals db') = map lr_id (db_signals db)"
    unfolding tables by (intro map_update_where) (rule tid)
  have "\<exists>x \<in> set (db_signals db'). lr_id x = j" if "\<exists>x \<in> set (db_signals db). lr_id x = j" for j
    using that ids by (metis (no_types) image_iff set_map)
  then have "\<forall>e \<in> set (db_events db'). keyed sha M e \<and> (\<exists>x \<in> set (db_signals db'). lr_id x = ev_signal_id e)"
    using assms(1) keyed eid r(1) i unfolding history_ok_def tables(2) set_append
    by (metis Un_iff empty_iff list.set(1) set_ConsD)
  moreover have "distinct_keys db'"
    using exec_distinct_keys [OF dist, of sha schema "Op_Apply fault i v step t corr"]
    by (simp only: exec db'_def)
  moreover have "distinct (map ev_idempotency_key (db_events db'))"
    using assms(1) fresh by (simp add: tables history_ok_def)
  ultimately show ?thesis unfolding exec db'_def [symmetric] history_ok_def by blast
qed

lemma history_exec:
  assumes "history_ok sha M db" "inj_on (digest32 sha) M" "legal_op op" "whole_op op"
    and "set (op_materials op) \<subseteq> M"
  shows "history_ok sha M (exec sha schema op db)"
proof -
  have dist: "distinct_keys (exec sha schema op db)"
    using assms(1) exec_distinct_keys by (auto simp: history_ok_def)
  note upd = history_update_where [OF assms(1) dist]
  show ?thesis
  proof (cases op)
    case (Op_Insert fault n)
    then show ?thesis using history_insert assms by blast
  next
    case (Op_Apply fault i v step t corr)
    then show ?thesis using history_apply assms by blast
  next
    case (Op_Claim i w now secs)
    have "db_signals (exec sha schema op db) = update_where (claimable i w now)
        (\<lambda>r. r\<lparr>lr_lease_owner := Some w,
               lr_lease_expires_at := Some (now + timedelta_seconds secs)\<rparr>) (db_signals db)"
      by (simp add: Op_Claim claim_def)
    then show ?thesis by (rule upd [rotated]) (simp_all add: Op_Claim claim_def lr_id_def)
  next
    case (Op_Release i w)
    have "db_signals (exec sha schema op db) =
        update_where (\<lambda>r. lr_id r = i \<and> lr_lease_owner r = Some w)
          (\<lambda>r. r\<lparr>lr_lease_owner := None, lr_lease_expires_at := None\<rparr>) (db_signals db)"
      by (simp add: Op_Release release_def)
    then show ?thesis by (rule upd [rotated]) (simp_all add: Op_Release release_def lr_id_def)
  next
    case (Op_Monitor i m)
    have "db_signals (exec sha schema op db) =
        update_where (\<lambda>r. lr_id r = i) (monitored_row m) (db_signals db)"
      by (simp add: Op_Monitor update_monitoring_fields_def)
    then show ?thesis
      by (rule upd [rotated])
        (simp_all add: Op_Monitor update_monitoring_fields_def monitored_row_def lr_id_def)
  next
    case (Op_Update u)
    then have "db_signals (exec sha schema op db) = db_signals db"
      "db_events (exec sha schema op db) = db_events db" by (simp_all add: add_update_def)
    then show ?thesis by (intro history_unchanged [OF assms(1) dist]) auto
  next
    case (Op_Reject rj w)
    then have "db_signals (exec sha schema op db) = db_signals db"
      "db_events (exec sha schema op db) = db_events db" by (simp_all add: record_rejection_def Let_def)
    then show ?thesis by (intro history_unchanged [OF assms(1) dist]) auto
  qed
qed

lemma history_run:
  assumes "history_ok sha M db" "inj_on (digest32 sha) M"
    and "\<forall>op \<in> set ops. legal_op op \<and> whole_op op \<and> set (op_materials op) \<subseteq> M"
  shows "history_ok sha M (run sha schema ops db)"
  using assms(1,3) by (induction ops arbitrary: db) (auto intro: history_exec [OF _ assms(2)])

lemma history_empty: "history_ok sha M empty_db"
  by (simp add: history_ok_def) (simp add: empty_db_def)

section \<open>Gaps\<close>

text \<open>Where a new event can come from.\<close>

lemma insert_events_db: "insert_events es db = Some db' \<Longrightarrow> db_events db' = db_events db @ es"
  by (cases "distinct (map ev_idempotency_key (db_events db @ es))")
    (simp_all only: insert_events_def if_True if_False option.inject option.distinct, force)

lemma exec_event_origin:
  assumes "e \<in> set (db_events (exec sha schema op db))" "e \<notin> set (db_events db)"
  shows "takes_version op db (ev_signal_id e) (ev_state_version e - 1) \<or>
         (\<forall>r \<in> set (db_signals db). lr_id r \<noteq> ev_signal_id e)"
proof (cases op)
  case (Op_Insert fault n)
  then have "\<not> list_ex (row_conflicts (new_row n)) (db_signals db)"
    using assms by (auto simp: insert_new_def insert_row_def split: if_splits)
  moreover have "e \<in> set (map (creation_event sha n schema) creation_chain)"
    using assms Op_Insert
    by (auto simp: insert_new_def insert_row_def dest!: insert_events_db split: if_splits option.splits)
  then have "ev_signal_id e = ns_signal_id n" by (auto simp: creation_chain_def)
  ultimately show ?thesis
    unfolding list_ex_iff row_conflicts_def new_row_id by metis
next
  case (Op_Apply fault i v step t corr)
  then have "takes_version op db i v" "e = build_transition_event sha i step v schema t corr"
    using assms
    by (auto simp: apply_transition_def Let_def dest!: insert_events_db split: if_splits option.splits)
  then show ?thesis by (simp add: build_transition_event_def)
qed (use assms in \<open>auto simp: claim_def release_def update_monitoring_fields_def add_update_def
  record_rejection_def Let_def split: if_splits\<close>)

lemma gap_stays:
  assumes "distinct_keys db" "get_signal i db \<noteq> None" "row_version i db = Some w" "v < w"
    and "\<forall>e \<in> set (db_events db). \<not> (ev_signal_id e = i \<and> ev_state_version e = v + 1)"
  shows "\<forall>e \<in> set (db_events (run sha schema ops db)). \<not> (ev_signal_id e = i \<and> ev_state_version e = v + 1)"
  using assms
proof (induction ops arbitrary: db w)
  case (Cons op ops)
  let ?db = "exec sha schema op db"
  obtain w' where w': "row_version i ?db = Some w'" "w \<le> w'"
    using lifecycle_store.never_back [OF Cons.prems(1,3)] by blast
  obtain r where r: "r \<in> set (db_signals db)" "lr_id r = i"
    using Cons.prems(1,2) get_signal_iff by blast
  have "\<not> (ev_signal_id e = i \<and> ev_state_version e = v + 1)" if "e \<in> set (db_events ?db)" for e
  proof
    assume e: "ev_signal_id e = i \<and> ev_state_version e = v + 1"
    then have "e \<notin> set (db_events db)" using Cons.prems(5) by blast
    from exec_event_origin [OF that this] e r have "takes_version op db i v" by auto
    then show False using lifecycle_store.takes_current [OF Cons.prems(1)] Cons.prems(3,4) by fastforce
  qed
  moreover have "get_signal i ?db \<noteq> None" using w'(1) by (auto simp: row_version_def)
  ultimately show ?case
    using Cons.IH [OF exec_distinct_keys [OF Cons.prems(1)] _ w'(1)] Cons.prems(4) w'(2) by simp
qed simp

section \<open>Properties\<close>

text \<open>
  C2.  The event history is complete where no write is half done: after any interleaving of legal calls in
  which no connection breaks between the commit of a row and the commit of its event, and with no SHA-256
  collision among the keys in use, the events of every signal have the versions 0 to the row's version
  without gap, form a walk from \<open>DRAFT\<close> along the transition map, and end in the row's state.  A half
  write does lose the event (\<open>half_write_loses_event\<close>).
\<close>

theorem history_is_complete:
  assumes "\<forall>op \<in> set ops. legal_op op \<and> whole_op op"
    and "inj_on (digest32 sha) (set (concat (map op_materials ops)))"
  shows "\<forall>r \<in> set (db_signals (run sha schema ops empty_db)).
    recorded (events_of (lr_id r) (run sha schema ops empty_db)) r"
proof -
  have "\<forall>op \<in> set ops. legal_op op \<and> whole_op op \<and>
      set (op_materials op) \<subseteq> set (concat (map op_materials ops))" using assms(1) by auto
  from history_run [OF history_empty assms(2) this] show ?thesis by (simp add: history_ok_def)
qed

theorem history_is_complete_witness:
  "map ev_to_state (events_of 7 (run example_sha ''sev-1'' example_ops empty_db))
     = [DRAFT, PENDING_ADMISSION, WATCHING_ENTRY, ENTRY_CONFIRMED] \<and>
   list_all (\<lambda>r. recorded (events_of (lr_id r) (run example_sha ''sev-1'' example_ops empty_db)) r)
     (db_signals (run example_sha ''sev-1'' example_ops empty_db))"
proof -
  have "distinct (map (digest32 example_sha) (concat (map op_materials example_ops)))" by code_simp
  then have "inj_on (digest32 example_sha) (set (concat (map op_materials example_ops)))"
    by (simp only: distinct_map)
  moreover have "\<forall>op \<in> set example_ops. legal_op op \<and> whole_op op"
    by (simp add: example_ops_def example_new_def example_entry_step_def)
  moreover have "map ev_to_state (events_of 7 (run example_sha ''sev-1'' example_ops empty_db))
     = [DRAFT, PENDING_ADMISSION, WATCHING_ENTRY, ENTRY_CONFIRMED]" by code_simp
  ultimately show ?thesis using history_is_complete unfolding list_all_iff by blast
qed

text \<open>
  A connection that breaks after the row update loses the event for good: the call reports
  \<open>FAILED\<close>, the row has moved on, and no later call, retries included, ever records an event for that
  version of the signal.
\<close>

theorem half_write_loses_event:
  assumes db: "db = run sha schema ops empty_db"
    and r: "get_signal i db = Some r" "locked_row i v step r"
    and none: "\<forall>e \<in> set (db_events db). \<not> (ev_signal_id e = i \<and> ev_state_version e = v + 1)"
  shows "fst (apply_transition Fails_Second i v step e t db) = FAILED \<and>
    row_version i (exec sha schema (Op_Apply Fails_Second i v step t corr) db) = Some (v + 1) \<and>
    (\<forall>e' \<in> set (db_events (run sha schema (Op_Apply Fails_Second i v step t corr # ops') db)).
       \<not> (ev_signal_id e' = i \<and> ev_state_version e' = v + 1))"
proof -
  let ?op = "Op_Apply Fails_Second i v step t corr"
  have good: "distinct_keys db" unfolding db by (rule run_distinct_keys) simp
  have pos: "0 < row_count (locked_row i v step) (db_signals db)"
    using r get_signal_iff [OF good] by (auto simp: row_count_pos)
  then have takes: "takes_version ?op db i v" by simp
  from lifecycle_store.takes_advances [OF good takes]
  have w: "row_version i (exec sha schema ?op db) = Some (v + 1)" .
  have "db_events (exec sha schema ?op db) = db_events db"
    using pos by (simp add: apply_transition_def Let_def)
  with none gap_stays [OF exec_distinct_keys [OF good] _ w, of v sha schema ops'] w
  have "\<forall>e' \<in> set (db_events (run sha schema (?op # ops') db)).
      \<not> (ev_signal_id e' = i \<and> ev_state_version e' = v + 1)" by (auto simp: row_version_def)
  moreover have "fst (apply_transition Fails_Second i v step e t db) = FAILED"
    using pos by (simp add: apply_transition_def Let_def)
  ultimately show ?thesis using w by blast
qed

theorem half_write_loses_event_witness:
  "list_all (\<lambda>e. \<not> (ev_signal_id e = 7 \<and> ev_state_version e = 3))
     (db_events (run example_sha ''sev-1''
        [Op_Insert No_Fault example_new, Op_Apply Fails_Second 7 2 example_entry_step 20 ''c'',
         Op_Apply No_Fault 7 2 example_entry_step 30 ''c''] empty_db))"
proof -
  let ?db = "run example_sha ''sev-1'' [Op_Insert No_Fault example_new] empty_db"
  have "get_signal 7 ?db = Some (new_row example_new)" by code_simp
  moreover have "locked_row 7 2 example_entry_step (new_row example_new)"
    by (simp add: locked_row_def new_row_id) (simp add: new_row_def example_new_def example_entry_step_def)
  moreover have "list_all (\<lambda>e. \<not> (ev_signal_id e = 7 \<and> ev_state_version e = 2 + 1)) (db_events ?db)"
    by code_simp
  ultimately show ?thesis
    using half_write_loses_event [of ?db example_sha "''sev-1''" "[Op_Insert No_Fault example_new]" 7
        "new_row example_new" 2 example_entry_step _ 20 "''c''"
        "[Op_Apply No_Fault 7 2 example_entry_step 30 ''c'']"]
    by (simp add: list_all_iff)
qed

end
