(* ===== verification/Bot_State.thy ===== *)
theory Bot_State
  imports Prelude
begin

text \<open>
  The global pause state (\<open>app/bot_state.py\<close>) over the persisted key-value store
  (\<open>app/repositories/app_state_repository.py\<close>).  Whether the database answers a call is an argument.
\<close>

record persisted_pause =
  pp_paused :: bool
  pp_change_counter :: int
  pp_changed_at :: datetime
  pp_changed_by :: "int option"

record bot_state =
  bs_kill_switch :: bool
  bs_cached_paused :: bool
  bs_change_counter :: int
  bs_loaded :: bool
  bs_degraded :: bool

definition new_bot_state :: "bool \<Rightarrow> bot_state" where
  "new_bot_state kill = \<lparr>bs_kill_switch = kill, bs_cached_paused = False, bs_change_counter = 0,
     bs_loaded = False, bs_degraded = False\<rparr>"

text \<open>\<open>up\<close>: the database answers.  The stored value is that of the key \<open>bot_paused\<close>.\<close>

definition load :: "bool \<Rightarrow> persisted_pause option \<Rightarrow> bot_state \<Rightarrow> bot_state" where
  "load up stored b =
     (if \<not> up then b\<lparr>bs_degraded := True, bs_loaded := True\<rparr>
      else case stored of
        None \<Rightarrow> b\<lparr>bs_degraded := False, bs_loaded := True\<rparr>
      | Some p \<Rightarrow> b\<lparr>bs_degraded := False, bs_cached_paused := pp_paused p,
          bs_change_counter := pp_change_counter p, bs_loaded := True\<rparr>)"

definition ensure_loaded :: "bool \<Rightarrow> persisted_pause option \<Rightarrow> bot_state \<Rightarrow> bot_state" where
  "ensure_loaded up stored b = (if bs_loaded b then b else load up stored b)"

definition is_paused :: "bool \<Rightarrow> persisted_pause option \<Rightarrow> bot_state \<Rightarrow> bool \<times> bot_state" where
  "is_paused up stored b =
     (let b' = ensure_loaded up stored b in (bs_kill_switch b' \<or> bs_cached_paused b', b'))"

definition set_paused ::
  "bool \<Rightarrow> bool \<Rightarrow> datetime \<Rightarrow> int option \<Rightarrow> bool \<Rightarrow> persisted_pause option \<Rightarrow> bot_state \<Rightarrow>
     bool \<times> persisted_pause option \<times> bot_state" where
  "set_paused up_load up_set now changed_by paused stored b =
     (let b1 = ensure_loaded up_load stored b in
      if bs_cached_paused b1 = paused then (False, stored, b1)
      else
        let b2 = b1\<lparr>bs_cached_paused := paused, bs_change_counter := bs_change_counter b1 + 1\<rparr>;
            payload = \<lparr>pp_paused = paused, pp_change_counter = bs_change_counter b2,
              pp_changed_at = now, pp_changed_by = changed_by\<rparr> in
        if up_set then (True, Some payload, b2\<lparr>bs_degraded := False\<rparr>)
        else (True, stored, b2\<lparr>bs_degraded := True\<rparr>))"

section \<open>What the service keeps\<close>

text \<open>The cache and the store agree: what holds after every call the database answered.\<close>

definition in_sync :: "persisted_pause option \<Rightarrow> bot_state \<Rightarrow> bool" where
  "in_sync stored b \<longleftrightarrow> bs_loaded b \<and>
     (case stored of None \<Rightarrow> \<not> bs_cached_paused b \<and> bs_change_counter b = 0
      | Some p \<Rightarrow> bs_cached_paused b = pp_paused p \<and> bs_change_counter b = pp_change_counter p)"

lemma load_in_sync: "in_sync stored (load True stored (new_bot_state kill))"
  by (simp add: in_sync_def load_def new_bot_state_def split: option.split)

lemma set_paused_in_sync:
  assumes "in_sync stored b" "set_paused u True now who p stored b = (c, stored', b')"
  shows "in_sync stored' b'"
  using assms
  by (auto simp: in_sync_def set_paused_def ensure_loaded_def Let_def split: if_splits option.splits)

text \<open>A pause command whose write the database missed, or a start while it is down, is forgotten.\<close>

lemma missed_load_unpauses:
  "fst (is_paused False (Some p) (new_bot_state False)) = False"
  by (simp add: is_paused_def ensure_loaded_def load_def new_bot_state_def)

lemma load_runs_once:
  "bs_loaded b \<Longrightarrow> fst (is_paused u stored b) = (bs_kill_switch b \<or> bs_cached_paused b)"
  by (simp add: is_paused_def ensure_loaded_def)

lemma outage_at_start_unpauses:
  "let b = snd (is_paused False (Some p) (new_bot_state False))
   in fst (is_paused True (Some p) b) = False"
  by (simp add: is_paused_def ensure_loaded_def load_def new_bot_state_def)

section \<open>Properties\<close>

text \<open>
  The pause survives a restart: after a command on a service in step with the store, with the database
  answering, a fresh process that loads the store is paused exactly as commanded, counts the same changes,
  and the command reports a change exactly when it made one.
\<close>

theorem pause_survives_restart:
  assumes "in_sync stored b" "set_paused u True now who p stored b = (changed, stored', b')"
  shows "fst (is_paused True stored' (new_bot_state kill)) = (kill \<or> p) \<and>
    bs_change_counter (snd (is_paused True stored' (new_bot_state kill))) = bs_change_counter b' \<and>
    changed = (bs_cached_paused b \<noteq> p) \<and>
    bs_change_counter b' = bs_change_counter b + (if changed then 1 else 0)"
  using assms
  by (auto simp: in_sync_def set_paused_def is_paused_def ensure_loaded_def load_def new_bot_state_def
      Let_def split: if_splits option.splits)

theorem pause_survives_restart_witness:
  "fst (is_paused True (fst (snd (set_paused True True 5 (Some 1) True None
     (load True None (new_bot_state False))))) (new_bot_state False))"
proof -
  let ?r = "set_paused True True 5 (Some 1) True None (load True None (new_bot_state False))"
  obtain c s b where r: "?r = (c, s, b)" by (cases ?r)
  from pause_survives_restart [OF load_in_sync r, of False] show ?thesis by (simp add: r)
qed

end
