(* ===== verification/Effects.thy ===== *)
theory Effects
  imports Prelude
begin

text \<open>
  Actions on a state that may raise: the sequencing, \<open>try\<close>/\<open>except\<close> and state access the jobs are
  written with, and the contract (\<open>effect_order\<close>) under which a relation between the state before and
  after every primitive step extends to whole jobs.
\<close>

type_synonym ('w, 'e, 'a) action = "'w \<Rightarrow> ('e + 'a) \<times> 'w"

definition pure_action :: "'a \<Rightarrow> ('w, 'e, 'a) action" where
  "pure_action x w = (Inr x, w)"

definition raise_error :: "'e \<Rightarrow> ('w, 'e, 'a) action" where
  "raise_error e w = (Inl e, w)"

definition modify_state :: "('w \<Rightarrow> 'w) \<Rightarrow> ('w, 'e, unit) action" where
  "modify_state f w = (Inr (), f w)"

definition and_then :: "('w, 'e, 'a) action \<Rightarrow> ('a \<Rightarrow> ('w, 'e, 'b) action) \<Rightarrow> ('w, 'e, 'b) action" where
  "and_then m k w = (case m w of (Inl e, w') \<Rightarrow> (Inl e, w') | (Inr x, w') \<Rightarrow> k x w')"

definition on_error :: "('w, 'e, 'a) action \<Rightarrow> ('e \<Rightarrow> ('w, 'e, 'a) action) \<Rightarrow> ('w, 'e, 'a) action" where
  "on_error m h w = (case m w of (Inl e, w') \<Rightarrow> h e w' | (Inr x, w') \<Rightarrow> (Inr x, w'))"

text \<open>\<open>with contextlib.suppress(Exception)\<close>.\<close>

definition suppressed :: "('w, 'e, unit) action \<Rightarrow> ('w, 'e, unit) action" where
  "suppressed m = on_error m (\<lambda>_. pure_action ())"

lemmas action_defs = pure_action_def raise_error_def modify_state_def and_then_def on_error_def
  suppressed_def

lemma and_then_value:
  assumes "and_then m k w = (Inr y, w')"
  obtains x v where "m w = (Inr x, v)" "k x v = (Inr y, w')"
  using assms by (auto simp: and_then_def split: prod.splits sum.splits)

section \<open>Relations every action keeps\<close>

definition keeps :: "('w \<Rightarrow> 'w \<Rightarrow> bool) \<Rightarrow> ('w, 'e, 'a) action \<Rightarrow> bool" where
  "keeps R m \<longleftrightarrow> (\<forall>w. R w (snd (m w)))"

text \<open>What is known of the values an action returns.\<close>

definition yields :: "('w, 'e, 'a) action \<Rightarrow> ('a \<Rightarrow> bool) \<Rightarrow> bool" where
  "yields m P \<longleftrightarrow> (\<forall>w x w'. m w = (Inr x, w') \<longrightarrow> P x)"

lemma yieldsD: "yields m P \<Longrightarrow> m w = (Inr x, w') \<Longrightarrow> P x"
  by (auto simp: yields_def)

lemma yields_True [simp]: "yields m (\<lambda>_. True)"
  by (simp add: yields_def)

lemma yields_pure: "P x \<Longrightarrow> yields (pure_action x) P"
  by (simp add: yields_def pure_action_def)

lemma yields_and_then: "(\<And>x. yields (k x) P) \<Longrightarrow> yields (and_then m k) P"
  by (auto simp: yields_def and_then_def split: prod.splits sum.splits)

lemma keeps_at: "(\<And>n. keeps R (m n)) \<Longrightarrow> keeps R (\<lambda>w. m (g w) w)"
  by (simp add: keeps_def)

locale effect_order =
  fixes R :: "'w \<Rightarrow> 'w \<Rightarrow> bool"
  assumes refl_R: "R w w"
    and trans_R: "R w w' \<Longrightarrow> R w' w'' \<Longrightarrow> R w w''"
begin

lemma keeps_pure: "keeps R (pure_action x)"
  by (simp add: keeps_def pure_action_def refl_R)

lemma keeps_raise: "keeps R (raise_error e)"
  by (simp add: keeps_def raise_error_def refl_R)

lemma keeps_modify: "(\<And>w. R w (f w)) \<Longrightarrow> keeps R (modify_state f)"
  by (simp add: keeps_def modify_state_def)

lemma keeps_and_then_value:
  assumes m: "keeps R m" "yields m P" and k: "\<And>x. P x \<Longrightarrow> keeps R (k x)"
  shows "keeps R (and_then m k)"
  unfolding keeps_def
proof
  fix w
  obtain r w' where r: "m w = (r, w')" by fastforce
  with m(1) have w': "R w w'" by (auto simp: keeps_def dest: spec [of _ w])
  show "R w (snd (and_then m k w))"
  proof (cases r)
    case (Inr x)
    with k [OF yieldsD [OF m(2)]] r have "R w' (snd (k x w'))" by (auto simp: keeps_def)
    then show ?thesis using trans_R [OF w'] r Inr by (simp add: and_then_def)
  qed (use r w' in \<open>simp add: and_then_def\<close>)
qed

lemma keeps_and_then: "keeps R m \<Longrightarrow> (\<And>x. keeps R (k x)) \<Longrightarrow> keeps R (and_then m k)"
  by (rule keeps_and_then_value [where P = "\<lambda>_. True"]) simp_all

lemma keeps_on_error: "keeps R m \<Longrightarrow> (\<And>e. keeps R (h e)) \<Longrightarrow> keeps R (on_error m h)"
  unfolding keeps_def
proof
  fix w
  assume m: "\<forall>w. R w (snd (m w))" and h: "\<And>e. \<forall>w. R w (snd (h e w))"
  obtain r w' where "m w = (r, w')" by fastforce
  with m have "m w = (r, w')" "R w w'" by (auto dest: spec [of _ w])
  then show "R w (snd (on_error m h w))"
    using trans_R h by (cases r) (auto simp: on_error_def)
qed

lemma keeps_suppressed: "keeps R m \<Longrightarrow> keeps R (suppressed m)"
  by (simp add: suppressed_def keeps_on_error keeps_pure)

lemma keeps_if: "(b \<Longrightarrow> keeps R m) \<Longrightarrow> (\<not> b \<Longrightarrow> keeps R m') \<Longrightarrow> keeps R (if b then m else m')"
  by simp

lemmas keeps_rules = keeps_pure keeps_raise keeps_and_then keeps_on_error keeps_suppressed keeps_if

end

text \<open>An action that never raises.\<close>

definition never_raises :: "('w, 'e, 'a) action \<Rightarrow> bool" where
  "never_raises m \<longleftrightarrow> (\<forall>w. \<exists>x. fst (m w) = Inr x)"

lemma never_raises_pure [simp]: "never_raises (pure_action x)"
  and never_raises_modify [simp]: "never_raises (modify_state f)"
  by (simp_all add: never_raises_def pure_action_def modify_state_def)

lemma never_raises_value: "never_raises m \<Longrightarrow> \<exists>x w'. m w = (Inr x, w')"
  unfolding never_raises_def by (metis prod.collapse)

lemma never_raises_and_then:
  assumes "never_raises m" "\<And>x. never_raises (k x)"
  shows "never_raises (and_then m k)"
  unfolding never_raises_def
proof
  fix w
  obtain x w' where "m w = (Inr x, w')" using never_raises_value [OF assms(1)] by blast
  then show "\<exists>y. fst (and_then m k w) = Inr y"
    using assms(2) by (simp add: and_then_def never_raises_def)
qed

lemma never_raises_on_error: "(\<And>e. never_raises (h e)) \<Longrightarrow> never_raises (on_error m h)"
  unfolding never_raises_def on_error_def by (auto split: prod.split sum.split)

lemma never_raises_suppressed [simp]: "never_raises (suppressed m)"
  by (simp add: suppressed_def never_raises_on_error)

section \<open>Triples\<close>

text \<open>What holds after an action, when it returns and when it raises, if \<open>P\<close> holds before.\<close>

definition ensures ::
  "('w \<Rightarrow> bool) \<Rightarrow> ('w, 'e, 'a) action \<Rightarrow> ('a \<Rightarrow> 'w \<Rightarrow> bool) \<Rightarrow> ('e \<Rightarrow> 'w \<Rightarrow> bool) \<Rightarrow> bool" where
  "ensures P m Q E \<longleftrightarrow>
     (\<forall>w. P w \<longrightarrow> (case m w of (Inl e, w') \<Rightarrow> E e w' | (Inr x, w') \<Rightarrow> Q x w'))"

lemma ensures_pure: "(\<And>w. P w \<Longrightarrow> Q x w) \<Longrightarrow> ensures P (pure_action x) Q E"
  by (simp add: ensures_def pure_action_def)

lemma ensures_raise: "(\<And>w. P w \<Longrightarrow> E e w) \<Longrightarrow> ensures P (raise_error e) Q E"
  by (simp add: ensures_def raise_error_def)

lemma ensures_modify: "(\<And>w. P w \<Longrightarrow> Q () (f w)) \<Longrightarrow> ensures P (modify_state f) Q E"
  by (simp add: ensures_def modify_state_def)

lemma ensures_and_then:
  assumes "ensures P m R E" "\<And>x. ensures (R x) (k x) Q E"
  shows "ensures P (and_then m k) Q E"
  unfolding ensures_def
proof (intro allI impI)
  fix w assume "P w"
  obtain r w' where m: "m w = (r, w')" by fastforce
  show "case and_then m k w of (Inl e, w') \<Rightarrow> E e w' | (Inr x, w') \<Rightarrow> Q x w'"
  proof (cases r)
    case (Inl e)
    with m \<open>P w\<close> assms(1) show ?thesis by (auto simp: ensures_def and_then_def)
  next
    case (Inr x)
    with m \<open>P w\<close> assms(1) have "R x w'" by (auto simp: ensures_def)
    with assms(2) [of x] m Inr show ?thesis by (auto simp: ensures_def and_then_def)
  qed
qed

lemma ensures_on_error:
  assumes "ensures P m Q R" "\<And>e. ensures (R e) (h e) Q E"
  shows "ensures P (on_error m h) Q E"
  unfolding ensures_def
proof (intro allI impI)
  fix w assume "P w"
  obtain r w' where m: "m w = (r, w')" by fastforce
  show "case on_error m h w of (Inl e, w') \<Rightarrow> E e w' | (Inr x, w') \<Rightarrow> Q x w'"
  proof (cases r)
    case (Inl e)
    with m \<open>P w\<close> assms(1) have "R e w'" by (auto simp: ensures_def)
    with assms(2) [of e] m Inl show ?thesis by (auto simp: ensures_def on_error_def)
  next
    case (Inr x)
    with m \<open>P w\<close> assms(1) show ?thesis by (auto simp: ensures_def on_error_def)
  qed
qed

lemma ensures_weaken:
  "ensures P m Q E \<Longrightarrow> (\<And>w. P' w \<Longrightarrow> P w) \<Longrightarrow> (\<And>x w. Q x w \<Longrightarrow> Q' x w) \<Longrightarrow>
     (\<And>e w. E e w \<Longrightarrow> E' e w) \<Longrightarrow> ensures P' m Q' E'"
  by (fastforce simp: ensures_def split: prod.splits sum.splits)

lemma ensures_if:
  "(b \<Longrightarrow> ensures P m Q E) \<Longrightarrow> (\<not> b \<Longrightarrow> ensures P m' Q E) \<Longrightarrow> ensures P (if b then m else m') Q E"
  by simp

lemma ensures_returns: "ensures P m Q (\<lambda>_ _. False) \<Longrightarrow> P w \<Longrightarrow> \<exists>x w'. m w = (Inr x, w') \<and> Q x w'"
  by (cases "m w"; cases "fst (m w)") (auto simp: ensures_def)

text \<open>What holds of the world however the action ends.\<close>

lemma ensures_state: "ensures P m (\<lambda>_. R) (\<lambda>_. R) \<Longrightarrow> P w \<Longrightarrow> R (snd (m w))"
  by (cases "m w"; cases "fst (m w)") (auto simp: ensures_def)

end
