(* ===== verification/Signal_Job.thy ===== *)
theory Signal_Job
  imports Signal_Context Signal_History Bot_State Effects
begin

text \<open>
  The lifecycle monitor job (\<open>app/jobs/signal_lifecycle_monitor.py\<close>): a cycle admits plans and evaluates
  every live signal, calling the database for each step.  Every call of the database may fail, and other
  workers' calls and market data may come in before it: a script gives, for the n-th call of the job,
  what happens first and which fault the call meets.  Rows are evaluated one after the other; what the
  concurrent evaluations of other rows do is among the others' calls.
\<close>

section \<open>The world of the job\<close>

record db_call =
  dc_others :: "db_op list"
  dc_feed :: "market_state \<Rightarrow> market_state"
  dc_fault :: db_fault

datatype job_error = Db_Raised | Engine_Raised engine_error

text \<open>
  What stays fixed over a cycle.  The display text of a suppressed proposal, the driver's exception name,
  the fresh identifiers and the contents of the tables the job only reads come with the call number.
\<close>

record job_env =
  je_settings :: signal_settings
  je_sha :: "string \<Rightarrow> string"
  je_config_hash :: string
  je_owner :: string
  je_adapters :: adapters
  je_quality :: quality_env
  je_script :: "nat \<Rightarrow> db_call"
  je_sources :: "nat \<Rightarrow> lifecycle_sources"
  je_fresh :: "nat \<Rightarrow> uuid"
  je_correlation :: "nat \<Rightarrow> string"
  je_describe :: "suppression \<Rightarrow> string"
  je_db_exception :: string

record run_summary =
  rs_run_at :: datetime
  rs_paused :: bool
  rs_admitted :: nat
  rs_admission_rejected :: nat
  rs_admission_skipped :: nat
  rs_signals_evaluated :: nat
  rs_transitions_applied :: nat
  rs_version_conflicts :: nat

record job_state =
  js_degraded :: bool
  js_last_run_at :: "datetime option"
  js_last_success_at :: "datetime option"
  js_last_run_summary :: "run_summary option"
  js_admissions_total :: int
  js_admission_rejections_total :: int
  js_transitions_total :: int
  js_conflicts_total :: int
  js_monitor_failures_total :: int

definition new_job :: job_state where
  "new_job = \<lparr>js_degraded = False, js_last_run_at = None, js_last_success_at = None,
     js_last_run_summary = None, js_admissions_total = 0, js_admission_rejections_total = 0,
     js_transitions_total = 0, js_conflicts_total = 0, js_monitor_failures_total = 0\<rparr>"

record job_world =
  jw_db :: signal_db
  jw_market :: market_state
  jw_calls :: nat
  jw_job :: job_state

type_synonym 'a job = "(job_world, job_error, 'a) action"

definition job_step :: "(job_state \<Rightarrow> job_state) \<Rightarrow> unit job" where
  "job_step f = modify_state (\<lambda>w. w\<lparr>jw_job := f (jw_job w)\<rparr>)"

definition set_degraded :: "unit job" where
  "set_degraded = job_step (\<lambda>j. j\<lparr>js_degraded := True\<rparr>)"

section \<open>Calls of the database\<close>

definition event_schema :: "job_env \<Rightarrow> string" where
  "event_schema env = lifecycle_event_schema_version (je_settings env)"

definition before_call :: "job_env \<Rightarrow> job_world \<Rightarrow> job_world" where
  "before_call env w =
     (let c = je_script env (jw_calls w) in
      w\<lparr>jw_db := run (je_sha env) (event_schema env) (dc_others c) (jw_db w),
        jw_market := dc_feed c (jw_market w), jw_calls := Suc (jw_calls w)\<rparr>)"

definition perform :: "job_env \<Rightarrow> (db_fault \<Rightarrow> signal_db \<Rightarrow> (job_error + 'a) \<times> signal_db) \<Rightarrow> 'a job" where
  "perform env f w =
     (let fault = dc_fault (je_script env (jw_calls w)); w' = before_call env w;
          (r, db) = f fault (jw_db w')
      in (r, w'\<lparr>jw_db := db\<rparr>))"

text \<open>A read; and a call with one commit, which may still raise after the commit took effect.\<close>

definition query :: "(signal_db \<Rightarrow> 'a) \<Rightarrow> db_fault \<Rightarrow> signal_db \<Rightarrow> (job_error + 'a) \<times> signal_db" where
  "query g fault db = (if fault = No_Fault then Inr (g db) else Inl Db_Raised, db)"

definition one_commit ::
  "(signal_db \<Rightarrow> 'a \<times> signal_db) \<Rightarrow> db_fault \<Rightarrow> signal_db \<Rightarrow> (job_error + 'a) \<times> signal_db" where
  "one_commit f fault db =
     (case fault of
        No_Fault \<Rightarrow> (Inr (fst (f db)), snd (f db))
      | Fails_First \<Rightarrow> (Inl Db_Raised, db)
      | Fails_Second \<Rightarrow> (Inl Db_Raised, snd (f db)))"

definition read_table :: "job_env \<Rightarrow> (lifecycle_sources \<Rightarrow> 'a) \<Rightarrow> 'a job" where
  "read_table env sel w = perform env (query (\<lambda>_. sel (je_sources env (jw_calls w)))) w"

definition call_claim :: "job_env \<Rightarrow> uuid \<Rightarrow> datetime \<Rightarrow> bool job" where
  "call_claim env i now = perform env
     (one_commit (claim i (je_owner env) now (lifecycle_lease_seconds (je_settings env))))"

definition call_release :: "job_env \<Rightarrow> uuid \<Rightarrow> unit job" where
  "call_release env i = perform env (one_commit (\<lambda>db. ((), release i (je_owner env) db)))"

definition call_monitor :: "job_env \<Rightarrow> uuid \<Rightarrow> monitoring_fields \<Rightarrow> unit job" where
  "call_monitor env i m = perform env (one_commit (\<lambda>db. ((), update_monitoring_fields i m db)))"

definition call_insert :: "job_env \<Rightarrow> new_signal \<Rightarrow> bool job" where
  "call_insert env n = perform env (\<lambda>fault db.
     case insert_new (je_sha env) fault n (event_schema env) db of
       (Inl _, db') \<Rightarrow> (Inl Db_Raised, db') | (Inr created, db') \<Rightarrow> (Inr created, db'))"

definition call_apply ::
  "job_env \<Rightarrow> uuid \<Rightarrow> int \<Rightarrow> transition_step \<Rightarrow> datetime \<Rightarrow> string \<Rightarrow> transition_outcome job" where
  "call_apply env i v step now corr = perform env (\<lambda>fault db.
     case apply_transition fault i v step
            (build_transition_event (je_sha env) i step v (event_schema env) now corr) now db of
       (outcome, db') \<Rightarrow> (Inr outcome, db'))"

definition call_update :: "job_env \<Rightarrow> update_payload \<Rightarrow> bool job" where
  "call_update env u = perform env (one_commit (add_update u))"

definition call_reject :: "job_env \<Rightarrow> signal_rejection \<Rightarrow> bool job" where
  "call_reject env rj = perform env (one_commit
     (record_rejection rj (lifecycle_rejection_persist_seconds (je_settings env))))"

section \<open>Reading the context\<close>

definition look_at_market :: "job_env \<Rightarrow> int \<Rightarrow> market_state_snapshot job" where
  "look_at_market env i w =
     (let (mk, s) = live_market_state (je_settings env) (je_adapters env) (je_quality env) i (jw_market w)
      in (Inr mk, w\<lparr>jw_market := s\<rparr>))"

definition fetch_market_state :: "job_env \<Rightarrow> int \<Rightarrow> int \<Rightarrow> datetime \<Rightarrow> market_state_snapshot job" where
  "fetch_market_state env pk i as_of =
     and_then (look_at_market env i) (\<lambda>mk.
     and_then (read_table env so_candles) (\<lambda>candles.
     pure_action (with_candle (last_closed_5m candles pk as_of) mk)))"

definition fetch_opposing :: "job_env \<Rightarrow> signal_snapshot \<Rightarrow> string list job" where
  "fetch_opposing env sg =
     (if sg_entry_confirmed_at sg = None then pure_action []
      else and_then (read_table env so_structure) (\<lambda>rows. pure_action (opposing_structure_events rows sg)))"

definition fetch_monitor_context ::
  "job_env \<Rightarrow> lifecycle_row \<Rightarrow> watch_entry option \<Rightarrow> bool \<Rightarrow> datetime \<Rightarrow> monitor_context job" where
  "fetch_monitor_context env row entry paused as_of =
     (let sg = signal_snapshot_from_record row in
      and_then (read_table env so_plans) (\<lambda>plans.
      and_then (read_table env so_candidates) (\<lambda>candidates.
      and_then (fetch_market_state env (sg_instrument_pk sg) (sg_instrument_id sg) as_of) (\<lambda>market.
      and_then (fetch_opposing env sg) (\<lambda>opposing.
      pure_action (monitor_context_of sg (plan_relations plans sg)
        (candidate_state candidates (sg_candidate_id sg)) market opposing entry paused as_of))))))"

section \<open>Recording\<close>

definition persist_rejection :: "job_env \<Rightarrow> signal_rejection \<Rightarrow> unit job" where
  "persist_rejection env rj =
     and_then (job_step (\<lambda>j. j\<lparr>js_admission_rejections_total :=
         js_admission_rejections_total j + (if rj_signal_id rj = None then 1 else 0)\<rparr>)) (\<lambda>_.
     on_error (and_then (call_reject env rj) (\<lambda>_. pure_action ())) (\<lambda>_. set_degraded))"

fun persist_updates ::
  "job_env \<Rightarrow> uuid \<Rightarrow> datetime \<Rightarrow> (signal_update_type \<times> string) list \<Rightarrow> unit job" where
  "persist_updates env i now [] = pure_action ()"
| "persist_updates env i now ((ty, detail) # us) =
     on_error
       (and_then (call_update env (build_update (je_sha env) i ty detail
          (lifecycle_update_schema_version (je_settings env)) now
          (lifecycle_dedupe_seconds (je_settings env))))
        (\<lambda>_. persist_updates env i now us))
       (\<lambda>_. set_degraded)"

definition lifecycle_rejection ::
  "job_env \<Rightarrow> nat \<Rightarrow> lifecycle_row \<Rightarrow> signal_rejection_code \<Rightarrow> string \<Rightarrow> datetime \<Rightarrow> signal_rejection" where
  "lifecycle_rejection env n row code detail now =
     (let new = lr_new row in
      build_lifecycle_rejection (je_fresh env n) (lr_id row) (Some (ns_plan_id new))
        (Some (ns_candidate_id new)) (ns_instrument_pk new) (ns_symbol new) code detail
        (lifecycle_model_version (je_settings env)) (je_config_hash env) now)"

definition reject_row ::
  "job_env \<Rightarrow> lifecycle_row \<Rightarrow> signal_rejection_code \<Rightarrow> string \<Rightarrow> datetime \<Rightarrow> unit job" where
  "reject_row env row code detail now w =
     persist_rejection env (lifecycle_rejection env (jw_calls w) row code detail now) w"

definition conflict_detail :: "int \<Rightarrow> transition_step \<Rightarrow> string" where
  "conflict_detail expected step =
     ''optimistic lock lost at version '' @ str_int expected @ '' for '' @
     state_value (ts_from_state step) @ '' -> '' @ state_value (ts_to_state step)"

section \<open>Monitoring one signal\<close>

text \<open>The loop over the steps: numbers of applied transitions and of conflicts.\<close>

fun apply_steps ::
  "job_env \<Rightarrow> lifecycle_row \<Rightarrow> datetime \<Rightarrow> int \<Rightarrow> nat \<Rightarrow> transition_step list \<Rightarrow> (nat \<times> nat) job" where
  "apply_steps env row now expected applied [] = pure_action (applied, 0)"
| "apply_steps env row now expected applied (step # steps) =
     and_then (call_apply env (lr_id row) expected step now (ns_correlation_id (lr_new row))) (\<lambda>outcome.
       case outcome of
         APPLIED \<Rightarrow>
           and_then (job_step (\<lambda>j. j\<lparr>js_transitions_total := js_transitions_total j + 1\<rparr>)) (\<lambda>_.
           apply_steps env row now (expected + 1) (Suc applied) steps)
       | CONFLICT \<Rightarrow>
           and_then (job_step (\<lambda>j. j\<lparr>js_conflicts_total := js_conflicts_total j + 1\<rparr>)) (\<lambda>_.
           and_then (reject_row env row RC_STATE_VERSION_CONFLICT (conflict_detail expected step) now) (\<lambda>_.
           pure_action (applied, 1)))
       | FAILED \<Rightarrow> and_then set_degraded (\<lambda>_. pure_action (applied, 0))
       | NOT_FOUND \<Rightarrow> pure_action (applied, 0))"

definition monitoring_of :: "monitor_context \<Rightarrow> datetime \<Rightarrow> monitoring_fields" where
  "monitoring_of c now =
     (let healthy = market_healthy (mc_market c) in
      \<lparr>md_last_evaluated_at = now, md_last_market_data_at = mk_snapshot_at (mc_market c),
       md_data_quality_status = mk_data_quality_status (mc_market c),
       md_session_state = mc_session_state c,
       md_data_degraded_since = (if healthy then None
         else Some (case sg_data_degraded_since (mc_signal c) of Some t \<Rightarrow> t | None \<Rightarrow> now)),
       md_clear_degraded = healthy\<rparr>)"

definition run_engine :: "job_env \<Rightarrow> monitor_context \<Rightarrow> engine_result job" where
  "run_engine env c = (case evaluate_signal c (je_settings env) of
     Inl e \<Rightarrow> raise_error (Engine_Raised e) | Inr r \<Rightarrow> pure_action r)"

definition evaluate_row ::
  "job_env \<Rightarrow> lifecycle_row \<Rightarrow> watch_entry option \<Rightarrow> bool \<Rightarrow> datetime \<Rightarrow> (nat \<times> nat) job" where
  "evaluate_row env row entry paused now =
     and_then (fetch_monitor_context env row entry paused now) (\<lambda>context.
     and_then (run_engine env context) (\<lambda>result.
     and_then (if lifecycle_persist_updates (je_settings env)
               then persist_updates env (lr_id row) now (er_updates result) else pure_action ()) (\<lambda>_.
     and_then (case er_suppressed_findings result of [] \<Rightarrow> pure_action ()
               | s # _ \<Rightarrow> reject_row env row RC_INVALID_TRANSITION (je_describe env s) now) (\<lambda>_.
     and_then (apply_steps env row now (lr_state_version row) 0 (er_transitions result)) (\<lambda>counts.
     and_then (suppressed (call_monitor env (lr_id row) (monitoring_of context now))) (\<lambda>_.
     pure_action counts))))))"

text \<open>The body of \<open>monitor_one\<close>: whether the row was evaluated, and the counts.\<close>

definition monitor_failed :: "(nat \<times> nat \<times> nat) job" where
  "monitor_failed =
     and_then (job_step (\<lambda>j. j\<lparr>js_degraded := True,
         js_monitor_failures_total := js_monitor_failures_total j + 1\<rparr>)) (\<lambda>_.
     pure_action (0, 0, 0))"

definition monitor_one ::
  "job_env \<Rightarrow> (int \<times> watch_entry) list \<Rightarrow> bool \<Rightarrow> datetime \<Rightarrow> lifecycle_row \<Rightarrow> (nat \<times> nat \<times> nat) job" where
  "monitor_one env watchlist paused now row =
     on_error
       (and_then (call_claim env (lr_id row) now) (\<lambda>claimed.
        if \<not> claimed then pure_action (0, 0, 0)
        else
          and_then
            (on_error
              (and_then (evaluate_row env row
                 (map_of watchlist (ns_instrument_pk (lr_new row))) paused now) (\<lambda>(applied, conflicts).
               pure_action (1, applied, conflicts)))
              (\<lambda>_. monitor_failed)) (\<lambda>counts.
          and_then (suppressed (call_release env (lr_id row))) (\<lambda>_.
          pure_action counts))))
       (\<lambda>_. monitor_failed)"

fun monitor_rows ::
  "job_env \<Rightarrow> (int \<times> watch_entry) list \<Rightarrow> bool \<Rightarrow> datetime \<Rightarrow> lifecycle_row list \<Rightarrow> (nat \<times> nat \<times> nat) job"
where
  "monitor_rows env watchlist paused now [] = pure_action (0, 0, 0)"
| "monitor_rows env watchlist paused now (row # rows) =
     and_then (monitor_one env watchlist paused now row) (\<lambda>(e, a, c).
     and_then (monitor_rows env watchlist paused now rows) (\<lambda>(e', a', c').
     pure_action (e + e', a + a', c + c')))"

text \<open>\<open>None\<close> when the load failed.\<close>

definition load_or_degrade :: "'a job \<Rightarrow> 'a option job" where
  "load_or_degrade m =
     on_error (and_then m (\<lambda>x. pure_action (Some x)))
       (\<lambda>_. and_then set_degraded (\<lambda>_. pure_action None))"

definition monitor_phase ::
  "job_env \<Rightarrow> (int \<times> watch_entry) list \<Rightarrow> bool \<Rightarrow> datetime \<Rightarrow> (nat \<times> nat \<times> nat) job" where
  "monitor_phase env watchlist paused now =
     and_then (load_or_degrade (perform env (query non_terminal))) (\<lambda>loaded.
       case loaded of
         None \<Rightarrow> pure_action (0, 0, 0)
       | Some rows \<Rightarrow>
           and_then (suppressed (and_then (perform env (query (expired_lease_count now)))
                       (\<lambda>_. pure_action ()))) (\<lambda>_.
           monitor_rows env watchlist paused now rows))"

section \<open>Admission\<close>

datatype admission_outcome = Created | Rejected | Skipped

definition plan_rejection ::
  "job_env \<Rightarrow> nat \<Rightarrow> risk_plan_row \<Rightarrow> signal_rejection_code \<Rightarrow> string \<Rightarrow> datetime \<Rightarrow> signal_rejection" where
  "plan_rejection env n row code detail now =
     \<lparr>rj_rejection_id = je_fresh env n, rj_plan_id = Some (rp_id row),
      rj_candidate_id = Some (rp_candidate_id row), rj_signal_id = None,
      rj_instrument_pk = rp_instrument_pk row, rj_symbol = rp_symbol row, rj_as_of = now,
      rj_primary_code = code, rj_codes = [code], rj_detail = detail,
      rj_lifecycle_model_version = lifecycle_model_version (je_settings env),
      rj_lifecycle_config_hash = je_config_hash env\<rparr>"

definition record_plan_rejection ::
  "job_env \<Rightarrow> risk_plan_row \<Rightarrow> signal_rejection_code \<Rightarrow> string \<Rightarrow> datetime \<Rightarrow> unit job" where
  "record_plan_rejection env row code detail now w =
     persist_rejection env (plan_rejection env (jw_calls w) row code detail now) w"

definition fetch_admission_context ::
  "job_env \<Rightarrow> plan_snapshot \<Rightarrow> watch_entry option \<Rightarrow> datetime \<Rightarrow> admission_context job" where
  "fetch_admission_context env plan entry now =
     (let key = signal_dedupe_key (je_sha env) (str_uuid (ps_plan_id plan)) (str_uuid (ps_candidate_id plan))
            (lifecycle_model_version (je_settings env)) (je_config_hash env);
          (session_state, session_allowed, active, score) = session_of entry in
      and_then (read_table env so_candidates) (\<lambda>candidates.
      and_then (fetch_market_state env (ps_instrument_pk plan) (ps_instrument_id plan) now) (\<lambda>market.
      and_then (perform env (query (active_count_for_instrument (ps_instrument_pk plan)))) (\<lambda>count.
      and_then (perform env (query (active_by_dedupe_key key))) (\<lambda>duplicate.
      and_then (read_table env so_risk_snapshots) (\<lambda>snapshots.
      pure_action
        \<lparr>ac_plan = plan, ac_candidate = candidate_state candidates (ps_candidate_id plan),
         ac_market = market, ac_session_state = session_state, ac_session_allowed = session_allowed,
         ac_watchlist_active = active, ac_market_quality_score = score, ac_bot_paused = False,
         ac_active_signal_count = int count, ac_duplicate_exists = (duplicate \<noteq> None),
         ac_instrument_snapshot_age_seconds =
           instrument_snapshot_age_seconds snapshots (ps_instrument_pk plan) now,
         ac_as_of = now\<rparr>))))))"

definition refuse_plan ::
  "job_env \<Rightarrow> plan_snapshot \<Rightarrow> admission_decision \<Rightarrow> datetime \<Rightarrow> unit job" where
  "refuse_plan env plan decision now w =
     persist_rejection env (build_admission_rejection (je_fresh env (jw_calls w)) plan
       (the (ad_code decision)) (ad_detail decision) (lifecycle_model_version (je_settings env))
       (je_config_hash env) now) w"

definition create_signal ::
  "job_env \<Rightarrow> plan_snapshot \<Rightarrow> admission_decision \<Rightarrow> datetime \<Rightarrow> bool job" where
  "create_signal env plan decision now w =
     call_insert env (new_signal_from_plan (je_sha env) (je_fresh env (jw_calls w)) plan
       (the (ad_trigger decision)) (je_settings env) (je_config_hash env)
       (ad_approximation_flags decision) now (je_correlation env (jw_calls w))) w"

definition admit_plan_row ::
  "job_env \<Rightarrow> risk_plan_row \<Rightarrow> (int \<times> watch_entry) list \<Rightarrow> datetime \<Rightarrow> admission_outcome job" where
  "admit_plan_row env row watchlist now =
     and_then (perform env (query (signal_exists_for_plan (rp_id row)))) (\<lambda>already.
     if already then pure_action Skipped
     else case plan_snapshot_from_record row of
       None \<Rightarrow>
         and_then (record_plan_rejection env row RC_ADMISSION_CONFIGURATION_INVALID
           ''plan payload carries no complete model reference levels'' now) (\<lambda>_.
         pure_action Rejected)
     | Some plan \<Rightarrow>
         and_then (fetch_admission_context env plan (map_of watchlist (ps_instrument_pk plan)) now) (\<lambda>c.
         let decision = admit c (je_settings env) in
         if \<not> ad_admitted decision then
           and_then (refuse_plan env plan decision now) (\<lambda>_. pure_action Rejected)
         else
           and_then (create_signal env plan decision now) (\<lambda>created.
           if \<not> created then pure_action Skipped
           else
             and_then (job_step (\<lambda>j. j\<lparr>js_admissions_total := js_admissions_total j + 1\<rparr>)) (\<lambda>_.
             pure_action Created))))"

fun error_name :: "job_env \<Rightarrow> job_error \<Rightarrow> string" where
  "error_name env Db_Raised = je_db_exception env"
| "error_name env (Engine_Raised (KeyError k)) = ''KeyError''"

definition admit_row_guarded ::
  "job_env \<Rightarrow> (int \<times> watch_entry) list \<Rightarrow> datetime \<Rightarrow> risk_plan_row \<Rightarrow> admission_outcome job" where
  "admit_row_guarded env watchlist now row =
     on_error (admit_plan_row env row watchlist now) (\<lambda>e.
       and_then set_degraded (\<lambda>_.
       and_then (suppressed (record_plan_rejection env row RC_ADMISSION_ERROR
         (''admission failed: '' @ error_name env e) now)) (\<lambda>_.
       pure_action Rejected)))"

fun admit_rows ::
  "job_env \<Rightarrow> (int \<times> watch_entry) list \<Rightarrow> datetime \<Rightarrow> risk_plan_row list \<Rightarrow> (nat \<times> nat \<times> nat) job" where
  "admit_rows env watchlist now [] = pure_action (0, 0, 0)"
| "admit_rows env watchlist now (row # rows) =
     and_then (admit_row_guarded env watchlist now row) (\<lambda>outcome.
     and_then (admit_rows env watchlist now rows) (\<lambda>(a, r, s).
     pure_action (case outcome of
       Created \<Rightarrow> (Suc a, r, s) | Rejected \<Rightarrow> (a, Suc r, s) | Skipped \<Rightarrow> (a, r, Suc s))))"

definition admission_phase ::
  "job_env \<Rightarrow> (int \<times> watch_entry) list \<Rightarrow> datetime \<Rightarrow> (nat \<times> nat \<times> nat) job" where
  "admission_phase env watchlist now =
     and_then (load_or_degrade (read_table env (\<lambda>so. active_plans (so_plans so)))) (\<lambda>loaded.
       case loaded of
         None \<Rightarrow> pure_action (0, 0, 0)
       | Some plans \<Rightarrow> admit_rows env watchlist now plans)"

section \<open>A cycle\<close>

definition finish_cycle :: "datetime \<Rightarrow> run_summary \<Rightarrow> run_summary job" where
  "finish_cycle now summary =
     and_then (job_step (\<lambda>j. j\<lparr>js_last_run_at := Some now, js_last_run_summary := Some summary,
         js_last_success_at := (if js_degraded j then js_last_success_at j else Some now)\<rparr>)) (\<lambda>_.
     pure_action summary)"

definition cycle :: "job_env \<Rightarrow> bool \<Rightarrow> (int \<times> watch_entry) list \<Rightarrow> datetime \<Rightarrow> run_summary job" where
  "cycle env paused watchlist now =
     and_then (job_step (\<lambda>j. j\<lparr>js_degraded := False\<rparr>)) (\<lambda>_.
     and_then (if paused then pure_action (0, 0, 0) else admission_phase env watchlist now) (\<lambda>(a, r, s).
     and_then (monitor_phase env watchlist paused now) (\<lambda>(e, t, c).
     finish_cycle now
       \<lparr>rs_run_at = now, rs_paused = paused, rs_admitted = a, rs_admission_rejected = r,
        rs_admission_skipped = s, rs_signals_evaluated = e, rs_transitions_applied = t,
        rs_version_conflicts = c\<rparr>)))"

text \<open>Without a bot state service the job is not paused; reading the pause state never raises.\<close>

definition effective_pause :: "bool \<Rightarrow> persisted_pause option \<Rightarrow> bot_state option \<Rightarrow> bool" where
  "effective_pause up stored service = (case service of None \<Rightarrow> False | Some b \<Rightarrow> fst (is_paused up stored b))"

text \<open>A trigger while a cycle is running returns the last summary.\<close>

definition run_once ::
  "bool \<Rightarrow> job_env \<Rightarrow> bool \<Rightarrow> (int \<times> watch_entry) list \<Rightarrow> datetime \<Rightarrow> run_summary option job" where
  "run_once locked env paused watchlist now w =
     (if locked then (Inr (js_last_run_summary (jw_job w)), w)
      else and_then (cycle env paused watchlist now) (\<lambda>s. pure_action (Some s)) w)"

datatype subsystem_state = SUB_DISABLED | SUB_HEALTHY | SUB_DEGRADED | SUB_UNAVAILABLE

definition subsystem_state :: "signal_settings \<Rightarrow> bool \<Rightarrow> job_state \<Rightarrow> subsystem_state" where
  "subsystem_state st alive j =
     (if \<not> lifecycle_enabled st then SUB_DISABLED else if \<not> alive then SUB_UNAVAILABLE
      else if js_degraded j then SUB_DEGRADED else SUB_HEALTHY)"

end
