(* ===== verification/Job_Safety.thy ===== *)
theory Job_Safety
  imports Signal_Job
begin

text \<open>
  What the lifecycle job does to the tables whatever fails and whatever other workers do meanwhile: every
  cycle is a sequence of legal calls, so the table stays sound; a transition is counted as applied only
  if the version advanced; a paused cycle admits nothing and confirms no entry; and a cycle always
  returns.
\<close>

section \<open>Cycles as sequences of calls\<close>

text \<open>The database moves by calls that all satisfy \<open>P\<close>.\<close>

definition moved :: "(db_op \<Rightarrow> bool) \<Rightarrow> job_env \<Rightarrow> job_world \<Rightarrow> job_world \<Rightarrow> bool" where
  "moved P env w w' \<longleftrightarrow> (\<exists>ops. list_all P ops \<and>
     jw_db w' = run (je_sha env) (event_schema env) ops (jw_db w))"

interpretation moves: effect_order "moved P env" for P env
proof (unfold_locales, goal_cases)
  case (1 w)
  then show ?case by (auto simp: moved_def intro: exI [of _ "[]"])
next
  case (2 w w' w'')
  then obtain ops ops' where "list_all P ops" "list_all P ops'"
    "jw_db w' = run (je_sha env) (event_schema env) ops (jw_db w)"
    "jw_db w'' = run (je_sha env) (event_schema env) ops' (jw_db w')" by (auto simp: moved_def)
  then show ?case by (auto simp: moved_def intro!: exI [of _ "ops @ ops'"])
qed

text \<open>A statement function that amounts to calls satisfying \<open>P\<close>, whatever fault it meets.\<close>

definition runs_as ::
  "(db_op \<Rightarrow> bool) \<Rightarrow> job_env \<Rightarrow> (db_fault \<Rightarrow> signal_db \<Rightarrow> 'r \<times> signal_db) \<Rightarrow> bool" where
  "runs_as P env f \<longleftrightarrow> (\<forall>fault db. \<exists>ops. list_all P ops \<and>
     snd (f fault db) = run (je_sha env) (event_schema env) ops db)"

lemma runs_as_nothing: "(\<And>fault db. snd (f fault db) = db) \<Longrightarrow> runs_as P env f"
  by (auto simp: runs_as_def intro: exI [of _ "[]"])

lemma runs_as_op:
  assumes "\<And>fault db. snd (f fault db) \<in> {db, exec (je_sha env) (event_schema env) (op fault) db}"
    and "\<And>fault. P (op fault)"
  shows "runs_as P env f"
  unfolding runs_as_def
proof (intro allI)
  fix fault db
  show "\<exists>ops. list_all P ops \<and> snd (f fault db) = run (je_sha env) (event_schema env) ops db"
    using assms(1) [of fault db] assms(2) [of fault]
    by (auto intro: exI [of _ "[]"] exI [of _ "[op fault]"])
qed

definition script_ops :: "(db_op \<Rightarrow> bool) \<Rightarrow> job_env \<Rightarrow> bool" where
  "script_ops P env \<longleftrightarrow> (\<forall>n. list_all P (dc_others (je_script env n)))"

lemma perform_moves:
  assumes "script_ops P env" "runs_as P env f"
  shows "keeps (moved P env) (perform env f)"
  unfolding keeps_def
proof
  fix w :: job_world
  let ?c = "je_script env (jw_calls w)"
  let ?db = "run (je_sha env) (event_schema env) (dc_others ?c) (jw_db w)"
  obtain ops where ops: "list_all P ops"
    "snd (f (dc_fault ?c) ?db) = run (je_sha env) (event_schema env) ops ?db"
    using assms(2) by (auto simp: runs_as_def)
  have "jw_db (snd (perform env f w)) = snd (f (dc_fault ?c) ?db)"
    by (simp add: perform_def before_call_def Let_def split: prod.split)
  with ops assms(1) show "moved P env w (snd (perform env f w))"
    by (auto simp: moved_def script_ops_def intro!: exI [of _ "dc_others ?c @ ops"])
qed

lemma modify_moves: "(\<And>w. jw_db (f w) = jw_db w) \<Longrightarrow> keeps (moved P env) (modify_state f)"
  by (intro moves.keeps_modify) (auto simp: moved_def intro: exI [of _ "[]"])

lemma job_step_moves: "keeps (moved P env) (job_step f)"
  by (simp add: job_step_def modify_moves)

lemma query_runs: "runs_as P env (query g)"
  by (rule runs_as_nothing) (simp add: query_def)

lemma one_commit_runs:
  assumes "\<And>db. snd (g db) = exec (je_sha env) (event_schema env) op db" "P op"
  shows "runs_as P env (one_commit g)"
  by (rule runs_as_op [where op = "\<lambda>_. op"]) (simp_all add: assms one_commit_def split: db_fault.split)

text \<open>The calls on one row that are neither an insertion nor a transition.\<close>

fun plain_on :: "uuid \<Rightarrow> db_op \<Rightarrow> bool" where
  "plain_on i (Op_Claim j owner now secs) \<longleftrightarrow> j = i"
| "plain_on i (Op_Release j owner) \<longleftrightarrow> j = i"
| "plain_on i (Op_Monitor j m) \<longleftrightarrow> j = i"
| "plain_on i (Op_Update u) \<longleftrightarrow> True"
| "plain_on i (Op_Reject rj v) \<longleftrightarrow> True"
| "plain_on i op \<longleftrightarrow> False"

lemma query_moves: "script_ops P env \<Longrightarrow> keeps (moved P env) (perform env (query g))"
  by (rule perform_moves [OF _ query_runs])

lemma read_table_moves: "script_ops P env \<Longrightarrow> keeps (moved P env) (read_table env sel)"
  unfolding read_table_def by (rule keeps_at) (rule query_moves)

lemma claim_moves: "script_ops P env \<Longrightarrow> (\<And>j v s. P (Op_Claim i j v s)) \<Longrightarrow> keeps (moved P env) (call_claim env i now)"
  unfolding call_claim_def
  by (rule perform_moves [OF _ one_commit_runs
        [where op = "Op_Claim i (je_owner env) now (lifecycle_lease_seconds (je_settings env))"]]) simp_all

lemma release_moves: "script_ops P env \<Longrightarrow> P (Op_Release i (je_owner env)) \<Longrightarrow> keeps (moved P env) (call_release env i)"
  unfolding call_release_def
  by (rule perform_moves [OF _ one_commit_runs [where op = "Op_Release i (je_owner env)"]]) simp_all

lemma monitor_moves: "script_ops P env \<Longrightarrow> P (Op_Monitor i m) \<Longrightarrow> keeps (moved P env) (call_monitor env i m)"
  unfolding call_monitor_def
  by (rule perform_moves [OF _ one_commit_runs [where op = "Op_Monitor i m"]]) simp_all

lemma update_moves: "script_ops P env \<Longrightarrow> P (Op_Update u) \<Longrightarrow> keeps (moved P env) (call_update env u)"
  unfolding call_update_def
  by (rule perform_moves [OF _ one_commit_runs [where op = "Op_Update u"]]) simp_all

lemma reject_moves: "script_ops P env \<Longrightarrow> (\<And>v. P (Op_Reject rj v)) \<Longrightarrow> keeps (moved P env) (call_reject env rj)"
  unfolding call_reject_def
  by (rule perform_moves [OF _ one_commit_runs
        [where op = "Op_Reject rj (lifecycle_rejection_persist_seconds (je_settings env))"]]) simp_all

lemma insert_moves: "script_ops P env \<Longrightarrow> (\<And>fault. P (Op_Insert fault n)) \<Longrightarrow> keeps (moved P env) (call_insert env n)"
  unfolding call_insert_def
  by (rule perform_moves, assumption, rule runs_as_op [where op = "\<lambda>fault. Op_Insert fault n"])
    (auto simp: event_schema_def split: prod.split sum.split)

lemma apply_moves: "script_ops P env \<Longrightarrow> (\<And>fault. P (Op_Apply fault i v step now corr)) \<Longrightarrow>
     keeps (moved P env) (call_apply env i v step now corr)"
  unfolding call_apply_def
  by (rule perform_moves, assumption, rule runs_as_op [where op = "\<lambda>fault. Op_Apply fault i v step now corr"])
    (auto simp: event_schema_def split: prod.split)


section \<open>Moves of the parts of a cycle\<close>

definition permits :: "(db_op \<Rightarrow> bool) \<Rightarrow> uuid \<Rightarrow> bool" where
  "permits P i \<longleftrightarrow> (\<forall>op. plain_on i op \<longrightarrow> P op)"

lemma permitsD:
  "permits P i \<Longrightarrow> P (Op_Claim i owner now secs)" "permits P i \<Longrightarrow> P (Op_Release i owner)"
  "permits P i \<Longrightarrow> P (Op_Monitor i m)" "permits P i \<Longrightarrow> P (Op_Update u)" "permits P i \<Longrightarrow> P (Op_Reject rj v)"
  by (simp_all add: permits_def)

lemmas call_moves = query_moves read_table_moves claim_moves release_moves monitor_moves update_moves
  reject_moves insert_moves apply_moves job_step_moves

lemma set_degraded_moves: "keeps (moved P env) set_degraded"
  by (simp add: set_degraded_def job_step_moves)

lemma look_moves: "keeps (moved P env) (look_at_market env i)"
  by (auto simp: keeps_def look_at_market_def moved_def split: prod.split intro: exI [of _ "[]"])

lemma fetch_market_moves: "script_ops P env \<Longrightarrow> keeps (moved P env) (fetch_market_state env pk i as_of)"
  unfolding fetch_market_state_def by (intro moves.keeps_rules look_moves read_table_moves)

lemma fetch_context_moves:
  "script_ops P env \<Longrightarrow> keeps (moved P env) (fetch_monitor_context env row entry paused as_of)"
  unfolding fetch_monitor_context_def fetch_opposing_def Let_def
  by (intro moves.keeps_rules read_table_moves fetch_market_moves)

lemma fetch_admission_moves:
  "script_ops P env \<Longrightarrow> keeps (moved P env) (fetch_admission_context env plan entry now)"
  unfolding fetch_admission_context_def Let_def
  by (cases "session_of entry") (simp, intro moves.keeps_rules read_table_moves fetch_market_moves query_moves)

lemma persist_rejection_moves:
  "script_ops P env \<Longrightarrow> (\<And>v. P (Op_Reject rj v)) \<Longrightarrow> keeps (moved P env) (persist_rejection env rj)"
  unfolding persist_rejection_def
  by (intro moves.keeps_rules job_step_moves set_degraded_moves reject_moves)

lemma reject_row_moves:
  "script_ops P env \<Longrightarrow> (\<And>rj v. P (Op_Reject rj v)) \<Longrightarrow>
     keeps (moved P env) (reject_row env row code detail now)"
  unfolding reject_row_def by (rule keeps_at) (rule persist_rejection_moves)

lemma persist_updates_moves:
  "script_ops P env \<Longrightarrow> (\<And>u. P (Op_Update u)) \<Longrightarrow> keeps (moved P env) (persist_updates env i now us)"
proof (induction us)
  case (Cons u us)
  then show ?case
    by (cases u) (simp, intro moves.keeps_rules update_moves set_degraded_moves)
qed (simp add: moves.keeps_pure)

lemma apply_steps_moves:
  assumes "script_ops P env" "permits P (lr_id row)"
    and "\<forall>step \<in> set steps. \<forall>fault v t corr. P (Op_Apply fault (lr_id row) v step t corr)"
  shows "keeps (moved P env) (apply_steps env row now expected applied steps)"
  using assms(3)
proof (induction steps arbitrary: expected applied)
  case (Cons step steps)
  have "keeps (moved P env) (call_apply env (lr_id row) expected step now (ns_correlation_id (lr_new row)))"
    using Cons.prems by (intro apply_moves assms(1)) simp
  moreover have "keeps (moved P env) (case outcome of
         APPLIED \<Rightarrow>
           and_then (job_step (\<lambda>j. j\<lparr>js_transitions_total := js_transitions_total j + 1\<rparr>)) (\<lambda>_.
           apply_steps env row now (expected + 1) (Suc applied) steps)
       | CONFLICT \<Rightarrow>
           and_then (job_step (\<lambda>j. j\<lparr>js_conflicts_total := js_conflicts_total j + 1\<rparr>)) (\<lambda>_.
           and_then (reject_row env row RC_STATE_VERSION_CONFLICT (conflict_detail expected step) now) (\<lambda>_.
           pure_action (applied, 1)))
       | FAILED \<Rightarrow> and_then set_degraded (\<lambda>_. pure_action (applied, 0))
       | NOT_FOUND \<Rightarrow> pure_action (applied, 0))" for outcome
    using Cons permitsD(5) [OF assms(2)]
    by (cases outcome)
      (auto intro!: moves.keeps_rules job_step_moves set_degraded_moves reject_row_moves assms(1))
  ultimately show ?case unfolding apply_steps.simps by (rule moves.keeps_and_then)
qed (simp add: moves.keeps_pure)

lemma context_values:
  "yields (fetch_monitor_context env row entry paused now)
     (\<lambda>c. mc_bot_paused c = paused \<and> mc_signal c = signal_snapshot_from_record row)"
  unfolding fetch_monitor_context_def Let_def
  by (intro yields_and_then yields_pure) (simp add: monitor_context_of_def Let_def split: prod.split)

lemma engine_values: "yields (run_engine env c) (\<lambda>r. evaluate_signal c (je_settings env) = Inr r)"
  by (auto simp: yields_def run_engine_def raise_error_def pure_action_def split: sum.splits)

lemma run_engine_moves: "keeps (moved P env) (run_engine env c)"
  by (simp add: run_engine_def moves.keeps_rules split: sum.split)

text \<open>The transitions the engine can propose for a row.\<close>

definition may_apply :: "(db_op \<Rightarrow> bool) \<Rightarrow> job_env \<Rightarrow> bool \<Rightarrow> lifecycle_row \<Rightarrow> bool" where
  "may_apply P env paused row \<longleftrightarrow> (\<forall>c r.
     mc_bot_paused c = paused \<and> mc_signal c = signal_snapshot_from_record row \<and>
     evaluate_signal c (je_settings env) = Inr r \<longrightarrow>
     (\<forall>step \<in> set (er_transitions r). \<forall>fault v t corr. P (Op_Apply fault (lr_id row) v step t corr)))"

lemma evaluate_row_moves:
  assumes P: "script_ops P env" "permits P (lr_id row)" "may_apply P env paused row"
  shows "keeps (moved P env) (evaluate_row env row entry paused now)"
  unfolding evaluate_row_def
proof (rule moves.keeps_and_then_value [OF fetch_context_moves [OF P(1)] context_values],
    rule moves.keeps_and_then_value [OF run_engine_moves engine_values])
  fix c r
  assume "mc_bot_paused c = paused \<and> mc_signal c = signal_snapshot_from_record row"
    "evaluate_signal c (je_settings env) = Inr r"
  then have "\<forall>step \<in> set (er_transitions r). \<forall>fault v t corr. P (Op_Apply fault (lr_id row) v step t corr)"
    using P(3) unfolding may_apply_def by blast
  moreover have "keeps (moved P env) (case er_suppressed_findings r of [] \<Rightarrow> pure_action ()
      | s # _ \<Rightarrow> reject_row env row RC_INVALID_TRANSITION (je_describe env s) now)"
    using permitsD(5) [OF P(2)] by (auto intro: moves.keeps_rules reject_row_moves P(1) split: list.split)
  ultimately show "keeps (moved P env) (and_then (if lifecycle_persist_updates (je_settings env)
      then persist_updates env (lr_id row) now (er_updates r) else pure_action ()) (\<lambda>_.
     and_then (case er_suppressed_findings r of [] \<Rightarrow> pure_action ()
      | s # _ \<Rightarrow> reject_row env row RC_INVALID_TRANSITION (je_describe env s) now) (\<lambda>_.
     and_then (apply_steps env row now (lr_state_version row) 0 (er_transitions r)) (\<lambda>counts.
     and_then (suppressed (call_monitor env (lr_id row) (monitoring_of c now))) (\<lambda>_.
     pure_action counts)))))"
    using permitsD [OF P(2)]
    by (intro moves.keeps_rules persist_updates_moves apply_steps_moves monitor_moves P)
qed

lemma monitor_failed_moves: "keeps (moved P env) monitor_failed"
  unfolding monitor_failed_def by (intro moves.keeps_rules job_step_moves)

lemma monitor_one_moves:
  assumes P: "script_ops P env" "permits P (lr_id row)" "may_apply P env paused row"
  shows "keeps (moved P env) (monitor_one env watchlist paused now row)"
proof -
  have pair: "keeps (moved P env) (case x of (applied, conflicts) \<Rightarrow> pure_action (1, applied, conflicts))"
    for x :: "nat \<times> nat" by (cases x) (simp add: moves.keeps_pure)
  show ?thesis
    unfolding monitor_one_def using permitsD [OF P(2)]
    by (intro moves.keeps_rules claim_moves evaluate_row_moves [OF P] pair monitor_failed_moves
        release_moves P(1))
qed

lemma keeps_triple:
  "(\<And>a b c. keeps R (f a b c)) \<Longrightarrow> keeps R (case x of (a, b, c) \<Rightarrow> f a b c)"
  by (cases x) simp

lemma monitor_rows_moves:
  assumes "script_ops P env"
    and "\<forall>row \<in> set rows. permits P (lr_id row) \<and> may_apply P env paused row"
  shows "keeps (moved P env) (monitor_rows env watchlist paused now rows)"
  using assms(2)
proof (induction rows)
  case (Cons row rows)
  have "keeps (moved P env) (monitor_one env watchlist paused now row)"
    using Cons.prems by (intro monitor_one_moves assms(1)) simp_all
  moreover have "keeps (moved P env) (monitor_rows env watchlist paused now rows)"
    using Cons by simp
  ultimately show ?case
    by (simp, intro moves.keeps_and_then) (auto intro!: keeps_triple moves.keeps_and_then moves.keeps_pure)
qed (simp add: moves.keeps_pure)


lemma load_or_degrade_moves: "keeps (moved P env) m \<Longrightarrow> keeps (moved P env) (load_or_degrade m)"
  unfolding load_or_degrade_def by (intro moves.keeps_rules set_degraded_moves)

lemma monitor_phase_moves:
  assumes "script_ops P env" "\<And>row. permits P (lr_id row)" "\<And>row. may_apply P env paused row"
  shows "keeps (moved P env) (monitor_phase env watchlist paused now)"
proof -
  have "keeps (moved P env) (case loaded of None \<Rightarrow> pure_action (0, 0, 0)
       | Some rows \<Rightarrow> and_then (suppressed (and_then (perform env (query (expired_lease_count now)))
                       (\<lambda>_. pure_action ()))) (\<lambda>_. monitor_rows env watchlist paused now rows))" for loaded
    using assms by (cases loaded)
      (auto intro!: moves.keeps_rules query_moves monitor_rows_moves)
  then show ?thesis
    unfolding monitor_phase_def
    by (intro moves.keeps_and_then load_or_degrade_moves query_moves assms(1))
qed

lemma admit_plan_row_moves:
  assumes P: "script_ops P env" "\<And>rj v. P (Op_Reject rj v)"
    "\<And>fault n. ns_state n = WATCHING_ENTRY \<Longrightarrow> P (Op_Insert fault n)"
  shows "keeps (moved P env) (admit_plan_row env row watchlist now)"
proof -
  have rejection: "keeps (moved P env) (record_plan_rejection env row code detail now)" for code detail
    unfolding record_plan_rejection_def by (rule keeps_at) (intro persist_rejection_moves P)
  have refusal: "keeps (moved P env) (refuse_plan env plan decision now)" for plan decision
    unfolding refuse_plan_def by (rule keeps_at) (intro persist_rejection_moves P)
  have creation: "keeps (moved P env) (create_signal env plan decision now)" for plan decision
  proof -
    have "ns_state (new_signal_from_plan (je_sha env) u plan t (je_settings env) h flags now corr)
      = WATCHING_ENTRY" for u t h flags corr
      by (simp add: new_signal_from_plan_def)
    then have "keeps (moved P env) (call_insert env
      (new_signal_from_plan (je_sha env) u plan t (je_settings env) h flags now corr))" for u t h flags corr
      by (intro insert_moves P)
    then show ?thesis by (simp add: keeps_def create_signal_def)
  qed
  have decided: "keeps (moved P env) (if \<not> ad_admitted decision then
           and_then (refuse_plan env plan decision now) (\<lambda>_. pure_action Rejected)
         else and_then (create_signal env plan decision now) (\<lambda>created.
           if \<not> created then pure_action Skipped
           else and_then (job_step (\<lambda>j. j\<lparr>js_admissions_total := js_admissions_total j + 1\<rparr>)) (\<lambda>_.
             pure_action Created)))" for plan decision
    by (intro moves.keeps_rules refusal creation job_step_moves)
  have "keeps (moved P env) (case plan_snapshot_from_record row of
       None \<Rightarrow>
         and_then (record_plan_rejection env row RC_ADMISSION_CONFIGURATION_INVALID
           ''plan payload carries no complete model reference levels'' now) (\<lambda>_.
         pure_action Rejected)
     | Some plan \<Rightarrow>
         and_then (fetch_admission_context env plan (map_of watchlist (ps_instrument_pk plan)) now) (\<lambda>c.
         let decision = admit c (je_settings env) in
         if \<not> ad_admitted decision then
           and_then (refuse_plan env plan decision now) (\<lambda>_. pure_action Rejected)
         else
           and_then (create_signal env plan decision now) (\<lambda>created.
           if \<not> created then pure_action Skipped
           else
             and_then (job_step (\<lambda>j. j\<lparr>js_admissions_total := js_admissions_total j + 1\<rparr>)) (\<lambda>_.
             pure_action Created))))"
    unfolding Let_def
    by (cases "plan_snapshot_from_record row")
      (auto intro!: moves.keeps_and_then moves.keeps_pure rejection fetch_admission_moves P(1) decided)
  then show ?thesis
    unfolding admit_plan_row_def
    by (intro moves.keeps_and_then moves.keeps_if moves.keeps_pure query_moves P(1))
qed

lemma admit_rows_moves:
  assumes P: "script_ops P env" "\<And>rj v. P (Op_Reject rj v)"
    "\<And>fault n. ns_state n = WATCHING_ENTRY \<Longrightarrow> P (Op_Insert fault n)"
  shows "keeps (moved P env) (admit_rows env watchlist now plans)"
proof (induction plans)
  case (Cons row plans)
  have "keeps (moved P env) (record_plan_rejection env row code detail now)" for code detail
    unfolding record_plan_rejection_def by (rule keeps_at) (intro persist_rejection_moves P)
  then have "keeps (moved P env) (admit_row_guarded env watchlist now row)"
    unfolding admit_row_guarded_def
    by (intro moves.keeps_rules admit_plan_row_moves P set_degraded_moves)
  with Cons show ?case
    by (simp, intro moves.keeps_and_then) (auto intro!: keeps_triple moves.keeps_and_then moves.keeps_pure)
qed (simp add: moves.keeps_pure)

lemma admission_phase_moves:
  assumes P: "script_ops P env" "\<And>rj v. P (Op_Reject rj v)"
    "\<And>fault n. ns_state n = WATCHING_ENTRY \<Longrightarrow> P (Op_Insert fault n)"
  shows "keeps (moved P env) (admission_phase env watchlist now)"
proof -
  have "keeps (moved P env) (case loaded of None \<Rightarrow> pure_action (0, 0, 0)
     | Some plans \<Rightarrow> admit_rows env watchlist now plans)" for loaded
    using admit_rows_moves [OF P] by (cases loaded) (simp_all add: moves.keeps_pure)
  then show ?thesis
    unfolding admission_phase_def
    by (intro moves.keeps_and_then load_or_degrade_moves read_table_moves P(1))
qed

text \<open>A paused cycle has no admission phase.\<close>

lemma cycle_moves:
  assumes P: "script_ops P env" "\<And>row. permits P (lr_id row)" "\<And>row. may_apply P env paused row"
    and insert: "\<And>fault n. \<not> paused \<Longrightarrow> ns_state n = WATCHING_ENTRY \<Longrightarrow> P (Op_Insert fault n)"
  shows "keeps (moved P env) (cycle env paused watchlist now)"
proof -
  have "P (Op_Reject rj v)" for rj v using P(2) by (simp add: permits_def)
  then have "keeps (moved P env) (if paused then pure_action (0, 0, 0) else admission_phase env watchlist now)"
    using insert by (auto intro!: moves.keeps_rules admission_phase_moves P(1))
  moreover have "keeps (moved P env) (monitor_phase env watchlist paused now)"
    by (rule monitor_phase_moves [OF P])
  moreover have "keeps (moved P env) (finish_cycle now summary)" for summary
    unfolding finish_cycle_def by (intro moves.keeps_rules job_step_moves)
  ultimately show ?thesis
    unfolding cycle_def
    by (intro moves.keeps_and_then job_step_moves keeps_triple)
qed

section \<open>The steps of an evaluation\<close>

lemma walk_steps_legal:
  "walk transitions s (map ts_to_state steps) \<Longrightarrow>
     map ts_from_state steps = take (length steps) (s # map ts_to_state steps) \<Longrightarrow>
     \<forall>step \<in> set steps. ts_to_state step \<in> transitions (ts_from_state step)"
proof (induction steps arbitrary: s)
  case (Cons step steps)
  then show ?case by (cases steps) auto
qed simp

lemma engine_steps_legal:
  assumes "validate_priorities (monitor_event_priority st)" "evaluate_signal c st = Inr r"
  shows "\<forall>step \<in> set (er_transitions r). ts_to_state step \<in> transitions (ts_from_state step)"
proof -
  have "walk transitions (sg_state (mc_signal c)) (map ts_to_state (er_transitions r)) \<and>
      map ts_from_state (er_transitions r)
      = take (length (er_transitions r)) (sg_state (mc_signal c) # map ts_to_state (er_transitions r))"
    using evaluation_legal [OF assms(1), of c] assms(2) by auto
  then show ?thesis using walk_steps_legal by blast
qed

lemma entry_from_watching: "ENTRY_CONFIRMED \<in> transitions s \<Longrightarrow> s = WATCHING_ENTRY"
  by (cases s) auto

lemma paused_engine_enters_nothing:
  assumes "validate_priorities (monitor_event_priority st)" "evaluate_signal c st = Inr r" "mc_bot_paused c"
  shows "\<forall>step \<in> set (er_transitions r). ts_to_state step \<noteq> ENTRY_CONFIRMED"
proof
  fix step assume step: "step \<in> set (er_transitions r)"
  show "ts_to_state step \<noteq> ENTRY_CONFIRMED"
  proof
    assume e: "ts_to_state step = ENTRY_CONFIRMED"
    have live: "\<not> is_terminal (sg_state (mc_signal c))"
      using evaluation_legal [OF assms(1), of c] assms(2) step by auto
    obtain w where w: "winner c st = Some w" "winning_steps (sg_state (mc_signal c)) st w = Inr (er_transitions r)"
      using evaluate_transitions [OF assms(2) live] step by (cases "winner c st") auto
    then have "mf_to_state w = Some ENTRY_CONFIRMED"
    proof -
      obtain t where t: "mf_to_state w = Some t"
        using competitor_facts [OF winner_competes [OF w(1)]] by blast
      show ?thesis
      proof (cases "t = ENTRY_CONFIRMED")
        case False
        with w(2) t have "map ts_to_state (er_transitions r) = [t]"
          by (auto simp: winning_steps_def Let_def dest!: sym [where t = "er_transitions r"])
        with step e False show ?thesis by (cases "er_transitions r") auto
      qed (use t in simp)
    qed
    with final_of_winner [OF assms(2) live w(1)] have "final_state r = Some ACTIVE_RESEARCH" by simp
    moreover have "sg_state (mc_signal c) = WATCHING_ENTRY"
      using competitor_facts [OF winner_competes [OF w(1)]] \<open>mf_to_state w = Some ENTRY_CONFIRMED\<close>
        entry_from_watching by auto
    ultimately show False
      using entry_confirmed_ready [OF _ assms(2)] assms(3) by (auto simp: entry_ready_def)
  qed
qed


section \<open>Properties\<close>

definition table_sound :: "signal_db \<Rightarrow> bool" where
  "table_sound db \<longleftrightarrow> distinct_keys db \<and> list_all row_ok (db_signals db)"

lemma run_table_sound:
  assumes "table_sound db" "list_all legal_op ops"
  shows "table_sound (run sha schema ops db)"
  using assms run_distinct_keys [of db sha schema ops] run_rows_ok [of ops db sha schema]
  by (simp add: table_sound_def list_all_iff)

lemma cycle_legal:
  assumes "script_ops legal_op env" "validate_priorities (monitor_event_priority (je_settings env))"
  shows "keeps (moved legal_op env) (cycle env paused watchlist now)"
proof (rule cycle_moves [OF assms(1)])
  show "permits legal_op (lr_id row)" for row
    unfolding permits_def by (auto elim!: plain_on.elims)
  show "may_apply legal_op env paused row" for row
    using engine_steps_legal [OF assms(2)] by (auto simp: may_apply_def)
qed simp

text \<open>One run of the job: its surroundings, whether it is paused, its watchlist and its clock.\<close>

type_synonym job_run = "job_env \<times> bool \<times> (int \<times> watch_entry) list \<times> datetime"

fun run_cycle :: "job_run \<Rightarrow> job_world \<Rightarrow> job_world" where
  "run_cycle (env, paused, watchlist, now) w = snd (cycle env paused watchlist now w)"

definition lawful_run :: "job_run \<Rightarrow> bool" where
  "lawful_run r \<longleftrightarrow> script_ops legal_op (fst r) \<and>
     validate_priorities (monitor_event_priority (je_settings (fst r)))"

lemma cycle_table_sound:
  assumes "lawful_run (env, paused, watchlist, now)" "table_sound (jw_db w)"
  shows "table_sound (jw_db (snd (cycle env paused watchlist now w)))"
proof -
  have "moved legal_op env w (snd (cycle env paused watchlist now w))"
    using cycle_legal [of env paused watchlist now] assms(1) by (simp add: lawful_run_def keeps_def)
  then show ?thesis using run_table_sound [OF assms(2)] by (auto simp: moved_def)
qed

text \<open>The calls that neither create a signal nor confirm an entry.\<close>

fun frozen_op :: "db_op \<Rightarrow> bool" where
  "frozen_op (Op_Insert fault n) \<longleftrightarrow> False"
| "frozen_op (Op_Apply fault i v step t corr) \<longleftrightarrow> ts_to_state step \<noteq> ENTRY_CONFIRMED"
| "frozen_op op \<longleftrightarrow> True"

definition entries :: "signal_db \<Rightarrow> (new_signal \<times> datetime option) list" where
  "entries db = map (\<lambda>r. (lr_new r, lr_entry_confirmed_at r)) (db_signals db)"

lemma frozen_exec: "frozen_op op \<Longrightarrow> entries (exec sha schema op db) = entries db"
proof (cases op)
  case (Op_Apply fault i v step t corr)
  assume "frozen_op op"
  with Op_Apply show ?thesis
    by (auto simp: entries_def apply_transition_signals transition_row_def Let_def intro!: map_update_where)
qed (auto simp: entries_def claim_def release_def update_monitoring_fields_def monitored_row_def
    add_update_def record_rejection_def Let_def intro!: map_update_where)

lemma frozen_run: "list_all frozen_op ops \<Longrightarrow> entries (run sha schema ops db) = entries db"
  by (induction ops arbitrary: db) (simp_all add: frozen_exec)

lemma frozen_cycle:
  assumes "script_ops frozen_op env" "validate_priorities (monitor_event_priority (je_settings env))"
  shows "entries (jw_db (snd (cycle env True watchlist now w))) = entries (jw_db w)"
proof -
  have "keeps (moved frozen_op env) (cycle env True watchlist now)"
  proof (rule cycle_moves [OF assms(1)])
    show "permits frozen_op (lr_id row)" for row
      unfolding permits_def by (auto elim!: plain_on.elims)
    show "may_apply frozen_op env True row" for row
      using paused_engine_enters_nothing [OF assms(2)] by (auto simp: may_apply_def)
  qed simp
  then show ?thesis by (auto simp: keeps_def moved_def frozen_run dest: spec [of _ w])
qed


lemma moved_version:
  assumes "moved P env w w'" "distinct_keys (jw_db w)"
  shows "distinct_keys (jw_db w')"
    and "row_version i (jw_db w) = Some v \<Longrightarrow> \<exists>v'. row_version i (jw_db w') = Some v' \<and> v \<le> v'"
proof -
  obtain ops where "jw_db w' = run (je_sha env) (event_schema env) ops (jw_db w)"
    using assms(1) by (auto simp: moved_def)
  then have w': "jw_db w' = fold (exec (je_sha env) (event_schema env)) ops (jw_db w)" by (simp add: run_def)
  show "distinct_keys (jw_db w')" unfolding w' by (rule lifecycle_store.good_fold [OF assms(2)])
  show "\<exists>v'. row_version i (jw_db w') = Some v' \<and> v \<le> v'" if "row_version i (jw_db w) = Some v"
    unfolding w' by (rule lifecycle_store.version_fold [OF assms(2) that])
qed

lemma any_script: "script_ops (\<lambda>_. True) env"
  by (simp add: script_ops_def list_all_iff)

lemma any_moves: "keeps (moved (\<lambda>_. True) env) m \<Longrightarrow> m w = (x, w') \<Longrightarrow> moved (\<lambda>_. True) env w w'"
  by (auto simp: keeps_def dest: spec [of _ w])

lemma call_apply_applied:
  assumes "call_apply env i v step now corr w = (Inr APPLIED, w')" "distinct_keys (jw_db w)"
  shows "row_version i (jw_db w') = Some (v + 1)"
proof -
  let ?c = "je_script env (jw_calls w)"
  let ?db = "run (je_sha env) (event_schema env) (dc_others ?c) (jw_db w)"
  let ?op = "Op_Apply (dc_fault ?c) i v step now corr"
  have db: "distinct_keys ?db" by (rule run_distinct_keys [OF assms(2)])
  have "fst (apply_transition (dc_fault ?c) i v step
      (build_transition_event (je_sha env) i step v (event_schema env) now corr) now ?db) = APPLIED"
    and w': "jw_db w' = exec (je_sha env) (event_schema env) ?op ?db"
    using assms(1) by (auto simp: call_apply_def perform_def before_call_def Let_def split: prod.splits)
  then have "takes_version ?op ?db i v" by (intro applied_takes)
  from lifecycle_store.takes_advances [OF db this] show ?thesis unfolding w' .
qed

lemma apply_steps_advances:
  assumes "apply_steps env row now v k steps w = (Inr (n, c), w')" "distinct_keys (jw_db w)"
  shows "k \<le> n \<and> (k < n \<longrightarrow> (\<exists>v'. row_version (lr_id row) (jw_db w') = Some v' \<and> v + int (n - k) \<le> v'))"
  using assms
proof (induction steps arbitrary: v k w)
  case (Cons step steps)
  let ?more = "\<lambda>w. apply_steps env row now (v + 1) (Suc k) steps w"
  from Cons.prems(1) obtain outcome w1
    where call: "call_apply env (lr_id row) v step now (ns_correlation_id (lr_new row)) w = (Inr outcome, w1)"
      and rest: "(case outcome of
         APPLIED \<Rightarrow>
           and_then (job_step (\<lambda>j. j\<lparr>js_transitions_total := js_transitions_total j + 1\<rparr>)) (\<lambda>_. ?more)
       | CONFLICT \<Rightarrow>
           and_then (job_step (\<lambda>j. j\<lparr>js_conflicts_total := js_conflicts_total j + 1\<rparr>)) (\<lambda>_.
           and_then (reject_row env row RC_STATE_VERSION_CONFLICT (conflict_detail v step) now) (\<lambda>_.
           pure_action (k, 1)))
       | FAILED \<Rightarrow> and_then set_degraded (\<lambda>_. pure_action (k, 0))
       | NOT_FOUND \<Rightarrow> pure_action (k, 0)) w1 = (Inr (n, c), w')"
    unfolding apply_steps.simps by (rule and_then_value)
  show ?case
  proof (cases outcome)
    case APPLIED
    let ?w2 = "w1\<lparr>jw_job := (jw_job w1)\<lparr>js_transitions_total := js_transitions_total (jw_job w1) + 1\<rparr>\<rparr>"
    have more: "?more ?w2 = (Inr (n, c), w')"
      using rest APPLIED by (simp add: and_then_def job_step_def modify_state_def)
    have v1: "row_version (lr_id row) (jw_db ?w2) = Some (v + 1)"
      using call_apply_applied [OF call [unfolded APPLIED] Cons.prems(2)] by simp
    have "moved (\<lambda>_. True) env w w1"
      by (rule any_moves [OF apply_moves [OF any_script] call]) simp
    from moved_version(1) [OF this Cons.prems(2)] have d: "distinct_keys (jw_db ?w2)" by simp
    have "moved (\<lambda>_. True) env ?w2 w'"
      by (rule any_moves [OF apply_steps_moves [OF any_script] more]) (simp_all add: permits_def)
    from moved_version(2) [OF this d v1] Cons.IH [OF more d] show ?thesis by fastforce
  next
    case CONFLICT
    with rest show ?thesis by (auto simp: action_defs split: prod.splits sum.splits)
  next
    case NOT_FOUND
    with rest show ?thesis by (simp add: action_defs)
  next
    case FAILED
    with rest show ?thesis by (simp add: action_defs set_degraded_def job_step_def)
  qed
qed (simp add: pure_action_def)

lemma evaluate_row_advances:
  assumes ev: "evaluate_row env row entry paused now w = (Inr (n, c), w')" and d: "distinct_keys (jw_db w)"
    and "0 < n"
  shows "\<exists>v. row_version (lr_id row) (jw_db w') = Some v \<and> lr_state_version row + int n \<le> v"
proof -
  let ?T = "\<lambda>_ :: db_op. True"
  have perm: "permits ?T i" for i by (simp add: permits_def)
  from ev obtain ctx r w1 w2 u w3 u' w4 w5 where
    m: "fetch_monitor_context env row entry paused now w = (Inr ctx, w1)"
      "run_engine env ctx w1 = (Inr r, w2)"
      "(if lifecycle_persist_updates (je_settings env)
        then persist_updates env (lr_id row) now (er_updates r) else pure_action ()) w2 = (Inr u, w3)"
      "(case er_suppressed_findings r of [] \<Rightarrow> pure_action ()
        | s # _ \<Rightarrow> reject_row env row RC_INVALID_TRANSITION (je_describe env s) now) w3 = (Inr u', w4)"
      "apply_steps env row now (lr_state_version row) 0 (er_transitions r) w4 = (Inr (n, c), w5)"
      "suppressed (call_monitor env (lr_id row) (monitoring_of ctx now)) w5 = (Inr (), w')"
    unfolding evaluate_row_def
    by (elim and_then_value) (auto simp: pure_action_def elim!: and_then_value)
  have "keeps (moved ?T env) (if lifecycle_persist_updates (je_settings env)
      then persist_updates env (lr_id row) now (er_updates r) else pure_action ())"
    by (intro moves.keeps_rules persist_updates_moves any_script) simp_all
  moreover have "keeps (moved ?T env) (case er_suppressed_findings r of [] \<Rightarrow> pure_action ()
        | s # _ \<Rightarrow> reject_row env row RC_INVALID_TRANSITION (je_describe env s) now)"
    by (auto intro: moves.keeps_rules reject_row_moves any_script split: list.split)
  ultimately have "moved ?T env w w4"
    using any_moves [OF fetch_context_moves [OF any_script] m(1)] any_moves [OF run_engine_moves m(2)]
      any_moves m(3,4) moves.trans_R by metis
  from moved_version(1) [OF this d] have d4: "distinct_keys (jw_db w4)" .
  from apply_steps_advances [OF m(5) d4] \<open>0 < n\<close> obtain v
    where v: "row_version (lr_id row) (jw_db w5) = Some v" "lr_state_version row + int n \<le> v" by auto
  have "moved ?T env w4 w5"
    by (rule any_moves [OF apply_steps_moves [OF any_script perm] m(5)]) simp
  from moved_version(1) [OF this d4] have d5: "distinct_keys (jw_db w5)" .
  have "keeps (moved ?T env) (suppressed (call_monitor env (lr_id row) (monitoring_of ctx now)))"
    by (intro moves.keeps_rules monitor_moves any_script) simp
  from any_moves [OF this m(6)] have "moved ?T env w5 w'" .
  from moved_version(2) [OF this d5 v(1)] v(2) show ?thesis by fastforce
qed


section \<open>Cycles always return\<close>

lemma monitor_failed_returns [simp]: "never_raises monitor_failed"
  by (simp add: monitor_failed_def job_step_def never_raises_and_then)

lemma set_degraded_returns [simp]: "never_raises set_degraded"
  by (simp add: set_degraded_def job_step_def)

lemma never_raises_triple:
  "(\<And>a b c. never_raises (f a b c)) \<Longrightarrow> never_raises (case x of (a, b, c) \<Rightarrow> f a b c)"
  by (cases x) simp

lemma monitor_one_returns: "never_raises (monitor_one env watchlist paused now row)"
  by (simp add: monitor_one_def never_raises_on_error)

lemma monitor_rows_return: "never_raises (monitor_rows env watchlist paused now rows)"
  by (induction rows) (auto intro!: never_raises_and_then never_raises_triple monitor_one_returns)

lemma load_or_degrade_returns [simp]: "never_raises (load_or_degrade m)"
  by (simp add: load_or_degrade_def never_raises_on_error never_raises_and_then)

lemma admit_rows_return: "never_raises (admit_rows env watchlist now rows)"
proof (induction rows)
  case (Cons row rows)
  have "never_raises (admit_row_guarded env watchlist now row)"
    by (simp add: admit_row_guarded_def never_raises_on_error never_raises_and_then)
  with Cons show ?case
    by (auto intro!: never_raises_and_then never_raises_triple)
qed simp

lemma phases_return:
  "never_raises (monitor_phase env watchlist paused now)"
  "never_raises (admission_phase env watchlist now)"
  unfolding monitor_phase_def admission_phase_def
  by (rule never_raises_and_then, simp, simp add: never_raises_and_then monitor_rows_return
      admit_rows_return split: option.split)+

lemma cycle_finishes:
  "\<exists>s w1. cycle env paused watchlist now w = finish_cycle now s w1 \<and> rs_run_at s = now \<and> rs_paused s = paused"
proof -
  let ?a = "if paused then pure_action (0, 0, 0) else admission_phase env watchlist now"
  obtain u w1 where 1: "job_step (\<lambda>j. j\<lparr>js_degraded := False\<rparr>) w = (Inr u, w1)"
    by (simp add: job_step_def modify_state_def)
  have "never_raises ?a" using phases_return by simp
  from never_raises_value [OF this] obtain x w2 where 2: "?a w1 = (Inr x, w2)" by blast
  from never_raises_value [OF phases_return(1)] obtain y w3
    where 3: "monitor_phase env watchlist paused now w2 = (Inr y, w3)" by blast
  obtain a r s where x: "x = (a, r, s)" by (cases x)
  obtain e t c where y: "y = (e, t, c)" by (cases y)
  have "cycle env paused watchlist now w = finish_cycle now
       \<lparr>rs_run_at = now, rs_paused = paused, rs_admitted = a, rs_admission_rejected = r,
        rs_admission_skipped = s, rs_signals_evaluated = e, rs_transitions_applied = t,
        rs_version_conflicts = c\<rparr> w3"
    using 1 2 3 unfolding cycle_def and_then_def by (simp only: x y prod.case sum.case)
  then show ?thesis by fastforce
qed

section \<open>An example\<close>

text \<open>A job without plans, candles or market adapters, whose only signal is in the example table.\<close>

definition calm_call :: db_call where
  "calm_call = \<lparr>dc_others = [], dc_feed = (\<lambda>s. s), dc_fault = No_Fault\<rparr>"

definition no_sources :: lifecycle_sources where
  "no_sources = \<lparr>so_plans = [], so_candidates = [], so_candles = [], so_structure = [],
     so_risk_snapshots = []\<rparr>"

definition example_job_env :: job_env where
  "example_job_env = \<lparr>je_settings = default_signal_settings\<lparr>lifecycle_persist_updates := False\<rparr>, je_sha = example_sha, je_config_hash = ''h'',
     je_owner = ''lifecycle'', je_adapters = \<lparr>da_market_data = False, da_data_quality = False, da_books = False\<rparr>,
     je_quality = example_env, je_script = (\<lambda>n. calm_call), je_sources = (\<lambda>n. no_sources),
     je_fresh = (\<lambda>n. n), je_correlation = (\<lambda>n. ''c''), je_describe = (\<lambda>s. []),
     je_db_exception = ''OperationalError''\<rparr>"

definition disturbed_env :: "db_op list \<Rightarrow> job_env" where
  "disturbed_env ops = example_job_env\<lparr>je_script := (\<lambda>n. calm_call\<lparr>dc_others := ops\<rparr>)\<rparr>"

definition example_world :: job_world where
  "example_world = \<lparr>jw_db = run example_sha ''sev-1'' [Op_Insert No_Fault example_new] empty_db,
     jw_market = empty_market, jw_calls = 0, jw_job = new_job\<rparr>"

lemma example_world_sound: "table_sound (jw_db example_world)"
  unfolding example_world_def
  by (simp del: run_simps, rule run_table_sound) (simp_all add: table_sound_def empty_db_def distinct_keys_def
      List.map_filter_def example_new_def)

lemma example_script: "script_ops P example_job_env"
  by (simp add: script_ops_def example_job_env_def calm_call_def)

lemma example_valid: "validate_priorities (monitor_event_priority (je_settings example_job_env))"
  by (simp add: example_job_env_def default_signal_settings_def default_priorities_valid)

section \<open>Claims\<close>

text \<open>
  The job keeps the lifecycle table sound: over any number of cycles, with the database failing at any
  call, other workers' legal calls coming in before any call, and any market data and tables, identifiers
  stay unique, at most one live signal exists per dedupe key, and every row's fields agree with its state.
\<close>

theorem job_keeps_table_sound:
  assumes "list_all lawful_run runs" "table_sound (jw_db w)"
  shows "table_sound (jw_db (fold run_cycle runs w))"
  using assms
proof (induction runs arbitrary: w)
  case (Cons r runs)
  obtain env paused watchlist now where "r = (env, paused, watchlist, now)" by (cases r)
  with Cons cycle_table_sound [of env paused watchlist now w] show ?case by simp
qed simp

theorem job_keeps_table_sound_witness:
  "table_sound (jw_db (fold run_cycle
     [(disturbed_env [Op_Claim 7 ''B'' 0 60], False, [], 60000000), (example_job_env, True, [], 120000000)]
     example_world))"
proof (rule job_keeps_table_sound)
  show "list_all lawful_run
     [(disturbed_env [Op_Claim 7 ''B'' 0 60], False, [], 60000000), (example_job_env, True, [], 120000000)]"
    using example_valid example_script
    by (simp add: lawful_run_def disturbed_env_def script_ops_def calm_call_def)
qed (rule example_world_sound)

text \<open>
  C17.  Pausing freezes entries: while the bot is paused, and the other workers are, a cycle creates no signal
  and confirms no entry, whatever fails and whatever the market does; the instances in the table and
  their entry instants stay as they are.
\<close>

theorem pause_freezes_entries:
  assumes "bs_loaded b" "bs_kill_switch b \<or> bs_cached_paused b"
    and "script_ops frozen_op env" "validate_priorities (monitor_event_priority (je_settings env))"
  shows "entries (jw_db (snd (cycle env (effective_pause up stored (Some b)) watchlist now w)))
    = entries (jw_db w)"
  using frozen_cycle [OF assms(3,4)] load_runs_once [OF assms(1)] assms(2)
  by (simp add: effective_pause_def)

theorem pause_freezes_entries_witness:
  "entries (jw_db (snd (cycle (disturbed_env [Op_Claim 7 ''B'' 0 60])
     (effective_pause True None (Some (snd (is_paused True None (new_bot_state True))))) [] 60000000 example_world)))
   = entries (jw_db example_world)"
proof (rule pause_freezes_entries)
  show "script_ops frozen_op (disturbed_env [Op_Claim 7 ''B'' 0 60])"
    by (simp add: script_ops_def disturbed_env_def calm_call_def)
qed (use example_valid in \<open>simp_all add: is_paused_def ensure_loaded_def load_def new_bot_state_def
    disturbed_env_def\<close>)

text \<open>
  C15.  An unpersisted transition is never reported as applied: when the evaluation of a row counts n applied
  transitions, the stored version has moved at least n beyond the one the row was read with, whatever
  calls failed and whatever other workers did to the row in between.
\<close>

theorem reported_transitions_are_stored:
  assumes "fst (evaluate_row env row entry paused now w) = Inr (n, c)" "0 < n" "distinct_keys (jw_db w)"
  shows "\<exists>v. row_version (lr_id row) (jw_db (snd (evaluate_row env row entry paused now w))) = Some v \<and>
    lr_state_version row + int n \<le> v"
proof -
  have "evaluate_row env row entry paused now w
      = (Inr (n, c), snd (evaluate_row env row entry paused now w))"
    using assms(1) by (simp add: prod_eq_iff)
  from evaluate_row_advances [OF this assms(3,2)] show ?thesis .
qed

theorem reported_transitions_are_stored_witness:
  "\<exists>v. row_version 7 (jw_db (snd (evaluate_row example_job_env (new_row example_new) None False 60000000
      example_world))) = Some v \<and> 3 \<le> v"
proof -
  have "fst (evaluate_row example_job_env (new_row example_new) None False 60000000 example_world)
    = Inr (1, 0)" by code_simp
  from reported_transitions_are_stored [OF this] example_world_sound show ?thesis
    by (auto simp: table_sound_def new_row_def lr_id_def example_new_def)
qed

text \<open>
  A cycle always returns: whatever the database does, the job ends the cycle with a summary that it keeps,
  stamps the run, and moves its last success unless the cycle degraded it.
\<close>

theorem cycle_always_returns:
  "\<exists>s. fst (cycle env paused watchlist now w) = Inr s \<and> rs_paused s = paused \<and>
    (let j = jw_job (snd (cycle env paused watchlist now w)) in
     js_last_run_summary j = Some s \<and> js_last_run_at j = Some now \<and>
     (js_degraded j \<or> js_last_success_at j = Some now))"
proof -
  obtain s w1 where "cycle env paused watchlist now w = finish_cycle now s w1" "rs_paused s = paused"
    using cycle_finishes by blast
  then show ?thesis
    by (auto simp: finish_cycle_def and_then_def job_step_def modify_state_def pure_action_def Let_def)
qed

end
