(* ===== verification/Job_Liveness.thy ===== *)
theory Job_Liveness
  imports Job_Safety
begin

text \<open>
  What the lifecycle job achieves when nothing fails: the transitions an evaluation computes are the ones
  stored, a cycle reaches every live signal it can lease, and two cycles of unusable market data more
  than the grace period apart end every signal.
\<close>

section \<open>Undisturbed calls\<close>

definition calm :: "job_env \<Rightarrow> bool" where
  "calm env \<longleftrightarrow> (\<forall>n. je_script env n = calm_call)"

lemma calm_before: "calm env \<Longrightarrow> before_call env w = w\<lparr>jw_calls := Suc (jw_calls w)\<rparr>"
  by (simp add: calm_def calm_call_def before_call_def)

lemma calm_perform:
  "calm env \<Longrightarrow> perform env f w = (fst (f No_Fault (jw_db w)),
     w\<lparr>jw_calls := Suc (jw_calls w), jw_db := snd (f No_Fault (jw_db w))\<rparr>)"
  by (simp add: perform_def calm_before split: prod.split) (simp add: calm_def calm_call_def)

lemma calm_script: "calm env \<Longrightarrow> script_ops P env"
  by (simp add: script_ops_def calm_def calm_call_def)

lemma calm_query: "calm env \<Longrightarrow> perform env (query g) w = (Inr (g (jw_db w)), w\<lparr>jw_calls := Suc (jw_calls w)\<rparr>)"
  by (simp add: calm_perform query_def)

lemma calm_read: "calm env \<Longrightarrow> read_table env sel w
    = (Inr (sel (je_sources env (jw_calls w))), w\<lparr>jw_calls := Suc (jw_calls w)\<rparr>)"
  by (simp add: read_table_def calm_query)

text \<open>The market the job sees: a relation every undisturbed action keeps.\<close>

definition same_market :: "job_env \<Rightarrow> job_world \<Rightarrow> job_world \<Rightarrow> bool" where
  "same_market env w w' \<longleftrightarrow> same_view (je_quality env) (jw_market w') (jw_market w)"

interpretation views: effect_order "same_market env" for env
  by unfold_locales (auto simp: same_market_def intro: same_view_trans)

lemma perform_views: "calm env \<Longrightarrow> keeps (same_market env) (perform env f)"
  by (simp add: keeps_def calm_perform same_market_def)

lemma read_table_views: "calm env \<Longrightarrow> keeps (same_market env) (read_table env sel)"
  by (simp add: keeps_def calm_read same_market_def)

lemma job_step_views: "keeps (same_market env) (job_step f)"
  by (simp add: keeps_def job_step_def modify_state_def same_market_def)

lemma set_degraded_views: "keeps (same_market env) set_degraded"
  by (simp add: set_degraded_def job_step_views)

lemma look_views: "keeps (same_market env) (look_at_market env i)"
  by (auto simp: keeps_def look_at_market_def same_market_def split: prod.split)
    (metis live_market_view snd_conv)

lemmas call_views = perform_views read_table_views job_step_views set_degraded_views look_views

lemma fetch_market_views: "calm env \<Longrightarrow> keeps (same_market env) (fetch_market_state env pk i as_of)"
  unfolding fetch_market_state_def by (intro views.keeps_rules call_views)

lemma fetch_context_views:
  "calm env \<Longrightarrow> keeps (same_market env) (fetch_monitor_context env row entry paused as_of)"
  unfolding fetch_monitor_context_def fetch_opposing_def Let_def
  by (intro views.keeps_rules call_views fetch_market_views)

lemma persist_rejection_views: "calm env \<Longrightarrow> keeps (same_market env) (persist_rejection env rj)"
  unfolding persist_rejection_def call_reject_def by (intro views.keeps_rules call_views)

lemma reject_row_views: "calm env \<Longrightarrow> keeps (same_market env) (reject_row env row code detail now)"
  unfolding reject_row_def by (rule keeps_at) (rule persist_rejection_views)

lemma persist_updates_views: "calm env \<Longrightarrow> keeps (same_market env) (persist_updates env i now us)"
proof (induction us)
  case (Cons u us)
  then show ?case
    by (cases u) (simp add: call_update_def, intro views.keeps_rules call_views)
qed (simp add: views.keeps_pure)

lemma apply_steps_views: "calm env \<Longrightarrow> keeps (same_market env) (apply_steps env row now v k steps)"
proof (induction steps arbitrary: v k)
  case (Cons step steps)
  show ?case
    unfolding apply_steps.simps call_apply_def
  proof (rule views.keeps_and_then)
    fix outcome
    show "keeps (same_market env) (case outcome of
         APPLIED \<Rightarrow>
           and_then (job_step (\<lambda>j. j\<lparr>js_transitions_total := js_transitions_total j + 1\<rparr>)) (\<lambda>_.
           apply_steps env row now (v + 1) (Suc k) steps)
       | CONFLICT \<Rightarrow>
           and_then (job_step (\<lambda>j. j\<lparr>js_conflicts_total := js_conflicts_total j + 1\<rparr>)) (\<lambda>_.
           and_then (reject_row env row RC_STATE_VERSION_CONFLICT (conflict_detail v step) now) (\<lambda>_.
           pure_action (k, 1)))
       | FAILED \<Rightarrow> and_then set_degraded (\<lambda>_. pure_action (k, 0))
       | NOT_FOUND \<Rightarrow> pure_action (k, 0))"
      using Cons by (cases outcome) (auto intro!: views.keeps_rules call_views reject_row_views)
  qed (rule perform_views [OF Cons.prems])
qed (simp add: views.keeps_pure)

lemma evaluate_row_views: "calm env \<Longrightarrow> keeps (same_market env) (evaluate_row env row entry paused now)"
proof -
  assume c: "calm env"
  have "keeps (same_market env) (case er_suppressed_findings r of [] \<Rightarrow> pure_action ()
        | s # _ \<Rightarrow> reject_row env row RC_INVALID_TRANSITION (je_describe env s) now)" for r
    using reject_row_views [OF c] by (auto intro: views.keeps_rules split: list.split)
  moreover have "keeps (same_market env) (run_engine env x)" for x
    by (simp add: run_engine_def views.keeps_rules split: sum.split)
  ultimately show ?thesis
    unfolding evaluate_row_def call_monitor_def using c
    by (intro views.keeps_rules call_views fetch_context_views persist_updates_views apply_steps_views)
qed

lemma monitor_failed_views: "keeps (same_market env) monitor_failed"
  unfolding monitor_failed_def by (intro views.keeps_rules call_views)

lemma monitor_one_views: "calm env \<Longrightarrow> keeps (same_market env) (monitor_one env watchlist paused now row)"
proof -
  assume c: "calm env"
  have "keeps (same_market env) (case x of (applied, conflicts) \<Rightarrow> pure_action (1, applied, conflicts))"
    for x :: "nat \<times> nat" by (cases x) (simp add: views.keeps_pure)
  then show ?thesis
    unfolding monitor_one_def call_claim_def call_release_def using c
    by (intro views.keeps_rules call_views evaluate_row_views monitor_failed_views)
qed

lemma admit_plan_row_views: "calm env \<Longrightarrow> keeps (same_market env) (admit_plan_row env row watchlist now)"
proof -
  assume c: "calm env"
  have rejection: "keeps (same_market env) (record_plan_rejection env row code detail now)" for code detail
    unfolding record_plan_rejection_def by (rule keeps_at) (rule persist_rejection_views [OF c])
  have refusal: "keeps (same_market env) (refuse_plan env plan decision now)" for plan decision
    unfolding refuse_plan_def by (rule keeps_at) (rule persist_rejection_views [OF c])
  have creation: "keeps (same_market env) (create_signal env plan decision now)" for plan decision
    using c by (simp add: keeps_def create_signal_def call_insert_def calm_perform same_market_def)
  have fetch: "keeps (same_market env) (fetch_admission_context env plan entry now)" for plan entry
    unfolding fetch_admission_context_def Let_def using c
    by (cases "session_of entry") (simp, intro views.keeps_rules call_views fetch_market_views)
  have "keeps (same_market env) (case plan_snapshot_from_record row of
       None \<Rightarrow>
         and_then (record_plan_rejection env row RC_ADMISSION_CONFIGURATION_INVALID
           ''plan payload carries no complete model reference levels'' now) (\<lambda>_.
         pure_action Rejected)
     | Some plan \<Rightarrow>
         and_then (fetch_admission_context env plan (map_of watchlist (ps_instrument_pk plan)) now) (\<lambda>c.
         let decision = admit c (je_settings env) in
         if \<not> ad_admitted decision then
           and_then (refuse_plan env plan decision now) (\<lambda>_. pure_action Rejected)
         else
           and_then (create_signal env plan decision now) (\<lambda>created.
           if \<not> created then pure_action Skipped
           else
             and_then (job_step (\<lambda>j. j\<lparr>js_admissions_total := js_admissions_total j + 1\<rparr>)) (\<lambda>_.
             pure_action Created))))"
    unfolding Let_def
    by (cases "plan_snapshot_from_record row")
      (auto intro!: views.keeps_rules rejection fetch refusal creation job_step_views)
  then show ?thesis
    unfolding admit_plan_row_def using c by (intro views.keeps_rules call_views)
qed

lemma admission_phase_views: "calm env \<Longrightarrow> keeps (same_market env) (admission_phase env watchlist now)"
proof -
  assume c: "calm env"
  have "keeps (same_market env) (record_plan_rejection env row code detail now)" for row code detail
    unfolding record_plan_rejection_def by (rule keeps_at) (rule persist_rejection_views [OF c])
  then have "keeps (same_market env) (admit_row_guarded env watchlist now row)" for row
    unfolding admit_row_guarded_def
    by (intro views.keeps_rules admit_plan_row_views [OF c] set_degraded_views)
  then have rows: "keeps (same_market env) (admit_rows env watchlist now plans)" for plans
    by (induction plans) (auto intro!: views.keeps_and_then views.keeps_pure keeps_triple)
  show ?thesis
    unfolding admission_phase_def load_or_degrade_def
    by (intro views.keeps_and_then views.keeps_rules call_views c)
      (auto intro!: views.keeps_pure rows split: option.split)
qed


section \<open>Other rows stay\<close>

fun leaves :: "uuid \<Rightarrow> db_op \<Rightarrow> bool" where
  "leaves i (Op_Insert fault n) \<longleftrightarrow> True"
| "leaves i (Op_Apply fault j v step t corr) \<longleftrightarrow> j \<noteq> i"
| "leaves i (Op_Claim j owner now secs) \<longleftrightarrow> j \<noteq> i"
| "leaves i (Op_Release j owner) \<longleftrightarrow> j \<noteq> i"
| "leaves i (Op_Monitor j m) \<longleftrightarrow> j \<noteq> i"
| "leaves i op \<longleftrightarrow> True"

lemma get_signal_update:
  "(\<And>r. c r \<Longrightarrow> lr_id (f r) = lr_id r) \<Longrightarrow>
     get_signal i (db\<lparr>db_signals := update_where c f (db_signals db)\<rparr>)
     = map_option (\<lambda>r. if c r then f r else r) (get_signal i db)"
  by (simp add: get_signal_def find_update_where)

lemma get_signal_signals: "db_signals db' = db_signals db \<Longrightarrow> get_signal i db' = get_signal i db"
  by (simp add: get_signal_def)

lemma get_signal_id: "get_signal i db = Some r \<Longrightarrow> lr_id r = i \<and> r \<in> set (db_signals db)"
  unfolding get_signal_def by (drule find_Some_in) simp

lemma row_ids [simp]:
  "lr_id (transition_row v step t r) = lr_id r" "lr_id (monitored_row m r) = lr_id r"
  "lr_id (r\<lparr>lr_lease_owner := a, lr_lease_expires_at := b\<rparr>) = lr_id r"
  by (simp_all add: transition_row_def monitored_row_def lr_id_def Let_def)

lemma get_signal_apply:
  "get_signal i (snd (apply_transition fault j v step e t db)) =
     (if fault = Fails_First then get_signal i db
      else map_option (\<lambda>r. if locked_row j v step r then transition_row v step t r else r) (get_signal i db))"
  by (simp add: get_signal_def apply_transition_signals find_update_where)

lemma exec_leaves:
  assumes "leaves i op" "get_signal i db = Some r"
  shows "get_signal i (exec sha schema op db) = Some r"
proof (cases op)
  case (Op_Insert fault n)
  then show ?thesis
    using assms(2) insert_new_signals [of sha fault n schema db]
    by (auto simp: get_signal_def find_append)
next
  case (Op_Apply fault j v step t corr)
  with assms get_signal_id [OF assms(2)] show ?thesis by (simp add: get_signal_apply locked_row_def)
next
  case (Op_Claim j owner now secs)
  with assms get_signal_id [OF assms(2)] show ?thesis
    by (simp add: claim_def get_signal_update claimable_def)
next
  case (Op_Release j owner)
  with assms get_signal_id [OF assms(2)] show ?thesis by (simp add: release_def get_signal_update)
next
  case (Op_Monitor j m)
  with assms get_signal_id [OF assms(2)] show ?thesis
    by (simp add: update_monitoring_fields_def get_signal_update)
qed (use assms(2) in \<open>simp_all add: add_update_def record_rejection_def Let_def get_signal_def\<close>)

lemma run_leaves:
  "list_all (leaves i) ops \<Longrightarrow> get_signal i db = Some r \<Longrightarrow> get_signal i (run sha schema ops db) = Some r"
  by (induction ops arbitrary: db) (simp_all add: exec_leaves)

lemma moved_leaves:
  "keeps (moved (leaves i) env) m \<Longrightarrow> get_signal i (jw_db w) = Some r \<Longrightarrow>
     get_signal i (jw_db (snd (m w))) = Some r"
  by (auto simp: keeps_def moved_def run_leaves dest!: spec [of _ w])

lemma other_row: "lr_id row \<noteq> i \<Longrightarrow> permits (leaves i) (lr_id row) \<and> may_apply (leaves i) env paused row"
  by (auto simp: permits_def may_apply_def elim!: plain_on.elims)

section \<open>One undisturbed evaluation\<close>

lemma calm_fetch:
  assumes "calm env"
  shows "\<exists>c w'. fetch_monitor_context env row entry paused now w = (Inr c, w') \<and> jw_db w' = jw_db w \<and>
    mc_signal c = signal_snapshot_from_record row \<and> mc_bot_paused c = paused \<and> mc_as_of c = now \<and>
    (mk_data_quality_ok (mc_market c) \<longleftrightarrow> da_data_quality (je_adapters env) \<and>
       usable (je_settings env) (qr_status (fst (evaluate_quality (je_quality env)
         (ns_instrument_id (lr_new row)) (jw_market w)))))"
proof -
  let ?sg = "signal_snapshot_from_record row"
  have i: "sg_instrument_id ?sg = ns_instrument_id (lr_new row)"
    by (simp add: signal_snapshot_from_record_def Let_def)
  obtain mk s where mk: "live_market_state (je_settings env) (je_adapters env) (je_quality env)
      (sg_instrument_id ?sg) (jw_market w) = (mk, s)" by fastforce
  have ok: "mk_data_quality_ok mk \<longleftrightarrow> da_data_quality (je_adapters env) \<and>
       usable (je_settings env) (qr_status (fst (evaluate_quality (je_quality env)
         (ns_instrument_id (lr_new row)) (jw_market w))))"
    using live_market_ok [of "je_settings env" "je_adapters env" "je_quality env" "sg_instrument_id ?sg"
        "jw_market w"] mk i by simp
  show ?thesis
    using mk ok
    by (simp add: fetch_monitor_context_def fetch_market_state_def fetch_opposing_def look_at_market_def
        and_then_def calm_read [OF assms] pure_action_def monitor_context_of_def Let_def split: prod.split)
qed

lemma persist_updates_returns: "never_raises (persist_updates env i now us)"
proof (cases us)
  case (Cons u rest)
  then show ?thesis by (cases u) (simp add: never_raises_on_error)
qed simp

lemma reject_row_returns: "never_raises (reject_row env row code detail now)"
  unfolding never_raises_def
proof
  fix w
  have "never_raises (persist_rejection env rj)" for rj
    by (simp add: persist_rejection_def job_step_def never_raises_and_then never_raises_on_error)
  then show "\<exists>x. fst (reject_row env row code detail now w) = Inr x"
    by (simp add: reject_row_def never_raises_def)
qed

lemma calm_apply:
  assumes "calm env" "get_signal i (jw_db w) = Some r" "lr_state_version r = v" "lr_state r = ts_from_state step"
  shows "\<exists>w'. call_apply env i v step now corr w = (Inr APPLIED, w') \<and>
    get_signal i (jw_db w') = Some (transition_row v step now r)"
proof -
  let ?e = "build_transition_event (je_sha env) i step v (event_schema env) now corr"
  have r: "lr_id r = i" "r \<in> set (db_signals (jw_db w))" using get_signal_id [OF assms(2)] by auto
  with assms(3,4) have "locked_row i v step r" by (simp add: locked_row_def)
  with r have "row_count (locked_row i v step) (db_signals (jw_db w)) \<noteq> 0" by (auto simp: row_count_zero)
  then have "fst (apply_transition No_Fault i v step ?e now (jw_db w)) = APPLIED"
    by (simp add: apply_transition_def Let_def split: option.split)
  moreover have "get_signal i (snd (apply_transition No_Fault i v step ?e now (jw_db w)))
      = Some (transition_row v step now r)"
    using assms(2) \<open>locked_row i v step r\<close> by (simp add: get_signal_apply)
  ultimately show ?thesis
    by (simp add: call_apply_def calm_perform [OF assms(1)] split: prod.split)
      (metis fst_conv snd_conv)
qed

text \<open>The row after its steps, up to the columns that only report.\<close>

definition stepped :: "lifecycle_row \<Rightarrow> transition_step list \<Rightarrow> lifecycle_row \<Rightarrow> bool" where
  "stepped r steps r' \<longleftrightarrow> lr_state r' = last (lr_state r # map ts_to_state steps) \<and>
     lr_state_version r' = lr_state_version r + int (length steps) \<and> lr_new r' = lr_new r \<and>
     lr_data_degraded_since r' = lr_data_degraded_since r \<and> lr_lease_owner r' = lr_lease_owner r"

lemma calm_steps:
  assumes "calm env" "get_signal (lr_id row) (jw_db w) = Some r" "lr_state_version r = v"
    and "map ts_from_state steps = take (length steps) (lr_state r # map ts_to_state steps)"
  shows "\<exists>w' r'. apply_steps env row now v k steps w = (Inr (k + length steps, 0), w') \<and>
    get_signal (lr_id row) (jw_db w') = Some r' \<and> stepped r steps r'"
  using assms(2-)
proof (induction steps arbitrary: v k w r)
  case Nil
  then show ?case by (simp add: pure_action_def stepped_def)
next
  case (Cons step steps)
  let ?r = "transition_row v step now r"
  from Cons.prems(3) have step: "lr_state r = ts_from_state step"
    and steps: "map ts_from_state steps = take (length steps) (lr_state ?r # map ts_to_state steps)"
    by (simp_all add: transition_row_def Let_def)
  obtain w1 where w1: "call_apply env (lr_id row) v step now (ns_correlation_id (lr_new row)) w
      = (Inr APPLIED, w1)" "get_signal (lr_id row) (jw_db w1) = Some ?r"
    using calm_apply [OF assms(1) Cons.prems(1,2) step] by blast
  let ?w2 = "w1\<lparr>jw_job := (jw_job w1)\<lparr>js_transitions_total := js_transitions_total (jw_job w1) + 1\<rparr>\<rparr>"
  have "get_signal (lr_id row) (jw_db ?w2) = Some ?r" "lr_state_version ?r = v + 1"
    using w1(2) by (simp_all add: transition_row_def Let_def)
  from Cons.IH [OF this steps, of "Suc k"] obtain w' r' where
    "apply_steps env row now (v + 1) (Suc k) steps ?w2 = (Inr (Suc k + length steps, 0), w')"
    "get_signal (lr_id row) (jw_db w') = Some r'" "stepped ?r steps r'" by blast
  moreover from this(3) Cons.prems(2) have "stepped r (step # steps) r'"
    by (auto simp: stepped_def transition_row_def Let_def)
  ultimately show ?case
    using w1(1) by (simp add: and_then_def job_step_def modify_state_def)
qed


text \<open>What an undisturbed evaluation of a row, whose state the table still has, leaves behind.\<close>

definition degraded_after :: "bool \<Rightarrow> datetime \<Rightarrow> datetime option \<Rightarrow> datetime option" where
  "degraded_after healthy now since =
     (if healthy then None else Some (case since of Some t \<Rightarrow> t | None \<Rightarrow> now))"

lemma calm_evaluate:
  assumes calm: "calm env" and valid: "validate_priorities (monitor_event_priority (je_settings env))"
    and r0: "get_signal (lr_id row) (jw_db w) = Some r0" "lr_state r0 = lr_state row"
      "lr_state_version r0 = lr_state_version row"
      "lr_data_degraded_since r0 = lr_data_degraded_since row"
  shows "\<exists>c r r' w'. mc_signal c = signal_snapshot_from_record row \<and> mc_bot_paused c = paused \<and>
    mc_as_of c = now \<and>
    (mk_data_quality_ok (mc_market c) \<longleftrightarrow> da_data_quality (je_adapters env) \<and>
       usable (je_settings env) (qr_status (fst (evaluate_quality (je_quality env)
         (ns_instrument_id (lr_new row)) (jw_market w))))) \<and>
    evaluate_signal c (je_settings env) = Inr r \<and>
    evaluate_row env row entry paused now w = (Inr (length (er_transitions r), 0), w') \<and>
    get_signal (lr_id row) (jw_db w') = Some r' \<and>
    stepped (r0\<lparr>lr_data_degraded_since :=
      degraded_after (market_healthy (mc_market c)) now (lr_data_degraded_since row)\<rparr>) (er_transitions r) r'"
proof -
  let ?i = "lr_id row"
  obtain c w1 where c: "fetch_monitor_context env row entry paused now w = (Inr c, w1)"
    "jw_db w1 = jw_db w" "mc_signal c = signal_snapshot_from_record row" "mc_bot_paused c = paused"
    "mc_as_of c = now"
    and ok: "mk_data_quality_ok (mc_market c) \<longleftrightarrow> da_data_quality (je_adapters env) \<and>
       usable (je_settings env) (qr_status (fst (evaluate_quality (je_quality env)
         (ns_instrument_id (lr_new row)) (jw_market w))))"
    using calm_fetch [OF calm, of row entry paused now w] by blast
  obtain r where r: "evaluate_signal c (je_settings env) = Inr r"
    and froms: "map ts_from_state (er_transitions r)
      = take (length (er_transitions r)) (lr_state r0 # map ts_to_state (er_transitions r))"
    using evaluation_legal [OF valid, of c] c(3) r0(2)
    by (auto simp: signal_snapshot_from_record_def Let_def)
  let ?upd = "if lifecycle_persist_updates (je_settings env)
        then persist_updates env ?i now (er_updates r) else pure_action ()"
  let ?rej = "case er_suppressed_findings r of [] \<Rightarrow> pure_action ()
        | s # _ \<Rightarrow> reject_row env row RC_INVALID_TRANSITION (je_describe env s) now"
  have "never_raises ?upd" using persist_updates_returns by simp
  from never_raises_value [OF this] obtain w2 where u: "?upd w1 = (Inr (), w2)" by auto
  have "never_raises ?rej" using reject_row_returns by (simp split: list.split)
  from never_raises_value [OF this] obtain w3 where j: "?rej w2 = (Inr (), w3)" by auto
  have "keeps (moved (leaves ?i) env) ?upd"
    by (intro moves.keeps_rules persist_updates_moves calm_script calm) simp
  from moved_leaves [OF this, of w1] r0(1) c(2) u have "get_signal ?i (jw_db w2) = Some r0" by simp
  moreover have "keeps (moved (leaves ?i) env) ?rej"
    by (auto intro!: moves.keeps_rules reject_row_moves calm_script calm split: list.split)
  ultimately have "get_signal ?i (jw_db w3) = Some r0" using moved_leaves [of ?i env ?rej w2] j by simp
  from calm_steps [OF calm this r0(3) froms, of now 0] obtain w4 r4 where
    st: "apply_steps env row now (lr_state_version row) 0 (er_transitions r) w3
      = (Inr (length (er_transitions r), 0), w4)" and r4: "get_signal ?i (jw_db w4) = Some r4"
      "stepped r0 (er_transitions r) r4" by auto
  let ?m = "monitoring_of c now"
  obtain w5 where m: "suppressed (call_monitor env ?i ?m) w4 = (Inr (), w5)"
    and r5: "get_signal ?i (jw_db w5) = Some (monitored_row ?m r4)"
  proof -
    have "lr_id r4 = ?i" using get_signal_id [OF r4(1)] by simp
    with r4(1) show ?thesis
      by (intro that [of "w4\<lparr>jw_calls := Suc (jw_calls w4),
          jw_db := update_monitoring_fields ?i ?m (jw_db w4)\<rparr>"])
        (simp_all add: suppressed_def on_error_def call_monitor_def calm_perform [OF calm]
          one_commit_def update_monitoring_fields_def get_signal_update)
  qed
  have ev: "evaluate_row env row entry paused now w = (Inr (length (er_transitions r), 0), w5)"
    using c(1) r u j st m
    by (simp add: evaluate_row_def and_then_def run_engine_def pure_action_def)
  have since: "sg_data_degraded_since (mc_signal c) = lr_data_degraded_since row"
    by (simp add: c(3) signal_snapshot_from_record_def Let_def)
  have "stepped (r0\<lparr>lr_data_degraded_since :=
      degraded_after (market_healthy (mc_market c)) now (lr_data_degraded_since row)\<rparr>)
      (er_transitions r) (monitored_row ?m r4)"
    using r4(2) since
    by (simp add: stepped_def monitored_row_def monitoring_of_def degraded_after_def Let_def)
  with c(3-5) ok r ev r5 show ?thesis by blast
qed

text \<open>The same with the lease around it.\<close>

lemma calm_monitor:
  assumes calm: "calm env" and valid: "validate_priorities (monitor_event_priority (je_settings env))"
    and row: "get_signal (lr_id row) (jw_db w) = Some row" "claimable (lr_id row) (je_owner env) now row"
  shows "\<exists>c r r' w'. mc_signal c = signal_snapshot_from_record row \<and> mc_bot_paused c = paused \<and>
    mc_as_of c = now \<and>
    (mk_data_quality_ok (mc_market c) \<longleftrightarrow> da_data_quality (je_adapters env) \<and>
       usable (je_settings env) (qr_status (fst (evaluate_quality (je_quality env)
         (ns_instrument_id (lr_new row)) (jw_market w))))) \<and>
    evaluate_signal c (je_settings env) = Inr r \<and>
    monitor_one env watchlist paused now row w = (Inr (1, length (er_transitions r), 0), w') \<and>
    get_signal (lr_id row) (jw_db w') = Some r' \<and> lr_new r' = lr_new row \<and> lr_lease_owner r' = None \<and>
    lr_state r' = last (lr_state row # map ts_to_state (er_transitions r)) \<and>
    lr_state_version r' = lr_state_version row + int (length (er_transitions r)) \<and>
    lr_data_degraded_since r' =
      degraded_after (market_healthy (mc_market c)) now (lr_data_degraded_since row)"
proof -
  let ?i = "lr_id row" and ?entry = "map_of watchlist (ns_instrument_pk (lr_new row))"
  let ?secs = "lifecycle_lease_seconds (je_settings env)"
  let ?r0 = "row\<lparr>lr_lease_owner := Some (je_owner env),
      lr_lease_expires_at := Some (now + timedelta_seconds ?secs)\<rparr>"
  let ?w1 = "w\<lparr>jw_calls := Suc (jw_calls w), jw_db := snd (claim ?i (je_owner env) now ?secs (jw_db w))\<rparr>"
  have "row \<in> set (db_signals (jw_db w))" using get_signal_id [OF row(1)] by simp
  then have "fst (claim ?i (je_owner env) now ?secs (jw_db w))"
    using row(2) by (auto simp: claim_def row_count_pos)
  then have claimed: "call_claim env ?i now w = (Inr True, ?w1)"
    by (simp add: call_claim_def calm_perform [OF calm] one_commit_def)
  have "get_signal ?i (jw_db ?w1) = Some ?r0"
    using row by (simp add: claim_def get_signal_update)
  from calm_evaluate [OF calm valid this, of paused now ?entry] obtain c r r' w2 where
    c: "mc_signal c = signal_snapshot_from_record row" "mc_bot_paused c = paused" "mc_as_of c = now"
      "mk_data_quality_ok (mc_market c) \<longleftrightarrow> da_data_quality (je_adapters env) \<and>
       usable (je_settings env) (qr_status (fst (evaluate_quality (je_quality env)
         (ns_instrument_id (lr_new row)) (jw_market w))))"
    and r: "evaluate_signal c (je_settings env) = Inr r"
    and ev: "evaluate_row env row ?entry paused now ?w1 = (Inr (length (er_transitions r), 0), w2)"
    and r': "get_signal ?i (jw_db w2) = Some r'"
      "stepped (?r0\<lparr>lr_data_degraded_since :=
        degraded_after (market_healthy (mc_market c)) now (lr_data_degraded_since row)\<rparr>) (er_transitions r) r'"
    by auto
  let ?db = "release ?i (je_owner env) (jw_db w2)"
  let ?w3 = "w2\<lparr>jw_calls := Suc (jw_calls w2), jw_db := ?db\<rparr>"
  have rel: "suppressed (call_release env ?i) w2 = (Inr (), ?w3)"
    by (simp add: suppressed_def on_error_def call_release_def calm_perform [OF calm] one_commit_def)
  have "lr_lease_owner r' = Some (je_owner env)" using r'(2) by (simp add: stepped_def)
  then have "get_signal ?i ?db = Some (r'\<lparr>lr_lease_owner := None, lr_lease_expires_at := None\<rparr>)"
    using r'(1) get_signal_id [OF r'(1)] by (simp add: release_def get_signal_update)
  moreover have "monitor_one env watchlist paused now row w = (Inr (1, length (er_transitions r), 0), ?w3)"
    using claimed ev rel by (simp add: monitor_one_def and_then_def on_error_def pure_action_def)
  ultimately show ?thesis
    using c r r'(2)
    by (intro exI [of _ c] exI [of _ r] exI [of _ "r'\<lparr>lr_lease_owner := None, lr_lease_expires_at := None\<rparr>"]
        exI [of _ ?w3]) (simp add: stepped_def)
qed


section \<open>Cycles without usable data\<close>

text \<open>No instrument's data is usable.\<close>

definition dark :: "job_env \<Rightarrow> market_state \<Rightarrow> bool" where
  "dark env s \<longleftrightarrow> (\<forall>i. \<not> (da_data_quality (je_adapters env) \<and>
     usable (je_settings env) (qr_status (fst (evaluate_quality (je_quality env) i s)))))"

lemma dark_same: "same_market env w w' \<Longrightarrow> dark env (jw_market w) \<Longrightarrow> dark env (jw_market w')"
  using evaluate_quality_cong by (auto simp: same_market_def dark_def)

definition waiting :: "job_env \<Rightarrow> datetime \<Rightarrow> lifecycle_row \<Rightarrow> lifecycle_row \<Rightarrow> bool" where
  "waiting env now row r' \<longleftrightarrow> lr_new r' = lr_new row \<and> lr_lease_owner r' = None \<and>
     lr_data_degraded_since r' = Some (case lr_data_degraded_since row of Some t \<Rightarrow> t | None \<Rightarrow> now) \<and>
     (\<forall>t. lr_data_degraded_since row = Some t \<and> lr_state row \<noteq> DRAFT \<and>
        lifecycle_data_degraded_grace_seconds (je_settings env) < total_seconds (now - t) \<longrightarrow>
        is_terminal (lr_state r'))"

lemma dark_monitor:
  assumes calm: "calm env" and valid: "validate_priorities (monitor_event_priority (je_settings env))"
    and row: "get_signal (lr_id row) (jw_db w) = Some row" "claimable (lr_id row) (je_owner env) now row"
    and live: "\<not> is_terminal (lr_state row)" and dark: "dark env (jw_market w)"
  shows "\<exists>r'. get_signal (lr_id row) (jw_db (snd (monitor_one env watchlist paused now row w))) = Some r' \<and>
    waiting env now row r'"
proof -
  obtain c r r' w' where c: "mc_signal c = signal_snapshot_from_record row" "mc_as_of c = now"
    and ok: "mk_data_quality_ok (mc_market c) \<longleftrightarrow> da_data_quality (je_adapters env) \<and>
       usable (je_settings env) (qr_status (fst (evaluate_quality (je_quality env)
         (ns_instrument_id (lr_new row)) (jw_market w))))"
    and r: "evaluate_signal c (je_settings env) = Inr r"
    and m: "monitor_one env watchlist paused now row w = (Inr (1, length (er_transitions r), 0), w')"
    and r': "get_signal (lr_id row) (jw_db w') = Some r'" "lr_new r' = lr_new row" "lr_lease_owner r' = None"
      "lr_state r' = last (lr_state row # map ts_to_state (er_transitions r))"
      "lr_data_degraded_since r'
        = degraded_after (market_healthy (mc_market c)) now (lr_data_degraded_since row)"
    using calm_monitor [OF calm valid row, of paused watchlist] by blast
  have unhealthy: "\<not> market_healthy (mc_market c)"
    using ok dark by (auto simp: dark_def market_healthy_def)
  have sg: "sg_state (mc_signal c) = lr_state row"
    "sg_data_degraded_since (mc_signal c) = lr_data_degraded_since row"
    by (simp_all add: c(1) signal_snapshot_from_record_def Let_def)
  have "is_terminal (lr_state r')" if "lr_data_degraded_since row = Some t" "lr_state row \<noteq> DRAFT"
    "lifecycle_data_degraded_grace_seconds (je_settings env) < total_seconds (now - t)" for t
  proof -
    have "final_state r = Some DATA_INVALID"
      using bad_data_invalidates [OF valid _ _ unhealthy, of t] that live sg c(2) r by auto
    then have "lr_state r' = DATA_INVALID"
      using r'(4) by (auto simp: final_state_def last_map split: if_splits)
    then show ?thesis by (simp add: is_terminal_def terminal_states_def)
  qed
  with r' unhealthy m show ?thesis by (auto simp: waiting_def degraded_after_def)
qed

lemma monitor_rows_step:
  "snd (monitor_rows env watchlist paused now (x # rows) w)
     = snd (monitor_rows env watchlist paused now rows (snd (monitor_one env watchlist paused now x w)))"
proof -
  obtain y w1 where 1: "monitor_one env watchlist paused now x w = (Inr y, w1)"
    using never_raises_value [OF monitor_one_returns] by blast
  obtain z w2 where 2: "monitor_rows env watchlist paused now rows w1 = (Inr z, w2)"
    using never_raises_value [OF monitor_rows_return] by blast
  show ?thesis using 1 2 by (simp add: and_then_def pure_action_def split: prod.split)
qed

lemma other_rows_leave:
  assumes "calm env" "i \<notin> lr_id ` set rows" "get_signal i (jw_db w) = Some r"
  shows "get_signal i (jw_db (snd (monitor_rows env watchlist paused now rows w))) = Some r"
proof (rule moved_leaves [OF monitor_rows_moves assms(3)])
  show "\<forall>row \<in> set rows. permits (leaves i) (lr_id row) \<and> may_apply (leaves i) env paused row"
  proof
    fix row assume "row \<in> set rows"
    then have "lr_id row \<noteq> i" using assms(2) by auto
    then show "permits (leaves i) (lr_id row) \<and> may_apply (leaves i) env paused row" by (rule other_row)
  qed
qed (rule calm_script [OF assms(1)])

lemma dark_rows:
  assumes calm: "calm env" and valid: "validate_priorities (monitor_event_priority (je_settings env))"
    and "distinct (map lr_id rows)" "row \<in> set rows" "get_signal (lr_id row) (jw_db w) = Some row"
    and "claimable (lr_id row) (je_owner env) now row" "\<not> is_terminal (lr_state row)"
    and "dark env (jw_market w)"
  shows "\<exists>r'. get_signal (lr_id row) (jw_db (snd (monitor_rows env watchlist paused now rows w))) = Some r' \<and>
    waiting env now row r'"
  using assms(3-)
proof (induction rows arbitrary: w)
  case (Cons x rows)
  let ?w1 = "snd (monitor_one env watchlist paused now x w)"
  show ?case
  proof (cases "x = row")
    case True
    obtain r' where r': "get_signal (lr_id row) (jw_db ?w1) = Some r'" "waiting env now row r'"
      using dark_monitor [OF calm valid Cons.prems(3-)] True by blast
    have "lr_id row \<notin> lr_id ` set rows" using Cons.prems(1) True by simp
    from other_rows_leave [OF calm this r'(1)] r'(2) show ?thesis
      unfolding monitor_rows_step by blast
  next
    case False
    then have row: "row \<in> set rows" using Cons.prems(2) by simp
    then have "lr_id x \<noteq> lr_id row" using Cons.prems(1) by auto
    then have "get_signal (lr_id row) (jw_db ?w1) = Some row"
      using moved_leaves [OF monitor_one_moves Cons.prems(3)] other_row calm_script [OF calm] by blast
    moreover have "dark env (jw_market ?w1)"
      using dark_same [OF _ Cons.prems(6)] monitor_one_views [OF calm] by (simp add: keeps_def)
    ultimately show ?thesis
      using Cons.IH [of ?w1] Cons.prems row unfolding monitor_rows_step by simp
  qed
qed simp

lemma calm_monitor_phase:
  assumes "calm env"
  shows "\<exists>v. snd (monitor_phase env watchlist paused now w)
      = snd (monitor_rows env watchlist paused now (non_terminal (jw_db w)) v) \<and>
    jw_db v = jw_db w \<and> jw_market v = jw_market w"
  by (intro exI [of _ "w\<lparr>jw_calls := Suc (Suc (jw_calls w))\<rparr>"])
    (simp add: monitor_phase_def load_or_degrade_def and_then_def on_error_def suppressed_def
      calm_query [OF assms] pure_action_def)

lemma cycle_monitors:
  assumes "calm env"
  shows "\<exists>v. jw_db (snd (cycle env paused watchlist now w))
      = jw_db (snd (monitor_rows env watchlist paused now (non_terminal (jw_db v)) v)) \<and>
    same_market env w v \<and> moved (leaves i) env w v \<and> moved (\<lambda>_. True) env w v"
proof -
  let ?a = "if paused then pure_action (0, 0, 0) else admission_phase env watchlist now"
  let ?w0 = "w\<lparr>jw_job := (jw_job w)\<lparr>js_degraded := False\<rparr>\<rparr>"
  have "never_raises ?a" using phases_return by simp
  from never_raises_value [OF this] obtain x w1 where a: "?a ?w0 = (Inr x, w1)" by blast
  obtain y w2 where m: "monitor_phase env watchlist paused now w1 = (Inr y, w2)"
    using never_raises_value [OF phases_return(1)] by blast
  have "jw_db (snd (cycle env paused watchlist now w)) = jw_db w2"
  proof -
    obtain p q r s t u where "x = (p, q, r)" "y = (s, t, u)" by (cases x; cases y)
    then show ?thesis
      using a m unfolding cycle_def job_step_def modify_state_def and_then_def finish_cycle_def
      by (simp add: pure_action_def job_step_def modify_state_def and_then_def)
  qed
  moreover obtain v where v: "snd (monitor_phase env watchlist paused now w1)
      = snd (monitor_rows env watchlist paused now (non_terminal (jw_db w1)) v)"
    "jw_db v = jw_db w1" "jw_market v = jw_market w1" using calm_monitor_phase [OF assms] by blast
  moreover have "same_market env w v"
  proof -
    have "keeps (same_market env) ?a"
      using admission_phase_views [OF assms] by (simp add: views.keeps_pure)
    then have "same_market env ?w0 (snd (?a ?w0))" unfolding keeps_def by blast
    then show ?thesis using a v(3) by (simp add: same_market_def)
  qed
  moreover have "moved P env w v" if "\<And>fault n. P (Op_Insert fault n)" "\<And>rj u. P (Op_Reject rj u)" for P
  proof -
    have "keeps (moved P env) ?a"
      using admission_phase_moves [OF calm_script [OF assms], of P] that by (simp add: moves.keeps_pure)
    then have "moved P env ?w0 (snd (?a ?w0))" unfolding keeps_def by blast
    then show ?thesis using a v(2) by (simp add: moved_def)
  qed
  moreover from this have "moved (leaves i) env w v" "moved (\<lambda>_. True) env w v" by simp_all
  ultimately show ?thesis using m by (intro exI [of _ v]) simp
qed

lemma dark_cycle:
  assumes calm: "calm env" and valid: "validate_priorities (monitor_event_priority (je_settings env))"
    and dist: "distinct_keys (jw_db w)" and dark: "dark env (jw_market w)"
    and r: "get_signal i (jw_db w) = Some r" "is_terminal (lr_state r) \<or> claimable i (je_owner env) now r"
  shows "\<exists>r'. get_signal i (jw_db (snd (cycle env paused watchlist now w))) = Some r' \<and>
    (if is_terminal (lr_state r) then r' = r else waiting env now r r')"
proof -
  obtain v where v: "jw_db (snd (cycle env paused watchlist now w))
      = jw_db (snd (monitor_rows env watchlist paused now (non_terminal (jw_db v)) v))"
    and market: "same_market env w v"
    and moves: "moved (leaves i) env w v" "moved (\<lambda>_. True) env w v"
    using cycle_monitors [OF calm, of paused watchlist now w i] by blast
  have row: "get_signal i (jw_db v) = Some r" and dv: "distinct_keys (jw_db v)"
    using r(1) moves(1) run_leaves moved_version(1) [OF moves(2) dist] by (auto simp: moved_def)
  let ?rows = "non_terminal (jw_db v)"
  have rows: "set ?rows = {x \<in> set (db_signals (jw_db v)). \<not> is_terminal (lr_state x)}"
    by (auto simp: non_terminal_def)
  have "distinct (map lr_id ?rows)"
  proof -
    have "distinct (db_signals (jw_db v))" "inj_on lr_id (set (db_signals (jw_db v)))"
      using dv by (simp_all only: distinct_keys_def distinct_map)
    moreover have "set ?rows \<subseteq> set (db_signals (jw_db v))" using rows by auto
    moreover have "distinct ?rows" using calculation(1) by (simp add: non_terminal_def)
    ultimately show ?thesis unfolding distinct_map by (blast intro: inj_on_subset)
  qed
  show ?thesis
  proof (cases "is_terminal (lr_state r)")
    case True
    have "i \<notin> lr_id ` set ?rows"
    proof
      assume "i \<in> lr_id ` set ?rows"
      then obtain x where x: "x \<in> set ?rows" "lr_id x = i" by auto
      then have "get_signal i (jw_db v) = Some x" using rows get_signal_iff [OF dv, of i x] by simp
      then show False using row True x(1) rows by simp
    qed
    from other_rows_leave [OF calm this row] True v show ?thesis by simp
  next
    case False
    have i: "r \<in> set ?rows" "lr_id r = i" using rows False get_signal_id [OF row] by auto
    have "\<exists>r'. get_signal (lr_id r) (jw_db (snd (monitor_rows env watchlist paused now ?rows v))) = Some r' \<and>
      waiting env now r r'"
      using r(2) False row i
      by (intro dark_rows [OF calm valid \<open>distinct (map lr_id ?rows)\<close>] dark_same [OF market dark]) simp_all
    then show ?thesis using False v i(2) by simp
  qed
qed


section \<open>Claims\<close>

text \<open>
  What an undisturbed evaluation computes is what the table holds: for a leasable row whose stored state is
  the one read, the job evaluates a context of that row, stores every step the engine returned, counts
  them, and releases the lease; the stored state is the engine's final state, the version has moved by the
  number of steps, and the start of degraded data is kept, set or cleared.
\<close>

theorem undisturbed_evaluation_is_stored:
  assumes "calm env" "validate_priorities (monitor_event_priority (je_settings env))"
    and "get_signal (lr_id row) (jw_db w) = Some row" "claimable (lr_id row) (je_owner env) now row"
  shows "\<exists>c r r'. mc_signal c = signal_snapshot_from_record row \<and> mc_bot_paused c = paused \<and>
    mc_as_of c = now \<and> evaluate_signal c (je_settings env) = Inr r \<and>
    fst (monitor_one env watchlist paused now row w) = Inr (1, length (er_transitions r), 0) \<and>
    get_signal (lr_id row) (jw_db (snd (monitor_one env watchlist paused now row w))) = Some r' \<and>
    lr_state r' = (case final_state r of None \<Rightarrow> lr_state row | Some s \<Rightarrow> s) \<and>
    lr_state_version r' = lr_state_version row + int (length (er_transitions r)) \<and>
    lr_new r' = lr_new row \<and> lr_lease_owner r' = None \<and>
    lr_data_degraded_since r' =
      degraded_after (market_healthy (mc_market c)) now (lr_data_degraded_since row)"
proof -
  obtain c r r' w' where "mc_signal c = signal_snapshot_from_record row" "mc_bot_paused c = paused"
    "mc_as_of c = now" "evaluate_signal c (je_settings env) = Inr r"
    "monitor_one env watchlist paused now row w = (Inr (1, length (er_transitions r), 0), w')"
    "get_signal (lr_id row) (jw_db w') = Some r'" "lr_new r' = lr_new row" "lr_lease_owner r' = None"
    "lr_state r' = last (lr_state row # map ts_to_state (er_transitions r))"
    "lr_state_version r' = lr_state_version row + int (length (er_transitions r))"
    "lr_data_degraded_since r'
        = degraded_after (market_healthy (mc_market c)) now (lr_data_degraded_since row)"
    using calm_monitor [OF assms, of paused watchlist] by blast
  then show ?thesis
    by (intro exI [of _ c] exI [of _ r] exI [of _ r']) (simp add: final_state_def last_map)
qed

lemma example_calm: "calm example_job_env"
  by (simp add: calm_def example_job_env_def)

lemma example_row: "get_signal (lr_id (new_row example_new)) (jw_db example_world) = Some (new_row example_new)"
  by (simp add: example_world_def get_signal_def insert_new_def insert_row_def empty_db_def lr_id_def
      new_row_def split: option.split)

theorem undisturbed_evaluation_is_stored_witness:
  "\<exists>r'. get_signal 7 (jw_db (snd (monitor_one example_job_env [] False 60000000 (new_row example_new)
     example_world))) = Some r' \<and> lr_new r' = example_new \<and> lr_lease_owner r' = None"
proof -
  have "claimable (lr_id (new_row example_new)) (je_owner example_job_env) 60000000 (new_row example_new)"
    by (simp add: claimable_def new_row_def)
  from undisturbed_evaluation_is_stored [OF example_calm example_valid example_row this, of False "[]"]
  show ?thesis by (auto simp: lr_id_def new_row_def example_new_def)
qed

text \<open>
  C16.  Bad data ends every signal in time: after two undisturbed cycles more than the grace period apart, during
  which no instrument's data is usable, every signal that was in the table is terminal, whatever else
  the cycles see, admit or are paused for.
\<close>

theorem outage_ends_every_signal:
  assumes "calm env" "calm env'"
    and "validate_priorities (monitor_event_priority (je_settings env))"
    and "validate_priorities (monitor_event_priority (je_settings env'))"
    and sound: "table_sound (jw_db w)"
    and rows: "list_all (\<lambda>r. claimable (lr_id r) (je_owner env) now r \<and>
      (case lr_data_degraded_since r of None \<Rightarrow> True | Some t \<Rightarrow> t \<le> now)) (db_signals (jw_db w))"
    and "dark env (jw_market w)" "dark env' market'"
    and grace: "lifecycle_data_degraded_grace_seconds (je_settings env') < total_seconds (now' - now)"
  shows "list_all (\<lambda>r. case get_signal (lr_id r) (jw_db (snd (cycle env' paused' watchlist' now'
      ((snd (cycle env paused watchlist now w))\<lparr>jw_market := market'\<rparr>)))) of
        None \<Rightarrow> False | Some r' \<Rightarrow> is_terminal (lr_state r')) (db_signals (jw_db w))"
  unfolding list_all_iff
proof
  fix r assume r: "r \<in> set (db_signals (jw_db w))"
  let ?w1 = "(snd (cycle env paused watchlist now w))\<lparr>jw_market := market'\<rparr>"
  have dist: "distinct_keys (jw_db w)" and r0: "get_signal (lr_id r) (jw_db w) = Some r"
    using sound r get_signal_iff by (auto simp: table_sound_def)
  have "lawful_run (env, paused, watchlist, now)"
    using assms(1,3) calm_script by (simp add: lawful_run_def)
  from cycle_table_sound [OF this sound] have sound1: "table_sound (jw_db ?w1)" by simp
  have claim: "claimable (lr_id r) (je_owner env) now r"
    and early: "\<And>t. lr_data_degraded_since r = Some t \<Longrightarrow> t \<le> now"
    using rows r by (auto simp: list_all_iff)
  obtain r1 where r1: "get_signal (lr_id r) (jw_db ?w1) = Some r1"
    "if is_terminal (lr_state r) then r1 = r else waiting env now r r1"
    using dark_cycle [OF assms(1,3) dist assms(7) r0 disjI2 [OF claim], of paused watchlist] by auto
  have "is_terminal (lr_state r1) \<or> claimable (lr_id r) (je_owner env') now' r1"
    using r1 get_signal_id [OF r1(1)] by (auto simp: waiting_def claimable_def split: if_splits)
  from dark_cycle [OF assms(2,4) _ _ r1(1) this] sound1 assms(8) obtain r2 where
    r2: "get_signal (lr_id r) (jw_db (snd (cycle env' paused' watchlist' now' ?w1))) = Some r2"
    "if is_terminal (lr_state r1) then r2 = r1 else waiting env' now' r1 r2"
    by (auto simp: table_sound_def)
  have "is_terminal (lr_state r2)"
  proof (cases "is_terminal (lr_state r1)")
    case False
    then have "\<not> is_terminal (lr_state r)" using r1(2) by (auto split: if_splits)
    with r1(2) obtain t where t: "lr_data_degraded_since r1 = Some t" "t \<le> now"
      using early by (auto simp: waiting_def split: option.splits)
    have "lr_state r1 \<noteq> DRAFT"
      using sound1 get_signal_id [OF r1(1)] by (auto simp: table_sound_def list_all_iff row_ok_def)
    moreover have "lifecycle_data_degraded_grace_seconds (je_settings env') < total_seconds (now' - t)"
      using grace total_seconds_mono [of "now' - now" "now' - t"] t(2) by linarith
    ultimately show ?thesis using r2(2) False t(1) by (simp add: waiting_def)
  qed (use r2 in simp)
  with r2(1) show "case get_signal (lr_id r) (jw_db (snd (cycle env' paused' watchlist' now' ?w1))) of
        None \<Rightarrow> False | Some r' \<Rightarrow> is_terminal (lr_state r')" by simp
qed

definition watching_env :: job_env where
  "watching_env = example_job_env\<lparr>je_settings := default_signal_settings,
     je_adapters := \<lparr>da_market_data = True, da_data_quality = True, da_books = True\<rparr>\<rparr>"

theorem outage_ends_every_signal_witness:
  "case get_signal 7 (jw_db (snd (cycle watching_env False [] 200000000
      ((snd (cycle watching_env False [] 60000000 example_world))\<lparr>jw_market := empty_market\<rparr>)))) of
     None \<Rightarrow> False | Some r' \<Rightarrow> is_terminal (lr_state r')"
proof -
  have calm: "calm watching_env" using example_calm by (simp add: calm_def watching_env_def)
  have valid: "validate_priorities (monitor_event_priority (je_settings watching_env))"
    by (simp add: watching_env_def default_signal_settings_def default_priorities_valid)
  have signals: "db_signals (jw_db example_world) = [new_row example_new]"
    by (simp add: example_world_def insert_new_def insert_row_def empty_db_def split: option.split)
  have dark: "dark watching_env empty_market"
    by (simp add: dark_def usable_def evaluate_quality_def empty_market_def)
  have "lifecycle_data_degraded_grace_seconds (je_settings watching_env) < total_seconds (200000000 - 60000000)"
    using fl_of_int [of 140] by (simp add: watching_env_def default_signal_settings_def total_seconds_def)
  from outage_ends_every_signal [OF calm calm valid valid example_world_sound _ _ dark this, of False "[]" False "[]"]
  show ?thesis
    using dark by (simp add: signals) (simp add: example_world_def claimable_def new_row_def lr_id_def example_new_def)
qed

end
