(* ===== verification/Persistence_Buffer.thy ===== *)
theory Persistence_Buffer
  imports Market_Data
begin

text \<open>
  The batch buffer of \<open>app/data/persistence_buffer.py\<close> between the event handlers and the database.  The
  ordered dictionary is an association list, oldest first.  A flush is two operations, before and after
  the awaited write, because appends run in between.  Logs and metrics are left out.
\<close>

section \<open>State\<close>

record ('k, 'r) buffer_config =
  bc_batch_size :: nat
  bc_max_buffered :: nat
  bc_dedup_key :: "('r \<Rightarrow> 'k) option"

datatype 'k buffer_key = Auto_Key nat | Dedup_Key 'k

record ('k, 'r) buffer =
  pb_records :: "('k buffer_key \<times> 'r) list"
  pb_auto_key :: nat
  pb_wakeup :: bool
  pb_dropped_records :: nat
  pb_flushed_records :: nat
  pb_failed_flushes :: nat
  pb_degraded :: bool
  pb_last_flush_ok_at :: "float64 option"

definition new_buffer :: "('k, 'r) buffer" where
  "new_buffer = \<lparr>pb_records = [], pb_auto_key = 0, pb_wakeup = False, pb_dropped_records = 0,
     pb_flushed_records = 0, pb_failed_flushes = 0, pb_degraded = False, pb_last_flush_ok_at = None\<rparr>"

section \<open>Appending\<close>

datatype buffer_error = Key_Error \<comment> \<open>\<open>popitem\<close> on an empty dictionary\<close>

definition record_key :: "('k, 'r) buffer_config \<Rightarrow> 'r \<Rightarrow> ('k, 'r) buffer \<Rightarrow> 'k buffer_key \<times> nat" where
  "record_key cfg r b = (case bc_dedup_key cfg of
     Some f \<Rightarrow> (Dedup_Key (f r), pb_auto_key b)
   | None \<Rightarrow> (Auto_Key (pb_auto_key b + 1), pb_auto_key b + 1))"

definition append_record ::
  "('k, 'r) buffer_config \<Rightarrow> 'r \<Rightarrow> ('k, 'r) buffer \<Rightarrow> buffer_error + ('k, 'r) buffer" where
  "append_record cfg r b =
     (let (key, auto_key) = record_key cfg r b;
          known = key \<in> fst ` set (pb_records b);
          full = bc_max_buffered cfg \<le> length (pb_records b);
          kept = (if known then AList.delete key (pb_records b)
                  else if full then tl (pb_records b) else pb_records b);
          records = kept @ [(key, r)] in
      if \<not> known \<and> full \<and> pb_records b = [] then Inl Key_Error
      else Inr (b\<lparr>pb_auto_key := auto_key, pb_records := records,
        pb_dropped_records := pb_dropped_records b + (if \<not> known \<and> full then 1 else 0),
        pb_wakeup := (pb_wakeup b \<or> bc_batch_size cfg \<le> length records)\<rparr>))"

section \<open>Flushing\<close>

text \<open>The batch handed to the writer; nothing happens on an empty buffer.\<close>

definition flush_begin :: "('k, 'r) buffer_config \<Rightarrow> ('k, 'r) buffer \<Rightarrow> ('k buffer_key \<times> 'r) list option" where
  "flush_begin cfg b =
     (if pb_records b = [] then None else Some (take (bc_batch_size cfg) (pb_records b)))"

text \<open>The write returns, raises, or is cancelled with the task.\<close>

datatype write_outcome = Write_Ok | Write_Failed | Write_Cancelled

definition flush_complete ::
  "('k, 'r) buffer_config \<Rightarrow> float64 \<Rightarrow> write_outcome \<Rightarrow> ('k buffer_key \<times> 'r) list \<Rightarrow>
     ('k, 'r) buffer \<Rightarrow> ('k, 'r) buffer" where
  "flush_complete cfg clock outcome batch b =
     (case outcome of
        Write_Failed \<Rightarrow> b\<lparr>pb_failed_flushes := pb_failed_flushes b + 1, pb_degraded := True\<rparr>
      | Write_Cancelled \<Rightarrow> b
      | Write_Ok \<Rightarrow>
          let records = fold AList.delete (map fst batch) (pb_records b) in
          b\<lparr>pb_records := records, pb_flushed_records := pb_flushed_records b + length batch,
            pb_degraded := False, pb_last_flush_ok_at := Some clock,
            pb_wakeup := (pb_wakeup b \<or> bc_batch_size cfg \<le> length records)\<rparr>)"

text \<open>One turn of the background task clears the wake-up before it flushes.\<close>

definition run_begin ::
  "('k, 'r) buffer_config \<Rightarrow> ('k, 'r) buffer \<Rightarrow> ('k buffer_key \<times> 'r) list option \<times> ('k, 'r) buffer" where
  "run_begin cfg b = (flush_begin cfg b, b\<lparr>pb_wakeup := False\<rparr>)"

section \<open>The four buffers\<close>

text \<open>The keys \<open>build_persistence_bundle\<close> in \<open>app/bootstrap.py\<close> gives the buffers.\<close>

definition tick_key :: "int \<times> ticker_data \<Rightarrow> int \<times> int" where
  "tick_key item = (fst item, truncate_float (total_seconds (td_ts (snd item))) div 5)"

definition candle_key :: "int \<times> candle_data \<Rightarrow> int \<times> timeframe \<times> datetime" where
  "candle_key item = (fst item, cd_timeframe (snd item), cd_open_time (snd item))"

definition book_key :: "book_row \<Rightarrow> int \<times> datetime" where
  "book_key row = (br_instrument_pk row, br_ts row - br_ts row mod 60000000)"

definition funding_key :: "int \<times> decimal \<times> datetime \<Rightarrow> int \<times> datetime" where
  "funding_key item = (fst item, snd (snd item))"

definition buffers_degraded ::
  "(int \<times> int, int \<times> ticker_data) buffer \<Rightarrow> (int \<times> timeframe \<times> datetime, int \<times> candle_data) buffer \<Rightarrow>
   (int \<times> datetime, book_row) buffer \<Rightarrow> (int \<times> datetime, int \<times> decimal \<times> datetime) buffer \<Rightarrow> bool" where
  "buffers_degraded ticks candles books funding \<longleftrightarrow>
     pb_degraded ticks \<or> pb_degraded candles \<or> pb_degraded books \<or> pb_degraded funding"

section \<open>The buffer under any interleaving\<close>

text \<open>
  Appends, the start of a flush and its end, in any order with at most one flush in flight; \<open>written\<close>
  collects what the writer accepted.
\<close>

record ('k, 'r) buffer_system =
  bs_buffer :: "('k, 'r) buffer"
  bs_in_flight :: "('k buffer_key \<times> 'r) list option"
  bs_written :: "'r list"

inductive buffer_step ::
  "('k, 'r) buffer_config \<Rightarrow> ('k, 'r) buffer_system \<Rightarrow> ('k, 'r) buffer_system \<Rightarrow> bool" for cfg where
  append: "append_record cfg r (bs_buffer s) = Inr b \<Longrightarrow> buffer_step cfg s (s\<lparr>bs_buffer := b\<rparr>)"
| start: "bs_in_flight s = None \<Longrightarrow> run_begin cfg (bs_buffer s) = (batch, b) \<Longrightarrow>
    buffer_step cfg s (s\<lparr>bs_buffer := b, bs_in_flight := batch\<rparr>)"
| finish: "bs_in_flight s = Some batch \<Longrightarrow>
    buffer_step cfg s (s\<lparr>bs_buffer := flush_complete cfg clock outcome batch (bs_buffer s),
      bs_in_flight := None,
      bs_written := bs_written s @ (if outcome = Write_Ok then map snd batch else [])\<rparr>)"

inductive_simps buffer_step_simps: "buffer_step cfg s s'"

definition key_ok :: "('k, 'r) buffer_config \<Rightarrow> nat \<Rightarrow> 'k buffer_key \<times> 'r \<Rightarrow> bool" where
  "key_ok cfg issued x = (case bc_dedup_key cfg of
     Some f \<Rightarrow> fst x = Dedup_Key (f (snd x)) | None \<Rightarrow> (\<exists>n \<le> issued. fst x = Auto_Key n))"

definition sound_buffer :: "('k, 'r) buffer_config \<Rightarrow> ('k, 'r) buffer \<Rightarrow> bool" where
  "sound_buffer cfg b \<longleftrightarrow>
     distinct (map fst (pb_records b)) \<and> length (pb_records b) \<le> bc_max_buffered cfg \<and>
     list_all (key_ok cfg (pb_auto_key b)) (pb_records b)"

lemma sound_new: "sound_buffer cfg new_buffer"
  by (simp add: sound_buffer_def new_buffer_def)

lemma delete_length: "k \<in> fst ` set xs \<Longrightarrow> length (AList.delete k xs) < length xs"
  unfolding AList.delete_eq by (auto intro!: length_filter_less)

lemma delete_in: "x \<in> set (AList.delete k xs) \<longleftrightarrow> x \<in> set xs \<and> fst x \<noteq> k"
  by (auto simp: AList.delete_eq)

lemma kept_after_append:
  assumes "append_record cfg r b = Inr b'"
  obtains key kept where "fst (record_key cfg r b) = key" "pb_records b' = kept @ [(key, r)]"
    "set kept \<subseteq> set (pb_records b)" "key \<notin> fst ` set kept" "pb_auto_key b' = snd (record_key cfg r b)"
    "distinct (map fst (pb_records b)) \<Longrightarrow> distinct (map fst kept)"
    "length (pb_records b) \<le> bc_max_buffered cfg \<Longrightarrow> length kept < bc_max_buffered cfg"
    "\<And>k. pb_dropped_records b' = pb_dropped_records b \<Longrightarrow> k \<noteq> key \<Longrightarrow>
       map_of kept k = map_of (pb_records b) k"
proof -
  obtain key auto_key where k: "record_key cfg r b = (key, auto_key)" by fastforce
  let ?known = "key \<in> fst ` set (pb_records b)"
  let ?full = "bc_max_buffered cfg \<le> length (pb_records b)"
  let ?kept = "if ?known then AList.delete key (pb_records b)
               else if ?full then tl (pb_records b) else pb_records b"
  have ne: "\<not> (\<not> ?known \<and> ?full \<and> pb_records b = [])"
    and b': "pb_records b' = ?kept @ [(key, r)]" "pb_auto_key b' = auto_key"
      "pb_dropped_records b' = pb_dropped_records b + (if \<not> ?known \<and> ?full then 1 else 0)"
    using assms k by (auto simp: append_record_def Let_def split: if_splits)
  have tl: "set (tl (pb_records b)) \<subseteq> set (pb_records b)" by (cases "pb_records b") auto
  show thesis
  proof (rule that [of key ?kept])
    show "set ?kept \<subseteq> set (pb_records b)" using tl by (auto simp: delete_in)
    show "key \<notin> fst ` set ?kept" using tl by (auto simp: delete_in)
    show "distinct (map fst ?kept)" if "distinct (map fst (pb_records b))"
      using that by (auto simp: AList.distinct_delete map_tl distinct_tl)
    show "length ?kept < bc_max_buffered cfg" if "length (pb_records b) \<le> bc_max_buffered cfg"
    proof (cases ?known)
      case True
      then show ?thesis using that delete_length [of key "pb_records b"] by simp
    next
      case False
      then show ?thesis using that ne by (cases "pb_records b") auto
    qed
    show "map_of ?kept k = map_of (pb_records b) k"
      if "pb_dropped_records b' = pb_dropped_records b" "k \<noteq> key" for k
      using that b'(3) by (auto simp: AList.delete_conv' split: if_splits)
  qed (use k b' in simp_all)
qed

lemma sound_append:
  assumes "sound_buffer cfg b" "append_record cfg r b = Inr b'"
  shows "sound_buffer cfg b'"
  using assms(2)
proof (cases rule: kept_after_append)
  case (1 key kept)
  have "list_all (key_ok cfg (pb_auto_key b')) (kept @ [(key, r)])"
  proof (cases "bc_dedup_key cfg")
    case None
    with 1 assms(1) have "pb_auto_key b' = Suc (pb_auto_key b)" "key = Auto_Key (pb_auto_key b')"
      by (auto simp: record_key_def)
    with None 1(3) assms(1) show ?thesis by (fastforce simp: sound_buffer_def list_all_iff key_ok_def intro: le_SucI)
  next
    case (Some f)
    with 1 have "key = Dedup_Key (f r)" by (simp add: record_key_def)
    with Some 1(3) assms(1) show ?thesis by (auto simp: sound_buffer_def list_all_iff key_ok_def)
  qed
  with 1 assms(1) show ?thesis by (auto simp: sound_buffer_def)
qed

lemma fold_delete_filter:
  "fold AList.delete ks xs = filter (\<lambda>x. fst x \<notin> set ks) xs"
  by (induction ks arbitrary: xs) (auto simp: AList.delete_eq case_prod_unfold intro!: filter_cong)

lemma sound_complete: "sound_buffer cfg b \<Longrightarrow> sound_buffer cfg (flush_complete cfg clk out batch b)"
  by (cases out) (auto simp: flush_complete_def Let_def sound_buffer_def fold_delete_filter list_all_iff
      distinct_map_filter intro: order_trans [OF length_filter_le])

lemma sound_step:
  assumes "buffer_step cfg s s'" "sound_buffer cfg (bs_buffer s)"
  shows "sound_buffer cfg (bs_buffer s')"
  using assms
proof (cases rule: buffer_step.cases)
  case (append r b)
  then show ?thesis using assms(2) sound_append by simp
next
  case (start batch b)
  then show ?thesis using assms(2) by (auto simp: run_begin_def sound_buffer_def)
next
  case (finish batch clock outcome)
  then show ?thesis using assms(2) sound_complete by simp
qed

lemma sound_steps:
  "(buffer_step cfg)\<^sup>*\<^sup>* s s' \<Longrightarrow> sound_buffer cfg (bs_buffer s) \<Longrightarrow> sound_buffer cfg (bs_buffer s')"
  by (induction rule: rtranclp_induct) (auto intro: sound_step)

section \<open>Properties\<close>

definition start_system :: "('k, 'r) buffer_system" where
  "start_system = \<lparr>bs_buffer = new_buffer, bs_in_flight = None, bs_written = []\<rparr>"

text \<open>
  The buffer is bounded and keyed: under every interleaving of appends with started, finished, failed and
  cancelled flushes it holds at most its capacity, and at most one record per key.
\<close>

theorem buffer_bounded:
  assumes "(buffer_step cfg)\<^sup>*\<^sup>* start_system s"
  shows "length (pb_records (bs_buffer s)) \<le> bc_max_buffered cfg \<and>
    distinct (map fst (pb_records (bs_buffer s)))"
  using sound_steps [OF assms] sound_new [of cfg] by (simp add: start_system_def sound_buffer_def)

definition example_config :: "(nat, nat \<times> nat) buffer_config" where
  "example_config = \<lparr>bc_batch_size = 2, bc_max_buffered = 2, bc_dedup_key = Some fst\<rparr>"

theorem buffer_bounded_witness:
  "length (pb_records (projr (append_record example_config (3, 0)
     (projr (append_record example_config (2, 0) (projr (append_record example_config (1, 0) new_buffer))))))) \<le> 2"
proof -
  let ?s = "\<lambda>b. start_system\<lparr>bs_buffer := b\<rparr>"
  let ?b1 = "projr (append_record example_config (1, 0) new_buffer)"
  let ?b2 = "projr (append_record example_config (2, 0) ?b1)"
  let ?b3 = "projr (append_record example_config (3, 0) ?b2)"
  have a: "append_record example_config (1, 0) new_buffer = Inr ?b1"
    "append_record example_config (2, 0) ?b1 = Inr ?b2" "append_record example_config (3, 0) ?b2 = Inr ?b3"
    by code_simp+
  have "buffer_step example_config start_system (?s ?b1)"
    using buffer_step.append [of example_config "(1, 0)" start_system] a(1) by (simp add: start_system_def)
  moreover have "buffer_step example_config (?s ?b1) (?s ?b2)" "buffer_step example_config (?s ?b2) (?s ?b3)"
    using buffer_step.append [of example_config "(2, 0)" "?s ?b1"] a(2)
      buffer_step.append [of example_config "(3, 0)" "?s ?b2"] a(3) by simp_all
  ultimately have "(buffer_step example_config)\<^sup>*\<^sup>* start_system (?s ?b3)" by auto
  from buffer_bounded [OF this] show ?thesis by (simp add: example_config_def start_system_def)
qed

text \<open>
  An update that arrives during a flush is lost: when a record is appended under the key of a record
  being written, it replaces that one in the buffer, and the end of the successful write removes it by its
  key although the writer got the old record only.  Nothing with that key is left and nothing is counted
  as dropped.
\<close>

theorem update_in_flight_is_lost:
  assumes "sound_buffer cfg b" "run_begin cfg b = (Some batch, b1)" "(Dedup_Key k, old) \<in> set batch"
    and "bc_dedup_key cfg = Some f" "f r = k" "append_record cfg r b1 = Inr b2"
  shows "map_of (pb_records b2) (Dedup_Key k) = Some r \<and>
    map_of (pb_records (flush_complete cfg clk Write_Ok batch b2)) (Dedup_Key k) = None \<and>
    map_of batch (Dedup_Key k) = Some old \<and>
    pb_dropped_records (flush_complete cfg clk Write_Ok batch b2) = pb_dropped_records b"
proof -
  have batch: "batch = take (bc_batch_size cfg) (pb_records b)" "pb_records b1 = pb_records b"
    "pb_dropped_records b1 = pb_dropped_records b"
    using assms(2) by (auto simp: run_begin_def flush_begin_def split: if_splits)
  have known: "Dedup_Key k \<in> fst ` set (pb_records b)"
    using assms(3) batch(1) set_take_subset by force
  have dist: "distinct (map fst batch)"
    using assms(1) by (simp add: batch(1) sound_buffer_def take_map [symmetric] distinct_take)
  have b2: "pb_records b2 = AList.delete (Dedup_Key k) (pb_records b) @ [(Dedup_Key k, r)]"
    "pb_dropped_records b2 = pb_dropped_records b"
    using assms(4-6) known batch by (auto simp: append_record_def record_key_def Let_def)
  have "Dedup_Key k \<in> set (map fst batch)" using assms(3) by force
  then have "map_of (fold AList.delete (map fst batch) (pb_records b2)) (Dedup_Key k) = None"
    unfolding fold_delete_filter map_of_eq_None_iff by (auto simp del: set_map)
  moreover have "map_of (pb_records b2) (Dedup_Key k) = Some r"
    by (simp add: b2(1) AList.delete_conv' map_add_def)
  moreover have "map_of batch (Dedup_Key k) = Some old"
    using dist assms(3) by (simp add: map_of_is_SomeI)
  ultimately show ?thesis unfolding flush_complete_def Let_def by (simp add: b2(2))
qed

theorem update_in_flight_is_lost_witness:
  "map_of (pb_records (flush_complete example_config 5 Write_Ok [(Dedup_Key 1, (1, 0))]
     (projr (append_record example_config (1, 9)
       (snd (run_begin example_config (projr (append_record example_config (1, 0) new_buffer)))))))) (Dedup_Key 1)
   = None"
proof -
  let ?b = "projr (append_record example_config (1, 0) new_buffer)"
  let ?b1 = "snd (run_begin example_config ?b)"
  have "append_record example_config (1, 0) new_buffer = Inr ?b" by code_simp
  from sound_append [OF sound_new this] have "sound_buffer example_config ?b" .
  moreover have "run_begin example_config ?b = (Some [(Dedup_Key 1, (1, 0))], ?b1)" by code_simp
  moreover have "append_record example_config (1, 9) ?b1 = Inr (projr (append_record example_config (1, 9) ?b1))"
    by code_simp
  moreover have "bc_dedup_key example_config = Some fst" by (simp add: example_config_def)
  ultimately show ?thesis
    using update_in_flight_is_lost [of example_config ?b "[(Dedup_Key 1, (1, 0))]" ?b1 1 "(1, 0)" fst "(1, 9)"
        "projr (append_record example_config (1, 9) ?b1)" 5] by simp
qed

text \<open>Appending one record after the other, and flushing with nothing in between.\<close>

fun append_all ::
  "('k, 'r) buffer_config \<Rightarrow> 'r list \<Rightarrow> ('k, 'r) buffer \<Rightarrow> buffer_error + ('k, 'r) buffer" where
  "append_all cfg [] b = Inr b"
| "append_all cfg (r # rs) b =
     (case append_record cfg r b of Inl e \<Rightarrow> Inl e | Inr b' \<Rightarrow> append_all cfg rs b')"

fun drain ::
  "('k, 'r) buffer_config \<Rightarrow> float64 \<Rightarrow> nat \<Rightarrow> ('k, 'r) buffer \<Rightarrow> 'r list \<times> ('k, 'r) buffer" where
  "drain cfg clk 0 b = ([], b)"
| "drain cfg clk (Suc n) b = (case run_begin cfg b of
       (None, b1) \<Rightarrow> drain cfg clk n b1
     | (Some batch, b1) \<Rightarrow>
         let (out, b2) = drain cfg clk n (flush_complete cfg clk Write_Ok batch b1)
         in (map snd batch @ out, b2))"

lemma append_dropped_mono:
  "append_record cfg r b = Inr b' \<Longrightarrow> pb_dropped_records b \<le> pb_dropped_records b'"
  by (auto simp: append_record_def Let_def split: prod.splits if_splits)

lemma append_all_dropped_mono:
  "append_all cfg rs b = Inr b' \<Longrightarrow> pb_dropped_records b \<le> pb_dropped_records b'"
  by (induction rs arbitrary: b) (auto split: sum.splits dest!: append_dropped_mono intro: order_trans)

text \<open>
  The buffer is the map of the latest records: as long as nothing was dropped, a keyed buffer after any
  appends holds under each key exactly the last record appended with it.
\<close>

theorem buffer_is_latest_map:
  assumes "append_all cfg rs b = Inr b'" "pb_dropped_records b' = pb_dropped_records b"
    and "bc_dedup_key cfg = Some f"
  shows "map_of (pb_records b') = fold (\<lambda>r m. m(Dedup_Key (f r) \<mapsto> r)) rs (map_of (pb_records b))"
  using assms(1,2)
proof (induction rs arbitrary: b)
  case (Cons r rs)
  then obtain b1 where b1: "append_record cfg r b = Inr b1" "append_all cfg rs b1 = Inr b'"
    by (auto split: sum.splits)
  with Cons.prems(2) have d: "pb_dropped_records b1 = pb_dropped_records b"
    "pb_dropped_records b' = pb_dropped_records b1"
    using append_dropped_mono [OF b1(1)] append_all_dropped_mono [OF b1(2)] by simp_all
  have "map_of (pb_records b1) = (map_of (pb_records b))(Dedup_Key (f r) \<mapsto> r)"
    using b1(1)
  proof (cases rule: kept_after_append)
    case (1 key kept)
    then have "key = Dedup_Key (f r)" using assms(3) by (simp add: record_key_def)
    moreover have "map_of kept key = None" using 1(4) by (simp add: map_of_eq_None_iff)
    ultimately show ?thesis using 1 d(1) by (auto simp: map_add_def split: option.split)
  qed
  then show ?case using Cons.IH [OF b1(2) d(2)] by simp
qed simp

theorem buffer_is_latest_map_witness:
  "map_of (pb_records (projr (append_all example_config [(1, 0), (2, 5), (1, 7)] new_buffer))) (Dedup_Key 1)
     = Some (1, 7)"
proof -
  let ?b = "projr (append_all example_config [(1, 0), (2, 5), (1, 7)] new_buffer)"
  have "append_all example_config [(1, 0), (2, 5), (1, 7)] new_buffer = Inr ?b"
    "pb_dropped_records ?b = pb_dropped_records (new_buffer :: (nat, nat \<times> nat) buffer)"
    by code_simp+
  moreover have "bc_dedup_key example_config = Some fst" by (simp add: example_config_def)
  ultimately have "map_of (pb_records ?b) = fold (\<lambda>r m. m(Dedup_Key (fst r) \<mapsto> r)) [(1, 0), (2, 5), (1, 7)]
      (map_of (pb_records new_buffer))" by (rule buffer_is_latest_map)
  then show ?thesis by simp
qed

lemma delete_taken:
  "distinct (map fst xs) \<Longrightarrow> fold AList.delete (map fst (take n xs)) xs = drop n xs"
proof -
  assume d: "distinct (map fst xs)"
  have "filter (\<lambda>x. fst x \<notin> fst ` set (take n xs)) (take n xs @ drop n xs) = drop n xs"
  proof -
    have "distinct (map fst (take n xs) @ map fst (drop n xs))"
      using d by (simp flip: map_append)
    then have "fst ` set (take n xs) \<inter> fst ` set (drop n xs) = {}" by simp
    then have "\<forall>x \<in> set (drop n xs). fst x \<notin> fst ` set (take n xs)" by blast
    moreover have "filter (\<lambda>x. fst x \<notin> fst ` set (take n xs)) (take n xs) = []"
      by (auto simp: filter_empty_conv)
    ultimately show ?thesis unfolding filter_append by (simp add: filter_id_conv)
  qed
  then show ?thesis by (simp add: fold_delete_filter)
qed

text \<open>
  A quiet buffer drains completely and in order: when writes succeed and nothing is appended meanwhile,
  \<open>n\<close> flushes write every pending record once, oldest first, as soon as \<open>n\<close> batches can hold them, and leave the
  buffer empty.
\<close>

theorem drain_in_order:
  assumes "distinct (map fst (pb_records b))" "length (pb_records b) \<le> n * bc_batch_size cfg"
  shows "fst (drain cfg clk n b) = map snd (pb_records b) \<and> pb_records (snd (drain cfg clk n b)) = []"
  using assms
proof (induction n arbitrary: b)
  case (Suc n)
  show ?case
  proof (cases "pb_records b = []")
    case True
    then show ?thesis using Suc.IH [of "b\<lparr>pb_wakeup := False\<rparr>"]
      by (simp add: run_begin_def flush_begin_def)
  next
    case False
    let ?batch = "take (bc_batch_size cfg) (pb_records b)"
    let ?b = "flush_complete cfg clk Write_Ok ?batch (b\<lparr>pb_wakeup := False\<rparr>)"
    have rec: "pb_records ?b = drop (bc_batch_size cfg) (pb_records b)"
      using delete_taken [OF Suc.prems(1)] by (simp add: flush_complete_def Let_def)
    have "distinct (map fst (pb_records ?b))" "length (pb_records ?b) \<le> n * bc_batch_size cfg"
      using Suc.prems by (simp_all add: rec drop_map [symmetric] distinct_drop)
    from Suc.IH [OF this] False show ?thesis
      by (simp add: run_begin_def flush_begin_def rec case_prod_unfold Let_def flip: map_append)
  qed
qed simp

theorem drain_in_order_witness:
  "fst (drain example_config 5 1 (projr (append_all example_config [(1, 0), (2, 5), (1, 7)] new_buffer)))
     = [(2, 5), (1, 7)]"
proof -
  let ?b = "projr (append_all example_config [(1, 0), (2, 5), (1, 7)] new_buffer)"
  have r: "pb_records ?b = [(Dedup_Key 2, (2, 5)), (Dedup_Key 1, (1, 7))]" by code_simp
  from drain_in_order [of ?b 1 example_config 5] show ?thesis unfolding r by (simp add: example_config_def)
qed

end
