(* ===== verification/Telegram_Text.thy ===== *)
theory Telegram_Text
  imports Float64 "HOL-Library.List_Lexorder"
begin

text \<open>
  The messages of the bot (\<open>app/telegram/models.py\<close>, \<open>app/telegram/formatter.py\<close>): the delivery types, the
  payloads and their HTML rendering.  A text is the list of its Unicode code points; \<open>uni\<close> is the text of
  an ASCII literal.
\<close>

section \<open>Delivery types\<close>

type_synonym message_text = "nat list"

definition uni :: "string \<Rightarrow> message_text" where
  "uni s = map of_char s"

datatype delivery_type =
    TD_SYSTEM_STARTUP | TD_SYSTEM_SHUTDOWN | TD_SYSTEM_ERROR | TD_SYSTEM_WARNING
  | TD_DATA_QUALITY_WARNING | TD_DATA_STALE | TD_WEBSOCKET_RECONNECTING | TD_WEBSOCKET_DEGRADED
  | TD_BOT_PAUSED | TD_BOT_RESUMED | TD_DAILY_STATUS | TD_WATCHLIST | TD_SIGNAL_OPEN
  | TD_SIGNAL_UPDATE | TD_SIGNAL_PARTIAL | TD_SIGNAL_BREAK_EVEN | TD_SIGNAL_TRAILING
  | TD_SIGNAL_EXIT | TD_SIGNAL_STOP | TD_SIGNAL_INVALIDATED | TD_SIGNAL_EXPIRED

fun delivery_type_value :: "delivery_type \<Rightarrow> string" where
  "delivery_type_value TD_SYSTEM_STARTUP = ''SYSTEM_STARTUP''"
| "delivery_type_value TD_SYSTEM_SHUTDOWN = ''SYSTEM_SHUTDOWN''"
| "delivery_type_value TD_SYSTEM_ERROR = ''SYSTEM_ERROR''"
| "delivery_type_value TD_SYSTEM_WARNING = ''SYSTEM_WARNING''"
| "delivery_type_value TD_DATA_QUALITY_WARNING = ''DATA_QUALITY_WARNING''"
| "delivery_type_value TD_DATA_STALE = ''DATA_STALE''"
| "delivery_type_value TD_WEBSOCKET_RECONNECTING = ''WEBSOCKET_RECONNECTING''"
| "delivery_type_value TD_WEBSOCKET_DEGRADED = ''WEBSOCKET_DEGRADED''"
| "delivery_type_value TD_BOT_PAUSED = ''BOT_PAUSED''"
| "delivery_type_value TD_BOT_RESUMED = ''BOT_RESUMED''"
| "delivery_type_value TD_DAILY_STATUS = ''DAILY_STATUS''"
| "delivery_type_value TD_WATCHLIST = ''WATCHLIST''"
| "delivery_type_value TD_SIGNAL_OPEN = ''SIGNAL_OPEN''"
| "delivery_type_value TD_SIGNAL_UPDATE = ''SIGNAL_UPDATE''"
| "delivery_type_value TD_SIGNAL_PARTIAL = ''SIGNAL_PARTIAL''"
| "delivery_type_value TD_SIGNAL_BREAK_EVEN = ''SIGNAL_BREAK_EVEN''"
| "delivery_type_value TD_SIGNAL_TRAILING = ''SIGNAL_TRAILING''"
| "delivery_type_value TD_SIGNAL_EXIT = ''SIGNAL_EXIT''"
| "delivery_type_value TD_SIGNAL_STOP = ''SIGNAL_STOP''"
| "delivery_type_value TD_SIGNAL_INVALIDATED = ''SIGNAL_INVALIDATED''"
| "delivery_type_value TD_SIGNAL_EXPIRED = ''SIGNAL_EXPIRED''"

text \<open>Lower is more important.\<close>

fun priority_by_type :: "delivery_type \<Rightarrow> int" where
  "priority_by_type TD_SYSTEM_STARTUP = 2"
| "priority_by_type TD_SYSTEM_SHUTDOWN = 2"
| "priority_by_type TD_SYSTEM_ERROR = 1"
| "priority_by_type TD_SYSTEM_WARNING = 2"
| "priority_by_type TD_DATA_QUALITY_WARNING = 2"
| "priority_by_type TD_DATA_STALE = 2"
| "priority_by_type TD_WEBSOCKET_RECONNECTING = 3"
| "priority_by_type TD_WEBSOCKET_DEGRADED = 2"
| "priority_by_type TD_BOT_PAUSED = 2"
| "priority_by_type TD_BOT_RESUMED = 2"
| "priority_by_type TD_DAILY_STATUS = 4"
| "priority_by_type TD_WATCHLIST = 4"
| "priority_by_type TD_SIGNAL_OPEN = 3"
| "priority_by_type TD_SIGNAL_UPDATE = 3"
| "priority_by_type TD_SIGNAL_PARTIAL = 3"
| "priority_by_type TD_SIGNAL_BREAK_EVEN = 3"
| "priority_by_type TD_SIGNAL_TRAILING = 3"
| "priority_by_type TD_SIGNAL_EXIT = 1"
| "priority_by_type TD_SIGNAL_STOP = 1"
| "priority_by_type TD_SIGNAL_INVALIDATED = 1"
| "priority_by_type TD_SIGNAL_EXPIRED = 2"

datatype delivery_operation = OP_SEND | OP_EDIT | OP_DELETE_OPTIONAL

section \<open>Payloads\<close>

record system_payload =
  sp_title :: message_text
  sp_fields :: "(message_text \<times> message_text) list"
  sp_note :: "message_text option"

record daily_payload =
  dp_uptime_seconds :: float64
  dp_ws_reconnects :: int
  dp_invalid_events :: int
  dp_quality_counts :: "(message_text \<times> int) list"
  dp_delivery_counts :: "(message_text \<times> int) list"

record watchlist_payload =
  wp_symbol :: message_text
  wp_note :: message_text

record signal_payload =
  np_symbol :: message_text
  np_direction :: message_text
  np_signal_id :: message_text
  np_status :: message_text
  np_entry :: "message_text option"
  np_stop :: "message_text option"
  np_tp1 :: "message_text option"
  np_tp2 :: "message_text option"
  np_net_rr :: "message_text option"
  np_leverage :: "message_text option"
  np_expires_at :: "message_text option"
  np_reason :: "message_text option"

datatype message_payload =
    System_Message system_payload | Daily_Status daily_payload | Watchlist watchlist_payload
  | Signal_Notice signal_payload

section \<open>Rendering\<close>

fun type_header :: "delivery_type \<Rightarrow> message_text option" where
  "type_header TD_SYSTEM_STARTUP = Some ([128994] @ uni '' <b>PolySignal Intelligence gestartet</b>'')"
| "type_header TD_SYSTEM_SHUTDOWN = Some ([9898, 65039] @ uni '' <b>PolySignal Intelligence gestoppt</b>'')"
| "type_header TD_SYSTEM_ERROR = Some ([128308] @ uni '' <b>Systemfehler</b>'')"
| "type_header TD_SYSTEM_WARNING = Some ([128992] @ uni '' <b>Systemwarnung</b>'')"
| "type_header TD_DATA_QUALITY_WARNING = Some ([128992] @ uni '' <b>Datenqualit'' @ [228] @ uni ''t eingeschr'' @ [228] @ uni ''nkt</b>'')"
| "type_header TD_DATA_STALE = Some ([128992] @ uni '' <b>Marktdaten veraltet</b>'')"
| "type_header TD_WEBSOCKET_RECONNECTING = Some ([128993] @ uni '' <b>WebSocket verbindet neu</b>'')"
| "type_header TD_WEBSOCKET_DEGRADED = Some ([128992] @ uni '' <b>WebSocket-Verbindung beeintr'' @ [228] @ uni ''chtigt</b>'')"
| "type_header TD_BOT_PAUSED = Some ([9208] @ uni '' <b>Bot pausiert</b>'')"
| "type_header TD_BOT_RESUMED = Some ([9654, 65039] @ uni '' <b>Bot fortgesetzt</b>'')"
| "type_header TD_DAILY_STATUS = Some ([128202] @ uni '' <b>Tagesstatus</b>'')"
| "type_header TD_WATCHLIST = Some ([128064] @ uni '' <b>Watchlist</b>'')"
| "type_header _ = None"

fun signal_header :: "delivery_type \<Rightarrow> message_text option" where
  "signal_header TD_SIGNAL_OPEN = Some (uni ''Entry ausgel'' @ [246] @ uni ''st'')"
| "signal_header TD_SIGNAL_UPDATE = Some (uni ''Update'')"
| "signal_header TD_SIGNAL_PARTIAL = Some (uni ''Teilgewinn'')"
| "signal_header TD_SIGNAL_BREAK_EVEN = Some (uni ''Stop auf Break-even'')"
| "signal_header TD_SIGNAL_TRAILING = Some (uni ''Trailing-Stop aktualisiert'')"
| "signal_header TD_SIGNAL_EXIT = Some (uni ''Position geschlossen'')"
| "signal_header TD_SIGNAL_STOP = Some (uni ''Stop Loss'')"
| "signal_header TD_SIGNAL_INVALIDATED = Some (uni ''Setup invalidiert'')"
| "signal_header TD_SIGNAL_EXPIRED = Some (uni ''Signal abgelaufen'')"
| "signal_header _ = None"

definition max_message_length :: nat where
  "max_message_length = 4096"

definition truncation_suffix :: message_text where
  "truncation_suffix = [10, 8230] @ uni '' (gek'' @ [252] @ uni ''rzt)''"

definition truncate :: "message_text \<Rightarrow> message_text" where
  "truncate t = (if length t \<le> max_message_length then t
     else take (max_message_length - length truncation_suffix) t @ truncation_suffix)"

text \<open>\<open>html.escape\<close> without quotes.\<close>

definition escape_char :: "nat \<Rightarrow> message_text" where
  "escape_char c = (if c = 38 then uni ''&amp;'' else if c = 60 then uni ''&lt;''
     else if c = 62 then uni ''&gt;'' else [c])"

definition escape :: "message_text \<Rightarrow> message_text" where
  "escape t = concat (map escape_char t)"

fun join_with :: "message_text \<Rightarrow> message_text list \<Rightarrow> message_text" where
  "join_with sep [] = []"
| "join_with sep [t] = t"
| "join_with sep (t # v # vs) = t @ sep @ join_with sep (v # vs)"

definition bold :: "message_text \<Rightarrow> message_text" where
  "bold t = uni ''<b>'' @ t @ uni ''</b>''"

definition labelled :: "message_text \<Rightarrow> message_text \<Rightarrow> message_text" where
  "labelled l v = l @ uni '': '' @ v"

text \<open>A text that Python takes as true: present and not empty.\<close>

definition given :: "message_text option \<Rightarrow> bool" where
  "given t \<longleftrightarrow> t \<noteq> None \<and> t \<noteq> Some []"

definition note_lines :: "message_text option \<Rightarrow> message_text list" where
  "note_lines n = (if given n then [[], escape (the n)] else [])"

definition system_header :: "delivery_type \<Rightarrow> message_text" where
  "system_header ty = (case type_header ty of Some h \<Rightarrow> h
     | None \<Rightarrow> [8505, 65039] @ uni '' '' @ bold (escape (uni (delivery_type_value ty))))"

definition render_system :: "delivery_type \<Rightarrow> system_payload \<Rightarrow> message_text" where
  "render_system ty p = join_with [10]
     ((if sp_title p = [] then [system_header ty]
       else [system_header ty, [], bold (escape (sp_title p))]) @
      map (\<lambda>(l, v). labelled (escape l) (escape v)) (sp_fields p) @ note_lines (sp_note p))"

definition two_digits :: "int \<Rightarrow> string" where
  "two_digits n = (if 0 \<le> n \<and> n < 10 then ''0'' @ str_int n else str_int n)"

definition counts_line :: "message_text \<Rightarrow> (message_text \<times> int) list \<Rightarrow> message_text list" where
  "counts_line l cs = (if cs = [] then [] else [labelled l (join_with (uni '' '' @ [183] @ uni '' '')
     (map (\<lambda>(s, n). labelled (escape s) (uni (str_int n))) (sort_key fst cs)))])"

definition render_daily :: "daily_payload \<Rightarrow> message_text" where
  "render_daily p =
     (let uptime = truncate_float (dp_uptime_seconds p);
          hours = uptime div 3600; minutes = uptime mod 3600 div 60 in
      join_with [10]
       ([the (type_header TD_DAILY_STATUS), [],
         labelled (uni ''Betriebszeit'') (uni (str_int hours @ ''h '' @ two_digits minutes @ ''m'')),
         labelled (uni ''WebSocket-Reconnects'') (uni (str_int (dp_ws_reconnects p))),
         labelled (uni ''Verworfene Datenereignisse'') (uni (str_int (dp_invalid_events p)))] @
        counts_line (uni ''Datenqualit'' @ [228] @ uni ''t'') (dp_quality_counts p) @
        counts_line (uni ''Telegram-Deliveries'') (dp_delivery_counts p) @
        [[], uni ''Reines Informationssystem - keine Performance-Aussage.'']))"

definition render_watchlist :: "watchlist_payload \<Rightarrow> message_text" where
  "render_watchlist p = join_with [10]
     [the (type_header TD_WATCHLIST), [], bold (escape (wp_symbol p)), escape (wp_note p)]"

text \<open>
  \<open>str.upper\<close>, as far as the comparison with an ASCII word sees it: no other character has an upper case
  form made of these letters.
\<close>

definition upper_char :: "nat \<Rightarrow> nat" where
  "upper_char c = (if 97 \<le> c \<and> c \<le> 122 then c - 32 else c)"

definition optional_line :: "message_text \<times> message_text option \<Rightarrow> message_text list" where
  "optional_line x = (if given (snd x) then [labelled (fst x) (escape (the (snd x)))] else [])"

definition render_signal :: "delivery_type \<Rightarrow> signal_payload \<Rightarrow> message_text" where
  "render_signal ty p =
     (let emoji = (if map upper_char (np_direction p) = uni ''LONG'' then [128994] else [128308]) in
      join_with [10]
       ([emoji @ uni '' '' @
           bold (escape (np_symbol p) @ uni '' '' @ [183] @ uni '' '' @ escape (np_direction p))] @
        (case signal_header ty of Some h \<Rightarrow> [bold h] | None \<Rightarrow> []) @
        [labelled (uni ''Signal-ID'') (escape (np_signal_id p)),
         labelled (uni ''Status'') (escape (np_status p)), []] @
        concat (map optional_line
          [(uni ''Entry'', np_entry p), (uni ''Stop'', np_stop p), (uni ''TP1'', np_tp1 p),
           (uni ''TP2'', np_tp2 p), (uni ''Hebel'', np_leverage p), (uni ''Netto-CRV'', np_net_rr p),
           ([71, 252] @ uni ''ltig bis'', np_expires_at p)]) @
        note_lines (np_reason p)))"

fun render_full :: "delivery_type \<Rightarrow> message_payload \<Rightarrow> message_text" where
  "render_full ty (System_Message p) = render_system ty p"
| "render_full ty (Daily_Status p) = render_daily p"
| "render_full ty (Watchlist p) = render_watchlist p"
| "render_full ty (Signal_Notice p) = render_signal ty p"

definition render :: "delivery_type \<Rightarrow> message_payload \<Rightarrow> message_text" where
  "render ty p = truncate (render_full ty p)"

section \<open>Well-formed markup\<close>

text \<open>
  Reading the only markup the bot uses, bold tags that do not nest, and the three entities: whether a text is
  inside a bold tag at its end, \<open>None\<close> when the markup is broken.
\<close>

function html_end :: "bool \<Rightarrow> message_text \<Rightarrow> bool option" where
  "html_end b [] = Some b"
| "html_end b (c # cs) =
     (if c = 60 then
        if \<not> b \<and> take 2 cs = [98, 62] then html_end True (drop 2 cs)
        else if b \<and> take 3 cs = [47, 98, 62] then html_end False (drop 3 cs) else None
      else if c = 38 then
        if take 4 cs = [97, 109, 112, 59] then html_end b (drop 4 cs)
        else if take 3 cs = [108, 116, 59] then html_end b (drop 3 cs)
        else if take 3 cs = [103, 116, 59] then html_end b (drop 3 cs) else None
      else if c = 62 then None else html_end b cs)"
  by pat_completeness auto
termination
  by (relation "measure (\<lambda>(b, t). length t)") auto

definition html_ok :: "message_text \<Rightarrow> bool" where
  "html_ok t \<longleftrightarrow> html_end False t = Some False"

lemma html_end_append: "html_end b s = Some b' \<Longrightarrow> html_end b (s @ t) = html_end b' t"
proof (induction b s rule: html_end.induct)
  case (2 b c cs)
  have enough: "take k (cs @ t) = take k cs \<and> drop k (cs @ t) = drop k cs @ t" if "take k cs = w" "length w = k"
    for k and w :: message_text using that by auto
  have other: "take 4 (cs @ t) \<noteq> x # w" if "take 3 cs = y # v" "y \<noteq> x" for y x :: nat and v w :: message_text
    using that by (cases cs) auto
  show ?case
    using 2 enough [of 2 "[98, 62]"] enough [of 3 "[47, 98, 62]"] enough [of 4 "[97, 109, 112, 59]"]
      enough [of 3 "[108, 116, 59]"] enough [of 3 "[103, 116, 59]"] other [of 108 "[116, 59]" 97 "[109, 112, 59]"]
      other [of 103 "[116, 59]" 97 "[109, 112, 59]"]
    by (auto simp del: take_append drop_append split: if_splits)
qed simp

text \<open>Text without markup characters leaves the state as it is.\<close>

definition unmarked :: "message_text \<Rightarrow> bool" where
  "unmarked t \<longleftrightarrow> 38 \<notin> set t \<and> 60 \<notin> set t \<and> 62 \<notin> set t"

lemma html_end_unmarked: "unmarked s \<Longrightarrow> html_end b s = Some b"
  by (induction s) (auto simp: unmarked_def)

lemma html_end_escape: "html_end b (escape s) = Some b"
proof (induction s)
  case (Cons c s)
  have "html_end b (escape_char c) = Some b" by (simp add: escape_char_def uni_def)
  from html_end_append [OF this] Cons show ?case by (simp add: escape_def)
qed (simp add: escape_def)

lemma html_end_bold: "html_end True t = Some True \<Longrightarrow> html_ok (bold t)"
  by (simp add: bold_def uni_def html_ok_def html_end_append)

lemma html_ok_append: "html_ok s \<Longrightarrow> html_ok t \<Longrightarrow> html_ok (s @ t)"
  using html_end_append [of False s False t] by (simp add: html_ok_def)

lemma html_ok_Cons: "c \<notin> {38, 60, 62} \<Longrightarrow> html_ok t \<Longrightarrow> html_ok (c # t)"
  by (simp add: html_ok_def)

lemma html_ok_escape: "html_ok (escape t)"
  by (simp add: html_ok_def html_end_escape)

lemma html_ok_unmarked: "unmarked t \<Longrightarrow> html_ok t"
  by (simp add: html_ok_def html_end_unmarked)

lemma markup_chars:
  "of_char c = (38::nat) \<longleftrightarrow> c = CHR ''&''" "of_char c = (60::nat) \<longleftrightarrow> c = CHR ''<''"
  "of_char c = (62::nat) \<longleftrightarrow> c = CHR ''>''"
  using of_char_eq_iff [of c "CHR ''&''", where 'a = nat] of_char_eq_iff [of c "CHR ''<''", where 'a = nat]
    of_char_eq_iff [of c "CHR ''>''", where 'a = nat] by simp_all

text \<open>For an ASCII text: no markup character occurs.\<close>

definition harmless :: "string \<Rightarrow> bool" where
  "harmless s \<longleftrightarrow> list_all (\<lambda>c. c \<noteq> CHR ''&'' \<and> c \<noteq> CHR ''<'' \<and> c \<noteq> CHR ''>'') s"

lemma harmless_simps [simp]:
  "harmless []" "harmless (c # s) \<longleftrightarrow> c \<noteq> CHR ''&'' \<and> c \<noteq> CHR ''<'' \<and> c \<noteq> CHR ''>'' \<and> harmless s"
  "harmless (s @ t) \<longleftrightarrow> harmless s \<and> harmless t"
  by (auto simp: harmless_def)

lemma harmless_int [simp]: "harmless (str_int i)"
  by (auto simp: harmless_def list_all_iff dest: str_int_chars)

lemma harmless_two_digits [simp]: "harmless (two_digits i)"
  by (simp add: two_digits_def)

lemma unmarked_simps [simp]:
  "unmarked []" "unmarked (s @ t) \<longleftrightarrow> unmarked s \<and> unmarked t"
  "unmarked (c # t) \<longleftrightarrow> c \<notin> {38, 60, 62} \<and> unmarked t"
  by (auto simp: unmarked_def)

lemma unmarked_uni [simp]: "unmarked (uni s) \<longleftrightarrow> harmless s"
  by (induction s) (auto simp: unmarked_def uni_def harmless_def markup_chars dest: sym)

lemma html_ok_labelled: "html_ok l \<Longrightarrow> html_ok v \<Longrightarrow> html_ok (labelled l v)"
  unfolding labelled_def by (intro html_ok_append) (simp_all add: html_ok_unmarked)

lemma html_ok_join:
  "\<forall>t \<in> set ts. html_ok t \<Longrightarrow> unmarked sep \<Longrightarrow> html_ok (join_with sep ts)"
  by (induction sep ts rule: join_with.induct)
    (simp_all add: html_ok_append html_ok_unmarked)

lemma html_ok_type_header: "type_header ty = Some h \<Longrightarrow> html_ok h"
  by (cases ty) (auto simp: html_ok_def uni_def)

lemma unmarked_signal_header: "signal_header ty = Some h \<Longrightarrow> unmarked h"
  by (cases ty) auto

lemma html_ok_bold_escape: "html_ok (bold (escape t))"
  by (rule html_end_bold) (rule html_end_escape)

lemma html_ok_bold_unmarked: "unmarked t \<Longrightarrow> html_ok (bold t)"
  by (rule html_end_bold) (rule html_end_unmarked)

lemmas html_ok_parts = html_ok_append html_ok_escape html_ok_labelled html_ok_bold_escape
  html_ok_bold_unmarked html_ok_unmarked html_ok_Cons

text \<open>Every line of a message is well-formed.\<close>

lemma html_ok_note: "\<forall>t \<in> set (note_lines n). html_ok t"
  by (auto simp: note_lines_def html_ok_parts)

lemma html_ok_system_header: "html_ok (system_header ty)"
  by (simp add: system_header_def html_ok_parts html_ok_type_header split: option.split)

lemma html_ok_system: "html_ok (render_system ty p)"
  unfolding render_system_def
  by (rule html_ok_join) (auto simp: html_ok_note html_ok_system_header html_ok_parts)

lemma html_ok_counts: "unmarked l \<Longrightarrow> \<forall>t \<in> set (counts_line l cs). html_ok t"
  unfolding counts_line_def by (auto simp: html_ok_parts intro!: html_ok_labelled html_ok_join)

lemma html_ok_own_headers:
  "html_ok (uni '' <b>Tagesstatus</b>'')" "html_ok (uni '' <b>Watchlist</b>'')"
  by (simp_all add: html_ok_def uni_def)

lemma html_ok_daily: "html_ok (render_daily p)"
  unfolding render_daily_def Let_def
  by (rule html_ok_join) (auto simp: html_ok_parts html_ok_own_headers
      dest: bspec [OF html_ok_counts, rotated])

lemma html_ok_watchlist: "html_ok (render_watchlist p)"
  unfolding render_watchlist_def
  by (rule html_ok_join) (auto simp: html_ok_parts html_ok_own_headers)

lemma html_ok_bold_line: "html_ok (bold (escape s @ uni '' '' @ [183] @ uni '' '' @ escape t))"
  by (rule html_end_bold)
    (simp add: html_end_append [OF html_end_escape] html_end_append [OF html_end_unmarked] html_end_escape)

lemma html_ok_signal: "html_ok (render_signal ty p)"
  unfolding render_signal_def Let_def
  by (rule html_ok_join)
    (auto simp: html_ok_parts html_ok_bold_line [simplified] html_ok_note optional_line_def unmarked_signal_header
      split: option.splits if_splits)

lemma html_ok_render_full: "html_ok (render_full ty p)"
  by (cases p) (simp_all add: html_ok_system html_ok_daily html_ok_watchlist html_ok_signal)

text \<open>What a reader sees of a text: the tags are gone, the entities decoded.\<close>

function shown :: "message_text \<Rightarrow> message_text" where
  "shown [] = []"
| "shown (c # cs) =
     (if c = 60 \<and> take 2 cs = [98, 62] then shown (drop 2 cs)
      else if c = 60 \<and> take 3 cs = [47, 98, 62] then shown (drop 3 cs)
      else if c = 38 \<and> take 4 cs = [97, 109, 112, 59] then 38 # shown (drop 4 cs)
      else if c = 38 \<and> take 3 cs = [108, 116, 59] then 60 # shown (drop 3 cs)
      else if c = 38 \<and> take 3 cs = [103, 116, 59] then 62 # shown (drop 3 cs)
      else c # shown cs)"
  by pat_completeness auto
termination
  by (relation "measure length") auto

lemma truncate_long: "length t = 4528 \<Longrightarrow> truncate t = take 4084 t @ truncation_suffix"
  by (simp add: truncate_def max_message_length_def truncation_suffix_def uni_def)

section \<open>Properties\<close>

text \<open>
  C23.  Every message is well-formed HTML whatever the payload holds: before truncation the tags match and every
  reserved character is an entity, so no value can inject markup; a message that fits is sent as it is, and
  no message exceeds Telegram's limit.
\<close>

theorem rendered_markup_ok:
  "html_ok (render_full ty p) \<and> length (render ty p) \<le> max_message_length \<and>
   render ty p = (if length (render_full ty p) \<le> max_message_length then render_full ty p
     else take 4084 (render_full ty p) @ truncation_suffix)"
  by (simp add: html_ok_render_full render_def truncate_def max_message_length_def truncation_suffix_def
      uni_def)

text \<open>
  Escaping loses nothing: what a reader sees of an escaped text, alone or in bold, is the text itself.
\<close>

theorem escaped_text_is_shown:
  "shown (escape t) = t \<and> shown (bold (escape t)) = t"
proof -
  have "shown (escape t @ s) = t @ shown s" for s
    by (induction t) (simp_all add: escape_def escape_char_def uni_def)
  from this [of "[]"] this [of "uni ''</b>''"] show ?thesis by (simp add: bold_def uni_def)
qed

text \<open>
  Truncation can break the markup: it cuts at a fixed length, in the middle of an entity or a tag, and
  Telegram refuses such a message for good.
\<close>

theorem truncation_breaks_markup:
  "\<not> html_ok (render TD_WATCHLIST (Watchlist \<lparr>wp_symbol = [], wp_note = replicate 900 38\<rparr>))"
proof -
  let ?amp = "[38, 97, 109, 112, 59] :: nat list"
  let ?head = "[128064] @ uni '' <b>Watchlist</b>'' @ [10, 10] @ bold [] @ [10]"
  have escaped: "escape (replicate n 38) = concat (replicate n ?amp)" for n
    by (simp add: escape_def escape_char_def uni_def)
  have len: "length (concat (replicate n ?amp)) = 5 * n" for n
    by (induction n) simp_all
  have "concat (replicate 900 ?amp) = concat (replicate 811 ?amp) @ concat (replicate 89 ?amp)"
    by (simp flip: concat_append replicate_add)
  moreover have "concat (replicate 89 ?amp) = ?amp @ concat (replicate 88 ?amp)"
    by (simp add: numeral_eq_Suc)
  ultimately have cut: "take 4056 (concat (replicate 900 ?amp)) = escape (replicate 811 38) @ [38]"
    using len [of 811] by (simp add: escaped)
  have full: "render_full TD_WATCHLIST (Watchlist \<lparr>wp_symbol = [], wp_note = replicate 900 38\<rparr>) =
      ?head @ concat (replicate 900 ?amp)"
    by (simp add: render_watchlist_def escaped) (simp add: escape_def)
  have after_head: "take 4084 (s @ t) = s @ take 4056 t" if "length s = 28" for s t :: message_text
    using that by simp
  have head: "length ?head = 28" by (simp add: uni_def bold_def)
  have "length (?head @ concat (replicate 900 ?amp)) = 4528" unfolding length_append [of ?head] head len by simp
  then have "render TD_WATCHLIST (Watchlist \<lparr>wp_symbol = [], wp_note = replicate 900 38\<rparr>) =
      take 4084 (?head @ concat (replicate 900 ?amp)) @ truncation_suffix"
    unfolding render_def full by (intro truncate_long) (simp only:)
  also have "take 4084 (?head @ concat (replicate 900 ?amp)) = ?head @ escape (replicate 811 38) @ [38]"
    unfolding after_head [OF head] cut by (rule refl)
  finally have "render TD_WATCHLIST (Watchlist \<lparr>wp_symbol = [], wp_note = replicate 900 38\<rparr>) =
      ?head @ escape (replicate 811 38) @ [38] @ truncation_suffix" by simp
  moreover have "html_end False (?head @ escape (replicate 811 38) @ [38] @ truncation_suffix) = None"
    by (subst html_end_append [where b' = False])
      (simp_all add: html_end_append [OF html_end_escape] truncation_suffix_def uni_def bold_def)
  ultimately show ?thesis by (simp add: html_ok_def)
qed

end
