(* ===== verification/Telegram_Limits.thy ===== *)
theory Telegram_Limits
  imports Float64 "HOL-Library.AList"
begin

text \<open>
  The Telegram settings (\<open>TelegramSettings\<close> in \<open>app/config.py\<close>), the classification of delivery errors
  with the backoff (\<open>app/telegram/retry.py\<close>) and the per-chat rate limiter
  (\<open>app/telegram/rate_limiter.py\<close>).  The bot token, the address of the API and the parse mode, which has one
  value, are left out.
\<close>

section \<open>Settings\<close>

record telegram_settings =
  tg_enabled :: bool
  tg_group_id :: "int option"
  tg_admin_user_ids :: "int list"
  tg_commands_enabled :: bool
  tg_delivery_queue_size :: int
  tg_delivery_batch_size :: nat
  tg_delivery_flush_seconds :: float64
  tg_delivery_lease_seconds :: float64
  tg_max_retry_attempts :: int
  tg_retry_min_seconds :: float64
  tg_retry_max_seconds :: float64
  tg_retry_jitter_seconds :: float64
  tg_group_messages_per_minute :: int
  tg_group_min_interval_seconds :: float64
  tg_edit_min_interval_seconds :: float64
  tg_deduplication_window_seconds :: float64
  tg_status_command_cooldown_seconds :: float64
  tg_admin_command_audit_enabled :: bool

definition default_telegram_settings :: telegram_settings where
  "default_telegram_settings = \<lparr>tg_enabled = False, tg_group_id = None, tg_admin_user_ids = [],
     tg_commands_enabled = True, tg_delivery_queue_size = 500, tg_delivery_batch_size = 10,
     tg_delivery_flush_seconds = 1, tg_delivery_lease_seconds = 60, tg_max_retry_attempts = 5,
     tg_retry_min_seconds = 1, tg_retry_max_seconds = 60, tg_retry_jitter_seconds = 1,
     tg_group_messages_per_minute = 18, tg_group_min_interval_seconds = 3 / 2,
     tg_edit_min_interval_seconds = 3, tg_deduplication_window_seconds = 300,
     tg_status_command_cooldown_seconds = 15, tg_admin_command_audit_enabled = True\<rparr>"

section \<open>Errors and backoff\<close>

text \<open>
  What an attempt may raise: the client's errors with the delay the server asked for, or any other exception
  of the transport or the database.
\<close>

datatype delivery_error =
    Retryable_Error "float64 option" | Rate_Limited_Error "float64 option" | Permanent_Error | Auth_Error
  | Other_Error

fun error_class :: "delivery_error \<Rightarrow> string" where
  "error_class (Retryable_Error _) = ''retryable''"
| "error_class (Rate_Limited_Error _) = ''rate_limited''"
| "error_class Permanent_Error = ''permanent''"
| "error_class Auth_Error = ''unauthorized''"
| "error_class Other_Error = ''transport''"

fun retry_after :: "delivery_error \<Rightarrow> float64 option" where
  "retry_after (Retryable_Error d) = d"
| "retry_after (Rate_Limited_Error d) = d"
| "retry_after _ = None"

record retry_decision =
  rd_retryable :: bool
  rd_delay_seconds :: float64
  rd_error_class :: string

definition backoff_base :: "int \<Rightarrow> telegram_settings \<Rightarrow> float64" where
  "backoff_base attempt st =
     min (fmul (tg_retry_min_seconds st) (2 ^ nat (max 0 (attempt - 1)))) (tg_retry_max_seconds st)"

definition decide_retry ::
  "delivery_error \<Rightarrow> int \<Rightarrow> telegram_settings \<Rightarrow> float64 \<Rightarrow> retry_decision" where
  "decide_retry e attempt st rng =
     (if e = Permanent_Error \<or> e = Auth_Error
      then \<lparr>rd_retryable = False, rd_delay_seconds = 0, rd_error_class = error_class e\<rparr>
      else
        let delay = fadd (backoff_base attempt st) (fmul (tg_retry_jitter_seconds st) rng);
            asked = (case retry_after e of Some d \<Rightarrow> max delay d | None \<Rightarrow> delay) in
        \<lparr>rd_retryable = True, rd_delay_seconds = min asked (fmul (tg_retry_max_seconds st) 2),
         rd_error_class = error_class e\<rparr>)"

section \<open>The rate limiter\<close>

record chat_window =
  cw_send_times :: "float64 list"
  cw_last_send :: "float64 option"
  cw_last_edit :: "float64 option"

definition new_window :: chat_window where
  "new_window = \<lparr>cw_send_times = [], cw_last_send = None, cw_last_edit = None\<rparr>"

record rate_limiter =
  rl_chats :: "(int \<times> chat_window) list"
  rl_total_wait_seconds :: float64

definition new_limiter :: rate_limiter where
  "new_limiter = \<lparr>rl_chats = [], rl_total_wait_seconds = 0\<rparr>"

definition window_of :: "int \<Rightarrow> rate_limiter \<Rightarrow> chat_window" where
  "window_of chat l = (case map_of (rl_chats l) chat of Some w \<Rightarrow> w | None \<Rightarrow> new_window)"

definition set_window :: "int \<Rightarrow> chat_window \<Rightarrow> rate_limiter \<Rightarrow> rate_limiter" where
  "set_window chat w l = l\<lparr>rl_chats := AList.update chat w (rl_chats l)\<rparr>"

text \<open>
  The wait before the next message, and the window without the messages more than a minute old.  \<open>None\<close> is
  the \<open>IndexError\<close> of an empty window whose limit is zero or negative.
\<close>

definition recent_sends :: "float64 \<Rightarrow> chat_window \<Rightarrow> float64 list" where
  "recent_sends now w = dropWhile (\<lambda>t. 60 < fsub now t) (cw_send_times w)"

definition interval_wait :: "telegram_settings \<Rightarrow> float64 \<Rightarrow> chat_window \<Rightarrow> float64" where
  "interval_wait st now w = (case cw_last_send w of None \<Rightarrow> 0
     | Some t \<Rightarrow> max 0 (fsub (fadd t (tg_group_min_interval_seconds st)) now))"

definition send_wait_seconds ::
  "telegram_settings \<Rightarrow> float64 \<Rightarrow> int \<Rightarrow> rate_limiter \<Rightarrow> (float64 \<times> rate_limiter) option" where
  "send_wait_seconds st now chat l =
     (let w = window_of chat l; times = recent_sends now w;
          l' = set_window chat (w\<lparr>cw_send_times := times\<rparr>) l; wait = interval_wait st now w in
      if int (length times) < tg_group_messages_per_minute st then Some (wait, l')
      else case times of [] \<Rightarrow> None
        | t # _ \<Rightarrow> Some (max wait (fsub (fadd t 60) now), l'))"

definition edit_wait_seconds ::
  "telegram_settings \<Rightarrow> float64 \<Rightarrow> int \<Rightarrow> rate_limiter \<Rightarrow> float64 \<times> rate_limiter" where
  "edit_wait_seconds st now chat l =
     (let w = window_of chat l in
      ((case cw_last_edit w of None \<Rightarrow> 0
        | Some t \<Rightarrow> max 0 (fsub (fadd t (tg_edit_min_interval_seconds st)) now)), set_window chat w l))"

definition record_send :: "float64 \<Rightarrow> int \<Rightarrow> rate_limiter \<Rightarrow> rate_limiter" where
  "record_send now chat l =
     (let w = window_of chat l in
      set_window chat (w\<lparr>cw_send_times := cw_send_times w @ [now], cw_last_send := Some now\<rparr>) l)"

definition record_edit :: "float64 \<Rightarrow> int \<Rightarrow> rate_limiter \<Rightarrow> rate_limiter" where
  "record_edit now chat l = set_window chat ((window_of chat l)\<lparr>cw_last_edit := Some now\<rparr>) l"

definition record_wait :: "float64 \<Rightarrow> rate_limiter \<Rightarrow> rate_limiter" where
  "record_wait s l =
     (if 0 < s then l\<lparr>rl_total_wait_seconds := fadd (rl_total_wait_seconds l) s\<rparr> else l)"

lemma window_of_set [simp]: "window_of c (set_window chat w l) = (if c = chat then w else window_of c l)"
  by (simp add: window_of_def set_window_def update_conv)

lemma window_of_wait [simp]: "window_of c (record_wait s l) = window_of c l"
  by (simp add: record_wait_def window_of_def)

section \<open>Bounds on the backoff\<close>

lemma backoff_base_bounds:
  "0 \<le> tg_retry_min_seconds st \<Longrightarrow> 0 \<le> tg_retry_max_seconds st \<Longrightarrow>
     0 \<le> backoff_base attempt st \<and> backoff_base attempt st \<le> tg_retry_max_seconds st"
  by (simp add: backoff_base_def fmul_def fl_nonneg)

lemma decide_retry_bounds:
  assumes "0 \<le> tg_retry_min_seconds st" "0 \<le> tg_retry_max_seconds st" "0 \<le> tg_retry_jitter_seconds st"
    and "0 \<le> rng"
  shows "0 \<le> rd_delay_seconds (decide_retry e attempt st rng)"
    "rd_delay_seconds (decide_retry e attempt st rng) \<le> fmul (tg_retry_max_seconds st) 2"
  using backoff_base_bounds [OF assms(1,2), of attempt] assms(2-4)
  by (auto simp: decide_retry_def Let_def fadd_def fmul_def fl_nonneg le_max_iff_disj split: option.split)

lemma decide_retry_class [simp]:
  "rd_retryable (decide_retry e attempt st rng) \<longleftrightarrow> e \<noteq> Permanent_Error \<and> e \<noteq> Auth_Error"
  "rd_error_class (decide_retry e attempt st rng) = error_class e"
  by (simp_all add: decide_retry_def Let_def)

section \<open>Rounding of clock readings\<close>

text \<open>In the range of a monotonic clock a rounding moves a value by at most \<open>2\<close> to the \<open>-20\<close>.\<close>

definition tick :: rat where
  "tick = 1 / 2 ^ 20"

lemma tick_power: "tick = 2 powi (- 20)"
  by (simp add: tick_def power_int_def power_divide)

lemma tick_multiple: "\<bar>k\<bar> \<le> 9007199254740992 \<Longrightarrow> fl (of_int k * tick) = of_int k * tick"
  unfolding tick_power by (rule fl_representable) simp_all

lemma fl_near:
  assumes "\<bar>x\<bar> \<le> 2 ^ 32"
  shows "x - tick \<le> fl x" "fl x \<le> x + tick"
proof -
  obtain y where y: "y = x / tick" by simp
  then have x: "x = y * tick" by (simp add: tick_def)
  have "- (2 ^ 52) \<le> y" "y < 2 ^ 52 + 1" using assms by (simp_all add: y tick_def abs_le_iff)
  then have "- 4503599627370496 \<le> \<lfloor>y\<rfloor>" "\<lfloor>y\<rfloor> < 4503599627370497"
    by (simp_all add: le_floor_iff floor_less_iff)
  then have k: "\<bar>\<lfloor>y\<rfloor>\<bar> \<le> 9007199254740992" "\<bar>\<lfloor>y\<rfloor> + 1\<bar> \<le> 9007199254740992" by linarith+
  have "of_int \<lfloor>y\<rfloor> * tick \<le> x" "x \<le> of_int (\<lfloor>y\<rfloor> + 1) * tick"
    unfolding x using floor_correct [of y] by (auto intro!: mult_right_mono simp: tick_def)
  note bounds = this
  have "of_int \<lfloor>y\<rfloor> * tick \<le> fl x" using fl_mono [OF bounds(1)] unfolding tick_multiple [OF k(1)] .
  moreover have "fl x \<le> of_int (\<lfloor>y\<rfloor> + 1) * tick"
    using fl_mono [OF bounds(2)] unfolding tick_multiple [OF k(2)] .
  ultimately show "x - tick \<le> fl x" "fl x \<le> x + tick" using bounds by (simp_all add: algebra_simps)
qed

section \<open>Sending at the limiter's pace\<close>

text \<open>
  The clock of one chat as the worker drives it: it asks for the wait, sleeps at least that long, sends, and
  records the message after it went out, which takes a moment.  In between it edits messages of the chat
  and works for other chats.  The list holds the times of the chat's messages.
\<close>

definition clock_range :: "float64 \<Rightarrow> bool" where
  "clock_range t \<longleftrightarrow> 0 \<le> t \<and> t \<le> 2 ^ 31"

inductive paced :: "telegram_settings \<Rightarrow> int \<Rightarrow> rate_limiter \<Rightarrow> float64 list \<Rightarrow> float64 \<Rightarrow> bool"
  for st chat where
  start: "paced st chat new_limiter [] 0"
| send: "paced st chat l sent now \<Longrightarrow> now \<le> asked \<Longrightarrow> send_wait_seconds st asked chat l = Some (wait, l') \<Longrightarrow>
    asked + wait + 4 * tick \<le> done_at \<Longrightarrow> clock_range done_at \<Longrightarrow>
    paced st chat (record_send done_at chat (record_wait wait l')) (sent @ [done_at]) done_at"
| edit: "paced st chat l sent now \<Longrightarrow> now \<le> t \<Longrightarrow> paced st chat (record_edit t chat l) sent t"
| other: "paced st chat l sent now \<Longrightarrow> window_of chat l' = window_of chat l \<Longrightarrow> now \<le> t \<Longrightarrow>
    paced st chat l' sent t"

text \<open>
  What the limiter keeps: its window is the end of the chat's messages, what left the window is more than a
  minute old, and a window over the limit starts with a message that is about to leave.
\<close>

definition window_sound :: "telegram_settings \<Rightarrow> chat_window \<Rightarrow> float64 list \<Rightarrow> float64 \<Rightarrow> bool" where
  "window_sound st w sent now \<longleftrightarrow>
     (\<exists>old. sent = old @ cw_send_times w \<and> (\<forall>t \<in> set old. 60 < now - t)) \<and>
     (int (length (cw_send_times w)) \<le> tg_group_messages_per_minute st \<or>
      int (length (cw_send_times w)) = tg_group_messages_per_minute st + 1 \<and>
      60 + tick \<le> now - hd (cw_send_times w)) \<and>
     (\<forall>t \<in> set sent. clock_range t \<and> t \<le> now)"

lemma interval_wait_nonneg: "0 \<le> interval_wait st now w"
  by (simp add: interval_wait_def split: option.split)

text \<open>The pruning of the window is exact on the near side: it drops nothing younger than a minute.\<close>

lemma dropped_is_old: "60 < fsub now t \<Longrightarrow> 60 < now - t"
  using fl_mono [of "now - t" 60] fl_of_int [of 60] unfolding fsub_def by fastforce

lemma old_is_dropped: "60 + tick \<le> now - t \<Longrightarrow> 60 < fsub now t"
proof -
  assume "60 + tick \<le> now - t"
  then have "fl (of_int 62914561 * tick) \<le> fsub now t"
    unfolding fsub_def by (intro fl_mono) (simp add: tick_def)
  then show ?thesis using tick_multiple [of 62914561] by (simp add: tick_def)
qed

lemma recent_sends_split:
  "\<exists>old. cw_send_times w = old @ recent_sends now w \<and> (\<forall>t \<in> set old. 60 < now - t)"
  unfolding recent_sends_def
  by (metis dropped_is_old set_takeWhileD takeWhile_dropWhile_id)

lemma recent_sends_bounded:
  assumes "window_sound st w sent now" "now \<le> asked" "0 < tg_group_messages_per_minute st"
  shows "int (length (recent_sends asked w)) \<le> tg_group_messages_per_minute st"
proof (cases "cw_send_times w")
  case (Cons t ts)
  show ?thesis
  proof (cases "int (length (cw_send_times w)) \<le> tg_group_messages_per_minute st")
    case True
    have "length (recent_sends asked w) \<le> length (cw_send_times w)"
      unfolding recent_sends_def by (rule length_dropWhile_le)
    with True show ?thesis by linarith
  next
    case False
    with assms(1,2) Cons have "60 + tick \<le> asked - t"
      and n: "int (length ts) = tg_group_messages_per_minute st" by (auto simp: window_sound_def)
    then have "length (recent_sends asked w) \<le> length ts"
      using Cons old_is_dropped length_dropWhile_le by (simp add: recent_sends_def)
    with n show ?thesis by linarith
  qed
qed (use assms(3) in \<open>simp add: recent_sends_def\<close>)

lemma full_window_waits:
  assumes "clock_range t" "clock_range asked" "max v (fsub (fadd t 60) asked) \<le> wait"
    and "asked + wait + 4 * tick \<le> done_at"
  shows "60 + tick \<le> done_at - t"
proof -
  have range: "0 \<le> t" "t \<le> 2147483648" "0 \<le> asked" "asked \<le> 2147483648"
    using assms(1,2) by (simp_all add: clock_range_def)
  then have add: "t + 60 - tick \<le> fadd t 60" "fadd t 60 \<le> t + 60 + tick"
    unfolding fadd_def by (intro fl_near; simp add: abs_le_iff)+
  have "fadd t 60 - asked - tick \<le> fsub (fadd t 60) asked"
    unfolding fsub_def using range add by (intro fl_near) (simp add: abs_le_iff tick_def)
  with add assms(3,4) show ?thesis by (simp add: tick_def)
qed

text \<open>No two messages \<open>n\<close> apart within a minute.\<close>

definition spaced :: "nat \<Rightarrow> float64 list \<Rightarrow> bool" where
  "spaced n ts \<longleftrightarrow> (\<forall>i. i + n < length ts \<longrightarrow> 60 < ts ! (i + n) - ts ! i)"

lemma spaced_append:
  assumes "spaced n ts" "\<forall>t. n \<le> length ts \<and> t = ts ! (length ts - n) \<longrightarrow> 60 < x - t" "0 < n"
  shows "spaced n (ts @ [x])"
  unfolding spaced_def
proof (intro allI impI)
  fix i assume "i + n < length (ts @ [x])"
  then consider "i + n < length ts" | "i = length ts - n" "n \<le> length ts" by fastforce
  then show "60 < (ts @ [x]) ! (i + n) - (ts @ [x]) ! i"
  proof cases
    case 1
    with assms(1) show ?thesis by (simp add: spaced_def nth_append)
  next
    case 2
    with assms(2,3) show ?thesis by (simp add: nth_append)
  qed
qed

lemma send_keeps_window:
  assumes sound: "window_sound st (window_of chat l) sent now" and sp: "spaced (nat (tg_group_messages_per_minute st)) sent"
    and pos: "0 < tg_group_messages_per_minute st" and now: "0 \<le> now" "now \<le> asked"
    and send: "send_wait_seconds st asked chat l = Some (wait, l')"
    and late: "asked + wait + 4 * tick \<le> done_at" "clock_range done_at"
  shows "window_sound st (window_of chat (record_send done_at chat (record_wait wait l'))) (sent @ [done_at]) done_at"
    and "spaced (nat (tg_group_messages_per_minute st)) (sent @ [done_at])"
proof -
  let ?w = "window_of chat l" and ?n = "tg_group_messages_per_minute st"
  let ?times = "recent_sends asked ?w"
  have wait: "0 \<le> wait" "window_of chat l' = ?w\<lparr>cw_send_times := ?times\<rparr>"
    and full: "int (length ?times) < ?n \<or> (\<exists>t ts. ?times = t # ts \<and>
      max (interval_wait st asked ?w) (fsub (fadd t 60) asked) \<le> wait)"
    using send interval_wait_nonneg [of st asked ?w]
    by (auto simp: send_wait_seconds_def Let_def split: if_splits list.splits)
  from wait(1) late have asked: "clock_range asked" "asked < done_at"
    using now by (simp_all add: clock_range_def tick_def)
  from sound obtain old where old: "sent = old @ cw_send_times ?w" "\<forall>t \<in> set old. 60 < now - t"
    and range: "\<forall>t \<in> set sent. clock_range t \<and> t \<le> now" by (auto simp: window_sound_def)
  obtain gone where gone: "cw_send_times ?w = gone @ ?times" "\<forall>t \<in> set gone. 60 < asked - t"
    using recent_sends_split by blast
  have bounded: "int (length ?times) \<le> ?n"
    by (rule recent_sends_bounded [OF sound now(2) pos])
  have aged: "60 < done_at - t" if "t \<in> set (old @ gone)" for t
    using that old(2) gone(2) now(2) asked(2) by force
  have head: "60 + tick \<le> done_at - hd ?times" if "int (length ?times) = ?n"
  proof -
    from full that obtain t ts where t: "?times = t # ts"
      "max (interval_wait st asked ?w) (fsub (fadd t 60) asked) \<le> wait" by auto
    have "clock_range t" using range t(1) old(1) gone(1) by auto
    from full_window_waits [OF this asked(1) t(2) late(1)] t(1) show ?thesis by simp
  qed
  show "window_sound st (window_of chat (record_send done_at chat (record_wait wait l'))) (sent @ [done_at]) done_at"
    unfolding window_sound_def
  proof (intro conjI)
    show "\<exists>old. sent @ [done_at] = old @ cw_send_times (window_of chat (record_send done_at chat (record_wait wait l')))
        \<and> (\<forall>t \<in> set old. 60 < done_at - t)"
      using old(1) gone(1) aged wait(2) by (intro exI [of _ "old @ gone"]) (auto simp: record_send_def)
    show "int (length (cw_send_times (window_of chat (record_send done_at chat (record_wait wait l'))))) \<le> ?n \<or>
        int (length (cw_send_times (window_of chat (record_send done_at chat (record_wait wait l'))))) = ?n + 1 \<and>
        60 + tick \<le> done_at - hd (cw_send_times (window_of chat (record_send done_at chat (record_wait wait l'))))"
      using bounded head pos wait(2) by (cases "int (length ?times) = ?n") (auto simp: record_send_def hd_append)
    show "\<forall>t \<in> set (sent @ [done_at]). clock_range t \<and> t \<le> done_at"
      using range now(2) asked(2) late(2) by force
  qed
  show "spaced (nat ?n) (sent @ [done_at])"
  proof (rule spaced_append [OF sp])
    show "\<forall>t. nat ?n \<le> length sent \<and> t = sent ! (length sent - nat ?n) \<longrightarrow> 60 < done_at - t"
    proof (intro allI impI, elim conjE)
      fix t assume t: "nat ?n \<le> length sent" "t = sent ! (length sent - nat ?n)"
      have sent: "sent = (old @ gone) @ ?times" using old(1) gone(1) by simp
      show "60 < done_at - t"
      proof (cases "int (length ?times) = ?n")
        case True
        then have "?times \<noteq> []" using pos by auto
        with True have "t = hd ?times" using t pos sent by (auto simp: nth_append hd_conv_nth)
        with head [OF True] show ?thesis by (simp add: tick_def)
      next
        case False
        with bounded t have "length sent - nat ?n < length (old @ gone)" using sent pos by auto
        then have "t \<in> set (old @ gone)" using t(2) sent by (metis nth_append nth_mem)
        with aged show ?thesis by blast
      qed
    qed
  qed (use pos in simp)
qed

lemma paced_keeps:
  assumes "paced st chat l sent now" "0 < tg_group_messages_per_minute st"
  shows "0 \<le> now \<and> window_sound st (window_of chat l) sent now \<and>
    spaced (nat (tg_group_messages_per_minute st)) sent"
  using assms(1)
proof (induction rule: paced.induct)
  case start
  with assms(2) show ?case
    by (simp add: window_sound_def spaced_def window_of_def new_limiter_def new_window_def)
next
  case (send l sent now asked wait l' done_at)
  then show ?case using send_keeps_window [of st chat l sent now asked wait l' done_at] assms(2)
    by (auto simp: clock_range_def)
next
  case (edit l sent now t)
  then show ?case by (fastforce simp: window_sound_def record_edit_def)
next
  case (other l sent now l' t)
  then show ?case by (fastforce simp: window_sound_def)
qed

section \<open>Properties\<close>

text \<open>
  C22.  The rate limit holds for a sender that is never exactly on time: if every message goes out at
  least four ticks (some four microseconds) after the wait the limiter asked for has ended, then over any stretch of sends, edits
  and work for other chats, of one message more than the limit the first and the last are more than a minute
  apart.  A sender exactly on time may pass one message too many (\<open>boundary_admits_one_more\<close>).
\<close>

theorem rate_limit_holds:
  assumes "paced st chat l sent now" "0 < tg_group_messages_per_minute st"
    and "i + nat (tg_group_messages_per_minute st) < length sent"
  shows "60 < sent ! (i + nat (tg_group_messages_per_minute st)) - sent ! i"
  using paced_keeps [OF assms(1,2)] assms(3) by (simp add: spaced_def)

definition slow_settings :: telegram_settings where
  "slow_settings = default_telegram_settings\<lparr>tg_group_messages_per_minute := 1\<rparr>"

theorem rate_limit_holds_witness:
  "60 < ([1, 62] :: float64 list) ! (0 + nat (tg_group_messages_per_minute slow_settings)) - [1, 62] ! 0"
proof -
  let ?l1 = "record_send 1 7 (record_wait 0 (snd (the (send_wait_seconds slow_settings 0 7 new_limiter))))"
  let ?l2 = "record_send 62 7 (record_wait 60 (snd (the (send_wait_seconds slow_settings 1 7 ?l1))))"
  have first: "send_wait_seconds slow_settings 0 7 new_limiter =
      Some (0, snd (the (send_wait_seconds slow_settings 0 7 new_limiter)))" by code_simp
  have second: "send_wait_seconds slow_settings 1 7 ?l1 = Some (60, snd (the (send_wait_seconds slow_settings 1 7 ?l1)))"
    by code_simp
  have "paced slow_settings 7 ?l1 ([] @ [1]) 1"
    by (rule paced.send [OF paced.start _ first]) (simp_all add: tick_def clock_range_def)
  then have one: "paced slow_settings 7 ?l1 [1] 1" by simp
  have "paced slow_settings 7 ?l2 ([1] @ [62]) 62"
    by (rule paced.send [OF one _ second]) (simp_all add: tick_def clock_range_def)
  then show ?thesis
    using rate_limit_holds [of slow_settings 7 ?l2 "[1, 62]" 62 0] by (simp add: slow_settings_def)
qed

text \<open>
  At the boundary the limit is one too many: a message exactly a minute old still fills the window but
  blocks nothing, so with a limit of two a third message within the minute waits only for the interval
  between messages.
\<close>

definition two_per_minute :: telegram_settings where
  "two_per_minute = default_telegram_settings\<lparr>tg_group_messages_per_minute := 2\<rparr>"

theorem boundary_admits_one_more:
  "let l = record_send 60 7 (record_send 50 7 (record_send 0 7 new_limiter)) in
   map_option fst (send_wait_seconds two_per_minute 55 7 (record_send 50 7 (record_send 0 7 new_limiter)))
     = Some 5 \<and>
   map_option fst (send_wait_seconds two_per_minute 60 7 l) = Some (3 / 2)"
  by code_simp

text \<open>
  The backoff is bounded: for settings that are not negative, a failed attempt is tried again after at
  most twice the configured maximum, a permanent error never, and so a longer delay the server asks for
  is not kept.
\<close>

theorem backoff_bounded:
  assumes "0 \<le> tg_retry_min_seconds st" "0 \<le> tg_retry_max_seconds st" "0 \<le> tg_retry_jitter_seconds st"
    and "0 \<le> rng"
  shows "0 \<le> rd_delay_seconds (decide_retry e attempt st rng) \<and>
    rd_delay_seconds (decide_retry e attempt st rng) \<le> fmul (tg_retry_max_seconds st) 2 \<and>
    (rd_retryable (decide_retry e attempt st rng) = (e \<notin> {Permanent_Error, Auth_Error}))"
  using decide_retry_bounds [OF assms] by simp

theorem backoff_bounded_witness:
  "rd_delay_seconds (decide_retry (Rate_Limited_Error (Some 300)) 1 default_telegram_settings (1 / 2)) \<le> 120"
  using backoff_bounded [of default_telegram_settings "1 / 2" "Rate_Limited_Error (Some 300)" 1]
  by (simp add: default_telegram_settings_def fmul_def fl_of_int [of 120, simplified])

end
