(* ===== verification/Telegram_Queue.thy ===== *)
theory Telegram_Queue
  imports Telegram_Text Telegram_Limits
begin

text \<open>
  The delivery queue in the database (\<open>app/repositories/telegram_delivery_repository.py\<close>, table
  \<open>telegram_deliveries\<close> in \<open>orm.py\<close>).  The table is the list of its rows in the order of their row numbers, and
  each method runs without interleaving, except that other tasks may write between the two statements of
  an insertion.
\<close>

section \<open>Rows\<close>

datatype delivery_status =
    DS_PENDING | DS_PROCESSING | DS_SENT | DS_EDITED | DS_RETRYING | DS_FAILED | DS_DEAD_LETTER
  | DS_SKIPPED_DUPLICATE | DS_CANCELLED

text \<open>
  The payload column: missing or of an unknown kind, of a known kind with data the model refuses, or a
  payload.
\<close>

datatype stored_payload = No_Payload | Invalid_Data | Stored message_payload

record delivery_row =
  dv_delivery_id :: uuid
  dv_signal_id :: "uuid option"
  dv_system_event_id :: "int option"
  dv_message_type :: string
  dv_operation :: delivery_operation
  dv_chat_id :: int
  dv_message_id :: "int option"
  dv_status :: delivery_status
  dv_priority :: int
  dv_payload :: stored_payload
  dv_content_hash :: string
  dv_idempotency_key :: string
  dv_attempt_count :: int
  dv_scheduled_at :: "datetime option"
  dv_lease_expires_at :: "datetime option"
  dv_sent_at :: "datetime option"
  dv_last_error_class :: "string option"
  dv_last_error_at :: "datetime option"
  dv_error :: "string option"
  dv_correlation_id :: "string option"
  dv_created_at :: datetime

type_synonym delivery_table = "delivery_row list"

definition claimable_status :: "delivery_status \<Rightarrow> bool" where
  "claimable_status s \<longleftrightarrow> s = DS_PENDING \<or> s = DS_RETRYING"

definition open_status :: "delivery_status \<Rightarrow> bool" where
  "open_status s \<longleftrightarrow> s = DS_PENDING \<or> s = DS_RETRYING \<or> s = DS_PROCESSING"

section \<open>Operations\<close>

definition by_key :: "string \<Rightarrow> delivery_table \<Rightarrow> delivery_row option" where
  "by_key k rows = find (\<lambda>r. dv_idempotency_key r = k) rows"

definition get_delivery :: "uuid \<Rightarrow> delivery_table \<Rightarrow> delivery_row option" where
  "get_delivery i rows = find (\<lambda>r. dv_delivery_id r = i) rows"

text \<open>
  Look up the key, and insert the row if it is new.  The unique constraint decides again at the commit, after
  what the others did in between; the row that lost is answered with the one that won.
\<close>

definition insert_if_new ::
  "(delivery_table \<Rightarrow> delivery_table) \<Rightarrow> delivery_row \<Rightarrow> delivery_table \<Rightarrow>
     (delivery_row \<times> bool) \<times> delivery_table" where
  "insert_if_new between row rows =
     (case by_key (dv_idempotency_key row) rows of
        Some r \<Rightarrow> ((r, False), rows)
      | None \<Rightarrow>
          let rows' = between rows in
          case by_key (dv_idempotency_key row) rows' of
            Some r \<Rightarrow> ((r, False), rows')
          | None \<Rightarrow> ((row, True), rows' @ [row]))"

definition lease_expired :: "datetime \<Rightarrow> delivery_row \<Rightarrow> bool" where
  "lease_expired now r \<longleftrightarrow> dv_status r = DS_PROCESSING \<and>
     (case dv_lease_expires_at r of None \<Rightarrow> False | Some e \<Rightarrow> e < now)"

definition recover_leases :: "datetime \<Rightarrow> delivery_table \<Rightarrow> delivery_table" where
  "recover_leases now = update_where (lease_expired now)
     (\<lambda>r. r\<lparr>dv_status := DS_RETRYING, dv_lease_expires_at := None\<rparr>)"

definition due :: "datetime \<Rightarrow> delivery_row \<Rightarrow> bool" where
  "due now r \<longleftrightarrow> claimable_status (dv_status r) \<and>
     (case dv_scheduled_at r of None \<Rightarrow> True | Some t \<Rightarrow> t \<le> now)"

definition claimed_row :: "float64 \<Rightarrow> datetime \<Rightarrow> delivery_row \<Rightarrow> delivery_row" where
  "claimed_row lease now r = r\<lparr>dv_status := DS_PROCESSING,
     dv_lease_expires_at := Some (now + timedelta_seconds lease), dv_attempt_count := dv_attempt_count r + 1\<rparr>"

text \<open>Priority first, then age; \<open>sort_key\<close> keeps the row order of equal keys.\<close>

definition claim_due ::
  "nat \<Rightarrow> float64 \<Rightarrow> datetime \<Rightarrow> delivery_table \<Rightarrow> delivery_table \<times> delivery_table" where
  "claim_due limit lease now rows =
     (let rows1 = recover_leases now rows;
          batch = take limit (sort_key dv_priority (sort_key dv_created_at (filter (due now) rows1)));
          ids = map dv_delivery_id batch in
      (map (claimed_row lease now) batch,
       update_where (\<lambda>r. dv_delivery_id r \<in> set ids) (claimed_row lease now) rows1))"

definition update_delivery :: "uuid \<Rightarrow> (delivery_row \<Rightarrow> delivery_row) \<Rightarrow> delivery_table \<Rightarrow> delivery_table" where
  "update_delivery i f = update_where (\<lambda>r. dv_delivery_id r = i) f"

definition mark_sent :: "uuid \<Rightarrow> int \<Rightarrow> datetime \<Rightarrow> delivery_table \<Rightarrow> delivery_table" where
  "mark_sent i message now = update_delivery i (\<lambda>r. r\<lparr>dv_status := DS_SENT, dv_message_id := Some message,
     dv_sent_at := Some now, dv_lease_expires_at := None\<rparr>)"

definition mark_edited :: "uuid \<Rightarrow> datetime \<Rightarrow> delivery_table \<Rightarrow> delivery_table" where
  "mark_edited i now = update_delivery i (\<lambda>r. r\<lparr>dv_status := DS_EDITED, dv_sent_at := Some now,
     dv_lease_expires_at := None\<rparr>)"

definition mark_retrying :: "uuid \<Rightarrow> datetime \<Rightarrow> string \<Rightarrow> datetime \<Rightarrow> delivery_table \<Rightarrow> delivery_table" where
  "mark_retrying i next_at err now = update_delivery i (\<lambda>r. r\<lparr>dv_status := DS_RETRYING,
     dv_scheduled_at := Some next_at, dv_lease_expires_at := None, dv_last_error_class := Some err,
     dv_last_error_at := Some now\<rparr>)"

definition mark_failed :: "uuid \<Rightarrow> string \<Rightarrow> datetime \<Rightarrow> delivery_table \<Rightarrow> delivery_table" where
  "mark_failed i err now = update_delivery i (\<lambda>r. r\<lparr>dv_status := DS_FAILED, dv_lease_expires_at := None,
     dv_last_error_class := Some err, dv_last_error_at := Some now, dv_error := Some []\<rparr>)"

definition mark_dead_letter :: "uuid \<Rightarrow> string \<Rightarrow> datetime \<Rightarrow> delivery_table \<Rightarrow> delivery_table" where
  "mark_dead_letter i err now = update_delivery i (\<lambda>r. r\<lparr>dv_status := DS_DEAD_LETTER,
     dv_lease_expires_at := None, dv_last_error_class := Some err, dv_last_error_at := Some now\<rparr>)"

definition droppable :: "int \<Rightarrow> delivery_row \<Rightarrow> bool" where
  "droppable below r \<longleftrightarrow> claimable_status (dv_status r) \<and> max below 2 < dv_priority r"

definition cancel_lowest_priority ::
  "int \<Rightarrow> nat \<Rightarrow> datetime \<Rightarrow> delivery_table \<Rightarrow> nat \<times> delivery_table" where
  "cancel_lowest_priority below count now rows =
     (let victims = take count (sort_key (\<lambda>r. - dv_priority r)
            (sort_key dv_created_at (filter (droppable below) rows)));
          ids = map dv_delivery_id victims in
      (length victims, update_where (\<lambda>r. dv_delivery_id r \<in> set ids)
         (\<lambda>r. r\<lparr>dv_status := DS_CANCELLED, dv_last_error_class := Some ''queue_overflow'',
               dv_last_error_at := Some now\<rparr>) rows))"

definition open_count :: "delivery_table \<Rightarrow> int" where
  "open_count rows = int (row_count (\<lambda>r. open_status (dv_status r)) rows)"

definition delivery_counts :: "delivery_table \<Rightarrow> delivery_status \<Rightarrow> nat" where
  "delivery_counts rows s = row_count (\<lambda>r. dv_status r = s) rows"

definition dead_letter_count :: "delivery_table \<Rightarrow> nat" where
  "dead_letter_count rows = row_count (\<lambda>r. dv_status r = DS_DEAD_LETTER) rows"

definition last_success_at :: "delivery_table \<Rightarrow> datetime option" where
  "last_success_at rows =
     (case List.map_filter dv_sent_at (filter (\<lambda>r. dv_status r = DS_SENT \<or> dv_status r = DS_EDITED) rows) of
        [] \<Rightarrow> None | t # ts \<Rightarrow> Some (fold max ts t))"

definition find_recent_duplicate :: "string \<Rightarrow> datetime \<Rightarrow> delivery_table \<Rightarrow> delivery_row option" where
  "find_recent_duplicate h since rows =
     find (\<lambda>r. dv_content_hash r = h \<and> since \<le> dv_created_at r \<and>
       dv_status r \<notin> {DS_FAILED, DS_DEAD_LETTER, DS_CANCELLED, DS_SKIPPED_DUPLICATE}) rows"

definition recent_deliveries :: "nat \<Rightarrow> delivery_table \<Rightarrow> delivery_table" where
  "recent_deliveries limit rows = take limit (sort_key (\<lambda>r. - dv_created_at r) (rev rows))"

lemmas queue_defs = update_delivery_def mark_sent_def mark_edited_def mark_retrying_def mark_failed_def
  mark_dead_letter_def

section \<open>What the operations keep\<close>

text \<open>Rows are identified by their delivery and by their key.\<close>

definition unique_rows :: "delivery_table \<Rightarrow> bool" where
  "unique_rows rows \<longleftrightarrow> distinct (map dv_delivery_id rows) \<and> distinct (map dv_idempotency_key rows)"

lemma unique_update_where:
  "(\<And>r. c r \<Longrightarrow> dv_delivery_id (f r) = dv_delivery_id r \<and> dv_idempotency_key (f r) = dv_idempotency_key r) \<Longrightarrow>
     unique_rows (update_where c f rows) = unique_rows rows"
  by (simp add: unique_rows_def map_update_where)

lemma claimed_row_fields [simp]:
  "dv_delivery_id (claimed_row lease now r) = dv_delivery_id r"
  "dv_idempotency_key (claimed_row lease now r) = dv_idempotency_key r"
  "dv_status (claimed_row lease now r) = DS_PROCESSING"
  "dv_attempt_count (claimed_row lease now r) = dv_attempt_count r + 1"
  "dv_priority (claimed_row lease now r) = dv_priority r"
  "dv_payload (claimed_row lease now r) = dv_payload r"
  by (simp_all add: claimed_row_def)

lemma unique_recover [simp]: "unique_rows (recover_leases now rows) = unique_rows rows"
  unfolding recover_leases_def by (rule unique_update_where) simp

lemma unique_claim [simp]: "unique_rows (snd (claim_due limit lease now rows)) = unique_rows rows"
  unfolding claim_due_def Let_def snd_conv by (subst unique_update_where) simp_all

lemma unique_marks [simp]:
  "unique_rows (mark_sent i m now rows) = unique_rows rows"
  "unique_rows (mark_edited i now rows) = unique_rows rows"
  "unique_rows (mark_retrying i t e now rows) = unique_rows rows"
  "unique_rows (mark_failed i e now rows) = unique_rows rows"
  "unique_rows (mark_dead_letter i e now rows) = unique_rows rows"
  unfolding queue_defs by (rule unique_update_where; simp)+

lemma unique_cancel [simp]: "unique_rows (snd (cancel_lowest_priority b c now rows)) = unique_rows rows"
  unfolding cancel_lowest_priority_def Let_def snd_conv by (rule unique_update_where) simp

lemma unique_insert:
  assumes "unique_rows rows" "unique_rows (between rows)"
    and "dv_delivery_id row \<notin> dv_delivery_id ` set (between rows)"
  shows "unique_rows (snd (insert_if_new between row rows))"
  using assms
  by (auto simp: insert_if_new_def Let_def unique_rows_def by_key_def find_None_not split: option.split)

text \<open>The row an operation leaves under an identifier.\<close>

lemma get_update_where:
  "(\<And>r. c r \<Longrightarrow> dv_delivery_id (f r) = dv_delivery_id r) \<Longrightarrow>
     get_delivery i (update_where c f rows) = map_option (\<lambda>r. if c r then f r else r) (get_delivery i rows)"
  unfolding get_delivery_def by (rule find_update_where)

lemma get_delivery_in: "get_delivery i rows = Some r \<Longrightarrow> r \<in> set rows \<and> dv_delivery_id r = i"
  unfolding get_delivery_def by (drule find_Some_in) simp

lemma get_delivery_unique:
  "distinct (map dv_delivery_id rows) \<Longrightarrow> r \<in> set rows \<Longrightarrow> get_delivery (dv_delivery_id r) rows = Some r"
  by (induction rows) (auto simp: get_delivery_def image_iff)

end
