(* ===== verification/Telegram_Delivery.thy ===== *)
theory Telegram_Delivery
  imports Telegram_Queue Effects
begin

text \<open>
  The delivery service and its worker (\<open>app/telegram/delivery_service.py\<close>,
  \<open>app/telegram/delivery_queue.py\<close>).  Both call the database; every call may fail before or after it took
  effect, and the calls of other tasks may come in before it.  The environment says so for the n-th step,
  together with what the clocks read, what the random source gives and what the client answers.
\<close>

section \<open>The world of a delivery\<close>

text \<open>What other tasks do to the queue: they insert rows and, when it is full, cancel some.\<close>

datatype queue_op = Q_Insert delivery_row | Q_Cancel int nat datetime

fun queue_step :: "queue_op \<Rightarrow> delivery_table \<Rightarrow> delivery_table" where
  "queue_step (Q_Insert row) rows =
     (if get_delivery (dv_delivery_id row) rows = None then snd (insert_if_new id row rows) else rows)"
| "queue_step (Q_Cancel below count now) rows = snd (cancel_lowest_priority below count now rows)"

datatype call_fault = Call_Succeeds | Lost_Before | Lost_After

text \<open>
  An answer of the client: the number of the message, or an error, and whether the message went out although
  the answer is an error.
\<close>

datatype client_answer = Accepted int | Refused delivery_error bool

record delivery_env =
  ev_settings :: telegram_settings
  ev_digest :: "delivery_type \<Rightarrow> message_payload \<Rightarrow> string"
  ev_others :: "nat \<Rightarrow> queue_op list"
  ev_fault :: "nat \<Rightarrow> call_fault"
  ev_client :: "nat \<Rightarrow> client_answer"
  ev_now :: "nat \<Rightarrow> datetime"
  ev_clock :: "nat \<Rightarrow> float64"
  ev_rng :: "nat \<Rightarrow> float64"
  ev_new_id :: "nat \<Rightarrow> uuid"
  ev_paused :: "(nat \<Rightarrow> bool) option"

record delivery_world =
  dw_step :: nat
  dw_rows :: delivery_table
  dw_limiter :: rate_limiter
  dw_auth_failed :: bool
  dw_last_processed_at :: "datetime option"
  dw_delivered :: "(uuid \<times> message_text) list" \<comment> \<open>what reached the chat, in order\<close>
  dw_alarms :: "(uuid \<times> string option) list" \<comment> \<open>the dead letters reported as system events\<close>

type_synonym 'a delivery = "(delivery_world, delivery_error, 'a) action"

text \<open>One step of the environment: read what it offers at this step, and go on to the next.\<close>

definition next_step :: "(nat \<Rightarrow> 'a) \<Rightarrow> 'a delivery" where
  "next_step f w = (Inr (f (dw_step w)), w\<lparr>dw_step := Suc (dw_step w)\<rparr>)"

text \<open>A call of the database with one commit.  An exception of the driver is none of the client's.\<close>

definition on_queue :: "delivery_env \<Rightarrow> (delivery_table \<Rightarrow> 'a \<times> delivery_table) \<Rightarrow> 'a delivery" where
  "on_queue env f w =
     (let rows = fold queue_step (ev_others env (dw_step w)) (dw_rows w);
          w' = w\<lparr>dw_step := Suc (dw_step w), dw_rows := rows\<rparr> in
      case ev_fault env (dw_step w) of
        Call_Succeeds \<Rightarrow> (Inr (fst (f rows)), w'\<lparr>dw_rows := snd (f rows)\<rparr>)
      | Lost_Before \<Rightarrow> (Inl Other_Error, w')
      | Lost_After \<Rightarrow> (Inl Other_Error, w'\<lparr>dw_rows := snd (f rows)\<rparr>))"

definition read_queue :: "delivery_env \<Rightarrow> (delivery_table \<Rightarrow> 'a) \<Rightarrow> 'a delivery" where
  "read_queue env f = on_queue env (\<lambda>rows. (f rows, rows))"

definition write_queue :: "delivery_env \<Rightarrow> (delivery_table \<Rightarrow> delivery_table) \<Rightarrow> unit delivery" where
  "write_queue env f = on_queue env (\<lambda>rows. ((), f rows))"

section \<open>The service\<close>

record delivery_request =
  rq_delivery_type :: delivery_type
  rq_payload :: message_payload
  rq_idempotency_key :: string
  rq_operation :: delivery_operation
  rq_chat_id :: "int option"
  rq_message_id :: "int option"
  rq_correlation_id :: "string option"
  rq_signal_id :: "uuid option"
  rq_system_event_id :: "int option"
  rq_scheduled_at :: "datetime option"
  rq_dedup :: bool

definition rq_priority :: "delivery_request \<Rightarrow> int" where
  "rq_priority q = priority_by_type (rq_delivery_type q)"

definition pause_exempt :: "delivery_type \<Rightarrow> bool" where
  "pause_exempt t \<longleftrightarrow> t = TD_BOT_PAUSED \<or> t = TD_BOT_RESUMED"

text \<open>A new row: the fields of the request, and the defaults of the columns.\<close>

definition delivery_row_of ::
  "delivery_env \<Rightarrow> delivery_request \<Rightarrow> int \<Rightarrow> delivery_status \<Rightarrow> uuid \<Rightarrow> datetime \<Rightarrow> delivery_row" where
  "delivery_row_of env q chat status i now =
     \<lparr>dv_delivery_id = i, dv_signal_id = rq_signal_id q, dv_system_event_id = rq_system_event_id q,
      dv_message_type = delivery_type_value (rq_delivery_type q), dv_operation = rq_operation q,
      dv_chat_id = chat, dv_message_id = rq_message_id q, dv_status = status, dv_priority = rq_priority q,
      dv_payload = Stored (rq_payload q), dv_content_hash = ev_digest env (rq_delivery_type q) (rq_payload q),
      dv_idempotency_key = rq_idempotency_key q, dv_attempt_count = 0, dv_scheduled_at = rq_scheduled_at q,
      dv_lease_expires_at = None, dv_sent_at = None, dv_last_error_class = None, dv_last_error_at = None,
      dv_error = None, dv_correlation_id = rq_correlation_id q, dv_created_at = now\<rparr>"

definition insert_delivery ::
  "delivery_env \<Rightarrow> delivery_request \<Rightarrow> int \<Rightarrow> delivery_status \<Rightarrow> (delivery_row \<times> bool) delivery" where
  "insert_delivery env q chat status =
     and_then (next_step (\<lambda>n. delivery_row_of env q chat status (ev_new_id env n) (ev_now env n))) (\<lambda>row.
     and_then (next_step (ev_others env)) (\<lambda>rivals.
     on_queue env (insert_if_new (fold queue_step rivals) row)))"

datatype enqueue_error = Edit_Without_Message | No_Chat

datatype enqueue_result = Invalid_Request enqueue_error | Gated_By_Pause | Enqueued delivery_row

definition pause_gates :: "delivery_env \<Rightarrow> delivery_request \<Rightarrow> bool delivery" where
  "pause_gates env q =
     (case ev_paused env of
        None \<Rightarrow> pure_action False
      | Some paused \<Rightarrow>
          if 2 < rq_priority q \<and> \<not> pause_exempt (rq_delivery_type q) then next_step paused
          else pure_action False)"

definition find_duplicate :: "delivery_env \<Rightarrow> delivery_request \<Rightarrow> delivery_row option delivery" where
  "find_duplicate env q =
     (let window = tg_deduplication_window_seconds (ev_settings env) in
      if rq_dedup q \<and> 0 < window then
        and_then (next_step (ev_now env)) (\<lambda>now.
        read_queue env (find_recent_duplicate (ev_digest env (rq_delivery_type q) (rq_payload q))
          (now - timedelta_seconds window)))
      else pure_action None)"

text \<open>
  The overflow policy, and then the insertion: at a full queue a less important delivery is cancelled; if there
  is none, a request that is not important is stored as cancelled.
\<close>

definition insert_with_overflow :: "delivery_env \<Rightarrow> delivery_request \<Rightarrow> int \<Rightarrow> delivery_row delivery" where
  "insert_with_overflow env q chat =
     and_then (read_queue env open_count) (\<lambda>open_now.
     and_then
       (if tg_delivery_queue_size (ev_settings env) \<le> open_now then
          and_then (next_step (ev_now env)) (\<lambda>now.
          and_then (on_queue env (cancel_lowest_priority (rq_priority q) 1 now)) (\<lambda>freed.
          pure_action (if freed = 0 \<and> 3 \<le> rq_priority q then DS_CANCELLED else DS_PENDING)))
        else pure_action DS_PENDING) (\<lambda>status.
     and_then (insert_delivery env q chat status) (\<lambda>(row, _). pure_action row)))"

definition enqueue :: "delivery_env \<Rightarrow> delivery_request \<Rightarrow> enqueue_result delivery" where
  "enqueue env q =
     (if rq_operation q = OP_EDIT \<and> rq_message_id q = None then
        pure_action (Invalid_Request Edit_Without_Message)
      else
        case (case rq_chat_id q of Some c \<Rightarrow> Some c | None \<Rightarrow> tg_group_id (ev_settings env)) of
          None \<Rightarrow> pure_action (Invalid_Request No_Chat)
        | Some chat \<Rightarrow>
            and_then (pause_gates env q) (\<lambda>gated.
            if gated then pure_action Gated_By_Pause
            else
              and_then (find_duplicate env q) (\<lambda>duplicate.
              if (case duplicate of None \<Rightarrow> False
                  | Some d \<Rightarrow> dv_idempotency_key d \<noteq> rq_idempotency_key q) then
                and_then (insert_delivery env q chat DS_SKIPPED_DUPLICATE) (\<lambda>(row, _).
                pure_action (Enqueued row))
              else
                and_then (insert_with_overflow env q chat) (\<lambda>row. pure_action (Enqueued row)))))"

section \<open>The worker\<close>

text \<open>\<open>payload_from_json\<close>: \<open>Inl\<close> when the data does not validate, \<open>None\<close> without payload or kind.\<close>

definition payload_from_json :: "stored_payload \<Rightarrow> unit + message_payload option" where
  "payload_from_json p =
     (case p of No_Payload \<Rightarrow> Inr None | Invalid_Data \<Rightarrow> Inl () | Stored x \<Rightarrow> Inr (Some x))"

definition delivery_types :: "delivery_type list" where
  "delivery_types = [TD_SYSTEM_STARTUP, TD_SYSTEM_SHUTDOWN, TD_SYSTEM_ERROR, TD_SYSTEM_WARNING,
     TD_DATA_QUALITY_WARNING, TD_DATA_STALE, TD_WEBSOCKET_RECONNECTING, TD_WEBSOCKET_DEGRADED,
     TD_BOT_PAUSED, TD_BOT_RESUMED, TD_DAILY_STATUS, TD_WATCHLIST, TD_SIGNAL_OPEN, TD_SIGNAL_UPDATE,
     TD_SIGNAL_PARTIAL, TD_SIGNAL_BREAK_EVEN, TD_SIGNAL_TRAILING, TD_SIGNAL_EXIT, TD_SIGNAL_STOP,
     TD_SIGNAL_INVALIDATED, TD_SIGNAL_EXPIRED]"

definition delivery_type_of :: "string \<Rightarrow> delivery_type option" where
  "delivery_type_of s = find (\<lambda>t. delivery_type_value t = s) delivery_types"

definition with_limiter :: "(float64 \<Rightarrow> rate_limiter \<Rightarrow> 'a \<times> rate_limiter) \<Rightarrow> delivery_env \<Rightarrow> 'a delivery" where
  "with_limiter f env w =
     (let (x, l) = f (ev_clock env (dw_step w)) (dw_limiter w) in
      (Inr x, w\<lparr>dw_step := Suc (dw_step w), dw_limiter := l\<rparr>))"

text \<open>The wait of the limiter, recorded and slept: \<open>None\<close> is the \<open>IndexError\<close> of the window.\<close>

definition wait_for_chat :: "delivery_env \<Rightarrow> delivery_row \<Rightarrow> unit delivery" where
  "wait_for_chat env row =
     and_then
       (if dv_operation row = OP_EDIT
        then with_limiter (\<lambda>now l. apfst Some (edit_wait_seconds (ev_settings env) now (dv_chat_id row) l)) env
        else with_limiter (\<lambda>now l. case send_wait_seconds (ev_settings env) now (dv_chat_id row) l of
            None \<Rightarrow> (None, l) | Some (s, l') \<Rightarrow> (Some s, l')) env) (\<lambda>wait.
     case wait of
       None \<Rightarrow> raise_error Other_Error
     | Some s \<Rightarrow> modify_state (\<lambda>w. w\<lparr>dw_limiter := record_wait s (dw_limiter w)\<rparr>))"

text \<open>A call of the client; a message that goes out is seen by the chat.\<close>

definition call_client :: "delivery_env \<Rightarrow> uuid \<Rightarrow> message_text \<Rightarrow> int delivery" where
  "call_client env i t w =
     (let w' = w\<lparr>dw_step := Suc (dw_step w)\<rparr>; out = w'\<lparr>dw_delivered := dw_delivered w @ [(i, t)]\<rparr> in
      case ev_client env (dw_step w) of
        Accepted m \<Rightarrow> (Inr m, out)
      | Refused e arrived \<Rightarrow> (Inl e, if arrived then out else w'))"

definition attempt_delivery :: "delivery_env \<Rightarrow> delivery_row \<Rightarrow> message_text \<Rightarrow> unit delivery" where
  "attempt_delivery env row t =
     (if dv_operation row = OP_EDIT then
        if dv_message_id row = None then raise_error Other_Error
        else
          and_then (call_client env (dv_delivery_id row) t) (\<lambda>_.
          and_then (with_limiter (\<lambda>now l. ((), record_edit now (dv_chat_id row) l)) env) (\<lambda>_.
          and_then (next_step (ev_now env)) (\<lambda>now.
          write_queue env (mark_edited (dv_delivery_id row) now))))
      else
        and_then (call_client env (dv_delivery_id row) t) (\<lambda>message.
        and_then (with_limiter (\<lambda>now l. ((), record_send now (dv_chat_id row) l)) env) (\<lambda>_.
        and_then (next_step (ev_now env)) (\<lambda>now.
        write_queue env (mark_sent (dv_delivery_id row) message now)))))"

text \<open>The callback of a dead letter writes a system event; its failure is suppressed.\<close>

definition report_dead_letter :: "delivery_env \<Rightarrow> delivery_row \<Rightarrow> unit delivery" where
  "report_dead_letter env row =
     suppressed (and_then (write_queue env id) (\<lambda>_.
       modify_state (\<lambda>w. w\<lparr>dw_alarms := dw_alarms w @ [(dv_delivery_id row, dv_last_error_class row)]\<rparr>)))"

definition handle_failure :: "delivery_env \<Rightarrow> delivery_row \<Rightarrow> delivery_error \<Rightarrow> unit delivery" where
  "handle_failure env row e =
     and_then (modify_state (\<lambda>w. w\<lparr>dw_auth_failed := dw_auth_failed w \<or> e = Auth_Error\<rparr>)) (\<lambda>_.
     and_then (next_step (\<lambda>n. (ev_rng env n, ev_now env n))) (\<lambda>(rng, now).
       let i = dv_delivery_id row; attempt = dv_attempt_count row;
           decision = decide_retry e attempt (ev_settings env) rng; err = rd_error_class decision in
       if rd_retryable decision \<and> attempt < tg_max_retry_attempts (ev_settings env) then
         write_queue env (mark_retrying i (now + timedelta_seconds (rd_delay_seconds decision)) err now)
       else if rd_retryable decision then
         and_then (write_queue env (mark_dead_letter i err now)) (\<lambda>_. report_dead_letter env row)
       else write_queue env (mark_failed i err now)))"

definition give_up :: "delivery_env \<Rightarrow> delivery_row \<Rightarrow> string \<Rightarrow> unit delivery" where
  "give_up env row note =
     and_then (next_step (ev_now env)) (\<lambda>now. write_queue env (mark_failed (dv_delivery_id row) note now))"

definition process_delivery :: "delivery_env \<Rightarrow> delivery_row \<Rightarrow> unit delivery" where
  "process_delivery env row =
     (case payload_from_json (dv_payload row) of
        Inl _ \<Rightarrow> raise_error Other_Error
      | Inr None \<Rightarrow> give_up env row ''malformed_payload''
      | Inr (Some p) \<Rightarrow>
          (case delivery_type_of (dv_message_type row) of
             None \<Rightarrow> give_up env row ''format_error''
           | Some ty \<Rightarrow>
               and_then (wait_for_chat env row) (\<lambda>_.
               on_error (attempt_delivery env row (render ty p)) (handle_failure env row))))"

fun process_all :: "delivery_env \<Rightarrow> delivery_row list \<Rightarrow> unit delivery" where
  "process_all env [] = pure_action ()"
| "process_all env (row # rows) = and_then (process_delivery env row) (\<lambda>_. process_all env rows)"

definition process_once :: "delivery_env \<Rightarrow> nat delivery" where
  "process_once env =
     and_then (next_step (ev_now env)) (\<lambda>now.
     and_then (on_queue env (claim_due (tg_delivery_batch_size (ev_settings env))
       (tg_delivery_lease_seconds (ev_settings env)) now)) (\<lambda>batch.
     and_then (process_all env batch) (\<lambda>_.
     and_then (if batch = [] then pure_action ()
       else and_then (next_step (ev_now env)) (\<lambda>now'.
         modify_state (\<lambda>w. w\<lparr>dw_last_processed_at := Some now'\<rparr>))) (\<lambda>_.
     pure_action (length batch)))))"

text \<open>The loop of the worker survives every exception of a cycle; \<open>work\<close> is its first \<open>n\<close> rounds.\<close>

definition work_round :: "delivery_env \<Rightarrow> nat delivery" where
  "work_round env = on_error (process_once env) (\<lambda>_. pure_action 0)"

fun work :: "delivery_env \<Rightarrow> nat \<Rightarrow> unit delivery" where
  "work env 0 = pure_action ()"
| "work env (Suc n) = and_then (work_round env) (\<lambda>_. work env n)"

end
