(* ===== verification/Telegram_Safety.thy ===== *)
theory Telegram_Safety
  imports Telegram_Delivery
begin

text \<open>
  What the delivery queue guarantees: the worker delivers every message at most once and settles what it
  claims, as long as the database answers and the client does not lose the answer to a message that went
  out; the more important goes first and is never dropped.  Where an answer is lost, a message goes out
  twice.
\<close>

section \<open>The invariant of the worker\<close>

text \<open>A stored row the worker can render.\<close>

definition readable :: "delivery_row \<Rightarrow> bool" where
  "readable r \<longleftrightarrow> (\<exists>p. dv_payload r = Stored p) \<and> (\<exists>ty. dv_message_type r = delivery_type_value ty)"

definition delivered_status :: "delivery_status \<Rightarrow> bool" where
  "delivered_status s \<longleftrightarrow> s = DS_SENT \<or> s = DS_EDITED"

definition attempt_limit :: "delivery_env \<Rightarrow> int" where
  "attempt_limit env = max 1 (tg_max_retry_attempts (ev_settings env))"

definition row_sound :: "delivery_env \<Rightarrow> delivery_row \<Rightarrow> bool" where
  "row_sound env r \<longleftrightarrow> readable r \<and> dv_attempt_count r \<le> attempt_limit env \<and>
     (claimable_status (dv_status r) \<longrightarrow> dv_attempt_count r < attempt_limit env)"

text \<open>
  \<open>batch\<close>: the rows the worker holds, which are the ones in \<open>PROCESSING\<close>.  \<open>flying\<close>: deliveries that are out but
  not yet marked; all others that are out are marked.
\<close>

definition table_sound :: "delivery_env \<Rightarrow> delivery_row list \<Rightarrow> uuid set \<Rightarrow> uuid list \<Rightarrow> delivery_table \<Rightarrow> bool" where
  "table_sound env batch flying sent rows \<longleftrightarrow>
     unique_rows rows \<and> (\<forall>r \<in> set rows. row_sound env r) \<and> distinct (map dv_delivery_id batch) \<and>
     {r \<in> set rows. dv_status r = DS_PROCESSING} = set batch \<and>
     (\<forall>i \<in> set sent. i \<in> flying \<or> (\<exists>r \<in> set rows. dv_delivery_id r = i \<and> delivered_status (dv_status r)))"

definition queue_sound :: "delivery_env \<Rightarrow> delivery_row list \<Rightarrow> uuid set \<Rightarrow> delivery_world \<Rightarrow> bool" where
  "queue_sound env batch flying w \<longleftrightarrow> distinct (map fst (dw_delivered w)) \<and>
     table_sound env batch flying (map fst (dw_delivered w)) (dw_rows w)"

text \<open>What other tasks may insert: a new delivery as the service makes it.\<close>

definition legal_queue_op :: "queue_op \<Rightarrow> bool" where
  "legal_queue_op op = (case op of
     Q_Insert r \<Rightarrow> readable r \<and> dv_attempt_count r = 0 \<and>
       dv_status r \<in> {DS_PENDING, DS_SKIPPED_DUPLICATE, DS_CANCELLED}
   | Q_Cancel _ _ _ \<Rightarrow> True)"

text \<open>
  The database answers every call, the client never reports an error for a message that went out, and the
  limiter lets some message through.
\<close>

definition reliable_env :: "delivery_env \<Rightarrow> bool" where
  "reliable_env env \<longleftrightarrow> (\<forall>n. ev_fault env n = Call_Succeeds) \<and>
     (\<forall>n. list_all legal_queue_op (ev_others env n)) \<and> (\<forall>n e. ev_client env n \<noteq> Refused e True) \<and>
     0 < tg_group_messages_per_minute (ev_settings env)"

lemma row_sound_new: "readable r \<Longrightarrow> dv_attempt_count r = 0 \<Longrightarrow> row_sound env r"
  by (auto simp: row_sound_def attempt_limit_def)

text \<open>
  An update of rows the worker does not hold and that are not delivered keeps the invariant, and so does a
  new row.
\<close>

lemma sound_update_where:
  assumes "table_sound env batch flying sent rows"
    and f: "\<And>r. r \<in> set rows \<Longrightarrow> c r \<Longrightarrow> dv_delivery_id (f r) = dv_delivery_id r \<and>
      dv_idempotency_key (f r) = dv_idempotency_key r \<and> row_sound env (f r) \<and>
      \<not> delivered_status (dv_status r) \<and> dv_status r \<noteq> DS_PROCESSING \<and> dv_status (f r) \<noteq> DS_PROCESSING"
  shows "table_sound env batch flying sent (update_where c f rows)"
proof -
  have id: "map dv_delivery_id (update_where c f rows) = map dv_delivery_id rows"
    and key: "map dv_idempotency_key (update_where c f rows) = map dv_idempotency_key rows"
    using f by (auto simp: update_where_def)
  have kept: "r \<in> set (update_where c f rows)" if "r \<in> set rows" "delivered_status (dv_status r)" for r
    using that f by (auto simp: set_update_where)
  have proc: "{r \<in> set (update_where c f rows). dv_status r = DS_PROCESSING} =
      {r \<in> set rows. dv_status r = DS_PROCESSING}" using f by (auto simp: set_update_where)
  have "\<forall>r \<in> set (update_where c f rows). row_sound env r"
    using assms(1) f by (auto simp: set_update_where table_sound_def)
  with assms(1) kept show ?thesis
    unfolding table_sound_def unique_rows_def id key proc by blast
qed

lemma sound_insert:
  assumes "table_sound env batch flying sent rows" "row_sound env r" "dv_status r \<noteq> DS_PROCESSING"
    and "dv_delivery_id r \<notin> dv_delivery_id ` set rows" "dv_idempotency_key r \<notin> dv_idempotency_key ` set rows"
  shows "table_sound env batch flying sent (rows @ [r])"
  using assms by (auto simp: table_sound_def unique_rows_def)

lemma sound_cancel:
  "table_sound env batch flying sent rows \<Longrightarrow>
     table_sound env batch flying sent (snd (cancel_lowest_priority below count now rows))"
  unfolding cancel_lowest_priority_def Let_def snd_conv
proof (rule sound_update_where)
  fix r
  assume sound: "table_sound env batch flying sent rows" and r: "r \<in> set rows"
    and "dv_delivery_id r \<in> set (map dv_delivery_id (take count (sort_key (\<lambda>r. - dv_priority r)
      (sort_key dv_created_at (filter (droppable below) rows)))))"
  then obtain v where "v \<in> set rows" "droppable below v" "dv_delivery_id v = dv_delivery_id r"
    by (auto dest!: in_set_takeD)
  moreover from this(1,3) r sound have "v = r"
    by (auto simp: table_sound_def unique_rows_def distinct_map dest: inj_onD)
  ultimately have "claimable_status (dv_status r)" by (simp add: droppable_def)
  moreover from sound r have "row_sound env r" by (simp add: table_sound_def)
  ultimately show "dv_delivery_id (r\<lparr>dv_status := DS_CANCELLED, dv_last_error_class := Some ''queue_overflow'',
        dv_last_error_at := Some now\<rparr>) = dv_delivery_id r \<and>
      dv_idempotency_key (r\<lparr>dv_status := DS_CANCELLED, dv_last_error_class := Some ''queue_overflow'',
        dv_last_error_at := Some now\<rparr>) = dv_idempotency_key r \<and>
      row_sound env (r\<lparr>dv_status := DS_CANCELLED, dv_last_error_class := Some ''queue_overflow'',
        dv_last_error_at := Some now\<rparr>) \<and>
      \<not> delivered_status (dv_status r) \<and> dv_status r \<noteq> DS_PROCESSING \<and>
      dv_status (r\<lparr>dv_status := DS_CANCELLED, dv_last_error_class := Some ''queue_overflow'',
        dv_last_error_at := Some now\<rparr>) \<noteq> DS_PROCESSING"
    by (auto simp: row_sound_def readable_def claimable_status_def delivered_status_def)
qed

lemma sound_queue_step:
  assumes "table_sound env batch flying sent rows" "legal_queue_op op"
  shows "table_sound env batch flying sent (queue_step op rows)"
proof (cases op)
  case (Q_Insert r)
  with assms show ?thesis
    by (auto simp: legal_queue_op_def insert_if_new_def by_key_def get_delivery_def find_None_not Let_def
        row_sound_new image_iff split: option.split intro!: sound_insert)
qed (use assms sound_cancel in simp)

lemma sound_queue_steps:
  "table_sound env batch flying sent rows \<Longrightarrow> list_all legal_queue_op ops \<Longrightarrow>
     table_sound env batch flying sent (fold queue_step ops rows)"
  by (induction ops arbitrary: rows) (simp_all add: sound_queue_step)

section \<open>The steps of the worker\<close>

lemma sound_frame [simp]:
  "queue_sound env batch flying (w\<lparr>dw_step := n\<rparr>) = queue_sound env batch flying w"
  "queue_sound env batch flying (w\<lparr>dw_limiter := l\<rparr>) = queue_sound env batch flying w"
  "queue_sound env batch flying (w\<lparr>dw_auth_failed := b\<rparr>) = queue_sound env batch flying w"
  "queue_sound env batch flying (w\<lparr>dw_last_processed_at := t\<rparr>) = queue_sound env batch flying w"
  "queue_sound env batch flying (w\<lparr>dw_alarms := a\<rparr>) = queue_sound env batch flying w"
  by (simp_all add: queue_sound_def)

lemma ensures_next_step: "(\<And>n w. P w \<Longrightarrow> Q (f n) (w\<lparr>dw_step := Suc n\<rparr>)) \<Longrightarrow> ensures P (next_step f) Q E"
  by (simp add: ensures_def next_step_def)

lemma ensures_limiter:
  "(\<And>t l n w. P w \<Longrightarrow> Q (fst (f t l)) (w\<lparr>dw_step := n, dw_limiter := snd (f t l)\<rparr>)) \<Longrightarrow>
     ensures P (with_limiter f env) Q E"
  by (simp add: ensures_def with_limiter_def split_beta Let_def)

lemma ensures_on_queue:
  assumes "reliable_env env"
    and "\<And>w. queue_sound env batch flying w \<Longrightarrow>
      Q (fst (f (dw_rows w))) (w\<lparr>dw_rows := snd (f (dw_rows w))\<rparr>)"
  shows "ensures (queue_sound env batch flying) (on_queue env f) Q E"
  unfolding ensures_def
proof (intro allI impI)
  fix w assume w: "queue_sound env batch flying w"
  let ?w = "w\<lparr>dw_step := Suc (dw_step w), dw_rows := fold queue_step (ev_others env (dw_step w)) (dw_rows w)\<rparr>"
  have "queue_sound env batch flying ?w"
    using w assms(1) sound_queue_steps by (auto simp: queue_sound_def reliable_env_def)
  from assms(2) [OF this] assms(1)
  show "case on_queue env f w of (Inl e, w') \<Rightarrow> E e w' | (Inr x, w') \<Rightarrow> Q x w'"
    by (simp add: on_queue_def reliable_env_def Let_def)
qed

lemma ensures_write_queue:
  assumes "reliable_env env"
    and "\<And>w. queue_sound env batch flying w \<Longrightarrow> queue_sound env batch' flying' (w\<lparr>dw_rows := f (dw_rows w)\<rparr>)"
  shows "ensures (queue_sound env batch flying) (write_queue env f) (\<lambda>_. queue_sound env batch' flying') E"
  unfolding write_queue_def by (rule ensures_on_queue [OF assms(1)]) (simp add: assms(2))

text \<open>
  Marking the delivery in hand: it leaves \<open>PROCESSING\<close>, and if it is out it must be marked as delivered.
\<close>

lemma sound_mark:
  assumes "table_sound env (row # batch) flying sent rows"
    and f: "dv_delivery_id (f row) = dv_delivery_id row" "dv_idempotency_key (f row) = dv_idempotency_key row"
      "row_sound env (f row)" "dv_status (f row) \<noteq> DS_PROCESSING"
    and out: "flying = {} \<or> flying = {dv_delivery_id row} \<and> delivered_status (dv_status (f row))"
  shows "table_sound env batch {} sent (update_delivery (dv_delivery_id row) f rows)"
proof -
  let ?i = "dv_delivery_id row" and ?rows = "update_delivery (dv_delivery_id row) f rows"
  from assms(1) have row: "row \<in> set rows" "dv_status row = DS_PROCESSING"
    and inj: "inj_on dv_delivery_id (set rows)"
    and batch: "row \<notin> set batch" "distinct (map dv_delivery_id batch)"
    by (auto simp: table_sound_def unique_rows_def distinct_map)
  from row(1) inj have only: "r = row" if "r \<in> set rows" "dv_delivery_id r = ?i" for r
    using that by (auto dest: inj_onD)
  have "?rows = update_where (\<lambda>r. r = row) f rows"
    unfolding update_delivery_def update_where_def using only by (intro map_cong) auto
  then have all: "set ?rows = insert (f row) (set rows - {row})"
    using row(1) by (auto simp: set_update_where)
  have "map dv_delivery_id ?rows = map dv_delivery_id rows" "map dv_idempotency_key ?rows = map dv_idempotency_key rows"
    using only f(1,2) by (auto simp: update_delivery_def update_where_def)
  then have "unique_rows ?rows" using assms(1) by (simp add: table_sound_def unique_rows_def)
  moreover have "\<forall>r \<in> set ?rows. row_sound env r" using assms(1) f(3) by (auto simp: all table_sound_def)
  moreover have "{r \<in> set ?rows. dv_status r = DS_PROCESSING} = {r \<in> set rows. dv_status r = DS_PROCESSING} - {row}"
    using f(4) by (auto simp: all)
  moreover have "\<exists>r \<in> set ?rows. dv_delivery_id r = i \<and> delivered_status (dv_status r)" if "i \<in> set sent" for i
  proof (cases "i \<in> flying")
    case True
    with out f(1) show ?thesis by (auto simp: all)
  next
    case False
    with that assms(1) obtain r where r: "r \<in> set rows" "dv_delivery_id r = i" "delivered_status (dv_status r)"
      by (auto simp: table_sound_def)
    with row(2) have "r \<noteq> row" by (auto simp: delivered_status_def)
    with r show ?thesis by (auto simp: all)
  qed
  ultimately show ?thesis using assms(1) batch by (auto simp: table_sound_def)
qed

lemma ensures_mark:
  assumes "reliable_env env" "g = update_delivery (dv_delivery_id row) f"
    and "dv_delivery_id (f row) = dv_delivery_id row" "dv_idempotency_key (f row) = dv_idempotency_key row"
      "row_sound env row \<Longrightarrow> row_sound env (f row)" "dv_status (f row) \<noteq> DS_PROCESSING"
      "flying = {} \<or> flying = {dv_delivery_id row} \<and> delivered_status (dv_status (f row))"
  shows "ensures (queue_sound env (row # batch) flying) (write_queue env g) (\<lambda>_. queue_sound env batch {}) E"
proof (rule ensures_write_queue [OF assms(1)])
  fix w assume w: "queue_sound env (row # batch) flying w"
  then have "row_sound env row" by (auto simp: queue_sound_def table_sound_def)
  with w assms(2-) show "queue_sound env batch {} (w\<lparr>dw_rows := g (dw_rows w)\<rparr>)"
    by (auto simp: queue_sound_def intro!: sound_mark [where flying = flying and row = row])
qed

lemma row_sound_marked:
  "row_sound env row \<Longrightarrow> readable r = readable row \<Longrightarrow> dv_attempt_count r = dv_attempt_count row \<Longrightarrow>
     \<not> claimable_status (dv_status r) \<or> dv_attempt_count row < attempt_limit env \<Longrightarrow> row_sound env r"
  by (auto simp: row_sound_def)

lemmas mark_simps = readable_def claimable_status_def delivered_status_def

lemma ensures_handle_failure:
  assumes "reliable_env env"
  shows "ensures (queue_sound env (row # batch) {}) (handle_failure env row e) (\<lambda>_. queue_sound env batch {}) E"
proof -
  have below: "dv_attempt_count row < tg_max_retry_attempts (ev_settings env) \<Longrightarrow>
      dv_attempt_count row < attempt_limit env" by (simp add: attempt_limit_def)
  have retry: "dv_attempt_count row < tg_max_retry_attempts (ev_settings env) \<Longrightarrow>
      ensures (queue_sound env (row # batch) {}) (write_queue env (mark_retrying (dv_delivery_id row) t err now))
        (\<lambda>_. queue_sound env batch {}) E" for t err now
    by (rule ensures_mark [OF assms mark_retrying_def])
      (auto simp: mark_simps dest!: below elim!: row_sound_marked)
  have dead: "ensures (queue_sound env (row # batch) {}) (write_queue env (mark_dead_letter (dv_delivery_id row) err now))
      (\<lambda>_. queue_sound env batch {}) E" for err now
    by (rule ensures_mark [OF assms mark_dead_letter_def]) (auto simp: mark_simps elim!: row_sound_marked)
  have failed: "ensures (queue_sound env (row # batch) {}) (write_queue env (mark_failed (dv_delivery_id row) err now))
      (\<lambda>_. queue_sound env batch {}) E" for err now
    by (rule ensures_mark [OF assms mark_failed_def]) (auto simp: mark_simps elim!: row_sound_marked)
  have report: "ensures (queue_sound env batch {}) (report_dead_letter env row) (\<lambda>_. queue_sound env batch {}) E"
    unfolding report_dead_letter_def suppressed_def
    by (rule ensures_on_error [where R = "\<lambda>_ _. False"], rule ensures_and_then, rule ensures_write_queue [OF assms])
      (auto intro: ensures_modify ensures_pure)
  show ?thesis
    unfolding handle_failure_def Let_def
    by (rule ensures_and_then [OF ensures_modify [where Q = "\<lambda>_. queue_sound env (row # batch) {}"]], simp,
        rule ensures_and_then [OF ensures_next_step [where Q = "\<lambda>_. queue_sound env (row # batch) {}"]], simp)
      (auto intro!: ensures_and_then [OF dead] retry failed report split: prod.split)
qed

lemma ensures_give_up:
  assumes "reliable_env env"
  shows "ensures (queue_sound env (row # batch) {}) (give_up env row note) (\<lambda>_. queue_sound env batch {}) E"
  unfolding give_up_def
  by (rule ensures_and_then [OF ensures_next_step [where Q = "\<lambda>_. queue_sound env (row # batch) {}"]], simp,
      rule ensures_mark [OF assms mark_failed_def]) (auto simp: mark_simps elim!: row_sound_marked)

lemma sound_flying: "table_sound env batch {} sent rows \<Longrightarrow> table_sound env batch {i} (sent @ [i]) rows"
  unfolding table_sound_def by simp

lemma sound_delivered:
  "table_sound env batch {} sent rows \<Longrightarrow> i \<in> set sent \<Longrightarrow>
     \<exists>r \<in> set rows. dv_delivery_id r = i \<and> delivered_status (dv_status r)"
  unfolding table_sound_def by blast

lemma ensures_call_client:
  assumes "reliable_env env"
  shows "ensures (queue_sound env (row # batch) {}) (call_client env (dv_delivery_id row) t)
    (\<lambda>_. queue_sound env (row # batch) {dv_delivery_id row}) (\<lambda>_. queue_sound env (row # batch) {})"
  unfolding ensures_def
proof (intro allI impI)
  fix w assume w: "queue_sound env (row # batch) {} w"
  then have row: "row \<in> set (dw_rows w)" "dv_status row = DS_PROCESSING"
    and inj: "inj_on dv_delivery_id (set (dw_rows w))"
    by (auto simp: queue_sound_def table_sound_def unique_rows_def distinct_map)
  have "dv_delivery_id row \<notin> fst ` set (dw_delivered w)"
  proof
    assume "dv_delivery_id row \<in> fst ` set (dw_delivered w)"
    with w sound_delivered [of env "row # batch" "map fst (dw_delivered w)" "dw_rows w" "dv_delivery_id row"]
    obtain r where "r \<in> set (dw_rows w)" "dv_delivery_id r = dv_delivery_id row"
      "delivered_status (dv_status r)" unfolding queue_sound_def set_map by blast
    moreover from this(1,2) have "r = row" by (intro inj_onD [OF inj]) (simp_all add: row(1))
    ultimately show False using row(2) by (simp add: delivered_status_def)
  qed
  with w have "queue_sound env (row # batch) {dv_delivery_id row}
      (w\<lparr>dw_step := n, dw_delivered := dw_delivered w @ [(dv_delivery_id row, t)]\<rparr>)" for n
    using sound_flying by (simp add: queue_sound_def)
  with w assms show "case call_client env (dv_delivery_id row) t w of
      (Inl e, w') \<Rightarrow> queue_sound env (row # batch) {} w'
    | (Inr x, w') \<Rightarrow> queue_sound env (row # batch) {dv_delivery_id row} w'"
    by (simp add: call_client_def Let_def reliable_env_def split: client_answer.split)
qed

lemma ensures_attempt:
  assumes "reliable_env env"
  shows "ensures (queue_sound env (row # batch) {}) (attempt_delivery env row t)
    (\<lambda>_. queue_sound env batch {}) (\<lambda>_. queue_sound env (row # batch) {})"
proof -
  let ?out = "queue_sound env (row # batch) {dv_delivery_id row}"
  have sent: "ensures ?out (write_queue env (mark_sent (dv_delivery_id row) m now)) (\<lambda>_. queue_sound env batch {}) E"
    for m now E by (rule ensures_mark [OF assms mark_sent_def]) (auto simp: mark_simps elim!: row_sound_marked)
  have edited: "ensures ?out (write_queue env (mark_edited (dv_delivery_id row) now)) (\<lambda>_. queue_sound env batch {}) E"
    for now E by (rule ensures_mark [OF assms mark_edited_def]) (auto simp: mark_simps elim!: row_sound_marked)
  show ?thesis
    unfolding attempt_delivery_def
    by (auto intro!: ensures_if ensures_raise ensures_and_then [OF ensures_call_client [OF assms]]
        ensures_and_then [OF ensures_limiter [where Q = "\<lambda>_. ?out"]]
        ensures_and_then [OF ensures_next_step [where Q = "\<lambda>_. ?out"]] sent edited)
qed

lemma ensures_wait:
  assumes "reliable_env env"
  shows "ensures (queue_sound env batch flying) (wait_for_chat env row)
    (\<lambda>_. queue_sound env batch flying) (\<lambda>_ _. False)"
proof -
  have "send_wait_seconds (ev_settings env) now chat l \<noteq> None" for now chat l
    using assms by (auto simp: send_wait_seconds_def Let_def reliable_env_def split: list.split)
  then show ?thesis
    unfolding wait_for_chat_def
    by (intro ensures_and_then [where R = "\<lambda>x w. x \<noteq> None \<and> queue_sound env batch flying w"] ensures_if ensures_limiter)
      (auto intro!: ensures_modify ensures_raise split: option.splits)
qed

lemma delivery_type_of_value: "delivery_type_of (delivery_type_value ty) \<noteq> None"
  by (cases ty) (simp_all add: delivery_type_of_def delivery_types_def)

lemma ensures_process:
  assumes "reliable_env env" "readable row"
  shows "ensures (queue_sound env (row # batch) {}) (process_delivery env row) (\<lambda>_. queue_sound env batch {}) (\<lambda>_ _. False)"
proof -
  from assms(2) obtain p ty where p: "dv_payload row = Stored p" "dv_message_type row = delivery_type_value ty"
    by (auto simp: readable_def)
  obtain ty' where "delivery_type_of (dv_message_type row) = Some ty'"
    using delivery_type_of_value [of ty] p(2) by auto
  with p(1) show ?thesis
    unfolding process_delivery_def
    by (auto simp: payload_from_json_def intro!: ensures_and_then [OF ensures_wait [OF assms(1)]]
        ensures_on_error [OF ensures_attempt [OF assms(1)]] ensures_handle_failure [OF assms(1)])
qed

lemma ensures_process_all:
  assumes "reliable_env env" "list_all readable batch"
  shows "ensures (queue_sound env batch {}) (process_all env batch) (\<lambda>_. queue_sound env [] {}) (\<lambda>_ _. False)"
  using assms(2)
proof (induction batch)
  case (Cons row batch)
  then show ?case
    by (auto intro!: ensures_and_then [OF ensures_process [OF assms(1)]])
qed (simp add: ensures_pure)

section \<open>Claiming\<close>

definition claim_batch :: "nat \<Rightarrow> datetime \<Rightarrow> delivery_table \<Rightarrow> delivery_table" where
  "claim_batch limit now rows =
     take limit (sort_key dv_priority (sort_key dv_created_at (filter (due now) (recover_leases now rows))))"

lemma claim_due_batch: "fst (claim_due limit lease now rows) = map (claimed_row lease now) (claim_batch limit now rows)"
  by (simp add: claim_due_def claim_batch_def Let_def)

lemma claim_batch_due: "r \<in> set (claim_batch limit now rows) \<Longrightarrow> r \<in> set (recover_leases now rows) \<and> due now r"
  by (auto simp: claim_batch_def dest!: in_set_takeD)

lemma claim_batch_distinct:
  "unique_rows rows \<Longrightarrow> distinct (map dv_delivery_id (claim_batch limit now rows))"
proof -
  assume "unique_rows rows"
  then have "distinct (map dv_delivery_id (recover_leases now rows))"
    using unique_recover [of now rows] unfolding unique_rows_def by blast
  then have "distinct (map dv_delivery_id (filter (due now) (recover_leases now rows)))" by (rule distinct_map_filter)
  then have "distinct (map dv_delivery_id (sort_key dv_priority (sort_key dv_created_at
      (filter (due now) (recover_leases now rows)))))"
    by (simp add: distinct_map)
  then show ?thesis unfolding claim_batch_def take_map [symmetric] by (rule distinct_take)
qed

lemma recover_nothing: "\<forall>r \<in> set rows. dv_status r \<noteq> DS_PROCESSING \<Longrightarrow> recover_leases now rows = rows"
  by (auto simp: recover_leases_def update_where_def lease_expired_def intro!: map_idI)

lemma sound_claim:
  assumes "table_sound env [] {} sent rows"
  shows "table_sound env (fst (claim_due limit lease now rows)) {} sent (snd (claim_due limit lease now rows))"
proof -
  let ?b = "claim_batch limit now rows" and ?f = "claimed_row lease now"
  have idle: "\<forall>r \<in> set rows. dv_status r \<noteq> DS_PROCESSING" and uniq: "unique_rows rows"
    and inj: "inj_on dv_delivery_id (set rows)"
    using assms by (auto simp: table_sound_def unique_rows_def distinct_map)
  note same = recover_nothing [OF idle]
  have sub: "r \<in> set rows \<and> claimable_status (dv_status r)" if "r \<in> set ?b" for r
    using claim_batch_due [OF that] by (auto simp: same due_def)
  have "snd (claim_due limit lease now rows) = update_where (\<lambda>r. dv_delivery_id r \<in> dv_delivery_id ` set ?b) ?f rows"
    by (simp add: claim_due_def Let_def same claim_batch_def)
  also have "\<dots> = update_where (\<lambda>r. r \<in> set ?b) ?f rows"
    unfolding update_where_def using sub inj by (intro map_cong) (auto dest: inj_onD)
  finally have rows': "snd (claim_due limit lease now rows) = update_where (\<lambda>r. r \<in> set ?b) ?f rows" .
  have all: "set (update_where (\<lambda>r. r \<in> set ?b) ?f rows) = (set rows - set ?b) \<union> ?f ` set ?b"
    using sub by (intro set_update_where_mem) blast
  have sound: "row_sound env (?f r)" if "r \<in> set ?b" for r
  proof -
    have "row_sound env r" using sub [OF that] assms by (simp add: table_sound_def)
    with sub [OF that] show ?thesis
      by (auto simp: row_sound_def readable_def claimed_row_def claimable_status_def)
  qed
  have "{r \<in> set (update_where (\<lambda>r. r \<in> set ?b) ?f rows). dv_status r = DS_PROCESSING} = ?f ` set ?b"
    unfolding all using idle by auto
  moreover have "\<forall>r \<in> set (update_where (\<lambda>r. r \<in> set ?b) ?f rows). row_sound env r"
    unfolding all using sound assms by (auto simp: table_sound_def)
  moreover have "\<exists>r \<in> set (update_where (\<lambda>r. r \<in> set ?b) ?f rows). dv_delivery_id r = i \<and> delivered_status (dv_status r)"
    if i: "i \<in> set sent" for i
  proof -
    from sound_delivered [OF assms i] obtain r where r: "r \<in> set rows" "dv_delivery_id r = i" "delivered_status (dv_status r)"
      by blast
    moreover from this(3) have "r \<notin> set ?b" using sub [of r] by (auto simp: delivered_status_def claimable_status_def)
    ultimately show ?thesis unfolding all by blast
  qed
  moreover have "unique_rows (update_where (\<lambda>r. r \<in> set ?b) ?f rows)" using uniq by (subst unique_update_where) simp_all
  moreover have "distinct (map dv_delivery_id (map ?f ?b))"
    using claim_batch_distinct [OF uniq] by (simp add: comp_def)
  ultimately show ?thesis unfolding table_sound_def rows' claim_due_batch by simp
qed

lemma claim_readable:
  "table_sound env [] {} sent rows \<Longrightarrow> list_all readable (fst (claim_due limit lease now rows))"
  using sound_claim [of env sent rows limit lease now] by (auto simp: table_sound_def row_sound_def list_all_iff)

lemma ensures_process_once:
  assumes "reliable_env env"
  shows "ensures (queue_sound env [] {}) (process_once env) (\<lambda>_. queue_sound env [] {}) (\<lambda>_ _. False)"
proof -
  let ?claim = "\<lambda>now. on_queue env (claim_due (tg_delivery_batch_size (ev_settings env))
    (tg_delivery_lease_seconds (ev_settings env)) now)"
  have claim: "ensures (queue_sound env [] {}) (?claim now)
      (\<lambda>batch w. list_all readable batch \<and> queue_sound env batch {} w) (\<lambda>_ _. False)" for now
    by (rule ensures_on_queue [OF assms]) (auto simp: queue_sound_def sound_claim claim_readable)
  have rest: "ensures (\<lambda>w. list_all readable batch \<and> queue_sound env batch {} w) (process_all env batch)
      (\<lambda>_. queue_sound env [] {}) (\<lambda>_ _. False)" for batch
    using ensures_process_all [OF assms, of batch] by (cases "list_all readable batch") (auto simp: ensures_def)
  show ?thesis
    unfolding process_once_def
    by (rule ensures_and_then [OF ensures_next_step [where Q = "\<lambda>_. queue_sound env [] {}"]], simp,
        rule ensures_and_then [OF claim], rule ensures_and_then [OF rest],
        rule ensures_and_then [where R = "\<lambda>_. queue_sound env [] {}"])
      (auto intro!: ensures_pure ensures_modify ensures_and_then [OF ensures_next_step [where Q = "\<lambda>_. queue_sound env [] {}"]])
qed

lemma ensures_work:
  assumes "reliable_env env"
  shows "ensures (queue_sound env [] {}) (work env n) (\<lambda>_. queue_sound env [] {}) (\<lambda>_ _. False)"
proof (induction n)
  case (Suc n)
  have "ensures (queue_sound env [] {}) (work_round env) (\<lambda>_. queue_sound env [] {}) (\<lambda>_ _. False)"
    unfolding work_round_def
    by (rule ensures_on_error [OF ensures_process_once [OF assms]]) (simp add: ensures_def)
  with Suc show ?case by (auto intro: ensures_and_then)
qed (simp add: ensures_pure)

lemma work_sound:
  assumes "reliable_env env" "queue_sound env [] {} w"
  shows "fst (work env n w) = Inr ()" "queue_sound env [] {} (snd (work env n w))"
  using ensures_returns [OF ensures_work [OF assms(1)] assms(2), of n] by auto

section \<open>The overflow policy\<close>

text \<open>Rows by their key: a table of important rows stays part of the queue whatever enqueues and cancels.\<close>

definition holds_important :: "delivery_table \<Rightarrow> delivery_table \<Rightarrow> bool" where
  "holds_important important rows \<longleftrightarrow> distinct (map dv_delivery_id rows) \<and> set important \<subseteq> set rows \<and>
     list_all (\<lambda>r. dv_priority r \<le> 2) important"

lemma important_cancel:
  assumes "holds_important important rows"
  shows "holds_important important (snd (cancel_lowest_priority below count now rows))"
proof -
  let ?victims = "take count (sort_key (\<lambda>r. - dv_priority r) (sort_key dv_created_at (filter (droppable below) rows)))"
  have "r \<in> set (snd (cancel_lowest_priority below count now rows))" if "r \<in> set important" for r
  proof -
    from that assms have r: "r \<in> set rows" "dv_priority r \<le> 2" by (auto simp: holds_important_def list_all_iff)
    have "dv_delivery_id r \<notin> dv_delivery_id ` set ?victims"
    proof
      assume "dv_delivery_id r \<in> dv_delivery_id ` set ?victims"
      then obtain v where "v \<in> set rows" "droppable below v" "dv_delivery_id v = dv_delivery_id r"
        by (auto dest!: in_set_takeD)
      moreover from this(1,3) r(1) assms have "v = r"
        by (auto simp: holds_important_def distinct_map dest: inj_onD)
      ultimately show False using r(2) by (simp add: droppable_def)
    qed
    with r(1) show ?thesis by (auto simp: cancel_lowest_priority_def Let_def set_update_where)
  qed
  with assms show ?thesis
    by (auto simp: holds_important_def cancel_lowest_priority_def Let_def map_update_where)
qed

lemma important_step: "holds_important important rows \<Longrightarrow> holds_important important (queue_step op rows)"
proof (cases op)
  case (Q_Insert r)
  assume "holds_important important rows"
  with Q_Insert show ?thesis
    by (auto simp: holds_important_def insert_if_new_def get_delivery_def find_None_not Let_def split: option.split)
qed (use important_cancel in simp)

lemma important_steps:
  "holds_important important rows \<Longrightarrow> holds_important important (fold queue_step ops rows)"
  by (induction ops arbitrary: rows) (simp_all add: important_step)

lemma ensures_important:
  assumes "\<And>rows. holds_important important rows \<Longrightarrow> R (snd (f rows))"
    and "\<And>rows. holds_important important rows \<Longrightarrow> R rows"
  shows "ensures (\<lambda>w. holds_important important (dw_rows w)) (on_queue env f) (\<lambda>_ w. R (dw_rows w)) (\<lambda>_ w. R (dw_rows w))"
  using assms important_steps
  by (auto simp: ensures_def on_queue_def Let_def split: call_fault.split)

lemma ensures_step_important:
  "(\<And>rows. P rows \<Longrightarrow> Q rows) \<Longrightarrow> ensures (\<lambda>w. P (dw_rows w)) (next_step f) (\<lambda>_ w. Q (dw_rows w)) E"
  by (simp add: ensures_def next_step_def)

lemmas enqueue_defs = pause_gates_def find_duplicate_def insert_with_overflow_def insert_delivery_def read_queue_def

lemma enqueue_holds:
  "ensures (\<lambda>w. holds_important important (dw_rows w)) (enqueue env q)
     (\<lambda>_ w. set important \<subseteq> set (dw_rows w)) (\<lambda>_ w. set important \<subseteq> set (dw_rows w))"
proof -
  let ?I = "\<lambda>w. holds_important important (dw_rows w)" and ?E = "\<lambda>_ w. set important \<subseteq> set (dw_rows w)"
  have part: "set important \<subseteq> set rows" if "holds_important important rows" for rows
    using that by (simp add: holds_important_def)
  have steps: "r \<in> set (fold queue_step ops rows)" if "holds_important important rows" "r \<in> set important" for r ops rows
    using part [OF important_steps [OF that(1)]] that(2) by blast
  have insert: "ensures ?I (insert_delivery env q chat s) ?E ?E" for chat s
    unfolding insert_delivery_def
    by (intro ensures_and_then [where R = "\<lambda>_. ?I"] ensures_step_important ensures_important)
      (auto simp: insert_if_new_def Let_def steps split: option.split dest: subsetD [OF part])
  have stay: "ensures ?I (on_queue env f) (\<lambda>_. ?I) ?E"
    if "\<And>rows. holds_important important rows \<Longrightarrow> holds_important important (snd (f rows))" for f
    using ensures_important [where R = "holds_important important", OF that]
    by (rule ensures_weaken) (auto simp: part)
  have overflow: "ensures ?I (insert_with_overflow env q chat) ?E ?E" for chat
    unfolding insert_with_overflow_def read_queue_def
    by (intro ensures_and_then [where R = "\<lambda>_. ?I"] ensures_and_then [where R = ?E] stay ensures_if
        ensures_step_important ensures_pure insert)
      (auto simp: important_cancel split: prod.split intro: ensures_pure)
  have gates: "ensures ?I (pause_gates env q) (\<lambda>_. ?I) ?E"
    by (auto simp: pause_gates_def split: option.split intro!: ensures_if ensures_pure ensures_step_important)
  have duplicate: "ensures ?I (find_duplicate env q) (\<lambda>_. ?I) ?E"
    unfolding find_duplicate_def read_queue_def Let_def
    by (intro ensures_if ensures_pure ensures_and_then [where R = "\<lambda>_. ?I"] stay ensures_step_important) auto
  have ends: "ensures ?I (and_then (insert_delivery env q chat s) (\<lambda>(row, _). pure_action (Enqueued row))) ?E ?E"
    "ensures ?I (and_then (insert_with_overflow env q chat) (\<lambda>row. pure_action (Enqueued row))) ?E ?E" for chat s
    by (auto intro!: ensures_and_then [OF insert] ensures_and_then [OF overflow] ensures_pure split: prod.split)
  show ?thesis
    by (auto simp: enqueue_def split: option.split intro!: ensures_if ensures_pure ends
        ensures_and_then [OF gates] ensures_and_then [OF duplicate] dest: subsetD [OF part])
qed

section \<open>Examples\<close>

definition example_request :: "delivery_type \<Rightarrow> string \<Rightarrow> delivery_request" where
  "example_request ty key = \<lparr>rq_delivery_type = ty,
     rq_payload = Watchlist \<lparr>wp_symbol = uni ''BTC'', wp_note = []\<rparr>, rq_idempotency_key = key,
     rq_operation = OP_SEND, rq_chat_id = Some 7, rq_message_id = None, rq_correlation_id = None,
     rq_signal_id = None, rq_system_event_id = None, rq_scheduled_at = None, rq_dedup = False\<rparr>"

text \<open>Calls by number: a step takes a hundred seconds; the client numbers the messages; retries come at once.\<close>

definition example_queue_env :: "(nat \<Rightarrow> call_fault) \<Rightarrow> delivery_env" where
  "example_queue_env fault = \<lparr>ev_settings = default_telegram_settings\<lparr>tg_delivery_queue_size := 1,
       tg_retry_min_seconds := 0, tg_retry_max_seconds := 0, tg_retry_jitter_seconds := 0\<rparr>,
     ev_digest = (\<lambda>ty p. delivery_type_value ty), ev_others = (\<lambda>_. []), ev_fault = fault,
     ev_client = (\<lambda>n. Accepted (int n)), ev_now = (\<lambda>n. 100000000 * int n), ev_clock = (\<lambda>n. 100 * of_nat n),
     ev_rng = (\<lambda>_. 1 / 2), ev_new_id = (\<lambda>n. 100 + n), ev_paused = None\<rparr>"

definition example_delivery :: "delivery_type \<Rightarrow> string \<Rightarrow> delivery_status \<Rightarrow> uuid \<Rightarrow> delivery_row" where
  "example_delivery ty key status i =
     delivery_row_of (example_queue_env (\<lambda>_. Call_Succeeds)) (example_request ty key) 7 status i 0"

definition example_queue :: "delivery_row list \<Rightarrow> delivery_world" where
  "example_queue rows = \<lparr>dw_step = 0, dw_rows = rows, dw_limiter = new_limiter, dw_auth_failed = False,
     dw_last_processed_at = None, dw_delivered = [], dw_alarms = []\<rparr>"

lemma example_readable: "readable (example_delivery ty key status i)"
  by (auto simp: readable_def example_delivery_def delivery_row_of_def example_request_def)

lemma example_reliable: "reliable_env (example_queue_env (\<lambda>_. Call_Succeeds))"
  by (simp add: reliable_env_def example_queue_env_def default_telegram_settings_def)

lemma example_queue_sound:
  "queue_sound env [] {} (example_queue [example_delivery TD_WATCHLIST ''w'' DS_PENDING 1,
     example_delivery TD_SYSTEM_ERROR ''e'' DS_PENDING 2])"
  by (auto simp: queue_sound_def table_sound_def example_queue_def unique_rows_def row_sound_new
      example_readable intro!: row_sound_new)
    (simp_all add: example_delivery_def delivery_row_of_def example_request_def)

text \<open>The steps of the examples: their environment is unfolded, the rendering stays closed.\<close>

lemmas worker_defs = action_defs next_step_def on_queue_def read_queue_def write_queue_def with_limiter_def
  process_once_def work_round_def process_delivery_def wait_for_chat_def attempt_delivery_def call_client_def
  handle_failure_def payload_from_json_def queue_defs claim_due_def recover_leases_def due_def lease_expired_def
  claimed_row_def claimable_status_def

lemmas example_defs = example_queue_env_def example_delivery_def example_request_def example_queue_def
  delivery_row_of_def rq_priority_def

lemma example_settings [simp]:
  "tg_max_retry_attempts default_telegram_settings = 5"
  "tg_delivery_batch_size default_telegram_settings = 10"
  by (simp_all add: default_telegram_settings_def)

lemma example_no_delay [simp]: "timedelta_seconds 0 = 0"
  using timedelta_seconds_of_int [of 0] by simp

lemma example_type [simp]: "delivery_type_of ''WATCHLIST'' = Some TD_WATCHLIST"
proof -
  have "delivery_type_of (delivery_type_value TD_WATCHLIST) = Some TD_WATCHLIST"
    by (simp add: delivery_type_of_def delivery_types_def)
  then show ?thesis by simp
qed

lemma example_retry:
  "decide_retry Other_Error k (default_telegram_settings\<lparr>tg_delivery_queue_size := 1,
     tg_retry_min_seconds := 0, tg_retry_max_seconds := 0, tg_retry_jitter_seconds := 0\<rparr>) r =
   \<lparr>rd_retryable = True, rd_delay_seconds = 0, rd_error_class = ''transport''\<rparr>"
  by (simp add: decide_retry_def backoff_base_def fmul_def fadd_def)

lemma example_limiter:
  "send_wait_seconds (default_telegram_settings\<lparr>tg_delivery_queue_size := 1,
     tg_retry_min_seconds := 0, tg_retry_max_seconds := 0, tg_retry_jitter_seconds := 0\<rparr>) t c l \<noteq> None"
  by (auto simp: send_wait_seconds_def Let_def default_telegram_settings_def split: list.split)

section \<open>Properties\<close>

text \<open>
  C19.  Every message goes out at most once: as long as the database answers and the client never loses the
  answer to a message that went out, after any number of rounds of the worker and whatever other tasks
  enqueue and cancel meanwhile, no delivery reached the chat twice, every delivery that did is marked as
  sent or edited, and the worker has not stopped.
\<close>

theorem delivered_at_most_once:
  assumes "reliable_env env" "queue_sound env [] {} w"
  shows "fst (work env n w) = Inr () \<and> distinct (map fst (dw_delivered (snd (work env n w)))) \<and>
    fst ` set (dw_delivered (snd (work env n w))) \<subseteq>
      dv_delivery_id ` {r \<in> set (dw_rows (snd (work env n w))). dv_status r \<in> {DS_SENT, DS_EDITED}}"
proof -
  note after = work_sound [OF assms, of n]
  moreover from after(2) sound_delivered have
    "\<forall>i \<in> set (map fst (dw_delivered (snd (work env n w)))). \<exists>r \<in> set (dw_rows (snd (work env n w))).
      dv_delivery_id r = i \<and> delivered_status (dv_status r)"
    unfolding queue_sound_def by blast
  ultimately show ?thesis by (force simp: queue_sound_def delivered_status_def image_iff)
qed

theorem delivered_at_most_once_witness:
  "distinct (map fst (dw_delivered (snd (work (example_queue_env (\<lambda>_. Call_Succeeds)) 5
     (example_queue [example_delivery TD_WATCHLIST ''w'' DS_PENDING 1,
        example_delivery TD_SYSTEM_ERROR ''e'' DS_PENDING 2])))))"
  using delivered_at_most_once [OF example_reliable example_queue_sound, of 5] by blast

text \<open>
  C20.  Retries are bounded and nothing stays behind while the database and the client answer: without a fault
  of the database and without a message that is delivered although its call failed, with legal operations of other tasks
  between the calls, a positive rate limit and a sound table to start from, no round leaves a delivery in
  \<open>PROCESSING\<close>, no delivery is attempted more often than configured, and one that can still be claimed has an
  attempt left.
\<close>

theorem attempts_bounded:
  assumes "reliable_env env" "queue_sound env [] {} w"
  shows "list_all (\<lambda>r. dv_status r \<noteq> DS_PROCESSING \<and>
      dv_attempt_count r \<le> max 1 (tg_max_retry_attempts (ev_settings env)) \<and>
      (dv_status r \<in> {DS_PENDING, DS_RETRYING} \<longrightarrow>
        dv_attempt_count r < max 1 (tg_max_retry_attempts (ev_settings env))))
    (dw_rows (snd (work env n w)))"
proof -
  have "table_sound env [] {} (map fst (dw_delivered (snd (work env n w)))) (dw_rows (snd (work env n w)))"
    using work_sound [OF assms, of n] by (simp add: queue_sound_def)
  then have "row_sound env r" "dv_status r \<noteq> DS_PROCESSING" if "r \<in> set (dw_rows (snd (work env n w)))" for r
    using that by (auto simp: table_sound_def)
  then show ?thesis by (auto simp: list_all_iff row_sound_def attempt_limit_def claimable_status_def)
qed

theorem attempts_bounded_witness:
  "list_all (\<lambda>r. dv_attempt_count r \<le> 5) (dw_rows (snd (work (example_queue_env (\<lambda>_. Call_Succeeds)) 7
     (example_queue [example_delivery TD_WATCHLIST ''w'' DS_PENDING 1,
        example_delivery TD_SYSTEM_ERROR ''e'' DS_PENDING 2]))))"
  using attempts_bounded [OF example_reliable example_queue_sound, of 7]
  by (simp add: list_all_iff example_queue_env_def default_telegram_settings_def)

text \<open>
  A lost answer sends twice: when the database call that marks a sent delivery fails, before or after it
  took effect, the worker takes the failure for one of the delivery and sends the message again.
\<close>

theorem lost_mark_sends_twice:
  "map fst (dw_delivered (snd (work (example_queue_env (\<lambda>n. if n = 6 then Lost_Before else Call_Succeeds)) 2
     (example_queue [example_delivery TD_WATCHLIST ''w'' DS_PENDING 1])))) = [1, 1] \<and>
   map fst (dw_delivered (snd (work (example_queue_env (\<lambda>n. if n = 6 then Lost_After else Call_Succeeds)) 2
     (example_queue [example_delivery TD_WATCHLIST ''w'' DS_PENDING 1])))) = [1, 1]"
  by (simp add: numeral_2_eq_2 worker_defs example_defs example_limiter example_retry Let_def split: option.split)

text \<open>
  C21.  Nothing important is dropped: whatever is enqueued, at a full queue or not, whatever calls of the
  database fail and whatever other tasks do in between, every delivery of priority one or two is still in the
  queue afterwards, unchanged.
\<close>

theorem important_never_dropped:
  assumes "distinct (map dv_delivery_id (dw_rows w))"
  shows "set (filter (\<lambda>r. dv_priority r \<le> 2) (dw_rows w)) \<subseteq> set (dw_rows (snd (enqueue env q w)))"
proof -
  have "holds_important (filter (\<lambda>r. dv_priority r \<le> 2) (dw_rows w)) (dw_rows w)"
    using assms by (auto simp: holds_important_def list_all_iff)
  with enqueue_holds show ?thesis by (rule ensures_state)
qed

theorem important_never_dropped_witness:
  "example_delivery TD_SYSTEM_ERROR ''e'' DS_PENDING 2 \<in>
     set (dw_rows (snd (enqueue (example_queue_env (\<lambda>_. Lost_After)) (example_request TD_SIGNAL_STOP ''s'')
       (example_queue [example_delivery TD_WATCHLIST ''w'' DS_PENDING 1,
          example_delivery TD_SYSTEM_ERROR ''e'' DS_PENDING 2]))))"
  by (rule subsetD [OF important_never_dropped])
    (simp_all add: example_queue_def example_delivery_def delivery_row_of_def example_request_def rq_priority_def)

text \<open>
  A repeated request can cost another delivery: at a full queue, a request whose key is already stored
  is answered with the stored row and inserts nothing, but it first cancels a less important delivery.
\<close>

theorem repeated_request_cancels_another:
  "let stored = [example_delivery TD_SYSTEM_ERROR ''e'' DS_SENT 2, example_delivery TD_WATCHLIST ''w'' DS_PENDING 1];
       (answer, w) = enqueue (example_queue_env (\<lambda>_. Call_Succeeds)) (example_request TD_SYSTEM_ERROR ''e'')
         (example_queue stored)
   in answer = Inr (Enqueued (hd stored)) \<and> map dv_status (dw_rows w) = [DS_SENT, DS_CANCELLED]"
  by code_simp

end
