(* ===== verification/Cost_Model.thy ===== *)
theory Cost_Model
  imports Float64
begin

text \<open>
  The cost engine (\<open>app/costs/\<close>): fee schedules, the walk over an order book, the estimate of one leg, the
  funding projection and the gross and net figures of a hypothetical plan.  All arithmetic is binary64, in
  the order of the code.  A \<open>CostModelError\<close> is its code; its text, the hash of the configuration and the
  wording of details are left out.
\<close>

section \<open>Settings and value objects\<close>

datatype execution_mode = ENTRY_TAKER | ENTRY_MAKER | TARGET_TAKER | TARGET_MAKER | STOP_TAKER | STOP_STRESS_TAKER

datatype fee_kind = FEE_MAKER | FEE_TAKER

datatype funding_model_state = FM_MODELED | FM_BUFFERED_ONLY | FM_UNAVAILABLE

record cost_settings =
  cs_engine_enabled :: bool
  cs_model_name :: string
  cs_model_version :: string
  cs_fee_schedule_source :: string
  cs_fee_schedule_version :: string
  cs_assumed_fee_tier :: string
  cs_default_maker_fee_rate :: float64
  cs_default_taker_fee_rate :: float64
  cs_require_active_fee_schedule :: bool
  cs_execution_assumption_version :: string
  cs_entry_execution_mode :: execution_mode
  cs_target_execution_mode :: execution_mode
  cs_invalidation_execution_mode :: execution_mode
  cs_slippage_enabled :: bool
  cs_require_fresh_orderbook :: bool
  cs_orderbook_max_levels :: int
  cs_orderbook_max_distance_bps :: float64
  cs_entry_slippage_stress_bps :: float64
  cs_target_slippage_stress_bps :: float64
  cs_invalidation_slippage_stress_bps :: float64
  cs_max_slippage_to_risk_pct :: float64
  cs_funding_enabled :: bool
  cs_require_funding_data :: bool
  cs_funding_lookback_hours :: int
  cs_funding_conservative_percentile :: float64
  cs_reference_hold_minutes :: int
  cs_equity_overnight_blocked :: bool
  cs_funding_buffer_bps :: float64
  cs_default_funding_interval_hours :: float64
  cs_conservative_cost_buffer_bps :: float64

text \<open>What the validators of the settings let through.\<close>

definition valid_cost_settings :: "cost_settings \<Rightarrow> bool" where
  "valid_cost_settings s \<longleftrightarrow>
     cs_entry_execution_mode s \<in> {ENTRY_TAKER, ENTRY_MAKER} \<and>
     cs_target_execution_mode s \<in> {TARGET_TAKER, TARGET_MAKER} \<and>
     cs_invalidation_execution_mode s \<in> {STOP_TAKER, STOP_STRESS_TAKER} \<and>
     0 \<le> cs_default_maker_fee_rate s \<and> cs_default_maker_fee_rate s \<le> fl (5 / 100) \<and>
     0 \<le> cs_default_taker_fee_rate s \<and> cs_default_taker_fee_rate s \<le> fl (5 / 100) \<and>
     50 \<le> cs_funding_conservative_percentile s \<and> cs_funding_conservative_percentile s \<le> 100 \<and>
     0 < cs_orderbook_max_levels s \<and> 0 < cs_reference_hold_minutes s \<and> 0 < cs_funding_lookback_hours s \<and>
     0 \<le> cs_orderbook_max_distance_bps s \<and> 0 \<le> cs_entry_slippage_stress_bps s \<and>
     0 \<le> cs_target_slippage_stress_bps s \<and> 0 \<le> cs_invalidation_slippage_stress_bps s \<and>
     0 \<le> cs_max_slippage_to_risk_pct s \<and> 0 \<le> cs_funding_buffer_bps s \<and>
     0 \<le> cs_conservative_cost_buffer_bps s \<and> 0 \<le> cs_default_funding_interval_hours s"

definition default_cost_settings :: cost_settings where
  "default_cost_settings = \<lparr>cs_engine_enabled = True, cs_model_name = ''conservative_costs_v1'',
     cs_model_version = ''1.0.0'', cs_fee_schedule_source = ''local_config_assumption'',
     cs_fee_schedule_version = ''polymarket-perps-assumed-1'', cs_assumed_fee_tier = ''default'',
     cs_default_maker_fee_rate = fl (2 / 10000), cs_default_taker_fee_rate = fl (7 / 10000),
     cs_require_active_fee_schedule = True, cs_execution_assumption_version = ''taker-conservative-1'',
     cs_entry_execution_mode = ENTRY_TAKER, cs_target_execution_mode = TARGET_TAKER,
     cs_invalidation_execution_mode = STOP_STRESS_TAKER, cs_slippage_enabled = True,
     cs_require_fresh_orderbook = True, cs_orderbook_max_levels = 25, cs_orderbook_max_distance_bps = 50,
     cs_entry_slippage_stress_bps = 2, cs_target_slippage_stress_bps = 2,
     cs_invalidation_slippage_stress_bps = 8, cs_max_slippage_to_risk_pct = 8, cs_funding_enabled = True,
     cs_require_funding_data = True, cs_funding_lookback_hours = 72,
     cs_funding_conservative_percentile = 75, cs_reference_hold_minutes = 240,
     cs_equity_overnight_blocked = True, cs_funding_buffer_bps = 1, cs_default_funding_interval_hours = 1,
     cs_conservative_cost_buffer_bps = 1\<rparr>"

record fee_schedule =
  fs_version :: string
  fs_source :: string
  fs_tier :: string
  fs_maker_fee_rate :: float64
  fs_taker_fee_rate :: float64
  fs_active :: bool
  fs_effective_at :: "datetime option"

definition rate_for :: "fee_schedule \<Rightarrow> fee_kind \<Rightarrow> float64" where
  "rate_for f k = (if k = FEE_MAKER then fs_maker_fee_rate f else fs_taker_fee_rate f)"

record execution_assumptions =
  ea_version :: string
  ea_entry :: execution_mode
  ea_target :: execution_mode
  ea_invalidation :: execution_mode

type_synonym depth_level = "float64 \<times> float64" \<comment> \<open>price and quantity\<close>

record depth_snapshot =
  ds_instrument_id :: int
  ds_bids :: "depth_level list"
  ds_asks :: "depth_level list"
  ds_fresh :: bool
  ds_snapshot_at :: "datetime option"

definition first_price :: "depth_level list \<Rightarrow> float64 option" where
  "first_price ls = (case ls of [] \<Rightarrow> None | l # _ \<Rightarrow> Some (fst l))"

definition snapshot_spread_bps :: "depth_snapshot \<Rightarrow> float64 option" where
  "snapshot_spread_bps b =
     (case (first_price (ds_bids b), first_price (ds_asks b)) of
        (Some bid, Some ask) \<Rightarrow>
          if bid \<le> 0 then None
          else Some (fmul (fdiv (fsub ask bid) (fdiv (fadd bid ask) 2)) 10000)
      | _ \<Rightarrow> None)"

section \<open>Fee schedules\<close>

text \<open>A persisted schedule: a tier without a rate, or with one that is no number, has \<open>None\<close> there.\<close>

record schedule_document =
  sd_version :: "string option"
  sd_source :: "string option"
  sd_tiers :: "(string \<times> float64 option \<times> float64 option) list"
  sd_assumed_tier :: "string option"

definition build_default_schedule :: "cost_settings \<Rightarrow> schedule_document" where
  "build_default_schedule s = \<lparr>sd_version = Some (cs_fee_schedule_version s),
     sd_source = Some (cs_fee_schedule_source s),
     sd_tiers = [(cs_assumed_fee_tier s, Some (cs_default_maker_fee_rate s), Some (cs_default_taker_fee_rate s))],
     sd_assumed_tier = Some (cs_assumed_fee_tier s)\<rparr>"

type_synonym cost_error = string

definition plausible_rate :: "float64 \<Rightarrow> bool" where
  "plausible_rate r \<longleftrightarrow> 0 \<le> r \<and> r \<le> fl (5 / 100)"

definition snapshot_from_schedule ::
  "schedule_document \<Rightarrow> cost_settings \<Rightarrow> bool \<Rightarrow> datetime option \<Rightarrow> cost_error + fee_schedule" where
  "snapshot_from_schedule d s active effective_at =
     (let tier = (case sd_assumed_tier d of
            None \<Rightarrow> cs_assumed_fee_tier s
          | Some t \<Rightarrow> if t = [] then cs_assumed_fee_tier s else t) in
      case map_of (sd_tiers d) tier of
        Some (Some maker, Some taker) \<Rightarrow>
          if plausible_rate maker \<and> plausible_rate taker then
            Inr \<lparr>fs_version = (case sd_version d of None \<Rightarrow> cs_fee_schedule_version s | Some v \<Rightarrow> v),
                 fs_source = (case sd_source d of None \<Rightarrow> cs_fee_schedule_source s | Some v \<Rightarrow> v),
                 fs_tier = tier, fs_maker_fee_rate = maker, fs_taker_fee_rate = taker,
                 fs_active = active, fs_effective_at = effective_at\<rparr>
          else Inl ''FEE_SCHEDULE_UNAVAILABLE''
      | _ \<Rightarrow> Inl ''FEE_SCHEDULE_UNAVAILABLE'')"

definition fee_kind_for :: "execution_mode \<Rightarrow> fee_kind" where
  "fee_kind_for m = (if m \<in> {ENTRY_MAKER, TARGET_MAKER} then FEE_MAKER else FEE_TAKER)"

definition fee_cost :: "fee_schedule \<Rightarrow> execution_mode \<Rightarrow> float64 \<Rightarrow> float64 \<Rightarrow> float64" where
  "fee_cost f m price quantity =
     (if price \<le> 0 \<or> quantity \<le> 0 then 0
      else fmul (fmul (rate_for f (fee_kind_for m)) price) quantity)"

definition build_execution_assumptions :: "cost_settings \<Rightarrow> execution_assumptions" where
  "build_execution_assumptions s = \<lparr>ea_version = cs_execution_assumption_version s,
     ea_entry = cs_entry_execution_mode s, ea_target = cs_target_execution_mode s,
     ea_invalidation = cs_invalidation_execution_mode s\<rparr>"

datatype plan_leg = LEG_ENTRY | LEG_TARGET | LEG_INVALIDATION

definition stress_bps_for :: "cost_settings \<Rightarrow> plan_leg \<Rightarrow> execution_mode \<Rightarrow> float64" where
  "stress_bps_for s leg m =
     (case leg of
        LEG_ENTRY \<Rightarrow> cs_entry_slippage_stress_bps s
      | LEG_TARGET \<Rightarrow> cs_target_slippage_stress_bps s
      | LEG_INVALIDATION \<Rightarrow>
          if m = STOP_STRESS_TAKER then cs_invalidation_slippage_stress_bps s
          else min (cs_invalidation_slippage_stress_bps s) (cs_entry_slippage_stress_bps s))"

section \<open>Walking the book\<close>

datatype book_side = SIDE_BID | SIDE_ASK

record vwap_result =
  vw_side :: book_side
  vw_requested_quantity :: float64
  vw_filled_quantity :: float64
  vw_unfilled_quantity :: float64
  vw_vwap_price :: "float64 option"
  vw_reference_price :: "float64 option"
  vw_slippage_abs :: "float64 option"
  vw_slippage_bps :: "float64 option"
  vw_levels_consumed :: nat

definition fully_filled :: "vwap_result \<Rightarrow> bool" where
  "fully_filled v \<longleftrightarrow> vw_unfilled_quantity v \<le> 0 \<and> vw_vwap_price v \<noteq> None"

definition within_distance :: "float64 \<Rightarrow> float64 \<Rightarrow> float64 \<Rightarrow> bool" where
  "within_distance price reference max_bps \<longleftrightarrow>
     0 < reference \<and> fmul (fdiv \<bar>fsub price reference\<bar> reference) 10000 \<le> max_bps"

text \<open>The state of the loop: what remains, the notional, what is filled, and the levels consumed.\<close>

record fill =
  fi_remaining :: float64
  fi_notional :: float64
  fi_filled :: float64
  fi_levels :: nat

fun walk_levels :: "float64 \<Rightarrow> float64 \<Rightarrow> depth_level list \<Rightarrow> fill \<Rightarrow> fill" where
  "walk_levels reference max_bps [] f = f"
| "walk_levels reference max_bps ((price, quantity) # ls) f =
     (if \<not> within_distance price reference max_bps then f
      else
        let taken = min (fi_remaining f) quantity in
        if taken \<le> 0 then walk_levels reference max_bps ls f
        else
          let f' = \<lparr>fi_remaining = fsub (fi_remaining f) taken,
                    fi_notional = fadd (fi_notional f) (fmul taken price),
                    fi_filled = fadd (fi_filled f) taken, fi_levels = Suc (fi_levels f)\<rparr> in
          if fi_remaining f' \<le> fl (1 / 10 ^ 12) then f'\<lparr>fi_remaining := 0\<rparr>
          else walk_levels reference max_bps ls f')"

definition unwalked :: "book_side \<Rightarrow> float64 \<Rightarrow> float64 \<Rightarrow> float64 option \<Rightarrow> vwap_result" where
  "unwalked side quantity unfilled reference =
     \<lparr>vw_side = side, vw_requested_quantity = quantity, vw_filled_quantity = 0,
      vw_unfilled_quantity = unfilled, vw_vwap_price = None, vw_reference_price = reference,
      vw_slippage_abs = None, vw_slippage_bps = None, vw_levels_consumed = 0\<rparr>"

definition walk_book ::
  "depth_snapshot \<Rightarrow> book_side \<Rightarrow> float64 \<Rightarrow> int \<Rightarrow> float64 \<Rightarrow> vwap_result" where
  "walk_book b side quantity max_levels max_bps =
     (let levels = (if side = SIDE_ASK then ds_asks b else ds_bids b) in
      if quantity \<le> 0 then unwalked side quantity (max 0 quantity) None
      else if \<not> ds_fresh b \<or> levels = [] then unwalked side quantity quantity (first_price levels)
      else
        let reference = fst (hd levels);
            f = walk_levels reference max_bps (take (nat max_levels) levels)
                  \<lparr>fi_remaining = quantity, fi_notional = 0, fi_filled = 0, fi_levels = 0\<rparr>;
            vwap = (if 0 < fi_filled f then Some (fdiv (fi_notional f) (fi_filled f)) else None);
            slippage = (case vwap of
                None \<Rightarrow> None
              | Some v \<Rightarrow> if 0 < reference then Some \<bar>fsub v reference\<bar> else None) in
        \<lparr>vw_side = side, vw_requested_quantity = quantity, vw_filled_quantity = fi_filled f,
         vw_unfilled_quantity = fi_remaining f, vw_vwap_price = vwap, vw_reference_price = Some reference,
         vw_slippage_abs = slippage,
         vw_slippage_bps = map_option (\<lambda>a. fmul (fdiv a reference) 10000) slippage,
         vw_levels_consumed = fi_levels f\<rparr>)"

section \<open>One leg\<close>

definition buying :: "plan_leg \<Rightarrow> bool \<Rightarrow> bool" where
  "buying leg bullish \<longleftrightarrow> (leg = LEG_ENTRY) = bullish"

definition side_for :: "plan_leg \<Rightarrow> bool \<Rightarrow> book_side" where
  "side_for leg bullish =
     (if (if bullish then leg = LEG_ENTRY else leg \<noteq> LEG_ENTRY) then SIDE_ASK else SIDE_BID)"

definition adverse_direction :: "plan_leg \<Rightarrow> bool \<Rightarrow> float64" where
  "adverse_direction leg bullish = (if buying leg bullish then 1 else - 1)"

record leg_estimate =
  le_leg :: plan_leg
  le_mode :: execution_mode
  le_fee_kind :: fee_kind
  le_reference_price :: float64
  le_execution_price :: float64
  le_vwap :: vwap_result
  le_stress_bps_applied :: float64
  le_slippage_cost :: float64
  le_fee_cost :: float64
  le_notional :: float64

definition shifted_price :: "float64 \<Rightarrow> float64 \<Rightarrow> float64 \<Rightarrow> float64" where
  "shifted_price price adverse bps = fmul price (fadd 1 (fdiv (fmul adverse bps) 10000))"

definition estimate_leg ::
  "plan_leg \<Rightarrow> execution_mode \<Rightarrow> bool \<Rightarrow> float64 \<Rightarrow> float64 \<Rightarrow> depth_snapshot \<Rightarrow> fee_schedule \<Rightarrow>
     cost_settings \<Rightarrow> cost_error + leg_estimate" where
  "estimate_leg leg mode bullish reference quantity b f s =
     (if \<not> cs_slippage_enabled s then Inl ''SLIPPAGE_MODEL_UNAVAILABLE''
      else if reference \<le> 0 \<or> quantity \<le> 0 then Inl ''SLIPPAGE_MODEL_UNAVAILABLE''
      else if cs_require_fresh_orderbook s \<and> \<not> ds_fresh b then Inl ''ORDERBOOK_NOT_FRESH''
      else
        let vwap = walk_book b (side_for leg bullish) quantity (cs_orderbook_max_levels s)
              (cs_orderbook_max_distance_bps s) in
        if \<not> fully_filled vwap then Inl ''ORDERBOOK_DEPTH_INSUFFICIENT''
        else
          let stress = stress_bps_for s leg mode;
              depth = (case vw_slippage_bps vwap of None \<Rightarrow> 0 | Some x \<Rightarrow> x);
              price = shifted_price reference (adverse_direction leg bullish) (fadd depth stress) in
          if price \<le> 0 then Inl ''SLIPPAGE_MODEL_UNAVAILABLE''
          else Inr \<lparr>le_leg = leg, le_mode = mode, le_fee_kind = fee_kind_for mode,
            le_reference_price = reference, le_execution_price = price, le_vwap = vwap,
            le_stress_bps_applied = stress, le_slippage_cost = fmul \<bar>fsub price reference\<bar> quantity,
            le_fee_cost = fee_cost f mode price quantity, le_notional = fmul price quantity\<rparr>)"

end
