(* ===== verification/Cost_Estimates.thy ===== *)
theory Cost_Estimates
  imports Cost_Model Prelude
begin

text \<open>
  The funding projection (\<open>funding_projection.py\<close>), the gross and net figures of a plan
  (\<open>net_expectancy.py\<close>) and the whole estimate (\<open>cost_engine.py\<close>), with the proof that its frictions only ever
  count against the plan.
\<close>

section \<open>Funding\<close>

record funding_snapshot =
  fu_current_rate :: "float64 option"
  fu_history :: "(datetime \<times> float64) list"
  fu_next_funding_at :: "datetime option"
  fu_interval_hours :: float64
  fu_data_fresh :: bool

record funding_projection =
  fp_state :: funding_model_state
  fp_bullish :: bool
  fp_hold_minutes :: int
  fp_intervals_charged :: int
  fp_assumed_rate_per_interval :: float64
  fp_expected_cost :: float64
  fp_buffer_cost :: float64

text \<open>The nearest-rank percentile; the percentile is at least 50, so the rank is at least one.\<close>

definition percentile_of :: "float64 list \<Rightarrow> float64 \<Rightarrow> float64" where
  "percentile_of xs p =
     (if xs = [] then 0
      else
        let ordered = sort xs;
            rank = max 1 \<lceil>fmul (fdiv p 100) (of_nat (length ordered))\<rceil> in
        ordered ! nat (min rank (int (length ordered)) - 1))"

definition adverse_rate :: "float64 \<Rightarrow> bool \<Rightarrow> float64" where
  "adverse_rate rate bullish = (if bullish then max rate 0 else max (- rate) 0)"

definition intraday_buffer_max_minutes :: int where
  "intraday_buffer_max_minutes = 1440"

definition buffered_projection :: "bool \<Rightarrow> int \<Rightarrow> float64 \<Rightarrow> funding_projection" where
  "buffered_projection bullish hold buffer_cost =
     \<lparr>fp_state = FM_BUFFERED_ONLY, fp_bullish = bullish, fp_hold_minutes = hold, fp_intervals_charged = 0,
      fp_assumed_rate_per_interval = 0, fp_expected_cost = buffer_cost, fp_buffer_cost = buffer_cost\<rparr>"

definition intervals_in :: "funding_snapshot \<Rightarrow> cost_settings \<Rightarrow> int \<Rightarrow> datetime \<Rightarrow> int" where
  "intervals_in f s hold as_of =
     (let hours = (if fu_interval_hours f = 0 then cs_default_funding_interval_hours s else fu_interval_hours f);
          n = (if 0 < hours then \<lceil>fdiv (fdiv (of_int hold) 60) hours\<rceil> else 0) in
      case fu_next_funding_at f of
        Some next_at \<Rightarrow> if as_of + hold * 60000000 < next_at then 0 else n
      | None \<Rightarrow> n)"

definition recent_rates :: "funding_snapshot \<Rightarrow> cost_settings \<Rightarrow> datetime \<Rightarrow> float64 list" where
  "recent_rates f s as_of =
     map snd (filter (\<lambda>(ts, _). as_of - cs_funding_lookback_hours s * 3600000000 \<le> ts) (fu_history f))"

definition project_funding ::
  "funding_snapshot \<Rightarrow> bool \<Rightarrow> int \<Rightarrow> float64 \<Rightarrow> datetime \<Rightarrow> cost_settings \<Rightarrow>
     cost_error + funding_projection" where
  "project_funding f bullish hold notional as_of s =
     (let buffer_cost = fdiv (fmul notional (cs_funding_buffer_bps s)) 10000;
          history = recent_rates f s as_of in
      if \<not> cs_funding_enabled s then Inr (buffered_projection bullish hold buffer_cost)
      else if fu_current_rate f = None \<and> history = [] \<or> \<not> fu_data_fresh f then
        if cs_require_funding_data s \<or> intraday_buffer_max_minutes < hold then Inl ''FUNDING_MODEL_UNAVAILABLE''
        else Inr (buffered_projection bullish hold buffer_cost)
      else
        let adverse_history = map (\<lambda>r. adverse_rate r bullish) history;
            current = adverse_rate (case fu_current_rate f of None \<Rightarrow> 0 | Some r \<Rightarrow> r) bullish;
            rate = max current (percentile_of adverse_history (cs_funding_conservative_percentile s));
            n = intervals_in f s hold as_of;
            expected = fmul (fmul notional rate) (of_int n);
            buffer = (if length adverse_history < 3 then buffer_cost else 0) in
        Inr \<lparr>fp_state = FM_MODELED, fp_bullish = bullish, fp_hold_minutes = hold, fp_intervals_charged = n,
          fp_assumed_rate_per_interval = rate, fp_expected_cost = fadd expected buffer,
          fp_buffer_cost = buffer\<rparr>)"

section \<open>Gross and net\<close>

definition sign_of :: "bool \<Rightarrow> float64" where
  "sign_of bullish = (if bullish then 1 else - 1)"

definition invalidation_economics ::
  "bool \<Rightarrow> leg_estimate \<Rightarrow> leg_estimate \<Rightarrow> float64 \<Rightarrow> funding_projection \<Rightarrow> float64 \<Rightarrow> float64 \<times> float64" where
  "invalidation_economics bullish entry invalidation quantity funding cost_buffer =
     (let gross = fmul (fmul (sign_of bullish)
            (fsub (le_reference_price entry) (le_reference_price invalidation))) quantity in
      (gross, fadd (fadd (fadd (fadd (fadd (fadd gross (le_fee_cost entry)) (le_fee_cost invalidation))
        (le_slippage_cost entry)) (le_slippage_cost invalidation)) (fp_expected_cost funding)) cost_buffer))"

record target_breakdown =
  tb_target_price :: float64
  tb_target_index :: nat
  tb_gross_target_pnl :: float64
  tb_net_target_pnl :: float64
  tb_gross_rr :: "float64 option"
  tb_net_rr :: "float64 option"
  tb_exit_fee :: float64
  tb_exit_slippage_cost :: float64

definition target_economics ::
  "bool \<Rightarrow> nat \<Rightarrow> float64 \<Rightarrow> leg_estimate \<Rightarrow> leg_estimate \<Rightarrow> float64 \<Rightarrow> funding_projection \<Rightarrow> float64 \<Rightarrow>
     float64 \<Rightarrow> float64 \<Rightarrow> target_breakdown" where
  "target_economics bullish i price exit_leg entry quantity funding cost_buffer gross_loss net_loss =
     (let gross = fmul (fmul (sign_of bullish) (fsub price (le_reference_price entry))) quantity;
          net = fsub (fsub (fsub (fsub (fsub (fsub gross (le_fee_cost entry)) (le_fee_cost exit_leg))
            (le_slippage_cost entry)) (le_slippage_cost exit_leg)) (fp_expected_cost funding)) cost_buffer in
      \<lparr>tb_target_price = price, tb_target_index = i, tb_gross_target_pnl = gross, tb_net_target_pnl = net,
       tb_gross_rr = (if 0 < gross_loss then Some (fdiv gross gross_loss) else None),
       tb_net_rr = (if 0 < net_loss then Some (fdiv net net_loss) else None),
       tb_exit_fee = le_fee_cost exit_leg, tb_exit_slippage_cost = le_slippage_cost exit_leg\<rparr>)"

section \<open>The estimate\<close>

record cost_estimate =
  ce_fee_schedule :: fee_schedule
  ce_execution_assumptions :: execution_assumptions
  ce_entry :: leg_estimate
  ce_invalidation :: leg_estimate
  ce_targets :: "target_breakdown list"
  ce_funding :: funding_projection
  ce_gross_invalidation_loss :: float64
  ce_net_invalidation_loss :: float64
  ce_total_entry_cost :: float64
  ce_total_invalidation_path_cost :: float64
  ce_cost_buffer :: float64
  ce_cost_to_risk_pct :: float64
  ce_buffer_warning :: bool

definition best_net_rr :: "cost_estimate \<Rightarrow> float64 option" where
  "best_net_rr e =
     (case List.map_filter tb_net_rr (ce_targets e) of [] \<Rightarrow> None | r # rs \<Rightarrow> Some (fold max rs r))"

definition primary_target :: "cost_estimate \<Rightarrow> target_breakdown option" where
  "primary_target e = (case ce_targets e of [] \<Rightarrow> None | t # _ \<Rightarrow> Some t)"

text \<open>What the estimate is asked about.\<close>

record cost_query =
  cq_bullish :: bool
  cq_entry_reference_price :: float64
  cq_invalidation_price :: float64
  cq_target_prices :: "float64 list"
  cq_quantity :: float64
  cq_book :: depth_snapshot
  cq_funding :: funding_snapshot
  cq_fee_schedule :: fee_schedule
  cq_as_of :: datetime
  cq_hold_minutes :: "int option"
  cq_assumptions :: "execution_assumptions option"

definition assumed_modes :: "cost_query \<Rightarrow> cost_settings \<Rightarrow> execution_assumptions" where
  "assumed_modes q s = (case cq_assumptions q of None \<Rightarrow> build_execution_assumptions s | Some a \<Rightarrow> a)"

definition query_leg ::
  "cost_query \<Rightarrow> cost_settings \<Rightarrow> plan_leg \<Rightarrow> execution_mode \<Rightarrow> float64 \<Rightarrow> cost_error + leg_estimate" where
  "query_leg q s leg mode price =
     estimate_leg leg mode (cq_bullish q) price (cq_quantity q) (cq_book q) (cq_fee_schedule q) s"

fun estimate_targets ::
  "cost_query \<Rightarrow> cost_settings \<Rightarrow> leg_estimate \<Rightarrow> funding_projection \<Rightarrow> float64 \<Rightarrow> float64 \<Rightarrow> float64 \<Rightarrow>
     nat \<Rightarrow> float64 list \<Rightarrow> cost_error + target_breakdown list" where
  "estimate_targets q s entry funding buffer gross_loss net_loss i [] = Inr []"
| "estimate_targets q s entry funding buffer gross_loss net_loss i (price # prices) =
     (case query_leg q s LEG_TARGET (ea_target (assumed_modes q s)) price of
        Inl e \<Rightarrow> Inl e
      | Inr leg \<Rightarrow>
          (case estimate_targets q s entry funding buffer gross_loss net_loss (Suc i) prices of
             Inl e \<Rightarrow> Inl e
           | Inr ts \<Rightarrow> Inr (target_economics (cq_bullish q) i price leg entry (cq_quantity q) funding buffer
               gross_loss net_loss # ts)))"

definition estimate_costs :: "cost_query \<Rightarrow> cost_settings \<Rightarrow> cost_error + cost_estimate" where
  "estimate_costs q s =
     (if \<not> cs_engine_enabled s then Inl ''CONFIGURATION_INVALID''
      else if cq_quantity q \<le> 0 \<or> cq_entry_reference_price q \<le> 0 \<or> cq_invalidation_price q \<le> 0 then
        Inl ''CONFIGURATION_INVALID''
      else if cq_target_prices q = [] then Inl ''REFERENCE_TARGET_UNAVAILABLE''
      else
        let modes = assumed_modes q s;
            hold = (case cq_hold_minutes q of Some h \<Rightarrow> h | None \<Rightarrow> cs_reference_hold_minutes s) in
        case query_leg q s LEG_ENTRY (ea_entry modes) (cq_entry_reference_price q) of
          Inl e \<Rightarrow> Inl e
        | Inr entry \<Rightarrow>
        case query_leg q s LEG_INVALIDATION (ea_invalidation modes) (cq_invalidation_price q) of
          Inl e \<Rightarrow> Inl e
        | Inr invalidation \<Rightarrow>
        case project_funding (cq_funding q) (cq_bullish q) hold (le_notional entry) (cq_as_of q) s of
          Inl e \<Rightarrow> Inl e
        | Inr funding \<Rightarrow>
        let buffer = fdiv (fmul (le_notional entry) (cs_conservative_cost_buffer_bps s)) 10000;
            (gross_loss, net_loss) =
              invalidation_economics (cq_bullish q) entry invalidation (cq_quantity q) funding buffer in
        if gross_loss \<le> 0 then Inl ''INVALIDATION_WRONG_SIDE''
        else
        case estimate_targets q s entry funding buffer gross_loss net_loss 0 (cq_target_prices q) of
          Inl e \<Rightarrow> Inl e
        | Inr targets \<Rightarrow>
        let frictions = fadd (fadd (fadd (fadd (fadd (le_fee_cost entry) (le_fee_cost invalidation))
              (le_slippage_cost entry)) (le_slippage_cost invalidation)) (fp_expected_cost funding)) buffer;
            slippage = fadd (le_slippage_cost entry) (le_slippage_cost invalidation) in
        if cs_max_slippage_to_risk_pct s < fmul (fdiv slippage gross_loss) 100 then Inl ''SLIPPAGE_EXCESSIVE''
        else Inr \<lparr>ce_fee_schedule = cq_fee_schedule q, ce_execution_assumptions = modes, ce_entry = entry,
          ce_invalidation = invalidation, ce_targets = targets, ce_funding = funding,
          ce_gross_invalidation_loss = gross_loss, ce_net_invalidation_loss = net_loss,
          ce_total_entry_cost = fadd (le_fee_cost entry) (le_slippage_cost entry),
          ce_total_invalidation_path_cost = frictions, ce_cost_buffer = buffer,
          ce_cost_to_risk_pct = fmul (fdiv frictions gross_loss) 100,
          ce_buffer_warning = (0 < fp_buffer_cost funding)\<rparr>)"

section \<open>Frictions are costs\<close>

lemma adding_costs: "is_float x \<Longrightarrow> 0 \<le> y \<Longrightarrow> x \<le> fadd x y"
  by (simp add: fadd_def is_float_def binary64.add_ge)

lemma subtracting_costs: "is_float x \<Longrightarrow> 0 \<le> y \<Longrightarrow> fsub x y \<le> x"
  by (simp add: fsub_def is_float_def binary64.sub_le)

lemma float_nonneg [intro]:
  "0 \<le> a \<Longrightarrow> 0 \<le> b \<Longrightarrow> 0 \<le> fadd a b" "0 \<le> a \<Longrightarrow> 0 \<le> b \<Longrightarrow> 0 \<le> fmul a b" "0 \<le> a \<Longrightarrow> 0 \<le> b \<Longrightarrow> 0 \<le> fdiv a b"
  by (simp_all add: fadd_def fmul_def fdiv_def fl_nonneg)

lemma adding_six:
  assumes "is_float x" "0 \<le> a" "0 \<le> b" "0 \<le> c" "0 \<le> d" "0 \<le> e" "0 \<le> f"
  shows "x \<le> fadd (fadd (fadd (fadd (fadd (fadd x a) b) c) d) e) f"
  using assms by (meson adding_costs is_float_ops(1) order_trans)

lemma subtracting_six:
  assumes "is_float x" "0 \<le> a" "0 \<le> b" "0 \<le> c" "0 \<le> d" "0 \<le> e" "0 \<le> f"
  shows "fsub (fsub (fsub (fsub (fsub (fsub x a) b) c) d) e) f \<le> x"
  using assms by (meson subtracting_costs is_float_ops(2) order_trans)

text \<open>Settings and a schedule whose rates, stresses and buffers are not negative.\<close>

definition sound_assumptions :: "cost_settings \<Rightarrow> fee_schedule \<Rightarrow> bool" where
  "sound_assumptions s f \<longleftrightarrow> valid_cost_settings s \<and> 0 \<le> fs_maker_fee_rate f \<and> 0 \<le> fs_taker_fee_rate f"

lemma fee_cost_nonneg: "sound_assumptions s f \<Longrightarrow> 0 \<le> fee_cost f m price quantity"
  by (auto simp: fee_cost_def rate_for_def sound_assumptions_def intro!: float_nonneg)

lemma stress_nonneg: "sound_assumptions s f \<Longrightarrow> 0 \<le> stress_bps_for s leg m"
  by (simp add: stress_bps_for_def sound_assumptions_def valid_cost_settings_def split: plan_leg.split)

lemma walk_slippage_nonneg: "vw_slippage_bps (walk_book b side quantity n d) = Some x \<Longrightarrow> 0 \<le> x"
  by (auto simp: walk_book_def unwalked_def Let_def split: if_splits option.splits intro!: float_nonneg)

lemma filled_needs_fresh: "fully_filled (walk_book b side quantity n d) \<Longrightarrow> ds_fresh b"
  by (auto simp: walk_book_def unwalked_def Let_def fully_filled_def split: if_splits)

text \<open>A price shifted by a non-negative number of basis points is not better than before.\<close>

lemma shifted_up:
  assumes "is_float p" "0 < p" "0 \<le> bps"
  shows "p \<le> shifted_price p 1 bps"
proof -
  have one: "fl 1 = 1" using fl_of_int [of 1] by simp
  have "1 \<le> fadd 1 (fdiv (fmul 1 bps) 10000)"
    using assms(3) by (intro adding_costs float_nonneg) (simp_all add: is_float_def one)
  then have "p \<le> p * fadd 1 (fdiv (fmul 1 bps) 10000)" using assms(2) by simp
  with assms(1) show ?thesis
    unfolding shifted_price_def fmul_def [of p] is_float_def by (metis fl_mono)
qed

lemma shifted_down:
  assumes "is_float p" "0 < p" "0 \<le> bps"
  shows "shifted_price p (- 1) bps \<le> p"
proof -
  have one: "fl 1 = 1" using fl_of_int [of 1] by simp
  have "fdiv (fmul (- 1) bps) 10000 \<le> 0"
    using assms(3) float_nonneg(3) [OF float_nonneg(2) [of 1 bps], of 10000]
    by (simp add: fdiv_def fmul_def fl_minus)
  then have "fadd 1 (fdiv (fmul (- 1) bps) 10000) \<le> fl 1" unfolding fadd_def by (intro fl_mono) simp
  then have "p * fadd 1 (fdiv (fmul (- 1) bps) 10000) \<le> p" using assms(2) one by simp
  with assms(1) show ?thesis
    unfolding shifted_price_def fmul_def [of p] is_float_def by (metis fl_mono)
qed

text \<open>A leg that was estimated: the book carried it, and its price is not better than the reference.\<close>

definition leg_sound :: "bool \<Rightarrow> depth_snapshot \<Rightarrow> leg_estimate \<Rightarrow> bool" where
  "leg_sound bullish b l \<longleftrightarrow> ds_fresh b \<and> fully_filled (le_vwap l) \<and> 0 < le_execution_price l \<and>
     (if buying (le_leg l) bullish then le_reference_price l \<le> le_execution_price l
      else le_execution_price l \<le> le_reference_price l) \<and>
     0 \<le> le_fee_cost l \<and> 0 \<le> le_slippage_cost l \<and> 0 \<le> le_notional l"

lemma estimate_leg_sound:
  assumes "sound_assumptions s f" "is_float reference"
    and "estimate_leg leg mode bullish reference quantity b f s = Inr l"
  shows "leg_sound bullish b l \<and> le_leg l = leg \<and> le_reference_price l = reference"
proof -
  let ?vwap = "walk_book b (side_for leg bullish) quantity (cs_orderbook_max_levels s) (cs_orderbook_max_distance_bps s)"
  let ?depth = "case vw_slippage_bps ?vwap of None \<Rightarrow> 0 | Some x \<Rightarrow> x"
  have pos: "0 < reference" "0 < quantity" and filled: "fully_filled ?vwap"
    using assms(3) by (auto simp: estimate_leg_def Let_def split: if_splits)
  have "0 \<le> ?depth" using walk_slippage_nonneg by (auto split: option.split)
  then have bps: "0 \<le> fadd ?depth (stress_bps_for s leg mode)"
    using stress_nonneg [OF assms(1)] by auto
  have "if buying leg bullish
      then reference \<le> shifted_price reference (adverse_direction leg bullish) (fadd ?depth (stress_bps_for s leg mode))
      else shifted_price reference (adverse_direction leg bullish) (fadd ?depth (stress_bps_for s leg mode)) \<le> reference"
    using shifted_up [OF assms(2) pos(1) bps] shifted_down [OF assms(2) pos(1) bps]
    by (simp add: adverse_direction_def)
  then show ?thesis
    using assms(3) pos filled filled_needs_fresh [OF filled] fee_cost_nonneg [OF assms(1)]
    by (auto simp: estimate_leg_def Let_def leg_sound_def split: if_splits intro!: float_nonneg)
qed

lemma query_leg_sound:
  "sound_assumptions s (cq_fee_schedule q) \<Longrightarrow> is_float price \<Longrightarrow> query_leg q s leg mode price = Inr l \<Longrightarrow>
     leg_sound (cq_bullish q) (cq_book q) l"
  using estimate_leg_sound by (simp add: query_leg_def)

lemma percentile_in: "xs \<noteq> [] \<Longrightarrow> percentile_of xs p \<in> set xs"
proof -
  assume ne: "xs \<noteq> []"
  let ?rank = "max 1 \<lceil>fmul (fdiv p 100) (of_nat (length (sort xs)))\<rceil>"
  have "nat (min ?rank (int (length (sort xs))) - 1) < length (sort xs)"
    using ne by (cases xs) auto
  then have "sort xs ! nat (min ?rank (int (length (sort xs))) - 1) \<in> set (sort xs)" by (rule nth_mem)
  with ne show ?thesis by (simp add: percentile_of_def Let_def)
qed

lemma percentile_nonneg: "\<forall>x \<in> set xs. 0 \<le> x \<Longrightarrow> 0 \<le> percentile_of xs p"
  using percentile_in [of xs p] by (cases "xs = []") (auto simp: percentile_of_def)

lemma intervals_nonneg:
  assumes "0 \<le> hold" "0 \<le> cs_default_funding_interval_hours s"
  shows "0 \<le> intervals_in f s hold as_of"
proof -
  have "0 \<le> \<lceil>fdiv (fdiv (of_int hold) 60) h\<rceil>" if "0 < h" for h
    using that assms(1) float_nonneg(3) [of "fdiv (of_int hold) 60" h] float_nonneg(3) [of "of_int hold" 60] by simp
  then show ?thesis by (auto simp: intervals_in_def Let_def split: option.split)
qed

lemma projection_nonneg:
  assumes "valid_cost_settings s" "0 \<le> notional" "0 \<le> hold"
    and "project_funding f bullish hold notional as_of s = Inr p"
  shows "0 \<le> fp_expected_cost p \<and> 0 \<le> fp_buffer_cost p"
proof -
  have buffer: "0 \<le> fdiv (fmul notional (cs_funding_buffer_bps s)) 10000"
    using assms(1,2) by (intro float_nonneg) (simp_all add: valid_cost_settings_def)
  have "0 \<le> intervals_in f s hold as_of"
    using assms(1,3) intervals_nonneg by (simp add: valid_cost_settings_def)
  moreover have "0 \<le> adverse_rate r bullish" for r by (simp add: adverse_rate_def)
  ultimately show ?thesis
    using assms(2,4) buffer
    by (auto simp: project_funding_def buffered_projection_def Let_def le_max_iff_disj split: if_splits option.splits
        intro!: float_nonneg)
qed

definition target_sound :: "target_breakdown \<Rightarrow> bool" where
  "target_sound t \<longleftrightarrow> tb_net_target_pnl t \<le> tb_gross_target_pnl t \<and>
     (case (tb_gross_rr t, tb_net_rr t) of
        (Some gross, Some net) \<Rightarrow> net \<le> gross \<or> tb_gross_target_pnl t < 0
      | _ \<Rightarrow> False)"

lemma target_economics_sound:
  assumes "leg_sound bullish b entry" "leg_sound bullish b exit_leg" "0 \<le> fp_expected_cost funding" "0 \<le> buffer"
    and "0 < gross_loss" "gross_loss \<le> net_loss"
  shows "target_sound (target_economics bullish i price exit_leg entry quantity funding buffer gross_loss net_loss)"
proof -
  let ?t = "target_economics bullish i price exit_leg entry quantity funding buffer gross_loss net_loss"
  have net: "tb_net_target_pnl ?t \<le> tb_gross_target_pnl ?t"
    using assms(1-4) unfolding target_economics_def Let_def leg_sound_def
    by (simp add: subtracting_six)
  have "tb_net_target_pnl ?t / net_loss \<le> tb_gross_target_pnl ?t / gross_loss" if "0 \<le> tb_gross_target_pnl ?t"
  proof -
    have "tb_net_target_pnl ?t / net_loss \<le> tb_gross_target_pnl ?t / net_loss"
      using net assms(5,6) by (intro divide_right_mono) auto
    also have "\<dots> \<le> tb_gross_target_pnl ?t / gross_loss"
      using that assms(5,6) by (intro divide_left_mono) auto
    finally show ?thesis .
  qed
  then have "fdiv (tb_net_target_pnl ?t) net_loss \<le> fdiv (tb_gross_target_pnl ?t) gross_loss"
    if "0 \<le> tb_gross_target_pnl ?t" using that by (simp add: fdiv_def fl_mono)
  moreover have "tb_gross_rr ?t = Some (fdiv (tb_gross_target_pnl ?t) gross_loss)"
    "tb_net_rr ?t = Some (fdiv (tb_net_target_pnl ?t) net_loss)"
    using assms(5,6) by (simp_all add: target_economics_def Let_def)
  ultimately show ?thesis using net by (auto simp: target_sound_def)
qed

lemma estimate_targets_sound:
  assumes "sound_assumptions s (cq_fee_schedule q)" "list_all is_float prices"
    and "leg_sound (cq_bullish q) (cq_book q) entry" "0 \<le> fp_expected_cost funding" "0 \<le> buffer"
    and "0 < gross_loss" "gross_loss \<le> net_loss"
    and "estimate_targets q s entry funding buffer gross_loss net_loss i prices = Inr ts"
  shows "list_all target_sound ts \<and> map tb_target_price ts = prices"
  using assms(2,8)
proof (induction prices arbitrary: i ts)
  case (Cons price prices)
  then obtain leg ts' where leg: "query_leg q s LEG_TARGET (ea_target (assumed_modes q s)) price = Inr leg"
    and rest: "estimate_targets q s entry funding buffer gross_loss net_loss (Suc i) prices = Inr ts'"
    and ts: "ts = target_economics (cq_bullish q) i price leg entry (cq_quantity q) funding buffer gross_loss net_loss # ts'"
    by (auto split: sum.splits)
  have "leg_sound (cq_bullish q) (cq_book q) leg"
    using query_leg_sound [OF assms(1) _ leg] Cons.prems(1) by simp
  from target_economics_sound [OF assms(3) this assms(4-7)] Cons.IH [OF _ rest] Cons.prems(1) ts
  show ?case by (simp add: target_economics_def Let_def)
qed simp

text \<open>The prices asked about are floats, and the hold is not negative.\<close>

definition float_query :: "cost_query \<Rightarrow> bool" where
  "float_query q \<longleftrightarrow> is_float (cq_entry_reference_price q) \<and> is_float (cq_invalidation_price q) \<and>
     list_all is_float (cq_target_prices q) \<and> (case cq_hold_minutes q of None \<Rightarrow> True | Some h \<Rightarrow> 0 \<le> h)"

section \<open>An example\<close>

definition example_cost_settings :: cost_settings where
  "example_cost_settings = default_cost_settings\<lparr>cs_default_maker_fee_rate := 0, cs_default_taker_fee_rate := 0,
     cs_entry_slippage_stress_bps := 0, cs_target_slippage_stress_bps := 0,
     cs_invalidation_slippage_stress_bps := 0, cs_funding_buffer_bps := 50,
     cs_conservative_cost_buffer_bps := 100\<rparr>"

definition example_schedule :: fee_schedule where
  "example_schedule = \<lparr>fs_version = ''v1'', fs_source = ''local'', fs_tier = ''default'', fs_maker_fee_rate = 0,
     fs_taker_fee_rate = 0, fs_active = True, fs_effective_at = None\<rparr>"

definition example_depth :: depth_snapshot where
  "example_depth = \<lparr>ds_instrument_id = 1, ds_bids = [(99, 5)], ds_asks = [(100, 5)],
     ds_fresh = True, ds_snapshot_at = Some 0\<rparr>"

definition example_query :: cost_query where
  "example_query = \<lparr>cq_bullish = True, cq_entry_reference_price = 100, cq_invalidation_price = 90,
     cq_target_prices = [120], cq_quantity = 2, cq_book = example_depth,
     cq_funding = \<lparr>fu_current_rate = Some (- 1), fu_history = [], fu_next_funding_at = None,
       fu_interval_hours = 1, fu_data_fresh = True\<rparr>,
     cq_fee_schedule = example_schedule, cq_as_of = 0, cq_hold_minutes = None, cq_assumptions = None\<rparr>"

lemmas example_cost_defs = example_query_def example_schedule_def example_cost_settings_def
  default_cost_settings_def build_execution_assumptions_def assumed_modes_def

lemma example_sound: "sound_assumptions example_cost_settings (cq_fee_schedule example_query)"
  by (simp add: sound_assumptions_def valid_cost_settings_def example_cost_defs fl_nonneg)

lemma example_floats: "float_query example_query"
  by (simp add: float_query_def is_float_def example_query_def fl_numerals)

lemma example_fresh [simp]: "ds_fresh example_depth"
  by (simp add: example_depth_def)

lemma example_walk:
  "walk_book example_depth SIDE_ASK 2 25 50 = \<lparr>vw_side = SIDE_ASK, vw_requested_quantity = 2, vw_filled_quantity = 2,
     vw_unfilled_quantity = 0, vw_vwap_price = Some 100, vw_reference_price = Some 100,
     vw_slippage_abs = Some 0, vw_slippage_bps = Some 0, vw_levels_consumed = 1\<rparr>"
  "walk_book example_depth SIDE_BID 2 25 50 = \<lparr>vw_side = SIDE_BID, vw_requested_quantity = 2, vw_filled_quantity = 2,
     vw_unfilled_quantity = 0, vw_vwap_price = Some 99, vw_reference_price = Some 99,
     vw_slippage_abs = Some 0, vw_slippage_bps = Some 0, vw_levels_consumed = 1\<rparr>"
  by (simp_all add: walk_book_def example_depth_def within_distance_def fadd_def fsub_def fmul_def fdiv_def
      fl_numerals Let_def)

lemma example_estimated: "\<not> isl (estimate_costs example_query example_cost_settings)"
  by (simp add: estimate_costs_def query_leg_def estimate_leg_def side_for_def example_walk example_cost_defs
      fully_filled_def stress_bps_for_def shifted_price_def adverse_direction_def buying_def fee_cost_def
      project_funding_def recent_rates_def adverse_rate_def percentile_of_def invalidation_economics_def
      sign_of_def rate_for_def fadd_def fsub_def fmul_def fdiv_def fl_numerals Let_def)

section \<open>Properties\<close>

text \<open>
  C28.  Costs never favour the plan: in every estimate the engine returns, the book was fresh and carried the
  whole quantity of each leg, no leg executes at a better price than its reference, the net loss is at least
  the gross loss, which is positive, and no target has a net result above its gross result or, unless its
  gross result is a loss, a net ratio above its gross ratio.
\<close>

theorem costs_never_favour:
  assumes "sound_assumptions s (cq_fee_schedule q)" "float_query q" "estimate_costs q s = Inr e"
  shows "leg_sound (cq_bullish q) (cq_book q) (ce_entry e) \<and>
    leg_sound (cq_bullish q) (cq_book q) (ce_invalidation e) \<and>
    0 < ce_gross_invalidation_loss e \<and> ce_gross_invalidation_loss e \<le> ce_net_invalidation_loss e \<and>
    0 \<le> fp_expected_cost (ce_funding e) \<and>
    map tb_target_price (ce_targets e) = cq_target_prices q \<and> list_all target_sound (ce_targets e)"
proof -
  obtain hold where hold: "hold = (case cq_hold_minutes q of Some h \<Rightarrow> h | None \<Rightarrow> cs_reference_hold_minutes s)"
    by blast
  then have hold_pos: "0 \<le> hold"
    using assms(1,2) by (auto simp: float_query_def sound_assumptions_def valid_cost_settings_def split: option.splits)
  have floats: "is_float (cq_entry_reference_price q)" "is_float (cq_invalidation_price q)"
    "list_all is_float (cq_target_prices q)" using assms(2) by (simp_all add: float_query_def)
  obtain mode mode' funding where
    entry: "query_leg q s LEG_ENTRY mode (cq_entry_reference_price q) = Inr (ce_entry e)"
    and invalidation: "query_leg q s LEG_INVALIDATION mode' (cq_invalidation_price q) = Inr (ce_invalidation e)"
    and funding: "project_funding (cq_funding q) (cq_bullish q) hold (le_notional (ce_entry e)) (cq_as_of q) s
      = Inr (ce_funding e)"
    and buffer: "ce_cost_buffer e = fdiv (fmul (le_notional (ce_entry e)) (cs_conservative_cost_buffer_bps s)) 10000"
    and loss: "(ce_gross_invalidation_loss e, ce_net_invalidation_loss e) = invalidation_economics (cq_bullish q)
      (ce_entry e) (ce_invalidation e) (cq_quantity q) (ce_funding e) (ce_cost_buffer e)"
      "0 < ce_gross_invalidation_loss e"
    and targets: "estimate_targets q s (ce_entry e) (ce_funding e) (ce_cost_buffer e)
      (ce_gross_invalidation_loss e) (ce_net_invalidation_loss e) 0 (cq_target_prices q) = Inr (ce_targets e)"
    using assms(3) unfolding estimate_costs_def Let_def hold [symmetric]
    by (auto split: if_splits sum.splits prod.splits)
  have e: "leg_sound (cq_bullish q) (cq_book q) (ce_entry e)"
    and i: "leg_sound (cq_bullish q) (cq_book q) (ce_invalidation e)"
    using query_leg_sound [OF assms(1) _ entry] query_leg_sound [OF assms(1) _ invalidation] floats by simp_all
  have f: "0 \<le> fp_expected_cost (ce_funding e)"
    using projection_nonneg [OF _ _ hold_pos funding] e assms(1) by (simp add: leg_sound_def sound_assumptions_def)
  have b: "0 \<le> ce_cost_buffer e"
    using e assms(1) unfolding buffer
    by (auto simp: leg_sound_def sound_assumptions_def valid_cost_settings_def intro!: float_nonneg)
  have "ce_gross_invalidation_loss e \<le> ce_net_invalidation_loss e"
    using loss(1) e i f b
    by (simp add: invalidation_economics_def Let_def leg_sound_def adding_six)
  with estimate_targets_sound [OF assms(1) floats(3) e f b loss(2) _ targets] e i f loss(2) show ?thesis by blast
qed

theorem costs_never_favour_witness:
  "0 < ce_gross_invalidation_loss (projr (estimate_costs example_query example_cost_settings)) \<and>
   map tb_target_price (ce_targets (projr (estimate_costs example_query example_cost_settings))) = [120]"
proof -
  have "estimate_costs example_query example_cost_settings =
      Inr (projr (estimate_costs example_query example_cost_settings))"
    using example_estimated by (cases "estimate_costs example_query example_cost_settings") auto
  from costs_never_favour [OF example_sound example_floats this] show ?thesis by (simp add: example_query_def)
qed

end
