(* ===== verification/Float_Scores.thy ===== *)
theory Float_Scores
  imports Float64
begin

text \<open>
  Sums and scores of floats that several components share: Python's \<open>sum\<close>, rounding to decimal digits and the
  weighted scores of candidates and plans, with the proof that such a score lies between zero and the sum of
  the weights.
\<close>

section \<open>Python's sum\<close>

text \<open>
  Since version 3.12 \<open>sum\<close> of floats carries a compensation: the rounding error of each addition, added at the
  end.  The first float is taken as it is.
\<close>

fun compensated_sum :: "float64 \<Rightarrow> float64 \<Rightarrow> float64 list \<Rightarrow> float64" where
  "compensated_sum f c [] = (if c = 0 then f else fadd f c)"
| "compensated_sum f c (x # xs) =
     (let t = fadd f x;
          e = (if \<bar>x\<bar> \<le> \<bar>f\<bar> then fadd (fsub f t) x else fadd (fsub x t) f) in
      compensated_sum t (fadd c e) xs)"

definition py_sum :: "float64 list \<Rightarrow> float64" where
  "py_sum xs = (case xs of [] \<Rightarrow> 0 | y # ys \<Rightarrow> compensated_sum y 0 ys)"

section \<open>Rounding and weights\<close>

text \<open>\<open>round(x, n)\<close> rounds the exact value to \<open>n\<close> decimals, ties to even.\<close>

definition round_to :: "nat \<Rightarrow> float64 \<Rightarrow> float64" where
  "round_to n x = fl (of_int (round_half_even (x * 10 ^ n)) / 10 ^ n)"

definition clamp :: "float64 \<Rightarrow> float64" where
  "clamp x = max 0 (min 1 x)"

definition awarded :: "(string \<times> float64) list \<Rightarrow> string \<times> int \<Rightarrow> float64" where
  "awarded fractions w =
     round_to 2 (fmul (case map_of fractions (fst w) of None \<Rightarrow> 0 | Some f \<Rightarrow> f) (of_int (snd w)))"

lemma clamp_range: "0 \<le> clamp x \<and> clamp x \<le> 1"
  by (simp add: clamp_def)

lemma round_to_mono: "x \<le> y \<Longrightarrow> round_to n x \<le> round_to n y"
  unfolding round_to_def
  by (intro fl_mono divide_right_mono) (simp_all add: round_half_even_mono mult_right_mono)

lemma round_to_of_int:
  assumes "\<bar>n\<bar> \<le> 2 ^ 53"
  shows "round_to k (of_int n) = of_int n"
proof -
  have "of_int n * 10 ^ k = (of_int (n * 10 ^ k) :: rat)" by simp
  then have "round_half_even (of_int n * 10 ^ k) = n * 10 ^ k" by (metis round_half_even_of_int)
  then show ?thesis using fl_of_int [OF assms] by (simp add: round_to_def)
qed

lemma awarded_range:
  assumes "\<And>c f. (c, f) \<in> set fractions \<Longrightarrow> 0 \<le> f \<and> f \<le> 1" "0 \<le> snd w" "snd w \<le> 100"
  shows "0 \<le> awarded fractions w \<and> awarded fractions w \<le> of_int (snd w)"
proof -
  obtain f where f: "f = (case map_of fractions (fst w) of None \<Rightarrow> 0 | Some f \<Rightarrow> f)" by blast
  then have range: "0 \<le> f" "f \<le> 1" using assms(1) map_of_SomeD by (fastforce split: option.splits)+
  have "fmul f (of_int (snd w)) \<le> of_int (snd w)"
    using fl_mono [of "f * of_int (snd w)" "of_int (snd w)"] fl_of_int [of "snd w"] range assms(2,3)
    by (simp add: fmul_def mult_left_le_one_le)
  moreover have "0 \<le> fmul f (of_int (snd w))" using range assms(2) by (simp add: fmul_def fl_nonneg)
  ultimately have "round_to 2 0 \<le> awarded fractions w" "awarded fractions w \<le> round_to 2 (of_int (snd w))"
    unfolding awarded_def f [symmetric] by (simp_all add: round_to_mono)
  with round_to_of_int [of 0 2] round_to_of_int [of "snd w" 2] assms(2,3) show ?thesis by simp
qed

lemma sum_range:
  assumes "list_all (\<lambda>w. 0 \<le> snd w \<and> 0 \<le> f w \<and> f w \<le> of_int (snd w)) ws"
    and "0 \<le> a" "a \<le> of_int n" "0 \<le> n" "n + sum_list (map snd ws) \<le> 100"
  shows "0 \<le> foldl fadd a (map f ws) \<and> foldl fadd a (map f ws) \<le> of_int (n + sum_list (map snd ws))"
  using assms
proof (induction ws arbitrary: a n)
  case (Cons w ws)
  have rest: "0 \<le> sum_list (map snd ws)" using Cons.prems(1) by (intro sum_list_nonneg) (auto simp: list_all_iff)
  have "fadd a (f w) \<le> of_int (n + snd w)"
    using fl_mono [of "a + f w" "of_int (n + snd w)"] fl_of_int [of "n + snd w"] Cons.prems rest
    by (simp add: fadd_def)
  moreover have "0 \<le> fadd a (f w)" using Cons.prems by (simp add: fadd_def fl_nonneg)
  ultimately show ?case using Cons.IH [of "fadd a (f w)" "n + snd w"] Cons.prems by (simp add: add.assoc)
qed simp

lemma total_range:
  assumes "\<And>c f. (c, f) \<in> set fractions \<Longrightarrow> 0 \<le> f \<and> f \<le> 1"
    and "sum_list (map snd ws) = 100" "list_all (\<lambda>(c, w). 0 \<le> w) ws"
  shows "0 \<le> round_half_even (foldl fadd 0 (map (awarded fractions) ws)) \<and>
    round_half_even (foldl fadd 0 (map (awarded fractions) ws)) \<le> 100"
proof -
  have below: "snd w \<le> 100" if "w \<in> set ws" for w
    using member_le_sum_list [of "snd w" "map snd ws"] assms(2,3) that by (auto simp: list_all_iff case_prod_beta)
  have "list_all (\<lambda>w. 0 \<le> snd w \<and> 0 \<le> awarded fractions w \<and> awarded fractions w \<le> of_int (snd w)) ws"
    using awarded_range [OF assms(1)] below assms(3) by (fastforce simp: list_all_iff case_prod_beta)
  from sum_range [OF this, of 0 0] assms(2)
  have "0 \<le> foldl fadd 0 (map (awarded fractions) ws)" "foldl fadd 0 (map (awarded fractions) ws) \<le> of_int 100"
    by simp_all
  with round_half_even_mono [of "of_int 0" "foldl fadd 0 (map (awarded fractions) ws)"]
    round_half_even_mono [of "foldl fadd 0 (map (awarded fractions) ws)" "of_int 100"]
  show ?thesis unfolding round_half_even_of_int by simp
qed

end
