(* ===== verification/Strategy_Model.thy ===== *)
theory Strategy_Model
  imports Float_Scores
begin

text \<open>
  The vocabulary of the strategy (\<open>app/strategy/enums.py\<close>, \<open>models.py\<close>), its settings, and the construction of
  a series of closed candles, through which every feature sees the market.  The texts of details and reasons
  are left out, except where the code reads them back.
\<close>

section \<open>Vocabulary\<close>

datatype strategy_regime =
  TREND_UP | TREND_DOWN | RANGE_REGIME | BREAKOUT | HIGH_VOLATILITY | LOW_LIQUIDITY | EVENT_RISK | NO_TRADE | INSUFFICIENT_DATA

datatype structure_state = BULLISH | BEARISH | NEUTRAL | TRANSITIONAL | INSUFFICIENT_STRUCTURE

datatype swing_type = SWING_HIGH | SWING_LOW

datatype structure_event_type =
    HIGHER_HIGH | HIGHER_LOW | LOWER_HIGH | LOWER_LOW | EQUAL_HIGH | EQUAL_LOW
  | BREAK_OF_STRUCTURE | CHANGE_OF_CHARACTER

datatype liquidity_level_type =
  LEVEL_SWING_HIGH | LEVEL_SWING_LOW | LEVEL_EQUAL_HIGHS | LEVEL_EQUAL_LOWS | LEVEL_RANGE_HIGH | LEVEL_RANGE_LOW

datatype sweep_direction = SWEPT_ABOVE | SWEPT_BELOW

datatype retest_status = RETEST_CONFIRMED | RETEST_FAILED | RETEST_PENDING | RETEST_NOT_PRESENT

datatype candidate_type =
    BULLISH_RECLAIM_CONTINUATION | BEARISH_REJECTION_CONTINUATION | BULLISH_SWEEP_REVERSAL | BEARISH_SWEEP_REVERSAL
  | RANGE_BREAKOUT_UP | RANGE_BREAKOUT_DOWN

datatype candidate_direction = CANDIDATE_BULLISH | CANDIDATE_BEARISH

datatype setup_candidate_state = DETECTED | CONFIRMED | REJECTED | CANDIDATE_EXPIRED | SUPERSEDED

datatype setup_rejection_code =
    SU_NOT_ON_ACTIVE_WATCHLIST | SU_SESSION_NOT_ALLOWED | SU_BOT_PAUSED | SU_INSUFFICIENT_CANDLE_HISTORY
  | SU_CANDLE_GAP | SU_OPEN_CANDLE_ONLY | SU_DATA_QUALITY_NOT_SUFFICIENT | SU_ORDERBOOK_NOT_FRESH
  | SU_REGIME_NO_TRADE | SU_REGIME_HIGH_VOLATILITY | SU_REGIME_LOW_LIQUIDITY | SU_REGIME_INSUFFICIENT_DATA
  | SU_HIGHER_TIMEFRAME_CONFLICT | SU_STRUCTURE_NOT_CONFIRMED | SU_NO_RELEVANT_LIQUIDITY_EVENT
  | SU_SWEEP_UNCONFIRMED | SU_RECLAIM_UNCONFIRMED | SU_REJECTION_UNCONFIRMED | SU_RETEST_PENDING
  | SU_MOMENTUM_INSUFFICIENT | SU_VOLUME_INSUFFICIENT | SU_SETUP_SCORE_BELOW_THRESHOLD | SU_CANDIDATE_DUPLICATE
  | SU_CANDIDATE_SUPERSEDED | SU_EVALUATION_ERROR

section \<open>Settings\<close>

text \<open>
  The settings the evaluation reads.  The windows of events arrive parsed.  Lengths of windows are numbers of
  candles; the code divides by them and indexes with them, so that a zero, which its validators let through,
  would raise (\<open>positive_windows\<close> excludes it).
\<close>

record strategy_settings =
  st_name :: string
  st_version :: string
  st_require_active_watchlist :: bool
  st_require_fresh_orderbook :: bool
  st_min_setup_score :: int
  st_expire_after_5m_candles :: int
  st_required_timeframes :: "string list"
  st_min_candles :: "string \<Rightarrow> nat"
  st_max_candle_gap_multiplier :: float64
  st_allow_1m_optional :: bool
  st_swing_left_bars :: nat
  st_swing_right_bars :: nat
  st_swing_atr_multiplier :: float64
  st_equal_level_tolerance_bps :: float64
  st_structure_break_confirmation_closes :: nat
  st_liquidity_level_lookback :: nat
  st_sweep_min_overshoot_bps :: float64
  st_reclaim_tolerance_bps :: float64
  st_retest_tolerance_bps :: float64
  st_retest_max_5m_candles :: nat
  st_atr_period :: nat
  st_volatility_lookback :: nat
  st_high_volatility_percentile :: float64
  st_momentum_lookback :: nat
  st_volume_lookback :: nat
  st_min_relative_volume :: float64
  st_require_volume_confirmation :: bool
  st_require_momentum_confirmation :: bool
  st_score_weights :: "(string \<times> int) list"
  st_regime_rules :: "(string \<times> float64) list"
  st_event_risk_enabled :: bool
  st_event_risk_windows :: "(datetime \<times> datetime) list"

definition strategy_score_components :: "string list" where
  "strategy_score_components = [''htf_bias'', ''structure_15m'', ''liquidity_event'', ''local_confirmation_5m'',
     ''momentum'', ''volume'', ''market_context'', ''volatility_fit'']"

definition valid_strategy_settings :: "strategy_settings \<Rightarrow> bool" where
  "valid_strategy_settings s \<longleftrightarrow>
     set (st_required_timeframes s) \<subseteq> {''1m'', ''5m'', ''15m'', ''1h''} \<and>
     {''5m'', ''15m'', ''1h''} \<subseteq> set (st_required_timeframes s) \<and>
     set (map fst (st_score_weights s)) = set strategy_score_components \<and> distinct (map fst (st_score_weights s)) \<and>
     sum_list (map snd (st_score_weights s)) = 100 \<and> list_all (\<lambda>(c, w). 0 \<le> w) (st_score_weights s) \<and>
     50 \<le> st_high_volatility_percentile s \<and> st_high_volatility_percentile s \<le> 100 \<and>
     0 \<le> st_min_setup_score s \<and> st_min_setup_score s \<le> 100"

definition positive_windows :: "strategy_settings \<Rightarrow> bool" where
  "positive_windows s \<longleftrightarrow>
     list_all (\<lambda>n. 0 < n) [st_swing_left_bars s, st_swing_right_bars s, st_structure_break_confirmation_closes s,
       st_liquidity_level_lookback s, st_retest_max_5m_candles s, st_atr_period s, st_volatility_lookback s,
       st_momentum_lookback s, st_volume_lookback s]"

definition default_strategy_settings :: strategy_settings where
  "default_strategy_settings = \<lparr>st_name = ''market_structure_v1'', st_version = ''1.0.0'',
     st_require_active_watchlist = True, st_require_fresh_orderbook = True, st_min_setup_score = 75,
     st_expire_after_5m_candles = 6, st_required_timeframes = [''5m'', ''15m'', ''1h''],
     st_min_candles = (\<lambda>tf. if tf = ''15m'' then 40 else if tf = ''1h'' then 30 else 60),
     st_max_candle_gap_multiplier = 3 / 2, st_allow_1m_optional = True,
     st_swing_left_bars = 2, st_swing_right_bars = 2, st_swing_atr_multiplier = 1 / 2,
     st_equal_level_tolerance_bps = 5, st_structure_break_confirmation_closes = 1,
     st_liquidity_level_lookback = 50, st_sweep_min_overshoot_bps = 3, st_reclaim_tolerance_bps = 2,
     st_retest_tolerance_bps = 10, st_retest_max_5m_candles = 12,
     st_atr_period = 14, st_volatility_lookback = 100, st_high_volatility_percentile = 90,
     st_momentum_lookback = 10, st_volume_lookback = 20, st_min_relative_volume = fl (12 / 10),
     st_require_volume_confirmation = False, st_require_momentum_confirmation = True,
     st_score_weights = [(''htf_bias'', 20), (''structure_15m'', 20), (''liquidity_event'', 15),
       (''local_confirmation_5m'', 15), (''momentum'', 10), (''volume'', 10), (''market_context'', 5),
       (''volatility_fit'', 5)],
     st_regime_rules = [(''trend_efficiency_ratio_min'', fl (35 / 100)), (''range_efficiency_ratio_max'', fl (2 / 10)),
       (''breakout_lookback'', 20), (''trend_lookback'', 30), (''low_liquidity_quality_below'', 60)],
     st_event_risk_enabled = False, st_event_risk_windows = []\<rparr>"

lemma default_strategy_settings_valid: "valid_strategy_settings default_strategy_settings"
  by (simp add: valid_strategy_settings_def default_strategy_settings_def strategy_score_components_def)

section \<open>Closed candles\<close>

record strategy_candle =
  rk_timeframe_ms :: int
  rk_timeframe :: string
  rk_open_time :: datetime
  rk_open :: float64
  rk_high :: float64
  rk_low :: float64
  rk_close :: float64
  rk_volume :: float64
  rk_trade_count :: int

definition close_time :: "strategy_candle \<Rightarrow> datetime" where
  "close_time k = rk_open_time k + rk_timeframe_ms k * 1000"

definition candle_range :: "strategy_candle \<Rightarrow> float64" where
  "candle_range k = fsub (rk_high k) (rk_low k)"

definition candle_body :: "strategy_candle \<Rightarrow> float64" where
  "candle_body k = \<bar>fsub (rk_close k) (rk_open k)\<bar>"

definition timeframe_milliseconds :: "string \<Rightarrow> int" where
  "timeframe_milliseconds tf =
     (if tf = ''1m'' then 60000 else if tf = ''5m'' then 300000 else if tf = ''15m'' then 900000 else 3600000)"

record candle_series =
  se_timeframe :: string
  se_candles :: "strategy_candle list"
  se_as_of :: datetime

text \<open>\<open>xs[-n:]\<close> for a positive \<open>n\<close>.\<close>

definition last_n :: "nat \<Rightarrow> 'a list \<Rightarrow> 'a list" where
  "last_n n xs = drop (length xs - n) xs"

definition timedelta_milliseconds :: "float64 \<Rightarrow> timedelta" where
  "timedelta_milliseconds x =
     (let whole = truncate_float x in whole * 1000 + round_half_even (fl (1000 * (x - of_int whole))))"

text \<open>Of the candles with one open time, which are neighbours once sorted, the last one stays.\<close>

fun last_revisions :: "strategy_candle list \<Rightarrow> strategy_candle list" where
  "last_revisions (k # k' # ks) =
     (if rk_open_time k = rk_open_time k' then last_revisions (k' # ks) else k # last_revisions (k' # ks))"
| "last_revisions ks = ks"

definition ordered_closed :: "strategy_candle list \<Rightarrow> datetime \<Rightarrow> strategy_candle list" where
  "ordered_closed cs as_of = last_revisions (sort_key rk_open_time (filter (\<lambda>k. close_time k \<le> as_of) cs))"

definition gap_between :: "timedelta \<Rightarrow> strategy_candle \<times> strategy_candle \<Rightarrow> bool" where
  "gap_between limit p \<longleftrightarrow>
     (let delta = rk_open_time (snd p) - rk_open_time (fst p) in delta \<le> 0 \<or> limit < delta)"

definition build_series ::
  "string \<Rightarrow> strategy_candle list \<Rightarrow> datetime \<Rightarrow> nat \<Rightarrow> float64 \<Rightarrow> setup_rejection_code + candle_series" where
  "build_series tf cs as_of minimum multiplier =
     (let ordered = ordered_closed cs as_of;
          limit = timedelta_milliseconds (fmul (of_int (timeframe_milliseconds tf)) multiplier) in
      if ordered = [] then
        Inl (if list_ex (\<lambda>k. as_of < close_time k) cs then SU_OPEN_CANDLE_ONLY else SU_INSUFFICIENT_CANDLE_HISTORY)
      else if length ordered < minimum then Inl SU_INSUFFICIENT_CANDLE_HISTORY
      else if list_ex (gap_between limit) (zip ordered (tl ordered)) then Inl SU_CANDLE_GAP
      else if limit < as_of - close_time (last ordered) then Inl SU_CANDLE_GAP
      else Inr \<lparr>se_timeframe = tf, se_candles = ordered, se_as_of = as_of\<rparr>)"

abbreviation se_length :: "candle_series \<Rightarrow> nat" where
  "se_length s \<equiv> length (se_candles s)"

abbreviation se_last :: "candle_series \<Rightarrow> strategy_candle" where
  "se_last s \<equiv> last (se_candles s)"

text \<open>What a series guarantees: candles, none of them open, one per open time, in order.\<close>

definition series_ok :: "candle_series \<Rightarrow> bool" where
  "series_ok s \<longleftrightarrow> se_candles s \<noteq> [] \<and> sorted_wrt (<) (map rk_open_time (se_candles s)) \<and>
     (\<forall>k \<in> set (se_candles s). close_time k \<le> se_as_of s)"

lemma last_revisions_subset: "set (last_revisions ks) \<subseteq> set ks"
  by (induction ks rule: last_revisions.induct) auto

lemma last_revisions_eq_Nil [simp]: "last_revisions ks = [] \<longleftrightarrow> ks = []"
  by (induction ks rule: last_revisions.induct) auto

lemma last_revisions_sorted:
  "sorted (map rk_open_time ks) \<Longrightarrow> sorted_wrt (<) (map rk_open_time (last_revisions ks))"
proof (induction ks rule: last_revisions.induct)
  case (1 k k' ks)
  show ?case
  proof (cases "rk_open_time k = rk_open_time k'")
    case False
    with 1 have "\<And>x. x \<in> set (last_revisions (k' # ks)) \<Longrightarrow> rk_open_time k < rk_open_time x"
      using last_revisions_subset by fastforce
    with False 1 show ?thesis by auto
  qed (use 1 in auto)
qed auto

lemma ordered_closed_sorted: "sorted_wrt (<) (map rk_open_time (ordered_closed cs t))"
  unfolding ordered_closed_def by (intro last_revisions_sorted) simp

lemma ordered_closed_closed: "k \<in> set (ordered_closed cs t) \<Longrightarrow> k \<in> set cs \<and> close_time k \<le> t"
  unfolding ordered_closed_def using last_revisions_subset by fastforce

lemma build_series_ok: "build_series tf cs t n x = Inr s \<Longrightarrow> series_ok s \<and> se_as_of s = t \<and> se_timeframe s = tf"
  using ordered_closed_sorted ordered_closed_closed
  by (auto simp: build_series_def series_ok_def Let_def split: if_splits)

text \<open>Candles that close later make no difference to a series.\<close>

lemma build_series_future:
  assumes "filter (\<lambda>k. close_time k \<le> t) cs = filter (\<lambda>k. close_time k \<le> t) cs'"
  shows "build_series tf cs t n x = Inr s \<longleftrightarrow> build_series tf cs' t n x = Inr s"
  using assms by (simp add: build_series_def ordered_closed_def Let_def)

section \<open>Results of the analysis\<close>

text \<open>A swing is identified by its timeframe, its side and the open time of its candle.\<close>

record swing =
  wi_timeframe :: string
  wi_type :: swing_type
  wi_price :: float64
  wi_candle_open_time :: datetime
  wi_confirmed_at :: datetime
  wi_strength :: float64
  wi_relevance :: float64

type_synonym swing_id = "string \<times> swing_type \<times> datetime"

definition id_of_swing :: "swing \<Rightarrow> swing_id" where
  "id_of_swing w = (wi_timeframe w, wi_type w, wi_candle_open_time w)"

text \<open>The details of events; the number of closes and their side are read back from the text by a rule.\<close>

datatype event_detail = Equal_Level | Moved_Bps float64 | Closes_Above nat float64 | Closes_Below nat float64
  | Character_Changed bool nat float64

record structure_event =
  sv_event_type :: structure_event_type
  sv_timeframe :: string
  sv_price :: float64
  sv_reference_swing_id :: "swing_id option"
  sv_confirm_close_time :: datetime
  sv_detail :: event_detail

record structure_analysis =
  sa_state :: structure_state
  sa_events :: "structure_event list"
  sa_swings :: "swing list"

record liquidity_level =
  ll_type :: liquidity_level_type
  ll_timeframe :: string
  ll_price :: float64
  ll_relevance :: float64
  ll_touches :: nat
  ll_is_major :: bool

record sweep_event =
  sx_level :: liquidity_level
  sx_direction :: sweep_direction
  sx_sweep_candle_open_time :: datetime
  sx_overshoot_bps :: float64
  sx_reacted :: bool
  sx_confirmed :: bool
  sx_confidence :: float64

record reclaim_event =
  rm_level_price :: float64
  rm_close_price :: float64
  rm_distance_bps :: float64
  rm_confirmed_at :: datetime
  rm_confidence :: float64

record rejection_event =
  rn_level_price :: float64
  rn_wick_ratio :: float64
  rn_close_position :: float64
  rn_followed_through :: bool
  rn_confirmed_at :: datetime
  rn_confidence :: float64

text \<open>A level a candidate refers to; the price is \<open>None\<close> when it is missing or no number.\<close>

record referenced_level =
  rl_price :: "float64 option"
  rl_kind :: "string option"
  rl_timeframe :: "string option"
  rl_relevance :: "float64 option"

end
