(* ===== verification/Risk_Model.thy ===== *)
theory Risk_Model
  imports Cost_Estimates Decimal28 Strategy_Model
begin

text \<open>
  The technical frame of a research plan (\<open>app/risk/\<close>): its settings and value objects, the rounding to the
  grid of the instrument, the entry zone, the invalidation, the distance between them, the targets and the
  size of the reference position.  Identifiers drawn at random and the texts of reasons are left out.
\<close>

section \<open>Vocabulary and settings\<close>

datatype plan_rejection_code =
    PC_CANDIDATE_NOT_CONFIRMED | PC_CANDIDATE_EXPIRED | PC_CANDIDATE_SUPERSEDED | PC_BOT_PAUSED
  | PC_SESSION_NOT_ALLOWED | PC_INSTRUMENT_RISK_DATA_MISSING | PC_INSTRUMENT_INACTIVE
  | PC_DATA_QUALITY_INSUFFICIENT | PC_ORDERBOOK_NOT_FRESH | PC_ORDERBOOK_DEPTH_INSUFFICIENT
  | PC_REFERENCE_ENTRY_UNAVAILABLE | PC_INVALIDATION_UNAVAILABLE | PC_INVALIDATION_WRONG_SIDE
  | PC_INVALIDATION_TOO_CLOSE | PC_INVALIDATION_TOO_FAR | PC_REFERENCE_TARGET_UNAVAILABLE | PC_TARGET_WRONG_SIDE
  | PC_MIN_NOTIONAL_VIOLATION | PC_REFERENCE_QUANTITY_INVALID | PC_MAX_LEVERAGE_UNAVAILABLE
  | PC_MARGIN_MODEL_UNAVAILABLE | PC_MAINTENANCE_MARGIN_UNAVAILABLE | PC_LIQUIDATION_BUFFER_INSUFFICIENT
  | PC_FEE_SCHEDULE_UNAVAILABLE | PC_EXECUTION_ASSUMPTION_UNAVAILABLE | PC_SLIPPAGE_MODEL_UNAVAILABLE
  | PC_SLIPPAGE_EXCESSIVE | PC_FUNDING_MODEL_UNAVAILABLE | PC_FUNDING_COST_EXCESSIVE | PC_EQUITY_OVERNIGHT_BLOCKED
  | PC_NET_TARGET_NON_POSITIVE | PC_NET_RR_BELOW_THRESHOLD | PC_COST_TO_RISK_EXCESSIVE
  | PC_ELIGIBILITY_SCORE_BELOW_THRESHOLD | PC_CONFIGURATION_INVALID | PC_PLAN_DUPLICATE | PC_EVALUATION_ERROR

datatype invalidation_basis = IB_SWEPT_LEVEL | IB_RECLAIM_LEVEL | IB_STRUCTURE_LEVEL | IB_RANGE_BOUNDARY

datatype entry_basis = EB_RECLAIM_LEVEL | EB_RETEST_ZONE | EB_BREAKOUT_CLOSE_ZONE | EB_STRUCTURE_LEVEL_ZONE

datatype target_level_type = TT_LIQUIDITY_POOL | TT_SWING_LEVEL | TT_RANGE_BOUNDARY | TT_EQUAL_LEVEL_CLUSTER

text \<open>How an evaluation stops early: with a structured code, or with an exception nothing catches.\<close>

datatype risk_stop = Stop plan_rejection_code | Uncaught

definition rbind :: "'e + 'a \<Rightarrow> ('a \<Rightarrow> 'e + 'b) \<Rightarrow> 'e + 'b" where
  "rbind x f = (case x of Inl e \<Rightarrow> Inl e | Inr a \<Rightarrow> f a)"

lemma rbind_simps [simp]: "rbind (Inl e) f = Inl e" "rbind (Inr a) f = f a"
  by (simp_all add: rbind_def)

lemma rbind_Inr_iff: "rbind x f = Inr y \<longleftrightarrow> (\<exists>a. x = Inr a \<and> f a = Inr y)"
  by (cases x) simp_all

record risk_settings =
  rg_engine_enabled :: bool
  rg_model_name :: string
  rg_model_version :: string
  rg_require_confirmed_candidate :: bool
  rg_allow_degraded_data :: bool
  rg_require_fresh_orderbook :: bool
  rg_max_active_plans_per_instrument :: int
  rg_plan_expiry_seconds :: float64
  rg_eligibility_min_score :: float64
  rg_virtual_reference_account_pusd :: float64
  rg_reference_risk_per_plan_pct :: float64
  rg_min_distance_bps :: float64
  rg_max_distance_bps :: float64
  rg_min_distance_atr_multiple :: float64
  rg_max_distance_atr_multiple :: float64
  rg_invalidation_buffer_bps :: float64
  rg_invalidation_buffer_atr_multiple :: float64
  rg_target_min_relevance_score :: float64
  rg_max_entry_chase_bps :: float64
  rg_max_reference_notional_pusd :: float64
  rg_max_reference_leverage :: float64
  rg_min_net_rr :: float64
  rg_max_cost_to_risk_pct :: float64
  rg_require_instrument_margin_data :: bool
  rg_allow_approximated_margin_model :: bool
  rg_approx_initial_margin_rate :: float64
  rg_approx_maintenance_margin_rate :: float64
  rg_min_liquidation_buffer_bps :: float64
  rg_min_liquidation_buffer_atr_multiple :: float64
  rg_margin_stress_buffer_bps :: float64
  rg_isolated_margin_only :: bool
  rg_score_weights :: "(string \<times> int) list"
  rg_symbol_overrides :: "(string \<times> (string \<times> float64) list) list"
  rg_asset_class_overrides :: "(string \<times> (string \<times> float64) list) list"

definition score_components :: "string list" where
  "score_components = [''invalidation_quality'', ''target_quality'', ''net_rr'', ''executability'', ''cost_quality'',
     ''margin_buffer'', ''data_confidence'']"

text \<open>What the validators of the settings let through; numbers are binary64 values.\<close>

definition valid_risk_settings :: "risk_settings \<Rightarrow> bool" where
  "valid_risk_settings s \<longleftrightarrow>
     set (map fst (rg_score_weights s)) = set score_components \<and> distinct (map fst (rg_score_weights s)) \<and>
     sum_list (map snd (rg_score_weights s)) = 100 \<and> list_all (\<lambda>(c, w). 0 \<le> w) (rg_score_weights s) \<and>
     1 \<le> rg_max_reference_leverage s \<and> rg_max_reference_leverage s \<le> 3 \<and>
     0 \<le> rg_eligibility_min_score s \<and> rg_eligibility_min_score s \<le> 100 \<and>
     0 < rg_reference_risk_per_plan_pct s \<and> rg_reference_risk_per_plan_pct s \<le> 5 \<and>
     0 < rg_max_cost_to_risk_pct s \<and> rg_max_cost_to_risk_pct s \<le> 100 \<and>
     0 < rg_approx_initial_margin_rate s \<and> rg_approx_initial_margin_rate s < 1 \<and>
     0 < rg_approx_maintenance_margin_rate s \<and> rg_approx_maintenance_margin_rate s < 1 \<and>
     0 < rg_virtual_reference_account_pusd s \<and> 0 < rg_max_reference_notional_pusd s \<and> 1 \<le> rg_min_net_rr s \<and>
     0 \<le> rg_min_distance_bps s \<and> 0 \<le> rg_max_distance_bps s \<and> 0 \<le> rg_min_distance_atr_multiple s \<and>
     0 \<le> rg_max_distance_atr_multiple s \<and> 0 \<le> rg_invalidation_buffer_bps s \<and>
     0 \<le> rg_invalidation_buffer_atr_multiple s \<and> 0 \<le> rg_min_liquidation_buffer_bps s \<and>
     0 \<le> rg_min_liquidation_buffer_atr_multiple s \<and> 0 \<le> rg_margin_stress_buffer_bps s \<and>
     0 \<le> rg_max_entry_chase_bps s"

definition default_risk_settings :: risk_settings where
  "default_risk_settings = \<lparr>rg_engine_enabled = True, rg_model_name = ''conservative_eligibility_v1'',
     rg_model_version = ''1.0.0'', rg_require_confirmed_candidate = True, rg_allow_degraded_data = False,
     rg_require_fresh_orderbook = True, rg_max_active_plans_per_instrument = 2, rg_plan_expiry_seconds = 1800,
     rg_eligibility_min_score = 75, rg_virtual_reference_account_pusd = 10000,
     rg_reference_risk_per_plan_pct = 1 / 2, rg_min_distance_bps = 15, rg_max_distance_bps = 400,
     rg_min_distance_atr_multiple = 1 / 2, rg_max_distance_atr_multiple = 4, rg_invalidation_buffer_bps = 5,
     rg_invalidation_buffer_atr_multiple = 1 / 4, rg_target_min_relevance_score = fl (3 / 10),
     rg_max_entry_chase_bps = 20, rg_max_reference_notional_pusd = 50000, rg_max_reference_leverage = 3,
     rg_min_net_rr = fl (18 / 10), rg_max_cost_to_risk_pct = 15, rg_require_instrument_margin_data = True,
     rg_allow_approximated_margin_model = False, rg_approx_initial_margin_rate = fl (34 / 100),
     rg_approx_maintenance_margin_rate = fl (1 / 10), rg_min_liquidation_buffer_bps = 150,
     rg_min_liquidation_buffer_atr_multiple = 1, rg_margin_stress_buffer_bps = 50, rg_isolated_margin_only = True,
     rg_score_weights = [(''invalidation_quality'', 20), (''target_quality'', 15), (''net_rr'', 25),
       (''executability'', 15), (''cost_quality'', 10), (''margin_buffer'', 10), (''data_confidence'', 5)],
     rg_symbol_overrides = [], rg_asset_class_overrides = []\<rparr>"

section \<open>Value objects\<close>

record candidate_snapshot =
  cx_candidate_id :: uuid
  cx_candidate_type :: string
  cx_direction :: string
  cx_state :: string
  cx_instrument_pk :: int
  cx_instrument_id :: int
  cx_symbol :: string
  cx_asset_class :: string
  cx_as_of :: datetime
  cx_expiry_at :: datetime
  cx_setup_score :: int
  cx_referenced_levels :: "referenced_level list"
  cx_strategy_name :: string
  cx_strategy_version :: string
  cx_strategy_config_hash :: string
  cx_atr_percentile_1h :: "float64 option"

definition cx_bullish :: "candidate_snapshot \<Rightarrow> bool" where
  "cx_bullish c \<longleftrightarrow> cx_direction c = ''BULLISH''"

text \<open>The tiers that parse: the lower bound and the maximal leverage.\<close>

record instrument_risk =
  ik_instrument_pk :: int
  ik_instrument_id :: int
  ik_symbol :: string
  ik_status :: string
  ik_asset_class :: string
  ik_mark_price :: "float64 option"
  ik_index_price :: "float64 option"
  ik_mid_price :: "float64 option"
  ik_max_leverage :: "int option"
  ik_min_notional :: "float64 option"
  ik_tick_size :: "float64 option"
  ik_price_decimals :: int
  ik_quantity_decimals :: int
  ik_risk_tiers :: "(float64 \<times> int) list"
  ik_maintenance_margin_rate :: "float64 option"
  ik_initial_margin_rate :: "float64 option"
  ik_data_quality_ok :: bool
  ik_orderbook_fresh :: bool
  ik_snapshot_version :: string
  ik_as_of :: datetime

definition ik_reference_price :: "instrument_risk \<Rightarrow> float64 option" where
  "ik_reference_price i = (case ik_mark_price i of Some p \<Rightarrow> Some p | None \<Rightarrow> ik_mid_price i)"

record technical_level =
  tl_price :: float64
  tl_kind :: string
  tl_timeframe :: string
  tl_relevance :: float64

record technical_invalidation =
  ti_candidate_id :: uuid
  ti_direction :: string
  ti_invalidation_price :: float64
  ti_reference_level_price :: float64
  ti_reference_level_type :: invalidation_basis
  ti_buffer_bps :: float64
  ti_buffer_atr_component :: float64
  ti_source_timeframe :: string
  ti_confidence :: float64
  ti_computed_at :: datetime

record entry_zone =
  ez_entry_low :: float64
  ez_entry_high :: float64
  ez_entry_reference_price :: float64
  ez_entry_basis :: entry_basis
  ez_direction :: string
  ez_valid_until :: datetime
  ez_bbo_snapshot_at :: "datetime option"
  ez_bbo_stale :: bool
  ez_execution_mode :: execution_mode

record reference_target =
  ta_price :: float64
  ta_target_type :: target_level_type
  ta_source_timeframe :: string
  ta_relevance :: float64
  ta_distance_bps :: float64
  ta_confidence :: float64

record risk_distance =
  di_absolute :: float64
  di_bps :: float64
  di_atr_value :: "float64 option"
  di_atr_multiple :: "float64 option"

record reference_position =
  pz_virtual_account_pusd :: float64
  pz_risk_per_plan_pct :: float64
  pz_reference_cash_risk :: float64
  pz_risk_per_unit :: float64
  pz_raw_quantity :: float64
  pz_reference_quantity :: float64
  pz_reference_notional :: float64
  pz_effective_cash_risk :: float64
  pz_quantity_decimals :: int

record risk_context =
  rx_candidate :: candidate_snapshot
  rx_instrument :: instrument_risk
  rx_book :: depth_snapshot
  rx_best_bid :: "float64 option"
  rx_best_ask :: "float64 option"
  rx_bbo_at :: "datetime option"
  rx_bbo_fresh :: bool
  rx_funding :: funding_snapshot
  rx_fee_schedule :: "fee_schedule option"
  rx_execution_assumptions :: execution_assumptions
  rx_levels :: "technical_level list"
  rx_atr_5m :: "float64 option"
  rx_atr_15m :: "float64 option"
  rx_session_state :: string
  rx_session_allowed :: bool
  rx_equity_overnight_risk :: bool
  rx_watchlist_active :: bool
  rx_bot_paused :: bool
  rx_as_of :: datetime
  rx_risk_config_hash :: string
  rx_cost_config_hash :: string

section \<open>Rounding to the grid\<close>

text \<open>
  \<open>str\<close> of a float is the shortest decimal that reads back as the float, the nearest one of that length.  Of
  \<open>n\<close> digits the neighbours of the value are tried; seventeen digits are always enough.
\<close>

definition shortest_at :: "nat \<Rightarrow> float64 \<Rightarrow> decimal option" where
  "shortest_at n x =
     (let u = 10 powi (ilog10 x - int n + 1);
          lower = of_int \<lfloor>x / u\<rfloor> * u; upper = of_int \<lceil>x / u\<rceil> * u;
          nearest = of_int (round_half_even (x / u)) * u in
      if fl lower = x \<and> fl upper = x then Some nearest
      else if fl lower = x then Some lower
      else if fl upper = x then Some upper
      else None)"

definition repr_decimal :: "float64 \<Rightarrow> decimal" where
  "repr_decimal x =
     (if x = 0 then 0
      else
        let shortest = (case List.map_filter (\<lambda>n. shortest_at n \<bar>x\<bar>) [1..<18] of [] \<Rightarrow> \<bar>x\<bar> | d # _ \<Rightarrow> d) in
        if x < 0 then - shortest else shortest)"

datatype rounding = ROUND_FLOOR | ROUND_CEILING | ROUND_HALF_EVEN

definition to_integral :: "rounding \<Rightarrow> decimal \<Rightarrow> int" where
  "to_integral r x = (case r of ROUND_FLOOR \<Rightarrow> \<lfloor>x\<rfloor> | ROUND_CEILING \<Rightarrow> \<lceil>x\<rceil> | ROUND_HALF_EVEN \<Rightarrow> round_half_even x)"

text \<open>\<open>quantize\<close>: a multiple of a power of ten; more than 28 digits raise \<open>InvalidOperation\<close>.\<close>

definition quantize :: "rounding \<Rightarrow> int \<Rightarrow> decimal \<Rightarrow> decimal option" where
  "quantize r e x =
     (let n = to_integral r (x / 10 powi e) in if \<bar>n\<bar> < 10 ^ 28 then Some (of_int n * 10 powi e) else None)"

definition tick_size_for :: "int \<Rightarrow> float64 option \<Rightarrow> decimal" where
  "tick_size_for decimals tick =
     (case tick of
        Some t \<Rightarrow> if 0 < t then repr_decimal t else 10 powi (- max 0 decimals)
      | None \<Rightarrow> 10 powi (- max 0 decimals))"

definition round_price :: "instrument_risk \<Rightarrow> rounding \<Rightarrow> float64 \<Rightarrow> risk_stop + float64" where
  "round_price i r x =
     (let tick = tick_size_for (ik_price_decimals i) (ik_tick_size i) in
      if tick \<le> 0 then Inr x
      else
        case quantize r 0 (ddiv (repr_decimal x) tick) of
          None \<Rightarrow> Inl Uncaught
        | Some ticks \<Rightarrow> Inr (fl (dmul ticks tick)))"

definition round_quantity_down :: "float64 \<Rightarrow> int \<Rightarrow> risk_stop + float64" where
  "round_quantity_down x decimals =
     (case quantize ROUND_FLOOR (- max 0 decimals) (repr_decimal x) of None \<Rightarrow> Inl Uncaught | Some q \<Rightarrow> Inr (fl q))"

section \<open>Entry zone and invalidation\<close>

definition entry_basis_of :: "string \<Rightarrow> entry_basis" where
  "entry_basis_of t =
     (if t \<in> {''BULLISH_SWEEP_REVERSAL'', ''BEARISH_SWEEP_REVERSAL''} then EB_RECLAIM_LEVEL
      else if t = ''BULLISH_RECLAIM_CONTINUATION'' then EB_RETEST_ZONE
      else if t \<in> {''RANGE_BREAKOUT_UP'', ''RANGE_BREAKOUT_DOWN''} then EB_BREAKOUT_CLOSE_ZONE
      else EB_STRUCTURE_LEVEL_ZONE)"

text \<open>The first level of the candidate, if its price is a positive number.\<close>

definition anchor_level :: "plan_rejection_code \<Rightarrow> candidate_snapshot \<Rightarrow> risk_stop + referenced_level \<times> float64" where
  "anchor_level code c =
     (case cx_referenced_levels c of
        [] \<Rightarrow> Inl (Stop code)
      | l # _ \<Rightarrow> (case rl_price l of
          None \<Rightarrow> Inl (Stop code)
        | Some p \<Rightarrow> if p \<le> 0 then Inl (Stop code) else Inr (l, p)))"

definition chased :: "bool \<Rightarrow> float64 \<Rightarrow> float64 \<Rightarrow> risk_settings \<Rightarrow> bool" where
  "chased bull anchor executable s =
     (let step = fdiv (rg_max_entry_chase_bps s) 10000 in
      if bull then fmul anchor (fadd 1 step) < executable else executable < fmul anchor (fsub 1 step))"

definition derive_entry_zone :: "risk_context \<Rightarrow> risk_settings \<Rightarrow> risk_stop + entry_zone" where
  "derive_entry_zone x s = rbind (anchor_level PC_REFERENCE_ENTRY_UNAVAILABLE (rx_candidate x)) (\<lambda>(l, anchor).
     let unavailable = Inl (Stop PC_REFERENCE_ENTRY_UNAVAILABLE); bull = cx_bullish (rx_candidate x);
         i = rx_instrument x in
     case (rx_bbo_fresh x, rx_best_bid x, rx_best_ask x, snapshot_spread_bps (rx_book x)) of
       (True, Some bid, Some ask, Some spread) \<Rightarrow>
         let executable = (if bull then ask else bid) in
         if fmul 2 (rg_max_entry_chase_bps s) < spread then unavailable
         else if chased bull anchor executable s then unavailable
         else
           rbind (round_price i ROUND_FLOOR (min anchor executable)) (\<lambda>low.
           rbind (round_price i ROUND_CEILING (max anchor executable)) (\<lambda>high.
           rbind (round_price i (if bull then ROUND_CEILING else ROUND_FLOOR) executable) (\<lambda>reference.
             Inr \<lparr>ez_entry_low = low, ez_entry_high = high, ez_entry_reference_price = reference,
               ez_entry_basis = entry_basis_of (cx_candidate_type (rx_candidate x)),
               ez_direction = cx_direction (rx_candidate x),
               ez_valid_until = rx_as_of x + timedelta_seconds (rg_plan_expiry_seconds s),
               ez_bbo_snapshot_at = rx_bbo_at x, ez_bbo_stale = (\<not> rx_bbo_fresh x),
               ez_execution_mode = ea_entry (rx_execution_assumptions x)\<rparr>)))
     | _ \<Rightarrow> unavailable)"

definition invalidation_basis_of :: "string \<Rightarrow> invalidation_basis" where
  "invalidation_basis_of t =
     (if t \<in> {''BULLISH_SWEEP_REVERSAL'', ''BEARISH_SWEEP_REVERSAL''} then IB_SWEPT_LEVEL
      else if t \<in> {''RANGE_BREAKOUT_UP'', ''RANGE_BREAKOUT_DOWN''} then IB_RANGE_BOUNDARY
      else IB_STRUCTURE_LEVEL)"

definition adverse_side :: "bool \<Rightarrow> float64 \<Rightarrow> float64 \<Rightarrow> bool" where
  "adverse_side bull invalidation entry = (if bull then invalidation < entry else entry < invalidation)"

definition derive_invalidation :: "risk_context \<Rightarrow> float64 \<Rightarrow> risk_settings \<Rightarrow> risk_stop + technical_invalidation" where
  "derive_invalidation x entry s = rbind (anchor_level PC_INVALIDATION_UNAVAILABLE (rx_candidate x)) (\<lambda>(l, level).
     case rx_atr_5m x of
       None \<Rightarrow> Inl (Stop PC_INVALIDATION_UNAVAILABLE)
     | Some atr \<Rightarrow>
         if atr \<le> 0 then Inl (Stop PC_INVALIDATION_UNAVAILABLE)
         else
           let bull = cx_bullish (rx_candidate x); basis = invalidation_basis_of (cx_candidate_type (rx_candidate x));
               atr_part = fmul atr (rg_invalidation_buffer_atr_multiple s);
               buffer = fadd (fdiv (fmul level (rg_invalidation_buffer_bps s)) 10000) atr_part in
           rbind (round_price (rx_instrument x) (if bull then ROUND_FLOOR else ROUND_CEILING)
             (if bull then fsub level buffer else fadd level buffer)) (\<lambda>price.
           if price \<le> 0 then Inl (Stop PC_INVALIDATION_UNAVAILABLE)
           else if \<not> adverse_side bull price entry then Inl (Stop PC_INVALIDATION_WRONG_SIDE)
           else Inr \<lparr>ti_candidate_id = cx_candidate_id (rx_candidate x), ti_direction = cx_direction (rx_candidate x),
             ti_invalidation_price = price, ti_reference_level_price = level, ti_reference_level_type = basis,
             ti_buffer_bps = rg_invalidation_buffer_bps s, ti_buffer_atr_component = atr_part,
             ti_source_timeframe = (case rl_timeframe l of None \<Rightarrow> ''15m'' | Some t \<Rightarrow> t),
             ti_confidence = (if basis = IB_STRUCTURE_LEVEL then fl (7 / 10) else fl (8 / 10)),
             ti_computed_at = rx_as_of x\<rparr>))"

section \<open>Distance, targets and size\<close>

definition compute_risk_distance :: "float64 \<Rightarrow> float64 \<Rightarrow> float64 option \<Rightarrow> risk_distance" where
  "compute_risk_distance entry invalidation atr =
     (let gap = \<bar>fsub entry invalidation\<bar> in
      \<lparr>di_absolute = gap, di_bps = (if 0 < entry then fmul (fdiv gap entry) 10000 else 0), di_atr_value = atr,
       di_atr_multiple = (case atr of None \<Rightarrow> None | Some a \<Rightarrow> if 0 < a then Some (fdiv gap a) else None)\<rparr>)"

definition validate_risk_distance :: "risk_distance \<Rightarrow> risk_settings \<Rightarrow> plan_rejection_code option" where
  "validate_risk_distance d s =
     (if di_absolute d \<le> 0 then Some PC_INVALIDATION_WRONG_SIDE
      else if di_bps d < rg_min_distance_bps s then Some PC_INVALIDATION_TOO_CLOSE
      else if rg_max_distance_bps s < di_bps d then Some PC_INVALIDATION_TOO_FAR
      else
        case di_atr_multiple d of
          None \<Rightarrow> Some PC_INVALIDATION_UNAVAILABLE
        | Some m \<Rightarrow>
            if m < rg_min_distance_atr_multiple s then Some PC_INVALIDATION_TOO_CLOSE
            else if rg_max_distance_atr_multiple s < m then Some PC_INVALIDATION_TOO_FAR
            else None)"

definition max_targets :: nat where
  "max_targets = 3"

definition target_type_of :: "string \<Rightarrow> target_level_type" where
  "target_type_of kind =
     (if kind \<in> {''SWING_HIGH'', ''SWING_LOW''} then TT_SWING_LEVEL
      else if kind \<in> {''RANGE_HIGH'', ''RANGE_LOW''} then TT_RANGE_BOUNDARY
      else if kind \<in> {''EQUAL_HIGHS'', ''EQUAL_LOWS''} then TT_EQUAL_LEVEL_CLUSTER
      else TT_LIQUIDITY_POOL)"

definition reference_target_of :: "float64 \<Rightarrow> technical_level \<Rightarrow> reference_target" where
  "reference_target_of entry l = \<lparr>ta_price = tl_price l, ta_target_type = target_type_of (tl_kind l),
     ta_source_timeframe = tl_timeframe l, ta_relevance = tl_relevance l,
     ta_distance_bps = fmul (fdiv \<bar>fsub (tl_price l) entry\<bar> entry) 10000,
     ta_confidence = min (fl (9 / 10)) (tl_relevance l)\<rparr>"

definition derive_targets :: "risk_context \<Rightarrow> float64 \<Rightarrow> risk_settings \<Rightarrow> risk_stop + reference_target list" where
  "derive_targets x entry s =
     (let bull = cx_bullish (rx_candidate x);
          relevant = filter (\<lambda>l. 0 < tl_price l \<and> rg_target_min_relevance_score s \<le> tl_relevance l) (rx_levels x);
          gap = fdiv (fmul entry (rg_min_distance_bps s)) 10000;
          beyond = filter (\<lambda>l. if bull then fadd entry gap < tl_price l else tl_price l < fsub entry gap) relevant;
          nearest_first = sort_key (\<lambda>l. if bull then tl_price l else - tl_price l) beyond in
      if entry \<le> 0 then Inl (Stop PC_REFERENCE_TARGET_UNAVAILABLE)
      else if relevant = [] then Inl (Stop PC_REFERENCE_TARGET_UNAVAILABLE)
      else if beyond = [] then Inl (Stop PC_TARGET_WRONG_SIDE)
      else Inr (map (reference_target_of entry) (take max_targets nearest_first)))"

text \<open>The quantity under the cap on the notional; what is too small for the instrument is refused.\<close>

definition capped_quantity ::
  "instrument_risk \<Rightarrow> float64 \<Rightarrow> float64 \<Rightarrow> float64 \<Rightarrow> risk_settings \<Rightarrow> risk_stop + float64" where
  "capped_quantity i entry quantity minimum s =
     (if fmul quantity entry < minimum then Inl (Stop PC_MIN_NOTIONAL_VIOLATION)
      else if \<not> rg_max_reference_notional_pusd s < fmul quantity entry then Inr quantity
      else
        rbind (round_quantity_down (fdiv (rg_max_reference_notional_pusd s) entry) (ik_quantity_decimals i)) (\<lambda>q.
          if q \<le> 0 then Inl (Stop PC_REFERENCE_QUANTITY_INVALID)
          else if fmul q entry < minimum then Inl (Stop PC_MIN_NOTIONAL_VIOLATION)
          else Inr q))"

definition size_reference_position ::
  "instrument_risk \<Rightarrow> float64 \<Rightarrow> risk_distance \<Rightarrow> risk_settings \<Rightarrow> risk_stop + reference_position" where
  "size_reference_position i entry d s =
     (let cash = fdiv (fmul (rg_virtual_reference_account_pusd s) (rg_reference_risk_per_plan_pct s)) 100;
          raw = fdiv cash (di_absolute d) in
      if entry \<le> 0 \<or> di_absolute d \<le> 0 then Inl (Stop PC_REFERENCE_QUANTITY_INVALID)
      else
        rbind (round_quantity_down raw (ik_quantity_decimals i)) (\<lambda>first.
        if first \<le> 0 then Inl (Stop PC_REFERENCE_QUANTITY_INVALID)
        else
          case ik_min_notional i of
            None \<Rightarrow> Inl (Stop PC_INSTRUMENT_RISK_DATA_MISSING)
          | Some minimum \<Rightarrow>
              rbind (capped_quantity i entry first minimum s) (\<lambda>quantity.
              let effective = fmul quantity (di_absolute d) in
              if effective \<le> 0 \<or> fmul cash (fl (10001 / 10000)) < effective then Inl (Stop PC_REFERENCE_QUANTITY_INVALID)
              else Inr \<lparr>pz_virtual_account_pusd = rg_virtual_reference_account_pusd s,
                pz_risk_per_plan_pct = rg_reference_risk_per_plan_pct s, pz_reference_cash_risk = cash,
                pz_risk_per_unit = di_absolute d, pz_raw_quantity = raw, pz_reference_quantity = quantity,
                pz_reference_notional = fmul quantity entry, pz_effective_cash_risk = effective,
                pz_quantity_decimals = ik_quantity_decimals i\<rparr>)))"

end
