(* ===== verification/Risk_Engine.thy ===== *)
theory Risk_Engine
  imports Risk_Model Float_Scores
begin

text \<open>
  The evaluation of a candidate (\<open>risk_engine.py\<close>): the hard gates, the isolated margin model and the buffer to
  the hypothetical liquidation, the range of leverage, the gates on costs, the score and the plan.
\<close>

section \<open>Margin and leverage\<close>

datatype margin_model_mode = MM_UNAVAILABLE | MM_PUBLIC_RATES | MM_APPROXIMATED

record margin_model =
  mm_mode :: margin_model_mode
  mm_approximated :: bool
  mm_initial_margin_rate :: float64
  mm_maintenance_margin_rate :: float64
  mm_required_initial :: float64
  mm_maintenance :: float64
  mm_liquidation_price :: float64
  mm_reference_leverage :: float64
  mm_mark_price :: float64

definition plausible_rates :: "float64 \<Rightarrow> float64 \<Rightarrow> bool" where
  "plausible_rates initial maintenance \<longleftrightarrow> 0 < maintenance \<and> maintenance < initial \<and> initial < 1"

definition resolve_rates ::
  "instrument_risk \<Rightarrow> risk_settings \<Rightarrow> plan_rejection_code + float64 \<times> float64 \<times> bool" where
  "resolve_rates i s =
     (case (ik_initial_margin_rate i, ik_maintenance_margin_rate i) of
        (Some imr, Some mmr) \<Rightarrow> if plausible_rates imr mmr then Inr (imr, mmr, False) else Inl PC_MARGIN_MODEL_UNAVAILABLE
      | (None, Some _) \<Rightarrow> Inl PC_MARGIN_MODEL_UNAVAILABLE
      | (Some _, None) \<Rightarrow> Inl PC_MAINTENANCE_MARGIN_UNAVAILABLE
      | (None, None) \<Rightarrow>
          if rg_require_instrument_margin_data s \<and> \<not> rg_allow_approximated_margin_model s then
            Inl PC_MARGIN_MODEL_UNAVAILABLE
          else if \<not> rg_allow_approximated_margin_model s then Inl PC_MARGIN_MODEL_UNAVAILABLE
          else if \<not> plausible_rates (rg_approx_initial_margin_rate s) (rg_approx_maintenance_margin_rate s) then
            Inl PC_CONFIGURATION_INVALID
          else Inr (rg_approx_initial_margin_rate s, rg_approx_maintenance_margin_rate s, True))"

definition liquidation_from ::
  "bool \<Rightarrow> float64 \<Rightarrow> float64 \<Rightarrow> float64 \<Rightarrow> float64 \<Rightarrow> float64" where
  "liquidation_from bull leverage mmr stress anchor =
     (if bull then fmul anchor (fadd (fadd (fsub 1 (fdiv 1 leverage)) mmr) stress)
      else fmul anchor (fsub (fsub (fadd 1 (fdiv 1 leverage)) mmr) stress))"

text \<open>Only a leverage above the bound of the initial margin lets the search go on.\<close>

datatype margin_error = Leverage_Too_High | Margin_Error plan_rejection_code

definition build_margin_model ::
  "instrument_risk \<Rightarrow> float64 \<Rightarrow> float64 \<Rightarrow> float64 \<Rightarrow> bool \<Rightarrow> risk_settings \<Rightarrow> margin_error + margin_model" where
  "build_margin_model i entry notional leverage bull s =
     (if \<not> rg_isolated_margin_only s then Inl (Margin_Error PC_CONFIGURATION_INVALID)
      else if leverage < 1 then Inl (Margin_Error PC_CONFIGURATION_INVALID)
      else
        case ik_mark_price i of
          None \<Rightarrow> Inl (Margin_Error PC_INSTRUMENT_RISK_DATA_MISSING)
        | Some mark \<Rightarrow>
            if mark \<le> 0 then Inl (Margin_Error PC_INSTRUMENT_RISK_DATA_MISSING)
            else
              case resolve_rates i s of
                Inl c \<Rightarrow> Inl (Margin_Error c)
              | Inr (imr, mmr, approximated) \<Rightarrow>
                  if fdiv 1 imr < leverage then Inl Leverage_Too_High
                  else
                    let from = liquidation_from bull leverage mmr (fdiv (rg_margin_stress_buffer_bps s) 10000) in
                    Inr \<lparr>mm_mode = (if approximated then MM_APPROXIMATED else MM_PUBLIC_RATES),
                      mm_approximated = approximated, mm_initial_margin_rate = imr,
                      mm_maintenance_margin_rate = mmr,
                      mm_required_initial = max (fdiv notional leverage) (fmul notional imr),
                      mm_maintenance = fmul notional mmr,
                      mm_liquidation_price =
                        (if bull then max (from entry) (from mark) else min (from entry) (from mark)),
                      mm_reference_leverage = leverage, mm_mark_price = mark\<rparr>)"

record liquidation_buffer =
  lb_sufficient :: bool
  lb_buffer_abs :: float64
  lb_buffer_bps :: float64
  lb_buffer_atr_multiple :: "float64 option"

definition check_liquidation_buffer ::
  "float64 \<Rightarrow> margin_model \<Rightarrow> float64 option \<Rightarrow> bool \<Rightarrow> risk_settings \<Rightarrow> liquidation_buffer" where
  "check_liquidation_buffer invalidation m atr bull s =
     (let gap = (if bull then fsub invalidation (mm_liquidation_price m) else fsub (mm_liquidation_price m) invalidation);
          bps = fmul (fdiv gap (mm_mark_price m)) 10000;
          multiple = (case atr of None \<Rightarrow> None | Some a \<Rightarrow> if 0 < a then Some (fdiv gap a) else None) in
      \<lparr>lb_sufficient = (0 < gap \<and> rg_min_liquidation_buffer_bps s \<le> bps \<and>
         (case multiple of None \<Rightarrow> False | Some m \<Rightarrow> rg_min_liquidation_buffer_atr_multiple s \<le> m)),
       lb_buffer_abs = gap, lb_buffer_bps = bps, lb_buffer_atr_multiple = multiple\<rparr>)"

record leverage_range =
  lv_allowed_min :: float64
  lv_allowed_max :: float64
  lv_recommended :: float64
  lv_max_market :: int
  lv_required_initial :: float64
  lv_maintenance :: float64
  lv_buffer_bps :: float64
  lv_model_confidence :: float64

text \<open>The tier with the greatest bound the notional reaches, the last one among equals.\<close>

definition tier_step :: "float64 \<Rightarrow> float64 \<times> int \<Rightarrow> float64 \<times> int option \<Rightarrow> float64 \<times> int option" where
  "tier_step notional tier best =
     (if fst tier \<le> notional \<and> fst best \<le> fst tier \<and> 0 < snd tier then (fst tier, Some (snd tier)) else best)"

definition tier_cap :: "instrument_risk \<Rightarrow> float64 \<Rightarrow> int option" where
  "tier_cap i notional = snd (fold (tier_step notional) (ik_risk_tiers i) (- 1, None))"

definition lowered :: "bool \<Rightarrow> float64 \<Rightarrow> float64 \<Rightarrow> float64" where
  "lowered condition step cap = (if condition \<and> max 1 (fsub cap step) < cap then max 1 (fsub cap step) else cap)"

definition leverage_cap ::
  "instrument_risk \<Rightarrow> int \<Rightarrow> float64 \<Rightarrow> float64 option \<Rightarrow> float64 option \<Rightarrow> bool \<Rightarrow> risk_settings \<Rightarrow> float64" where
  "leverage_cap i market notional atr_percentile spread thin s =
     (let base = min (rg_max_reference_leverage s) (of_int market);
          tiered = (case tier_cap i notional of None \<Rightarrow> base | Some t \<Rightarrow> if of_int t < base then of_int t else base) in
      lowered thin (1 / 2)
        (lowered (case spread of None \<Rightarrow> False | Some b \<Rightarrow> 10 < b) (1 / 2)
          (lowered (case atr_percentile of None \<Rightarrow> False | Some p \<Rightarrow> 75 \<le> p) 1 tiered)))"

text \<open>
  The levels of the loop, half a step down from the cap to one.  The cap is at most three, so five rounds end
  the loop (\<open>leverage_levels_enough\<close>); the fuel is six.
\<close>

fun leverage_levels :: "nat \<Rightarrow> float64 \<Rightarrow> float64 list" where
  "leverage_levels 0 level = []"
| "leverage_levels (Suc fuel) level =
     (if fl (1 - fl (1 / 10 ^ 9)) \<le> level then round_to 2 level # leverage_levels fuel (fsub level (1 / 2)) else [])"

definition leverage_candidates :: "float64 \<Rightarrow> float64 list" where
  "leverage_candidates cap =
     (let levels = leverage_levels 6 cap in if levels = [] \<or> 1 < last levels then levels @ [1] else levels)"

text \<open>The first candidate whose buffer holds; \<open>tried\<close> says whether a margin model could be built.\<close>

fun search_leverage ::
  "instrument_risk \<Rightarrow> float64 \<Rightarrow> float64 \<Rightarrow> float64 \<Rightarrow> bool \<Rightarrow> float64 option \<Rightarrow> risk_settings \<Rightarrow> bool \<Rightarrow> float64 list \<Rightarrow>
     plan_rejection_code + float64 \<times> margin_model \<times> liquidation_buffer" where
  "search_leverage i entry invalidation notional bull atr s tried [] =
     Inl (if tried then PC_LIQUIDATION_BUFFER_INSUFFICIENT else PC_MARGIN_MODEL_UNAVAILABLE)"
| "search_leverage i entry invalidation notional bull atr s tried (l # ls) =
     (case build_margin_model i entry notional l bull s of
        Inl (Margin_Error c) \<Rightarrow> Inl c
      | Inl Leverage_Too_High \<Rightarrow> search_leverage i entry invalidation notional bull atr s tried ls
      | Inr m \<Rightarrow>
          let b = check_liquidation_buffer invalidation m atr bull s in
          if lb_sufficient b then Inr (l, m, b)
          else search_leverage i entry invalidation notional bull atr s True ls)"

definition determine_leverage_suitability ::
  "risk_context \<Rightarrow> float64 \<Rightarrow> float64 \<Rightarrow> float64 \<Rightarrow> risk_settings \<Rightarrow>
     plan_rejection_code + leverage_range \<times> margin_model \<times> liquidation_buffer" where
  "determine_leverage_suitability x entry invalidation notional s =
     (let i = rx_instrument x;
          thin = (fu_current_rate (rx_funding x) = None \<or> length (fu_history (rx_funding x)) < 3) in
      case ik_max_leverage i of
        None \<Rightarrow> Inl PC_MAX_LEVERAGE_UNAVAILABLE
      | Some market \<Rightarrow>
          if market < 1 then Inl PC_MAX_LEVERAGE_UNAVAILABLE
          else
            case search_leverage i entry invalidation notional (cx_bullish (rx_candidate x)) (rx_atr_5m x) s False
                (leverage_candidates (leverage_cap i market notional (cx_atr_percentile_1h (rx_candidate x))
                  (snapshot_spread_bps (rx_book x)) thin s)) of
              Inl c \<Rightarrow> Inl c
            | Inr (l, m, b) \<Rightarrow>
                Inr (\<lparr>lv_allowed_min = 1, lv_allowed_max = l, lv_recommended = l, lv_max_market = market,
                  lv_required_initial = mm_required_initial m, lv_maintenance = mm_maintenance m,
                  lv_buffer_bps = lb_buffer_bps b,
                  lv_model_confidence = (if mm_approximated m then 1 / 2 else fl (8 / 10))\<rparr>, m, b))"

section \<open>Gates on the costs\<close>

definition validate_cost_estimate :: "cost_estimate \<Rightarrow> risk_settings \<Rightarrow> plan_rejection_code option" where
  "validate_cost_estimate e s =
     (if ce_gross_invalidation_loss e \<le> 0 then Some PC_INVALIDATION_WRONG_SIDE
      else if ce_net_invalidation_loss e \<le> 0 then Some PC_EVALUATION_ERROR
      else if rg_max_cost_to_risk_pct s
          < fmul (fdiv (fp_expected_cost (ce_funding e)) (ce_gross_invalidation_loss e)) 100 then
        Some PC_FUNDING_COST_EXCESSIVE
      else
        case primary_target e of
          None \<Rightarrow> Some PC_REFERENCE_TARGET_UNAVAILABLE
        | Some t \<Rightarrow>
            if tb_net_target_pnl t \<le> 0 then Some PC_NET_TARGET_NON_POSITIVE
            else if (case tb_net_rr t of None \<Rightarrow> True | Some r \<Rightarrow> r < rg_min_net_rr s) then Some PC_NET_RR_BELOW_THRESHOLD
            else if rg_max_cost_to_risk_pct s < ce_cost_to_risk_pct e then Some PC_COST_TO_RISK_EXCESSIVE
            else None)"

section \<open>The score\<close>

definition invalidation_fraction :: "technical_invalidation \<Rightarrow> risk_distance \<Rightarrow> float64" where
  "invalidation_fraction ti d =
     clamp (fmul (ti_confidence ti)
       (case di_atr_multiple d of None \<Rightarrow> fl (7 / 10) | Some m \<Rightarrow> if 1 \<le> m \<and> m \<le> 5 / 2 then 1 else fl (7 / 10)))"

definition target_fraction :: "reference_target list \<Rightarrow> float64" where
  "target_fraction ts =
     clamp (fadd (case ts of [] \<Rightarrow> 0 | t # _ \<Rightarrow> ta_relevance t) (fmul (fl (1 / 10)) (of_int (max 0 (int (length ts) - 1)))))"

definition slippage_pct :: "cost_estimate \<Rightarrow> float64" where
  "slippage_pct e =
     (if 0 < ce_gross_invalidation_loss e
      then fmul (fdiv (fadd (le_slippage_cost (ce_entry e)) (le_slippage_cost (ce_invalidation e)))
        (ce_gross_invalidation_loss e)) 100
      else 100)"

definition primary_net_rr :: "cost_estimate \<Rightarrow> float64" where
  "primary_net_rr e = (case primary_target e of None \<Rightarrow> 0 | Some t \<Rightarrow> (case tb_net_rr t of None \<Rightarrow> 0 | Some r \<Rightarrow> r))"

definition buffer_fraction :: "liquidation_buffer \<Rightarrow> risk_settings \<Rightarrow> float64" where
  "buffer_fraction b s =
     (if 0 < rg_min_liquidation_buffer_bps s
      then clamp (fdiv (lb_buffer_bps b) (fmul 2 (rg_min_liquidation_buffer_bps s))) else 0)"

definition confidence_fraction :: "margin_model \<Rightarrow> cost_estimate \<Rightarrow> float64" where
  "confidence_fraction m e =
     (let c1 = (if mm_approximated m then fsub 1 (fl (4 / 10)) else 1);
          c2 = (if fp_state (ce_funding e) \<noteq> FM_MODELED then fsub c1 (fl (3 / 10)) else c1) in
      clamp (fsub c2 (fmul (fl (1 / 10)) (if ce_buffer_warning e then 1 else 0))))"

definition score_fractions ::
  "technical_invalidation \<Rightarrow> risk_distance \<Rightarrow> reference_target list \<Rightarrow> cost_estimate \<Rightarrow> liquidation_buffer \<Rightarrow>
     margin_model \<Rightarrow> risk_settings \<Rightarrow> (string \<times> float64) list" where
  "score_fractions ti d ts e b m s =
     [(''invalidation_quality'', invalidation_fraction ti d), (''target_quality'', target_fraction ts),
      (''net_rr'', clamp (fsub (fdiv (primary_net_rr e) (rg_min_net_rr s)) (1 / 2))),
      (''executability'', clamp (fsub 1 (fdiv (slippage_pct e) (rg_max_cost_to_risk_pct s)))),
      (''cost_quality'', clamp (fsub 1 (fdiv (ce_cost_to_risk_pct e) (rg_max_cost_to_risk_pct s)))),
      (''margin_buffer'', buffer_fraction b s), (''data_confidence'', confidence_fraction m e)]"

text \<open>The divisions by the two limits raise when an override set one to zero.\<close>

definition compute_eligibility_score ::
  "technical_invalidation \<Rightarrow> risk_distance \<Rightarrow> reference_target list \<Rightarrow> cost_estimate \<Rightarrow> liquidation_buffer \<Rightarrow>
     margin_model \<Rightarrow> risk_settings \<Rightarrow> risk_stop + int \<times> (string \<times> int \<times> float64) list" where
  "compute_eligibility_score ti d ts e b m s =
     (if rg_min_net_rr s = 0 \<or> rg_max_cost_to_risk_pct s = 0 then Inl Uncaught
      else
        let fractions = score_fractions ti d ts e b m s;
            components = map (\<lambda>w. (fst w, snd w, awarded fractions w)) (rg_score_weights s) in
        Inr (round_half_even (foldl fadd 0 (map (snd \<circ> snd) components)), components))"

section \<open>The plan\<close>

record eligibility_plan =
  ep_candidate :: candidate_snapshot
  ep_instrument :: instrument_risk
  ep_entry_zone :: entry_zone
  ep_invalidation :: technical_invalidation
  ep_targets :: "reference_target list"
  ep_risk_distance :: risk_distance
  ep_position :: reference_position
  ep_leverage :: leverage_range
  ep_margin :: margin_model
  ep_liquidation_buffer :: liquidation_buffer
  ep_costs :: cost_estimate
  ep_eligibility_score :: int
  ep_score_components :: "(string \<times> int \<times> float64) list"
  ep_as_of :: datetime
  ep_expiry_at :: datetime

record risk_plan_rejection =
  pj_candidate_id :: uuid
  pj_instrument_pk :: int
  pj_instrument_id :: int
  pj_symbol :: string
  pj_as_of :: datetime
  pj_primary_code :: plan_rejection_code
  pj_codes :: "plan_rejection_code list"
  pj_risk_config_hash :: string
  pj_cost_config_hash :: string
  pj_fee_schedule_version :: "string option"

definition build_plan_rejection :: "risk_context \<Rightarrow> plan_rejection_code \<Rightarrow> risk_plan_rejection" where
  "build_plan_rejection x c =
     (let k = rx_candidate x in
      \<lparr>pj_candidate_id = cx_candidate_id k, pj_instrument_pk = cx_instrument_pk k,
       pj_instrument_id = cx_instrument_id k, pj_symbol = cx_symbol k, pj_as_of = rx_as_of x, pj_primary_code = c,
       pj_codes = [c], pj_risk_config_hash = rx_risk_config_hash x, pj_cost_config_hash = rx_cost_config_hash x,
       pj_fee_schedule_version = map_option fs_version (rx_fee_schedule x)\<rparr>)"

datatype risk_outcome = Outcome_Plan eligibility_plan | Outcome_Rejected risk_plan_rejection | Outcome_Raised

text \<open>Overrides for an asset class, then those for a symbol; the cap on leverage survives them.\<close>

definition override_setting :: "string \<times> float64 \<Rightarrow> risk_settings \<Rightarrow> risk_settings" where
  "override_setting kv s =
     (let (key, v) = kv in
      if key = ''min_net_rr'' then s\<lparr>rg_min_net_rr := v\<rparr>
      else if key = ''max_cost_to_risk_pct'' then s\<lparr>rg_max_cost_to_risk_pct := v\<rparr>
      else if key = ''min_distance_bps'' then s\<lparr>rg_min_distance_bps := v\<rparr>
      else if key = ''max_distance_bps'' then s\<lparr>rg_max_distance_bps := v\<rparr>
      else if key = ''reference_risk_per_plan_pct'' then s\<lparr>rg_reference_risk_per_plan_pct := v\<rparr>
      else if key = ''max_reference_leverage'' then s\<lparr>rg_max_reference_leverage := min 3 v\<rparr>
      else if key = ''eligibility_min_score'' then s\<lparr>rg_eligibility_min_score := v\<rparr>
      else s)"

definition overrides_for :: "(string \<times> (string \<times> float64) list) list \<Rightarrow> string \<Rightarrow> (string \<times> float64) list" where
  "overrides_for os name = (case map_of os name of None \<Rightarrow> [] | Some kvs \<Rightarrow> kvs)"

definition effective_risk_settings :: "risk_settings \<Rightarrow> string \<Rightarrow> string \<Rightarrow> risk_settings" where
  "effective_risk_settings s name asset_class =
     fold override_setting
       (overrides_for (rg_asset_class_overrides s) asset_class @ overrides_for (rg_symbol_overrides s) name) s"

text \<open>The code of a cost error, if the plan knows it.\<close>

definition map_cost_error :: "cost_error \<Rightarrow> plan_rejection_code" where
  "map_cost_error e = (case map_of
     [(''CONFIGURATION_INVALID'', PC_CONFIGURATION_INVALID),
      (''REFERENCE_TARGET_UNAVAILABLE'', PC_REFERENCE_TARGET_UNAVAILABLE),
      (''SLIPPAGE_MODEL_UNAVAILABLE'', PC_SLIPPAGE_MODEL_UNAVAILABLE), (''ORDERBOOK_NOT_FRESH'', PC_ORDERBOOK_NOT_FRESH),
      (''ORDERBOOK_DEPTH_INSUFFICIENT'', PC_ORDERBOOK_DEPTH_INSUFFICIENT),
      (''FUNDING_MODEL_UNAVAILABLE'', PC_FUNDING_MODEL_UNAVAILABLE),
      (''INVALIDATION_WRONG_SIDE'', PC_INVALIDATION_WRONG_SIDE), (''SLIPPAGE_EXCESSIVE'', PC_SLIPPAGE_EXCESSIVE),
      (''FEE_SCHEDULE_UNAVAILABLE'', PC_FEE_SCHEDULE_UNAVAILABLE)] e of
     None \<Rightarrow> PC_EVALUATION_ERROR | Some c \<Rightarrow> c)"

section \<open>The evaluation\<close>

definition hard_gate :: "risk_context \<Rightarrow> risk_settings \<Rightarrow> cost_settings \<Rightarrow> plan_rejection_code option" where
  "hard_gate x s cs =
     (let k = rx_candidate x; i = rx_instrument x in
      if rx_bot_paused x then Some PC_BOT_PAUSED
      else if \<not> rx_watchlist_active x then Some PC_INSTRUMENT_INACTIVE
      else if \<not> rx_session_allowed x then Some PC_SESSION_NOT_ALLOWED
      else if cx_state k = ''EXPIRED'' \<or> cx_expiry_at k \<le> rx_as_of x then Some PC_CANDIDATE_EXPIRED
      else if cx_state k = ''SUPERSEDED'' then Some PC_CANDIDATE_SUPERSEDED
      else if rg_require_confirmed_candidate s \<and> cx_state k \<noteq> ''CONFIRMED'' then Some PC_CANDIDATE_NOT_CONFIRMED
      else if ik_status i \<noteq> ''ACTIVE'' then Some PC_INSTRUMENT_INACTIVE
      else if \<not> ik_data_quality_ok i then Some PC_DATA_QUALITY_INSUFFICIENT
      else if rg_require_fresh_orderbook s \<and> \<not> (ik_orderbook_fresh i \<and> ds_fresh (rx_book x)) then
        Some PC_ORDERBOOK_NOT_FRESH
      else if ik_reference_price i = None then Some PC_INSTRUMENT_RISK_DATA_MISSING
      else if ik_min_notional i = None then Some PC_INSTRUMENT_RISK_DATA_MISSING
      else if (case ik_max_leverage i of None \<Rightarrow> True | Some m \<Rightarrow> m < 1) then Some PC_MAX_LEVERAGE_UNAVAILABLE
      else if (case rx_fee_schedule x of None \<Rightarrow> True | Some f \<Rightarrow> \<not> fs_active f) then Some PC_FEE_SCHEDULE_UNAVAILABLE
      else if cx_asset_class k = ''EQUITY'' \<and> cs_equity_overnight_blocked cs \<and> rx_equity_overnight_risk x then
        Some PC_EQUITY_OVERNIGHT_BLOCKED
      else None)"

definition stop_if :: "plan_rejection_code option \<Rightarrow> risk_stop + unit" where
  "stop_if c = (case c of None \<Rightarrow> Inr () | Some c \<Rightarrow> Inl (Stop c))"

definition stop_code :: "plan_rejection_code + 'a \<Rightarrow> risk_stop + 'a" where
  "stop_code x = map_sum Stop id x"

definition plan_cost_query ::
  "risk_context \<Rightarrow> fee_schedule \<Rightarrow> entry_zone \<Rightarrow> technical_invalidation \<Rightarrow> reference_target list \<Rightarrow>
     reference_position \<Rightarrow> cost_query" where
  "plan_cost_query x f ez ti ts pz =
     \<lparr>cq_bullish = cx_bullish (rx_candidate x), cq_entry_reference_price = ez_entry_reference_price ez,
      cq_invalidation_price = ti_invalidation_price ti, cq_target_prices = map ta_price ts,
      cq_quantity = pz_reference_quantity pz, cq_book = rx_book x, cq_funding = rx_funding x, cq_fee_schedule = f,
      cq_as_of = rx_as_of x, cq_hold_minutes = None, cq_assumptions = Some (rx_execution_assumptions x)\<rparr>"

definition plan_of ::
  "risk_context \<Rightarrow> risk_settings \<Rightarrow> cost_settings \<Rightarrow> fee_schedule \<Rightarrow> risk_stop + eligibility_plan" where
  "plan_of x s cs f =
     rbind (derive_entry_zone x s) (\<lambda>ez.
     let entry = ez_entry_reference_price ez in
     rbind (derive_invalidation x entry s) (\<lambda>ti.
     let d = compute_risk_distance entry (ti_invalidation_price ti) (rx_atr_5m x) in
     rbind (stop_if (validate_risk_distance d s)) (\<lambda>_.
     rbind (derive_targets x entry s) (\<lambda>ts.
     rbind (size_reference_position (rx_instrument x) entry d s) (\<lambda>pz.
     rbind (stop_code (determine_leverage_suitability x entry (ti_invalidation_price ti) (pz_reference_notional pz) s))
       (\<lambda>(lv, m, b).
     rbind (stop_code (map_sum map_cost_error id (estimate_costs (plan_cost_query x f ez ti ts pz) cs))) (\<lambda>e.
     rbind (stop_if (validate_cost_estimate e s)) (\<lambda>_.
     rbind (compute_eligibility_score ti d ts e b m s) (\<lambda>(score, components).
     if of_int score < rg_eligibility_min_score s then Inl (Stop PC_ELIGIBILITY_SCORE_BELOW_THRESHOLD)
     else Inr \<lparr>ep_candidate = rx_candidate x, ep_instrument = rx_instrument x, ep_entry_zone = ez,
       ep_invalidation = ti, ep_targets = ts, ep_risk_distance = d, ep_position = pz, ep_leverage = lv,
       ep_margin = m, ep_liquidation_buffer = b, ep_costs = e, ep_eligibility_score = score,
       ep_score_components = components, ep_as_of = rx_as_of x,
       ep_expiry_at = min (rx_as_of x + timedelta_seconds (rg_plan_expiry_seconds s))
         (cx_expiry_at (rx_candidate x))\<rparr>)))))))))"

definition evaluate_candidate :: "risk_context \<Rightarrow> risk_settings \<Rightarrow> cost_settings \<Rightarrow> risk_outcome" where
  "evaluate_candidate x settings cs =
     (let s = effective_risk_settings settings (cx_symbol (rx_candidate x)) (cx_asset_class (rx_candidate x)) in
      case (hard_gate x s cs, rx_fee_schedule x) of
        (Some c, _) \<Rightarrow> Outcome_Rejected (build_plan_rejection x c)
      | (None, None) \<Rightarrow> Outcome_Rejected (build_plan_rejection x PC_FEE_SCHEDULE_UNAVAILABLE)
      | (None, Some f) \<Rightarrow>
          (case plan_of x s cs f of
             Inl (Stop c) \<Rightarrow> Outcome_Rejected (build_plan_rejection x c)
           | Inl Uncaught \<Rightarrow> Outcome_Raised
           | Inr p \<Rightarrow> Outcome_Plan p))"

end
