(* ===== verification/Risk_Safety.thy ===== *)
theory Risk_Safety
  imports Risk_Engine
begin

text \<open>
  What every eligible plan guarantees: its prices are in order from the hypothetical liquidation to the
  targets, its leverage is bounded, its size within the budget, its costs within the limits; and what rounding
  and the score never do.
\<close>

section \<open>Rounding\<close>

lemma repr_pos_roundtrip:
  assumes "is_float x" "0 < x"
  shows "fl (case List.map_filter (\<lambda>n. shortest_at n x) [1..<18] of [] \<Rightarrow> x | d # _ \<Rightarrow> d) = x"
proof (cases "List.map_filter (\<lambda>n. shortest_at n x) [1..<18]")
  case Nil
  with assms(1) show ?thesis by (simp add: is_float_def)
next
  case (Cons d ds)
  then have "d \<in> set (List.map_filter (\<lambda>n. shortest_at n x) [1..<18])" by simp
  then obtain n where n: "shortest_at n x = Some d" by (auto simp: List.map_filter_def)
  have between: "fl (of_int (round_half_even y) * u) = x"
    if "fl (of_int \<lfloor>y\<rfloor> * u) = x" "fl (of_int \<lceil>y\<rceil> * u) = x" "0 < u" for y u :: rat
  proof -
    have "\<lfloor>y\<rfloor> \<le> round_half_even y" "round_half_even y \<le> \<lceil>y\<rceil>"
      using round_half_even_mono [of "of_int \<lfloor>y\<rfloor>" y] round_half_even_mono [of y "of_int \<lceil>y\<rceil>"] by simp_all
    with that show ?thesis
      using fl_mono [of "of_int \<lfloor>y\<rfloor> * u" "of_int (round_half_even y) * u"]
        fl_mono [of "of_int (round_half_even y) * u" "of_int \<lceil>y\<rceil> * u"]
      by (simp add: mult_right_mono)
  qed
  from n between have "fl d = x" by (auto simp: shortest_at_def Let_def split: if_splits)
  with Cons show ?thesis by simp
qed

text \<open>The text of a float reads back as the float.\<close>

lemma repr_roundtrip:
  assumes "is_float x"
  shows "fl (repr_decimal x) = x"
proof -
  have "is_float \<bar>x\<bar>" using assms by (auto simp: is_float_def abs_if fl_minus)
  with repr_pos_roundtrip [of "\<bar>x\<bar>"] show ?thesis by (auto simp: repr_decimal_def Let_def fl_minus abs_if)
qed

lemma quantize_floor_le: "quantize ROUND_FLOOR e d = Some q \<Longrightarrow> q \<le> d"
proof -
  have "(0::rat) < 10 powi e" by simp
  moreover have "of_int \<lfloor>d / 10 powi e\<rfloor> \<le> d / 10 powi e" by simp
  ultimately have "of_int \<lfloor>d / 10 powi e\<rfloor> * 10 powi e \<le> d" by (metis pos_le_divide_eq)
  then show "quantize ROUND_FLOOR e d = Some q \<Longrightarrow> q \<le> d"
    by (auto simp: quantize_def to_integral_def Let_def split: if_splits)
qed

lemma quantity_rounds_down:
  assumes "is_float x" "round_quantity_down x k = Inr q"
  shows "q \<le> x"
proof -
  from assms(2) obtain d where "quantize ROUND_FLOOR (- max 0 k) (repr_decimal x) = Some d" "q = fl d"
    by (auto simp: round_quantity_down_def split: option.splits)
  with fl_mono [OF quantize_floor_le] repr_roundtrip [OF assms(1)] show ?thesis by metis
qed

lemma round_price_float: "is_float x \<Longrightarrow> round_price i r x = Inr y \<Longrightarrow> is_float y"
  by (auto simp: round_price_def is_float_def Let_def split: if_splits option.splits)

section \<open>Leverage\<close>

lemma levels_in:
  assumes "l \<in> set (leverage_levels fuel cap)"
  shows "1 \<le> l \<and> (cap \<le> of_int n \<and> \<bar>n\<bar> \<le> 2 ^ 53 \<longrightarrow> l \<le> of_int n)"
  using assms
proof (induction fuel arbitrary: cap)
  case (Suc fuel)
  show ?case
  proof (cases "l = round_to 2 cap")
    case True
    with Suc.prems have low: "fl (1 - fl (1 / 10 ^ 9)) \<le> cap" by (auto split: if_splits)
    have "(9999 / 10000 :: rat) \<le> fl (1 - fl (1 / 10 ^ 9))"
    proof -
      have "fl (1 / 10 ^ 9) \<le> 1 / 2 ^ 20" using fl_mono [of "1 / 10 ^ 9" "1 / 2 ^ 20"] fl_pow2 [of "- 20"] by (simp add: power_int_minus)
      then have "1 - 1 / 2 ^ 20 \<le> 1 - fl (1 / 10 ^ 9)" by simp
      moreover have "fl (1 - 1 / 2 ^ 20) = 1 - 1 / 2 ^ 20" using fl_representable [of 1048575 "- 20"] by (simp add: power_int_minus)
      ultimately have "1 - 1 / 2 ^ 20 \<le> fl (1 - fl (1 / 10 ^ 9))" using fl_mono by metis
      then show ?thesis by simp
    qed
    with low have "9999 / 10000 \<le> cap" by simp
    then have "round_half_even (9999 / 10000 * 10 ^ 2) \<le> round_half_even (cap * 10 ^ 2)"
      by (intro round_half_even_mono) simp
    moreover have "\<lfloor>9999 / 100 :: rat\<rfloor> = 99" by (rule floor_unique) simp_all
    then have "round_half_even (9999 / 10000 * 10 ^ 2) = 100" by (simp add: round_half_even_def Let_def)
    ultimately have "100 \<le> round_half_even (cap * 10 ^ 2)" by simp
    then have "fl 1 \<le> round_to 2 cap" unfolding round_to_def by (intro fl_mono) simp
    then have "1 \<le> l" using True by (simp add: fl_numerals)
    moreover have "l \<le> of_int n" if "cap \<le> of_int n" "\<bar>n\<bar> \<le> 2 ^ 53"
      using round_to_mono [OF that(1), of 2] round_to_of_int [OF that(2), of 2] True by simp
    ultimately show ?thesis by blast
  next
    case False
    with Suc.prems have mem: "l \<in> set (leverage_levels fuel (fsub cap (1 / 2)))" and low: "fl (1 - fl (1 / 10 ^ 9)) \<le> cap"
      by (auto split: if_splits)
    have "fsub cap (1 / 2) \<le> of_int n" if "cap \<le> of_int n" "\<bar>n\<bar> \<le> 2 ^ 53"
      using that fl_mono [of "cap - 1 / 2" "of_int n"] fl_of_int [OF that(2)] by (simp add: fsub_def)
    with Suc.IH [OF mem] show ?thesis by blast
  qed
qed simp

text \<open>No level is above the cap, rounded to two decimals like the levels are.\<close>

lemma half_lower:
  assumes "0 \<le> cap" "cap \<le> 3"
  shows "fsub cap (1 / 2) \<le> cap"
proof -
  let ?quarters = "\<lfloor>4 * cap\<rfloor>"
  have "?quarters \<le> 12" using assms(2) by (simp add: floor_le_iff)
  moreover have "0 \<le> ?quarters" using assms(1) by simp
  ultimately have "fl (of_int ?quarters / 4) = of_int ?quarters / 4"
    using fl_representable [of ?quarters "- 2"] by (simp add: power_int_minus)
  moreover have "cap - 1 / 2 \<le> of_int ?quarters / 4" "of_int ?quarters / 4 \<le> cap" by linarith+
  ultimately show ?thesis using fl_mono [of "cap - 1 / 2" "of_int ?quarters / 4"] unfolding fsub_def by linarith
qed

lemma levels_le:
  assumes "l \<in> set (leverage_levels fuel cap)" "cap \<le> 3"
  shows "l \<le> round_to 2 cap"
  using assms
proof (induction fuel arbitrary: cap)
  case (Suc fuel)
  have low: "fl (1 - fl (1 / 10 ^ 9)) \<le> cap" using Suc.prems(1) by (auto split: if_splits)
  moreover have "0 \<le> fl (1 - fl (1 / 10 ^ 9))"
    using fl_mono [of "1 / 10 ^ 9" 1] fl_numerals by (intro fl_nonneg) simp
  ultimately have down: "fsub cap (1 / 2) \<le> cap" using half_lower Suc.prems(2) by simp
  have "l = round_to 2 cap \<or> l \<in> set (leverage_levels fuel (fsub cap (1 / 2)))"
    using Suc.prems(1) by (auto split: if_splits)
  then show ?case
    using Suc.IH [of "fsub cap (1 / 2)"] down Suc.prems(2) round_to_mono [OF down, of 2] by fastforce
qed simp

text \<open>From a cap of at most three, six rounds reach the end of the loop.\<close>

lemma leverage_levels_enough:
  assumes "cap \<le> 3"
  shows "leverage_levels (6 + n) cap = leverage_levels 6 cap"
proof -
  have down: "fsub x (1 / 2) \<le> of_int k / 2" if "x \<le> of_int (k + 1) / 2" "\<bar>k\<bar> \<le> 100" for x k
  proof -
    have "fl (of_int k / 2) = of_int k / 2"
      using fl_representable [of k "- 1"] that(2) by (simp add: power_int_minus)
    then show ?thesis using fl_mono [of "x - 1 / 2" "of_int k / 2"] that(1) by (simp add: fsub_def add_divide_distrib)
  qed
  have low: "(1 / 2 :: rat) < fl (1 - fl (1 / 10 ^ 9))"
  proof -
    have "fl (1 / 10 ^ 9) \<le> 1 / 4" using fl_mono [of "1 / 10 ^ 9" "1 / 4"] fl_pow2 [of "- 2"] by (simp add: power_int_minus)
    then have "fl (3 / 4) \<le> fl (1 - fl (1 / 10 ^ 9))" by (intro fl_mono) simp
    moreover have "fl (3 / 4) = 3 / 4" using fl_representable [of 3 "- 2"] by (simp add: power_int_minus)
    ultimately show ?thesis by simp
  qed
  have stop: "leverage_levels m x = []" if "x \<le> of_int 1 / 2" for m x
    using that low by (cases m) auto
  have step: "leverage_levels (Suc (m + n)) x = leverage_levels (Suc m) x"
    if "\<And>y. y \<le> of_int k / 2 \<Longrightarrow> leverage_levels (m + n) y = leverage_levels m y" "x \<le> of_int (k + 1) / 2" "\<bar>k\<bar> \<le> 100" for m x k
    using that(1) [OF down [OF that(2,3)]] by simp
  have l1: "leverage_levels (Suc (0 + n)) y = leverage_levels (Suc 0) y" if "y \<le> of_int 1 / 2" for y
    using stop [OF that] by simp
  have l2: "leverage_levels (Suc (Suc 0 + n)) y = leverage_levels (Suc (Suc 0)) y" if "y \<le> of_int 2 / 2" for y
    using step [of 1 "Suc 0" y] l1 that by simp
  have l3: "leverage_levels (Suc (Suc (Suc 0) + n)) y = leverage_levels (Suc (Suc (Suc 0))) y" if "y \<le> of_int 3 / 2" for y
    using step [of 2 "Suc (Suc 0)" y] l2 that by simp
  have l4: "leverage_levels (Suc (Suc (Suc (Suc 0)) + n)) y = leverage_levels (Suc (Suc (Suc (Suc 0)))) y"
    if "y \<le> of_int 4 / 2" for y
    using step [of 3 "Suc (Suc (Suc 0))" y] l3 that by simp
  have l5: "leverage_levels (Suc (Suc (Suc (Suc (Suc 0))) + n)) y = leverage_levels (Suc (Suc (Suc (Suc (Suc 0))))) y"
    if "y \<le> of_int 5 / 2" for y
    using step [of 4 "Suc (Suc (Suc (Suc 0)))" y] l4 that by simp
  show ?thesis
    using step [of 5 "Suc (Suc (Suc (Suc (Suc 0))))" cap] l5 assms by (simp add: numeral_eq_Suc)
qed

lemma candidates_in:
  assumes "l \<in> set (leverage_candidates cap)"
  shows "1 \<le> l \<and> (cap \<le> of_int n \<and> 1 \<le> n \<and> n \<le> 2 ^ 53 \<longrightarrow> l \<le> of_int n)"
proof -
  have "l \<in> set (leverage_levels 6 cap) \<or> l = 1"
    using assms by (auto simp: leverage_candidates_def Let_def split: if_splits)
  with levels_in [of l 6 cap n] show ?thesis by auto
qed

lemma candidates_le:
  assumes "l \<in> set (leverage_candidates cap)" "cap \<le> 3"
  shows "l \<le> max 1 (round_to 2 cap)"
proof -
  have "l \<in> set (leverage_levels 6 cap) \<or> l = 1"
    using assms(1) by (auto simp: leverage_candidates_def Let_def split: if_splits)
  then show ?thesis
  proof
    assume "l \<in> set (leverage_levels 6 cap)"
    from levels_le [OF this assms(2)] show ?thesis by simp
  qed simp
qed

lemma search_found:
  assumes "search_leverage i entry invalidation notional bull atr s tried ls = Inr (l, m, b)"
  shows "l \<in> set ls \<and> build_margin_model i entry notional l bull s = Inr m \<and>
    b = check_liquidation_buffer invalidation m atr bull s \<and> lb_sufficient b"
  using assms
proof (induction ls arbitrary: tried)
  case (Cons a ls)
  show ?case
  proof (cases "build_margin_model i entry notional a bull s")
    case (Inl err)
    with Cons show ?thesis by (cases err) auto
  next
    case (Inr m')
    with Cons show ?thesis by (auto simp: Let_def split: if_splits)
  qed
qed simp

lemma lowered_le: "lowered c step cap \<le> cap"
  by (simp add: lowered_def)

lemma leverage_cap_le:
  "leverage_cap i market notional p b thin s \<le> rg_max_reference_leverage s"
  "leverage_cap i market notional p b thin s \<le> of_int market"
  "tier_cap i notional = Some t \<Longrightarrow> leverage_cap i market notional p b thin s \<le> of_int t"
proof -
  let ?base = "min (rg_max_reference_leverage s) (of_int market)"
  let ?tiered = "case tier_cap i notional of None \<Rightarrow> ?base | Some t \<Rightarrow> if of_int t < ?base then of_int t else ?base"
  have three: "lowered c1 d1 (lowered c2 d2 (lowered c3 d3 y)) \<le> y" for c1 d1 c2 d2 c3 d3 y
    using lowered_le [of c1 d1 "lowered c2 d2 (lowered c3 d3 y)"] lowered_le [of c2 d2 "lowered c3 d3 y"]
      lowered_le [of c3 d3 y] by linarith
  have cap: "leverage_cap i market notional p b thin s \<le> ?tiered"
    unfolding leverage_cap_def Let_def by (rule three)
  moreover have "?tiered \<le> ?base" by (auto split: option.split)
  ultimately show "leverage_cap i market notional p b thin s \<le> rg_max_reference_leverage s"
    "leverage_cap i market notional p b thin s \<le> of_int market" by linarith+
  show "leverage_cap i market notional p b thin s \<le> of_int t" if "tier_cap i notional = Some t"
    using cap that by (auto split: if_splits)
qed

lemma tier_cap_pos:
  assumes "tier_cap i notional = Some t"
  shows "1 \<le> t"
proof -
  have "snd (fold (tier_step notional) tiers best) = Some t \<Longrightarrow> (snd best = Some t \<longrightarrow> 1 \<le> t) \<Longrightarrow> 1 \<le> t" for tiers best
  proof (induction tiers arbitrary: best)
    case (Cons tier tiers)
    from Cons.prems show ?case by (intro Cons.IH [of "tier_step notional tier best"]) (auto simp: tier_step_def)
  qed simp
  from this [of "ik_risk_tiers i" "(- 1, None)"] assms show ?thesis by (simp add: tier_cap_def)
qed

text \<open>
  The leverage is at least one, since 1x is always tried, and otherwise never above the configured maximum (to
  two decimals, as the levels are rounded), the market's maximum or the tier of the notional.
\<close>

definition leverage_sound :: "risk_context \<Rightarrow> risk_settings \<Rightarrow> float64 \<Rightarrow> leverage_range \<Rightarrow> bool" where
  "leverage_sound x s notional lv \<longleftrightarrow> 1 \<le> lv_recommended lv \<and> lv_recommended lv \<le> 3 \<and>
     lv_recommended lv \<le> max 1 (round_to 2 (rg_max_reference_leverage s)) \<and>
     (case ik_max_leverage (rx_instrument x) of None \<Rightarrow> False
      | Some m \<Rightarrow> m \<le> 2 ^ 53 \<longrightarrow> lv_recommended lv \<le> of_int m) \<and>
     (case tier_cap (rx_instrument x) notional of None \<Rightarrow> True | Some t \<Rightarrow> t \<le> 2 ^ 53 \<longrightarrow> lv_recommended lv \<le> of_int t)"

lemma suitability_sound:
  assumes "determine_leverage_suitability x entry invalidation notional s = Inr (lv, m, b)"
    and "rg_max_reference_leverage s \<le> 3"
  shows "leverage_sound x s notional lv \<and> lb_sufficient b \<and>
    b = check_liquidation_buffer invalidation m (rx_atr_5m x) (cx_bullish (rx_candidate x)) s"
proof -
  obtain market where market: "ik_max_leverage (rx_instrument x) = Some market" "1 \<le> market"
    using assms(1) unfolding determine_leverage_suitability_def Let_def by (auto split: option.splits if_splits)
  obtain cap where cap: "cap = leverage_cap (rx_instrument x) market notional (cx_atr_percentile_1h (rx_candidate x))
      (snapshot_spread_bps (rx_book x))
      (fu_current_rate (rx_funding x) = None \<or> length (fu_history (rx_funding x)) < 3) s" by blast
  from assms(1) market cap have found: "search_leverage (rx_instrument x) entry invalidation notional
      (cx_bullish (rx_candidate x)) (rx_atr_5m x) s False (leverage_candidates cap) = Inr (lv_recommended lv, m, b)"
    by (auto simp: determine_leverage_suitability_def Let_def split: sum.splits if_splits)
  note l = search_found [OF found]
  have most: "cap \<le> rg_max_reference_leverage s" using leverage_cap_le(1) unfolding cap by metis
  with assms(2) have three: "cap \<le> 3" by simp
  have "lv_recommended lv \<le> max 1 (round_to 2 (rg_max_reference_leverage s))"
    using candidates_le [OF conjunct1 [OF l] three] round_to_mono [OF most, of 2] by linarith
  moreover have "lv_recommended lv \<le> 3" "1 \<le> lv_recommended lv"
    using candidates_in [OF conjunct1 [OF l], of 3] three by simp_all
  moreover have "lv_recommended lv \<le> of_int market" if "market \<le> 2 ^ 53"
    using candidates_in [OF conjunct1 [OF l], of market] leverage_cap_le(2) market(2) that unfolding cap by blast
  moreover have "lv_recommended lv \<le> of_int t" if "tier_cap (rx_instrument x) notional = Some t" "t \<le> 2 ^ 53" for t
    using candidates_in [OF conjunct1 [OF l], of t] leverage_cap_le(3) [OF that(1)] tier_cap_pos [OF that(1)] that(2)
    unfolding cap by blast
  ultimately show ?thesis
    using l market by (auto simp: leverage_sound_def split: option.split)
qed

section \<open>The score\<close>

lemma fractions_range: "(c, f) \<in> set (score_fractions ti d ts e b m s) \<Longrightarrow> 0 \<le> f \<and> f \<le> 1"
  by (auto simp: score_fractions_def invalidation_fraction_def target_fraction_def buffer_fraction_def
      confidence_fraction_def Let_def clamp_range)

lemma score_range:
  assumes "compute_eligibility_score ti d ts e b m s = Inr (score, components)"
    and "sum_list (map snd (rg_score_weights s)) = 100" "list_all (\<lambda>(c, w). 0 \<le> w) (rg_score_weights s)"
  shows "0 \<le> score \<and> score \<le> 100"
proof -
  have "score = round_half_even (foldl fadd 0 (map (awarded (score_fractions ti d ts e b m s)) (rg_score_weights s)))"
    using assms(1) by (auto simp: compute_eligibility_score_def Let_def comp_def split: if_splits)
  with total_range [of "score_fractions ti d ts e b m s", OF _ assms(2,3)] fractions_range show ?thesis by metis
qed

section \<open>Every eligible plan\<close>

lemma effective_settings:
  "rg_score_weights (effective_risk_settings s name cls) = rg_score_weights s"
  "rg_max_reference_notional_pusd (effective_risk_settings s name cls) = rg_max_reference_notional_pusd s"
  "rg_max_reference_leverage s \<le> 3 \<Longrightarrow> rg_max_reference_leverage (effective_risk_settings s name cls) \<le> 3"
proof -
  have "rg_score_weights (fold override_setting kvs t) = rg_score_weights t \<and>
    rg_max_reference_notional_pusd (fold override_setting kvs t) = rg_max_reference_notional_pusd t \<and>
    (rg_max_reference_leverage t \<le> 3 \<longrightarrow> rg_max_reference_leverage (fold override_setting kvs t) \<le> 3)" for kvs t
    by (induction kvs arbitrary: t) (auto simp: override_setting_def Let_def split: prod.splits)
  then show "rg_score_weights (effective_risk_settings s name cls) = rg_score_weights s"
    "rg_max_reference_notional_pusd (effective_risk_settings s name cls) = rg_max_reference_notional_pusd s"
    "rg_max_reference_leverage s \<le> 3 \<Longrightarrow> rg_max_reference_leverage (effective_risk_settings s name cls) \<le> 3"
    by (simp_all add: effective_risk_settings_def)
qed

definition option_float :: "float64 option \<Rightarrow> bool" where
  "option_float x = (case x of None \<Rightarrow> True | Some v \<Rightarrow> is_float v)"

text \<open>The numbers of the context are floats, and no override makes the minimal distance negative.\<close>

definition float_inputs :: "risk_context \<Rightarrow> risk_settings \<Rightarrow> bool" where
  "float_inputs x s \<longleftrightarrow> option_float (rx_best_bid x) \<and> option_float (rx_best_ask x) \<and>
     is_float (rg_max_reference_notional_pusd s) \<and>
     0 \<le> rg_min_distance_bps (effective_risk_settings s (cx_symbol (rx_candidate x)) (cx_asset_class (rx_candidate x)))"

lemma entry_zone_float:
  assumes "derive_entry_zone x s = Inr ez" "option_float (rx_best_bid x)" "option_float (rx_best_ask x)"
  shows "is_float (ez_entry_reference_price ez)"
proof -
  obtain i r v where "round_price i r v = Inr (ez_entry_reference_price ez)" "v = the (rx_best_bid x) \<or> v = the (rx_best_ask x)"
    "rx_best_bid x \<noteq> None" "rx_best_ask x \<noteq> None"
    using assms(1) unfolding derive_entry_zone_def rbind_Inr_iff Let_def
    by (auto simp: rbind_Inr_iff split: option.splits bool.splits if_splits)
  with assms(2,3) round_price_float show ?thesis by (auto simp: option_float_def)
qed

definition beyond_entry :: "bool \<Rightarrow> float64 \<Rightarrow> float64 \<Rightarrow> bool" where
  "beyond_entry bull entry price = (if bull then entry < price else price < entry)"

lemma targets_beyond:
  assumes "derive_targets x entry s = Inr ts" "is_float entry" "0 \<le> rg_min_distance_bps s"
  shows "ts \<noteq> [] \<and> length ts \<le> 3 \<and> list_all (\<lambda>t. beyond_entry (cx_bullish (rx_candidate x)) entry (ta_price t)) ts"
proof -
  let ?gap = "fdiv (fmul entry (rg_min_distance_bps s)) 10000" and ?bull = "cx_bullish (rx_candidate x)"
  obtain ls where ls: "ts = map (reference_target_of entry) (take max_targets ls)" "ls \<noteq> []" "0 < entry"
    and beyond: "\<forall>l \<in> set ls. if ?bull then fadd entry ?gap < tl_price l else tl_price l < fsub entry ?gap"
  proof -
    obtain f where f: "f = (\<lambda>l :: technical_level. if ?bull then tl_price l else - tl_price l)" by blast
    obtain far where far: "far = (\<lambda>l :: technical_level. if ?bull then fadd entry ?gap < tl_price l else tl_price l < fsub entry ?gap)" by blast
    obtain relevant where "relevant = filter (\<lambda>l. 0 < tl_price l \<and> rg_target_min_relevance_score s \<le> tl_relevance l) (rx_levels x)"
      by blast
    note named = f [symmetric] far [symmetric] this [symmetric]
    have "sort_key f (filter far relevant) = [] \<longleftrightarrow> filter far relevant = []" by (metis length_0_conv length_sort)
    then have "ts = map (reference_target_of entry) (take max_targets (sort_key f (filter far relevant)))"
      "sort_key f (filter far relevant) \<noteq> []" "0 < entry"
      using assms(1) unfolding derive_targets_def Let_def named by (simp_all split: if_splits)
    moreover have "\<forall>l \<in> set (sort_key f (filter far relevant)). far l" by simp
    then have "\<forall>l \<in> set (sort_key f (filter far relevant)).
      if ?bull then fadd entry ?gap < tl_price l else tl_price l < fsub entry ?gap" unfolding far .
    ultimately show ?thesis using that by blast
  qed
  have gap: "0 \<le> ?gap" using ls(3) assms(3) by (simp add: fdiv_def fmul_def fl_nonneg)
  have "beyond_entry ?bull entry (tl_price l)" if "l \<in> set ls" for l
    using beyond that adding_costs [OF assms(2) gap] subtracting_costs [OF assms(2) gap]
    by (fastforce simp: beyond_entry_def)
  with ls(1,2) show ?thesis
    by (auto simp: list_all_iff max_targets_def reference_target_of_def dest: in_set_takeD)
qed

text \<open>Neither the first rounding nor the cap on the notional leaves more than the raw quantity.\<close>

lemma position_sound:
  assumes "size_reference_position i entry d s = Inr pz" "is_float (rg_max_reference_notional_pusd s)"
  shows "0 < pz_reference_quantity pz \<and> pz_reference_quantity pz \<le> pz_raw_quantity pz \<and>
    (case ik_min_notional i of None \<Rightarrow> False | Some n \<Rightarrow> n \<le> pz_reference_notional pz) \<and>
    0 < pz_effective_cash_risk pz \<and> pz_effective_cash_risk pz \<le> fmul (pz_reference_cash_risk pz) (fl (10001 / 10000))"
proof -
  from assms(1) obtain first minimum where entry: "0 < entry"
    and first: "round_quantity_down (pz_raw_quantity pz) (ik_quantity_decimals i) = Inr first" "0 < first"
    and minimum: "ik_min_notional i = Some minimum"
    and capped: "capped_quantity i entry first minimum s = Inr (pz_reference_quantity pz)"
    and raw: "is_float (pz_raw_quantity pz)"
    and rest: "pz_reference_notional pz = fmul (pz_reference_quantity pz) entry" "0 < pz_effective_cash_risk pz"
      "pz_effective_cash_risk pz \<le> fmul (pz_reference_cash_risk pz) (fl (10001 / 10000))"
    unfolding size_reference_position_def Let_def
    by (auto simp: rbind_Inr_iff split: if_splits option.splits)
  have first_float: "fl first = first"
    using first(1) by (auto simp: round_quantity_down_def split: option.splits)
  have "pz_reference_quantity pz \<le> first \<and> 0 < pz_reference_quantity pz \<and> minimum \<le> fmul (pz_reference_quantity pz) entry"
  proof (cases "rg_max_reference_notional_pusd s < fmul first entry")
    case False
    with capped first(2) show ?thesis by (auto simp: capped_quantity_def split: if_splits)
  next
    case True
    with capped obtain q where q: "round_quantity_down (fdiv (rg_max_reference_notional_pusd s) entry) (ik_quantity_decimals i) = Inr q"
      "q = pz_reference_quantity pz" "0 < q" "minimum \<le> fmul q entry"
      by (auto simp: capped_quantity_def rbind_Inr_iff split: if_splits)
    have "fdiv (rg_max_reference_notional_pusd s) entry \<le> first"
    proof (cases "rg_max_reference_notional_pusd s / entry \<le> first")
      case True
      then show ?thesis using fl_mono first_float by (metis fdiv_def)
    next
      case False
      then have "first * entry \<le> rg_max_reference_notional_pusd s" using entry by (simp add: pos_divide_le_eq not_le pos_less_divide_eq)
      then have "fmul first entry \<le> fl (rg_max_reference_notional_pusd s)" unfolding fmul_def by (rule fl_mono)
      with True assms(2) show ?thesis by (simp add: is_float_def)
    qed
    with quantity_rounds_down [OF _ q(1)] q show ?thesis by fastforce
  qed
  with quantity_rounds_down [OF raw first(1)] minimum rest show ?thesis by auto
qed

definition costs_within :: "cost_estimate \<Rightarrow> risk_settings \<Rightarrow> bool" where
  "costs_within e s \<longleftrightarrow> ce_cost_to_risk_pct e \<le> rg_max_cost_to_risk_pct s \<and> 0 < ce_net_invalidation_loss e \<and>
     (case primary_target e of None \<Rightarrow> False
      | Some t \<Rightarrow> 0 < tb_net_target_pnl t \<and> (case tb_net_rr t of None \<Rightarrow> False | Some r \<Rightarrow> rg_min_net_rr s \<le> r))"

lemma validated_costs: "validate_cost_estimate e s = None \<Longrightarrow> costs_within e s"
  by (auto simp: validate_cost_estimate_def costs_within_def split: if_splits option.splits)

text \<open>
  The prices of a plan, from the hypothetical liquidation over the invalidation and the entry to the targets,
  upwards or downwards.
\<close>

definition prices_in_order :: "eligibility_plan \<Rightarrow> bool" where
  "prices_in_order p \<longleftrightarrow>
     (let bull = cx_bullish (ep_candidate p); entry = ez_entry_reference_price (ep_entry_zone p);
          invalidation = ti_invalidation_price (ep_invalidation p) in
      adverse_side bull (mm_liquidation_price (ep_margin p)) invalidation \<and> adverse_side bull invalidation entry \<and>
      list_all (\<lambda>t. beyond_entry bull entry (ta_price t)) (ep_targets p))"

definition plan_sound :: "risk_context \<Rightarrow> risk_settings \<Rightarrow> eligibility_plan \<Rightarrow> bool" where
  "plan_sound x s p \<longleftrightarrow> prices_in_order p \<and> ep_targets p \<noteq> [] \<and> length (ep_targets p) \<le> 3 \<and>
     leverage_sound x s (pz_reference_notional (ep_position p)) (ep_leverage p) \<and>
     0 < pz_reference_quantity (ep_position p) \<and>
     pz_reference_quantity (ep_position p) \<le> pz_raw_quantity (ep_position p) \<and>
     pz_effective_cash_risk (ep_position p) \<le> fmul (pz_reference_cash_risk (ep_position p)) (fl (10001 / 10000)) \<and>
     costs_within (ep_costs p) s \<and>
     rg_eligibility_min_score s \<le> of_int (ep_eligibility_score p) \<and> 0 \<le> ep_eligibility_score p \<and>
     ep_eligibility_score p \<le> 100 \<and> ep_expiry_at p \<le> cx_expiry_at (rx_candidate x)"

lemma stop_simps [simp]:
  "stop_if c = Inr u \<longleftrightarrow> c = None" "stop_code y = Inr v \<longleftrightarrow> y = Inr v"
  by (auto simp: stop_if_def stop_code_def map_sum_def split: option.split sum.split)

lemma buffer_side:
  "lb_sufficient (check_liquidation_buffer invalidation m atr bull s) \<Longrightarrow>
     adverse_side bull (mm_liquidation_price m) invalidation"
  using fl_mono [of "invalidation - mm_liquidation_price m" 0] fl_mono [of "mm_liquidation_price m - invalidation" 0]
  by (fastforce simp: check_liquidation_buffer_def adverse_side_def fsub_def Let_def split: if_splits)

lemma invalidation_adverse:
  "derive_invalidation x entry s = Inr ti \<Longrightarrow> adverse_side (cx_bullish (rx_candidate x)) (ti_invalidation_price ti) entry"
  unfolding derive_invalidation_def
  by (auto simp: rbind_def Let_def split: option.splits if_splits prod.splits sum.splits)

lemma plan_of_sound:
  assumes "plan_of x s cs f = Inr p" "rg_max_reference_leverage s \<le> 3" "0 \<le> rg_min_distance_bps s"
    and "option_float (rx_best_bid x)" "option_float (rx_best_ask x)" "is_float (rg_max_reference_notional_pusd s)"
    and "sum_list (map snd (rg_score_weights s)) = 100" "list_all (\<lambda>(c, w). 0 \<le> w) (rg_score_weights s)"
  shows "plan_sound x s p"
proof -
  let ?entry = "ez_entry_reference_price (ep_entry_zone p)" and ?bull = "cx_bullish (rx_candidate x)"
  from assms(1) have
    ez: "derive_entry_zone x s = Inr (ep_entry_zone p)"
    and ti: "derive_invalidation x ?entry s = Inr (ep_invalidation p)"
    and ts: "derive_targets x ?entry s = Inr (ep_targets p)"
    and pz: "size_reference_position (rx_instrument x) ?entry (ep_risk_distance p) s = Inr (ep_position p)"
    and lv: "determine_leverage_suitability x ?entry (ti_invalidation_price (ep_invalidation p))
        (pz_reference_notional (ep_position p)) s = Inr (ep_leverage p, ep_margin p, ep_liquidation_buffer p)"
    and costs: "validate_cost_estimate (ep_costs p) s = None"
    and score: "compute_eligibility_score (ep_invalidation p) (ep_risk_distance p) (ep_targets p) (ep_costs p)
        (ep_liquidation_buffer p) (ep_margin p) s = Inr (ep_eligibility_score p, ep_score_components p)"
    and least: "rg_eligibility_min_score s \<le> of_int (ep_eligibility_score p)"
    and plan: "ep_candidate p = rx_candidate x"
      "ep_expiry_at p = min (rx_as_of x + timedelta_seconds (rg_plan_expiry_seconds s)) (cx_expiry_at (rx_candidate x))"
    unfolding plan_of_def Let_def by (auto simp: rbind_Inr_iff split: prod.splits if_splits)
  note invalidation_adverse [OF ti]
  moreover note targets_beyond [OF ts entry_zone_float [OF ez assms(4,5)] assms(3)]
  moreover note suitability_sound [OF lv assms(2)]
  ultimately show ?thesis
    using position_sound [OF pz assms(6)] validated_costs [OF costs] score_range [OF score assms(7,8)] least plan
      buffer_side
    by (auto simp: plan_sound_def prices_in_order_def Let_def)
qed

section \<open>An example\<close>

definition example_risk_settings :: risk_settings where
  "example_risk_settings = default_risk_settings\<lparr>rg_virtual_reference_account_pusd := 800,
     rg_reference_risk_per_plan_pct := 1, rg_min_distance_bps := 0, rg_max_distance_bps := 5000,
     rg_invalidation_buffer_bps := 0, rg_invalidation_buffer_atr_multiple := 1, rg_target_min_relevance_score := 0,
     rg_margin_stress_buffer_bps := 0, rg_min_liquidation_buffer_atr_multiple := 0, rg_eligibility_min_score := 0, rg_min_net_rr := 1\<rparr>"

definition example_risk_costs :: cost_settings where
  "example_risk_costs = example_cost_settings\<lparr>cs_funding_buffer_bps := 0, cs_conservative_cost_buffer_bps := 0\<rparr>"

definition example_risk_instrument :: instrument_risk where
  "example_risk_instrument = \<lparr>ik_instrument_pk = 1, ik_instrument_id = 1, ik_symbol = ''BTC'', ik_status = ''ACTIVE'',
       ik_asset_class = ''CRYPTO'', ik_mark_price = Some 8, ik_index_price = None, ik_mid_price = None,
       ik_max_leverage = Some 1, ik_min_notional = Some 1, ik_tick_size = None, ik_price_decimals = 0,
       ik_quantity_decimals = 0, ik_risk_tiers = [], ik_maintenance_margin_rate = Some (1 / 8),
       ik_initial_margin_rate = Some (1 / 4), ik_data_quality_ok = True, ik_orderbook_fresh = True,
       ik_snapshot_version = ''irs-1'', ik_as_of = 0\<rparr>"

text \<open>A long plan from 8, invalid at 4, with the target 16 and a book of exactly one price.\<close>

definition example_risk_context :: risk_context where
  "example_risk_context = \<lparr>rx_candidate = \<lparr>cx_candidate_id = 1, cx_candidate_type = ''RANGE_BREAKOUT_UP'',
       cx_direction = ''BULLISH'', cx_state = ''CONFIRMED'', cx_instrument_pk = 1, cx_instrument_id = 1,
       cx_symbol = ''BTC'', cx_asset_class = ''CRYPTO'', cx_as_of = 0, cx_expiry_at = 900000000, cx_setup_score = 80,
       cx_referenced_levels = [\<lparr>rl_price = Some 8, rl_kind = None, rl_timeframe = None, rl_relevance = None\<rparr>],
       cx_strategy_name = ''s'', cx_strategy_version = ''1'',
       cx_strategy_config_hash = ''h'', cx_atr_percentile_1h = None\<rparr>,
     rx_instrument = example_risk_instrument,
     rx_book = \<lparr>ds_instrument_id = 1, ds_bids = [(8, 5)], ds_asks = [(8, 5)], ds_fresh = True,
       ds_snapshot_at = Some 0\<rparr>,
     rx_best_bid = Some 8, rx_best_ask = Some 8, rx_bbo_at = Some 0, rx_bbo_fresh = True,
     rx_funding = \<lparr>fu_current_rate = Some 0, fu_history = [], fu_next_funding_at = None, fu_interval_hours = 1,
       fu_data_fresh = True\<rparr>,
     rx_fee_schedule = Some example_schedule,
     rx_execution_assumptions = build_execution_assumptions example_risk_costs,
     rx_levels = [\<lparr>tl_price = 16, tl_kind = ''RANGE_HIGH'', tl_timeframe = ''15m'', tl_relevance = 1\<rparr>],
     rx_atr_5m = Some 4, rx_atr_15m = None, rx_session_state = ''CRYPTO_24_7'', rx_session_allowed = True,
     rx_equity_overnight_risk = False, rx_watchlist_active = True, rx_bot_paused = False, rx_as_of = 0,
     rx_risk_config_hash = ''r'', rx_cost_config_hash = ''c''\<rparr>"

lemma ilog10_digit:
  assumes "1 \<le> n" "n < 10"
  shows "ilog10 (of_nat n) = 0"
  using compute_floorlog [of 10 n] compute_floorlog [of 10 0] assms by (simp add: ilog10_def)

lemma repr_digit:
  assumes "1 \<le> n" "n < 10"
  shows "repr_decimal (of_nat n) = of_nat n" "dec (of_nat n) = of_nat n"
proof -
  have fl: "fl (of_nat n) = (of_nat n :: rat)" using fl_of_int [of "int n"] assms by simp
  have "shortest_at 1 (of_nat n) = Some (of_nat n)"
    using fl round_half_even_of_int [of "int n"] by (simp add: shortest_at_def ilog10_digit [OF assms] Let_def)
  then show "repr_decimal (of_nat n) = of_nat n" using assms by (simp add: repr_decimal_def upt_rec List.map_filter_simps Let_def)
  have "round_half_even (of_nat n * 10 ^ 27) = int n * 10 ^ 27"
    using round_half_even_of_int [of "int n * 10 ^ 27"] by simp
  then show "dec (of_nat n) = of_nat n"
    by (simp add: dec_def ilog10_digit [OF assms] Let_def power_int_minus)
qed

lemmas example_digits = repr_digit [of 8, simplified] repr_digit [of 4, simplified] repr_digit [of 2, simplified]

lemma example_rounding:
  "round_price (example_risk_instrument) r 8 = Inr 8"
  "round_price (example_risk_instrument) r 4 = Inr 4"
  "round_quantity_down 2 0 = Inr 2"
  using round_half_even_of_int [of 8] round_half_even_of_int [of 4]
  by (auto simp: round_price_def example_risk_instrument_def tick_size_for_def example_digits ddiv_def dmul_def quantize_def
      to_integral_def round_quantity_down_def fl_numerals Let_def split: rounding.split)

lemma example_zone:
  "\<exists>ez. derive_entry_zone example_risk_context example_risk_settings = Inr ez \<and> ez_entry_reference_price ez = 8"
proof -
  have "\<not> chased True 8 8 s" if "0 \<le> rg_max_entry_chase_bps s" for s
  proof -
    have "0 \<le> fdiv (rg_max_entry_chase_bps s) 10000" using that by (simp add: fdiv_def fl_nonneg)
    then have "1 \<le> fadd 1 (fdiv (rg_max_entry_chase_bps s) 10000)"
      using adding_costs [of 1] by (simp add: is_float_def fl_numerals)
    then have "fl 8 \<le> fmul 8 (fadd 1 (fdiv (rg_max_entry_chase_bps s) 10000))" unfolding fmul_def by (intro fl_mono) simp
    then show ?thesis by (simp add: chased_def Let_def fl_numerals)
  qed
  then show ?thesis
    by (simp add: derive_entry_zone_def anchor_level_def example_risk_context_def cx_bullish_def snapshot_spread_bps_def
      first_price_def fsub_def fdiv_def fadd_def fmul_def fl_numerals Let_def example_rounding)
      (simp add: example_risk_settings_def default_risk_settings_def fl_numerals)
qed

lemmas example_arithmetic = fsub_def fdiv_def fadd_def fmul_def fl_numerals

lemma example_dyadic: "fl (1 / 2) = 1 / 2" "fl (1 / 4) = 1 / 4" "fl (1 / 8) = 1 / 8" "fl (3 / 8) = 3 / 8" "fl (3 / 4) = 3 / 4"
  using fl_representable [of 1 "- 1"] fl_representable [of 1 "- 2"] fl_representable [of 1 "- 3"]
    fl_representable [of 3 "- 3"] fl_representable [of 3 "- 2"] by (simp_all add: power_int_minus)

lemma example_invalidation:
  "\<exists>ti. derive_invalidation example_risk_context 8 example_risk_settings = Inr ti \<and> ti_invalidation_price ti = 4"
  by (simp add: derive_invalidation_def anchor_level_def example_risk_context_def cx_bullish_def example_arithmetic
      example_risk_settings_def default_risk_settings_def adverse_side_def Let_def example_rounding)

lemma example_targets:
  "\<exists>t. derive_targets example_risk_context 8 example_risk_settings = Inr [t] \<and> ta_price t = 16"
  by (simp add: derive_targets_def example_risk_context_def cx_bullish_def example_arithmetic max_targets_def
      example_risk_settings_def default_risk_settings_def reference_target_of_def Let_def)

lemma example_distance:
  "validate_risk_distance (compute_risk_distance 8 4 (Some 4)) example_risk_settings = None"
  "di_absolute (compute_risk_distance 8 4 (Some 4)) = 4"
  by (simp_all add: validate_risk_distance_def compute_risk_distance_def example_arithmetic example_dyadic
      example_risk_settings_def default_risk_settings_def Let_def)

lemma example_position:
  "\<exists>pz. size_reference_position example_risk_instrument 8 (compute_risk_distance 8 4 (Some 4)) example_risk_settings = Inr pz \<and>
     pz_reference_quantity pz = 2 \<and> pz_reference_notional pz = 16"
proof -
  have "1 \<le> fl (10001 / 10000)" using fl_mono [of 1 "10001 / 10000"] fl_numerals(1) by simp
  then have "fl 8 \<le> fl (8 * fl (10001 / 10000))" by (intro fl_mono) simp
  then have budget: "\<not> fl (8 * fl (10001 / 10000)) < 8" by (simp add: fl_numerals)
  have decimals: "ik_quantity_decimals example_risk_instrument = 0" "ik_min_notional example_risk_instrument = Some 1"
    by (simp_all add: example_risk_instrument_def)
  show ?thesis
    using budget
    by (simp add: size_reference_position_def example_distance(2) capped_quantity_def decimals example_rounding(3)
        example_arithmetic example_risk_settings_def default_risk_settings_def Let_def)
qed

lemma example_leverage:
  "\<exists>lv m b. determine_leverage_suitability example_risk_context 8 4 16 example_risk_settings = Inr (lv, m, b)"
proof -
  have cap: "leverage_cap example_risk_instrument 1 16 None (Some 0) True example_risk_settings = 1"
    by (simp add: leverage_cap_def tier_cap_def lowered_def example_risk_instrument_def example_risk_settings_def
        default_risk_settings_def example_arithmetic example_dyadic)
  have levels: "leverage_levels 6 1 = [1] \<or> leverage_levels 6 1 = []"
  proof -
    have "\<not> fl (1 - fl (1 / 10 ^ 9)) \<le> 1 / 2"
    proof -
      have "fl (1 / 10 ^ 9) \<le> 1 / 4" using fl_mono [of "1 / 10 ^ 9" "1 / 4"] example_dyadic by simp
      then have "fl (3 / 4) \<le> fl (1 - fl (1 / 10 ^ 9))" by (intro fl_mono) simp
      then show ?thesis by (simp add: example_dyadic)
    qed
    then show ?thesis
      using round_to_of_int [of 1 2] by (simp add: numeral_eq_Suc example_arithmetic example_dyadic)
  qed
  then have candidates: "leverage_candidates 1 = [1]" by (auto simp: leverage_candidates_def Let_def)
  have spread: "snapshot_spread_bps (rx_book example_risk_context) = Some 0"
    by (simp add: snapshot_spread_bps_def example_risk_context_def first_price_def example_arithmetic)
  have margin: "\<exists>m. build_margin_model example_risk_instrument 8 16 1 True example_risk_settings = Inr m \<and>
      mm_liquidation_price m = 1 \<and> mm_mark_price m = 8"
    by (simp add: build_margin_model_def resolve_rates_def plausible_rates_def liquidation_from_def
        example_risk_instrument_def example_risk_settings_def default_risk_settings_def example_arithmetic example_dyadic Let_def)
  then obtain m where m: "build_margin_model example_risk_instrument 8 16 1 True example_risk_settings = Inr m"
    "mm_liquidation_price m = 1" "mm_mark_price m = 8" by blast
  have buffer: "lb_sufficient (check_liquidation_buffer 4 m (Some 4) True example_risk_settings)"
    by (simp add: check_liquidation_buffer_def m example_arithmetic example_dyadic example_risk_settings_def
        default_risk_settings_def Let_def)
  have ctx: "rx_instrument example_risk_context = example_risk_instrument" "rx_atr_5m example_risk_context = Some 4"
    "cx_bullish (rx_candidate example_risk_context)" "cx_atr_percentile_1h (rx_candidate example_risk_context) = None"
    "fu_history (rx_funding example_risk_context) = []" "ik_max_leverage example_risk_instrument = Some 1"
    by (simp_all add: example_risk_context_def cx_bullish_def example_risk_instrument_def)
  show ?thesis
    by (simp add: determine_leverage_suitability_def ctx spread cap candidates m(1) buffer Let_def)
qed

lemma example_plan_walk:
  assumes "side = SIDE_ASK \<or> side = SIDE_BID"
  shows "walk_book (rx_book example_risk_context) side 2 25 50 = \<lparr>vw_side = side, vw_requested_quantity = 2,
     vw_filled_quantity = 2, vw_unfilled_quantity = 0, vw_vwap_price = Some 8, vw_reference_price = Some 8,
     vw_slippage_abs = Some 0, vw_slippage_bps = Some 0, vw_levels_consumed = 1\<rparr>"
  using assms by (auto simp: walk_book_def example_risk_context_def within_distance_def example_arithmetic Let_def)

lemma example_plan_costs:
  assumes "ez_entry_reference_price ez = 8" "ti_invalidation_price ti = 4" "ta_price t = 16" "pz_reference_quantity pz = 2"
  shows "\<exists>e. estimate_costs (plan_cost_query example_risk_context example_schedule ez ti [t] pz) example_risk_costs = Inr e \<and>
     validate_cost_estimate e example_risk_settings = None"
proof -
  have query: "plan_cost_query example_risk_context example_schedule ez ti [t] pz =
     \<lparr>cq_bullish = True, cq_entry_reference_price = 8, cq_invalidation_price = 4, cq_target_prices = [16],
      cq_quantity = 2, cq_book = rx_book example_risk_context, cq_funding = rx_funding example_risk_context,
      cq_fee_schedule = example_schedule, cq_as_of = 0, cq_hold_minutes = None,
      cq_assumptions = Some (build_execution_assumptions example_risk_costs)\<rparr>"
    by (simp add: plan_cost_query_def assms) (simp add: example_risk_context_def cx_bullish_def)
  have ctx: "ds_fresh (rx_book example_risk_context)" "fu_current_rate (rx_funding example_risk_context) = Some 0"
    "fu_history (rx_funding example_risk_context) = []" "fu_data_fresh (rx_funding example_risk_context)"
    by (simp_all add: example_risk_context_def)
  show ?thesis
    unfolding query
    by (simp add: estimate_costs_def query_leg_def estimate_leg_def side_for_def example_plan_walk example_cost_defs
        example_risk_costs_def ctx fully_filled_def stress_bps_for_def shifted_price_def adverse_direction_def
        buying_def fee_cost_def project_funding_def recent_rates_def adverse_rate_def percentile_of_def
        invalidation_economics_def sign_of_def rate_for_def target_economics_def validate_cost_estimate_def
        primary_target_def example_arithmetic example_risk_settings_def default_risk_settings_def Let_def)
qed

lemma example_effective:
  "effective_risk_settings example_risk_settings name cls = example_risk_settings"
  by (simp add: effective_risk_settings_def overrides_for_def example_risk_settings_def default_risk_settings_def)

lemma example_settings_valid: "valid_risk_settings example_risk_settings"
proof -
  have third: "0 \<le> fl (34 / 100)" "fl (34 / 100) \<le> 1 / 2" "1 / 4 \<le> fl (34 / 100)"
    "fl (1 / 10) \<le> 1 / 4" "1 / 16 \<le> fl (1 / 10)"
    using fl_mono [of "34 / 100" "1 / 2"] fl_mono [of "1 / 4" "34 / 100"] fl_mono [of "1 / 10" "1 / 4"]
      fl_mono [of "1 / 16" "1 / 10"] fl_representable [of 1 "- 4"] example_dyadic
    by (simp_all add: fl_nonneg power_int_minus)
  then have "0 < fl (34 / 100)" "fl (34 / 100) < 1" "0 < fl (1 / 10)" "fl (1 / 10) < 1" by linarith+
  then show ?thesis
    by (auto simp: valid_risk_settings_def example_risk_settings_def default_risk_settings_def score_components_def)
qed

lemma example_planned:
  "\<exists>p. evaluate_candidate example_risk_context example_risk_settings example_risk_costs = Outcome_Plan p"
proof -
  obtain ez ti t pz lv m b where
    ez: "derive_entry_zone example_risk_context example_risk_settings = Inr ez" "ez_entry_reference_price ez = 8"
    and ti: "derive_invalidation example_risk_context 8 example_risk_settings = Inr ti" "ti_invalidation_price ti = 4"
    and t: "derive_targets example_risk_context 8 example_risk_settings = Inr [t]" "ta_price t = 16"
    and pz: "size_reference_position example_risk_instrument 8 (compute_risk_distance 8 4 (Some 4)) example_risk_settings = Inr pz"
      "pz_reference_quantity pz = 2" "pz_reference_notional pz = 16"
    and lv: "determine_leverage_suitability example_risk_context 8 4 16 example_risk_settings = Inr (lv, m, b)"
    using example_zone example_invalidation example_targets example_position example_leverage by blast
  obtain e where e: "estimate_costs (plan_cost_query example_risk_context example_schedule ez ti [t] pz) example_risk_costs = Inr e"
    "validate_cost_estimate e example_risk_settings = None"
    using example_plan_costs [OF ez(2) ti(2) t(2) pz(2)] by blast
  let ?d = "compute_risk_distance 8 4 (Some 4)"
  have "rg_min_net_rr example_risk_settings \<noteq> 0" "rg_max_cost_to_risk_pct example_risk_settings \<noteq> 0"
    by (simp_all add: example_risk_settings_def default_risk_settings_def)
  then obtain score components where score: "compute_eligibility_score ti ?d [t] e b m example_risk_settings = Inr (score, components)"
    by (simp add: compute_eligibility_score_def Let_def)
  from score_range [OF score] example_settings_valid
  have least: "\<not> of_int score < rg_eligibility_min_score example_risk_settings"
    by (simp add: valid_risk_settings_def) (simp add: example_risk_settings_def)
  have atr: "rx_atr_5m example_risk_context = Some 4" "rx_instrument example_risk_context = example_risk_instrument"
    by (simp_all add: example_risk_context_def)
  have gate: "hard_gate example_risk_context example_risk_settings example_risk_costs = None"
    by (simp add: hard_gate_def example_risk_context_def example_risk_instrument_def example_schedule_def
        ik_reference_price_def Let_def)
  have schedule: "rx_fee_schedule example_risk_context = Some example_schedule" by (simp add: example_risk_context_def)
  have "\<exists>p. plan_of example_risk_context example_risk_settings example_risk_costs example_schedule = Inr p"
    by (simp add: plan_of_def ez ti t pz lv e score least atr example_distance stop_if_def stop_code_def Let_def)
  then show ?thesis
    by (auto simp: evaluate_candidate_def example_effective gate schedule Let_def)
qed

lemma evaluated_plan:
  assumes "valid_risk_settings settings" "float_inputs x settings"
    and "evaluate_candidate x settings cs = Outcome_Plan p"
  shows "plan_sound x (effective_risk_settings settings (cx_symbol (rx_candidate x)) (cx_asset_class (rx_candidate x))) p"
proof -
  let ?s = "effective_risk_settings settings (cx_symbol (rx_candidate x)) (cx_asset_class (rx_candidate x))"
  obtain f where "plan_of x ?s cs f = Inr p"
    using assms(3) by (auto simp: evaluate_candidate_def Let_def split: option.splits sum.splits risk_stop.splits)
  then show ?thesis
    using assms(1,2) by (intro plan_of_sound) (auto simp: effective_settings valid_risk_settings_def float_inputs_def)
qed

section \<open>Properties\<close>

text \<open>
  C29.  Every eligible plan is sound under the settings in force, the configured ones with the overrides for
  its asset class and its symbol, as long as the quotes are floats and no override makes the minimal
  distance negative: the hypothetical liquidation, the invalidation, the entry and the targets lie in this
  order; the leverage is 1x or at most the maximum in force, and not above three, the maximum of the market
  and of the tier; the quantity is not above the budget, the risk and the costs are within their limits, the
  score is between the minimum and a hundred, and the plan ends with its candidate.
\<close>

theorem eligible_plan_is_sound:
  assumes "valid_risk_settings settings" "float_inputs x settings"
    and "evaluate_candidate x settings cs = Outcome_Plan p"
  shows "plan_sound x (effective_risk_settings settings (cx_symbol (rx_candidate x)) (cx_asset_class (rx_candidate x))) p"
  using assms by (rule evaluated_plan)

theorem eligible_plan_is_sound_witness:
  "\<exists>p. evaluate_candidate example_risk_context example_risk_settings example_risk_costs = Outcome_Plan p \<and>
     plan_sound example_risk_context example_risk_settings p"
proof -
  obtain p where p: "evaluate_candidate example_risk_context example_risk_settings example_risk_costs = Outcome_Plan p"
    using example_planned by blast
  have "float_inputs example_risk_context example_risk_settings"
    unfolding float_inputs_def example_effective
    by (simp add: option_float_def is_float_def example_risk_context_def example_risk_settings_def
        default_risk_settings_def fl_numerals)
  from eligible_plan_is_sound [OF example_settings_valid this p] p show ?thesis by (auto simp: example_effective)
qed

end
