(* ===== verification/Strategy_Features.thy ===== *)
theory Strategy_Features
  imports Strategy_Model
begin

text \<open>
  The features of the strategy, pure functions of a series: candle features, volatility, momentum and volume,
  the swings and the market structure they form, liquidity levels, their sweeps, reclaims, rejections and
  retests, and the context of the book.  The realized volatility and the logarithmic returns, stored values
  nothing reads, are left out.
\<close>

section \<open>Candle features\<close>

definition simple_returns :: "candle_series \<Rightarrow> nat \<Rightarrow> float64 option" where
  "simple_returns s n =
     (let ks = se_candles s; base = rk_close (ks ! (length ks - 1 - n)) in
      if length ks \<le> n \<or> base = 0 then None else Some (fsub (fdiv (rk_close (last ks)) base) 1))"

definition true_range :: "strategy_candle option \<Rightarrow> strategy_candle \<Rightarrow> float64" where
  "true_range previous k =
     (case previous of
        None \<Rightarrow> candle_range k
      | Some p \<Rightarrow> max (fsub (rk_high k) (rk_low k))
          (max \<bar>fsub (rk_high k) (rk_close p)\<bar> \<bar>fsub (rk_low k) (rk_close p)\<bar>))"

definition true_range_series :: "candle_series \<Rightarrow> float64 list" where
  "true_range_series s = map2 true_range (None # map Some (se_candles s)) (se_candles s)"

text \<open>The smoothing of Wilder: an average of the first ranges, then a weighted step for every later one.\<close>

definition average_true_range :: "candle_series \<Rightarrow> nat \<Rightarrow> float64 option" where
  "average_true_range s period =
     (let ranges = true_range_series s; n = (of_nat period :: float64) in
      if length ranges < period + 1 then None
      else Some (foldl (\<lambda>value tr. fdiv (fadd (fmul value (n - 1)) tr) n)
        (fdiv (py_sum (take period (drop 1 ranges))) n) (drop (period + 1) ranges)))"

definition body_to_range_ratio :: "strategy_candle \<Rightarrow> float64 option" where
  "body_to_range_ratio k = (if candle_range k = 0 then None else Some (fdiv (candle_body k) (candle_range k)))"

definition close_location_value :: "strategy_candle \<Rightarrow> float64 option" where
  "close_location_value k =
     (if candle_range k = 0 then None
      else Some (fdiv (fsub (fsub (rk_close k) (rk_low k)) (fsub (rk_high k) (rk_close k))) (candle_range k)))"

definition rolling_window :: "candle_series \<Rightarrow> nat \<Rightarrow> bool \<Rightarrow> strategy_candle list option" where
  "rolling_window s n exclude_last =
     (let ks = (if exclude_last then butlast (se_candles s) else se_candles s) in
      if length ks < n then None else Some (last_n n ks))"

definition highest :: "strategy_candle list \<Rightarrow> float64" where
  "highest ks = fold (\<lambda>k m. max m (rk_high k)) (tl ks) (rk_high (hd ks))"

definition lowest :: "strategy_candle list \<Rightarrow> float64" where
  "lowest ks = fold (\<lambda>k m. min m (rk_low k)) (tl ks) (rk_low (hd ks))"

definition rolling_high :: "candle_series \<Rightarrow> nat \<Rightarrow> bool \<Rightarrow> float64 option" where
  "rolling_high s n exclude_last = map_option highest (rolling_window s n exclude_last)"

definition rolling_low :: "candle_series \<Rightarrow> nat \<Rightarrow> bool \<Rightarrow> float64 option" where
  "rolling_low s n exclude_last = map_option lowest (rolling_window s n exclude_last)"

definition rolling_mean_volume :: "candle_series \<Rightarrow> nat \<Rightarrow> float64 option" where
  "rolling_mean_volume s n =
     map_option (\<lambda>ks. fdiv (py_sum (map rk_volume ks)) (of_nat n)) (rolling_window s n True)"

definition distance_bps :: "float64 \<Rightarrow> float64 \<Rightarrow> float64 option" where
  "distance_bps price reference =
     (if reference \<le> 0 then None else Some (fmul (fdiv (fsub price reference) reference) 10000))"

definition mean_range :: "nat \<Rightarrow> strategy_candle list \<Rightarrow> float64" where
  "mean_range n ks = fdiv (py_sum (map candle_range (last_n n ks))) (of_nat n)"

definition range_compression_ratio :: "candle_series \<Rightarrow> nat \<Rightarrow> nat \<Rightarrow> float64 option" where
  "range_compression_ratio s short long =
     (let ks = se_candles s in
      if length ks < long \<or> short = 0 \<or> long \<le> short then None
      else if mean_range long ks = 0 then None
      else Some (fdiv (mean_range short ks) (mean_range long ks)))"

definition efficiency_ratio :: "candle_series \<Rightarrow> nat \<Rightarrow> float64 option" where
  "efficiency_ratio s n =
     (let closes = map rk_close (last_n (n + 1) (se_candles s));
          path = py_sum (map2 (\<lambda>a b. \<bar>fsub b a\<bar>) closes (tl closes)) in
      if se_length s < n + 1 then None
      else if path = 0 then None
      else Some (fdiv \<bar>fsub (last closes) (hd closes)\<bar> path))"

definition sign_of_change :: "float64 \<Rightarrow> int" where
  "sign_of_change x = (if 0 < x then 1 else 0) - (if x < 0 then 1 else 0)"

definition directional_sign :: "candle_series \<Rightarrow> nat \<Rightarrow> int" where
  "directional_sign s n =
     (let ks = se_candles s in
      if length ks < n + 1 then 0
      else sign_of_change (fsub (rk_close (last ks)) (rk_close (ks ! (length ks - 1 - n)))))"

section \<open>Volatility, momentum and volume\<close>

record volatility_features =
  vf_atr_value :: "float64 option"
  vf_atr_bps :: "float64 option"
  vf_atr_percentile :: "float64 option"
  vf_compression_ratio :: "float64 option"
  vf_is_high_volatility :: bool
  vf_is_compressed :: bool

definition atr_in_bps :: "candle_series \<Rightarrow> nat \<Rightarrow> float64 option" where
  "atr_in_bps s period =
     (case average_true_range s period of
        None \<Rightarrow> None
      | Some a \<Rightarrow> if rk_close (se_last s) \<le> 0 then None else Some (fmul (fdiv a (rk_close (se_last s))) 10000))"

definition percentile_rank :: "float64 list \<Rightarrow> float64 \<Rightarrow> float64" where
  "percentile_rank xs x =
     (if xs = [] then 0
      else
        let less = length (filter (\<lambda>y. y < x) xs); equal = length (filter (\<lambda>y. y = x) xs) in
        fmul (fdiv (fadd (of_nat less) (fdiv (of_nat equal) 2)) (of_nat (length xs))) 100)"

definition compute_volatility :: "candle_series \<Rightarrow> strategy_settings \<Rightarrow> volatility_features" where
  "compute_volatility s cfg =
     (let ranges = true_range_series s; compression = range_compression_ratio s 5 20;
          history = (if 5 \<le> length ranges then last_n (st_volatility_lookback cfg) ranges else []);
          percentile = (if history = [] then None else Some (percentile_rank history (last ranges))) in
      \<lparr>vf_atr_value = average_true_range s (st_atr_period cfg), vf_atr_bps = atr_in_bps s (st_atr_period cfg),
       vf_atr_percentile = percentile, vf_compression_ratio = compression,
       vf_is_high_volatility =
         (case percentile of None \<Rightarrow> False | Some p \<Rightarrow> st_high_volatility_percentile cfg \<le> p),
       vf_is_compressed = (case compression of None \<Rightarrow> False | Some c \<Rightarrow> c < fl (7 / 10))\<rparr>)"

record momentum_features =
  mo_rate_of_change :: "float64 option"
  mo_close_to_close :: "float64 option"
  mo_last_body_ratio :: "float64 option"
  mo_last_close_location :: "float64 option"
  mo_continuation_count :: nat
  mo_rsi :: "float64 option"
  mo_direction :: int

definition rsi_step :: "float64 \<Rightarrow> float64 \<times> float64 \<Rightarrow> float64 \<times> float64" where
  "rsi_step delta gl = (let (g, l) = gl in if 0 \<le> delta then (fadd g delta, l) else (g, fsub l delta))"

definition relative_strength :: "candle_series \<Rightarrow> nat \<Rightarrow> float64 option" where
  "relative_strength s period =
     (let closes = map rk_close (last_n (period + 1) (se_candles s));
          n = of_nat period;
          (gains, losses) = fold rsi_step (map2 (\<lambda>a b. fsub b a) closes (tl closes)) (0, 0) in
      if se_length s < period + 1 then None
      else if losses = 0 then Some 100
      else Some (fsub 100 (fdiv 100 (fadd 1 (fdiv (fdiv gains n) (fdiv losses n))))))"

text \<open>The number of steps between closes, from the last one back, in the direction of the last one.\<close>

definition continuation_of :: "strategy_candle list \<Rightarrow> nat" where
  "continuation_of ks =
     (let closes = map rk_close ks; steps = rev (map2 (\<lambda>a b. sign_of_change (b - a)) closes (tl closes)) in
      case steps of [] \<Rightarrow> 0 | d # _ \<Rightarrow> if d = 0 then 0 else length (takeWhile (\<lambda>x. x = d) steps))"

definition compute_momentum :: "candle_series \<Rightarrow> nat \<Rightarrow> momentum_features" where
  "compute_momentum s lookback =
     (let roc = simple_returns s lookback; k = se_last s; body = body_to_range_ratio k;
          location = close_location_value k;
          place = (case location of None \<Rightarrow> 0 | Some v \<Rightarrow> v) in
      \<lparr>mo_rate_of_change = roc, mo_close_to_close = simple_returns s 1, mo_last_body_ratio = body,
       mo_last_close_location = location, mo_continuation_count = continuation_of (se_candles s),
       mo_rsi = relative_strength s 14,
       mo_direction =
         (case (roc, body) of
            (Some r, Some b) \<Rightarrow> if 0 < r \<and> 0 < place then 1 else if r < 0 \<and> place < 0 then - 1 else 0
          | _ \<Rightarrow> 0)\<rparr>)"

record volume_features =
  vo_relative_volume :: "float64 option"
  vo_relative_trade_count :: "float64 option"
  vo_volume_available :: bool
  vo_trade_count_available :: bool

definition positive_baseline :: "float64 option \<Rightarrow> float64 option" where
  "positive_baseline x = (case x of None \<Rightarrow> None | Some b \<Rightarrow> if 0 < b then Some b else None)"

definition compute_volume :: "candle_series \<Rightarrow> nat \<Rightarrow> volume_features" where
  "compute_volume s lookback =
     (let k = se_last s;
          baseline = (if 0 \<le> rk_volume k then positive_baseline (rolling_mean_volume s lookback) else None);
          trades = positive_baseline (map_option
            (\<lambda>ks. fdiv (of_int (sum_list (map rk_trade_count ks))) (of_nat lookback)) (rolling_window s lookback True)) in
      \<lparr>vo_relative_volume = map_option (fdiv (rk_volume k)) baseline,
       vo_relative_trade_count = map_option (fdiv (of_int (rk_trade_count k))) trades,
       vo_volume_available = (baseline \<noteq> None), vo_trade_count_available = (trades \<noteq> None)\<rparr>)"

section \<open>Swings\<close>

definition lower_highs :: "strategy_candle \<Rightarrow> strategy_candle list \<Rightarrow> bool" where
  "lower_highs p = list_all (\<lambda>k. rk_high k < rk_high p)"

definition higher_lows :: "strategy_candle \<Rightarrow> strategy_candle list \<Rightarrow> bool" where
  "higher_lows p = list_all (\<lambda>k. rk_low p < rk_low k)"

definition make_swing ::
  "candle_series \<Rightarrow> swing_type \<Rightarrow> float64 \<Rightarrow> strategy_candle \<Rightarrow> strategy_candle \<Rightarrow> float64 \<Rightarrow> float64 \<Rightarrow> swing" where
  "make_swing s side price pivot confirm prominence atr =
     \<lparr>wi_timeframe = se_timeframe s, wi_type = side, wi_price = price, wi_candle_open_time = rk_open_time pivot,
      wi_confirmed_at = close_time confirm, wi_strength = (if atr = 0 then 1 else fdiv prominence atr),
      wi_relevance = 1\<rparr>"

text \<open>
  The swings of one candle.  A high whose prominence is noise ends the round, so that a low of the same candle
  is not looked at.
\<close>

definition swings_at :: "candle_series \<Rightarrow> nat \<Rightarrow> nat \<Rightarrow> float64 \<Rightarrow> float64 \<Rightarrow> nat \<Rightarrow> swing list" where
  "swings_at s lbars rbars atr min_prominence i =
     (let ks = se_candles s; p = ks ! i; ls = take lbars (drop (i - lbars) ks); rs = take rbars (drop (i + 1) ks);
          noise = (\<lambda>q. min_prominence \<noteq> 0 \<and> q < min_prominence);
          high_prominence = fsub (rk_high p) (max (lowest ls) (lowest rs));
          low_prominence = fsub (min (highest ls) (highest rs)) (rk_low p);
          high = lower_highs p ls \<and> lower_highs p rs; low = higher_lows p ls \<and> higher_lows p rs in
      if high \<and> noise high_prominence then []
      else
        (if high then [make_swing s SWING_HIGH (rk_high p) p (last rs) high_prominence atr] else []) @
        (if low \<and> \<not> noise low_prominence then [make_swing s SWING_LOW (rk_low p) p (last rs) low_prominence atr] else []))"

definition weighted_swings :: "swing list \<Rightarrow> swing list" where
  "weighted_swings ws =
     map2 (\<lambda>i w. w\<lparr>wi_relevance := fdiv (of_nat (i + 1)) (of_nat (length ws))\<rparr>) [0..<length ws] ws"

definition detect_swings :: "candle_series \<Rightarrow> strategy_settings \<Rightarrow> swing list" where
  "detect_swings s cfg =
     (let l = st_swing_left_bars cfg; r = st_swing_right_bars cfg;
          atr = (case average_true_range s (st_atr_period cfg) of None \<Rightarrow> 0 | Some a \<Rightarrow> a) in
      if se_length s < l + r + 1 then []
      else weighted_swings (sort_key wi_candle_open_time
        (concat (map (swings_at s l r atr (fmul atr (st_swing_atr_multiplier cfg))) [l..<se_length s - r]))))"

section \<open>Market structure\<close>

abbreviation swings_of :: "swing_type \<Rightarrow> swing list \<Rightarrow> swing list" where
  "swings_of side ws \<equiv> filter (\<lambda>w. wi_type w = side) ws"

definition relation_event ::
  "float64 \<Rightarrow> structure_event_type \<Rightarrow> structure_event_type \<Rightarrow> structure_event_type \<Rightarrow> swing \<times> swing \<Rightarrow>
     structure_event option" where
  "relation_event tolerance up down equal pair =
     (let (p, c) = pair; delta = fmul (fdiv (fsub (wi_price c) (wi_price p)) (wi_price p)) 10000;
          event = (\<lambda>t d. Some \<lparr>sv_event_type = t, sv_timeframe = wi_timeframe c, sv_price = wi_price c,
            sv_reference_swing_id = Some (id_of_swing p), sv_confirm_close_time = wi_confirmed_at c, sv_detail = d\<rparr>) in
      if wi_price p \<le> 0 then None
      else if \<bar>delta\<bar> \<le> tolerance then event equal Equal_Level
      else if 0 < delta then event up (Moved_Bps delta)
      else event down (Moved_Bps delta))"

definition relate ::
  "float64 \<Rightarrow> structure_event_type \<Rightarrow> structure_event_type \<Rightarrow> structure_event_type \<Rightarrow> swing list \<Rightarrow>
     structure_event list" where
  "relate tolerance up down equal ws = List.map_filter (relation_event tolerance up down equal) (zip ws (tl ws))"

definition relation_events :: "float64 \<Rightarrow> swing list \<Rightarrow> structure_event list" where
  "relation_events tolerance ws = sort_key sv_confirm_close_time
     (relate tolerance HIGHER_HIGH LOWER_HIGH EQUAL_HIGH (swings_of SWING_HIGH ws) @
      relate tolerance HIGHER_LOW LOWER_LOW EQUAL_LOW (swings_of SWING_LOW ws))"

definition close_beyond :: "bool \<Rightarrow> float64 \<Rightarrow> strategy_candle \<Rightarrow> bool" where
  "close_beyond upward price k = (if upward then price < rk_close k else rk_close k < price)"

text \<open>The candle that completes a run of \<open>n\<close> closes beyond the price, with the length of the run.\<close>

fun closes_beyond :: "nat \<Rightarrow> (strategy_candle \<Rightarrow> bool) \<Rightarrow> nat \<Rightarrow> strategy_candle list \<Rightarrow> (nat \<times> strategy_candle) option" where
  "closes_beyond n b count [] = None"
| "closes_beyond n b count (k # ks) =
     (if b k then if n \<le> Suc count then Some (Suc count, k) else closes_beyond n b (Suc count) ks
      else closes_beyond n b 0 ks)"

definition break_event :: "candle_series \<Rightarrow> nat \<Rightarrow> structure_state \<Rightarrow> bool \<Rightarrow> swing list \<Rightarrow> structure_event list" where
  "break_event s closes state upward ws =
     (if ws = [] then []
      else
        let w = last ws; price = wi_price w;
            later = dropWhile (\<lambda>k. close_time k \<le> wi_confirmed_at w) (se_candles s) in
        case closes_beyond closes (close_beyond upward price) 0 later of
          None \<Rightarrow> []
        | Some (n, k) \<Rightarrow>
            let flips = (state = (if upward then BEARISH else BULLISH)) in
            [\<lparr>sv_event_type = (if flips then CHANGE_OF_CHARACTER else BREAK_OF_STRUCTURE),
              sv_timeframe = se_timeframe s, sv_price = price,
              sv_reference_swing_id = (if flips then Some (id_of_swing w) else None),
              sv_confirm_close_time = close_time k,
              sv_detail = (if flips then Character_Changed upward n price
                else if upward then Closes_Above n price else Closes_Below n price)\<rparr>])"

definition break_events :: "candle_series \<Rightarrow> swing list \<Rightarrow> nat \<Rightarrow> structure_state \<Rightarrow> structure_event list" where
  "break_events s ws closes state =
     break_event s closes state True (swings_of SWING_HIGH ws) @ break_event s closes state False (swings_of SWING_LOW ws)"

definition classify_state :: "structure_event list \<Rightarrow> structure_state" where
  "classify_state es =
     (let recent = last_n 4 (filter (\<lambda>e. sv_event_type e \<in> {HIGHER_HIGH, HIGHER_LOW, LOWER_HIGH, LOWER_LOW}) es);
          bull = list_ex (\<lambda>e. sv_event_type e \<in> {HIGHER_HIGH, HIGHER_LOW}) recent;
          bear = list_ex (\<lambda>e. sv_event_type e \<in> {LOWER_HIGH, LOWER_LOW}) recent in
      if length recent < 2 then INSUFFICIENT_STRUCTURE
      else if bull \<and> \<not> bear then BULLISH
      else if bear \<and> \<not> bull then BEARISH
      else if bull \<and> bear then TRANSITIONAL
      else NEUTRAL)"

definition analyze_structure :: "candle_series \<Rightarrow> swing list \<Rightarrow> strategy_settings \<Rightarrow> structure_analysis" where
  "analyze_structure s ws cfg =
     (let relations = relation_events (st_equal_level_tolerance_bps cfg) ws;
          state = classify_state relations;
          breaks = break_events s ws (st_structure_break_confirmation_closes cfg) state in
      \<lparr>sa_state = (if list_ex (\<lambda>e. sv_event_type e = CHANGE_OF_CHARACTER) breaks then TRANSITIONAL else state),
       sa_events = sort_key sv_confirm_close_time (relations @ breaks), sa_swings = ws\<rparr>)"

end
