(* ===== verification/Strategy_Levels.thy ===== *)
theory Strategy_Levels
  imports Strategy_Features
begin

text \<open>
  Liquidity levels and what happens at them (\<open>liquidity_pools.py\<close>, \<open>liquidity_sweeps.py\<close>,
  \<open>reclaim_rejection.py\<close>, \<open>retest.py\<close>), the context of the market (\<open>orderbook_features.py\<close>,
  \<open>market_context.py\<close>) and the regime (\<open>regime.py\<close>).
\<close>

section \<open>Liquidity levels\<close>

definition swing_level :: "candle_series \<Rightarrow> liquidity_level_type \<Rightarrow> swing \<Rightarrow> liquidity_level" where
  "swing_level s t w = \<lparr>ll_type = t, ll_timeframe = se_timeframe s, ll_price = wi_price w,
     ll_relevance = wi_relevance w, ll_touches = 1, ll_is_major = (1 \<le> wi_strength w)\<rparr>"

text \<open>The prices of the other swings that lie within the tolerance of the \<open>i\<close>-th one.\<close>

definition equal_group :: "float64 \<Rightarrow> swing list \<Rightarrow> nat \<Rightarrow> float64 list" where
  "equal_group tolerance ws i =
     (let anchor = wi_price (ws ! i) in
      map wi_price (filter
        (\<lambda>w. 0 < anchor \<and> fmul (fdiv \<bar>fsub (wi_price w) anchor\<bar> anchor) 10000 \<le> tolerance)
        (take i ws @ drop (i + 1) ws)))"

text \<open>The first swing with neighbours makes a level; the others of its side are not looked at.\<close>

definition equal_levels ::
  "candle_series \<Rightarrow> float64 \<Rightarrow> liquidity_level_type \<Rightarrow> swing list \<Rightarrow> liquidity_level list" where
  "equal_levels s tolerance t ws =
     (case find (\<lambda>i. equal_group tolerance ws i \<noteq> []) [0..<length ws] of
        None \<Rightarrow> []
      | Some i \<Rightarrow>
          let g = equal_group tolerance ws i; extreme = (if t = LEVEL_EQUAL_HIGHS then max else min) in
          [\<lparr>ll_type = t, ll_timeframe = se_timeframe s, ll_price = fold extreme g (wi_price (ws ! i)),
            ll_relevance = min 1 (fadd (1 / 2) (fmul (1 / 4) (of_nat (length g)))), ll_touches = length g + 1,
            ll_is_major = True\<rparr>])"

definition range_level :: "candle_series \<Rightarrow> liquidity_level_type \<Rightarrow> float64 option \<Rightarrow> liquidity_level list" where
  "range_level s t price =
     (case price of None \<Rightarrow> []
      | Some p \<Rightarrow> [\<lparr>ll_type = t, ll_timeframe = se_timeframe s, ll_price = p, ll_relevance = fl (8 / 10),
          ll_touches = 1, ll_is_major = True\<rparr>])"

definition detect_liquidity_levels :: "candle_series \<Rightarrow> swing list \<Rightarrow> strategy_settings \<Rightarrow> liquidity_level list" where
  "detect_liquidity_levels s ws cfg =
     (let highs = last_n 6 (swings_of SWING_HIGH ws); lows = last_n 6 (swings_of SWING_LOW ws);
          n = st_liquidity_level_lookback cfg; tolerance = st_equal_level_tolerance_bps cfg in
      map (swing_level s LEVEL_SWING_HIGH) highs @ map (swing_level s LEVEL_SWING_LOW) lows @
      equal_levels s tolerance LEVEL_EQUAL_HIGHS highs @ equal_levels s tolerance LEVEL_EQUAL_LOWS lows @
      range_level s LEVEL_RANGE_HIGH (rolling_high s n True) @ range_level s LEVEL_RANGE_LOW (rolling_low s n True))"

section \<open>Sweeps\<close>

definition below_types :: "liquidity_level_type list" where
  "below_types = [LEVEL_SWING_LOW, LEVEL_EQUAL_LOWS, LEVEL_RANGE_LOW]"

definition sweep_lookback :: nat where
  "sweep_lookback = 8"

definition overshoot_bps :: "bool \<Rightarrow> float64 \<Rightarrow> strategy_candle \<Rightarrow> float64" where
  "overshoot_bps low price k =
     (if low then fmul (fdiv (fsub price (rk_low k)) price) 10000
      else fmul (fdiv (fsub (rk_high k) price) price) 10000)"

definition pierced :: "bool \<Rightarrow> float64 \<Rightarrow> float64 \<Rightarrow> strategy_candle \<Rightarrow> bool" where
  "pierced low price minimum k \<longleftrightarrow>
     (if low then rk_low k < price else price < rk_high k) \<and> minimum \<le> overshoot_bps low price k"

text \<open>The first candle that pierces a level, with the reaction of it or of a later candle of the window.\<close>

fun first_sweep :: "float64 \<Rightarrow> liquidity_level \<Rightarrow> strategy_candle list \<Rightarrow> sweep_event option" where
  "first_sweep minimum l [] = None"
| "first_sweep minimum l (k # later) =
     (let low = ll_type l \<in> set below_types; price = ll_price l;
          closed_back = close_beyond low price k; back_later = list_ex (close_beyond low price) later in
      if \<not> pierced low price minimum k then first_sweep minimum l later
      else Some \<lparr>sx_level = l, sx_direction = (if low then SWEPT_BELOW else SWEPT_ABOVE),
        sx_sweep_candle_open_time = rk_open_time k, sx_overshoot_bps = overshoot_bps low price k,
        sx_reacted = (closed_back \<or> back_later), sx_confirmed = (closed_back \<or> back_later),
        sx_confidence = (if closed_back then fl (9 / 10) else if back_later then fl (7 / 10) else fl (3 / 10))\<rparr>)"

definition detect_sweeps :: "candle_series \<Rightarrow> liquidity_level list \<Rightarrow> float64 \<Rightarrow> sweep_event list" where
  "detect_sweeps s levels minimum =
     sort_key sx_sweep_candle_open_time
       (List.map_filter (\<lambda>l. if ll_price l \<le> 0 then None
          else first_sweep minimum l (last_n sweep_lookback (se_candles s))) levels)"

section \<open>Reclaim, rejection and retest\<close>

definition reclaims :: "sweep_event \<Rightarrow> float64 \<Rightarrow> strategy_candle \<Rightarrow> bool" where
  "reclaims x tolerance k \<longleftrightarrow>
     sx_sweep_candle_open_time x \<le> rk_open_time k \<and>
     (if sx_direction x = SWEPT_BELOW then fadd (ll_price (sx_level x)) tolerance < rk_close k
      else rk_close k < fsub (ll_price (sx_level x)) tolerance)"

definition detect_reclaim :: "candle_series \<Rightarrow> sweep_event \<Rightarrow> float64 \<Rightarrow> reclaim_event option" where
  "detect_reclaim s x tolerance_bps =
     (let price = ll_price (sx_level x); tolerance = fdiv (fmul price tolerance_bps) 10000 in
      if price \<le> 0 then None
      else map_option
        (\<lambda>k. \<lparr>rm_level_price = price, rm_close_price = rk_close k,
           rm_distance_bps = fmul (fdiv \<bar>fsub (rk_close k) price\<bar> price) 10000, rm_confirmed_at = close_time k,
           rm_confidence = min (fl (9 / 10)) (fadd (sx_confidence x) (fl (2 / 10)))\<rparr>)
        (find (reclaims x tolerance) (se_candles s)))"

definition upper_wick :: "strategy_candle \<Rightarrow> float64" where
  "upper_wick k = fdiv (fsub (rk_high k) (max (rk_open k) (rk_close k))) (candle_range k)"

definition lower_wick :: "strategy_candle \<Rightarrow> float64" where
  "lower_wick k = fdiv (fsub (min (rk_open k) (rk_close k)) (rk_low k)) (candle_range k)"

text \<open>A wick into the level, a close away from it, and a next close further away.\<close>

definition rejects :: "float64 \<Rightarrow> bool \<Rightarrow> float64 \<Rightarrow> strategy_candle \<times> strategy_candle \<Rightarrow> bool" where
  "rejects price bearish minimum pair \<longleftrightarrow>
     (let (k, follow) = pair in
      candle_range k \<noteq> 0 \<and>
      (if bearish
       then price \<le> rk_high k \<and> minimum \<le> upper_wick k \<and> rk_close k < price \<and> rk_close follow < rk_close k
       else rk_low k \<le> price \<and> minimum \<le> lower_wick k \<and> price < rk_close k \<and> rk_close k < rk_close follow))"

definition detect_rejection :: "candle_series \<Rightarrow> float64 \<Rightarrow> bool \<Rightarrow> float64 \<Rightarrow> rejection_event option" where
  "detect_rejection s price bearish minimum =
     (if price \<le> 0 \<or> se_length s < 2 then None
      else map_option
        (\<lambda>(k, follow). \<lparr>rn_level_price = price, rn_wick_ratio = (if bearish then upper_wick k else lower_wick k),
           rn_close_position = fdiv (fsub (rk_close k) (rk_low k)) (candle_range k), rn_followed_through = True,
           rn_confirmed_at = close_time follow, rn_confidence = fl (8 / 10)\<rparr>)
        (find (rejects price bearish minimum) (zip (se_candles s) (tl (se_candles s)))))"

text \<open>
  The scan of a retest: a close back through the band fails it, a candle that leaves the band after a touch
  confirms it.  At the end only the touch is known.
\<close>

fun retest_scan :: "bool \<Rightarrow> float64 \<Rightarrow> float64 \<Rightarrow> bool \<Rightarrow> strategy_candle list \<Rightarrow> retest_status option \<times> bool" where
  "retest_scan bull price tolerance touched [] = (None, touched)"
| "retest_scan bull price tolerance touched (k # ks) =
     (if (if bull then rk_close k < fsub price tolerance else fadd price tolerance < rk_close k) then
        (Some RETEST_FAILED, touched)
      else if (if bull then rk_low k \<le> fadd price tolerance else fsub price tolerance \<le> rk_high k) then
        retest_scan bull price tolerance True ks
      else if touched then (Some RETEST_CONFIRMED, touched)
      else retest_scan bull price tolerance touched ks)"

definition evaluate_retest :: "candle_series \<Rightarrow> float64 \<Rightarrow> datetime \<Rightarrow> bool \<Rightarrow> strategy_settings \<Rightarrow> retest_status" where
  "evaluate_retest s price since bull cfg =
     (let tolerance = fdiv (fmul price (st_retest_tolerance_bps cfg)) 10000;
          n = st_retest_max_5m_candles cfg;
          window = take n (filter (\<lambda>k. since \<le> rk_open_time k) (se_candles s)) in
      if price \<le> 0 then RETEST_NOT_PRESENT
      else if window = [] then RETEST_PENDING
      else
        case retest_scan bull price tolerance False window of
          (Some r, _) \<Rightarrow> r
        | (None, True) \<Rightarrow> RETEST_PENDING
        | (None, False) \<Rightarrow> if n \<le> length window then RETEST_NOT_PRESENT else RETEST_PENDING)"

section \<open>The context of the market\<close>

record market_snapshot =
  mt_mark_price :: "float64 option"
  mt_index_price :: "float64 option"
  mt_mid_price :: "float64 option"
  mt_best_bid :: "float64 option"
  mt_best_ask :: "float64 option"
  mt_spread_bps :: "float64 option"
  mt_bid_depth_pusd :: "float64 option"
  mt_ask_depth_pusd :: "float64 option"
  mt_book_fresh :: bool
  mt_bbo_fresh :: bool
  mt_funding_rate :: "float64 option"
  mt_volume_24h_pusd :: "float64 option"
  mt_snapshot_at :: datetime

record orderbook_features =
  of_spread_bps :: "float64 option"
  of_depth_imbalance :: "float64 option"
  of_top_of_book_imbalance :: "float64 option"
  of_valid :: bool

definition compute_orderbook_features :: "market_snapshot \<Rightarrow> orderbook_features" where
  "compute_orderbook_features m =
     (if \<not> mt_book_fresh m \<or> \<not> mt_bbo_fresh m then
        \<lparr>of_spread_bps = None, of_depth_imbalance = None, of_top_of_book_imbalance = None, of_valid = False\<rparr>
      else
        let imbalance = (case (mt_bid_depth_pusd m, mt_ask_depth_pusd m) of
              (Some b, Some a) \<Rightarrow> if 0 < fadd b a then Some (fdiv (fsub b a) (fadd b a)) else None
            | _ \<Rightarrow> None) in
        \<lparr>of_spread_bps = mt_spread_bps m, of_depth_imbalance = imbalance,
         of_top_of_book_imbalance =
           (if mt_best_bid m \<noteq> None \<and> mt_best_ask m \<noteq> None \<and> mt_mid_price m \<notin> {None, Some 0} then imbalance else None),
         of_valid = (mt_spread_bps m \<noteq> None)\<rparr>)"

record market_context_features =
  mx_mark_to_index_bps :: "float64 option"
  mx_mark_to_mid_bps :: "float64 option"
  mx_index_to_mid_bps :: "float64 option"
  mx_funding_rate :: "float64 option"
  mx_valid :: bool

definition gap_bps :: "float64 option \<Rightarrow> float64 option \<Rightarrow> float64 option" where
  "gap_bps price reference =
     (case (price, reference) of (Some p, Some r) \<Rightarrow> if r = 0 then None else distance_bps p r | _ \<Rightarrow> None)"

definition compute_market_context :: "market_snapshot \<Rightarrow> market_context_features" where
  "compute_market_context m =
     \<lparr>mx_mark_to_index_bps = gap_bps (mt_mark_price m) (mt_index_price m),
      mx_mark_to_mid_bps = gap_bps (mt_mark_price m) (mt_mid_price m),
      mx_index_to_mid_bps = gap_bps (mt_index_price m) (mt_mid_price m), mx_funding_rate = mt_funding_rate m,
      mx_valid = (mt_mark_price m \<noteq> None \<and> (mt_index_price m \<noteq> None \<or> mt_mid_price m \<noteq> None))\<rparr>"

section \<open>The regime\<close>

datatype regime_flag = DATA_DEGRADED | RANGE_COMPRESSION | VOLATILITY_ELEVATED

record regime_result =
  rr_regime :: strategy_regime
  rr_confidence :: int
  rr_secondary_flags :: "regime_flag list"

definition regime_rule :: "strategy_settings \<Rightarrow> string \<Rightarrow> float64 \<Rightarrow> float64" where
  "regime_rule cfg key fallback =
     (case map_of (st_regime_rules cfg) key of None \<Rightarrow> fallback | Some x \<Rightarrow> x)"

definition event_risk_active :: "strategy_settings \<Rightarrow> datetime \<Rightarrow> bool" where
  "event_risk_active cfg now \<longleftrightarrow>
     st_event_risk_enabled cfg \<and> list_ex (\<lambda>(start, end_at). start \<le> now \<and> now < end_at) (st_event_risk_windows cfg)"

definition elevated :: "volatility_features \<Rightarrow> bool" where
  "elevated v = (case vf_atr_percentile v of None \<Rightarrow> False | Some p \<Rightarrow> 75 \<le> p)"

definition regime_flags :: "volatility_features \<Rightarrow> bool \<Rightarrow> regime_flag list" where
  "regime_flags v degraded =
     (if degraded then [DATA_DEGRADED] else []) @ (if vf_is_compressed v then [RANGE_COMPRESSION] else []) @
     (if elevated v then [VOLATILITY_ELEVATED] else [])"

definition trend_confidence :: "float64 \<Rightarrow> float64 \<Rightarrow> bool \<Rightarrow> int" where
  "trend_confidence er minimum aligned =
     truncate_float (fadd 50 (min 45 (fmul (fsub er minimum) 120))) + (if aligned then 10 else 0)"

text \<open>The trend, the range, or neither, once everything that outranks them is ruled out.\<close>

definition directional_regime ::
  "float64 \<Rightarrow> int \<Rightarrow> structure_state \<Rightarrow> float64 \<Rightarrow> float64 \<Rightarrow> strategy_regime \<times> int" where
  "directional_regime er direction structure trend_min range_max =
     (if trend_min \<le> er \<and> 0 < direction then
        if structure = BEARISH then (NO_TRADE, 70)
        else (TREND_UP, trend_confidence er trend_min (structure = BULLISH))
      else if trend_min \<le> er \<and> direction < 0 then
        if structure = BULLISH then (NO_TRADE, 70)
        else (TREND_DOWN, trend_confidence er trend_min (structure = BEARISH))
      else if er \<le> range_max then (RANGE_REGIME, 70)
      else (NO_TRADE, 60))"

definition outside_range :: "candle_series \<Rightarrow> nat \<Rightarrow> bool" where
  "outside_range s n \<longleftrightarrow>
     (case rolling_high s n True of None \<Rightarrow> False | Some h \<Rightarrow> h < rk_close (se_last s)) \<or>
     (case rolling_low s n True of None \<Rightarrow> False | Some l \<Rightarrow> rk_close (se_last s) < l)"

definition primary_regime ::
  "candle_series \<Rightarrow> structure_state \<Rightarrow> volatility_features \<Rightarrow> strategy_settings \<Rightarrow> datetime \<Rightarrow> bool \<Rightarrow>
     strategy_regime \<times> int" where
  "primary_regime s structure v cfg now low_liquidity =
     (let window = min (nat (truncate_float (regime_rule cfg ''trend_lookback'' 30))) (se_length s - 1) in
      case (efficiency_ratio s window, vf_atr_percentile v) of
        (Some er, Some _) \<Rightarrow>
          if event_risk_active cfg now then (EVENT_RISK, 100)
          else if low_liquidity then (LOW_LIQUIDITY, 90)
          else if vf_is_high_volatility v then (HIGH_VOLATILITY, 80)
          else if outside_range s (nat (truncate_float (regime_rule cfg ''breakout_lookback'' 20))) then (BREAKOUT, 75)
          else directional_regime er (directional_sign s window) structure
            (regime_rule cfg ''trend_efficiency_ratio_min'' (fl (35 / 100)))
            (regime_rule cfg ''range_efficiency_ratio_max'' (fl (2 / 10)))
      | _ \<Rightarrow> (INSUFFICIENT_DATA, 100))"

definition classify_regime ::
  "candle_series \<Rightarrow> structure_analysis \<Rightarrow> volatility_features \<Rightarrow> strategy_settings \<Rightarrow> datetime \<Rightarrow> bool \<Rightarrow> bool \<Rightarrow>
     regime_result" where
  "classify_regime s structure v cfg now low_liquidity degraded =
     (let (regime, confidence) = primary_regime s (sa_state structure) v cfg now low_liquidity in
      \<lparr>rr_regime = regime, rr_confidence = max 0 (min 100 confidence), rr_secondary_flags = regime_flags v degraded\<rparr>)"

end
