(* ===== verification/Strategy_Rules.thy ===== *)
theory Strategy_Rules
  imports Strategy_Levels "HOL-Library.Product_Lexorder"
begin

text \<open>
  The feature bundle (\<open>feature_pipeline.py\<close>) and the six candidate rules over it (\<open>setup_rules.py\<close>): each
  gives an outcome with the fractions of its score, a failed confirmation, or does not apply.  The stored
  feature values and the texts of evidence are left out.
\<close>

section \<open>The context and its features\<close>

record evaluation_context =
  ex_instrument_pk :: int
  ex_instrument_id :: int
  ex_symbol :: string
  ex_asset_class :: string
  ex_as_of :: datetime
  ex_series :: "string \<Rightarrow> candle_series option"
  ex_market :: market_snapshot
  ex_session_state :: string
  ex_session_allowed :: bool
  ex_watchlist_active :: bool
  ex_bot_paused :: bool
  ex_data_quality_status :: string
  ex_data_quality_ok :: bool
  ex_orderbook_ok :: bool
  ex_market_quality_score :: "int option"
  ex_low_liquidity :: bool
  ex_strategy_name :: string
  ex_strategy_version :: string
  ex_config_hash :: string

record feature_validity =
  fv_structure_1h :: bool
  fv_structure_15m :: bool
  fv_structure_5m :: bool
  fv_volatility_1h :: bool
  fv_momentum_5m :: bool
  fv_volume_5m :: bool
  fv_orderbook :: bool
  fv_market_context :: bool

datatype feature_warning = Volume_Baseline_Unavailable | Orderbook_Features_Invalid | Market_Context_Incomplete

text \<open>The three mandatory series travel with the bundle.\<close>

record feature_bundle =
  fb_series_5m :: candle_series
  fb_structure_1h :: structure_analysis
  fb_structure_15m :: structure_analysis
  fb_structure_5m :: structure_analysis
  fb_volatility_1h :: volatility_features
  fb_volatility_5m :: volatility_features
  fb_momentum_5m :: momentum_features
  fb_volume_5m :: volume_features
  fb_orderbook :: orderbook_features
  fb_market_context :: market_context_features
  fb_liquidity_levels_15m :: "liquidity_level list"
  fb_sweeps_5m :: "sweep_event list"
  fb_validity :: feature_validity
  fb_warnings :: "feature_warning list"

definition structure_of :: "candle_series \<Rightarrow> strategy_settings \<Rightarrow> structure_analysis" where
  "structure_of s cfg = analyze_structure s (detect_swings s cfg) cfg"

definition has_structure :: "structure_analysis \<Rightarrow> bool" where
  "has_structure a \<longleftrightarrow> sa_state a \<noteq> INSUFFICIENT_STRUCTURE"

definition build_feature_bundle ::
  "candle_series \<Rightarrow> candle_series \<Rightarrow> candle_series \<Rightarrow> market_snapshot \<Rightarrow> strategy_settings \<Rightarrow> feature_bundle" where
  "build_feature_bundle s1h s15 s5 market cfg =
     (let a1h = structure_of s1h cfg; a15 = structure_of s15 cfg; a5 = structure_of s5 cfg;
          v1h = compute_volatility s1h cfg; momentum = compute_momentum s5 (st_momentum_lookback cfg);
          volume = compute_volume s5 (st_volume_lookback cfg); book = compute_orderbook_features market;
          mx = compute_market_context market; levels = detect_liquidity_levels s15 (sa_swings a15) cfg in
      \<lparr>fb_series_5m = s5, fb_structure_1h = a1h, fb_structure_15m = a15, fb_structure_5m = a5,
       fb_volatility_1h = v1h, fb_volatility_5m = compute_volatility s5 cfg, fb_momentum_5m = momentum,
       fb_volume_5m = volume, fb_orderbook = book, fb_market_context = mx, fb_liquidity_levels_15m = levels,
       fb_sweeps_5m = detect_sweeps s5 levels (st_sweep_min_overshoot_bps cfg),
       fb_validity = \<lparr>fv_structure_1h = has_structure a1h, fv_structure_15m = has_structure a15,
         fv_structure_5m = has_structure a5, fv_volatility_1h = (vf_atr_percentile v1h \<noteq> None),
         fv_momentum_5m = (mo_rate_of_change momentum \<noteq> None), fv_volume_5m = vo_volume_available volume,
         fv_orderbook = of_valid book, fv_market_context = mx_valid mx\<rparr>,
       fb_warnings = (if vo_volume_available volume then [] else [Volume_Baseline_Unavailable]) @
         (if of_valid book then [] else [Orderbook_Features_Invalid]) @
         (if mx_valid mx then [] else [Market_Context_Incomplete])\<rparr>)"

section \<open>Fractions of the score\<close>

definition aligned_structure :: "candidate_direction \<Rightarrow> structure_state" where
  "aligned_structure d = (if d = CANDIDATE_BULLISH then BULLISH else BEARISH)"

definition aligned_regime :: "candidate_direction \<Rightarrow> strategy_regime" where
  "aligned_regime d = (if d = CANDIDATE_BULLISH then TREND_UP else TREND_DOWN)"

definition htf_fraction :: "candidate_direction \<Rightarrow> structure_state \<Rightarrow> strategy_regime \<Rightarrow> float64" where
  "htf_fraction d structure regime =
     (if structure = aligned_structure d \<and> regime = aligned_regime d then 1
      else if structure = aligned_structure d \<or> regime = aligned_regime d then fl (8 / 10)
      else if structure \<in> {NEUTRAL, INSUFFICIENT_STRUCTURE} then 1 / 2
      else if structure = TRANSITIONAL then fl (4 / 10)
      else 0)"

definition momentum_fraction :: "momentum_features \<Rightarrow> candidate_direction \<Rightarrow> float64" where
  "momentum_fraction m d =
     (if mo_direction m = (if d = CANDIDATE_BULLISH then 1 else - 1)
      then fadd (fl (6 / 10)) (min (fl (4 / 10)) (fmul (of_nat (mo_continuation_count m)) (fl (1 / 10))))
      else if mo_direction m = 0 then fl (4 / 10)
      else 0)"

definition volume_fraction :: "volume_features \<Rightarrow> strategy_settings \<Rightarrow> float64" where
  "volume_fraction v cfg =
     (case vo_relative_volume v of
        None \<Rightarrow> 0
      | Some ratio \<Rightarrow>
          if \<not> vo_volume_available v then 0
          else if fmul (st_min_relative_volume cfg) 2 \<le> ratio then 1
          else if st_min_relative_volume cfg \<le> ratio then fl (7 / 10)
          else fl (3 / 10))"

definition market_context_fraction :: "orderbook_features \<Rightarrow> candidate_direction \<Rightarrow> float64" where
  "market_context_fraction f d =
     (if \<not> of_valid f then 0
      else
        case of_depth_imbalance f of
          None \<Rightarrow> fl (6 / 10)
        | Some x \<Rightarrow> if (if d = CANDIDATE_BULLISH then x < - (1 / 2) else 1 / 2 < x) then fl (3 / 10) else 1)"

definition volatility_fraction :: "volatility_features \<Rightarrow> float64" where
  "volatility_fraction v =
     (if vf_is_high_volatility v then 0 else if elevated v then fl (6 / 10) else 1)"

definition structure_15m_fraction :: "structure_state \<Rightarrow> candidate_direction \<Rightarrow> float64" where
  "structure_15m_fraction state d =
     (if state = aligned_structure d then 1
      else if state \<in> {NEUTRAL, TRANSITIONAL} then 1 / 2
      else if state = INSUFFICIENT_STRUCTURE then fl (3 / 10)
      else 0)"

text \<open>The fractions all rules share, with the two of the rule itself.\<close>

definition rule_fractions ::
  "feature_bundle \<Rightarrow> strategy_settings \<Rightarrow> candidate_direction \<Rightarrow> regime_result \<Rightarrow> float64 \<Rightarrow> float64 \<Rightarrow>
     (string \<times> float64) list" where
  "rule_fractions b cfg d regime liquidity local =
     [(''htf_bias'', htf_fraction d (sa_state (fb_structure_1h b)) (rr_regime regime)),
      (''momentum'', momentum_fraction (fb_momentum_5m b) d), (''volume'', volume_fraction (fb_volume_5m b) cfg),
      (''market_context'', market_context_fraction (fb_orderbook b) d),
      (''volatility_fit'', volatility_fraction (fb_volatility_1h b)),
      (''structure_15m'', structure_15m_fraction (sa_state (fb_structure_15m b)) d),
      (''liquidity_event'', liquidity), (''local_confirmation_5m'', local)]"

section \<open>The rules\<close>

datatype event_note = Structure_Note structure_event_type | Rejection_Note

record rule_outcome =
  ro_candidate_type :: candidate_type
  ro_direction :: candidate_direction
  ro_fractions :: "(string \<times> float64) list"
  ro_referenced_levels :: "referenced_level list"
  ro_structure_events :: "event_note list"
  ro_reclaim_status :: string
  ro_rejection_status :: string
  ro_retest_status :: retest_status
  ro_confirmed :: bool

datatype rule_result = Not_Applicable | Rule_Failure candidate_type setup_rejection_code | Rule_Met rule_outcome

definition level_reference :: "string \<Rightarrow> float64 \<Rightarrow> referenced_level" where
  "level_reference kind price =
     \<lparr>rl_price = Some price, rl_kind = Some kind, rl_timeframe = Some ''15m'', rl_relevance = None\<rparr>"

fun level_type_value :: "liquidity_level_type \<Rightarrow> string" where
  "level_type_value LEVEL_SWING_HIGH = ''SWING_HIGH''"
| "level_type_value LEVEL_SWING_LOW = ''SWING_LOW''"
| "level_type_value LEVEL_EQUAL_HIGHS = ''EQUAL_HIGHS''"
| "level_type_value LEVEL_EQUAL_LOWS = ''EQUAL_LOWS''"
| "level_type_value LEVEL_RANGE_HIGH = ''RANGE_HIGH''"
| "level_type_value LEVEL_RANGE_LOW = ''RANGE_LOW''"

definition direction_of :: "bool \<Rightarrow> candidate_direction" where
  "direction_of bull = (if bull then CANDIDATE_BULLISH else CANDIDATE_BEARISH)"

definition sweep_rank :: "sweep_event \<Rightarrow> float64 \<times> float64" where
  "sweep_rank x = (sx_confidence x, ll_relevance (sx_level x))"

text \<open>The strongest sweep of the wanted side, reclaimed by a close, whose retest did not fail.\<close>

definition sweep_reversal_rule ::
  "feature_bundle \<Rightarrow> regime_result \<Rightarrow> strategy_settings \<Rightarrow> bool \<Rightarrow> rule_result" where
  "sweep_reversal_rule b regime cfg bull =
     (let t = (if bull then BULLISH_SWEEP_REVERSAL else BEARISH_SWEEP_REVERSAL); d = direction_of bull in
      case filter (\<lambda>x. sx_direction x = (if bull then SWEPT_BELOW else SWEPT_ABOVE)) (fb_sweeps_5m b) of
        [] \<Rightarrow> Not_Applicable
      | x # xs \<Rightarrow>
          let best = max_by sweep_rank x xs in
          if \<not> sx_confirmed best then Rule_Failure t SU_SWEEP_UNCONFIRMED
          else
            case detect_reclaim (fb_series_5m b) best (st_reclaim_tolerance_bps cfg) of
              None \<Rightarrow> Rule_Failure t SU_RECLAIM_UNCONFIRMED
            | Some r \<Rightarrow>
                let retest = evaluate_retest (fb_series_5m b) (ll_price (sx_level best)) (rm_confirmed_at r) bull cfg in
                if retest = RETEST_FAILED then Rule_Failure t SU_RECLAIM_UNCONFIRMED
                else Rule_Met \<lparr>ro_candidate_type = t, ro_direction = d,
                  ro_fractions = rule_fractions b cfg d regime (sx_confidence best)
                    (if retest = RETEST_CONFIRMED then min 1 (fadd (rm_confidence r) (fl (2 / 10)))
                     else rm_confidence r),
                  ro_referenced_levels =
                    [level_reference (level_type_value (ll_type (sx_level best))) (ll_price (sx_level best))],
                  ro_structure_events =
                    map (Structure_Note \<circ> sv_event_type) (last_n 3 (sa_events (fb_structure_15m b))),
                  ro_reclaim_status = ''CONFIRMED'', ro_rejection_status = ''NOT_PRESENT'',
                  ro_retest_status = retest, ro_confirmed = (retest = RETEST_CONFIRMED)\<rparr>)"

definition is_break_upward :: "structure_event \<Rightarrow> bool" where
  "is_break_upward e \<longleftrightarrow> sv_event_type e = BREAK_OF_STRUCTURE \<and>
     (case sv_detail e of Closes_Above n p \<Rightarrow> True | _ \<Rightarrow> False)"

definition continuation_outcome ::
  "feature_bundle \<Rightarrow> regime_result \<Rightarrow> strategy_settings \<Rightarrow> bool \<Rightarrow> float64 \<Rightarrow> float64 \<Rightarrow> retest_status \<Rightarrow> event_note \<Rightarrow>
     rule_result" where
  "continuation_outcome b regime cfg bull price local retest note =
     Rule_Met \<lparr>ro_candidate_type = (if bull then BULLISH_RECLAIM_CONTINUATION else BEARISH_REJECTION_CONTINUATION),
       ro_direction = direction_of bull,
       ro_fractions = rule_fractions b cfg (direction_of bull) regime (fl (6 / 10)) local,
       ro_referenced_levels = [level_reference ''STRUCTURE_LEVEL'' price], ro_structure_events = [note],
       ro_reclaim_status = (if bull then ''CONFIRMED'' else ''NOT_PRESENT''),
       ro_rejection_status = (if bull then ''NOT_PRESENT'' else ''CONFIRMED''), ro_retest_status = retest,
       ro_confirmed = (retest = RETEST_CONFIRMED \<or> \<not> bull)\<rparr>"

text \<open>Bullish: the last break of structure upwards, retested; bearish: a rejection at the last swing high.\<close>

definition continuation_rule ::
  "feature_bundle \<Rightarrow> regime_result \<Rightarrow> strategy_settings \<Rightarrow> bool \<Rightarrow> rule_result" where
  "continuation_rule b regime cfg bull =
     (let t = (if bull then BULLISH_RECLAIM_CONTINUATION else BEARISH_REJECTION_CONTINUATION);
          d = direction_of bull; a15 = fb_structure_15m b;
          htf_ok = (sa_state (fb_structure_1h b) = aligned_structure d \<or> rr_regime regime = aligned_regime d);
          breaks = filter is_break_upward (sa_events a15); highs = swings_of SWING_HIGH (sa_swings a15) in
      if \<not> htf_ok \<or> sa_state a15 \<noteq> aligned_structure d then Not_Applicable
      else if bull then
        if breaks = [] then Rule_Failure t SU_STRUCTURE_NOT_CONFIRMED
        else
          let bos = last breaks;
              retest = evaluate_retest (fb_series_5m b) (sv_price bos) (sv_confirm_close_time bos) True cfg in
          if retest = RETEST_FAILED then Rule_Failure t SU_STRUCTURE_NOT_CONFIRMED
          else continuation_outcome b regime cfg True (sv_price bos)
            (if retest = RETEST_CONFIRMED then fl (8 / 10) else fl (6 / 10)) retest
            (Structure_Note (sv_event_type bos))
      else if highs = [] then Rule_Failure t SU_STRUCTURE_NOT_CONFIRMED
      else
        case detect_rejection (fb_series_5m b) (wi_price (last highs)) True (1 / 2) of
          None \<Rightarrow> Rule_Failure t SU_REJECTION_UNCONFIRMED
        | Some r \<Rightarrow> continuation_outcome b regime cfg False (wi_price (last highs)) (rn_confidence r)
            RETEST_NOT_PRESENT Rejection_Note)"

text \<open>The close that broke the range: the last one, or the first of the recent ones.\<close>

definition break_time :: "candle_series \<Rightarrow> bool \<Rightarrow> float64 \<Rightarrow> strategy_settings \<Rightarrow> datetime option" where
  "break_time s up price cfg =
     (if close_beyond up price (se_last s) then Some (close_time (se_last s))
      else map_option close_time (find (close_beyond up price) (last_n (st_retest_max_5m_candles cfg) (se_candles s))))"

definition range_breakout_rule ::
  "feature_bundle \<Rightarrow> regime_result \<Rightarrow> strategy_settings \<Rightarrow> bool \<Rightarrow> rule_result" where
  "range_breakout_rule b regime cfg up =
     (let t = (if up then RANGE_BREAKOUT_UP else RANGE_BREAKOUT_DOWN); d = direction_of up;
          wanted = (if up then LEVEL_RANGE_HIGH else LEVEL_RANGE_LOW) in
      if rr_regime regime \<notin> {RANGE_REGIME, BREAKOUT} then Not_Applicable
      else
        case filter (\<lambda>l. ll_type l = wanted) (fb_liquidity_levels_15m b) of
          [] \<Rightarrow> Not_Applicable
        | l # _ \<Rightarrow>
            case break_time (fb_series_5m b) up (ll_price l) cfg of
              None \<Rightarrow> Rule_Failure t SU_STRUCTURE_NOT_CONFIRMED
            | Some since \<Rightarrow>
                let retest = evaluate_retest (fb_series_5m b) (ll_price l) since up cfg in
                if retest = RETEST_FAILED then Rule_Failure t SU_STRUCTURE_NOT_CONFIRMED
                else Rule_Met \<lparr>ro_candidate_type = t, ro_direction = d,
                  ro_fractions = rule_fractions b cfg d regime
                    (min (fl (9 / 10)) (fadd (1 / 2) (fmul (ll_relevance l) (fl (4 / 10)))))
                    (if retest = RETEST_CONFIRMED then fl (7 / 10) else fl (55 / 100)),
                  ro_referenced_levels = [level_reference (level_type_value wanted) (ll_price l)],
                  ro_structure_events = [], ro_reclaim_status = ''NOT_PRESENT'',
                  ro_rejection_status = ''NOT_PRESENT'', ro_retest_status = retest,
                  ro_confirmed = (retest = RETEST_CONFIRMED)\<rparr>)"

definition evaluate_rules :: "feature_bundle \<Rightarrow> regime_result \<Rightarrow> strategy_settings \<Rightarrow> rule_result list" where
  "evaluate_rules b regime cfg =
     [sweep_reversal_rule b regime cfg True, sweep_reversal_rule b regime cfg False,
      continuation_rule b regime cfg True, continuation_rule b regime cfg False,
      range_breakout_rule b regime cfg True, range_breakout_rule b regime cfg False]"

end
