(* ===== verification/Strategy_Engine.thy ===== *)
theory Strategy_Engine
  imports Strategy_Rules Decimal28 "HOL-Library.List_Lexorder" "HOL-Library.Char_ord"
begin

text \<open>
  The evaluation of a context (\<open>strategy_engine.py\<close>): the hard gates, features and regime, the rules with their
  mandatory confirmations, the score (\<open>scoring.py\<close>), the candidate (\<open>setup_candidate.py\<close>) or the rejection
  (\<open>setup_rejection.py\<close>), and the best candidate of each direction.  The SHA-256 digest and fresh identifiers
  are parameters.
\<close>

section \<open>Score\<close>

definition score_breakdown :: "(string \<times> float64) list \<Rightarrow> strategy_settings \<Rightarrow> (string \<times> int \<times> float64) list" where
  "score_breakdown fractions cfg =
     map (\<lambda>w. (fst w, snd w, awarded (map (\<lambda>(c, f). (c, clamp f)) fractions) w)) (st_score_weights cfg)"

definition compute_score ::
  "(string \<times> float64) list \<Rightarrow> strategy_settings \<Rightarrow> int \<times> (string \<times> int \<times> float64) list" where
  "compute_score fractions cfg =
     (let components = score_breakdown fractions cfg in
      (round_half_even (foldl fadd 0 (map (snd \<circ> snd) components)), components))"

section \<open>Candidates\<close>

fun candidate_type_value :: "candidate_type \<Rightarrow> string" where
  "candidate_type_value BULLISH_RECLAIM_CONTINUATION = ''BULLISH_RECLAIM_CONTINUATION''"
| "candidate_type_value BEARISH_REJECTION_CONTINUATION = ''BEARISH_REJECTION_CONTINUATION''"
| "candidate_type_value BULLISH_SWEEP_REVERSAL = ''BULLISH_SWEEP_REVERSAL''"
| "candidate_type_value BEARISH_SWEEP_REVERSAL = ''BEARISH_SWEEP_REVERSAL''"
| "candidate_type_value RANGE_BREAKOUT_UP = ''RANGE_BREAKOUT_UP''"
| "candidate_type_value RANGE_BREAKOUT_DOWN = ''RANGE_BREAKOUT_DOWN''"

fun candidate_direction_value :: "candidate_direction \<Rightarrow> string" where
  "candidate_direction_value CANDIDATE_BULLISH = ''BULLISH''"
| "candidate_direction_value CANDIDATE_BEARISH = ''BEARISH''"

text \<open>
  \<open>f"{x:.6g}"\<close>: six significant digits, ties to even, without trailing zeros; an exponent outside \<open>-4..5\<close> is
  written out.
\<close>

definition strip_zeros :: "string \<Rightarrow> string" where
  "strip_zeros cs = rev (dropWhile (\<lambda>c. c = CHR ''0'') (rev cs))"

definition with_point :: "string \<Rightarrow> string \<Rightarrow> string" where
  "with_point whole digits = (case strip_zeros digits of [] \<Rightarrow> whole | c # cs \<Rightarrow> whole @ CHR ''.'' # c # cs)"

definition exponent_text :: "int \<Rightarrow> string" where
  "exponent_text e =
     CHR ''e'' # (if e < 0 then CHR ''-'' else CHR ''+'') #
     (if \<bar>e\<bar> < 10 then CHR ''0'' # str_nat (nat \<bar>e\<bar>) else str_nat (nat \<bar>e\<bar>))"

definition six_digits :: "float64 \<Rightarrow> int \<times> string" where
  "six_digits x =
     (let e = ilog10 x; m = round_half_even (x / 10 powi (e - 5)) in
      if m = 1000000 then (e + 1, str_nat 100000) else (e, str_nat (nat m)))"

definition format_6g :: "float64 \<Rightarrow> string" where
  "format_6g x =
     (if x = 0 then ''0''
      else
        let (e, digits) = six_digits \<bar>x\<bar>;
            body =
              (if e < - 4 \<or> 6 \<le> e then with_point (take 1 digits) (drop 1 digits) @ exponent_text e
               else if e < 0 then with_point ''0'' (replicate (nat (- e - 1)) CHR ''0'' @ digits)
               else with_point (take (nat e + 1) digits) (drop (nat e + 1) digits)) in
        if x < 0 then CHR ''-'' # body else body)"

record setup_candidate =
  sc_candidate_id :: uuid
  sc_candidate_type :: candidate_type
  sc_direction :: candidate_direction
  sc_state :: setup_candidate_state
  sc_instrument_pk :: int
  sc_instrument_id :: int
  sc_symbol :: string
  sc_asset_class :: string
  sc_as_of :: datetime
  sc_expiry_at :: datetime
  sc_strategy_name :: string
  sc_strategy_version :: string
  sc_config_hash :: string
  sc_session_state :: string
  sc_market_quality_score :: "int option"
  sc_data_quality_status :: string
  sc_primary_regime :: strategy_regime
  sc_regime_confidence :: int
  sc_higher_timeframe_structure :: structure_state
  sc_local_structure :: structure_state
  sc_referenced_levels :: "referenced_level list"
  sc_structure_events :: "event_note list"
  sc_reclaim_status :: string
  sc_rejection_status :: string
  sc_retest_status :: retest_status
  sc_setup_score :: int
  sc_score_components :: "(string \<times> int \<times> float64) list"
  sc_confidence :: int
  sc_reason_codes :: "string list"
  sc_dedupe_key :: string
  sc_momentum_direction :: int
  sc_relative_volume :: "float64 option"
  sc_atr_percentile_1h :: "float64 option"
  sc_spread_bps :: "float64 option"

definition dedupe_key_for ::
  "(string \<Rightarrow> string) \<Rightarrow> evaluation_context \<Rightarrow> rule_outcome \<Rightarrow> float64 \<Rightarrow> string" where
  "dedupe_key_for sha x r price = take 24 (sha (join_bar
     [str_int (ex_instrument_id x), candidate_type_value (ro_candidate_type r),
      candidate_direction_value (ro_direction r), format_6g price, ''15m'', ex_strategy_version x]))"

definition level_price :: "rule_outcome \<Rightarrow> float64" where
  "level_price r = (case ro_referenced_levels r of
     [] \<Rightarrow> 0 | l # _ \<Rightarrow> (case rl_price l of None \<Rightarrow> 0 | Some p \<Rightarrow> p))"

definition build_candidate ::
  "(string \<Rightarrow> string) \<Rightarrow> (candidate_type \<Rightarrow> uuid) \<Rightarrow> evaluation_context \<Rightarrow> feature_bundle \<Rightarrow> regime_result \<Rightarrow>
     rule_outcome \<Rightarrow> strategy_settings \<Rightarrow> setup_candidate" where
  "build_candidate sha new_id x b regime r cfg =
     (let (score, components) = compute_score (ro_fractions r) cfg in
      \<lparr>sc_candidate_id = new_id (ro_candidate_type r), sc_candidate_type = ro_candidate_type r,
       sc_direction = ro_direction r, sc_state = (if ro_confirmed r then CONFIRMED else DETECTED),
       sc_instrument_pk = ex_instrument_pk x, sc_instrument_id = ex_instrument_id x, sc_symbol = ex_symbol x,
       sc_asset_class = ex_asset_class x, sc_as_of = ex_as_of x,
       sc_expiry_at = ex_as_of x + 5 * st_expire_after_5m_candles cfg * 60000000,
       sc_strategy_name = ex_strategy_name x, sc_strategy_version = ex_strategy_version x,
       sc_config_hash = ex_config_hash x, sc_session_state = ex_session_state x,
       sc_market_quality_score = ex_market_quality_score x, sc_data_quality_status = ex_data_quality_status x,
       sc_primary_regime = rr_regime regime, sc_regime_confidence = rr_confidence regime,
       sc_higher_timeframe_structure = sa_state (fb_structure_1h b),
       sc_local_structure = sa_state (fb_structure_5m b), sc_referenced_levels = ro_referenced_levels r,
       sc_structure_events = ro_structure_events r, sc_reclaim_status = ro_reclaim_status r,
       sc_rejection_status = ro_rejection_status r, sc_retest_status = ro_retest_status r, sc_setup_score = score,
       sc_score_components = components,
       sc_confidence = min 95 (round_half_even (fadd (fmul (fl (6 / 10)) (of_int score))
         (fmul (fl (4 / 10)) (of_int (rr_confidence regime))))),
       sc_reason_codes = map fst (filter (\<lambda>(c, m, a). 0 < a) components),
       sc_dedupe_key = dedupe_key_for sha x r (level_price r),
       sc_momentum_direction = mo_direction (fb_momentum_5m b),
       sc_relative_volume = vo_relative_volume (fb_volume_5m b),
       sc_atr_percentile_1h = vf_atr_percentile (fb_volatility_1h b),
       sc_spread_bps = of_spread_bps (fb_orderbook b)\<rparr>)"

record setup_rejection =
  tj_instrument_pk :: int
  tj_instrument_id :: int
  tj_symbol :: string
  tj_as_of :: datetime
  tj_primary_code :: setup_rejection_code
  tj_codes :: "setup_rejection_code list"
  tj_strategy_name :: string
  tj_strategy_version :: string
  tj_config_hash :: string
  tj_candidate_type :: "candidate_type option"

definition build_setup_rejection ::
  "evaluation_context \<Rightarrow> setup_rejection_code \<Rightarrow> candidate_type option \<Rightarrow> setup_rejection" where
  "build_setup_rejection x code t =
     \<lparr>tj_instrument_pk = ex_instrument_pk x, tj_instrument_id = ex_instrument_id x, tj_symbol = ex_symbol x,
      tj_as_of = ex_as_of x, tj_primary_code = code, tj_codes = [code], tj_strategy_name = ex_strategy_name x,
      tj_strategy_version = ex_strategy_version x, tj_config_hash = ex_config_hash x, tj_candidate_type = t\<rparr>"

section \<open>The evaluation\<close>

record evaluation_outcome =
  eo_symbol :: string
  eo_as_of :: datetime
  eo_regime :: "regime_result option"
  eo_candidates :: "setup_candidate list"
  eo_rejections :: "setup_rejection list"
  eo_validity :: "feature_validity option"
  eo_warnings :: "feature_warning list"
  eo_structures :: "(string \<times> structure_analysis) list"

definition strategy_gate :: "evaluation_context \<Rightarrow> strategy_settings \<Rightarrow> setup_rejection_code option" where
  "strategy_gate x cfg =
     (if st_require_active_watchlist cfg \<and> \<not> ex_watchlist_active x then Some SU_NOT_ON_ACTIVE_WATCHLIST
      else if ex_bot_paused x then Some SU_BOT_PAUSED
      else if \<not> ex_session_allowed x then Some SU_SESSION_NOT_ALLOWED
      else if \<not> ex_data_quality_ok x then Some SU_DATA_QUALITY_NOT_SUFFICIENT
      else if st_require_fresh_orderbook cfg \<and> \<not> ex_orderbook_ok x then Some SU_ORDERBOOK_NOT_FRESH
      else if list_ex (\<lambda>tf. \<not> (tf = ''1m'' \<and> st_allow_1m_optional cfg) \<and> ex_series x tf = None)
          (st_required_timeframes cfg) then Some SU_INSUFFICIENT_CANDLE_HISTORY
      else None)"

definition regime_block :: "strategy_regime \<Rightarrow> setup_rejection_code option" where
  "regime_block r =
     map_of [(NO_TRADE, SU_REGIME_NO_TRADE), (HIGH_VOLATILITY, SU_REGIME_HIGH_VOLATILITY),
       (LOW_LIQUIDITY, SU_REGIME_LOW_LIQUIDITY), (INSUFFICIENT_DATA, SU_REGIME_INSUFFICIENT_DATA),
       (EVENT_RISK, SU_REGIME_NO_TRADE)] r"

definition fraction_of :: "rule_outcome \<Rightarrow> string \<Rightarrow> float64" where
  "fraction_of r key = (case map_of (ro_fractions r) key of None \<Rightarrow> 0 | Some f \<Rightarrow> f)"

text \<open>What a rule's outcome must confirm before it becomes a candidate.\<close>

definition confirmation_gate :: "rule_outcome \<Rightarrow> strategy_settings \<Rightarrow> setup_rejection_code option" where
  "confirmation_gate r cfg =
     (if st_require_momentum_confirmation cfg \<and> fraction_of r ''momentum'' < fl (6 / 10) then Some SU_MOMENTUM_INSUFFICIENT
      else if st_require_volume_confirmation cfg \<and> fraction_of r ''volume'' < fl (7 / 10) then Some SU_VOLUME_INSUFFICIENT
      else if fraction_of r ''htf_bias'' = 0 \<and> fraction_of r ''structure_15m'' = 0 then Some SU_HIGHER_TIMEFRAME_CONFLICT
      else if fst (compute_score (ro_fractions r) cfg) < st_min_setup_score cfg then Some SU_SETUP_SCORE_BELOW_THRESHOLD
      else None)"

definition candidate_result ::
  "(string \<Rightarrow> string) \<Rightarrow> (candidate_type \<Rightarrow> uuid) \<Rightarrow> evaluation_context \<Rightarrow> feature_bundle \<Rightarrow> regime_result \<Rightarrow>
     strategy_settings \<Rightarrow> rule_result \<Rightarrow> (setup_rejection + setup_candidate) option" where
  "candidate_result sha new_id x b regime cfg result =
     (case result of
        Not_Applicable \<Rightarrow> None
      | Rule_Failure t code \<Rightarrow> Some (Inl (build_setup_rejection x code (Some t)))
      | Rule_Met r \<Rightarrow>
          (case confirmation_gate r cfg of
             Some code \<Rightarrow> Some (Inl (build_setup_rejection x code (Some (ro_candidate_type r))))
           | None \<Rightarrow> Some (Inr (build_candidate sha new_id x b regime r cfg))))"

text \<open>The first candidate of each direction, by descending score and the name of the type.\<close>

definition candidate_rank :: "setup_candidate \<Rightarrow> int \<times> string" where
  "candidate_rank k = (- sc_setup_score k, candidate_type_value (sc_candidate_type k))"

definition keep_best :: "setup_candidate \<Rightarrow> setup_candidate list \<Rightarrow> setup_candidate list" where
  "keep_best k best = (if sc_direction k \<in> set (map sc_direction best) then best else best @ [k])"

definition best_candidates :: "setup_candidate list \<Rightarrow> setup_candidate list" where
  "best_candidates ks = fold keep_best (sort_key candidate_rank ks) []"

definition lefts :: "('a + 'b) list \<Rightarrow> 'a list" where
  "lefts = List.map_filter (case_sum Some (\<lambda>_. None))"

definition rights :: "('a + 'b) list \<Rightarrow> 'b list" where
  "rights = List.map_filter (case_sum (\<lambda>_. None) Some)"

definition evaluate_features ::
  "(string \<Rightarrow> string) \<Rightarrow> (candidate_type \<Rightarrow> uuid) \<Rightarrow> evaluation_context \<Rightarrow> candle_series \<Rightarrow> candle_series \<Rightarrow>
     candle_series \<Rightarrow> strategy_settings \<Rightarrow> evaluation_outcome" where
  "evaluate_features sha new_id x s1h s15 s5 cfg =
     (let b = build_feature_bundle s1h s15 s5 (ex_market x) cfg;
          regime = classify_regime s1h (fb_structure_1h b) (fb_volatility_1h b) cfg (ex_as_of x) (ex_low_liquidity x)
            (\<not> ex_data_quality_ok x);
          base = \<lparr>eo_symbol = ex_symbol x, eo_as_of = ex_as_of x, eo_regime = Some regime, eo_candidates = [],
            eo_rejections = [], eo_validity = Some (fb_validity b), eo_warnings = fb_warnings b,
            eo_structures = [(''1h'', fb_structure_1h b), (''15m'', fb_structure_15m b), (''5m'', fb_structure_5m b)]\<rparr> in
      case regime_block (rr_regime regime) of
        Some code \<Rightarrow> base\<lparr>eo_rejections := [build_setup_rejection x code None]\<rparr>
      | None \<Rightarrow>
          let results = List.map_filter (candidate_result sha new_id x b regime cfg) (evaluate_rules b regime cfg) in
          base\<lparr>eo_candidates := best_candidates (rights results), eo_rejections := lefts results\<rparr>)"

text \<open>\<open>None\<close>: a series the features read is missing, a \<open>KeyError\<close>; with valid settings the gates exclude it.\<close>

definition evaluate_context ::
  "(string \<Rightarrow> string) \<Rightarrow> (candidate_type \<Rightarrow> uuid) \<Rightarrow> evaluation_context \<Rightarrow> strategy_settings \<Rightarrow> evaluation_outcome option" where
  "evaluate_context sha new_id x cfg =
     (case strategy_gate x cfg of
        Some code \<Rightarrow> Some \<lparr>eo_symbol = ex_symbol x, eo_as_of = ex_as_of x, eo_regime = None, eo_candidates = [],
          eo_rejections = [build_setup_rejection x code None], eo_validity = None, eo_warnings = [], eo_structures = []\<rparr>
      | None \<Rightarrow>
          (case (ex_series x ''1h'', ex_series x ''15m'', ex_series x ''5m'') of
             (Some s1h, Some s15, Some s5) \<Rightarrow> Some (evaluate_features sha new_id x s1h s15 s5 cfg)
           | _ \<Rightarrow> None))"

end
