(* ===== verification/Strategy_Safety.thy ===== *)
theory Strategy_Safety
  imports Strategy_Engine
begin

text \<open>
  What the strategy guarantees: swings are final, a structure breaks only on a run of closes, candidates pass
  every gate, and a breakout is confirmed only once the price has come back.
\<close>

section \<open>Swings are causal\<close>

text \<open>Where a swing comes from: its identity, price and confirmation, without the weights.\<close>

definition swing_core :: "swing \<Rightarrow> swing_id \<times> float64 \<times> datetime" where
  "swing_core w = (id_of_swing w, wi_price w, wi_confirmed_at w)"

lemma core_relevance [simp]: "swing_core (w\<lparr>wi_relevance := x\<rparr>) = swing_core w"
  by (simp add: swing_core_def id_of_swing_def)

lemma core_weighted [simp]: "map swing_core (weighted_swings ws) = map swing_core ws"
  unfolding weighted_swings_def by (rule nth_equalityI) simp_all

lemma core_detect:
  "swing_core ` set (detect_swings s cfg) =
     (let atr = (case average_true_range s (st_atr_period cfg) of None \<Rightarrow> 0 | Some a \<Rightarrow> a) in
      \<Union>i \<in> {st_swing_left_bars cfg..<se_length s - st_swing_right_bars cfg}.
        swing_core ` set (swings_at s (st_swing_left_bars cfg) (st_swing_right_bars cfg) atr
          (fmul atr (st_swing_atr_multiplier cfg)) i))"
proof -
  have "swing_core ` set (weighted_swings ws) = swing_core ` set ws" for ws
    using core_weighted [of ws] by (metis list.set_map)
  then show ?thesis by (auto simp: detect_swings_def Let_def image_UN)
qed

text \<open>Without the noise filter the swings of a candle are the pivots at it, and need its neighbours only.\<close>

lemma core_swings_at:
  "swing_core ` set (swings_at s l r atr 0 i) =
     (let ks = se_candles s; p = ks ! i; ls = take l (drop (i - l) ks); rs = take r (drop (i + 1) ks) in
      (if lower_highs p ls \<and> lower_highs p rs
       then {((se_timeframe s, SWING_HIGH, rk_open_time p), rk_high p, close_time (last rs))} else {}) \<union>
      (if higher_lows p ls \<and> higher_lows p rs
       then {((se_timeframe s, SWING_LOW, rk_open_time p), rk_low p, close_time (last rs))} else {}))"
  by (auto simp: swings_at_def make_swing_def swing_core_def id_of_swing_def Let_def)

definition extends_series :: "candle_series \<Rightarrow> candle_series \<Rightarrow> bool" where
  "extends_series s s' \<longleftrightarrow> se_timeframe s' = se_timeframe s \<and> (\<exists>more. se_candles s' = se_candles s @ more)"

lemma core_at_extends:
  assumes "extends_series s s'" "l \<le> i" "i + r < se_length s"
  shows "swing_core ` set (swings_at s' l r a 0 i) = swing_core ` set (swings_at s l r a' 0 i)"
proof -
  obtain more where m: "se_candles s' = se_candles s @ more" "se_timeframe s' = se_timeframe s"
    using assms(1) by (auto simp: extends_series_def)
  have "l - (se_length s - (i - l)) = 0" using assms(2,3) by simp
  with assms(2,3) show ?thesis unfolding core_swings_at m by (simp add: nth_append Let_def)
qed

lemma confirmed_index:
  assumes "0 < r" "i + r < se_length s" "c \<in> swing_core ` set (swings_at s l r a 0 i)"
  shows "snd (snd c) = close_time (se_candles s ! (i + r))"
proof -
  let ?rs = "take r (drop (i + 1) (se_candles s))"
  have len: "length ?rs = r" using assms(2) by simp
  with assms(1) have "last ?rs = ?rs ! (r - 1)" by (metis last_conv_nth length_0_conv less_irrefl)
  with assms(1,2) have "last ?rs = se_candles s ! (i + r)" by simp
  with assms(3) show ?thesis unfolding core_swings_at by (auto simp: Let_def split: if_splits)
qed

lemma close_times_increase:
  assumes "series_ok s" "\<And>k. k \<in> set (se_candles s) \<Longrightarrow> rk_timeframe_ms k = ms" "i < j" "j < se_length s"
  shows "close_time (se_candles s ! i) < close_time (se_candles s ! j)"
  using assms by (auto simp: series_ok_def close_time_def sorted_wrt_iff_nth_less)

text \<open>
  C31.  Swings are final and look at nothing later: without the noise filter, the swings found later that were
  confirmed by the last candle of an earlier series are exactly the swings found then, with the same
  candle, side, price and time of confirmation.
\<close>

theorem swings_are_causal:
  assumes "series_ok s'" "extends_series s s'" "se_candles s \<noteq> []"
    and "list_all (\<lambda>k. rk_timeframe_ms k = ms) (se_candles s')"
    and "st_swing_atr_multiplier cfg = 0" "0 < st_swing_right_bars cfg"
  shows "swing_core ` set (detect_swings s cfg) =
    {c \<in> swing_core ` set (detect_swings s' cfg). snd (snd c) \<le> close_time (last (se_candles s))}"
proof -
  let ?l = "st_swing_left_bars cfg" and ?r = "st_swing_right_bars cfg"
  let ?n = "se_length s" and ?n' = "se_length s'"
  obtain more where m: "se_candles s' = se_candles s @ more" using assms(2) by (auto simp: extends_series_def)
  have cores: "swing_core ` set (detect_swings t cfg) =
      (\<Union>i \<in> {?l..<se_length t - ?r}. swing_core ` set (swings_at t ?l ?r 0 0 i))" for t
    unfolding core_detect by (auto simp: assms(5) fmul_def Let_def core_swings_at)
  have at: "swing_core ` set (swings_at s' ?l ?r 0 0 i) = swing_core ` set (swings_at s ?l ?r 0 0 i)"
    if "?l \<le> i" "i + ?r < ?n" for i using core_at_extends [OF assms(2) that] by blast
  have last: "close_time (se_candles s' ! (?n - 1)) = close_time (last (se_candles s))"
    using assms(3) m by (simp add: nth_append last_conv_nth)
  have early: "snd (snd c) \<le> close_time (last (se_candles s)) \<longleftrightarrow> i + ?r < ?n"
    if "c \<in> swing_core ` set (swings_at s' ?l ?r 0 0 i)" "i + ?r < ?n'" for c i
  proof -
    have at': "snd (snd c) = close_time (se_candles s' ! (i + ?r))"
      using confirmed_index that assms(6) by blast
    note increase = close_times_increase [OF assms(1), of ms]
    have ms: "\<And>k. k \<in> set (se_candles s') \<Longrightarrow> rk_timeframe_ms k = ms" using assms(4) by (simp add: list_all_iff)
    have n: "0 < ?n" using assms(3) by simp
    have "i + ?r < ?n" if le: "close_time (se_candles s' ! (i + ?r)) \<le> close_time (se_candles s' ! (?n - 1))"
    proof (rule ccontr)
      assume "\<not> i + ?r < ?n"
      then have "?n - 1 < i + ?r" using n by linarith
      from increase [OF ms this \<open>i + ?r < ?n'\<close>] le show False by simp
    qed
    moreover have "close_time (se_candles s' ! (i + ?r)) \<le> close_time (se_candles s' ! (?n - 1))" if "i + ?r < ?n"
    proof (cases "i + ?r = ?n - 1")
      case False
      then have "i + ?r < ?n - 1" "?n - 1 < ?n'" using that n m by simp_all
      from increase [OF ms this] show ?thesis by simp
    qed simp
    ultimately show ?thesis unfolding at' last by blast
  qed
  have "?n \<le> ?n'" using m by simp
  show ?thesis
  proof (intro set_eqI iffI)
    fix c assume "c \<in> swing_core ` set (detect_swings s cfg)"
    then obtain i where i: "?l \<le> i" "i + ?r < ?n" "c \<in> swing_core ` set (swings_at s ?l ?r 0 0 i)"
      unfolding cores by auto
    then have "c \<in> swing_core ` set (swings_at s' ?l ?r 0 0 i)" "i + ?r < ?n'" using at \<open>?n \<le> ?n'\<close> by auto
    moreover from this have "snd (snd c) \<le> close_time (last (se_candles s))" using early i(2) by blast
    moreover have "i \<in> {?l..<?n' - ?r}" using i(1) calculation(2) by simp
    ultimately show "c \<in> {c \<in> swing_core ` set (detect_swings s' cfg). snd (snd c) \<le> close_time (last (se_candles s))}"
      unfolding cores by blast
  next
    fix c assume c: "c \<in> {c \<in> swing_core ` set (detect_swings s' cfg). snd (snd c) \<le> close_time (last (se_candles s))}"
    then obtain i where i: "?l \<le> i" "i + ?r < ?n'" "c \<in> swing_core ` set (swings_at s' ?l ?r 0 0 i)"
      unfolding cores by auto
    have "i + ?r < ?n" using early [OF i(3,2)] c by blast
    moreover from this have "c \<in> swing_core ` set (swings_at s ?l ?r 0 0 i)" using at i(1,3) by blast
    moreover have "i \<in> {?l..<?n - ?r}" using i(1) calculation(1) by simp
    ultimately show "c \<in> swing_core ` set (detect_swings s cfg)" unfolding cores by blast
  qed
qed

text \<open>Seven candles of five minutes with one high, in two series.\<close>

definition example_candle :: "nat \<Rightarrow> float64 \<Rightarrow> float64 \<Rightarrow> float64 \<Rightarrow> strategy_candle" where
  "example_candle i h l c = \<lparr>rk_timeframe_ms = 300000, rk_timeframe = ''5m'', rk_open_time = int i * 300000000,
     rk_open = c, rk_high = h, rk_low = l, rk_close = c, rk_volume = 1, rk_trade_count = 1\<rparr>"

definition example_candles :: "strategy_candle list" where
  "example_candles = [example_candle 0 11 9 10, example_candle 1 12 9 10, example_candle 2 15 9 10,
     example_candle 3 12 9 10, example_candle 4 11 9 10, example_candle 5 12 9 11, example_candle 6 13 9 12]"

definition example_series :: "nat \<Rightarrow> candle_series" where
  "example_series n = \<lparr>se_timeframe = ''5m'', se_candles = take n example_candles, se_as_of = 2100000000\<rparr>"

definition unfiltered_settings :: strategy_settings where
  "unfiltered_settings = default_strategy_settings\<lparr>st_swing_atr_multiplier := 0\<rparr>"

lemma example_series_ok: "series_ok (example_series 7)"
  by (simp add: series_ok_def example_series_def example_candles_def example_candle_def close_time_def)

lemma swings_are_causal_witness:
  "swing_core ` set (detect_swings (example_series 5) unfiltered_settings) =
     {c \<in> swing_core ` set (detect_swings (example_series 7) unfiltered_settings). snd (snd c) \<le> 1500000000} \<and>
   ((''5m'', SWING_HIGH, 600000000), 15, 1500000000) \<in> swing_core ` set (detect_swings (example_series 5) unfiltered_settings)"
proof
  have last: "close_time (last (se_candles (example_series 5))) = 1500000000"
    by (simp add: example_series_def example_candles_def example_candle_def close_time_def)
  show "swing_core ` set (detect_swings (example_series 5) unfiltered_settings) =
     {c \<in> swing_core ` set (detect_swings (example_series 7) unfiltered_settings). snd (snd c) \<le> 1500000000}"
    using swings_are_causal [OF example_series_ok, of "example_series 5" 300000 unfiltered_settings]
    unfolding last
    by (simp add: extends_series_def example_series_def example_candles_def example_candle_def
        unfiltered_settings_def default_strategy_settings_def)
  show "((''5m'', SWING_HIGH, 600000000), 15, 1500000000) \<in>
      swing_core ` set (detect_swings (example_series 5) unfiltered_settings)"
    unfolding core_detect Let_def
    by (rule UN_I [of 2]) (simp_all add: core_swings_at fmul_def Let_def example_series_def example_candles_def example_candle_def
        unfiltered_settings_def default_strategy_settings_def lower_highs_def close_time_def)
qed

section \<open>A structure breaks only on a run of closes\<close>

lemma closes_beyond_run:
  assumes "closes_beyond n b c ks = Some (m, k)" "c < n"
  shows "m = n \<and> (\<exists>pre run post. ks = pre @ run @ post \<and> run \<noteq> [] \<and> last run = k \<and> list_all b run \<and>
    (length run = n \<or> pre = [] \<and> length run + c = n))"
  using assms
proof (induction ks arbitrary: c)
  case (Cons x ks)
  show ?case
  proof (cases "b x")
    case False
    with Cons.prems have "closes_beyond n b 0 ks = Some (m, k)" "0 < n" by simp_all
    from Cons.IH [OF this] obtain pre run post where run: "m = n" "ks = pre @ run @ post" "run \<noteq> []" "last run = k"
      "list_all b run" "length run = n" by auto
    then show ?thesis by (intro conjI exI [of _ "x # pre"] exI [of _ run] exI [of _ post]) simp_all
  next
    case True
    show ?thesis
    proof (cases "n \<le> Suc c")
      case le: True
      with True Cons.prems have "m = n" "k = x" "1 + c = n" by auto
      with True show ?thesis by (intro conjI exI [of _ "[]"] exI [of _ "[x]"] exI [of _ ks]) simp_all
    next
      case False
      with True Cons.prems have "closes_beyond n b (Suc c) ks = Some (m, k)" "Suc c < n" by simp_all
      from Cons.IH [OF this] obtain pre run post where run: "m = n" "ks = pre @ run @ post" "run \<noteq> []" "last run = k"
        "list_all b run" "length run = n \<or> pre = [] \<and> length run + Suc c = n" by auto
      show ?thesis
      proof (cases "length run = n")
        case True
        with run show ?thesis by (intro conjI exI [of _ "x # pre"] exI [of _ run] exI [of _ post]) simp_all
      next
        case False
        with run \<open>b x\<close> show ?thesis by (intro conjI exI [of _ "[]"] exI [of _ "x # run"] exI [of _ post]) auto
      qed
    qed
  qed
qed simp

lemma after_dropWhile:
  fixes f :: "'a \<Rightarrow> 'b::linorder"
  assumes "sorted_wrt (<) (map f ks)" "k \<in> set (dropWhile (\<lambda>k. f k \<le> t) ks)"
  shows "t < f k"
  using assms
proof (induction ks)
  case (Cons x ks)
  show ?case
  proof (cases "f x \<le> t")
    case True
    with Cons show ?thesis by simp
  next
    case False
    with Cons.prems show ?thesis by (auto dest: order.strict_trans)
  qed
qed simp

text \<open>
  An event rests on a run of closes beyond the last swing of its side: \<open>n\<close> consecutive candles of the series
  after the confirmation of the swing, all closing above the last high or below the last low.
\<close>

definition broken_by :: "candle_series \<Rightarrow> nat \<Rightarrow> swing list \<Rightarrow> swing \<Rightarrow> structure_event \<Rightarrow> bool" where
  "broken_by s n ws w e \<longleftrightarrow> w \<in> set ws \<and> w = last (swings_of (wi_type w) ws) \<and>
     (\<exists>pre run post. se_candles s = pre @ run @ post \<and> length run = n \<and>
       sv_price e = wi_price w \<and> sv_confirm_close_time e = close_time (last run) \<and>
       close_time (last run) \<le> se_as_of s \<and>
       (\<forall>k \<in> set run. wi_confirmed_at w < close_time k \<and>
         (if wi_type w = SWING_HIGH then wi_price w < rk_close k else rk_close k < wi_price w)))"

lemma close_times_sorted:
  assumes "series_ok s" "list_all (\<lambda>k. rk_timeframe_ms k = ms) (se_candles s)"
  shows "sorted_wrt (<) (map close_time (se_candles s))"
  using close_times_increase [OF assms(1), of ms] assms(2)
  by (auto simp: sorted_wrt_iff_nth_less list_all_iff)

lemma break_event_run:
  assumes "series_ok s" "list_all (\<lambda>k. rk_timeframe_ms k = ms) (se_candles s)" "0 < n"
    and "ws = swings_of (if upward then SWING_HIGH else SWING_LOW) all"
    and "e \<in> set (break_event s n state upward ws)"
  shows "broken_by s n all (last ws) e"
proof -
  let ?w = "last ws"
  let ?later = "dropWhile (\<lambda>k. close_time k \<le> wi_confirmed_at ?w) (se_candles s)"
  have ne: "ws \<noteq> []" using assms(5) by (auto simp: break_event_def)
  have "closes_beyond n (close_beyond upward (wi_price ?w)) 0 ?later \<noteq> None"
  proof
    assume "closes_beyond n (close_beyond upward (wi_price ?w)) 0 ?later = None"
    with assms(5) ne show False unfolding break_event_def Let_def by simp
  qed
  then obtain m k where found: "closes_beyond n (close_beyond upward (wi_price ?w)) 0 ?later = Some (m, k)" by auto
  moreover have "sv_price e = wi_price ?w" "sv_confirm_close_time e = close_time k"
    using assms(5) ne unfolding break_event_def Let_def by (simp_all add: found)
  ultimately have k: "ws \<noteq> []" "closes_beyond n (close_beyond upward (wi_price ?w)) 0 ?later = Some (m, k)"
    "sv_price e = wi_price ?w" "sv_confirm_close_time e = close_time k" using ne by simp_all
  from closes_beyond_run [OF k(2) assms(3)] obtain pre run post where run: "?later = pre @ run @ post" "run \<noteq> []"
    "last run = k" "list_all (close_beyond upward (wi_price ?w)) run" "length run = n" by auto
  obtain skipped where skipped: "se_candles s = skipped @ ?later"
    by (metis takeWhile_dropWhile_id)
  have in_later: "x \<in> set ?later" if "x \<in> set run" for x using that run(1) by simp
  have late: "wi_confirmed_at ?w < close_time x" if "x \<in> set run" for x
    using after_dropWhile [OF close_times_sorted [OF assms(1,2)] in_later [OF that]] .
  have "k \<in> set run" using run(2,3) by auto
  with skipped run(1) have "close_time k \<le> se_as_of s" using assms(1) by (auto simp: series_ok_def)
  moreover have "?w \<in> set ws" using k(1) by simp
  then have side: "?w \<in> set all" "wi_type ?w = (if upward then SWING_HIGH else SWING_LOW)"
    by (auto simp: assms(4) split: if_splits)
  moreover from side(2) have "?w = last (swings_of (wi_type ?w) all)" by (simp add: assms(4))
  moreover have "se_candles s = (skipped @ pre) @ run @ post" using skipped run(1) by simp
  ultimately show ?thesis
    using run(3-5) late k(3,4) unfolding broken_by_def
    by (intro conjI exI [of _ "skipped @ pre"] exI [of _ run] exI [of _ post])
      (auto simp: close_beyond_def list_all_iff)
qed

lemma relation_event_types:
  "e \<in> set (relation_events tolerance ws) \<Longrightarrow> sv_event_type e \<notin> {BREAK_OF_STRUCTURE, CHANGE_OF_CHARACTER}"
  by (auto simp: relation_events_def relate_def relation_event_def List.map_filter_def Let_def split: if_splits)

text \<open>
  C32.  Structure never breaks on a wick: in a series as the program builds it, of one timeframe, every break of structure and every change of character in an
  analysis rests on the configured number of consecutive closed candles, all closing beyond the price of
  the last swing of its side, the last high or the last low that was detected, and all after that swing was
  confirmed; the time of the event is the close of the last of them.
\<close>

theorem breaks_rest_on_closes:
  assumes "series_ok s" "list_all (\<lambda>k. rk_timeframe_ms k = ms) (se_candles s)"
    and "0 < st_structure_break_confirmation_closes cfg"
    and "e \<in> set (sa_events (structure_of s cfg))" "sv_event_type e \<in> {BREAK_OF_STRUCTURE, CHANGE_OF_CHARACTER}"
  shows "\<exists>w. broken_by s (st_structure_break_confirmation_closes cfg) (detect_swings s cfg) w e"
proof -
  let ?ws = "detect_swings s cfg" and ?n = "st_structure_break_confirmation_closes cfg"
  from assms(4,5) obtain state where "e \<in> set (break_events s ?ws ?n state)"
    using relation_event_types by (auto simp: structure_of_def analyze_structure_def Let_def)
  then consider "e \<in> set (break_event s ?n state True (swings_of SWING_HIGH ?ws))"
    | "e \<in> set (break_event s ?n state False (swings_of SWING_LOW ?ws))" by (auto simp: break_events_def)
  then show ?thesis
  proof cases
    case 1
    have "swings_of SWING_HIGH ?ws = swings_of (if True then SWING_HIGH else SWING_LOW) ?ws" by simp
    from break_event_run [OF assms(1-3) this 1] show ?thesis ..
  next
    case 2
    have "swings_of SWING_LOW ?ws = swings_of (if False then SWING_HIGH else SWING_LOW) ?ws" by simp
    from break_event_run [OF assms(1-3) this 2] show ?thesis ..
  qed
qed

lemma never_neutral: "classify_state es \<noteq> NEUTRAL"
proof -
  obtain R where R: "R = last_n 4 (filter (\<lambda>e. sv_event_type e \<in> {HIGHER_HIGH, HIGHER_LOW, LOWER_HIGH, LOWER_LOW}) es)"
    by blast
  have moves: "\<forall>e \<in> set R. sv_event_type e \<in> {HIGHER_HIGH, HIGHER_LOW} \<or> sv_event_type e \<in> {LOWER_HIGH, LOWER_LOW}"
    unfolding R last_n_def by (auto dest: in_set_dropD)
  show ?thesis
  proof (cases R)
    case Nil
    then show ?thesis unfolding classify_state_def Let_def R [symmetric] by simp
  next
    case (Cons e es')
    with moves have "list_ex (\<lambda>e. sv_event_type e \<in> {HIGHER_HIGH, HIGHER_LOW}) R \<or>
      list_ex (\<lambda>e. sv_event_type e \<in> {LOWER_HIGH, LOWER_LOW}) R" by auto
    then show ?thesis unfolding classify_state_def Let_def R [symmetric] by (simp only: split: if_split) blast
  qed
qed

section \<open>Candidates\<close>

definition type_direction :: "candidate_type \<Rightarrow> candidate_direction" where
  "type_direction t = direction_of (t \<in> {BULLISH_RECLAIM_CONTINUATION, BULLISH_SWEEP_REVERSAL, RANGE_BREAKOUT_UP})"

text \<open>What the outcome of a rule always is, with the fractions of the shared features.\<close>

definition outcome_ok :: "feature_bundle \<Rightarrow> strategy_settings \<Rightarrow> regime_result \<Rightarrow> rule_outcome \<Rightarrow> bool" where
  "outcome_ok b cfg regime r \<longleftrightarrow>
     ro_direction r = type_direction (ro_candidate_type r) \<and>
     (ro_confirmed r \<longleftrightarrow> ro_retest_status r = RETEST_CONFIRMED \<or> ro_candidate_type r = BEARISH_REJECTION_CONTINUATION) \<and>
     ro_retest_status r \<noteq> RETEST_FAILED \<and>
     map_of (ro_fractions r) ''momentum'' = Some (momentum_fraction (fb_momentum_5m b) (ro_direction r)) \<and>
     map_of (ro_fractions r) ''volume'' = Some (volume_fraction (fb_volume_5m b) cfg) \<and>
     map_of (ro_fractions r) ''htf_bias'' =
       Some (htf_fraction (ro_direction r) (sa_state (fb_structure_1h b)) (rr_regime regime)) \<and>
     map_of (ro_fractions r) ''structure_15m'' =
       Some (structure_15m_fraction (sa_state (fb_structure_15m b)) (ro_direction r))"

lemma shared_fractions [simp]:
  "map_of (rule_fractions b cfg d regime liquidity local) ''momentum'' = Some (momentum_fraction (fb_momentum_5m b) d)"
  "map_of (rule_fractions b cfg d regime liquidity local) ''volume'' = Some (volume_fraction (fb_volume_5m b) cfg)"
  "map_of (rule_fractions b cfg d regime liquidity local) ''htf_bias'' =
     Some (htf_fraction d (sa_state (fb_structure_1h b)) (rr_regime regime))"
  "map_of (rule_fractions b cfg d regime liquidity local) ''structure_15m'' =
     Some (structure_15m_fraction (sa_state (fb_structure_15m b)) d)"
  by (simp_all add: rule_fractions_def)

lemma sweep_outcome: "sweep_reversal_rule b regime cfg bull = Rule_Met r \<Longrightarrow> outcome_ok b cfg regime r"
  by (cases bull)
    (auto simp: sweep_reversal_rule_def outcome_ok_def type_direction_def direction_of_def Let_def
      split: list.splits if_splits option.splits)

lemma continuation_met: "continuation_outcome b regime cfg bull price local retest note = Rule_Met r \<Longrightarrow>
    retest \<noteq> RETEST_FAILED \<Longrightarrow> outcome_ok b cfg regime r"
  by (cases bull) (auto simp: continuation_outcome_def outcome_ok_def type_direction_def direction_of_def)

lemma continuation_ok: "continuation_rule b regime cfg bull = Rule_Met r \<Longrightarrow> outcome_ok b cfg regime r"
  unfolding continuation_rule_def Let_def
  by (auto dest: continuation_met split: if_splits option.splits)

lemma breakout_ok: "range_breakout_rule b regime cfg up = Rule_Met r \<Longrightarrow> outcome_ok b cfg regime r"
  by (cases up)
    (auto simp: range_breakout_rule_def outcome_ok_def type_direction_def direction_of_def Let_def
      split: list.splits if_splits option.splits)

lemma rules_ok: "Rule_Met r \<in> set (evaluate_rules b regime cfg) \<Longrightarrow> outcome_ok b cfg regime r"
  unfolding evaluate_rules_def list.set insert_iff empty_iff
  by (elim disjE FalseE) (erule sweep_outcome [OF sym] continuation_ok [OF sym] breakout_ok [OF sym])+

lemma outcome_fractions:
  assumes "outcome_ok b cfg regime r"
  shows "fraction_of r ''momentum'' = momentum_fraction (fb_momentum_5m b) (ro_direction r)"
    "fraction_of r ''volume'' = volume_fraction (fb_volume_5m b) cfg"
    "fraction_of r ''htf_bias'' = htf_fraction (ro_direction r) (sa_state (fb_structure_1h b)) (rr_regime regime)"
    "fraction_of r ''structure_15m'' = structure_15m_fraction (sa_state (fb_structure_15m b)) (ro_direction r)"
  using assms by (simp_all add: outcome_ok_def fraction_of_def)

lemma keep_best_invariant:
  assumes "distinct (map sc_direction best)"
  shows "distinct (map sc_direction (fold keep_best ks best)) \<and> set (fold keep_best ks best) \<subseteq> set ks \<union> set best"
  using assms
proof (induction ks arbitrary: best)
  case (Cons k ks)
  have "distinct (map sc_direction (keep_best k best))" using Cons.prems by (auto simp: keep_best_def)
  from Cons.IH [OF this] show ?case by (auto simp: keep_best_def split: if_splits)
qed simp

lemma best_candidates_ok: "distinct (map sc_direction (best_candidates ks)) \<and> set (best_candidates ks) \<subseteq> set ks"
  using keep_best_invariant [of "[]" "sort_key candidate_rank ks"] by (simp add: best_candidates_def)

lemma momentum_aligned:
  assumes "fl (6 / 10) \<le> momentum_fraction m d"
  shows "mo_direction m = (if d = CANDIDATE_BULLISH then 1 else - 1)"
proof -
  have "fl (4 / 10) \<le> fl (1 / 2)" "fl (1 / 2) < fl (9 / 16)" "fl (9 / 16) \<le> fl (6 / 10)"
    using fl_representable [of 1 "- 1"] fl_representable [of 9 "- 4"]
    by (simp_all add: fl_mono power_int_minus)
  moreover have "fl 0 < fl (9 / 16)" using fl_representable [of 9 "- 4"] by (simp add: power_int_minus)
  ultimately show ?thesis using assms by (auto simp: momentum_fraction_def split: if_splits)
qed

lemma score_in_range:
  assumes "valid_strategy_settings cfg"
  shows "0 \<le> fst (compute_score fractions cfg) \<and> fst (compute_score fractions cfg) \<le> 100"
proof -
  let ?fr = "map (\<lambda>(c, f). (c, clamp f)) fractions"
  have "0 \<le> f \<and> f \<le> 1" if "(c, f) \<in> set ?fr" for c f using that clamp_range by auto
  from total_range [of ?fr "st_score_weights cfg", OF this] assms
  show ?thesis by (simp add: compute_score_def score_breakdown_def Let_def valid_strategy_settings_def comp_def)
qed

text \<open>The gate on the volume: there is a baseline, and the relative volume reaches the minimum or its double.\<close>

definition volume_reached :: "strategy_settings \<Rightarrow> bool \<Rightarrow> float64 option \<Rightarrow> bool" where
  "volume_reached cfg available ratio \<longleftrightarrow> available \<and>
     (case ratio of None \<Rightarrow> False
      | Some x \<Rightarrow> st_min_relative_volume cfg \<le> x \<or> fmul (st_min_relative_volume cfg) 2 \<le> x)"

lemma volume_gate:
  assumes "fl (7 / 10) \<le> volume_fraction v cfg"
  shows "volume_reached cfg (vo_volume_available v) (vo_relative_volume v)"
proof -
  have "fl (3 / 10) \<le> fl (1 / 2)" "fl (1 / 2) < fl (5 / 8)" "fl (5 / 8) \<le> fl (7 / 10)"
    using fl_representable [of 1 "- 1"] fl_representable [of 5 "- 3"]
    by (simp_all add: fl_mono power_int_minus)
  moreover have "fl 0 < fl (5 / 8)" using fl_representable [of 5 "- 3"] by (simp add: power_int_minus)
  ultimately show ?thesis
    using assms by (auto simp: volume_fraction_def volume_reached_def split: option.splits if_splits)
qed

text \<open>The gate on the structure: not both the higher timeframe and the 15m structure stand against the direction.\<close>

definition opposed_structure :: "candidate_direction \<Rightarrow> structure_state" where
  "opposed_structure d = (if d = CANDIDATE_BULLISH then BEARISH else BULLISH)"

definition structure_supports ::
  "candidate_direction \<Rightarrow> strategy_regime \<Rightarrow> structure_state \<Rightarrow> structure_state \<Rightarrow> bool" where
  "structure_supports d regime higher local \<longleftrightarrow>
     higher \<noteq> opposed_structure d \<or> regime = aligned_regime d \<or> local \<noteq> opposed_structure d"

lemma structure_gate:
  assumes "\<not> (htf_fraction d higher regime = 0 \<and> structure_15m_fraction local d = 0)"
  shows "structure_supports d regime higher local"
  using assms
  by (cases d; cases higher; cases local)
    (auto simp: structure_supports_def opposed_structure_def htf_fraction_def structure_15m_fraction_def
      aligned_structure_def split: if_splits)

text \<open>The gates on the context of an evaluation.\<close>

definition context_open :: "evaluation_context \<Rightarrow> strategy_settings \<Rightarrow> bool" where
  "context_open x cfg \<longleftrightarrow> \<not> ex_bot_paused x \<and> ex_session_allowed x \<and> ex_data_quality_ok x \<and>
     (ex_watchlist_active x \<or> \<not> st_require_active_watchlist cfg) \<and>
     (ex_orderbook_ok x \<or> \<not> st_require_fresh_orderbook cfg)"

text \<open>
  What every candidate of an outcome passed, in what the candidate and the outcome report: the limits on the score,
  a tradeable regime, momentum and volume where required, structure, the status of the retest, and its times.
\<close>

definition candidate_ok ::
  "evaluation_context \<Rightarrow> strategy_settings \<Rightarrow> evaluation_outcome \<Rightarrow> setup_candidate \<Rightarrow> bool" where
  "candidate_ok x cfg out k \<longleftrightarrow>
     st_min_setup_score cfg \<le> sc_setup_score k \<and> sc_setup_score k \<le> 100 \<and> sc_confidence k \<le> 95 \<and>
     sc_primary_regime k \<in> {TREND_UP, TREND_DOWN, RANGE_REGIME, BREAKOUT} \<and>
     sc_direction k = type_direction (sc_candidate_type k) \<and>
     (st_require_momentum_confirmation cfg \<longrightarrow>
        sc_momentum_direction k = (if sc_direction k = CANDIDATE_BULLISH then 1 else - 1)) \<and>
     (st_require_volume_confirmation cfg \<longrightarrow>
        (\<exists>v. eo_validity out = Some v \<and> volume_reached cfg (fv_volume_5m v) (sc_relative_volume k))) \<and>
     (\<exists>a. map_of (eo_structures out) ''15m'' = Some a \<and>
        structure_supports (sc_direction k) (sc_primary_regime k) (sc_higher_timeframe_structure k) (sa_state a)) \<and>
     (sc_state k = CONFIRMED \<longleftrightarrow>
        sc_retest_status k = RETEST_CONFIRMED \<or> sc_candidate_type k = BEARISH_REJECTION_CONTINUATION) \<and>
     sc_retest_status k \<noteq> RETEST_FAILED \<and>
     sc_as_of k = ex_as_of x \<and> sc_expiry_at k = ex_as_of x + 5 * st_expire_after_5m_candles cfg * 60000000"

lemma built_candidate_ok:
  assumes "valid_strategy_settings cfg" "outcome_ok b cfg regime r" "confirmation_gate r cfg = None"
    and "regime_block (rr_regime regime) = None"
    and "eo_validity out = Some v" "fv_volume_5m v = vo_volume_available (fb_volume_5m b)"
    and "map_of (eo_structures out) ''15m'' = Some (fb_structure_15m b)"
  shows "candidate_ok x cfg out (build_candidate sha new_id x b regime r cfg)"
proof -
  note fraction = outcome_fractions [OF assms(2)]
  have "rr_regime regime \<in> {TREND_UP, TREND_DOWN, RANGE_REGIME, BREAKOUT}"
    using assms(4) by (cases "rr_regime regime") (simp_all add: regime_block_def)
  moreover have "st_min_setup_score cfg \<le> fst (compute_score (ro_fractions r) cfg)"
    using assms(3) by (simp add: confirmation_gate_def split: if_splits)
  moreover have "mo_direction (fb_momentum_5m b) = (if ro_direction r = CANDIDATE_BULLISH then 1 else - 1)"
    if "st_require_momentum_confirmation cfg"
    using assms(3) that fraction(1)
    by (intro momentum_aligned) (simp add: confirmation_gate_def split: if_splits)
  moreover have "volume_reached cfg (vo_volume_available (fb_volume_5m b)) (vo_relative_volume (fb_volume_5m b))"
    if "st_require_volume_confirmation cfg"
    using assms(3) that fraction(2) by (intro volume_gate) (simp add: confirmation_gate_def split: if_splits)
  moreover have "structure_supports (ro_direction r) (rr_regime regime) (sa_state (fb_structure_1h b))
      (sa_state (fb_structure_15m b))"
    using assms(3) fraction(3,4) by (intro structure_gate) (simp add: confirmation_gate_def split: if_splits)
  ultimately show ?thesis
    using assms(2,5-7) score_in_range [OF assms(1), of "ro_fractions r"]
    by (auto simp: candidate_ok_def build_candidate_def outcome_ok_def case_prod_beta)
qed

lemma rights_set: "x \<in> set (rights ys) \<longleftrightarrow> Inr x \<in> set ys"
  by (force simp: rights_def List.map_filter_def split: sum.splits)

lemma evaluated_candidates:
  assumes "valid_strategy_settings cfg" "evaluate_context sha new_id x cfg = Some o'" "k \<in> set (eo_candidates o')"
  shows "context_open x cfg \<and> candidate_ok x cfg o' k \<and> distinct (map sc_direction (eo_candidates o'))"
proof -
  from assms(2,3) have gate: "strategy_gate x cfg = None"
    by (cases "strategy_gate x cfg") (auto simp: evaluate_context_def)
  with assms(2) obtain s1h s15 s5 where o': "o' = evaluate_features sha new_id x s1h s15 s5 cfg"
    by (auto simp: evaluate_context_def split: option.splits)
  let ?b = "build_feature_bundle s1h s15 s5 (ex_market x) cfg"
  let ?regime = "classify_regime s1h (fb_structure_1h ?b) (fb_volatility_1h ?b) cfg (ex_as_of x) (ex_low_liquidity x)
    (\<not> ex_data_quality_ok x)"
  let ?found = "rights (List.map_filter (candidate_result sha new_id x ?b ?regime cfg) (evaluate_rules ?b ?regime cfg))"
  have block: "regime_block (rr_regime ?regime) = None"
    using assms(3) unfolding o' evaluate_features_def Let_def by (cases "regime_block (rr_regime ?regime)") simp_all
  then have found: "eo_candidates o' = best_candidates ?found"
    unfolding o' evaluate_features_def Let_def by simp
  with assms(3) best_candidates_ok have "k \<in> set ?found" by fastforce
  then obtain result where "result \<in> set (evaluate_rules ?b ?regime cfg)"
    "candidate_result sha new_id x ?b ?regime cfg result = Some (Inr k)"
    by (auto simp: rights_set List.map_filter_def)
  then obtain r where "Rule_Met r \<in> set (evaluate_rules ?b ?regime cfg)" "confirmation_gate r cfg = None"
    "k = build_candidate sha new_id x ?b ?regime r cfg"
    by (auto simp: candidate_result_def split: rule_result.splits option.splits)
  moreover have "eo_validity o' = Some (fb_validity ?b)" "map_of (eo_structures o') ''15m'' = Some (fb_structure_15m ?b)"
    using block unfolding o' evaluate_features_def Let_def by simp_all
  moreover have "fv_volume_5m (fb_validity ?b) = vo_volume_available (fb_volume_5m ?b)"
    by (simp add: build_feature_bundle_def Let_def)
  ultimately have "candidate_ok x cfg o' k" using built_candidate_ok [OF assms(1) rules_ok] block by blast
  moreover have "context_open x cfg" using gate by (auto simp: strategy_gate_def context_open_def split: if_splits)
  ultimately show ?thesis using found best_candidates_ok by simp
qed

text \<open>
  C30.  Every candidate has passed every gate: the bot was not paused, session and data allowed it, and so did
  watchlist and book where they are required; its regime is tradeable; where momentum and volume are
  required, the momentum points its way and the relative volume reaches the minimum over a known baseline;
  the higher timeframe and the 15m structure do not both stand against it; its score lies between the minimum
  and a hundred; it is confirmed only by a held retest or a rejection; and each direction has at most one
  candidate.
\<close>

theorem candidates_pass_every_gate:
  assumes "valid_strategy_settings cfg" "evaluate_context sha new_id x cfg = Some o'" "k \<in> set (eo_candidates o')"
  shows "\<not> ex_bot_paused x \<and> ex_session_allowed x \<and> ex_data_quality_ok x \<and>
    (ex_watchlist_active x \<or> \<not> st_require_active_watchlist cfg) \<and>
    (ex_orderbook_ok x \<or> \<not> st_require_fresh_orderbook cfg) \<and>
    candidate_ok x cfg o' k \<and> distinct (map sc_direction (eo_candidates o'))"
  using evaluated_candidates [OF assms] unfolding context_open_def by blast

text \<open>Valid settings name the three series, so that a missing one is a rejection and never an exception.\<close>

lemma evaluation_total:
  assumes "valid_strategy_settings cfg"
  shows "evaluate_context sha new_id x cfg \<noteq> None"
proof -
  have "ex_series x tf \<noteq> None" if "strategy_gate x cfg = None" "tf \<in> {''5m'', ''15m'', ''1h''}" for tf
    using that assms by (auto simp: strategy_gate_def valid_strategy_settings_def list_ex_iff split: if_splits)
  from this [of "''5m''"] this [of "''15m''"] this [of "''1h''"] show ?thesis
    by (cases "strategy_gate x cfg") (auto simp: evaluate_context_def)
qed

section \<open>Breakouts\<close>

lemma nothing_after_last:
  assumes "series_ok s" "list_all (\<lambda>k. 0 < rk_timeframe_ms k) (se_candles s)"
  shows "filter (\<lambda>k. close_time (se_last s) \<le> rk_open_time k) (se_candles s) = []"
proof -
  have "se_last s \<in> set (se_candles s)" using assms(1) by (simp add: series_ok_def)
  then have "rk_open_time (se_last s) < close_time (se_last s)"
    using assms(2) by (auto simp: list_all_iff close_time_def)
  moreover have "rk_open_time k \<le> rk_open_time (se_last s)" if k: "k \<in> set (se_candles s)" for k
  proof -
    obtain i where "i < se_length s" "k = se_candles s ! i" using k by (auto simp: in_set_conv_nth)
    moreover have "sorted (map rk_open_time (se_candles s))"
      using assms(1) strict_sorted_imp_sorted by (auto simp: series_ok_def)
    ultimately show ?thesis
      using sorted_nth_mono [of "map rk_open_time (se_candles s)" i "se_length s - 1"] assms(1)
      by (auto simp: last_conv_nth series_ok_def)
  qed
  ultimately show ?thesis by (force simp: filter_empty_conv)
qed

text \<open>
  A range breakout is confirmed only when the price has come back: while the last close lies beyond the range,
  the retest window starts at its close and is empty, so that the candidate stays unconfirmed, however
  often the level was retested before; every confirmed breakout has its last close at or inside the range.
\<close>

theorem confirmed_breakout_has_returned:
  assumes "series_ok (fb_series_5m b)" "list_all (\<lambda>k. 0 < rk_timeframe_ms k) (se_candles (fb_series_5m b))"
    and "range_breakout_rule b regime cfg up = Rule_Met r" "ro_confirmed r"
  shows "\<exists>l \<in> set (fb_liquidity_levels_15m b).
    ro_referenced_levels r = [level_reference (level_type_value (ll_type l)) (ll_price l)] \<and>
    \<not> close_beyond up (ll_price l) (se_last (fb_series_5m b))"
proof -
  let ?s = "fb_series_5m b"
  from assms(3) obtain l ls where l: "filter (\<lambda>l. ll_type l = (if up then LEVEL_RANGE_HIGH else LEVEL_RANGE_LOW))
      (fb_liquidity_levels_15m b) = l # ls"
    by (auto simp: range_breakout_rule_def Let_def split: list.splits if_splits)
  then have l_in: "l \<in> set (fb_liquidity_levels_15m b)" "ll_type l = (if up then LEVEL_RANGE_HIGH else LEVEL_RANGE_LOW)"
    by (auto dest: filter_eq_ConsD)
  from assms(3) l obtain since where since: "break_time ?s up (ll_price l) cfg = Some since"
    "ro_confirmed r = (evaluate_retest ?s (ll_price l) since up cfg = RETEST_CONFIRMED)"
    "ro_referenced_levels r = [level_reference (level_type_value (ll_type l)) (ll_price l)]"
    using l_in(2) by (auto simp: range_breakout_rule_def Let_def split: if_splits option.splits)
  have "\<not> close_beyond up (ll_price l) (se_last ?s)"
  proof
    assume "close_beyond up (ll_price l) (se_last ?s)"
    with since(1) have "since = close_time (se_last ?s)" by (simp add: break_time_def)
    then have "evaluate_retest ?s (ll_price l) since up cfg \<noteq> RETEST_CONFIRMED"
      by (simp add: evaluate_retest_def nothing_after_last [OF assms(1,2)])
    with since(2) assms(4) show False by simp
  qed
  with l_in since(3) show ?thesis by blast
qed

section \<open>Examples\<close>

text \<open>A high at 15 and a later close at 16.\<close>

definition broken_series :: candle_series where
  "broken_series = \<lparr>se_timeframe = ''5m'', se_candles = take 6 example_candles @ [example_candle 6 17 9 16],
     se_as_of = 2100000000\<rparr>"

lemmas example_defs = broken_series_def example_series_def example_candles_def example_candle_def close_time_def
  default_strategy_settings_def

lemma broken_series_ok: "series_ok broken_series"
  by (simp add: series_ok_def example_defs)

definition example_high :: swing where
  "example_high = \<lparr>wi_timeframe = ''5m'', wi_type = SWING_HIGH, wi_price = 15, wi_candle_open_time = 600000000,
     wi_confirmed_at = 1500000000, wi_strength = 1, wi_relevance = 1\<rparr>"

lemma broken_swings: "detect_swings broken_series default_strategy_settings = [example_high]"
  by (simp add: detect_swings_def swings_at_def lower_highs_def higher_lows_def make_swing_def weighted_swings_def
      average_true_range_def true_range_series_def Let_def example_defs example_high_def upt_rec fmul_def fdiv_def fl_numerals)

lemma breaks_rest_on_closes_witness:
  "\<exists>e. sv_event_type e = BREAK_OF_STRUCTURE \<and> sv_price e = 15 \<and>
     broken_by broken_series 1 [example_high] example_high e"
proof -
  let ?e = "\<lparr>sv_event_type = BREAK_OF_STRUCTURE, sv_timeframe = ''5m'', sv_price = 15, sv_reference_swing_id = None,
    sv_confirm_close_time = 2100000000, sv_detail = Closes_Above 1 15\<rparr>"
  have "?e \<in> set (sa_events (structure_of broken_series default_strategy_settings))"
    unfolding structure_of_def broken_swings
    by (simp add: analyze_structure_def relation_events_def relate_def List.map_filter_def classify_state_def
        last_n_def break_events_def break_event_def Let_def example_high_def example_defs close_beyond_def)
  from breaks_rest_on_closes [OF broken_series_ok _ _ this, of 300000]
  obtain w where w: "broken_by broken_series 1 [example_high] w ?e"
    unfolding broken_swings by (auto simp: example_defs)
  then have "w = example_high" by (simp add: broken_by_def)
  with w have "broken_by broken_series 1 [example_high] example_high ?e" by simp
  then show ?thesis by (intro exI [of _ ?e]) simp
qed


definition returned_series :: candle_series where
  "returned_series = \<lparr>se_timeframe = ''5m'', se_candles = [example_candle 0 10200 9900 10100,
     example_candle 1 10200 10005 10050, example_candle 2 10200 10050 10100, example_candle 3 10100 9990 9995],
     se_as_of = 1200000000\<rparr>"

definition example_range_level :: liquidity_level where
  "example_range_level = \<lparr>ll_type = LEVEL_RANGE_HIGH, ll_timeframe = ''15m'', ll_price = 10000, ll_relevance = 1,
     ll_touches = 1, ll_is_major = True\<rparr>"

definition example_market :: market_snapshot where
  "example_market = \<lparr>mt_mark_price = None, mt_index_price = None, mt_mid_price = None, mt_best_bid = None,
     mt_best_ask = None, mt_spread_bps = None, mt_bid_depth_pusd = None, mt_ask_depth_pusd = None, mt_book_fresh = True,
     mt_bbo_fresh = True, mt_funding_rate = None, mt_volume_24h_pusd = None, mt_snapshot_at = 0\<rparr>"

definition example_bundle :: feature_bundle where
  "example_bundle = build_feature_bundle returned_series returned_series returned_series example_market
     default_strategy_settings\<lparr>fb_liquidity_levels_15m := [example_range_level]\<rparr>"

definition example_breakout_regime :: regime_result where
  "example_breakout_regime = \<lparr>rr_regime = BREAKOUT, rr_confidence = 75, rr_secondary_flags = []\<rparr>"

lemma example_bundle_parts [simp]: "fb_series_5m example_bundle = returned_series"
  "fb_liquidity_levels_15m example_bundle = [example_range_level]"
  by (simp_all add: example_bundle_def build_feature_bundle_def Let_def)

lemma confirmed_breakout_has_returned_witness:
  "\<exists>r. range_breakout_rule example_bundle example_breakout_regime default_strategy_settings True = Rule_Met r \<and>
     ro_confirmed r \<and> \<not> close_beyond True 10000 (se_last returned_series)"
proof -
  have price: "ll_price example_range_level = 10000" "ll_type example_range_level = LEVEL_RANGE_HIGH"
    by (simp_all add: example_range_level_def)
  have since: "break_time returned_series True 10000 default_strategy_settings = Some 300000000"
    by (simp add: break_time_def close_beyond_def returned_series_def last_n_def example_defs)
  have retest: "evaluate_retest returned_series 10000 300000000 True default_strategy_settings = RETEST_CONFIRMED"
    by (simp add: evaluate_retest_def returned_series_def example_defs Let_def fmul_def fdiv_def fadd_def fsub_def
        fl_numerals)
  obtain r where r: "range_breakout_rule example_bundle example_breakout_regime default_strategy_settings True = Rule_Met r"
    "ro_confirmed r"
    by (simp add: range_breakout_rule_def example_breakout_regime_def price since retest Let_def)
  have "series_ok (fb_series_5m example_bundle)"
    "list_all (\<lambda>k. 0 < rk_timeframe_ms k) (se_candles (fb_series_5m example_bundle))"
    by (simp_all add: series_ok_def returned_series_def example_defs)
  from confirmed_breakout_has_returned [OF this r] r show ?thesis by (auto simp: price)
qed

text \<open>Eight candles without a swing; the last one closes above the others.\<close>

definition quiet_series :: candle_series where
  "quiet_series = \<lparr>se_timeframe = ''5m'',
     se_candles = map (\<lambda>i. example_candle i 110 90 100) [0, 1, 2, 3] @ map (\<lambda>i. example_candle i 102 97 100) [4, 5, 6] @
       [example_candle 7 105 101 103], se_as_of = 2400000000\<rparr>"

definition lenient_settings :: strategy_settings where
  "lenient_settings = default_strategy_settings\<lparr>st_min_setup_score := 0, st_require_momentum_confirmation := False,
     st_liquidity_level_lookback := 2, st_regime_rules := [(''breakout_lookback'', 2)]\<rparr>"

definition example_evaluation :: evaluation_context where
  "example_evaluation = \<lparr>ex_instrument_pk = 1, ex_instrument_id = 1, ex_symbol = ''BTC'', ex_asset_class = ''CRYPTO'',
     ex_as_of = 2400000000, ex_series = (\<lambda>_. Some quiet_series), ex_market = example_market,
     ex_session_state = ''CRYPTO_24_7'', ex_session_allowed = True, ex_watchlist_active = True, ex_bot_paused = False,
     ex_data_quality_status = ''HEALTHY'', ex_data_quality_ok = True, ex_orderbook_ok = True,
     ex_market_quality_score = None, ex_low_liquidity = False, ex_strategy_name = ''s'', ex_strategy_version = ''1'',
     ex_config_hash = ''c''\<rparr>"

lemma lenient_settings_valid: "valid_strategy_settings lenient_settings"
  using default_strategy_settings_valid by (simp add: valid_strategy_settings_def lenient_settings_def
      default_strategy_settings_def)

lemma quiet_ranges: "true_range_series quiet_series = [20, 20, 20, 20, 5, 5, 5, 5]"
  by (simp add: true_range_series_def quiet_series_def true_range_def candle_range_def example_candle_def fsub_def
      fl_numerals)

lemma quiet_swings: "detect_swings quiet_series lenient_settings = []"
  by (simp add: detect_swings_def average_true_range_def quiet_ranges)
    (simp add: quiet_series_def swings_at_def lower_highs_def higher_lows_def weighted_swings_def Let_def
      example_candle_def lenient_settings_def default_strategy_settings_def upt_rec)

lemma quiet_structure: "sa_state (structure_of quiet_series lenient_settings) = INSUFFICIENT_STRUCTURE"
  by (simp add: structure_of_def quiet_swings analyze_structure_def relation_events_def relate_def List.map_filter_def
      classify_state_def last_n_def break_events_def break_event_def Let_def)

lemma quiet_percentile: "vf_atr_percentile (compute_volatility quiet_series lenient_settings) = Some 25"
proof -
  have quarter: "fl (1 / 4) = 1 / 4" using fl_representable [of 1 "- 2"] by (simp add: power_int_minus)
  have "fl (fl (1 / 4) * 100) = 25" unfolding quarter by (simp add: fl_numerals)
  then show ?thesis
    by (simp add: compute_volatility_def quiet_ranges percentile_rank_def last_n_def Let_def lenient_settings_def
        default_strategy_settings_def fmul_def fdiv_def fadd_def fl_numerals)
qed

lemma quiet_outside: "outside_range quiet_series 2" "rolling_high quiet_series 2 True = Some 102"
  by (simp_all add: outside_range_def rolling_high_def rolling_window_def quiet_series_def last_n_def highest_def
      example_candle_def)

lemma quiet_efficiency: "efficiency_ratio quiet_series 7 = Some 1"
  by (simp add: efficiency_ratio_def quiet_series_def last_n_def example_candle_def py_sum_def fsub_def fadd_def
      fdiv_def fl_numerals Let_def)

lemma quiet_regime: "rr_regime (classify_regime quiet_series a (compute_volatility quiet_series lenient_settings)
    lenient_settings now False False) = BREAKOUT"
proof -
  have high: "\<not> vf_is_high_volatility (compute_volatility quiet_series lenient_settings)"
    using quiet_percentile by (simp add: compute_volatility_def Let_def lenient_settings_def default_strategy_settings_def
        split: if_splits)
  have "se_length quiet_series - 1 = 7" by (simp add: quiet_series_def)
  moreover have "min (nat (truncate_float (regime_rule lenient_settings ''trend_lookback'' 30))) 7 = 7"
    "nat (truncate_float (regime_rule lenient_settings ''breakout_lookback'' 20)) = 2"
    "\<not> event_risk_active lenient_settings now"
    by (simp_all add: regime_rule_def event_risk_active_def lenient_settings_def default_strategy_settings_def
        truncate_float_def)
  ultimately show ?thesis using high
    by (simp add: classify_regime_def primary_regime_def Let_def quiet_percentile quiet_outside quiet_efficiency)
qed

lemma keep_best_nonempty: "ks \<noteq> [] \<or> best \<noteq> [] \<Longrightarrow> fold keep_best ks best \<noteq> []"
proof (induction ks arbitrary: best)
  case (Cons k ks)
  have "keep_best k best \<noteq> []" by (auto simp: keep_best_def)
  with Cons.IH show ?case by simp
qed simp

lemma best_candidates_nonempty: "ks \<noteq> [] \<Longrightarrow> best_candidates ks \<noteq> []"
  unfolding best_candidates_def
  by (rule keep_best_nonempty) (metis length_0_conv length_sort)

lemma quiet_breakout:
  "\<exists>r. Rule_Met r \<in> set (evaluate_rules b g lenient_settings) \<and> confirmation_gate r lenient_settings = None"
  if b: "b = build_feature_bundle quiet_series quiet_series quiet_series example_market lenient_settings"
    and g: "rr_regime g = BREAKOUT"
proof -
  have parts: "fb_series_5m b = quiet_series" "sa_state (fb_structure_1h b) = INSUFFICIENT_STRUCTURE"
    by (simp_all add: b build_feature_bundle_def Let_def quiet_structure)
  have "fb_liquidity_levels_15m b = detect_liquidity_levels quiet_series [] lenient_settings"
    by (simp add: b build_feature_bundle_def Let_def structure_of_def analyze_structure_def quiet_swings)
  moreover have "st_liquidity_level_lookback lenient_settings = 2" by (simp add: lenient_settings_def)
  ultimately obtain ls where levels: "filter (\<lambda>l. ll_type l = LEVEL_RANGE_HIGH) (fb_liquidity_levels_15m b) =
      \<lparr>ll_type = LEVEL_RANGE_HIGH, ll_timeframe = ''5m'', ll_price = 102, ll_relevance = fl (8 / 10), ll_touches = 1,
        ll_is_major = True\<rparr> # ls"
    by (simp add: detect_liquidity_levels_def last_n_def equal_levels_def range_level_def quiet_outside Let_def
        quiet_series_def [THEN arg_cong, of se_timeframe])
  have since: "break_time quiet_series True 102 lenient_settings = Some 2400000000"
    by (simp add: break_time_def close_beyond_def quiet_series_def example_candle_def close_time_def)
  have "filter (\<lambda>k. 2400000000 \<le> rk_open_time k) (se_candles quiet_series) = []"
    by (simp add: quiet_series_def example_candle_def)
  then have retest: "evaluate_retest quiet_series 102 2400000000 True lenient_settings = RETEST_PENDING"
    by (simp add: evaluate_retest_def)
  obtain r where r: "range_breakout_rule b g lenient_settings True = Rule_Met r"
      "\<exists>x y. ro_fractions r = rule_fractions b lenient_settings CANDIDATE_BULLISH g x y"
    using levels g by (simp add: range_breakout_rule_def Let_def parts since retest direction_of_def) blast
  then have "fraction_of r ''htf_bias'' = 1 / 2"
    by (auto simp: fraction_of_def rule_fractions_def htf_fraction_def parts g aligned_structure_def aligned_regime_def)
  moreover have "st_require_momentum_confirmation lenient_settings = False"
    "st_require_volume_confirmation lenient_settings = False" "st_min_setup_score lenient_settings = 0"
    by (simp_all add: lenient_settings_def default_strategy_settings_def)
  ultimately have "confirmation_gate r lenient_settings = None"
    using score_in_range [OF lenient_settings_valid, of "ro_fractions r"] by (simp add: confirmation_gate_def)
  with r(1) show ?thesis by (auto simp: evaluate_rules_def)
qed

lemma candidates_pass_every_gate_witness:
  "\<exists>o' k. evaluate_context (\<lambda>s. s) (\<lambda>t. 0) example_evaluation lenient_settings = Some o' \<and>
     k \<in> set (eo_candidates o') \<and> candidate_ok example_evaluation lenient_settings o' k \<and>
     distinct (map sc_direction (eo_candidates o'))"
proof -
  let ?x = example_evaluation and ?cfg = lenient_settings
  let ?b = "build_feature_bundle quiet_series quiet_series quiet_series example_market ?cfg"
  let ?g = "classify_regime quiet_series (fb_structure_1h ?b) (fb_volatility_1h ?b) ?cfg (ex_as_of ?x) False False"
  let ?o = "evaluate_features (\<lambda>s. s) (\<lambda>t. 0) ?x quiet_series quiet_series quiet_series ?cfg"
  have evaluated: "evaluate_context (\<lambda>s. s) (\<lambda>t. 0) ?x ?cfg = Some ?o"
    by (simp add: evaluate_context_def strategy_gate_def example_evaluation_def lenient_settings_def
        default_strategy_settings_def)
  have regime: "rr_regime ?g = BREAKOUT"
    using quiet_regime by (simp add: build_feature_bundle_def Let_def)
  obtain r where r: "Rule_Met r \<in> set (evaluate_rules ?b ?g ?cfg)" "confirmation_gate r ?cfg = None"
    using quiet_breakout [OF refl regime] by blast
  let ?found = "rights (List.map_filter (candidate_result (\<lambda>s. s) (\<lambda>t. 0) ?x ?b ?g ?cfg) (evaluate_rules ?b ?g ?cfg))"
  have "build_candidate (\<lambda>s. s) (\<lambda>t. 0) ?x ?b ?g r ?cfg \<in> set ?found"
    using r by (force simp: rights_set List.map_filter_def candidate_result_def)
  then have "best_candidates ?found \<noteq> []" by (intro best_candidates_nonempty) auto
  moreover have "eo_candidates ?o = best_candidates ?found"
    using regime by (simp add: evaluate_features_def Let_def regime_block_def example_evaluation_def)
  ultimately obtain k where "k \<in> set (eo_candidates ?o)" by (metis list.set_sel(1))
  with candidates_pass_every_gate [OF lenient_settings_valid evaluated this] evaluated show ?thesis by blast
qed

end
