(* ===== verification/Simulation_Core.thy ===== *)
theory Simulation_Core
  imports Cost_Estimates Signal_Keys
begin

text \<open>
  The hypothetical follower simulation (\<open>app/simulation/\<close>): the delay, the modelled legs, funding and the
  result of one lifecycle.  The identifiers drawn at random and the texts of details are left out.  The
  generator \<open>random.Random\<close> is a parameter: the first number of a seed and its log-normal draw.
\<close>

section \<open>Vocabulary\<close>

datatype delay_model = FIXED_SECONDS | UNIFORM_RANGE_SECONDS | LOGNORMAL_DELAY | EVENT_TIMESTAMP_ONLY

datatype exit_reason =
    XR_TARGET_1_OBSERVED | XR_TARGET_2_OBSERVED | XR_TECHNICAL_EXIT_CONDITION | XR_INVALIDATION_CONDITION
  | XR_EXPIRED | XR_SUPERSEDED | XR_DATA_INVALID | XR_SESSION_POLICY_END | XR_LIFECYCLE_TERMINAL

datatype position_state =
    PS_PENDING_DELAY | PS_MODELLED_ENTRY | PS_OPEN_SIMULATION | PS_PARTIAL_REDUCTION_MODELLED
  | PS_CLOSED_SIMULATION | PS_UNMODELED_EXIT | PS_INCOMPLETE | PS_REJECTED

datatype leg_kind = LK_MODELLED_ENTRY | LK_MODELLED_PARTIAL_REDUCTION | LK_MODELLED_EXIT

datatype data_completeness = DC_COMPLETE | DC_PARTIAL | DC_INSUFFICIENT

datatype simulation_rejection_code =
    SR_LIFECYCLE_NOT_ELIGIBLE | SR_PLAN_AUDIT_MISSING | SR_CANDIDATE_AUDIT_MISSING | SR_SIMULATION_DISABLED
  | SR_BOT_PAUSED | SR_DUPLICATE_SIMULATION | SR_ENTRY_DELAY_DATA_UNAVAILABLE | SR_ENTRY_BOOK_STALE
  | SR_ENTRY_BOOK_INSUFFICIENT_DEPTH | SR_ENTRY_SLIPPAGE_EXCESSIVE | SR_EXIT_BOOK_STALE
  | SR_EXIT_BOOK_INSUFFICIENT_DEPTH | SR_EXIT_UNMODELED | SR_FUNDING_UNAVAILABLE
  | SR_FEE_SCHEDULE_UNAVAILABLE | SR_COST_MODEL_UNAVAILABLE | SR_DATA_GAP | SR_SESSION_NOT_ALLOWED
  | SR_MANIFEST_INVALID | SR_BACKTEST_DATA_INCOMPLETE | SR_LOOKAHEAD_GUARD_TRIGGERED | SR_INSUFFICIENT_SAMPLE
  | SR_CONFIGURATION_INVALID | SR_EXPERIMENT_CANCELLED | SR_SIMULATION_ERROR

text \<open>The vocabulary of the lifecycle, translated: events, updates and terminal states by their names.\<close>

definition exit_reason_for_event :: "string \<Rightarrow> exit_reason option" where
  "exit_reason_for_event = map_of
     [(''TARGET_1_REACHED'', XR_TARGET_1_OBSERVED), (''TARGET_2_REACHED'', XR_TARGET_2_OBSERVED),
      (''TECHNICAL_EXIT'', XR_TECHNICAL_EXIT_CONDITION), (''INVALIDATED'', XR_INVALIDATION_CONDITION),
      (''EXPIRED'', XR_EXPIRED), (''SUPERSEDED'', XR_SUPERSEDED), (''DATA_INVALID'', XR_DATA_INVALID),
      (''PAUSED'', XR_SESSION_POLICY_END)]"

definition exit_reason_for_update :: "string \<Rightarrow> exit_reason option" where
  "exit_reason_for_update = map_of
     [(''TARGET_1_OBSERVED'', XR_TARGET_1_OBSERVED), (''TARGET_2_OBSERVED'', XR_TARGET_2_OBSERVED),
      (''TECHNICAL_EXIT_CONDITION'', XR_TECHNICAL_EXIT_CONDITION),
      (''INVALIDATION_CONDITION'', XR_INVALIDATION_CONDITION), (''SESSION_TRANSITION'', XR_SESSION_POLICY_END)]"

definition terminal_lifecycle_states :: "string list" where
  "terminal_lifecycle_states =
     [''TECHNICAL_EXIT'', ''INVALIDATED'', ''EXPIRED'', ''SUPERSEDED'', ''REJECTED'', ''DATA_INVALID'']"

definition admissible_lifecycle_states :: "string list" where
  "admissible_lifecycle_states = [''ENTRY_CONFIRMED'', ''ACTIVE_RESEARCH'']"

definition exit_reason_for_state :: "string \<Rightarrow> exit_reason option" where
  "exit_reason_for_state s =
     (if s \<notin> set terminal_lifecycle_states then None
      else case exit_reason_for_event s of Some r \<Rightarrow> Some r | None \<Rightarrow> Some XR_LIFECYCLE_TERMINAL)"

section \<open>Settings and snapshots\<close>

record shadow_settings =
  sh_mode_enabled :: bool
  sh_simulation_model_name :: string
  sh_simulation_model_version :: string
  sh_monitor_refresh_seconds :: float64
  sh_max_concurrent :: int
  sh_queue_size :: int
  sh_lease_seconds :: float64
  sh_dedupe_seconds :: float64
  sh_require_complete_cost_data :: bool
  sh_require_funding_data :: bool
  sh_allow_partial_target_simulation :: bool
  sh_partial_target_pct :: float64
  sh_delay_model :: delay_model
  sh_delay_fixed_seconds :: float64
  sh_delay_min_seconds :: float64
  sh_delay_max_seconds :: float64
  sh_delay_lognormal_mu :: float64
  sh_delay_lognormal_sigma :: float64
  sh_delay_max_entry_staleness_seconds :: float64
  sh_exit_max_book_staleness_seconds :: float64
  sh_reject_unmodeled_exit :: bool \<comment> \<open>\<open>unmodeled_exit_policy\<close> is \<open>REJECT\<close>, not \<open>MARK_UNMODELED\<close>\<close>

definition default_shadow_settings :: shadow_settings where
  "default_shadow_settings = \<lparr>sh_mode_enabled = False,
     sh_simulation_model_name = ''hypothetical_follower_simulation_v1'', sh_simulation_model_version = ''1.0.0'',
     sh_monitor_refresh_seconds = 15, sh_max_concurrent = 4, sh_queue_size = 256, sh_lease_seconds = 60,
     sh_dedupe_seconds = 900, sh_require_complete_cost_data = True, sh_require_funding_data = True,
     sh_allow_partial_target_simulation = False, sh_partial_target_pct = 50, sh_delay_model = FIXED_SECONDS,
     sh_delay_fixed_seconds = 20, sh_delay_min_seconds = 10, sh_delay_max_seconds = 30,
     sh_delay_lognormal_mu = fl (28 / 10), sh_delay_lognormal_sigma = fl (4 / 10),
     sh_delay_max_entry_staleness_seconds = 30, sh_exit_max_book_staleness_seconds = 60,
     sh_reject_unmodeled_exit = False\<rparr>"

record lifecycle_observation =
  lo_signal_id :: uuid
  lo_plan_id :: uuid
  lo_candidate_id :: uuid
  lo_state :: string
  lo_event_type :: string
  lo_state_version :: int
  lo_as_of :: datetime

record plan_reference =
  pr_plan_id :: uuid
  pr_candidate_id :: uuid
  pr_instrument_pk :: int
  pr_instrument_id :: int
  pr_symbol :: string
  pr_asset_class :: string
  pr_candidate_type :: string
  pr_direction :: string
  pr_entry_reference_price :: float64
  pr_invalidation_price :: float64
  pr_target_prices :: "float64 list"
  pr_reference_quantity :: float64
  pr_reference_notional :: float64
  pr_risk_per_unit :: float64
  pr_virtual_account_pusd :: float64

definition pr_bullish :: "plan_reference \<Rightarrow> bool" where
  "pr_bullish p \<longleftrightarrow> pr_direction p = ''BULLISH''"

record market_reference =
  mr_as_of :: datetime
  mr_book :: depth_snapshot
  mr_best_bid :: "float64 option"
  mr_best_ask :: "float64 option"
  mr_mark_price :: "float64 option"
  mr_bbo_at :: "datetime option"
  mr_book_at :: "datetime option"
  mr_data_quality_ok :: bool

text \<open>The age of the newest stamp.\<close>

definition staleness_seconds :: "market_reference \<Rightarrow> datetime \<Rightarrow> float64 option" where
  "staleness_seconds m now =
     (case (mr_bbo_at m, mr_book_at m) of
        (None, None) \<Rightarrow> None
      | (Some a, None) \<Rightarrow> Some (max 0 (total_seconds (now - a)))
      | (None, Some b) \<Rightarrow> Some (max 0 (total_seconds (now - b)))
      | (Some a, Some b) \<Rightarrow> Some (max 0 (total_seconds (now - max a b))))"

section \<open>The delay\<close>

record delay_realization =
  dl_model :: delay_model
  dl_delay_seconds :: float64
  dl_event_reference_at :: datetime
  dl_scheduled_entry_at :: datetime
  dl_seed :: "nat option"

record generator =
  gn_sha :: "string \<Rightarrow> string" \<comment> \<open>the hex digest of SHA-256\<close>
  gn_unit :: "nat \<Rightarrow> float64" \<comment> \<open>the first \<open>random()\<close> of a seed\<close>
  gn_lognormal :: "nat \<Rightarrow> float64 \<Rightarrow> float64 \<Rightarrow> float64" \<comment> \<open>\<open>exp(gauss(mu, sigma))\<close>\<close>

definition max_modelled_delay_seconds :: float64 where
  "max_modelled_delay_seconds = 3600"

definition hex_digit :: "char \<Rightarrow> nat" where
  "hex_digit c = (if 97 \<le> (of_char c :: nat) then of_char c - 87 else of_char c - 48)"

definition hex_value :: "string \<Rightarrow> nat" where
  "hex_value s = foldl (\<lambda>n c. 16 * n + hex_digit c) 0 s"

definition seed_for :: "generator \<Rightarrow> lifecycle_observation \<Rightarrow> int \<Rightarrow> nat" where
  "seed_for g seen base = hex_value (take 8 (gn_sha g
     (join_bar [str_int base, str_uuid (lo_signal_id seen), str_int (lo_state_version seen)])))"

definition drawn_delay :: "generator \<Rightarrow> shadow_settings \<Rightarrow> nat \<Rightarrow> float64" where
  "drawn_delay g s seed =
     (case sh_delay_model s of
        EVENT_TIMESTAMP_ONLY \<Rightarrow> 0
      | FIXED_SECONDS \<Rightarrow> sh_delay_fixed_seconds s
      | UNIFORM_RANGE_SECONDS \<Rightarrow>
          fadd (sh_delay_min_seconds s)
            (fmul (fsub (sh_delay_max_seconds s) (sh_delay_min_seconds s)) (gn_unit g seed))
      | LOGNORMAL_DELAY \<Rightarrow> gn_lognormal g seed (sh_delay_lognormal_mu s) (sh_delay_lognormal_sigma s))"

definition realize_delay :: "generator \<Rightarrow> lifecycle_observation \<Rightarrow> shadow_settings \<Rightarrow> int \<Rightarrow> delay_realization" where
  "realize_delay g seen s base =
     (let seed = seed_for g seen base;
          delay = max 0 (min (drawn_delay g s seed) max_modelled_delay_seconds) in
      \<lparr>dl_model = sh_delay_model s, dl_delay_seconds = delay, dl_event_reference_at = lo_as_of seen,
       dl_scheduled_entry_at = lo_as_of seen + timedelta_seconds delay,
       dl_seed = (if sh_delay_model s \<in> {UNIFORM_RANGE_SECONDS, LOGNORMAL_DELAY} then Some seed else None)\<rparr>)"

section \<open>Modelled legs\<close>

record modelled_execution =
  me_leg :: leg_kind
  me_side_consumed :: book_side
  me_modelled_price :: float64
  me_quantity :: float64
  me_notional :: float64
  me_reference_price :: float64
  me_slippage_cost :: float64
  me_slippage_bps :: float64
  me_fee_cost :: float64
  me_levels_consumed :: nat
  me_book_at :: "datetime option"
  me_as_of :: datetime

definition consumed_side :: "bool \<Rightarrow> bool \<Rightarrow> book_side" where
  "consumed_side entering bull =
     (if (if bull then entering else \<not> entering) then SIDE_ASK else SIDE_BID)"

definition adverse_sign :: "bool \<Rightarrow> bool \<Rightarrow> float64" where
  "adverse_sign entering bull = (if entering = bull then 1 else - 1)"

definition model_execution ::
  "leg_kind \<Rightarrow> bool \<Rightarrow> bool \<Rightarrow> float64 \<Rightarrow> market_reference \<Rightarrow> fee_schedule \<Rightarrow> execution_mode \<Rightarrow>
     cost_settings \<Rightarrow> float64 \<Rightarrow> simulation_rejection_code \<Rightarrow> simulation_rejection_code \<Rightarrow>
     simulation_rejection_code + modelled_execution" where
  "model_execution leg entering bull quantity m f mode s max_staleness stale_code depth_code =
     (if quantity \<le> 0 then Inl SR_CONFIGURATION_INVALID
      else if \<not> ds_fresh (mr_book m) \<or>
          (case staleness_seconds m (mr_as_of m) of None \<Rightarrow> True | Some x \<Rightarrow> max_staleness < x) then
        Inl stale_code
      else
        let side = consumed_side entering bull;
            vwap = walk_book (mr_book m) side quantity (cs_orderbook_max_levels s)
              (cs_orderbook_max_distance_bps s) in
        case (vw_vwap_price vwap, vw_reference_price vwap) of
          (Some average, Some best) \<Rightarrow>
            if \<not> fully_filled vwap then Inl depth_code
            else
              let stress = stress_bps_for s (if entering then LEG_ENTRY else LEG_INVALIDATION) mode;
                  price = shifted_price average (adverse_sign entering bull) stress in
              if price \<le> 0 then Inl SR_SIMULATION_ERROR
              else
                let slippage = \<bar>fsub price best\<bar> in
                Inr \<lparr>me_leg = leg, me_side_consumed = side, me_modelled_price = price, me_quantity = quantity,
                  me_notional = fmul price quantity, me_reference_price = best,
                  me_slippage_cost = fmul slippage quantity,
                  me_slippage_bps = (if 0 < best then fmul (fdiv slippage best) 10000 else 0),
                  me_fee_cost = fee_cost f mode price quantity, me_levels_consumed = vw_levels_consumed vwap,
                  me_book_at = mr_book_at m, me_as_of = mr_as_of m\<rparr>
        | _ \<Rightarrow> Inl depth_code)"

text \<open>An entry worse than the reference of the plan by more than the allowed share of the risk is refused.\<close>

definition excessive_entry :: "plan_reference \<Rightarrow> cost_settings \<Rightarrow> modelled_execution \<Rightarrow> bool" where
  "excessive_entry p s e \<longleftrightarrow> 0 < pr_risk_per_unit p \<and>
     (if pr_bullish p then pr_entry_reference_price p < me_modelled_price e
      else me_modelled_price e < pr_entry_reference_price p) \<and>
     cs_max_slippage_to_risk_pct s
       < fmul (fdiv \<bar>fsub (me_modelled_price e) (pr_entry_reference_price p)\<bar> (pr_risk_per_unit p)) 100"

definition model_entry ::
  "plan_reference \<Rightarrow> market_reference option \<Rightarrow> fee_schedule option \<Rightarrow> cost_settings \<Rightarrow> shadow_settings \<Rightarrow>
     simulation_rejection_code + modelled_execution" where
  "model_entry p market schedule s sh =
     (case schedule of None \<Rightarrow> Inl SR_FEE_SCHEDULE_UNAVAILABLE
      | Some f \<Rightarrow> (case market of None \<Rightarrow> Inl SR_ENTRY_DELAY_DATA_UNAVAILABLE
      | Some m \<Rightarrow>
          if \<not> mr_data_quality_ok m then Inl SR_ENTRY_BOOK_STALE
          else
            case model_execution LK_MODELLED_ENTRY True (pr_bullish p) (pr_reference_quantity p) m f
                (cs_entry_execution_mode s) s (sh_delay_max_entry_staleness_seconds sh)
                SR_ENTRY_BOOK_STALE SR_ENTRY_BOOK_INSUFFICIENT_DEPTH of
              Inl c \<Rightarrow> Inl c
            | Inr e \<Rightarrow> if excessive_entry p s e then Inl SR_ENTRY_SLIPPAGE_EXCESSIVE else Inr e))"

definition execution_mode_for :: "exit_reason \<Rightarrow> cost_settings \<Rightarrow> execution_mode" where
  "execution_mode_for r s =
     (if r \<in> {XR_INVALIDATION_CONDITION, XR_TECHNICAL_EXIT_CONDITION, XR_DATA_INVALID}
      then cs_invalidation_execution_mode s else cs_target_execution_mode s)"

definition model_exit ::
  "plan_reference \<Rightarrow> exit_reason \<Rightarrow> market_reference option \<Rightarrow> fee_schedule option \<Rightarrow> float64 \<Rightarrow>
     cost_settings \<Rightarrow> shadow_settings \<Rightarrow> simulation_rejection_code + modelled_execution" where
  "model_exit p r market schedule quantity s sh =
     (case schedule of None \<Rightarrow> Inl SR_FEE_SCHEDULE_UNAVAILABLE
      | Some f \<Rightarrow> (case market of None \<Rightarrow> Inl SR_EXIT_BOOK_STALE
      | Some m \<Rightarrow>
          if \<not> mr_data_quality_ok m then Inl SR_EXIT_BOOK_STALE
          else model_execution LK_MODELLED_EXIT False (pr_bullish p) quantity m f (execution_mode_for r s) s
            (sh_exit_max_book_staleness_seconds sh) SR_EXIT_BOOK_STALE SR_EXIT_BOOK_INSUFFICIENT_DEPTH))"

definition model_partial_reduction ::
  "plan_reference \<Rightarrow> market_reference option \<Rightarrow> fee_schedule option \<Rightarrow> cost_settings \<Rightarrow> shadow_settings \<Rightarrow>
     simulation_rejection_code + modelled_execution option" where
  "model_partial_reduction p market schedule s sh =
     (let quantity = fmul (pr_reference_quantity p) (fdiv (sh_partial_target_pct sh) 100) in
      if \<not> sh_allow_partial_target_simulation sh then Inr None
      else if quantity \<le> 0 then Inr None
      else
        case (schedule, market) of
          (Some f, Some m) \<Rightarrow>
            map_sum id Some (model_execution LK_MODELLED_PARTIAL_REDUCTION False (pr_bullish p) quantity m f
              (cs_target_execution_mode s) s (sh_exit_max_book_staleness_seconds sh) SR_EXIT_BOOK_STALE
              SR_EXIT_BOOK_INSUFFICIENT_DEPTH)
        | _ \<Rightarrow> Inl SR_EXIT_BOOK_STALE)"

section \<open>Funding and the result\<close>

datatype simulation_warning =
    SIMULATION_STILL_OPEN | PARTIAL_REDUCTION_UNMODELED simulation_rejection_code
  | EXIT_UNMODELED simulation_rejection_code | FUNDING_DATA_UNAVAILABLE | FUNDING_BUFFER_ONLY
  | ENTRY_INSTANT_APPROXIMATED float64

record modelled_funding =
  mo_funding_cost :: float64
  mo_intervals_modelled :: int
  mo_hours_modelled :: float64
  mo_data_available :: bool
  mo_warnings :: "simulation_warning list"

definition missing_funding :: "int \<Rightarrow> modelled_funding" where
  "missing_funding hold = \<lparr>mo_funding_cost = 0, mo_intervals_modelled = 0,
     mo_hours_modelled = fdiv (of_int hold) 60, mo_data_available = False,
     mo_warnings = [FUNDING_DATA_UNAVAILABLE]\<rparr>"

definition model_funding ::
  "plan_reference \<Rightarrow> funding_snapshot option \<Rightarrow> float64 \<Rightarrow> float64 \<Rightarrow> datetime \<Rightarrow> cost_settings \<Rightarrow>
     shadow_settings \<Rightarrow> simulation_rejection_code + modelled_funding" where
  "model_funding p funding notional hold_seconds entry_at s sh =
     (let hold = max 1 \<lceil>fdiv (max 0 hold_seconds) 60\<rceil> in
      case (case funding of None \<Rightarrow> Inl [] | Some f \<Rightarrow> project_funding f (pr_bullish p) hold notional entry_at s) of
        Inl _ \<Rightarrow> if sh_require_funding_data sh then Inl SR_FUNDING_UNAVAILABLE else Inr (missing_funding hold)
      | Inr projection \<Rightarrow>
          Inr \<lparr>mo_funding_cost = fp_expected_cost projection,
            mo_intervals_modelled = fp_intervals_charged projection,
            mo_hours_modelled = fdiv (of_int hold) 60, mo_data_available = (fp_state projection = FM_MODELED),
            mo_warnings = (if fp_state projection = FM_MODELED then [] else [FUNDING_BUFFER_ONLY])\<rparr>)"

record cost_breakdown =
  cb_entry_fee :: float64
  cb_exit_fee :: float64
  cb_entry_slippage :: float64
  cb_exit_slippage :: float64
  cb_funding_cost :: float64

definition fees_total :: "cost_breakdown \<Rightarrow> float64" where
  "fees_total c = fadd (cb_entry_fee c) (cb_exit_fee c)"

definition slippage_total :: "cost_breakdown \<Rightarrow> float64" where
  "slippage_total c = fadd (cb_entry_slippage c) (cb_exit_slippage c)"

definition costs_total :: "cost_breakdown \<Rightarrow> float64" where
  "costs_total c = fadd (fadd (fees_total c) (slippage_total c)) (cb_funding_cost c)"

definition gross_result ::
  "plan_reference \<Rightarrow> modelled_execution \<Rightarrow> modelled_execution \<Rightarrow> modelled_execution option \<Rightarrow> float64" where
  "gross_result p entry exit_leg partial =
     (let move = (\<lambda>leg quantity. fmul (fmul (sign_of (pr_bullish p))
            (fsub (me_modelled_price leg) (me_modelled_price entry))) quantity) in
      case partial of
        None \<Rightarrow> fadd 0 (move exit_leg (me_quantity entry))
      | Some part \<Rightarrow> fadd (fadd 0 (move part (me_quantity part)))
          (move exit_leg (max 0 (fsub (me_quantity entry) (me_quantity part)))))"

definition cost_breakdown_of ::
  "modelled_execution \<Rightarrow> modelled_execution \<Rightarrow> modelled_execution option \<Rightarrow> modelled_funding \<Rightarrow> cost_breakdown" where
  "cost_breakdown_of entry exit_leg partial funding =
     \<lparr>cb_entry_fee = me_fee_cost entry,
      cb_exit_fee = fadd (me_fee_cost exit_leg) (case partial of None \<Rightarrow> 0 | Some part \<Rightarrow> me_fee_cost part),
      cb_entry_slippage = me_slippage_cost entry,
      cb_exit_slippage = fadd (me_slippage_cost exit_leg) (case partial of None \<Rightarrow> 0 | Some part \<Rightarrow> me_slippage_cost part),
      cb_funding_cost = mo_funding_cost funding\<rparr>"

definition net_result :: "float64 \<Rightarrow> cost_breakdown \<Rightarrow> float64" where
  "net_result gross c = fsub gross (costs_total c)"

definition risk_units :: "float64 \<Rightarrow> plan_reference \<Rightarrow> float64 \<Rightarrow> float64 option" where
  "risk_units v p quantity =
     (let risk = fmul (pr_risk_per_unit p) quantity in if risk \<le> 0 then None else Some (fdiv v risk))"

definition simulated_cost_to_risk_pct :: "cost_breakdown \<Rightarrow> plan_reference \<Rightarrow> float64 \<Rightarrow> float64 option" where
  "simulated_cost_to_risk_pct c p quantity =
     (let risk = fmul (pr_risk_per_unit p) quantity in
      if risk \<le> 0 then None else Some (fmul (fdiv (costs_total c) risk) 100))"

definition cost_to_gross_pct :: "cost_breakdown \<Rightarrow> float64 \<Rightarrow> float64 option" where
  "cost_to_gross_pct c gross = (if gross = 0 then None else Some (fmul (fdiv (costs_total c) \<bar>gross\<bar>) 100))"

section \<open>The simulation\<close>

record simulation_inputs =
  si_lifecycle_signal_id :: uuid
  si_plan :: plan_reference
  si_entry_observation :: lifecycle_observation
  si_exit_observation :: "lifecycle_observation option"
  si_entry_market :: "market_reference option"
  si_exit_market :: "market_reference option"
  si_fee_schedule :: "fee_schedule option"
  si_funding :: "funding_snapshot option"
  si_session_allowed :: bool
  si_data_quality_ok :: bool
  si_bot_paused :: bool
  si_duplicate_exists :: bool
  si_plan_audit_available :: bool
  si_candidate_audit_available :: bool
  si_run_id :: uuid
  si_as_of :: datetime
  si_exit_reason :: "exit_reason option"

record position_result =
  po_run_id :: uuid
  po_lifecycle_signal_id :: uuid
  po_plan :: plan_reference
  po_state :: position_state
  po_event_reference_at :: datetime
  po_delay :: delay_realization
  po_entry :: modelled_execution
  po_exit_execution :: "modelled_execution option"
  po_partial_reduction :: "modelled_execution option"
  po_exit_reason :: "exit_reason option"
  po_funding :: "modelled_funding option"
  po_costs :: "cost_breakdown option"
  po_gross_result :: "float64 option"
  po_net_result :: "float64 option"
  po_gross_r :: "float64 option"
  po_net_r :: "float64 option"
  po_duration_seconds :: "float64 option"
  po_data_completeness :: data_completeness
  po_warnings :: "simulation_warning list"
  po_dedupe_key :: string

record simulation_rejection =
  sj_run_id :: "uuid option"
  sj_lifecycle_signal_id :: "uuid option"
  sj_plan_id :: "uuid option"
  sj_candidate_id :: "uuid option"
  sj_symbol :: string
  sj_as_of :: datetime
  sj_primary_code :: simulation_rejection_code
  sj_codes :: "simulation_rejection_code list"
  sj_model_version :: string
  sj_config_hash :: string

definition build_rejection ::
  "simulation_inputs \<Rightarrow> simulation_rejection_code \<Rightarrow> string \<Rightarrow> string \<Rightarrow> simulation_rejection" where
  "build_rejection i c version config_hash =
     \<lparr>sj_run_id = Some (si_run_id i), sj_lifecycle_signal_id = Some (si_lifecycle_signal_id i),
      sj_plan_id = Some (pr_plan_id (si_plan i)), sj_candidate_id = Some (pr_candidate_id (si_plan i)),
      sj_symbol = pr_symbol (si_plan i), sj_as_of = si_as_of i, sj_primary_code = c, sj_codes = [c],
      sj_model_version = version, sj_config_hash = config_hash\<rparr>"

definition simulation_dedupe_key :: "generator \<Rightarrow> simulation_inputs \<Rightarrow> string \<Rightarrow> string \<Rightarrow> string" where
  "simulation_dedupe_key g i version config_hash = take 24 (gn_sha g
     (join_bar [str_uuid (si_lifecycle_signal_id i), str_uuid (si_run_id i), version, config_hash]))"

definition simulation_admission :: "simulation_inputs \<Rightarrow> shadow_settings \<Rightarrow> simulation_rejection_code option" where
  "simulation_admission i sh =
     (if \<not> sh_mode_enabled sh then Some SR_SIMULATION_DISABLED
      else if si_bot_paused i then Some SR_BOT_PAUSED
      else if lo_state (si_entry_observation i) \<notin> set admissible_lifecycle_states then
        Some SR_LIFECYCLE_NOT_ELIGIBLE
      else if \<not> si_plan_audit_available i then Some SR_PLAN_AUDIT_MISSING
      else if \<not> si_candidate_audit_available i then Some SR_CANDIDATE_AUDIT_MISSING
      else if si_duplicate_exists i then Some SR_DUPLICATE_SIMULATION
      else if \<not> si_session_allowed i then Some SR_SESSION_NOT_ALLOWED
      else if \<not> si_data_quality_ok i then Some SR_ENTRY_BOOK_STALE
      else if si_fee_schedule i = None then Some SR_FEE_SCHEDULE_UNAVAILABLE
      else if pr_reference_quantity (si_plan i) \<le> 0 \<or> pr_risk_per_unit (si_plan i) \<le> 0 then
        Some SR_CONFIGURATION_INVALID
      else None)"

text \<open>A result that stops after the entry or at an exit that could not be modelled.\<close>

definition unfinished ::
  "generator \<Rightarrow> simulation_inputs \<Rightarrow> shadow_settings \<Rightarrow> string \<Rightarrow> int \<Rightarrow> modelled_execution \<Rightarrow> position_result" where
  "unfinished g i sh config_hash base entry =
     \<lparr>po_run_id = si_run_id i, po_lifecycle_signal_id = si_lifecycle_signal_id i, po_plan = si_plan i,
      po_state = PS_OPEN_SIMULATION, po_event_reference_at = lo_as_of (si_entry_observation i),
      po_delay = realize_delay g (si_entry_observation i) sh base, po_entry = entry, po_exit_execution = None,
      po_partial_reduction = None, po_exit_reason = None, po_funding = None, po_costs = None,
      po_gross_result = None, po_net_result = None, po_gross_r = None, po_net_r = None,
      po_duration_seconds = None, po_data_completeness = DC_PARTIAL, po_warnings = [SIMULATION_STILL_OPEN],
      po_dedupe_key = simulation_dedupe_key g i (sh_simulation_model_version sh) config_hash\<rparr>"

definition closed_position ::
  "position_result \<Rightarrow> shadow_settings \<Rightarrow> exit_reason \<Rightarrow> modelled_execution \<Rightarrow> modelled_execution option \<Rightarrow>
     float64 \<Rightarrow> modelled_funding \<Rightarrow> simulation_warning list \<Rightarrow> position_result" where
  "closed_position po sh r exit_leg partial hold funding warnings =
     (let entry = po_entry po; p = po_plan po; gross = gross_result p entry exit_leg partial;
          costs = cost_breakdown_of entry exit_leg partial funding; net = net_result gross costs;
          completeness =
            (if sh_require_complete_cost_data sh \<and> \<not> mo_data_available funding then DC_INSUFFICIENT
             else if mo_data_available funding \<and> warnings = [] then DC_COMPLETE else DC_PARTIAL) in
      po\<lparr>po_state := (if completeness = DC_INSUFFICIENT then PS_INCOMPLETE else PS_CLOSED_SIMULATION),
        po_exit_execution := Some exit_leg, po_partial_reduction := partial, po_exit_reason := Some r,
        po_funding := Some funding, po_costs := Some costs, po_gross_result := Some gross,
        po_net_result := Some net, po_gross_r := risk_units gross p (me_quantity entry),
        po_net_r := risk_units net p (me_quantity entry), po_duration_seconds := Some hold,
        po_data_completeness := completeness, po_warnings := warnings\<rparr>)"

definition simulate_exit ::
  "simulation_inputs \<Rightarrow> shadow_settings \<Rightarrow> cost_settings \<Rightarrow> position_result \<Rightarrow> lifecycle_observation \<Rightarrow>
     exit_reason \<Rightarrow> simulation_rejection_code + position_result" where
  "simulate_exit i sh s po seen r =
     (let p = si_plan i; entry = po_entry po;
          reduction = (if r = XR_TARGET_1_OBSERVED then Inr None
             else model_partial_reduction p (si_exit_market i) (si_fee_schedule i) s sh);
          partial = (case reduction of Inl _ \<Rightarrow> None | Inr part \<Rightarrow> part);
          warnings = (case reduction of Inl c \<Rightarrow> [PARTIAL_REDUCTION_UNMODELED c] | Inr _ \<Rightarrow> []);
          remaining = fsub (me_quantity entry) (case partial of None \<Rightarrow> 0 | Some part \<Rightarrow> me_quantity part) in
      case model_exit p r (si_exit_market i) (si_fee_schedule i) (max remaining 0) s sh of
        Inl c \<Rightarrow>
          if sh_reject_unmodeled_exit sh then Inl c
          else Inr (po\<lparr>po_state := PS_UNMODELED_EXIT, po_partial_reduction := partial, po_exit_reason := Some r,
            po_duration_seconds := Some (total_seconds (lo_as_of seen - me_as_of entry)),
            po_data_completeness := DC_INSUFFICIENT, po_warnings := warnings @ [EXIT_UNMODELED c]\<rparr>)
      | Inr exit_leg \<Rightarrow>
          let hold = max 0 (total_seconds (me_as_of exit_leg - me_as_of entry)) in
          case model_funding p (si_funding i) (me_notional entry) hold (me_as_of entry) s sh of
            Inl c \<Rightarrow> Inl c
          | Inr funding \<Rightarrow>
              Inr (closed_position po sh r exit_leg partial hold funding (warnings @ mo_warnings funding)))"

definition simulate ::
  "generator \<Rightarrow> simulation_inputs \<Rightarrow> shadow_settings \<Rightarrow> cost_settings \<Rightarrow> string \<Rightarrow> int \<Rightarrow>
     simulation_rejection + position_result" where
  "simulate g i sh s config_hash base =
     (let refuse = (\<lambda>c. Inl (build_rejection i c (sh_simulation_model_version sh) config_hash)) in
      case simulation_admission i sh of
        Some c \<Rightarrow> refuse c
      | None \<Rightarrow>
          (case model_entry (si_plan i) (si_entry_market i) (si_fee_schedule i) s sh of
             Inl c \<Rightarrow> refuse c
           | Inr entry \<Rightarrow>
               let po = unfinished g i sh config_hash base entry in
               case (si_exit_observation i, si_exit_reason i) of
                 (Some seen, Some r) \<Rightarrow>
                   (case simulate_exit i sh s po seen r of Inl c \<Rightarrow> refuse c | Inr result \<Rightarrow> Inr result)
               | _ \<Rightarrow> Inr po))"

end
