(* ===== verification/Replay.thy ===== *)
theory Replay
  imports Simulation_Core Strategy_Model "HOL-Library.Multiset" "HOL-Library.List_Lexorder" "HOL-Library.Product_Lexorder" "HOL-Library.Char_ord"
begin

text \<open>
  The causal replay of a backtest: the order of events (\<open>event_ordering.py\<close>), the clock with its look-ahead
  guard (\<open>replay_clock.py\<close>), the in-memory provider and the guarded source (\<open>data_replay.py\<close>), and the check of
  the data before a run (\<open>backtest_data_validator.py\<close>).  Payloads arrive parsed; the provider that reads files
  is input and output.
\<close>

section \<open>Events and their order\<close>

datatype replay_category =
    SESSION_CALENDAR | INSTRUMENT_STATUS | DATA_QUALITY_BOOK | TICKER_BBO_TRADES | CLOSED_CANDLE
  | STRATEGY_EVALUATION | RISK_PLAN_EVALUATION | LIFECYCLE_MONITORING | SIMULATION_EXECUTION

definition replay_categories :: "(string \<times> replay_category) list" where
  "replay_categories =
     [(''SESSION_CALENDAR'', SESSION_CALENDAR), (''INSTRUMENT_STATUS'', INSTRUMENT_STATUS),
      (''DATA_QUALITY_BOOK'', DATA_QUALITY_BOOK), (''TICKER_BBO_TRADES'', TICKER_BBO_TRADES),
      (''CLOSED_CANDLE'', CLOSED_CANDLE), (''STRATEGY_EVALUATION'', STRATEGY_EVALUATION),
      (''RISK_PLAN_EVALUATION'', RISK_PLAN_EVALUATION), (''LIFECYCLE_MONITORING'', LIFECYCLE_MONITORING),
      (''SIMULATION_EXECUTION'', SIMULATION_EXECUTION)]"

fun category_priority :: "replay_category \<Rightarrow> int" where
  "category_priority SESSION_CALENDAR = 1"
| "category_priority INSTRUMENT_STATUS = 2"
| "category_priority DATA_QUALITY_BOOK = 3"
| "category_priority TICKER_BBO_TRADES = 4"
| "category_priority CLOSED_CANDLE = 5"
| "category_priority STRATEGY_EVALUATION = 6"
| "category_priority RISK_PLAN_EVALUATION = 7"
| "category_priority LIFECYCLE_MONITORING = 8"
| "category_priority SIMULATION_EXECUTION = 9"

definition derived_categories :: "replay_category list" where
  "derived_categories =
     [STRATEGY_EVALUATION, RISK_PLAN_EVALUATION, LIFECYCLE_MONITORING, SIMULATION_EXECUTION]"

record replay_quote =
  rqt_best_bid :: "float64 option"
  rqt_best_ask :: "float64 option"
  rqt_mark_price :: "float64 option"

record book_payload =
  bp_bids :: "depth_level list option"
  bp_asks :: "depth_level list option"
  bp_fresh :: "bool option"
  bp_data_quality_status :: "string option"
  bp_market_quality_score :: "int option"

datatype replay_payload =
    RP_Instrument "string option" "int option" "int option" "string option"
  | RP_Session "string option" "bool option" "bool option"
  | RP_Book book_payload
  | RP_Funding float64 "datetime option" "float64 option"
  | RP_Quote replay_quote
  | RP_Candle strategy_candle
  | RP_Other

record replay_event =
  re_as_of :: datetime
  re_category :: string
  re_symbol :: string
  re_sequence :: int
  re_payload :: replay_payload

datatype replay_error = Unknown_Category | Out_Of_Order | Lookahead | Malformed_Payload | Core_Exception

definition priority_of_category :: "string \<Rightarrow> replay_error + int" where
  "priority_of_category c =
     (case map_of replay_categories c of None \<Rightarrow> Inl Unknown_Category | Some k \<Rightarrow> Inr (category_priority k))"

type_synonym event_key = "datetime \<times> int \<times> string \<times> int"

definition event_key :: "replay_event \<Rightarrow> replay_error + event_key" where
  "event_key e = map_sum id (\<lambda>p. (re_as_of e, p, re_symbol e, re_sequence e)) (priority_of_category (re_category e))"

text \<open>The key of an event whose category is known.\<close>

definition order_key :: "replay_event \<Rightarrow> event_key" where
  "order_key e = (re_as_of e,
     (case map_of replay_categories (re_category e) of None \<Rightarrow> 0 | Some k \<Rightarrow> category_priority k),
     re_symbol e, re_sequence e)"

definition known_category :: "replay_event \<Rightarrow> bool" where
  "known_category e \<longleftrightarrow> map_of replay_categories (re_category e) \<noteq> None"

text \<open>\<open>sorted\<close> asks for every key first; a category that is not known raises.\<close>

definition sorted_events :: "replay_event list \<Rightarrow> replay_error + replay_event list" where
  "sorted_events es = (if list_all known_category es then Inr (sort_key order_key es) else Inl Unknown_Category)"

section \<open>The clock\<close>

record replay_clock =
  ck_start_at :: datetime
  ck_end_at :: datetime
  ck_now :: datetime
  ck_lookahead_violations :: nat

definition new_clock :: "datetime \<Rightarrow> datetime \<Rightarrow> replay_clock option" where
  "new_clock start_at end_at =
     (if end_at < start_at then None
      else Some \<lparr>ck_start_at = start_at, ck_end_at = end_at, ck_now = start_at, ck_lookahead_violations = 0\<rparr>)"

definition violated :: "replay_clock \<Rightarrow> replay_clock" where
  "violated c = c\<lparr>ck_lookahead_violations := Suc (ck_lookahead_violations c)\<rparr>"

definition advance_to :: "datetime \<Rightarrow> replay_clock \<Rightarrow> (replay_error + unit) \<times> replay_clock" where
  "advance_to t c =
     (if t < ck_now c then (Inl Lookahead, violated c)
      else (Inr (), c\<lparr>ck_now := (if ck_end_at c < t then min t (ck_end_at c) else t)\<rparr>))"

definition guard :: "datetime option \<Rightarrow> replay_clock \<Rightarrow> (replay_error + unit) \<times> replay_clock" where
  "guard moment c =
     (case moment of
        None \<Rightarrow> (Inr (), c)
      | Some t \<Rightarrow> if ck_now c < t then (Inl Lookahead, violated c) else (Inr (), c))"

definition visible :: "datetime option \<Rightarrow> replay_clock \<Rightarrow> bool" where
  "visible moment c = (case moment of None \<Rightarrow> False | Some t \<Rightarrow> t \<le> ck_now c)"

definition within_window :: "datetime \<Rightarrow> replay_clock \<Rightarrow> bool" where
  "within_window t c \<longleftrightarrow> ck_start_at c \<le> t \<and> t \<le> ck_end_at c"

section \<open>The source\<close>

definition fixture_events :: "replay_event list \<Rightarrow> datetime \<Rightarrow> datetime \<Rightarrow> replay_event list" where
  "fixture_events es start_at end_at = filter (\<lambda>e. start_at \<le> re_as_of e \<and> re_as_of e \<le> end_at) es"

text \<open>How an iteration ends: all events seen, the limit reached, or an exception.\<close>

datatype replay_end = Exhausted | Truncated | Raised replay_error

text \<open>
  The events the source yields, each with the clock at that moment, how the iteration ends, and the clock then:
  the order is checked, the limit, the clock advances, the guard looks at the event.
\<close>

fun yields_from ::
  "nat option \<Rightarrow> nat \<Rightarrow> event_key option \<Rightarrow> replay_clock \<Rightarrow> replay_event list \<Rightarrow>
     (replay_event \<times> replay_clock) list \<times> replay_end \<times> replay_clock" where
  "yields_from limit n previous c [] = ([], Exhausted, c)"
| "yields_from limit n previous c (e # es) =
     (case event_key e of
        Inl err \<Rightarrow> ([], Raised err, c)
      | Inr key \<Rightarrow>
          if (case previous of None \<Rightarrow> False | Some p \<Rightarrow> key < p) then ([], Raised Out_Of_Order, c)
          else if (case limit of None \<Rightarrow> False | Some m \<Rightarrow> m \<le> n) then ([], Truncated, c)
          else
            case advance_to (re_as_of e) c of
              (Inl err, c') \<Rightarrow> ([], Raised err, c')
            | (Inr _, c') \<Rightarrow>
                (case guard (Some (re_as_of e)) c' of
                   (Inl err, c'') \<Rightarrow> ([], Raised err, c'')
                 | (Inr _, c'') \<Rightarrow>
                     let (rest, ending, c''') = yields_from limit (Suc n) (Some key) c'' es in
                     ((e, c'') # rest, ending, c''')))"

definition replay_source ::
  "replay_event list \<Rightarrow> nat option \<Rightarrow> replay_clock \<Rightarrow>
     (replay_event \<times> replay_clock) list \<times> replay_end \<times> replay_clock" where
  "replay_source provider limit c =
     (case sorted_events (fixture_events provider (ck_start_at c) (ck_end_at c)) of
        Inl err \<Rightarrow> ([], Raised err, c)
      | Inr es \<Rightarrow> yields_from limit 0 None c es)"

section \<open>The order is causal and reproducible\<close>

lemma event_key_order: "known_category e \<Longrightarrow> event_key e = Inr (order_key e)"
  by (auto simp: known_category_def event_key_def order_key_def priority_of_category_def)

lemma replay_order_sorted: "sorted_events es = Inr xs \<Longrightarrow> sorted (map order_key xs) \<and> set xs = set es"
  by (auto simp: sorted_events_def split: if_splits)

definition in_window :: "replay_clock \<Rightarrow> replay_event \<Rightarrow> bool" where
  "in_window c e \<longleftrightarrow> within_window (re_as_of e) c"

text \<open>
  Along sorted events inside the window every event is yielded at its own instant, and nothing raises.
\<close>

lemma yields_from_sorted:
  assumes "list_all known_category es" "sorted (map order_key es)" "list_all (in_window c) es"
    and "list_all (\<lambda>e. ck_now c \<le> re_as_of e) es" "\<forall>p. previous = Some p \<longrightarrow> list_all (\<lambda>e. p \<le> order_key e) es"
  shows "\<exists>c'. yields_from limit n previous c es = (map (\<lambda>e. (e, c\<lparr>ck_now := re_as_of e\<rparr>))
      (case limit of None \<Rightarrow> es | Some m \<Rightarrow> take (m - n) es),
      if (case limit of None \<Rightarrow> True | Some m \<Rightarrow> length es \<le> m - n) then Exhausted else Truncated, c') \<and>
    ck_lookahead_violations c' = ck_lookahead_violations c"
  using assms
proof (induction es arbitrary: n previous c)
  case Nil
  then show ?case by (auto split: option.split)
next
  case (Cons e es)
  let ?c = "c\<lparr>ck_now := re_as_of e\<rparr>"
  have key: "event_key e = Inr (order_key e)" using Cons.prems(1) event_key_order by simp
  have later: "list_all (\<lambda>x. re_as_of e \<le> re_as_of x) es"
    using Cons.prems(2) by (force simp: list_all_iff order_key_def less_eq_prod_def)
  have window: "re_as_of e \<le> ck_end_at c" using Cons.prems(3) by (simp add: in_window_def within_window_def)
  have ordered: "\<not> (case previous of None \<Rightarrow> False | Some p \<Rightarrow> order_key e < p)"
    using Cons.prems(5) by (auto split: option.split)
  have next_events: "list_all known_category es" "sorted (map order_key es)" "list_all (in_window ?c) es"
    "list_all (\<lambda>x. ck_now ?c \<le> re_as_of x) es"
    "\<forall>p. Some (order_key e) = Some p \<longrightarrow> list_all (\<lambda>x. p \<le> order_key x) es"
    using Cons.prems(1-3) later by (auto simp: list_all_iff in_window_def within_window_def)
  obtain c' where rest: "yields_from limit (Suc n) (Some (order_key e)) ?c es =
      (map (\<lambda>x. (x, ?c\<lparr>ck_now := re_as_of x\<rparr>)) (case limit of None \<Rightarrow> es | Some m \<Rightarrow> take (m - Suc n) es),
      if (case limit of None \<Rightarrow> True | Some m \<Rightarrow> length es \<le> m - Suc n) then Exhausted else Truncated, c')"
    and same: "ck_lookahead_violations c' = ck_lookahead_violations c"
    using Cons.IH [OF next_events, of "Suc n"] by auto
  have now: "\<not> re_as_of e < ck_now c" using Cons.prems(4) by simp
  show ?case
  proof (cases "case limit of None \<Rightarrow> False | Some m \<Rightarrow> m \<le> n")
    case True
    with ordered show ?thesis by (auto simp: key split: option.splits)
  next
    case False
    then have "(case limit of None \<Rightarrow> e # es | Some m \<Rightarrow> take (m - n) (e # es))
        = e # (case limit of None \<Rightarrow> es | Some m \<Rightarrow> take (m - Suc n) es)"
      "(case limit of None \<Rightarrow> True | Some m \<Rightarrow> length (e # es) \<le> m - n)
        \<longleftrightarrow> (case limit of None \<Rightarrow> True | Some m \<Rightarrow> length es \<le> m - Suc n)"
      by (auto simp: take_Cons' split: option.splits)
    with False same window now ordered rest show ?thesis
      by (simp add: key advance_to_def guard_def del: take_Cons' split del: if_split option.split)
  qed
qed

section \<open>Coverage of the data\<close>

datatype walk_forward_mode = ROLLING | EXPANDING

record backtest_settings =
  bt_enabled :: bool
  bt_model_name :: string
  bt_model_version :: string
  bt_max_concurrent_runs :: int
  bt_checkpoint_interval_events :: nat
  bt_require_bbo :: bool
  bt_require_orderbook :: bool
  bt_require_funding :: bool
  bt_allow_segmented_data :: bool
  bt_max_data_gap_seconds :: float64
  bt_max_events_per_run :: nat
  bt_run_timeout_seconds :: float64
  bt_min_complete_simulations :: nat
  bt_virtual_account_pusd :: float64
  bt_enable_bootstrap :: bool
  bt_bootstrap_resamples :: nat
  bt_bootstrap_seed :: int
  bt_walk_forward_enabled :: bool
  bt_walk_forward_train_days :: int
  bt_walk_forward_validation_days :: int
  bt_walk_forward_test_days :: int
  bt_walk_forward_step_days :: int
  bt_walk_forward_mode :: walk_forward_mode
  bt_walk_forward_min_simulations :: nat

datatype coverage_channel = CC_CLOSED_CANDLES | CC_TICKER_BBO | CC_ORDERBOOK | CC_FUNDING

definition gap_limit :: "coverage_channel \<Rightarrow> float64 \<Rightarrow> float64" where
  "gap_limit ch max_gap = (if ch = CC_FUNDING then max max_gap 57600 else fmul max_gap 1)"

definition required_channels :: "backtest_settings \<Rightarrow> coverage_channel list" where
  "required_channels s = [CC_CLOSED_CANDLES] @ (if bt_require_bbo s then [CC_TICKER_BBO] else []) @
     (if bt_require_orderbook s then [CC_ORDERBOOK] else []) @ (if bt_require_funding s then [CC_FUNDING] else [])"

text \<open>The channel of an event; what the payload says counts for quotes only.\<close>

definition channel_of :: "replay_event \<Rightarrow> coverage_channel option" where
  "channel_of e =
     (case map_of replay_categories (re_category e) of
        Some TICKER_BBO_TRADES \<Rightarrow>
          Some (case re_payload e of RP_Funding _ _ _ \<Rightarrow> CC_FUNDING | _ \<Rightarrow> CC_TICKER_BBO)
      | Some CLOSED_CANDLE \<Rightarrow> Some CC_CLOSED_CANDLES
      | Some DATA_QUALITY_BOOK \<Rightarrow> Some CC_ORDERBOOK
      | _ \<Rightarrow> None)"

record data_gap =
  dg_start_at :: datetime
  dg_end_at :: datetime
  dg_channel :: coverage_channel
  dg_symbol :: string

fun gaps_between :: "coverage_channel \<Rightarrow> string \<Rightarrow> datetime \<Rightarrow> datetime \<Rightarrow> int \<Rightarrow> datetime list \<Rightarrow> data_gap list" where
  "gaps_between ch name previous end_at limit [] =
     (if limit < end_at - previous
      then [\<lparr>dg_start_at = previous, dg_end_at = end_at, dg_channel = ch, dg_symbol = name\<rparr>] else [])"
| "gaps_between ch name previous end_at limit (t # ts) =
     (if limit < t - previous
      then [\<lparr>dg_start_at = previous, dg_end_at = t, dg_channel = ch, dg_symbol = name\<rparr>] else []) @
     gaps_between ch name t end_at limit ts"

definition stamps_of :: "replay_event list \<Rightarrow> string \<Rightarrow> coverage_channel \<Rightarrow> datetime list" where
  "stamps_of es name ch = sort (map re_as_of (filter (\<lambda>e. re_symbol e = name \<and> channel_of e = Some ch) es))"

definition channel_gaps ::
  "replay_event list \<Rightarrow> datetime \<Rightarrow> datetime \<Rightarrow> float64 \<Rightarrow> string \<Rightarrow> coverage_channel \<Rightarrow> data_gap list" where
  "channel_gaps es start_at end_at max_gap name ch =
     (let stamps = stamps_of es name ch in
      if stamps = [] then [\<lparr>dg_start_at = start_at, dg_end_at = end_at, dg_channel = ch, dg_symbol = name\<rparr>]
      else gaps_between ch name start_at end_at (timedelta_seconds (gap_limit ch max_gap)) stamps)"

definition covered_symbols :: "replay_event list \<Rightarrow> coverage_channel list \<Rightarrow> string list" where
  "covered_symbols es chs = sort (remdups (map re_symbol
     (filter (\<lambda>e. case channel_of e of None \<Rightarrow> False | Some ch \<Rightarrow> ch \<in> set chs) es)))"

definition detect_gaps ::
  "replay_event list \<Rightarrow> datetime \<Rightarrow> datetime \<Rightarrow> float64 \<Rightarrow> coverage_channel list \<Rightarrow> data_gap list" where
  "detect_gaps es start_at end_at max_gap chs =
     concat (map (\<lambda>name. concat (map (channel_gaps es start_at end_at max_gap name) chs)) (covered_symbols es chs))"

record coverage_report =
  cv_complete :: bool
  cv_gaps :: "data_gap list"
  cv_excluded_intervals :: "data_gap list"
  cv_missing_channels :: "coverage_channel list"
  cv_checked_channels :: "coverage_channel list"
  cv_warnings :: "string list"

definition validate_coverage ::
  "replay_event list \<Rightarrow> backtest_settings \<Rightarrow> datetime \<Rightarrow> datetime \<Rightarrow> coverage_report" where
  "validate_coverage es s start_at end_at =
     (let chs = required_channels s;
          missing = filter (\<lambda>ch. Some ch \<notin> channel_of ` set es) chs;
          gaps = detect_gaps es start_at end_at (bt_max_data_gap_seconds s) chs;
          report = \<lparr>cv_complete = False, cv_gaps = gaps, cv_excluded_intervals = [], cv_missing_channels = [],
            cv_checked_channels = chs, cv_warnings = []\<rparr> in
      if missing \<noteq> [] then report\<lparr>cv_missing_channels := missing, cv_warnings := [''BACKTEST_DATA_INCOMPLETE'']\<rparr>
      else if gaps = [] then report\<lparr>cv_complete := True\<rparr>
      else if \<not> bt_allow_segmented_data s then report\<lparr>cv_warnings := [''DATA_GAP'']\<rparr>
      else report\<lparr>cv_excluded_intervals := gaps, cv_warnings := [''COMPLETED_WITH_GAPS'']\<rparr>)"

definition is_excluded :: "datetime \<Rightarrow> data_gap list \<Rightarrow> string \<Rightarrow> bool" where
  "is_excluded t gaps name \<longleftrightarrow>
     list_ex (\<lambda>g. dg_symbol g = name \<and> dg_start_at g \<le> t \<and> t \<le> dg_end_at g) gaps"

text \<open>The gaps of a channel are the long ones among the steps from one stamp to the next.\<close>

lemma gap_in:
  "sorted (previous # ts) \<Longrightarrow> g \<in> set (gaps_between ch name previous end_at limit ts) \<Longrightarrow>
     limit < dg_end_at g - dg_start_at g \<and> previous \<le> dg_start_at g \<and> dg_symbol g = name \<and> dg_channel g = ch \<and>
     (\<forall>t \<in> set ts. t \<le> dg_start_at g \<or> dg_end_at g \<le> t)"
  by (induction ts arbitrary: previous) (auto split: if_splits, force+)

lemma gap_found:
  assumes "sorted (previous # ts)" "previous \<le> a" "b \<le> end_at" "limit < b - a" "\<forall>t \<in> set ts. t \<le> a \<or> b \<le> t"
    and "\<forall>t \<in> set ts. t \<le> end_at" "0 \<le> limit"
  shows "\<exists>g \<in> set (gaps_between ch name previous end_at limit ts). dg_start_at g \<le> a \<and> b \<le> dg_end_at g"
  using assms
proof (induction ts arbitrary: previous)
  case (Cons t ts)
  show ?case
  proof (cases "t \<le> a")
    case True
    with Cons.IH [of t] Cons.prems show ?thesis by auto
  next
    case False
    with Cons.prems have "b \<le> t" by auto
    moreover from this Cons.prems(2,4) have "limit < t - previous" by linarith
    ultimately show ?thesis using Cons.prems(2) by auto
  qed
qed auto

section \<open>Properties\<close>

text \<open>
  C26.  The replay is causal: over any events with known categories, from a clock at the start of its window, the
  source never raises, yields the events of the window in order until it ends or the limit is reached, each
  with the clock at exactly its instant, and no look-ahead is recorded.
\<close>

theorem replay_is_causal:
  assumes "list_all known_category provider" "ck_now c = ck_start_at c"
  shows "case replay_source provider limit c of (seen, ending, c') \<Rightarrow>
    (ending = Exhausted \<or> ending = Truncated) \<and> sorted (map (order_key \<circ> fst) seen) \<and>
    list_all (\<lambda>(e, now). ck_now now = re_as_of e \<and> within_window (re_as_of e) c) seen \<and>
    (ending = Exhausted \<longrightarrow> fst ` set seen = {e \<in> set provider. within_window (re_as_of e) c}) \<and>
    ck_lookahead_violations c' = ck_lookahead_violations c"
proof -
  let ?es = "sort_key order_key (fixture_events provider (ck_start_at c) (ck_end_at c))"
  have sorted: "sorted_events (fixture_events provider (ck_start_at c) (ck_end_at c)) = Inr ?es"
    using assms(1) by (auto simp: sorted_events_def fixture_events_def list_all_iff)
  have set: "set ?es = {e \<in> set provider. within_window (re_as_of e) c}"
    by (auto simp: fixture_events_def within_window_def)
  have "list_all known_category ?es" "list_all (in_window c) ?es" "list_all (\<lambda>e. ck_now c \<le> re_as_of e) ?es"
    using assms unfolding list_all_iff set by (auto simp: in_window_def within_window_def)
  from yields_from_sorted [OF this(1) sorted_sort_key this(2,3), of None limit 0]
  obtain c' where out: "yields_from limit 0 None c ?es = (map (\<lambda>e. (e, c\<lparr>ck_now := re_as_of e\<rparr>))
      (case limit of None \<Rightarrow> ?es | Some m \<Rightarrow> take (m - 0) ?es),
      if (case limit of None \<Rightarrow> True | Some m \<Rightarrow> length ?es \<le> m - 0) then Exhausted else Truncated, c')"
    and same: "ck_lookahead_violations c' = ck_lookahead_violations c" by blast
  obtain ys where ys: "ys = (case limit of None \<Rightarrow> ?es | Some m \<Rightarrow> take (m - 0) ?es)" by blast
  have taken: "set ys \<subseteq> set ?es" "sorted (map order_key ys)"
    by (auto simp: ys take_map [symmetric] sorted_wrt_take split: option.splits dest: in_set_takeD)
  have all: "ys = ?es" if "case limit of None \<Rightarrow> True | Some m \<Rightarrow> length ?es \<le> m - 0"
    using that by (auto simp: ys split: option.splits)
  have events: "list_all (\<lambda>(e, now). ck_now now = re_as_of e \<and> within_window (re_as_of e) c)
      (map (\<lambda>e. (e, c\<lparr>ck_now := re_as_of e\<rparr>)) ys)"
    using taken(1) unfolding set by (auto simp: list_all_iff)
  have "fst ` set (map (\<lambda>e. (e, c\<lparr>ck_now := re_as_of e\<rparr>)) ys) = set ys" by (simp add: image_image)
  then show ?thesis
    using taken(2) all events same set
    unfolding replay_source_def sorted sum.case out [folded ys] prod.case
    by (auto simp: comp_def)
qed

definition example_event :: "datetime \<Rightarrow> string \<Rightarrow> int \<Rightarrow> replay_event" where
  "example_event t category n = \<lparr>re_as_of = t, re_category = category, re_symbol = ''BTC'', re_sequence = n,
     re_payload = RP_Other\<rparr>"

definition example_replay_clock :: replay_clock where
  "example_replay_clock = \<lparr>ck_start_at = 0, ck_end_at = 10, ck_now = 0, ck_lookahead_violations = 0\<rparr>"

theorem replay_is_causal_witness:
  "case replay_source [example_event 7 ''CLOSED_CANDLE'' 1, example_event 3 ''TICKER_BBO_TRADES'' 2,
      example_event 12 ''CLOSED_CANDLE'' 3] (Some 5) example_replay_clock of (seen, ending, c') \<Rightarrow>
    (ending = Exhausted \<or> ending = Truncated) \<and> sorted (map (order_key \<circ> fst) seen) \<and>
    ck_lookahead_violations c' = 0"
  using replay_is_causal [of "[example_event 7 ''CLOSED_CANDLE'' 1, example_event 3 ''TICKER_BBO_TRADES'' 2,
      example_event 12 ''CLOSED_CANDLE'' 3]" example_replay_clock "Some 5"]
  by (simp add: known_category_def replay_categories_def example_event_def example_replay_clock_def
      split: prod.splits)

text \<open>
  The replay is reproducible: however a provider orders the same events, the source yields the same
  sequence and ends the same way, as long as no two events agree in time, category, symbol and sequence.
\<close>

theorem replay_is_reproducible:
  assumes "mset provider = mset provider'" "inj_on order_key (set provider)"
  shows "replay_source provider limit c = replay_source provider' limit c"
proof -
  let ?w = "\<lambda>es. fixture_events es (ck_start_at c) (ck_end_at c)"
  have same: "mset (?w provider) = mset (?w provider')" using assms(1) by (simp add: fixture_events_def mset_filter)
  have "inj_on order_key (set (?w provider))"
    using assms(2) by (auto simp: fixture_events_def intro: inj_on_subset)
  then have "sort_key order_key (?w provider) = sort_key order_key (?w provider')"
    using same by (intro sort_key_inj_key_eq) auto
  moreover have "list_all known_category (?w provider) = list_all known_category (?w provider')"
    using mset_eq_setD [OF same] by (simp add: list_all_iff)
  ultimately show ?thesis by (simp add: replay_source_def sorted_events_def)
qed

theorem replay_is_reproducible_witness:
  "replay_source [example_event 7 ''CLOSED_CANDLE'' 1, example_event 3 ''TICKER_BBO_TRADES'' 2] None example_replay_clock =
   replay_source [example_event 3 ''TICKER_BBO_TRADES'' 2, example_event 7 ''CLOSED_CANDLE'' 1] None example_replay_clock"
  by (rule replay_is_reproducible) (simp_all add: example_event_def order_key_def)

text \<open>
  Gaps are found exactly: of a channel with data, every reported gap is longer than the limit and has no
  data inside, and every stretch of the window without data that is longer than the limit lies in one.
\<close>

theorem coverage_gaps_exact:
  assumes "stamps_of es name ch \<noteq> []" "list_all (\<lambda>e. start_at \<le> re_as_of e \<and> re_as_of e \<le> end_at) es"
    and "0 \<le> max_gap"
  shows "list_all (\<lambda>g. timedelta_seconds (gap_limit ch max_gap) < dg_end_at g - dg_start_at g \<and>
      list_all (\<lambda>t. t \<le> dg_start_at g \<or> dg_end_at g \<le> t) (stamps_of es name ch))
    (channel_gaps es start_at end_at max_gap name ch) \<and>
    (start_at \<le> a \<and> b \<le> end_at \<and> timedelta_seconds (gap_limit ch max_gap) < b - a \<and>
      list_all (\<lambda>t. t \<le> a \<or> b \<le> t) (stamps_of es name ch) \<longrightarrow>
      list_ex (\<lambda>g. dg_start_at g \<le> a \<and> b \<le> dg_end_at g) (channel_gaps es start_at end_at max_gap name ch))"
proof -
  let ?ts = "stamps_of es name ch"
  have bounds: "\<forall>t \<in> set ?ts. start_at \<le> t \<and> t \<le> end_at"
    using assms(2) by (auto simp: stamps_of_def list_all_iff)
  then have sorted: "sorted (start_at # ?ts)" by (simp add: stamps_of_def)
  have limit: "0 \<le> timedelta_seconds (gap_limit ch max_gap)"
    using assms(3) by (intro timedelta_seconds_nonneg) (auto simp: gap_limit_def fmul_def fl_nonneg)
  have gaps: "channel_gaps es start_at end_at max_gap name ch =
      gaps_between ch name start_at end_at (timedelta_seconds (gap_limit ch max_gap)) ?ts"
    using assms(1) by (simp add: channel_gaps_def Let_def)
  show ?thesis
    using gap_in [OF sorted] gap_found [OF sorted, of a b end_at] bounds limit
    unfolding gaps list_all_iff list_ex_iff by blast
qed

theorem coverage_gaps_exact_witness:
  "list_ex (\<lambda>g. dg_start_at g \<le> 1000000 \<and> 4000000 \<le> dg_end_at g)
     (channel_gaps [example_event 0 ''CLOSED_CANDLE'' 1, example_event 4000000 ''CLOSED_CANDLE'' 2] 0 5000000 2 ''BTC''
       CC_CLOSED_CANDLES)"
proof -
  let ?es = "[example_event 0 ''CLOSED_CANDLE'' 1, example_event 4000000 ''CLOSED_CANDLE'' 2]"
  have stamps: "stamps_of ?es ''BTC'' CC_CLOSED_CANDLES = [0, 4000000]"
    by (simp add: stamps_of_def example_event_def channel_of_def replay_categories_def)
  have limit: "timedelta_seconds (gap_limit CC_CLOSED_CANDLES 2) = 2000000"
    using timedelta_seconds_of_int [of 2] by (simp add: gap_limit_def fmul_def fl_numerals)
  from coverage_gaps_exact [of ?es "''BTC''" CC_CLOSED_CANDLES 0 5000000 2 1000000 4000000]
  show ?thesis by (simp add: stamps limit) (simp add: example_event_def)
qed

end
