(* ===== verification/Backtest.thy ===== *)
theory Backtest
  imports Replay Risk_Engine Signal_Machine Strategy_Engine "HOL-Library.AList"
begin

text \<open>
  The backtest (\<open>backtest_engine.py\<close>, \<open>backtest_context.py\<close>): the state that replayed events reveal, the lifecycle
  of plans on closed candles, the capture of the delayed entry, the simulation of finished lifecycles and the
  loop over the source with its checkpoints.  The strategy and risk cores, which turn the state into plans, are
  a parameter of the loop: what holds, holds whatever plans they add (\<open>Backtest_Cores\<close> has those of the program).
\<close>

section \<open>The observable state\<close>

record symbol_state =
  ss_instrument_pk :: int
  ss_instrument_id :: int
  ss_asset_class :: string
  ss_candles :: "string \<Rightarrow> strategy_candle list"
  ss_best_bid :: "float64 option"
  ss_best_ask :: "float64 option"
  ss_mark_price :: "float64 option"
  ss_bbo_at :: "datetime option"
  ss_book_bids :: "depth_level list"
  ss_book_asks :: "depth_level list"
  ss_book_at :: "datetime option"
  ss_book_fresh :: bool
  ss_funding_rate :: "float64 option"
  ss_funding_history :: "(datetime \<times> float64) list"
  ss_next_funding_at :: "datetime option"
  ss_funding_interval_hours :: float64
  ss_session_state :: string
  ss_session_allowed :: bool
  ss_watchlist_active :: bool
  ss_data_quality_status :: string
  ss_data_quality_ok :: bool
  ss_market_quality_score :: int
  ss_instrument_status :: string
  ss_max_leverage :: "int option"
  ss_min_notional :: "float64 option"
  ss_tick_size :: "float64 option"
  ss_price_decimals :: int
  ss_quantity_decimals :: int
  ss_maintenance_margin_rate :: "float64 option"
  ss_initial_margin_rate :: "float64 option"

definition new_symbol_state :: symbol_state where
  "new_symbol_state = \<lparr>ss_instrument_pk = 1, ss_instrument_id = 1, ss_asset_class = ''CRYPTO'',
     ss_candles = (\<lambda>_. []), ss_best_bid = None, ss_best_ask = None, ss_mark_price = None, ss_bbo_at = None,
     ss_book_bids = [], ss_book_asks = [], ss_book_at = None, ss_book_fresh = False, ss_funding_rate = None,
     ss_funding_history = [], ss_next_funding_at = None, ss_funding_interval_hours = 8,
     ss_session_state = ''CRYPTO_24_7'', ss_session_allowed = True, ss_watchlist_active = True,
     ss_data_quality_status = ''HEALTHY'', ss_data_quality_ok = True, ss_market_quality_score = 90,
     ss_instrument_status = ''ACTIVE'', ss_max_leverage = Some 10, ss_min_notional = Some 10,
     ss_tick_size = Some (fl (1 / 100)), ss_price_decimals = 2, ss_quantity_decimals = 4,
     ss_maintenance_margin_rate = Some (fl (1 / 100)), ss_initial_margin_rate = Some (fl (5 / 100))\<rparr>"

text \<open>A symbol that was not seen yet has the state it is created with.\<close>

type_synonym replay_state = "string \<Rightarrow> symbol_state"

definition new_replay_state :: replay_state where
  "new_replay_state = (\<lambda>_. new_symbol_state)"

definition max_buffer :: nat where
  "max_buffer = 400"

definition append_candle :: "strategy_candle \<Rightarrow> symbol_state \<Rightarrow> symbol_state" where
  "append_candle k s =
     (let bucket = ss_candles s (rk_timeframe k) @ [k] in
      s\<lparr>ss_candles := (ss_candles s)(rk_timeframe k := drop (length bucket - max_buffer) bucket)\<rparr>)"

definition replay_book_snapshot :: "symbol_state \<Rightarrow> depth_snapshot" where
  "replay_book_snapshot s = \<lparr>ds_instrument_id = ss_instrument_id s, ds_bids = ss_book_bids s,
     ds_asks = ss_book_asks s, ds_fresh = ss_book_fresh s, ds_snapshot_at = ss_book_at s\<rparr>"

definition replay_funding_snapshot :: "symbol_state \<Rightarrow> funding_snapshot" where
  "replay_funding_snapshot s = \<lparr>fu_current_rate = ss_funding_rate s,
     fu_history = drop (length (ss_funding_history s) - 64) (ss_funding_history s),
     fu_next_funding_at = ss_next_funding_at s, fu_interval_hours = ss_funding_interval_hours s,
     fu_data_fresh = (ss_funding_rate s \<noteq> None \<or> ss_funding_history s \<noteq> [])\<rparr>"

definition given_or :: "'a \<Rightarrow> 'a option \<Rightarrow> 'a" where
  "given_or d x = (case x of None \<Rightarrow> d | Some v \<Rightarrow> v)"

definition apply_book :: "datetime \<Rightarrow> book_payload \<Rightarrow> symbol_state \<Rightarrow> symbol_state" where
  "apply_book now p s =
     (let s1 = (if bp_bids p \<noteq> None \<or> bp_asks p \<noteq> None
            then s\<lparr>ss_book_bids := given_or [] (bp_bids p), ss_book_asks := given_or [] (bp_asks p),
                   ss_book_at := Some now, ss_book_fresh := given_or True (bp_fresh p)\<rparr>
            else s);
          s2 = (case bp_data_quality_status p of None \<Rightarrow> s1
            | Some q \<Rightarrow> s1\<lparr>ss_data_quality_status := q, ss_data_quality_ok := (q = ''HEALTHY'')\<rparr>) in
      case bp_market_quality_score p of None \<Rightarrow> s2 | Some n \<Rightarrow> s2\<lparr>ss_market_quality_score := n\<rparr>)"

definition apply_funding ::
  "datetime \<Rightarrow> float64 \<Rightarrow> datetime option \<Rightarrow> float64 option \<Rightarrow> symbol_state \<Rightarrow> symbol_state" where
  "apply_funding now rate next_at hours s = s\<lparr>ss_funding_rate := Some rate,
     ss_funding_history := ss_funding_history s @ [(now, rate)],
     ss_next_funding_at := (case next_at of None \<Rightarrow> ss_next_funding_at s | Some t \<Rightarrow> Some t),
     ss_funding_interval_hours := (case hours of None \<Rightarrow> ss_funding_interval_hours s
       | Some h \<Rightarrow> if h = 0 then ss_funding_interval_hours s else h)\<rparr>"

definition apply_quote :: "datetime \<Rightarrow> replay_quote \<Rightarrow> symbol_state \<Rightarrow> symbol_state" where
  "apply_quote now q s =
     s\<lparr>ss_best_bid := (case rqt_best_bid q of None \<Rightarrow> ss_best_bid s | v \<Rightarrow> v),
       ss_best_ask := (case rqt_best_ask q of None \<Rightarrow> ss_best_ask s | v \<Rightarrow> v),
       ss_mark_price := (case rqt_mark_price q of None \<Rightarrow> ss_mark_price s | v \<Rightarrow> v), ss_bbo_at := Some now\<rparr>"

definition apply_candle :: "strategy_candle \<Rightarrow> symbol_state \<Rightarrow> symbol_state" where
  "apply_candle k s =
     (let s' = append_candle k s in
      if ss_mark_price s' = None then s'\<lparr>ss_mark_price := Some (rk_close k)\<rparr> else s')"

text \<open>
  What an event does to the state of its symbol; the stamp of the event and the close of a candle pass the
  guard.  A payload that does not fit its category is a missing key.
\<close>

definition apply_event ::
  "replay_event \<Rightarrow> replay_clock \<Rightarrow> replay_state \<Rightarrow> (replay_error + replay_state) \<times> replay_clock" where
  "apply_event e c w =
     (let s = w (re_symbol e); put = (\<lambda>s'. Inr (w(re_symbol e := s'))) in
      case guard (Some (re_as_of e)) c of
        (Inl err, c') \<Rightarrow> (Inl err, c')
      | (Inr _, c') \<Rightarrow>
          (case (map_of replay_categories (re_category e), re_payload e) of
             (Some INSTRUMENT_STATUS, RP_Instrument status pk i asset) \<Rightarrow>
               (put (s\<lparr>ss_instrument_status := given_or (ss_instrument_status s) status,
                  ss_instrument_pk := given_or (ss_instrument_pk s) pk,
                  ss_instrument_id := given_or (ss_instrument_id s) i,
                  ss_asset_class := given_or (ss_asset_class s) asset\<rparr>), c')
           | (Some SESSION_CALENDAR, RP_Session st allowed watch) \<Rightarrow>
               (put (s\<lparr>ss_session_state := given_or (ss_session_state s) st,
                  ss_session_allowed := given_or (ss_session_allowed s) allowed,
                  ss_watchlist_active := given_or (ss_watchlist_active s) watch\<rparr>), c')
           | (Some DATA_QUALITY_BOOK, RP_Book p) \<Rightarrow> (put (apply_book (re_as_of e) p s), c')
           | (Some TICKER_BBO_TRADES, RP_Funding rate next_at hours) \<Rightarrow>
               (put (apply_funding (re_as_of e) rate next_at hours s), c')
           | (Some TICKER_BBO_TRADES, RP_Quote q) \<Rightarrow> (put (apply_quote (re_as_of e) q s), c')
           | (Some CLOSED_CANDLE, RP_Candle k) \<Rightarrow>
               (case guard (Some (close_time k)) c' of
                  (Inl err, c'') \<Rightarrow> (Inl err, c'')
                | (Inr _, c'') \<Rightarrow> (put (apply_candle k s), c''))
           | (Some k, p) \<Rightarrow> (if k \<in> set derived_categories then Inr w else Inl Malformed_Payload, c')
           | (None, p) \<Rightarrow> (Inr w, c')))"

definition market_reference_of :: "replay_clock \<Rightarrow> symbol_state \<Rightarrow> market_reference" where
  "market_reference_of c s = \<lparr>mr_as_of = ck_now c, mr_book = replay_book_snapshot s,
     mr_best_bid = ss_best_bid s, mr_best_ask = ss_best_ask s, mr_mark_price = ss_mark_price s,
     mr_bbo_at = ss_bbo_at s, mr_book_at = ss_book_at s, mr_data_quality_ok = ss_data_quality_ok s\<rparr>"

definition replay_last_5m :: "symbol_state \<Rightarrow> strategy_candle option" where
  "replay_last_5m s = (if ss_candles s ''5m'' = [] then None else Some (last (ss_candles s ''5m'')))"

section \<open>Lifecycles on replayed data\<close>

record backtest_plan =
  bpl_reference :: plan_reference
  bpl_eligible :: bool
  bpl_as_of :: datetime
  bpl_expiry_at :: datetime
  bpl_entry_low :: float64
  bpl_entry_high :: float64

record backtest_lifecycle =
  bl_signal_id :: uuid
  bl_plan :: backtest_plan
  bl_state :: signal_state
  bl_entry_confirmed_at :: "datetime option"
  bl_entry_observation :: "lifecycle_observation option"
  bl_terminal_at :: "datetime option"
  bl_simulated :: bool
  bl_entry_due_at :: "datetime option"
  bl_entry_market :: "market_reference option"
  bl_entry_capture_at :: "datetime option"

definition new_lifecycle :: "uuid \<Rightarrow> backtest_plan \<Rightarrow> backtest_lifecycle" where
  "new_lifecycle i p = \<lparr>bl_signal_id = i, bl_plan = p, bl_state = WATCHING_ENTRY, bl_entry_confirmed_at = None,
     bl_entry_observation = None, bl_terminal_at = None, bl_simulated = False, bl_entry_due_at = None,
     bl_entry_market = None, bl_entry_capture_at = None\<rparr>"

definition bl_symbol :: "backtest_lifecycle \<Rightarrow> string" where
  "bl_symbol l = pr_symbol (bpl_reference (bl_plan l))"

definition bl_bullish :: "backtest_lifecycle \<Rightarrow> bool" where
  "bl_bullish l = pr_bullish (bpl_reference (bl_plan l))"

definition terminate :: "signal_state \<Rightarrow> datetime \<Rightarrow> backtest_lifecycle \<Rightarrow> backtest_lifecycle" where
  "terminate st now l = l\<lparr>bl_state := st, bl_terminal_at := Some now\<rparr>"

definition breached :: "backtest_lifecycle \<Rightarrow> float64 \<Rightarrow> bool" where
  "breached l price =
     (let level = pr_invalidation_price (bpl_reference (bl_plan l)) in
      if bl_bullish l then price \<le> level else level \<le> price)"

definition reached :: "backtest_lifecycle \<Rightarrow> float64 \<Rightarrow> float64 \<Rightarrow> bool" where
  "reached l target price = (if bl_bullish l then target \<le> price else price \<le> target)"

record backtest_config =
  bc_generator :: generator
  bc_shadow :: shadow_settings
  bc_costs :: cost_settings
  bc_fee_schedule :: "fee_schedule option"
  bc_config_hash :: string
  bc_excluded :: "data_gap list"
  bc_seed_plans :: "backtest_plan list"
  bc_seed_base :: int
  bc_checkpoint_interval :: nat
  bc_new_id :: "nat \<Rightarrow> uuid" \<comment> \<open>the n-th \<open>uuid4\<close>\<close>

definition observe :: "backtest_lifecycle \<Rightarrow> string \<Rightarrow> int \<Rightarrow> datetime \<Rightarrow> lifecycle_observation" where
  "observe l st version now = \<lparr>lo_signal_id = bl_signal_id l,
     lo_plan_id = pr_plan_id (bpl_reference (bl_plan l)),
     lo_candidate_id = pr_candidate_id (bpl_reference (bl_plan l)), lo_state = st, lo_event_type = st,
     lo_state_version = version, lo_as_of = now\<rparr>"

definition confirm_entry :: "backtest_config \<Rightarrow> datetime \<Rightarrow> backtest_lifecycle \<Rightarrow> backtest_lifecycle" where
  "confirm_entry b now l =
     (let seen = observe l ''ENTRY_CONFIRMED'' 3 now in
      l\<lparr>bl_state := ACTIVE_RESEARCH, bl_entry_confirmed_at := Some now, bl_entry_observation := Some seen,
        bl_entry_due_at := Some (dl_scheduled_entry_at
          (realize_delay (bc_generator b) seen (bc_shadow b) (bc_seed_base b)))\<rparr>)"

definition lifecycle_step ::
  "backtest_config \<Rightarrow> datetime \<Rightarrow> symbol_state \<Rightarrow> strategy_candle \<Rightarrow> backtest_lifecycle \<Rightarrow> backtest_lifecycle" where
  "lifecycle_step b now s k l =
     (let p = bl_plan l; targets = pr_target_prices (bpl_reference p); price = rk_close k in
      if bl_state l = WATCHING_ENTRY then
        if bpl_expiry_at p \<le> now then terminate EXPIRED now l
        else if breached l price then terminate INVALIDATED now l
        else if rk_low k \<le> bpl_entry_high p \<and> bpl_entry_low p \<le> rk_high k \<and>
            bpl_entry_low p \<le> price \<and> price \<le> bpl_entry_high p \<and> ss_session_allowed s \<and> ss_data_quality_ok s then
          confirm_entry b now l
        else l
      else if bl_state l = ACTIVE_RESEARCH then
        if breached l price then terminate INVALIDATED now l
        else if 1 < length targets \<and> reached l (targets ! 1) price then terminate TARGET_2_REACHED now l
        else if targets \<noteq> [] \<and> reached l (targets ! 0) price then terminate TARGET_1_REACHED now l
        else if bpl_expiry_at p \<le> now then terminate EXPIRED now l
        else l
      else l)"

section \<open>The stages of the pipeline\<close>

text \<open>
  What a core answers: a value, an error of the cost model, or an exception nothing catches.  The strategy
  core gives no outcome while the candles of a symbol do not make a context, the risk core no plan for a
  rejected candidate.
\<close>

datatype 'a core_answer = Core_Answer 'a | Core_Cost_Error string | Core_Raised

record research_cores =
  rc_strategy :: "datetime \<Rightarrow> string \<Rightarrow> symbol_state \<Rightarrow> evaluation_outcome option core_answer"
  rc_risk :: "datetime \<Rightarrow> symbol_state \<Rightarrow> setup_candidate \<Rightarrow> technical_level list \<Rightarrow> backtest_plan option core_answer"

datatype backtest_warning = RISK_COST_MODEL string | MAX_EVENTS_PER_RUN_REACHED

record backtest_state =
  bs_data :: replay_state
  bs_candidates :: "(string \<times> setup_candidate) list"
  bs_levels :: "string \<Rightarrow> technical_level list"
  bs_plans :: "backtest_plan list"
  bs_lifecycles :: "backtest_lifecycle list"
  bs_simulations :: "position_result list"
  bs_rejections :: "simulation_rejection list"
  bs_warnings :: "backtest_warning list"

text \<open>The first swing of a kind and price counts.\<close>

fun swing_type_value :: "swing_type \<Rightarrow> string" where
  "swing_type_value SWING_HIGH = ''HIGH''"
| "swing_type_value SWING_LOW = ''LOW''"

definition add_swing :: "string \<times> swing \<Rightarrow> technical_level list \<Rightarrow> technical_level list" where
  "add_swing entry levels =
     (let (tf, w) = entry; kind = ''SWING_'' @ swing_type_value (wi_type w) in
      if list_ex (\<lambda>l. tl_kind l = kind \<and> tl_price l = wi_price w) levels then levels
      else levels @ [\<lparr>tl_price = wi_price w, tl_kind = kind, tl_timeframe = tf, tl_relevance = wi_relevance w\<rparr>])"

definition levels_from_structure :: "evaluation_outcome \<Rightarrow> technical_level list" where
  "levels_from_structure out =
     fold add_swing (concat (map (\<lambda>(tf, a). map (Pair tf) (sa_swings a)) (eo_structures out))) []"

definition referenced_as_level :: "referenced_level \<Rightarrow> technical_level option" where
  "referenced_as_level r = map_option (\<lambda>price. \<lparr>tl_price = price,
     tl_kind = (case rl_kind r of Some (c # cs) \<Rightarrow> c # cs | _ \<Rightarrow> ''REFERENCED_LEVEL''),
     tl_timeframe = given_or ''15m'' (rl_timeframe r), tl_relevance = given_or (fl (6 / 10)) (rl_relevance r)\<rparr>)
     (rl_price r)"

text \<open>The levels of the structure, then those the candidate refers to that are not among them.\<close>

definition levels_for :: "technical_level list \<Rightarrow> setup_candidate \<Rightarrow> technical_level list" where
  "levels_for known k = known @ filter
     (\<lambda>l. \<not> list_ex (\<lambda>l'. tl_kind l' = tl_kind l \<and> tl_price l' = tl_price l) known)
     (List.map_filter referenced_as_level (sc_referenced_levels k))"

definition promote_candidate :: "setup_candidate \<Rightarrow> (string \<times> setup_candidate) list \<Rightarrow> (string \<times> setup_candidate) list" where
  "promote_candidate k ks =
     (case map_of ks (sc_dedupe_key k) of
        None \<Rightarrow> ks @ [(sc_dedupe_key k, k)]
      | Some old \<Rightarrow>
          if sc_state old = DETECTED \<and> sc_state k = CONFIRMED then AList.update (sc_dedupe_key k) k ks else ks)"

definition stage_strategy :: "research_cores \<Rightarrow> datetime \<Rightarrow> string \<Rightarrow> backtest_state \<Rightarrow> backtest_state option" where
  "stage_strategy cores now name s =
     (case rc_strategy cores now name (bs_data s name) of
        Core_Answer None \<Rightarrow> Some s
      | Core_Answer (Some out) \<Rightarrow>
          Some (s\<lparr>bs_levels := (bs_levels s)(name := levels_from_structure out),
            bs_candidates := fold promote_candidate (eo_candidates out) (bs_candidates s)\<rparr>)
      | _ \<Rightarrow> None)"

text \<open>The candidates with a plan are known before the first of the round is evaluated.\<close>

definition risk_step ::
  "research_cores \<Rightarrow> datetime \<Rightarrow> string \<Rightarrow> uuid list \<Rightarrow> string \<times> setup_candidate \<Rightarrow> backtest_state \<Rightarrow>
     backtest_state option" where
  "risk_step cores now name planned entry s =
     (let (key, k) = entry in
      if sc_symbol k \<noteq> name \<or> sc_state k \<noteq> CONFIRMED \<or> sc_candidate_id k \<in> set planned then Some s
      else if sc_expiry_at k \<le> now then Some (s\<lparr>bs_candidates := AList.delete key (bs_candidates s)\<rparr>)
      else
        case rc_risk cores now (bs_data s name) k (levels_for (bs_levels s name) k) of
          Core_Cost_Error code \<Rightarrow> Some (s\<lparr>bs_warnings := bs_warnings s @ [RISK_COST_MODEL code]\<rparr>)
        | Core_Answer None \<Rightarrow> Some s
        | Core_Answer (Some p) \<Rightarrow> Some (s\<lparr>bs_plans := bs_plans s @ [p]\<rparr>)
        | Core_Raised \<Rightarrow> None)"

fun risk_steps ::
  "research_cores \<Rightarrow> datetime \<Rightarrow> string \<Rightarrow> uuid list \<Rightarrow> (string \<times> setup_candidate) list \<Rightarrow> backtest_state \<Rightarrow>
     backtest_state option" where
  "risk_steps cores now name planned [] s = Some s"
| "risk_steps cores now name planned (entry # rest) s =
     Option.bind (risk_step cores now name planned entry s) (risk_steps cores now name planned rest)"

definition stage_risk :: "research_cores \<Rightarrow> datetime \<Rightarrow> string \<Rightarrow> backtest_state \<Rightarrow> backtest_state option" where
  "stage_risk cores now name s =
     risk_steps cores now name (map (pr_candidate_id \<circ> bpl_reference) (bs_plans s)) (bs_candidates s) s"

text \<open>The plans a lifecycle starts for: of the symbol, not tracked, eligible, not expired, already known.\<close>

definition starts_lifecycle :: "datetime \<Rightarrow> string \<Rightarrow> uuid list \<Rightarrow> backtest_plan \<Rightarrow> bool" where
  "starts_lifecycle now name tracked p \<longleftrightarrow>
     pr_symbol (bpl_reference p) = name \<and> pr_plan_id (bpl_reference p) \<notin> set tracked \<and>
     bpl_eligible p \<and> now < bpl_expiry_at p \<and> bpl_as_of p \<le> now"

definition admit_plans :: "backtest_config \<Rightarrow> datetime \<Rightarrow> string \<Rightarrow> backtest_state \<Rightarrow> backtest_lifecycle list" where
  "admit_plans b now name s =
     (let tracked = map (pr_plan_id \<circ> bpl_reference \<circ> bl_plan) (bs_lifecycles s);
          started = filter (starts_lifecycle now name tracked) (bs_plans s) in
      bs_lifecycles s @ map (\<lambda>(n, p). new_lifecycle (bc_new_id b (length (bs_lifecycles s) + n)) p)
        (List.enumerate 0 started))"

definition stage_lifecycle :: "backtest_config \<Rightarrow> datetime \<Rightarrow> string \<Rightarrow> backtest_state \<Rightarrow> backtest_state" where
  "stage_lifecycle b now name s =
     (let lives = admit_plans b now name s; data = bs_data s name in
      s\<lparr>bs_lifecycles := (case replay_last_5m data of
          None \<Rightarrow> lives
        | Some k \<Rightarrow> map (\<lambda>l. if bl_symbol l \<noteq> name \<or> bl_terminal_at l \<noteq> None then l
            else lifecycle_step b now data k l) lives)\<rparr>)"

definition capture_entry :: "replay_clock \<Rightarrow> symbol_state \<Rightarrow> backtest_lifecycle \<Rightarrow> backtest_lifecycle" where
  "capture_entry c data l =
     (if (case bl_entry_due_at l of None \<Rightarrow> True | Some due \<Rightarrow> ck_now c < due) \<or> bl_entry_market l \<noteq> None then l
      else l\<lparr>bl_entry_market := Some (market_reference_of c data), bl_entry_capture_at := Some (ck_now c)\<rparr>)"

definition stage_entry_capture :: "replay_clock \<Rightarrow> string \<Rightarrow> backtest_state \<Rightarrow> backtest_state" where
  "stage_entry_capture c name s = s\<lparr>bs_lifecycles :=
     map (\<lambda>l. if bl_symbol l \<noteq> name then l else capture_entry c (bs_data s name) l) (bs_lifecycles s)\<rparr>"

definition replay_exit_reason :: "signal_state \<Rightarrow> exit_reason option" where
  "replay_exit_reason st =
     (case exit_reason_for_event (state_value st) of Some r \<Rightarrow> Some r | None \<Rightarrow> exit_reason_for_state (state_value st))"

definition replay_inputs ::
  "backtest_config \<Rightarrow> uuid \<Rightarrow> replay_clock \<Rightarrow> symbol_state \<Rightarrow> backtest_lifecycle \<Rightarrow> lifecycle_observation \<Rightarrow>
     datetime \<Rightarrow> exit_reason \<Rightarrow> simulation_inputs" where
  "replay_inputs b run_id c data l seen ended r =
     \<lparr>si_lifecycle_signal_id = bl_signal_id l, si_plan = bpl_reference (bl_plan l), si_entry_observation = seen,
      si_exit_observation = Some (observe l (state_value (bl_state l)) 5 ended),
      si_entry_market = bl_entry_market l, si_exit_market = Some (market_reference_of c data),
      si_fee_schedule = bc_fee_schedule b, si_funding = Some (replay_funding_snapshot data),
      si_session_allowed = ss_session_allowed data, si_data_quality_ok = ss_data_quality_ok data,
      si_bot_paused = False, si_duplicate_exists = False, si_plan_audit_available = True,
      si_candidate_audit_available = True, si_run_id = run_id, si_as_of = ck_now c, si_exit_reason = Some r\<rparr>"

definition entry_capture_warning :: "shadow_settings \<Rightarrow> backtest_lifecycle \<Rightarrow> simulation_warning option" where
  "entry_capture_warning sh l =
     (case (bl_entry_due_at l, bl_entry_capture_at l) of
        (Some due, Some captured) \<Rightarrow>
          let drift = total_seconds (captured - due) in
          if sh_delay_max_entry_staleness_seconds sh < drift then Some (ENTRY_INSTANT_APPROXIMATED drift) else None
      | _ \<Rightarrow> None)"

definition approximated :: "simulation_warning option \<Rightarrow> position_result \<Rightarrow> position_result" where
  "approximated w po =
     (case w of
        None \<Rightarrow> po
      | Some warning \<Rightarrow> po\<lparr>po_warnings := po_warnings po @ [warning],
          po_data_completeness := (if po_data_completeness po = DC_COMPLETE then DC_PARTIAL
            else po_data_completeness po)\<rparr>)"

text \<open>The simulation of a lifecycle that ended after its entry, once.\<close>

definition simulate_lifecycle ::
  "backtest_config \<Rightarrow> uuid \<Rightarrow> replay_clock \<Rightarrow> string \<Rightarrow> symbol_state \<Rightarrow> backtest_lifecycle \<Rightarrow>
     (simulation_rejection + position_result) option" where
  "simulate_lifecycle b run_id c name data l =
     (if bl_symbol l \<noteq> name \<or> bl_simulated l then None
      else
        case (bl_terminal_at l, bl_entry_observation l, replay_exit_reason (bl_state l)) of
          (Some ended, Some seen, Some r) \<Rightarrow>
            Some (map_sum id (approximated (entry_capture_warning (bc_shadow b) l))
              (simulate (bc_generator b) (replay_inputs b run_id c data l seen ended r) (bc_shadow b) (bc_costs b)
                (bc_config_hash b) (bc_seed_base b)))
        | _ \<Rightarrow> None)"

definition stage_simulation :: "backtest_config \<Rightarrow> uuid \<Rightarrow> replay_clock \<Rightarrow> string \<Rightarrow> backtest_state \<Rightarrow> backtest_state" where
  "stage_simulation b run_id c name s =
     (let outcome = simulate_lifecycle b run_id c name (bs_data s name);
          outcomes = List.map_filter outcome (bs_lifecycles s) in
      s\<lparr>bs_lifecycles := map (\<lambda>l. if outcome l = None then l else l\<lparr>bl_simulated := True\<rparr>) (bs_lifecycles s),
        bs_simulations := bs_simulations s @ List.map_filter (\<lambda>x. case x of Inr po \<Rightarrow> Some po | Inl _ \<Rightarrow> None) outcomes,
        bs_rejections := bs_rejections s @ List.map_filter (\<lambda>x. case x of Inl sj \<Rightarrow> Some sj | Inr _ \<Rightarrow> None) outcomes\<rparr>)"

text \<open>\<open>None\<close> stands for an exception of a core.\<close>

definition run_pipeline ::
  "backtest_config \<Rightarrow> research_cores \<Rightarrow> uuid \<Rightarrow> replay_clock \<Rightarrow> string \<Rightarrow> backtest_state \<Rightarrow> backtest_state option" where
  "run_pipeline b cores run_id c name s =
     map_option (\<lambda>s. stage_simulation b run_id c name (stage_entry_capture c name (stage_lifecycle b (ck_now c) name s)))
       (Option.bind (stage_strategy cores (ck_now c) name s) (stage_risk cores (ck_now c) name))"

section \<open>The run\<close>

record backtest_checkpoint =
  bk_run_id :: uuid
  bk_events_replayed :: nat
  bk_last_event_at :: "datetime option"
  bk_last_event_sequence :: int
  bk_simulations_completed :: nat
  bk_rejections :: nat

definition new_checkpoint :: "uuid \<Rightarrow> backtest_checkpoint" where
  "new_checkpoint run_id = \<lparr>bk_run_id = run_id, bk_events_replayed = 0, bk_last_event_at = None,
     bk_last_event_sequence = - 1, bk_simulations_completed = 0, bk_rejections = 0\<rparr>"

definition resume_marker :: "backtest_checkpoint option \<Rightarrow> (datetime \<times> int) option" where
  "resume_marker from_k =
     (case from_k of
        None \<Rightarrow> None
      | Some k \<Rightarrow> map_option (\<lambda>t. (t, bk_last_event_sequence k)) (bk_last_event_at k))"

definition already_applied :: "(datetime \<times> int) option \<Rightarrow> replay_event \<Rightarrow> bool" where
  "already_applied marker e = (case marker of None \<Rightarrow> False | Some m \<Rightarrow> (re_as_of e, re_sequence e) \<le> m)"

definition skipped :: "backtest_config \<Rightarrow> (datetime \<times> int) option \<Rightarrow> replay_event \<Rightarrow> bool" where
  "skipped b marker e \<longleftrightarrow> already_applied marker e \<or> is_excluded (re_as_of e) (bc_excluded b) (re_symbol e)"

datatype run_stop = Run_Finished bool | Run_Cancelled | Run_Raised replay_error

record run_progress =
  rp_state :: backtest_state
  rp_checkpoint :: backtest_checkpoint
  rp_emitted :: "backtest_checkpoint list" \<comment> \<open>given to \<open>on_checkpoint\<close>\<close>

definition replay_one ::
  "backtest_config \<Rightarrow> research_cores \<Rightarrow> uuid \<Rightarrow> replay_event \<Rightarrow> replay_clock \<Rightarrow> replay_state \<Rightarrow> run_progress \<Rightarrow>
     run_progress option" where
  "replay_one b cores run_id e c data g =
     (let s = (rp_state g)\<lparr>bs_data := data\<rparr>;
          k = \<lparr>bk_run_id = run_id, bk_events_replayed = Suc (bk_events_replayed (rp_checkpoint g)),
            bk_last_event_at = Some (re_as_of e), bk_last_event_sequence = re_sequence e,
            bk_simulations_completed = length (bs_simulations s), bk_rejections = length (bs_rejections s)\<rparr> in
      map_option (\<lambda>s'. \<lparr>rp_state = s', rp_checkpoint = k, rp_emitted = rp_emitted g @
         (if bk_events_replayed k mod max 1 (bc_checkpoint_interval b) = 0 then [k] else [])\<rparr>)
       (if re_category e = ''CLOSED_CANDLE'' then run_pipeline b cores run_id c (re_symbol e) s else Some s))"

text \<open>The loop over the yielded events; cancellation is seen between events.\<close>

fun replay_events ::
  "backtest_config \<Rightarrow> research_cores \<Rightarrow> uuid \<Rightarrow> (datetime \<times> int) option \<Rightarrow> (nat \<Rightarrow> bool) \<Rightarrow> nat \<Rightarrow>
     replay_end \<times> replay_clock \<Rightarrow> (replay_event \<times> replay_clock) list \<Rightarrow> run_progress \<Rightarrow>
     run_stop \<times> replay_clock \<times> run_progress" where
  "replay_events b cores run_id marker cancelled n (ending, c) [] g =
     (case ending of Raised err \<Rightarrow> Run_Raised err | Exhausted \<Rightarrow> Run_Finished False | Truncated \<Rightarrow> Run_Finished True,
      c, g)"
| "replay_events b cores run_id marker cancelled n ending ((e, c) # rest) g =
     (if cancelled n then (Run_Cancelled, c, g)
      else if skipped b marker e then replay_events b cores run_id marker cancelled (Suc n) ending rest g
      else
        case apply_event e c (bs_data (rp_state g)) of
          (Inl err, c') \<Rightarrow> (Run_Raised err, c', g)
        | (Inr data, c') \<Rightarrow>
            (case replay_one b cores run_id e c' data g of
               None \<Rightarrow> (Run_Raised Core_Exception, c', g)
             | Some g' \<Rightarrow> replay_events b cores run_id marker cancelled (Suc n) ending rest g'))"

datatype backtest_run_status = BR_COMPLETED | BR_COMPLETED_WITH_GAPS | BR_REJECTED | BR_CANCELLED

record backtest_result =
  br_run_id :: uuid
  br_status :: backtest_run_status
  br_events_replayed :: nat
  br_candidates_detected :: nat
  br_plans_eligible :: nat
  br_lifecycles_started :: nat
  br_simulations :: "position_result list"
  br_rejections :: "simulation_rejection list"
  br_excluded_intervals :: "data_gap list"
  br_warnings :: "backtest_warning list"
  br_checkpoint :: backtest_checkpoint
  br_started_at :: datetime
  br_finished_at :: datetime
  br_full_window :: bool \<comment> \<open>the detail says \<open>replay finished over the full requested window\<close>\<close>

definition build_run_rejection ::
  "uuid option \<Rightarrow> string \<Rightarrow> simulation_rejection_code \<Rightarrow> string \<Rightarrow> string \<Rightarrow> datetime \<Rightarrow> simulation_rejection" where
  "build_run_rejection run_id name code version config_hash as_of =
     \<lparr>sj_run_id = run_id, sj_lifecycle_signal_id = None, sj_plan_id = None, sj_candidate_id = None,
      sj_symbol = name, sj_as_of = as_of, sj_primary_code = code, sj_codes = [code], sj_model_version = version,
      sj_config_hash = config_hash\<rparr>"

definition start_progress :: "backtest_config \<Rightarrow> uuid \<Rightarrow> backtest_checkpoint option \<Rightarrow> run_progress" where
  "start_progress b run_id from_k = \<lparr>rp_state = \<lparr>bs_data = new_replay_state, bs_candidates = [], bs_levels = (\<lambda>_. []),
       bs_plans = bc_seed_plans b, bs_lifecycles = [], bs_simulations = [], bs_rejections = [], bs_warnings = []\<rparr>,
     rp_checkpoint = given_or (new_checkpoint run_id) from_k, rp_emitted = []\<rparr>"

definition finished_run :: "backtest_config \<Rightarrow> uuid \<Rightarrow> replay_clock \<Rightarrow> backtest_run_status \<Rightarrow> bool \<Rightarrow>
    replay_clock \<Rightarrow> run_progress \<Rightarrow> backtest_result" where
  "finished_run b run_id start st full c g =
     (let s = rp_state g in
      \<lparr>br_run_id = run_id, br_status = st, br_events_replayed = bk_events_replayed (rp_checkpoint g),
       br_candidates_detected = length (bs_candidates s), br_plans_eligible = length (bs_plans s),
       br_lifecycles_started = length (bs_lifecycles s), br_simulations = bs_simulations s,
       br_rejections = bs_rejections s, br_excluded_intervals = bc_excluded b,
       br_warnings = rev (remdups (rev (bs_warnings s))), br_checkpoint = rp_checkpoint g,
       br_started_at = ck_start_at start, br_finished_at = ck_now c, br_full_window = full\<rparr>)"

text \<open>
  A look-ahead ends the run as rejected; an error of order, category or payload is not caught.  A source that
  stopped at its limit leaves a warning.
\<close>

definition conclude_run ::
  "backtest_config \<Rightarrow> uuid \<Rightarrow> replay_clock \<Rightarrow> run_stop \<times> replay_clock \<times> run_progress \<Rightarrow>
     replay_error + backtest_result" where
  "conclude_run b run_id start out =
     (let (stop, c, g) = out; s = rp_state g; complete = (bc_excluded b = []) in
      case stop of
        Run_Cancelled \<Rightarrow> Inr (finished_run b run_id start BR_CANCELLED False c g)
      | Run_Raised Lookahead \<Rightarrow>
          Inr (finished_run b run_id start BR_REJECTED False c (g\<lparr>rp_state := s\<lparr>bs_rejections := bs_rejections s @
            [build_run_rejection (Some run_id) ''-'' SR_LOOKAHEAD_GUARD_TRIGGERED
              (sh_simulation_model_version (bc_shadow b)) (bc_config_hash b) (ck_now c)]\<rparr>\<rparr>))
      | Run_Raised err \<Rightarrow> Inl err
      | Run_Finished truncated \<Rightarrow>
          Inr (finished_run b run_id start (if complete then BR_COMPLETED else BR_COMPLETED_WITH_GAPS) complete c
            (if truncated then g\<lparr>rp_state := s\<lparr>bs_warnings := bs_warnings s @ [MAX_EVENTS_PER_RUN_REACHED]\<rparr>\<rparr> else g)))"

definition run_backtest ::
  "backtest_config \<Rightarrow> research_cores \<Rightarrow> replay_event list \<Rightarrow> nat option \<Rightarrow> replay_clock \<Rightarrow> uuid \<Rightarrow>
     backtest_checkpoint option \<Rightarrow> (nat \<Rightarrow> bool) \<Rightarrow> replay_error + backtest_result" where
  "run_backtest b cores provider limit start run_id from_k cancelled =
     (let (seen, ending) = replay_source provider limit start in
      conclude_run b run_id start (replay_events b cores run_id (resume_marker from_k) cancelled 0 ending seen
        (start_progress b run_id from_k)))"

end
