(* ===== verification/Backtest_Cores.thy ===== *)
theory Backtest_Cores
  imports Backtest
begin

text \<open>
  The cores of a backtest are those of the program: the contexts a replayed state gives the strategy and the risk
  engine (\<open>backtest_context.py\<close>), and what the backtest does with their answers (\<open>backtest_engine.py\<close>).  The
  hashes of the settings, fresh identifiers and SHA-256 are parameters.
\<close>

section \<open>The context of the strategy\<close>

text \<open>In a condition a price of zero counts as missing.\<close>

definition nonzero_price :: "float64 option \<Rightarrow> float64 option" where
  "nonzero_price x = (if x = Some 0 then None else x)"

definition mid_of :: "float64 option \<Rightarrow> float64 option \<Rightarrow> float64 option" where
  "mid_of bid ask = (case (bid, ask) of (Some b, Some a) \<Rightarrow> Some (fdiv (fadd b a) 2) | _ \<Rightarrow> None)"

definition depth_pusd :: "depth_level list \<Rightarrow> float64" where
  "depth_pusd ls = py_sum (map (\<lambda>(price, quantity). fmul price quantity) ls)"

definition replay_market :: "datetime \<Rightarrow> float64 \<Rightarrow> symbol_state \<Rightarrow> market_snapshot" where
  "replay_market now price s =
     (let mark = given_or price (nonzero_price (ss_mark_price s)) in
      \<lparr>mt_mark_price = Some mark, mt_index_price = Some mark, mt_mid_price = mid_of (ss_best_bid s) (ss_best_ask s),
       mt_best_bid = ss_best_bid s, mt_best_ask = ss_best_ask s,
       mt_spread_bps = (case (nonzero_price (ss_best_bid s), nonzero_price (ss_best_ask s)) of
           (Some b, Some a) \<Rightarrow> Some (fmul (fdiv (fsub a b) b) 10000) | _ \<Rightarrow> None),
       mt_bid_depth_pusd = Some (depth_pusd (ss_book_bids s)), mt_ask_depth_pusd = Some (depth_pusd (ss_book_asks s)),
       mt_book_fresh = ss_book_fresh s, mt_bbo_fresh = (ss_bbo_at s \<noteq> None), mt_funding_rate = ss_funding_rate s,
       mt_volume_24h_pusd = None, mt_snapshot_at = given_or now (ss_bbo_at s)\<rparr>)"

text \<open>The series of a timeframe, when there are enough candles and they have no gap.\<close>

definition series_from :: "string \<Rightarrow> strategy_candle list \<Rightarrow> datetime \<Rightarrow> nat \<Rightarrow> float64 \<Rightarrow> candle_series option" where
  "series_from tf ks now n multiplier =
     (if length ks < n then None
      else case build_series tf ks now n multiplier of Inl _ \<Rightarrow> None | Inr series \<Rightarrow> Some series)"

definition replay_series :: "strategy_settings \<Rightarrow> datetime \<Rightarrow> symbol_state \<Rightarrow> string \<Rightarrow> candle_series option" where
  "replay_series cfg now s tf =
     series_from tf (ss_candles s tf) now (st_min_candles cfg tf) (st_max_candle_gap_multiplier cfg)"

definition strategy_context ::
  "strategy_settings \<Rightarrow> string \<Rightarrow> datetime \<Rightarrow> string \<Rightarrow> symbol_state \<Rightarrow> evaluation_context option" where
  "strategy_context cfg config_hash now name s =
     (case (replay_series cfg now s ''5m'', replay_series cfg now s ''15m'', replay_series cfg now s ''1h'') of
        (Some s5, Some s15, Some s1h) \<Rightarrow>
          Some \<lparr>ex_instrument_pk = ss_instrument_pk s, ex_instrument_id = ss_instrument_id s, ex_symbol = name,
            ex_asset_class = ss_asset_class s, ex_as_of = now,
            ex_series = [''5m'' \<mapsto> s5, ''15m'' \<mapsto> s15, ''1h'' \<mapsto> s1h],
            ex_market = replay_market now (rk_close (se_last s5)) s, ex_session_state = ss_session_state s,
            ex_session_allowed = ss_session_allowed s, ex_watchlist_active = ss_watchlist_active s,
            ex_bot_paused = False, ex_data_quality_status = ss_data_quality_status s,
            ex_data_quality_ok = ss_data_quality_ok s, ex_orderbook_ok = ss_book_fresh s,
            ex_market_quality_score = Some (ss_market_quality_score s), ex_low_liquidity = False,
            ex_strategy_name = st_name cfg, ex_strategy_version = st_version cfg, ex_config_hash = config_hash\<rparr>
      | _ \<Rightarrow> None)"

section \<open>The context of the risk engine\<close>

definition replay_atr_period :: nat where
  "replay_atr_period = 14"

definition replay_atr :: "strategy_settings \<Rightarrow> datetime \<Rightarrow> symbol_state \<Rightarrow> string \<Rightarrow> float64 option" where
  "replay_atr cfg now s tf =
     Option.bind (series_from tf (ss_candles s tf) now (replay_atr_period + 1) (st_max_candle_gap_multiplier cfg))
       (\<lambda>series. average_true_range series replay_atr_period)"

definition replay_instrument :: "datetime \<Rightarrow> string \<Rightarrow> symbol_state \<Rightarrow> string \<Rightarrow> instrument_risk" where
  "replay_instrument now name s version =
     \<lparr>ik_instrument_pk = ss_instrument_pk s, ik_instrument_id = ss_instrument_id s, ik_symbol = name,
      ik_status = ss_instrument_status s, ik_asset_class = ss_asset_class s, ik_mark_price = ss_mark_price s,
      ik_index_price = ss_mark_price s,
      ik_mid_price = mid_of (first_price (ss_book_bids s)) (first_price (ss_book_asks s)),
      ik_max_leverage = ss_max_leverage s, ik_min_notional = ss_min_notional s, ik_tick_size = ss_tick_size s,
      ik_price_decimals = ss_price_decimals s, ik_quantity_decimals = ss_quantity_decimals s, ik_risk_tiers = [],
      ik_maintenance_margin_rate = ss_maintenance_margin_rate s,
      ik_initial_margin_rate = ss_initial_margin_rate s, ik_data_quality_ok = ss_data_quality_ok s,
      ik_orderbook_fresh = ss_book_fresh s, ik_snapshot_version = version, ik_as_of = now\<rparr>"

record core_inputs =
  ci_strategy :: strategy_settings
  ci_risk :: risk_settings
  ci_costs :: cost_settings
  ci_fee_schedule :: "fee_schedule option"
  ci_strategy_hash :: string
  ci_risk_hash :: string
  ci_cost_hash :: string
  ci_snapshot_version :: string
  ci_sha :: "string \<Rightarrow> string"
  ci_candidate_id :: "datetime \<Rightarrow> string \<Rightarrow> candidate_type \<Rightarrow> uuid" \<comment> \<open>\<open>uuid4\<close> of an evaluation\<close>
  ci_plan_id :: "datetime \<Rightarrow> uuid \<Rightarrow> uuid" \<comment> \<open>\<open>uuid4\<close> of a plan\<close>

definition replay_risk_context ::
  "core_inputs \<Rightarrow> datetime \<Rightarrow> symbol_state \<Rightarrow> candidate_snapshot \<Rightarrow> technical_level list \<Rightarrow> risk_context" where
  "replay_risk_context ci now s k levels =
     \<lparr>rx_candidate = k, rx_instrument = replay_instrument now (cx_symbol k) s (ci_snapshot_version ci),
      rx_book = replay_book_snapshot s, rx_best_bid = ss_best_bid s, rx_best_ask = ss_best_ask s,
      rx_bbo_at = ss_bbo_at s, rx_bbo_fresh = (ss_bbo_at s \<noteq> None), rx_funding = replay_funding_snapshot s,
      rx_fee_schedule = ci_fee_schedule ci, rx_execution_assumptions = build_execution_assumptions (ci_costs ci),
      rx_levels = levels, rx_atr_5m = replay_atr (ci_strategy ci) now s ''5m'',
      rx_atr_15m = replay_atr (ci_strategy ci) now s ''15m'', rx_session_state = ss_session_state s,
      rx_session_allowed = ss_session_allowed s, rx_equity_overnight_risk = False,
      rx_watchlist_active = ss_watchlist_active s, rx_bot_paused = False, rx_as_of = now,
      rx_risk_config_hash = ci_risk_hash ci, rx_cost_config_hash = ci_cost_hash ci\<rparr>"

fun candidate_state_value :: "setup_candidate_state \<Rightarrow> string" where
  "candidate_state_value DETECTED = ''DETECTED''"
| "candidate_state_value CONFIRMED = ''CONFIRMED''"
| "candidate_state_value REJECTED = ''REJECTED''"
| "candidate_state_value CANDIDATE_EXPIRED = ''EXPIRED''"
| "candidate_state_value SUPERSEDED = ''SUPERSEDED''"

definition candidate_snapshot_of :: "setup_candidate \<Rightarrow> candidate_snapshot" where
  "candidate_snapshot_of k =
     \<lparr>cx_candidate_id = sc_candidate_id k, cx_candidate_type = candidate_type_value (sc_candidate_type k),
      cx_direction = candidate_direction_value (sc_direction k), cx_state = candidate_state_value (sc_state k),
      cx_instrument_pk = sc_instrument_pk k, cx_instrument_id = sc_instrument_id k, cx_symbol = sc_symbol k,
      cx_asset_class = sc_asset_class k, cx_as_of = sc_as_of k, cx_expiry_at = sc_expiry_at k,
      cx_setup_score = sc_setup_score k, cx_referenced_levels = sc_referenced_levels k,
      cx_strategy_name = sc_strategy_name k, cx_strategy_version = sc_strategy_version k,
      cx_strategy_config_hash = sc_config_hash k, cx_atr_percentile_1h = sc_atr_percentile_1h k\<rparr>"

definition plan_reference_of :: "uuid \<Rightarrow> eligibility_plan \<Rightarrow> plan_reference" where
  "plan_reference_of plan_id p =
     (let k = ep_candidate p in
      \<lparr>pr_plan_id = plan_id, pr_candidate_id = cx_candidate_id k, pr_instrument_pk = cx_instrument_pk k,
       pr_instrument_id = cx_instrument_id k, pr_symbol = cx_symbol k, pr_asset_class = cx_asset_class k,
       pr_candidate_type = cx_candidate_type k, pr_direction = cx_direction k,
       pr_entry_reference_price = ez_entry_reference_price (ep_entry_zone p),
       pr_invalidation_price = ti_invalidation_price (ep_invalidation p),
       pr_target_prices = map ta_price (ep_targets p),
       pr_reference_quantity = pz_reference_quantity (ep_position p),
       pr_reference_notional = pz_reference_notional (ep_position p),
       pr_risk_per_unit = pz_risk_per_unit (ep_position p),
       pr_virtual_account_pusd = pz_virtual_account_pusd (ep_position p)\<rparr>)"

definition backtest_plan_of :: "uuid \<Rightarrow> eligibility_plan \<Rightarrow> backtest_plan" where
  "backtest_plan_of plan_id p =
     \<lparr>bpl_reference = plan_reference_of plan_id p, bpl_eligible = True, bpl_as_of = ep_as_of p,
      bpl_expiry_at = ep_expiry_at p, bpl_entry_low = ez_entry_low (ep_entry_zone p),
      bpl_entry_high = ez_entry_high (ep_entry_zone p)\<rparr>"

section \<open>The cores\<close>

definition strategy_core ::
  "core_inputs \<Rightarrow> datetime \<Rightarrow> string \<Rightarrow> symbol_state \<Rightarrow> evaluation_outcome option core_answer" where
  "strategy_core ci now name s =
     (case strategy_context (ci_strategy ci) (ci_strategy_hash ci) now name s of
        None \<Rightarrow> Core_Answer None
      | Some x \<Rightarrow>
          (case evaluate_context (ci_sha ci) (ci_candidate_id ci now name) x (ci_strategy ci) of
             None \<Rightarrow> Core_Raised
           | Some out \<Rightarrow> Core_Answer (Some out)))"

definition risk_core ::
  "core_inputs \<Rightarrow> datetime \<Rightarrow> symbol_state \<Rightarrow> setup_candidate \<Rightarrow> technical_level list \<Rightarrow>
     backtest_plan option core_answer" where
  "risk_core ci now s k levels =
     (case evaluate_candidate (replay_risk_context ci now s (candidate_snapshot_of k) levels) (ci_risk ci) (ci_costs ci) of
        Outcome_Raised \<Rightarrow> Core_Raised
      | Outcome_Rejected _ \<Rightarrow> Core_Answer None
      | Outcome_Plan p \<Rightarrow> Core_Answer (Some (backtest_plan_of (ci_plan_id ci now (sc_candidate_id k)) p)))"

definition program_cores :: "core_inputs \<Rightarrow> research_cores" where
  "program_cores ci = \<lparr>rc_strategy = strategy_core ci, rc_risk = risk_core ci\<rparr>"

section \<open>The contexts see closed candles\<close>

lemma last_revisions_length: "length (last_revisions ks) \<le> length ks"
  by (induction ks rule: last_revisions.induct) auto

lemma ordered_closed_length: "length (ordered_closed ks now) \<le> length (filter (\<lambda>k. close_time k \<le> now) ks)"
  unfolding ordered_closed_def using last_revisions_length by (metis length_sort)

text \<open>The test before the series is built changes nothing.\<close>

lemma series_from_built:
  "series_from tf ks now n m = (case build_series tf ks now n m of Inl _ \<Rightarrow> None | Inr series \<Rightarrow> Some series)"
proof (cases "length ks < n")
  case True
  then have "length (ordered_closed ks now) < n"
    using ordered_closed_length [of ks now] length_filter_le [of "\<lambda>k. close_time k \<le> now" ks] by linarith
  then show ?thesis using True by (simp add: series_from_def build_series_def Let_def)
qed (simp add: series_from_def)

lemma series_from_closed:
  "series_from tf (filter (\<lambda>k. close_time k \<le> now) ks) now n m = series_from tf ks now n m"
  using build_series_future [of now "filter (\<lambda>k. close_time k \<le> now) ks" ks tf n m]
  by (cases "build_series tf ks now n m"; cases "build_series tf (filter (\<lambda>k. close_time k \<le> now) ks) now n m")
    (auto simp: series_from_built)

definition closed_part :: "datetime \<Rightarrow> symbol_state \<Rightarrow> symbol_state" where
  "closed_part now s = s\<lparr>ss_candles := (\<lambda>tf. filter (\<lambda>k. close_time k \<le> now) (ss_candles s tf))\<rparr>"

lemma closed_part_fields:
  "ss_candles (closed_part now s) tf = filter (\<lambda>k. close_time k \<le> now) (ss_candles s tf)"
  "ss_instrument_pk (closed_part now s) = ss_instrument_pk s"
  "ss_instrument_id (closed_part now s) = ss_instrument_id s"
  "ss_asset_class (closed_part now s) = ss_asset_class s"
  "ss_best_bid (closed_part now s) = ss_best_bid s"
  "ss_best_ask (closed_part now s) = ss_best_ask s"
  "ss_mark_price (closed_part now s) = ss_mark_price s"
  "ss_bbo_at (closed_part now s) = ss_bbo_at s"
  "ss_book_bids (closed_part now s) = ss_book_bids s"
  "ss_book_asks (closed_part now s) = ss_book_asks s"
  "ss_book_fresh (closed_part now s) = ss_book_fresh s"
  "ss_funding_rate (closed_part now s) = ss_funding_rate s"
  "ss_session_state (closed_part now s) = ss_session_state s"
  "ss_session_allowed (closed_part now s) = ss_session_allowed s"
  "ss_watchlist_active (closed_part now s) = ss_watchlist_active s"
  "ss_data_quality_status (closed_part now s) = ss_data_quality_status s"
  "ss_data_quality_ok (closed_part now s) = ss_data_quality_ok s"
  "ss_market_quality_score (closed_part now s) = ss_market_quality_score s"
  "ss_instrument_status (closed_part now s) = ss_instrument_status s"
  "ss_max_leverage (closed_part now s) = ss_max_leverage s"
  "ss_min_notional (closed_part now s) = ss_min_notional s"
  "ss_tick_size (closed_part now s) = ss_tick_size s"
  "ss_price_decimals (closed_part now s) = ss_price_decimals s"
  "ss_quantity_decimals (closed_part now s) = ss_quantity_decimals s"
  "ss_maintenance_margin_rate (closed_part now s) = ss_maintenance_margin_rate s"
  "ss_initial_margin_rate (closed_part now s) = ss_initial_margin_rate s"
  "replay_book_snapshot (closed_part now s) = replay_book_snapshot s"
  "replay_funding_snapshot (closed_part now s) = replay_funding_snapshot s"
  by (simp_all add: closed_part_def replay_book_snapshot_def replay_funding_snapshot_def)

lemma closed_part_contexts:
  "strategy_context cfg h now name (closed_part now s) = strategy_context cfg h now name s"
  "replay_risk_context ci now (closed_part now s) k levels = replay_risk_context ci now s k levels"
proof -
  have "replay_series cfg now (closed_part now s) tf = replay_series cfg now s tf" for tf
    by (simp add: replay_series_def closed_part_fields series_from_closed)
  then show "strategy_context cfg h now name (closed_part now s) = strategy_context cfg h now name s"
    by (simp add: strategy_context_def replay_market_def closed_part_fields split: option.split)
  have "replay_atr cfg now (closed_part now s) tf = replay_atr cfg now s tf" for cfg tf
    by (simp add: replay_atr_def closed_part_fields series_from_closed)
  then show "replay_risk_context ci now (closed_part now s) k levels = replay_risk_context ci now s k levels"
    by (simp add: replay_risk_context_def replay_instrument_def closed_part_fields)
qed

text \<open>
  C34.  The cores see closed candles only: what the strategy and the risk engine answer in a replay does not change
  when every candle that closes later is taken out of the state.
\<close>

theorem cores_see_closed_candles:
  "rc_strategy (program_cores ci) now name (closed_part now s) = rc_strategy (program_cores ci) now name s \<and>
   rc_risk (program_cores ci) now (closed_part now s) k levels = rc_risk (program_cores ci) now s k levels"
  by (simp add: program_cores_def strategy_core_def risk_core_def closed_part_contexts)

end
