(* ===== verification/Simulation_Results.thy ===== *)
theory Simulation_Results
  imports Simulation_Core
begin

text \<open>
  What the simulation guarantees about its results, and where its accounting departs from what it documents.
\<close>

section \<open>Modelled legs\<close>

definition execution_sound :: "modelled_execution \<Rightarrow> bool" where
  "execution_sound e \<longleftrightarrow> 0 < me_modelled_price e \<and> 0 < me_quantity e \<and> 0 \<le> me_fee_cost e \<and>
     0 \<le> me_slippage_cost e \<and> 0 \<le> me_notional e"

lemma model_execution_sound:
  assumes "sound_assumptions s f"
    and "model_execution leg entering bull quantity m f mode s x c d = Inr e"
  shows "execution_sound e \<and> me_quantity e = quantity \<and> me_as_of e = mr_as_of m \<and> ds_fresh (mr_book m)"
  using assms(2) fee_cost_nonneg [OF assms(1)]
  by (auto simp: model_execution_def Let_def execution_sound_def split: if_splits option.splits intro!: float_nonneg)

text \<open>The schedule of the inputs, if there is one, has no negative rates.\<close>

definition sound_inputs :: "simulation_inputs \<Rightarrow> cost_settings \<Rightarrow> bool" where
  "sound_inputs i s \<longleftrightarrow> valid_cost_settings s \<and>
     (case si_fee_schedule i of None \<Rightarrow> True | Some f \<Rightarrow> sound_assumptions s f)"

lemma model_entry_sound:
  assumes "sound_inputs i s" "model_entry (si_plan i) (si_entry_market i) (si_fee_schedule i) s sh = Inr e"
  shows "execution_sound e"
  using assms
  by (auto simp: model_entry_def sound_inputs_def dest: model_execution_sound
      split: option.splits if_splits sum.splits)

lemma model_exit_sound:
  assumes "sound_inputs i s" "model_exit (si_plan i) r (si_exit_market i) (si_fee_schedule i) quantity s sh = Inr e"
  shows "execution_sound e"
  using assms
  by (auto simp: model_exit_def sound_inputs_def dest: model_execution_sound split: option.splits if_splits)

lemma map_sum_Some: "map_sum id Some x = Inr (Some e) \<longleftrightarrow> x = Inr e"
  by (cases x) auto

lemma partial_sound:
  assumes "sound_inputs i s"
    and "model_partial_reduction (si_plan i) (si_exit_market i) (si_fee_schedule i) s sh = Inr (Some e)"
  shows "execution_sound e"
  using assms
  by (auto simp: model_partial_reduction_def Let_def sound_inputs_def map_sum_Some
      dest: model_execution_sound split: option.splits if_splits)

lemma model_funding_sound:
  assumes "valid_cost_settings s" "0 \<le> notional"
    and "model_funding p funding notional hold_seconds entry_at s sh = Inr f"
  shows "0 \<le> mo_funding_cost f \<and> (mo_data_available f \<longrightarrow> mo_warnings f = [])"
  using assms projection_nonneg [OF assms(1,2), of "max 1 \<lceil>fdiv (max 0 hold_seconds) 60\<rceil>"]
  by (auto simp: model_funding_def missing_funding_def Let_def split: if_splits option.splits sum.splits)

text \<open>A finished result: every part is there, the costs are not negative, and the net is not above the gross.\<close>

definition breakdown_sound :: "cost_breakdown \<Rightarrow> bool" where
  "breakdown_sound c \<longleftrightarrow> 0 \<le> cb_entry_fee c \<and> 0 \<le> cb_exit_fee c \<and> 0 \<le> cb_entry_slippage c \<and>
     0 \<le> cb_exit_slippage c \<and> 0 \<le> cb_funding_cost c"

lemma breakdown_sound_of:
  assumes "execution_sound entry" "execution_sound exit_leg" "partial \<noteq> None \<Longrightarrow> execution_sound (the partial)"
    and "0 \<le> mo_funding_cost funding"
  shows "breakdown_sound (cost_breakdown_of entry exit_leg partial funding)"
  using assms
  by (auto simp: breakdown_sound_def cost_breakdown_of_def execution_sound_def split: option.split
      intro!: float_nonneg)

lemma net_at_most_gross:
  assumes "breakdown_sound c" "is_float gross"
  shows "net_result gross c \<le> gross"
  unfolding net_result_def costs_total_def fees_total_def slippage_total_def
  using assms by (intro subtracting_costs) (auto simp: breakdown_sound_def intro!: float_nonneg)

lemma gross_is_float: "is_float (gross_result p entry exit_leg partial)"
  by (simp add: gross_result_def Let_def split: option.split)

definition finished_sound :: "shadow_settings \<Rightarrow> position_result \<Rightarrow> bool" where
  "finished_sound sh po \<longleftrightarrow>
     (case (po_exit_execution po, po_funding po, po_costs po, po_gross_result po, po_net_result po) of
        (Some exit_leg, Some funding, Some costs, Some gross, Some net) \<Rightarrow>
          execution_sound (po_entry po) \<and> execution_sound exit_leg \<and> breakdown_sound costs \<and> net \<le> gross \<and>
          (sh_require_complete_cost_data sh \<longrightarrow> mo_data_available funding) \<and>
          (po_data_completeness po = DC_COMPLETE \<longrightarrow> mo_data_available funding \<and> po_warnings po = [])
      | _ \<Rightarrow> False)"

lemma closed_position_sound:
  assumes "execution_sound (po_entry po)" "execution_sound exit_leg"
    and "partial \<noteq> None \<Longrightarrow> execution_sound (the partial)" "0 \<le> mo_funding_cost funding"
    and "po_state (closed_position po sh r exit_leg partial hold funding warnings) = PS_CLOSED_SIMULATION"
  shows "finished_sound sh (closed_position po sh r exit_leg partial hold funding warnings)"
  using assms breakdown_sound_of [OF assms(1-4)] net_at_most_gross gross_is_float
  by (auto simp: closed_position_def Let_def finished_sound_def split: if_splits)

lemma simulate_exit_sound:
  assumes "sound_inputs i s" "execution_sound (po_entry po)" "po_state po \<noteq> PS_CLOSED_SIMULATION"
    and "simulate_exit i sh s po seen r = Inr po'" "po_state po' = PS_CLOSED_SIMULATION"
  shows "finished_sound sh po'"
proof -
  obtain reduction where red: "reduction = (if r = XR_TARGET_1_OBSERVED then Inr None
      else model_partial_reduction (si_plan i) (si_exit_market i) (si_fee_schedule i) s sh)" by blast
  let ?partial = "case reduction of Inl _ \<Rightarrow> None | Inr part \<Rightarrow> part"
  have partial: "?partial \<noteq> None \<Longrightarrow> execution_sound (the ?partial)"
    using partial_sound [OF assms(1)] by (auto simp: red split: if_splits sum.splits)
  from assms(4,5) obtain quantity exit_leg hold funding warnings where
    exit_leg: "model_exit (si_plan i) r (si_exit_market i) (si_fee_schedule i) quantity s sh = Inr exit_leg"
    and funding: "model_funding (si_plan i) (si_funding i) (me_notional (po_entry po)) hold
        (me_as_of (po_entry po)) s sh = Inr funding"
    and po': "po' = closed_position po sh r exit_leg ?partial hold funding warnings"
    by (auto simp: simulate_exit_def Let_def red [symmetric] split: sum.splits if_splits)
  have "0 \<le> mo_funding_cost funding"
    using model_funding_sound [OF _ _ funding] assms(1,2) by (simp add: sound_inputs_def execution_sound_def)
  from closed_position_sound [OF assms(2) model_exit_sound [OF assms(1) exit_leg] partial this] assms(5) po'
  show ?thesis by blast
qed

lemma unfinished_simps [simp]:
  "po_state (unfinished g i sh h base entry) = PS_OPEN_SIMULATION"
  "po_entry (unfinished g i sh h base entry) = entry"
  by (simp_all add: unfinished_def)

section \<open>Durations\<close>

lemma timedelta_seconds_le:
  assumes "0 \<le> x" "x \<le> of_int n"
  shows "timedelta_seconds x \<le> n * 1000000"
proof (cases "x = of_int n")
  case False
  with assms have n: "\<lfloor>x\<rfloor> + 1 \<le> n" by linarith
  have million: "fl (1000000 * 1) = 1000000" using fl_of_int [of 1000000] by simp
  have "fl (1000000 * (x - of_int \<lfloor>x\<rfloor>)) \<le> of_int 1000000"
    using fl_mono [of "1000000 * (x - of_int \<lfloor>x\<rfloor>)" "1000000 * 1"] million by simp linarith
  then have "round_half_even (fl (1000000 * (x - of_int \<lfloor>x\<rfloor>))) \<le> 1000000"
    using round_half_even_mono round_half_even_of_int by metis
  with n assms(1) show ?thesis by (simp add: timedelta_seconds_def truncate_float_def Let_def)
qed (simp add: timedelta_seconds_of_int)

section \<open>An example\<close>

text \<open>A short of two units, sold at an average of 127 and closed an hour later at 65, without fees or funding.\<close>

definition example_market :: "depth_level list \<Rightarrow> depth_level list \<Rightarrow> datetime \<Rightarrow> market_reference" where
  "example_market bids asks now = \<lparr>mr_as_of = now,
     mr_book = \<lparr>ds_instrument_id = 1, ds_bids = bids, ds_asks = asks, ds_fresh = True, ds_snapshot_at = Some now\<rparr>,
     mr_best_bid = first_price bids, mr_best_ask = first_price asks, mr_mark_price = None,
     mr_bbo_at = Some now, mr_book_at = Some now, mr_data_quality_ok = True\<rparr>"

definition example_plan_reference :: plan_reference where
  "example_plan_reference = \<lparr>pr_plan_id = 1, pr_candidate_id = 2, pr_instrument_pk = 1, pr_instrument_id = 1,
     pr_symbol = ''BTC'', pr_asset_class = ''CRYPTO'', pr_candidate_type = ''SWEEP'', pr_direction = ''BEARISH'',
     pr_entry_reference_price = 127, pr_invalidation_price = 135, pr_target_prices = [66],
     pr_reference_quantity = 2, pr_reference_notional = 254, pr_risk_per_unit = 8,
     pr_virtual_account_pusd = 10000\<rparr>"

definition example_observation :: "string \<Rightarrow> int \<Rightarrow> datetime \<Rightarrow> lifecycle_observation" where
  "example_observation st v now = \<lparr>lo_signal_id = 7, lo_plan_id = 1, lo_candidate_id = 2, lo_state = st,
     lo_event_type = st, lo_state_version = v, lo_as_of = now\<rparr>"

definition example_inputs :: simulation_inputs where
  "example_inputs = \<lparr>si_lifecycle_signal_id = 7, si_plan = example_plan_reference,
     si_entry_observation = example_observation ''ENTRY_CONFIRMED'' 3 0,
     si_exit_observation = Some (example_observation ''TARGET_1_REACHED'' 5 3600000000),
     si_entry_market = Some (example_market [(128, 1), (126, 1)] [] 0),
     si_exit_market = Some (example_market [] [(64, 1), (66, 1)] 3600000000),
     si_fee_schedule = Some example_schedule,
     si_funding = Some \<lparr>fu_current_rate = Some 0, fu_history = [], fu_next_funding_at = None,
       fu_interval_hours = 1, fu_data_fresh = True\<rparr>,
     si_session_allowed = True, si_data_quality_ok = True, si_bot_paused = False, si_duplicate_exists = False,
     si_plan_audit_available = True, si_candidate_audit_available = True, si_run_id = 9,
     si_as_of = 3600000000, si_exit_reason = Some XR_TARGET_1_OBSERVED\<rparr>"

definition example_shadow :: shadow_settings where
  "example_shadow = default_shadow_settings\<lparr>sh_mode_enabled := True\<rparr>"

definition example_costs :: cost_settings where
  "example_costs = example_cost_settings\<lparr>cs_funding_buffer_bps := 0, cs_orderbook_max_distance_bps := 500\<rparr>"

definition example_generator :: generator where
  "example_generator = \<lparr>gn_sha = (\<lambda>s. s), gn_unit = (\<lambda>_. 0), gn_lognormal = (\<lambda>_ _ _. 0)\<rparr>"

lemma example_fractions:
  "fl (1 / 128) = 1 / 128" "fl (1 / 64) = 1 / 64" "fl (1 / 32) = 1 / 32"
  "fl (625 / 8) = 625 / 8" "fl (625 / 4) = 625 / 4" "fl (625 / 2) = 625 / 2" "fl (- 1) = - 1"
  using fl_representable [of 1 "- 7"] fl_representable [of 1 "- 6"] fl_representable [of 1 "- 5"]
    fl_representable [of 625 "- 3"] fl_representable [of 625 "- 2"] fl_representable [of 625 "- 1"]
    fl_representable [of "- 1" 0]
  by (simp_all add: power_int_def power_divide)

lemma example_residual: "\<not> 1 \<le> fl (1 / 1000000000000)"
  using fl_mono [of "1 / 1000000000000" "1 / 32"] example_fractions(3) by simp

lemma example_legs:
  "walk_book (mr_book (example_market [(128, 1), (126, 1)] [] 0)) SIDE_BID 2 25 500 = \<lparr>vw_side = SIDE_BID,
     vw_requested_quantity = 2, vw_filled_quantity = 2, vw_unfilled_quantity = 0, vw_vwap_price = Some 127,
     vw_reference_price = Some 128, vw_slippage_abs = Some 1, vw_slippage_bps = Some (625 / 8),
     vw_levels_consumed = 2\<rparr>"
  "walk_book (mr_book (example_market [] [(64, 1), (66, 1)] 3600000000)) SIDE_ASK 2 25 500 = \<lparr>vw_side = SIDE_ASK,
     vw_requested_quantity = 2, vw_filled_quantity = 2, vw_unfilled_quantity = 0, vw_vwap_price = Some 65,
     vw_reference_price = Some 64, vw_slippage_abs = Some 1, vw_slippage_bps = Some (625 / 4),
     vw_levels_consumed = 2\<rparr>"
  by (simp_all add: walk_book_def example_market_def within_distance_def fadd_def fsub_def fmul_def fdiv_def
      fl_numerals example_fractions example_residual Let_def)

lemmas example_simulation_defs = example_inputs_def example_plan_reference_def example_observation_def
  example_shadow_def example_costs_def example_cost_settings_def default_cost_settings_def
  default_shadow_settings_def example_schedule_def

lemma example_market_simps [simp]:
  "mr_data_quality_ok (example_market bids asks now)" "mr_as_of (example_market bids asks now) = now"
  "ds_fresh (mr_book (example_market bids asks now))" "mr_book_at (example_market bids asks now) = Some now"
  "staleness_seconds (example_market bids asks now) now = Some 0"
  by (simp_all add: example_market_def staleness_seconds_def total_seconds_def)

lemma example_simulated:
  "\<exists>r. simulate example_generator example_inputs example_shadow example_costs [] 0 = Inr r \<and>
     po_state r = PS_CLOSED_SIMULATION \<and> me_notional (po_entry r) = 254 \<and>
     map_option me_notional (po_exit_execution r) = Some 130 \<and>
     map_option fees_total (po_costs r) = Some 0 \<and> map_option cb_funding_cost (po_costs r) = Some 0 \<and>
     po_net_result r = Some 120"
  by (simp add: simulate_def simulation_admission_def admissible_lifecycle_states_def model_entry_def
      model_execution_def consumed_side_def adverse_sign_def pr_bullish_def example_legs fully_filled_def
      stress_bps_for_def shifted_price_def fee_cost_def rate_for_def excessive_entry_def simulate_exit_def
      model_exit_def execution_mode_for_def model_funding_def project_funding_def recent_rates_def
      adverse_rate_def percentile_of_def intervals_in_def total_seconds_def closed_position_def unfinished_def
      gross_result_def cost_breakdown_of_def net_result_def costs_total_def fees_total_def slippage_total_def
      sign_of_def fadd_def fsub_def fmul_def fdiv_def fl_numerals example_fractions example_simulation_defs Let_def)

section \<open>Properties\<close>

text \<open>
  C27.  A finished simulation is conservative: in every result the simulation closes, both legs were modelled at
  positive prices, no friction is negative, the net result is not above the gross result, funding data was
  there if the settings require complete data, and a result called complete has no warning.
\<close>

theorem finished_simulation_is_conservative:
  assumes "sound_inputs i s" "simulate g i sh s h base = Inr r" "po_state r = PS_CLOSED_SIMULATION"
  shows "finished_sound sh r"
proof -
  from assms(2,3) obtain entry seen reason where
    entry: "model_entry (si_plan i) (si_entry_market i) (si_fee_schedule i) s sh = Inr entry"
    and finish: "simulate_exit i sh s (unfinished g i sh h base entry) seen reason = Inr r"
    by (auto simp: simulate_def Let_def split: option.splits sum.splits)
  from simulate_exit_sound [OF assms(1) _ _ finish assms(3)] model_entry_sound [OF assms(1) entry]
  show ?thesis by simp
qed

theorem finished_simulation_is_conservative_witness:
  "\<exists>r. simulate example_generator example_inputs example_shadow example_costs [] 0 = Inr r \<and>
     finished_sound example_shadow r"
proof -
  have "sound_inputs example_inputs example_costs"
    by (simp add: sound_inputs_def sound_assumptions_def valid_cost_settings_def example_simulation_defs fl_nonneg)
  with example_simulated show ?thesis by (blast intro: finished_simulation_is_conservative)
qed

text \<open>
  Slippage is charged twice: the gross result is the difference of the modelled prices, which contain the
  slippage of both legs, and the net result subtracts that slippage again.  In the example two units are sold
  for 254 and bought back for 130 without fees or funding, and the net result is 120.
\<close>

theorem slippage_charged_twice:
  "\<exists>r. simulate example_generator example_inputs example_shadow example_costs [] 0 = Inr r \<and>
     po_state r = PS_CLOSED_SIMULATION \<and> me_notional (po_entry r) - me_notional (the (po_exit_execution r)) = 124 \<and>
     map_option fees_total (po_costs r) = Some 0 \<and> map_option cb_funding_cost (po_costs r) = Some 0 \<and>
     po_net_result r = Some 120"
  using example_simulated by force

text \<open>
  The modelled delay is bounded: whatever the generator draws, a follower enters not before the event and
  at most an hour after it.
\<close>

theorem delay_bounded:
  "lo_as_of seen \<le> dl_scheduled_entry_at (realize_delay g seen sh base) \<and>
   dl_scheduled_entry_at (realize_delay g seen sh base) \<le> lo_as_of seen + 3600000000"
  using timedelta_seconds_le [of "max 0 (min (drawn_delay g sh (seed_for g seen base)) 3600)" 3600]
    timedelta_seconds_nonneg [of "max 0 (min (drawn_delay g sh (seed_for g seen base)) 3600)"]
  by (simp add: realize_delay_def max_modelled_delay_seconds_def Let_def)

text \<open>
  A recent quote hides an old book: when the quote is as new as the reference, the age of the book makes
  no difference to the modelled execution, which then carries the old time of the book.
\<close>

theorem recent_quote_hides_old_book:
  assumes "mr_bbo_at m = Some (mr_as_of m)" "old \<le> mr_as_of m"
  shows "model_execution leg entering bull quantity (m\<lparr>mr_book_at := Some old\<rparr>) f mode s x c d =
    map_sum id (\<lambda>e. e\<lparr>me_book_at := Some old\<rparr>)
      (model_execution leg entering bull quantity (m\<lparr>mr_book_at := Some (mr_as_of m)\<rparr>) f mode s x c d)"
  using assms
  by (simp add: model_execution_def staleness_seconds_def max_def Let_def split: option.split)

theorem recent_quote_hides_old_book_witness:
  "\<exists>e. model_execution LK_MODELLED_ENTRY True False 2
     ((example_market [(128, 1), (126, 1)] [] 0)\<lparr>mr_book_at := Some (- 86400000000)\<rparr>) example_schedule ENTRY_TAKER
     example_costs 30 SR_ENTRY_BOOK_STALE SR_ENTRY_BOOK_INSUFFICIENT_DEPTH = Inr e \<and>
     me_book_at e = Some (- 86400000000)"
proof -
  let ?m = "example_market [(128, 1), (126, 1)] [] 0"
  have "\<exists>e. model_execution LK_MODELLED_ENTRY True False 2 (?m\<lparr>mr_book_at := Some (mr_as_of ?m)\<rparr>) example_schedule
      ENTRY_TAKER example_costs 30 SR_ENTRY_BOOK_STALE SR_ENTRY_BOOK_INSUFFICIENT_DEPTH = Inr e"
    using example_legs(1)
    by (simp add: model_execution_def consumed_side_def adverse_sign_def fully_filled_def stress_bps_for_def
        shifted_price_def staleness_seconds_def total_seconds_def fadd_def fsub_def fmul_def fdiv_def fl_numerals
        example_simulation_defs Let_def)
      (simp add: example_market_def total_seconds_def)
  then show ?thesis
    by (subst recent_quote_hides_old_book) (auto simp: example_market_def)
qed

end
