(* ===== verification/Backtest_Safety.thy ===== *)
theory Backtest_Safety
  imports Backtest Simulation_Results
begin

text \<open>
  What holds of every backtest, whatever the strategy and risk cores answer: nothing later than the clock is in
  the state, a modelled entry is never earlier than its delay, a lifecycle is simulated at most once; and where
  checkpoints and the limit on events lose track.
\<close>

section \<open>Instants\<close>

definition no_later :: "datetime \<Rightarrow> datetime option \<Rightarrow> bool" where
  "no_later now x = (case x of None \<Rightarrow> True | Some t \<Rightarrow> t \<le> now)"

lemma no_later_simps [simp]: "no_later now None" "no_later now (Some t) \<longleftrightarrow> t \<le> now"
  by (simp_all add: no_later_def)

lemma no_later_mono: "now \<le> now' \<Longrightarrow> no_later now x \<Longrightarrow> no_later now' x"
  by (auto simp: no_later_def split: option.splits)

text \<open>The clocks of the yielded events never go back and stand at the events.\<close>

lemma yields_from_first:
  assumes "yields_from limit n previous c (e # es) = (x # seen, ending, c')" "re_as_of e \<le> ck_end_at c"
  shows "\<exists>key. x = (e, c\<lparr>ck_now := re_as_of e\<rparr>) \<and> ck_now c \<le> re_as_of e \<and>
    yields_from limit (Suc n) (Some key) (c\<lparr>ck_now := re_as_of e\<rparr>) es = (seen, ending, c')"
proof (cases "event_key e")
  case (Inr key)
  with assms show ?thesis
    by (intro exI [of _ key]) (auto simp: advance_to_def guard_def split: if_splits prod.splits)
qed (use assms in simp)

lemma yields_clocks:
  assumes "list_all (\<lambda>e. re_as_of e \<le> ck_end_at c) es" "yields_from limit n previous c es = (seen, ending, c')"
  shows "sorted (ck_now c # map (ck_now \<circ> snd) seen @ [ck_now c'])"
  using assms
proof (induction es arbitrary: n previous c seen ending c')
  case (Cons e es)
  show ?case
  proof (cases seen)
    case (Cons x seen')
    with Cons.prems yields_from_first obtain key where x: "x = (e, c\<lparr>ck_now := re_as_of e\<rparr>)"
      and le: "ck_now c \<le> re_as_of e"
      and rest: "yields_from limit (Suc n) (Some key) (c\<lparr>ck_now := re_as_of e\<rparr>) es = (seen', ending, c')"
      by (metis list.pred_inject(2))
    from Cons.IH [OF _ rest] Cons.prems(1) have "sorted (re_as_of e # map (ck_now \<circ> snd) seen' @ [ck_now c'])" by (simp add: comp_def)
    with x le Cons show ?thesis by (auto simp: comp_def)
  qed (use Cons.prems in \<open>auto simp: advance_to_def guard_def violated_def split: sum.splits if_splits prod.splits\<close>)
qed simp

lemma source_clocks:
  assumes "replay_source provider limit c = (seen, ending, c')"
  shows "sorted (ck_now c # map (ck_now \<circ> snd) seen @ [ck_now c'])"
proof (cases "sorted_events (fixture_events provider (ck_start_at c) (ck_end_at c))")
  case (Inr es)
  then have "list_all (\<lambda>e. re_as_of e \<le> ck_end_at c) es"
    by (auto simp: sorted_events_def fixture_events_def list_all_iff split: if_splits)
  with assms Inr yields_clocks show ?thesis by (simp add: replay_source_def)
qed (use assms in \<open>simp add: replay_source_def\<close>)

section \<open>The state of the market\<close>

definition symbol_seen :: "datetime \<Rightarrow> symbol_state \<Rightarrow> bool" where
  "symbol_seen now s \<longleftrightarrow> no_later now (ss_bbo_at s) \<and> no_later now (ss_book_at s) \<and>
     list_all (\<lambda>(t, r). t \<le> now) (ss_funding_history s) \<and>
     (\<forall>tf. list_all (\<lambda>k. close_time k \<le> now) (ss_candles s tf))"

lemma symbol_seen_new [simp]: "symbol_seen now new_symbol_state"
  by (simp add: symbol_seen_def new_symbol_state_def)

lemma symbol_seen_mono: "now \<le> now' \<Longrightarrow> symbol_seen now s \<Longrightarrow> symbol_seen now' s"
  by (fastforce simp: symbol_seen_def list_all_iff intro: no_later_mono)

lemma symbol_seen_update [simp]:
  "t \<le> now \<Longrightarrow> symbol_seen now s \<Longrightarrow> symbol_seen now (apply_book t p s)"
  "t \<le> now \<Longrightarrow> symbol_seen now s \<Longrightarrow> symbol_seen now (apply_funding t rate next_at hours s)"
  "t \<le> now \<Longrightarrow> symbol_seen now s \<Longrightarrow> symbol_seen now (apply_quote t q s)"
  "close_time k \<le> now \<Longrightarrow> symbol_seen now s \<Longrightarrow> symbol_seen now (apply_candle k s)"
  by (auto simp: symbol_seen_def apply_book_def apply_funding_def apply_quote_def apply_candle_def append_candle_def
      Let_def list_all_iff dest: in_set_dropD split: option.splits)

lemma apply_event_seen:
  assumes "apply_event e c w = (Inr w', c')" "\<forall>name. symbol_seen (ck_now c) (w name)"
  shows "ck_now c' = ck_now c \<and> (\<forall>name. symbol_seen (ck_now c) (w' name))"
proof -
  have same: "symbol_seen now (s\<lparr>ss_instrument_status := a, ss_instrument_pk := b, ss_instrument_id := d, ss_asset_class := f\<rparr>)
      = symbol_seen now s"
    "symbol_seen now (s\<lparr>ss_session_state := a, ss_session_allowed := g, ss_watchlist_active := h\<rparr>)
      = symbol_seen now s" for now s a b d f g h by (simp_all add: symbol_seen_def)
  show ?thesis
    using assms
    by (cases "map_of replay_categories (re_category e)"; cases "the (map_of replay_categories (re_category e))";
        cases "re_payload e") (auto simp: apply_event_def guard_def Let_def same split: if_splits)
qed

lemma apply_event_now:
  assumes "apply_event e c w = (out, c')"
  shows "ck_now c' = ck_now c"
  using assms
  by (cases "map_of replay_categories (re_category e)"; cases "the (map_of replay_categories (re_category e))";
      cases "re_payload e") (auto simp: apply_event_def guard_def violated_def Let_def split: if_splits)

section \<open>Lifecycles and results\<close>

text \<open>The entry of a lifecycle is due after its delay, and captured no earlier.\<close>

definition lifecycle_causal :: "backtest_config \<Rightarrow> datetime \<Rightarrow> backtest_lifecycle \<Rightarrow> bool" where
  "lifecycle_causal b now l \<longleftrightarrow>
     (case bl_entry_observation l of
        None \<Rightarrow> bl_entry_due_at l = None \<and> bl_entry_market l = None
      | Some seen \<Rightarrow>
          bl_state l \<noteq> WATCHING_ENTRY \<and> lo_as_of seen \<le> now \<and>
          bl_entry_due_at l = Some (dl_scheduled_entry_at
            (realize_delay (bc_generator b) seen (bc_shadow b) (bc_seed_base b))) \<and>
          (case bl_entry_market l of
             None \<Rightarrow> True
           | Some m \<Rightarrow> dl_scheduled_entry_at (realize_delay (bc_generator b) seen (bc_shadow b) (bc_seed_base b))
                 \<le> mr_as_of m \<and> mr_as_of m \<le> now \<and> no_later (mr_as_of m) (mr_book_at m)))"

lemma lifecycle_causal_mono: "now \<le> now' \<Longrightarrow> lifecycle_causal b now l \<Longrightarrow> lifecycle_causal b now' l"
  by (auto simp: lifecycle_causal_def split: option.splits)

lemma lifecycle_causal_new [simp]: "lifecycle_causal b now (new_lifecycle i p)"
  by (simp add: lifecycle_causal_def new_lifecycle_def)

lemma lifecycle_causal_step:
  assumes "lifecycle_causal b now l"
  shows "lifecycle_causal b now (lifecycle_step b now s k l)"
  using assms
  by (auto simp: lifecycle_causal_def lifecycle_step_def confirm_entry_def terminate_def observe_def Let_def
      split: option.splits)

lemma lifecycle_causal_capture:
  assumes "lifecycle_causal b (ck_now c) l" "symbol_seen (ck_now c) data"
  shows "lifecycle_causal b (ck_now c) (capture_entry c data l)"
  using assms
  by (auto simp: lifecycle_causal_def capture_entry_def market_reference_of_def symbol_seen_def split: option.splits)

lemma lifecycle_causal_simulated [simp]:
  "lifecycle_causal b now (l\<lparr>bl_simulated := x\<rparr>) = lifecycle_causal b now l"
  by (simp add: lifecycle_causal_def split: option.split)

text \<open>A result whose legs lie in the past, the entry not before the end of the delay, on books of their time.\<close>

definition leg_causal :: "datetime \<Rightarrow> datetime \<Rightarrow> modelled_execution \<Rightarrow> bool" where
  "leg_causal earliest now e \<longleftrightarrow>
     earliest \<le> me_as_of e \<and> me_as_of e \<le> now \<and> no_later (me_as_of e) (me_book_at e)"

definition result_causal :: "datetime \<Rightarrow> position_result \<Rightarrow> bool" where
  "result_causal now po \<longleftrightarrow>
     po_event_reference_at po \<le> dl_scheduled_entry_at (po_delay po) \<and>
     leg_causal (dl_scheduled_entry_at (po_delay po)) now (po_entry po) \<and>
     (case po_exit_execution po of None \<Rightarrow> True | Some x \<Rightarrow> leg_causal (me_as_of (po_entry po)) now x)"

lemma result_causal_mono: "now \<le> now' \<Longrightarrow> result_causal now po \<Longrightarrow> result_causal now' po"
  by (auto simp: result_causal_def leg_causal_def split: option.splits)

lemma result_causal_approximated [simp]: "result_causal now (approximated w po) = result_causal now po"
  by (simp add: approximated_def result_causal_def split: option.split)

lemma model_execution_stamps:
  "model_execution leg entering bull quantity m f mode s x c d = Inr e \<Longrightarrow>
     me_as_of e = mr_as_of m \<and> me_book_at e = mr_book_at m"
  by (auto simp: model_execution_def Let_def split: if_splits option.splits)

lemma model_entry_stamps:
  "model_entry p market schedule s sh = Inr e \<Longrightarrow>
     \<exists>m. market = Some m \<and> me_as_of e = mr_as_of m \<and> me_book_at e = mr_book_at m"
  by (auto simp: model_entry_def dest: model_execution_stamps split: option.splits if_splits sum.splits)

lemma model_exit_stamps:
  "model_exit p r market schedule quantity s sh = Inr e \<Longrightarrow>
     \<exists>m. market = Some m \<and> me_as_of e = mr_as_of m \<and> me_book_at e = mr_book_at m"
  by (auto simp: model_exit_def dest: model_execution_stamps split: option.splits if_splits)

lemma simulate_exit_stamps:
  assumes "simulate_exit i sh s po seen r = Inr po'" "po_exit_execution po = None"
  shows "po_entry po' = po_entry po \<and> po_delay po' = po_delay po \<and>
    po_event_reference_at po' = po_event_reference_at po \<and>
    (case po_exit_execution po' of None \<Rightarrow> True
     | Some x \<Rightarrow> \<exists>m. si_exit_market i = Some m \<and> me_as_of x = mr_as_of m \<and> me_book_at x = mr_book_at m)"
proof -
  obtain reduction where red: "reduction = (if r = XR_TARGET_1_OBSERVED then Inr None
      else model_partial_reduction (si_plan i) (si_exit_market i) (si_fee_schedule i) s sh)" by blast
  show ?thesis
    using assms model_exit_stamps
    by (fastforce simp: simulate_exit_def Let_def red [symmetric] closed_position_def split: sum.splits if_splits)
qed

lemma simulate_stamps:
  assumes "simulate g i sh s h base = Inr po"
  shows "po_delay po = realize_delay g (si_entry_observation i) sh base \<and>
    po_event_reference_at po = lo_as_of (si_entry_observation i) \<and>
    (\<exists>m. si_entry_market i = Some m \<and> me_as_of (po_entry po) = mr_as_of m \<and> me_book_at (po_entry po) = mr_book_at m) \<and>
    (case po_exit_execution po of None \<Rightarrow> True
     | Some x \<Rightarrow> \<exists>m. si_exit_market i = Some m \<and> me_as_of x = mr_as_of m \<and> me_book_at x = mr_book_at m)"
proof -
  from assms obtain entry where entry: "model_entry (si_plan i) (si_entry_market i) (si_fee_schedule i) s sh = Inr entry"
    and rest: "po = unfinished g i sh h base entry \<or>
      (\<exists>seen r. simulate_exit i sh s (unfinished g i sh h base entry) seen r = Inr po)"
    by (auto simp: simulate_def Let_def split: option.splits sum.splits)
  have start: "po_delay (unfinished g i sh h base entry) = realize_delay g (si_entry_observation i) sh base"
    "po_event_reference_at (unfinished g i sh h base entry) = lo_as_of (si_entry_observation i)"
    "po_exit_execution (unfinished g i sh h base entry) = None" by (simp_all add: unfinished_def)
  from rest show ?thesis
    using model_entry_stamps [OF entry] start
    by (auto dest!: simulate_exit_stamps)
qed

lemma delay_scheduled: "lo_as_of seen \<le> dl_scheduled_entry_at (realize_delay g seen sh base)"
  by (simp add: realize_delay_def Let_def timedelta_seconds_nonneg)

lemma simulate_lifecycle_causal:
  assumes "simulate_lifecycle b run_id c name data l = Some (Inr po)"
    and "lifecycle_causal b (ck_now c) l" "symbol_seen (ck_now c) data"
  shows "result_causal (ck_now c) po"
proof -
  from assms(1) obtain seen ended r po' where seen: "bl_entry_observation l = Some seen"
    and sim: "simulate (bc_generator b) (replay_inputs b run_id c data l seen ended r) (bc_shadow b) (bc_costs b)
      (bc_config_hash b) (bc_seed_base b) = Inr po'"
    and po: "po = approximated (entry_capture_warning (bc_shadow b) l) po'"
    by (auto simp: simulate_lifecycle_def map_sum_def split: if_splits option.splits sum.splits)
  have inputs: "si_entry_observation (replay_inputs b run_id c data l seen ended r) = seen"
    "si_entry_market (replay_inputs b run_id c data l seen ended r) = bl_entry_market l"
    "si_exit_market (replay_inputs b run_id c data l seen ended r) = Some (market_reference_of c data)"
    by (simp_all add: replay_inputs_def)
  from simulate_stamps [OF sim, unfolded inputs] obtain m where m: "bl_entry_market l = Some m"
    "me_as_of (po_entry po') = mr_as_of m" "me_book_at (po_entry po') = mr_book_at m"
    "po_delay po' = realize_delay (bc_generator b) seen (bc_shadow b) (bc_seed_base b)"
    "po_event_reference_at po' = lo_as_of seen" by blast
  have exit_leg: "me_as_of x = ck_now c" "me_book_at x = ss_book_at data" if "po_exit_execution po' = Some x" for x
    using simulate_stamps [OF sim, unfolded inputs] that by (auto simp: market_reference_of_def)
  have entry: "dl_scheduled_entry_at (po_delay po') \<le> mr_as_of m" "mr_as_of m \<le> ck_now c"
    "no_later (mr_as_of m) (mr_book_at m)"
    using assms(2) seen m by (simp_all add: lifecycle_causal_def)
  show ?thesis
    using entry m exit_leg assms(3) delay_scheduled [of seen]
    unfolding po result_causal_approximated
    by (auto simp: result_causal_def leg_causal_def symbol_seen_def split: option.split)
qed

section \<open>The pipeline keeps what holds\<close>

text \<open>
  The lifecycles that results and rejections name, and the books of a run: each simulated lifecycle left one
  result or one rejection in its name, no other lifecycle left any, and each started lifecycle has the next
  fresh identifier.
\<close>

definition outcome_names :: "position_result list \<Rightarrow> simulation_rejection list \<Rightarrow> uuid option list" where
  "outcome_names results rejections =
     map (\<lambda>po. Some (po_lifecycle_signal_id po)) results @ map sj_lifecycle_signal_id rejections"

definition accounted :: "backtest_config \<Rightarrow> backtest_state \<Rightarrow> bool" where
  "accounted b s \<longleftrightarrow>
     mset (outcome_names (bs_simulations s) (bs_rejections s)) =
       mset (map (\<lambda>l. Some (bl_signal_id l)) (filter bl_simulated (bs_lifecycles s))) \<and>
     map bl_signal_id (bs_lifecycles s) = map (bc_new_id b) [0..<length (bs_lifecycles s)]"

definition state_causal :: "backtest_config \<Rightarrow> datetime \<Rightarrow> backtest_state \<Rightarrow> bool" where
  "state_causal b now s \<longleftrightarrow> (\<forall>name. symbol_seen now (bs_data s name)) \<and>
     list_all (lifecycle_causal b now) (bs_lifecycles s) \<and> list_all (result_causal now) (bs_simulations s) \<and>
     accounted b s"

lemma state_causal_mono: "now \<le> now' \<Longrightarrow> state_causal b now s \<Longrightarrow> state_causal b now' s"
  by (auto simp: state_causal_def list_all_iff
      intro: symbol_seen_mono lifecycle_causal_mono result_causal_mono)

lemma state_causal_cong:
  assumes "bs_data s' = bs_data s" "bs_lifecycles s' = bs_lifecycles s" "bs_simulations s' = bs_simulations s"
    and "bs_rejections s' = bs_rejections s"
  shows "state_causal b now s' = state_causal b now s"
  using assms by (simp add: state_causal_def accounted_def)

lemma stage_strategy_causal:
  "stage_strategy cores t name s = Some s' \<Longrightarrow> state_causal b now s' = state_causal b now s"
  by (rule state_causal_cong) (auto simp: stage_strategy_def split: option.splits core_answer.splits)

lemma risk_step_causal:
  "risk_step cores t name planned entry s = Some s' \<Longrightarrow> state_causal b now s' = state_causal b now s"
  by (rule state_causal_cong)
    (auto simp: risk_step_def Let_def split: prod.splits option.splits core_answer.splits if_splits)

lemma risk_steps_causal:
  "risk_steps cores t name planned entries s = Some s' \<Longrightarrow> state_causal b now s' = state_causal b now s"
  by (induction entries arbitrary: s) (auto simp: bind_eq_Some_conv dest: risk_step_causal)

lemma stage_risk_causal: "stage_risk cores t name s = Some s' \<Longrightarrow> state_causal b now s' = state_causal b now s"
  unfolding stage_risk_def by (rule risk_steps_causal)

text \<open>A change of the lifecycles that leaves the simulated ones simulated, under their names.\<close>

lemma map_lifecycles_causal:
  assumes "state_causal b now s" "\<And>l. lifecycle_causal b now l \<Longrightarrow> lifecycle_causal b now (f l)"
    and "\<And>l. bl_simulated (f l) = bl_simulated l \<and> bl_signal_id (f l) = bl_signal_id l"
  shows "state_causal b now (s\<lparr>bs_lifecycles := map f (bs_lifecycles s)\<rparr>)"
  using assms by (auto simp: state_causal_def accounted_def list_all_iff filter_map comp_def)

text \<open>The identifiers of the lifecycles that start are the next fresh ones.\<close>

lemma enumerated_names: "map (\<lambda>x. f (fst x)) (List.enumerate k xs) = map f [k..<k + length xs]"
  by (induction xs arbitrary: k) (simp_all add: upt_conv_Cons del: upt_Suc)

lemma next_names: "map f [0..<n] @ map (\<lambda>k. f (n + k)) [0..<m] = map f [0..<n + m]"
  by (induction m) auto

lemma admit_plans_names:
  assumes "map bl_signal_id (bs_lifecycles s) = map (bc_new_id b) [0..<length (bs_lifecycles s)]"
  shows "map bl_signal_id (admit_plans b t name s) = map (bc_new_id b) [0..<length (admit_plans b t name s)]"
proof -
  have id: "bl_signal_id (new_lifecycle i p) = i" for i p by (simp add: new_lifecycle_def)
  show ?thesis
    using assms
    by (simp add: admit_plans_def Let_def case_prod_beta comp_def id
        enumerated_names [of "\<lambda>n. bc_new_id b (length (bs_lifecycles s) + n)"] next_names)
qed

lemma admit_plans_causal:
  assumes "state_causal b now s"
  shows "state_causal b now (s\<lparr>bs_lifecycles := admit_plans b t name s\<rparr>)"
proof -
  obtain news where news: "admit_plans b t name s = bs_lifecycles s @ map (\<lambda>(i, p). new_lifecycle i p) news"
    using that [of "map (\<lambda>(n, p). (bc_new_id b (length (bs_lifecycles s) + n), p)) (List.enumerate 0
        (filter (starts_lifecycle t name (map (pr_plan_id \<circ> bpl_reference \<circ> bl_plan) (bs_lifecycles s))) (bs_plans s)))"]
    by (simp add: admit_plans_def Let_def case_prod_beta comp_def)
  have "filter bl_simulated (map (\<lambda>(i, p). new_lifecycle i p) news) = []"
    by (induction news) (auto simp: new_lifecycle_def)
  moreover have "list_all (lifecycle_causal b now) (map (\<lambda>(i, p). new_lifecycle i p) news)"
    by (induction news) auto
  ultimately show ?thesis
    using assms admit_plans_names [of s b t name] by (simp add: state_causal_def accounted_def news)
qed

lemma lifecycle_step_simulated [simp]: "bl_simulated (lifecycle_step b now data k l) = bl_simulated l"
  "bl_signal_id (lifecycle_step b now data k l) = bl_signal_id l"
  by (simp_all add: lifecycle_step_def confirm_entry_def terminate_def Let_def)

lemma stage_lifecycle_causal:
  assumes "state_causal b now s"
  shows "state_causal b now (stage_lifecycle b now name s)"
proof (cases "replay_last_5m (bs_data s name)")
  case None
  with admit_plans_causal [OF assms] show ?thesis by (simp add: stage_lifecycle_def Let_def)
next
  case (Some k)
  with map_lifecycles_causal [OF admit_plans_causal [OF assms, of now name], of
      "\<lambda>l. if bl_symbol l \<noteq> name \<or> bl_terminal_at l \<noteq> None then l else lifecycle_step b now (bs_data s name) k l"]
  show ?thesis by (simp add: stage_lifecycle_def Let_def lifecycle_causal_step)
qed

lemma stage_entry_capture_causal:
  assumes "state_causal b (ck_now c) s"
  shows "state_causal b (ck_now c) (stage_entry_capture c name s)"
  unfolding stage_entry_capture_def
proof (rule map_lifecycles_causal [OF assms])
  fix l
  assume "lifecycle_causal b (ck_now c) l"
  with assms lifecycle_causal_capture
  show "lifecycle_causal b (ck_now c) (if bl_symbol l \<noteq> name then l else capture_entry c (bs_data s name) l)"
    by (simp add: state_causal_def)
qed (simp add: capture_entry_def)

text \<open>The lifecycle an outcome names is the simulated one.\<close>

definition outcome_name :: "simulation_rejection + position_result \<Rightarrow> uuid option" where
  "outcome_name x = (case x of Inr po \<Rightarrow> Some (po_lifecycle_signal_id po) | Inl sj \<Rightarrow> sj_lifecycle_signal_id sj)"

lemma simulate_exit_name:
  "simulate_exit i sh s po seen r = Inr po' \<Longrightarrow> po_lifecycle_signal_id po' = po_lifecycle_signal_id po"
  by (auto simp: simulate_exit_def Let_def closed_position_def split: sum.splits if_splits)

lemma simulate_name: "outcome_name (simulate g i sh s h base) = Some (si_lifecycle_signal_id i)"
proof -
  have "po_lifecycle_signal_id (unfinished g i sh h base entry) = si_lifecycle_signal_id i" for entry
    by (simp add: unfinished_def)
  then show ?thesis
    using simulate_exit_name
    by (fastforce simp: simulate_def outcome_name_def build_rejection_def Let_def split: option.splits sum.splits)
qed

lemma simulated_lifecycle:
  assumes "simulate_lifecycle b run_id c name data l = Some x"
  shows "\<not> bl_simulated l \<and> outcome_name x = Some (bl_signal_id l)"
proof -
  obtain seen ended r where x: "x = map_sum id (approximated (entry_capture_warning (bc_shadow b) l))
      (simulate (bc_generator b) (replay_inputs b run_id c data l seen ended r) (bc_shadow b) (bc_costs b)
        (bc_config_hash b) (bc_seed_base b))" and once: "\<not> bl_simulated l"
    using assms by (auto simp: simulate_lifecycle_def split: if_splits option.splits)
  have "outcome_name (map_sum id (approximated w) y) = outcome_name y" for w y
    by (cases y) (auto simp: outcome_name_def approximated_def split: option.split)
  with once show ?thesis unfolding x by (simp add: simulate_name) (simp add: replay_inputs_def)
qed

lemma outcome_names_split:
  "mset (outcome_names (List.map_filter (\<lambda>x. case x of Inr po \<Rightarrow> Some po | Inl _ \<Rightarrow> None) xs)
     (List.map_filter (\<lambda>x. case x of Inl sj \<Rightarrow> Some sj | Inr _ \<Rightarrow> None) xs)) = mset (map outcome_name xs)"
  by (induction xs) (auto simp: outcome_names_def outcome_name_def List.map_filter_simps split: sum.split)

lemma outcome_names_append:
  "mset (outcome_names (ps @ ps') (rs @ rs')) = mset (outcome_names ps rs) + mset (outcome_names ps' rs')"
  by (simp add: outcome_names_def)

lemma simulated_names:
  assumes "\<And>l x. f l = Some x \<Longrightarrow> \<not> bl_simulated l \<and> outcome_name x = Some (bl_signal_id l)"
  shows "mset (map (\<lambda>l. Some (bl_signal_id l)) (filter bl_simulated ls)) + mset (map outcome_name (List.map_filter f ls))
    = mset (map (\<lambda>l. Some (bl_signal_id l))
        (filter bl_simulated (map (\<lambda>l. if f l = None then l else l\<lparr>bl_simulated := True\<rparr>) ls)))"
  using assms by (induction ls) (auto simp: List.map_filter_simps split: option.split)

lemma stage_simulation_causal:
  assumes "state_causal b (ck_now c) s"
  shows "state_causal b (ck_now c) (stage_simulation b run_id c name s)"
proof -
  let ?f = "simulate_lifecycle b run_id c name (bs_data s name)"
  let ?xs = "List.map_filter ?f (bs_lifecycles s)"
  let ?results = "List.map_filter (\<lambda>x. case x of Inr po \<Rightarrow> Some po | Inl _ \<Rightarrow> None) ?xs"
  let ?rejections = "List.map_filter (\<lambda>x. case x of Inl sj \<Rightarrow> Some sj | Inr _ \<Rightarrow> None) ?xs"
  let ?mark = "\<lambda>l. if ?f l = None then l else l\<lparr>bl_simulated := True\<rparr>"
  have "result_causal (ck_now c) po" if "Inr po \<in> set ?xs" for po
  proof -
    from that obtain l where "l \<in> set (bs_lifecycles s)" "?f l = Some (Inr po)"
      by (auto simp: List.map_filter_def)
    with assms simulate_lifecycle_causal show ?thesis by (auto simp: state_causal_def list_all_iff)
  qed
  then have results: "list_all (result_causal (ck_now c)) ?results"
    by (auto simp: List.map_filter_def [of "\<lambda>x. case x of Inr po \<Rightarrow> Some po | Inl _ \<Rightarrow> None"] list_all_iff
        split: sum.splits)
  have "list_all (lifecycle_causal b (ck_now c)) (map ?mark (bs_lifecycles s))"
    using assms by (auto simp: state_causal_def list_all_iff)
  moreover have "accounted b (stage_simulation b run_id c name s)"
  proof -
    have ids: "map bl_signal_id (map ?mark (bs_lifecycles s)) = map bl_signal_id (bs_lifecycles s)" by simp
    have "mset (outcome_names (bs_simulations s @ ?results) (bs_rejections s @ ?rejections)) =
        mset (map (\<lambda>l. Some (bl_signal_id l)) (filter bl_simulated (bs_lifecycles s))) + mset (map outcome_name ?xs)"
      using assms unfolding outcome_names_append outcome_names_split state_causal_def accounted_def by simp
    with simulated_names [of ?f "bs_lifecycles s", OF simulated_lifecycle] assms ids
    show ?thesis by (simp add: accounted_def stage_simulation_def Let_def state_causal_def)
  qed
  ultimately show ?thesis
    using assms results by (simp add: state_causal_def stage_simulation_def Let_def)
qed

lemma run_pipeline_causal:
  "run_pipeline b cores run_id c name s = Some s' \<Longrightarrow> state_causal b (ck_now c) s \<Longrightarrow> state_causal b (ck_now c) s'"
  by (auto simp: run_pipeline_def bind_eq_Some_conv stage_strategy_causal stage_risk_causal
      intro!: stage_lifecycle_causal stage_entry_capture_causal stage_simulation_causal)

lemma replay_one_causal:
  assumes "replay_one b cores run_id e c data g = Some g'" "state_causal b (ck_now c) ((rp_state g)\<lparr>bs_data := data\<rparr>)"
  shows "state_causal b (ck_now c) (rp_state g')"
  using assms run_pipeline_causal by (auto simp: replay_one_def Let_def split: if_splits)

lemma replay_events_causal:
  assumes "replay_events b cores run_id marker cancelled n ending seen g = (stop, c, g')"
    and "sorted (now # map (ck_now \<circ> snd) seen @ [ck_now (snd ending)])" "state_causal b now (rp_state g)"
  shows "state_causal b (ck_now c) (rp_state g')"
  using assms
proof (induction b cores run_id marker cancelled n ending seen g arbitrary: now rule: replay_events.induct)
  case (2 b cores run_id marker cancelled n ending e ck rest g)
  have later: "state_causal b (ck_now ck) (rp_state g)"
    and rest: "sorted (ck_now ck # map (ck_now \<circ> snd) rest @ [ck_now (snd ending)])"
    using 2(4,5) state_causal_mono by (auto simp: comp_def)
  show ?case
  proof (cases "cancelled n \<or> skipped b marker e")
    case True
    with 2(1) [OF _ _ _ rest later] 2(3) later show ?thesis by (cases "cancelled n") auto
  next
    case False
    show ?thesis
    proof (cases "apply_event e ck (bs_data (rp_state g))")
      case (Pair out ck')
      show ?thesis
      proof (cases out)
        case (Inl err)
        from Pair have "ck_now ck' = ck_now ck" by (rule apply_event_now)
        with Inl Pair False 2(3) later show ?thesis by auto
      next
        case (Inr data)
        with apply_event_seen Pair later have seen: "ck_now ck' = ck_now ck" "\<forall>name. symbol_seen (ck_now ck) (data name)"
          by (auto simp: state_causal_def)
        then have before: "state_causal b (ck_now ck') ((rp_state g)\<lparr>bs_data := data\<rparr>)"
          using later by (simp add: state_causal_def accounted_def)
        show ?thesis
        proof (cases "replay_one b cores run_id e ck' data g")
          case None
          with 2(3) Pair Inr False later seen(1) show ?thesis by auto
        next
          case (Some g1)
          with replay_one_causal before have "state_causal b (ck_now ck') (rp_state g1)" by blast
          with 2(2) [of out ck' data g1] 2(3) rest Pair Inr False seen(1) Some show ?thesis by (auto simp: comp_def)
        qed
      qed
    qed
  qed
qed (auto intro: state_causal_mono)

section \<open>Properties of a run\<close>

lemma start_causal: "state_causal b now (rp_state (start_progress b run_id from_k))"
  by (simp add: state_causal_def start_progress_def new_replay_state_def accounted_def outcome_names_def)

lemma simulated_among_started:
  assumes "accounted b s"
  shows "mset (outcome_names (bs_simulations s) (bs_rejections s))
    \<subseteq># mset (map (Some \<circ> bc_new_id b) [0..<length (bs_lifecycles s)])"
proof -
  have "mset (outcome_names (bs_simulations s) (bs_rejections s))
      \<subseteq># mset (map (\<lambda>l. Some (bl_signal_id l)) (bs_lifecycles s))"
    using assms by (simp add: accounted_def image_mset_subseteq_mono)
  also have "map (\<lambda>l. Some (bl_signal_id l)) (bs_lifecycles s) = map Some (map bl_signal_id (bs_lifecycles s))"
    by simp
  also have "\<dots> = map (Some \<circ> bc_new_id b) [0..<length (bs_lifecycles s)]"
    using assms by (simp add: accounted_def)
  finally show ?thesis .
qed

definition once_each :: "backtest_config \<Rightarrow> backtest_result \<Rightarrow> bool" where
  "once_each b r \<longleftrightarrow> mset (outcome_names (br_simulations r) (br_rejections r)) \<subseteq>#
     mset (map (Some \<circ> bc_new_id b) [0..<br_lifecycles_started r] @ (if br_status r = BR_REJECTED then [None] else []))"

lemma conclude_run_causal:
  assumes "conclude_run b run_id start (stop, c, g) = Inr r" "state_causal b (ck_now c) (rp_state g)"
  shows "list_all (result_causal (br_finished_at r)) (br_simulations r) \<and> once_each b r"
proof -
  have acc: "accounted b (rp_state g)" using assms(2) by (simp add: state_causal_def)
  note subset = simulated_among_started [OF acc]
  have run_rejected: "mset (outcome_names ps (rs @ [build_run_rejection x n k v h t])) =
      mset (outcome_names ps rs) + {#None#}" for ps rs x n k v h t
    by (simp add: outcome_names_def build_run_rejection_def)
  show ?thesis
    using assms subset
    by (auto simp: conclude_run_def finished_run_def Let_def state_causal_def once_each_def run_rejected
        split: run_stop.splits replay_error.splits if_splits)
qed

lemma run_backtest_causal:
  assumes "run_backtest b cores provider limit start run_id from_k cancelled = Inr r"
  shows "list_all (result_causal (br_finished_at r)) (br_simulations r) \<and> once_each b r"
proof -
  obtain seen ending c where source: "replay_source provider limit start = (seen, ending, c)" by (metis prod_cases3)
  obtain stop c' g where out: "replay_events b cores run_id (resume_marker from_k) cancelled 0 (ending, c) seen
      (start_progress b run_id from_k) = (stop, c', g)" by (metis prod_cases3)
  from replay_events_causal [OF out, of "ck_now start"] source_clocks [OF source] start_causal
  have "state_causal b (ck_now c') (rp_state g)" by simp
  with conclude_run_causal assms source out show ?thesis by (auto simp: run_backtest_def)
qed

text \<open>
  C24.  No backtest looks ahead, whatever its data and whatever plans the cores produce: every simulated entry is
  at or after the end of the follower's delay, which itself starts at the confirmation, the exit is not before
  the entry, each leg is filled from a book that existed by then, and nothing is later than the clock at the end.
\<close>

theorem backtest_is_causal:
  "case run_backtest b cores provider limit start run_id from_k cancelled of
     Inl err \<Rightarrow> True
   | Inr r \<Rightarrow> list_all (result_causal (br_finished_at r)) (br_simulations r)"
  using run_backtest_causal [of b cores provider limit start run_id from_k cancelled]
  by (simp split: sum.split)

text \<open>
  C25.  A lifecycle is simulated at most once: the results and the rejections of a run name lifecycles that it
  started, each at most once, counted by the identifiers the lifecycles got when they started.  Only a run
  that was rejected itself has one rejection more, which names no lifecycle.
\<close>

theorem lifecycles_simulated_once:
  "case run_backtest b cores provider limit start run_id from_k cancelled of
     Inl err \<Rightarrow> True
   | Inr r \<Rightarrow>
       mset (map (\<lambda>po. Some (po_lifecycle_signal_id po)) (br_simulations r) @
         map sj_lifecycle_signal_id (br_rejections r)) \<subseteq>#
       mset (map (Some \<circ> bc_new_id b) [0..<br_lifecycles_started r] @
         (if br_status r = BR_REJECTED then [None] else []))"
proof (cases "run_backtest b cores provider limit start run_id from_k cancelled")
  case (Inr r)
  from run_backtest_causal [OF this] have "once_each b r" by simp
  with Inr show ?thesis by (simp only: sum.case once_each_def outcome_names_def)
qed simp

definition example_tick :: "datetime \<Rightarrow> string \<Rightarrow> int \<Rightarrow> replay_payload \<Rightarrow> replay_event" where
  "example_tick t category n p = \<lparr>re_as_of = t, re_category = category, re_symbol = ''BTC'', re_sequence = n,
     re_payload = p\<rparr>"

definition example_ticks :: "replay_event list" where
  "example_ticks = [example_tick 3 ''SESSION_CALENDAR'' 5 (RP_Session None None None),
     example_tick 3 ''TICKER_BBO_TRADES'' 1 (RP_Funding 0 None None)]"

lemma example_source:
  "replay_source example_ticks limit example_replay_clock =
     (let c = example_replay_clock\<lparr>ck_now := 3\<rparr> in
      case limit of
        None \<Rightarrow> (map (\<lambda>e. (e, c)) example_ticks, Exhausted, c)
      | Some 0 \<Rightarrow> ([], Truncated, example_replay_clock)
      | Some (Suc 0) \<Rightarrow> ([(hd example_ticks, c)], Truncated, c)
      | Some n \<Rightarrow> (map (\<lambda>e. (e, c)) example_ticks, Exhausted, c))"
  by (auto simp: replay_source_def sorted_events_def known_category_def replay_categories_def fixture_events_def
      example_ticks_def example_tick_def example_replay_clock_def order_key_def event_key_def priority_of_category_def
      advance_to_def guard_def Let_def split: option.split nat.split)

text \<open>
  The limit on events hides behind success: a run cut short after one of two events ends as completed and
  says that the full requested window was replayed; only a warning tells.
\<close>

theorem truncated_run_looks_complete:
  "\<exists>r. run_backtest (b\<lparr>bc_excluded := []\<rparr>) cores example_ticks (Some 1) example_replay_clock run_id None
      (\<lambda>n. False) = Inr r \<and> br_status r = BR_COMPLETED \<and> br_full_window r \<and> br_events_replayed r = 1 \<and>
    br_warnings r = [MAX_EVENTS_PER_RUN_REACHED]"
  unfolding run_backtest_def example_source
  by (simp add: resume_marker_def skipped_def already_applied_def is_excluded_def
      example_ticks_def example_tick_def apply_event_def guard_def replay_categories_def replay_one_def
      start_progress_def new_checkpoint_def given_or_def conclude_run_def finished_run_def Let_def)

text \<open>
  Resuming loses events: the checkpoint remembers the instant and the sequence, but events of one instant
  are ordered by category first, so the event with the smaller sequence that was still to come is taken for
  applied.  The resumed run completes with one event, the uninterrupted run replays two.
\<close>

theorem resume_loses_event:
  "\<exists>k r full.
    run_backtest (b\<lparr>bc_excluded := []\<rparr>) cores example_ticks None example_replay_clock run_id None (\<lambda>n. n = 1) = Inr k \<and>
    br_events_replayed k = 1 \<and>
    run_backtest (b\<lparr>bc_excluded := []\<rparr>) cores example_ticks None example_replay_clock run_id
      (Some (br_checkpoint k)) (\<lambda>n. False) = Inr r \<and> br_status r = BR_COMPLETED \<and> br_events_replayed r = 1 \<and>
    run_backtest (b\<lparr>bc_excluded := []\<rparr>) cores example_ticks None example_replay_clock run_id None (\<lambda>n. False)
      = Inr full \<and> br_events_replayed full = 2"
  unfolding run_backtest_def example_source
  by (simp add: resume_marker_def skipped_def already_applied_def is_excluded_def
      example_ticks_def example_tick_def apply_event_def guard_def replay_categories_def replay_one_def
      start_progress_def new_checkpoint_def given_or_def conclude_run_def finished_run_def Let_def)

end
