(* ===== verification/Backtest_Plans.thy ===== *)
theory Backtest_Plans
  imports Backtest_Cores Backtest_Safety Risk_Safety Strategy_Safety
begin

text \<open>
  The backtest, the strategy and the risk engine composed: whatever events a run replays, every plan it follows is
  one it was given or a sound plan, made from a replayed state, for a confirmed candidate that passed every gate.
\<close>

section \<open>What is kept of candidates and plans\<close>

definition sound_settings :: "core_inputs \<Rightarrow> bool" where
  "sound_settings ci \<longleftrightarrow> valid_strategy_settings (ci_strategy ci) \<and> valid_risk_settings (ci_risk ci) \<and>
     is_float (rg_max_reference_notional_pusd (ci_risk ci)) \<and>
     (\<forall>name asset. 0 \<le> rg_min_distance_bps (effective_risk_settings (ci_risk ci) name asset))"

definition quoted_in_floats :: "symbol_state \<Rightarrow> bool" where
  "quoted_in_floats s \<longleftrightarrow> option_float (ss_best_bid s) \<and> option_float (ss_best_ask s)"

definition float_event :: "replay_event \<Rightarrow> bool" where
  "float_event e \<longleftrightarrow>
     (case re_payload e of RP_Quote q \<Rightarrow> option_float (rqt_best_bid q) \<and> option_float (rqt_best_ask q) | _ \<Rightarrow> True)"

text \<open>
  The states of the market that the data of a replay reaches by an instant: its events, each applied under a
  clock that stands no later.
\<close>

inductive replayed :: "replay_event list \<Rightarrow> datetime \<Rightarrow> replay_state \<Rightarrow> bool" for provider now where
  replayed_start: "replayed provider now new_replay_state"
| replayed_event: "replayed provider now w \<Longrightarrow> e \<in> set provider \<Longrightarrow> ck_now c \<le> now \<Longrightarrow>
    apply_event e c w = (Inr w', c') \<Longrightarrow> replayed provider now w'"

text \<open>The strategy evaluated, no later than now, the context of a symbol in such a state.\<close>

definition evaluated ::
  "core_inputs \<Rightarrow> replay_event list \<Rightarrow> datetime \<Rightarrow> string \<Rightarrow> evaluation_context \<Rightarrow> evaluation_outcome \<Rightarrow> bool" where
  "evaluated ci provider now name x out \<longleftrightarrow> (\<exists>t w. t \<le> now \<and> replayed provider t w \<and>
     strategy_context (ci_strategy ci) (ci_strategy_hash ci) t name (w name) = Some x \<and>
     evaluate_context (ci_sha ci) (ci_candidate_id ci t name) x (ci_strategy ci) = Some out)"

text \<open>A candidate of such an evaluation, which passed every gate: those of the context and its own.\<close>

definition researched :: "core_inputs \<Rightarrow> replay_event list \<Rightarrow> datetime \<Rightarrow> setup_candidate \<Rightarrow> bool" where
  "researched ci provider now k \<longleftrightarrow> (\<exists>name x out. evaluated ci provider now name x out \<and>
     k \<in> set (eo_candidates out) \<and> context_open x (ci_strategy ci) \<and> candidate_ok x (ci_strategy ci) out k)"

text \<open>The levels known for a symbol: none yet, or those of the structure of such an evaluation.\<close>

definition known_levels ::
  "core_inputs \<Rightarrow> replay_event list \<Rightarrow> datetime \<Rightarrow> string \<Rightarrow> technical_level list \<Rightarrow> bool" where
  "known_levels ci provider now name ls \<longleftrightarrow>
     ls = [] \<or> (\<exists>x out. evaluated ci provider now name x out \<and> ls = levels_from_structure out)"

text \<open>
  A plan that the risk engine made, no later than now, from the replayed state of the symbol for such a
  candidate, confirmed and not expired, and found sound.
\<close>

definition sound_plan :: "core_inputs \<Rightarrow> replay_event list \<Rightarrow> datetime \<Rightarrow> backtest_plan \<Rightarrow> bool" where
  "sound_plan ci provider now p \<longleftrightarrow> (\<exists>t w k known ep.
     let x = replay_risk_context ci t (w (sc_symbol k)) (candidate_snapshot_of k) (levels_for known k) in
     t \<le> now \<and> replayed provider t w \<and> known_levels ci provider t (sc_symbol k) known \<and>
     researched ci provider t k \<and> sc_state k = CONFIRMED \<and> t < sc_expiry_at k \<and>
     evaluate_candidate x (ci_risk ci) (ci_costs ci) = Outcome_Plan ep \<and>
     p = backtest_plan_of (ci_plan_id ci t (sc_candidate_id k)) ep \<and>
     plan_sound x (effective_risk_settings (ci_risk ci) (sc_symbol k) (sc_asset_class k)) ep \<and>
     bpl_as_of p = t \<and> bpl_expiry_at p \<le> sc_expiry_at k)"

definition research_ok ::
  "backtest_config \<Rightarrow> core_inputs \<Rightarrow> replay_event list \<Rightarrow> datetime \<Rightarrow> backtest_state \<Rightarrow> bool" where
  "research_ok b ci provider now s \<longleftrightarrow> replayed provider now (bs_data s) \<and>
     (\<forall>name. known_levels ci provider now name (bs_levels s name)) \<and>
     (\<forall>x \<in> set (bs_candidates s). researched ci provider now (snd x)) \<and>
     (\<forall>p \<in> set (bs_plans s). p \<in> set (bc_seed_plans b) \<or> sound_plan ci provider now p) \<and>
     (\<forall>l \<in> set (bs_lifecycles s). bl_plan l \<in> set (bs_plans s))"

lemma replayed_mono: "replayed provider now w \<Longrightarrow> now \<le> now' \<Longrightarrow> replayed provider now' w"
  by (induction rule: replayed.induct) (auto intro: replayed.intros order_trans)

lemma evaluated_mono: "evaluated ci provider now name x out \<Longrightarrow> now \<le> now' \<Longrightarrow> evaluated ci provider now' name x out"
  unfolding evaluated_def using order_trans by blast

lemma researched_mono: "researched ci provider now k \<Longrightarrow> now \<le> now' \<Longrightarrow> researched ci provider now' k"
  unfolding researched_def using evaluated_mono by blast

lemma known_levels_mono: "known_levels ci provider now name ls \<Longrightarrow> now \<le> now' \<Longrightarrow> known_levels ci provider now' name ls"
  unfolding known_levels_def using evaluated_mono by blast

lemma sound_plan_mono: "sound_plan ci provider now p \<Longrightarrow> now \<le> now' \<Longrightarrow> sound_plan ci provider now' p"
  unfolding sound_plan_def Let_def using order_trans by blast

lemma research_ok_mono: "research_ok b ci provider now s \<Longrightarrow> now \<le> now' \<Longrightarrow> research_ok b ci provider now' s"
  unfolding research_ok_def
  by (auto intro: replayed_mono known_levels_mono researched_mono sound_plan_mono)

section \<open>The stages\<close>

lemma strategy_core_evaluated:
  assumes "strategy_core ci now name (w name) = Core_Answer (Some out)" "replayed provider now w"
  shows "\<exists>x. evaluated ci provider now name x out"
  using assms by (auto simp: strategy_core_def evaluated_def split: option.splits)

lemma evaluated_researched:
  assumes "sound_settings ci" "evaluated ci provider now name x out" "k \<in> set (eo_candidates out)"
  shows "researched ci provider now k"
  using assms evaluated_candidates unfolding sound_settings_def researched_def evaluated_def by blast

lemma update_in: "x \<in> set (AList.update k v al) \<Longrightarrow> x = (k, v) \<or> x \<in> set al"
  by (induction al) (auto split: if_splits)

lemma promoted_in: "x \<in> set (fold promote_candidate found ks) \<Longrightarrow> x \<in> set ks \<or> snd x \<in> set found"
proof (induction found arbitrary: ks)
  case (Cons k found)
  have "y \<in> set ks \<or> snd y = k" if "y \<in> set (promote_candidate k ks)" for y
    using that update_in [of y "sc_dedupe_key k" k ks]
    by (auto simp: promote_candidate_def split: option.splits if_splits)
  with Cons.IH [of "promote_candidate k ks"] Cons.prems show ?case by fastforce
qed simp

lemma stage_strategy_ok:
  assumes "stage_strategy (program_cores ci) now name s = Some s'" "sound_settings ci" "research_ok b ci provider now s"
  shows "research_ok b ci provider now s'"
proof (cases "strategy_core ci now name (bs_data s name)")
  case (Core_Answer answer)
  show ?thesis
  proof (cases answer)
    case (Some out)
    with assms(1) Core_Answer have s': "s' = s\<lparr>bs_levels := (bs_levels s)(name := levels_from_structure out),
        bs_candidates := fold promote_candidate (eo_candidates out) (bs_candidates s)\<rparr>"
      by (simp add: stage_strategy_def program_cores_def)
    obtain x where x: "evaluated ci provider now name x out"
      using strategy_core_evaluated [of ci now name "bs_data s" out provider] Core_Answer Some assms(3)
      by (auto simp: research_ok_def)
    then have "known_levels ci provider now name (levels_from_structure out)" by (auto simp: known_levels_def)
    with s' assms(3) evaluated_researched [OF assms(2) x] promoted_in show ?thesis
      by (fastforce simp: research_ok_def)
  qed (use assms Core_Answer in \<open>simp add: stage_strategy_def program_cores_def\<close>)
qed (use assms in \<open>simp_all add: stage_strategy_def program_cores_def\<close>)

lemma evaluated_plan_fields:
  assumes "evaluate_candidate x settings cs = Outcome_Plan p"
  shows "ep_candidate p = rx_candidate x \<and> ep_as_of p = rx_as_of x \<and> rx_as_of x < cx_expiry_at (rx_candidate x)"
  using assms
  by (auto simp: evaluate_candidate_def plan_of_def rbind_def hard_gate_def Let_def
      split: option.splits sum.splits risk_stop.splits if_splits prod.splits)

lemma risk_core_sound:
  assumes "risk_core ci now (w (sc_symbol k)) k (levels_for known k) = Core_Answer (Some p)"
    and "sound_settings ci" "replayed provider now w" "quoted_in_floats (w (sc_symbol k))"
    and "known_levels ci provider now (sc_symbol k) known"
    and "researched ci provider now k" "sc_state k = CONFIRMED"
  shows "sound_plan ci provider now p"
proof -
  let ?x = "replay_risk_context ci now (w (sc_symbol k)) (candidate_snapshot_of k) (levels_for known k)"
  from assms(1) obtain ep where ep: "evaluate_candidate ?x (ci_risk ci) (ci_costs ci) = Outcome_Plan ep"
    and p: "p = backtest_plan_of (ci_plan_id ci now (sc_candidate_id k)) ep"
    by (auto simp: risk_core_def split: risk_outcome.splits)
  have x: "rx_candidate ?x = candidate_snapshot_of k" "rx_as_of ?x = now" "rx_best_bid ?x = ss_best_bid (w (sc_symbol k))"
    "rx_best_ask ?x = ss_best_ask (w (sc_symbol k))" by (simp_all add: replay_risk_context_def)
  have snapshot: "cx_symbol (candidate_snapshot_of k) = sc_symbol k"
    "cx_asset_class (candidate_snapshot_of k) = sc_asset_class k"
    "cx_expiry_at (candidate_snapshot_of k) = sc_expiry_at k" by (simp_all add: candidate_snapshot_of_def)
  have "float_inputs ?x (ci_risk ci)"
    using assms(2,4) by (simp add: float_inputs_def x snapshot sound_settings_def quoted_in_floats_def)
  with evaluated_plan [OF _ this ep] assms(2)
  have sound: "plan_sound ?x (effective_risk_settings (ci_risk ci) (sc_symbol k) (sc_asset_class k)) ep"
    by (simp add: x snapshot sound_settings_def)
  then have "ep_expiry_at ep \<le> sc_expiry_at k" by (simp add: plan_sound_def x snapshot)
  then have times: "bpl_as_of p = now" "bpl_expiry_at p \<le> sc_expiry_at k" "now < sc_expiry_at k"
    using evaluated_plan_fields [OF ep] by (simp_all add: p backtest_plan_of_def x snapshot)
  show ?thesis
    unfolding sound_plan_def Let_def
    using assms(3,5-7) ep p sound times by blast
qed

lemma risk_step_ok:
  assumes "risk_step (program_cores ci) now name planned entry s = Some s'" "sound_settings ci"
    and "research_ok b ci provider now s" "\<forall>name. quoted_in_floats (bs_data s name)"
    and "researched ci provider now (snd entry)"
  shows "research_ok b ci provider now s' \<and> bs_data s' = bs_data s"
proof (cases entry)
  case (Pair key k)
  let ?levels = "levels_for (bs_levels s name) k"
  show ?thesis
  proof (cases "sc_symbol k \<noteq> name \<or> sc_state k \<noteq> CONFIRMED \<or> sc_candidate_id k \<in> set planned \<or> sc_expiry_at k \<le> now")
    case True
    with assms Pair show ?thesis
      by (auto simp: risk_step_def research_ok_def AList.delete_eq split: if_splits)
  next
    case False
    then have confirmed: "sc_state k = CONFIRMED" "sc_symbol k = name" by simp_all
    show ?thesis
    proof (cases "risk_core ci now (bs_data s name) k ?levels")
      case (Core_Answer answer)
      show ?thesis
      proof (cases answer)
        case (Some p)
        with Core_Answer assms(3-5) Pair confirmed have "sound_plan ci provider now p"
          by (intro risk_core_sound [of ci now "bs_data s" k "bs_levels s name" p provider, OF _ assms(2)])
            (simp_all add: research_ok_def)
        with False Core_Answer Some assms Pair show ?thesis
          by (auto simp: risk_step_def program_cores_def research_ok_def)
      qed (use False Core_Answer assms Pair in \<open>auto simp: risk_step_def program_cores_def\<close>)
    qed (use False assms Pair in \<open>auto simp: risk_step_def program_cores_def research_ok_def\<close>)
  qed
qed

lemma risk_steps_ok:
  assumes "risk_steps (program_cores ci) now name planned entries s = Some s'" "sound_settings ci"
    and "research_ok b ci provider now s" "\<forall>name. quoted_in_floats (bs_data s name)"
    and "\<forall>x \<in> set entries. researched ci provider now (snd x)"
  shows "research_ok b ci provider now s'"
  using assms
proof (induction entries arbitrary: s)
  case (Cons entry rest)
  then obtain s1 where "risk_step (program_cores ci) now name planned entry s = Some s1"
    "risk_steps (program_cores ci) now name planned rest s1 = Some s'" by (auto simp: bind_eq_Some_conv)
  with Cons risk_step_ok [of ci now name planned entry s s1 b provider] show ?case by simp
qed simp

lemma admitted_plans:
  "l \<in> set (admit_plans b now name s) \<Longrightarrow> l \<in> set (bs_lifecycles s) \<or> bl_plan l \<in> set (bs_plans s)"
  by (auto simp: admit_plans_def new_lifecycle_def Let_def in_set_enumerate_eq dest!: nth_mem)

lemma lifecycle_step_plan [simp]: "bl_plan (lifecycle_step b now data k l) = bl_plan l"
  by (simp add: lifecycle_step_def confirm_entry_def terminate_def Let_def)

lemma research_ok_lifecycles:
  assumes "research_ok b ci provider now s" "bs_data s' = bs_data s" "bs_candidates s' = bs_candidates s"
    and "bs_levels s' = bs_levels s" "bs_plans s' = bs_plans s" "\<forall>l \<in> set (bs_lifecycles s'). bl_plan l \<in> set (bs_plans s)"
  shows "research_ok b ci provider now s'"
  using assms unfolding research_ok_def by simp

lemma capture_entry_plan [simp]: "bl_plan (capture_entry c data l) = bl_plan l"
  by (simp add: capture_entry_def)

lemma stage_lifecycle_ok:
  assumes "research_ok b ci provider now s"
  shows "research_ok b ci provider now (stage_lifecycle b t name s)"
proof -
  have admitted: "\<forall>l \<in> set (admit_plans b t name s). bl_plan l \<in> set (bs_plans s)"
    using admitted_plans assms unfolding research_ok_def by blast
  have "\<forall>l \<in> set (bs_lifecycles (stage_lifecycle b t name s)). bl_plan l \<in> set (bs_plans s)"
    using admitted by (cases "replay_last_5m (bs_data s name)") (auto simp: stage_lifecycle_def Let_def)
  then show ?thesis by (rule research_ok_lifecycles [OF assms, rotated 4]) (simp_all add: stage_lifecycle_def Let_def)
qed

lemma stage_entry_capture_ok:
  assumes "research_ok b ci provider now s"
  shows "research_ok b ci provider now (stage_entry_capture c name s)"
proof -
  have "\<forall>l \<in> set (bs_lifecycles (stage_entry_capture c name s)). bl_plan l \<in> set (bs_plans s)"
    using assms by (auto simp: stage_entry_capture_def research_ok_def)
  then show ?thesis by (rule research_ok_lifecycles [OF assms, rotated 4]) (simp_all add: stage_entry_capture_def)
qed

lemma stage_simulation_ok:
  assumes "research_ok b ci provider now s"
  shows "research_ok b ci provider now (stage_simulation b run_id c name s)"
proof -
  have "\<forall>l \<in> set (bs_lifecycles (stage_simulation b run_id c name s)). bl_plan l \<in> set (bs_plans s)"
    using assms by (auto simp: stage_simulation_def research_ok_def Let_def)
  then show ?thesis by (rule research_ok_lifecycles [OF assms, rotated 4]) (simp_all add: stage_simulation_def Let_def)
qed

lemma run_pipeline_ok:
  assumes "run_pipeline b (program_cores ci) run_id c name s = Some s'" "sound_settings ci"
    and "research_ok b ci provider (ck_now c) s" "\<forall>name. quoted_in_floats (bs_data s name)"
  shows "research_ok b ci provider (ck_now c) s'"
proof -
  from assms(1) obtain s1 s2 where s1: "stage_strategy (program_cores ci) (ck_now c) name s = Some s1"
    and s2: "stage_risk (program_cores ci) (ck_now c) name s1 = Some s2"
    and s': "s' = stage_simulation b run_id c name (stage_entry_capture c name (stage_lifecycle b (ck_now c) name s2))"
    unfolding run_pipeline_def map_option_eq_Some bind_eq_Some_conv by blast
  from stage_strategy_ok [OF s1 assms(2,3)] have ok: "research_ok b ci provider (ck_now c) s1" .
  moreover have "bs_data s1 = bs_data s"
    using s1 by (auto simp: stage_strategy_def split: option.splits core_answer.splits)
  moreover from ok have "\<forall>x \<in> set (bs_candidates s1). researched ci provider (ck_now c) (snd x)"
    by (simp add: research_ok_def)
  ultimately have "research_ok b ci provider (ck_now c) s2"
    using s2 risk_steps_ok assms(2,4) unfolding stage_risk_def by metis
  then show ?thesis
    unfolding s' by (rule stage_simulation_ok [OF stage_entry_capture_ok [OF stage_lifecycle_ok]])
qed

section \<open>The run\<close>

lemma quoted_update [simp]:
  "quoted_in_floats (apply_book t p s) = quoted_in_floats s"
  "quoted_in_floats (apply_candle k s) = quoted_in_floats s"
  "quoted_in_floats (apply_funding t r n h s) = quoted_in_floats s"
  "quoted_in_floats s \<Longrightarrow> option_float (rqt_best_bid q) \<Longrightarrow> option_float (rqt_best_ask q) \<Longrightarrow>
     quoted_in_floats (apply_quote t q s)"
  "quoted_in_floats (s\<lparr>ss_instrument_status := a, ss_instrument_pk := b, ss_instrument_id := d, ss_asset_class := f\<rparr>)
     = quoted_in_floats s"
  "quoted_in_floats (s\<lparr>ss_session_state := a', ss_session_allowed := g, ss_watchlist_active := h'\<rparr>) = quoted_in_floats s"
  by (auto simp: quoted_in_floats_def apply_book_def apply_candle_def append_candle_def apply_funding_def
      apply_quote_def Let_def split: option.split)

lemma apply_event_quoted:
  assumes "apply_event e c w = (Inr w', c')" "float_event e" "\<forall>name. quoted_in_floats (w name)"
  shows "\<forall>name. quoted_in_floats (w' name)"
  using assms
  by (cases "map_of replay_categories (re_category e)"; cases "the (map_of replay_categories (re_category e))";
      cases "re_payload e") (auto simp: apply_event_def float_event_def guard_def Let_def split: if_splits)

lemma replayed_quoted:
  assumes "replayed provider now w" "list_all float_event provider"
  shows "\<forall>name. quoted_in_floats (w name)"
  using assms(1)
proof induction
  case replayed_start
  show ?case by (simp add: new_replay_state_def new_symbol_state_def quoted_in_floats_def option_float_def)
next
  case (replayed_event w e c w' c')
  with assms(2) have "float_event e" by (simp add: list_all_iff)
  from apply_event_quoted [OF replayed_event.hyps(4) this replayed_event.IH] show ?case .
qed

lemma replay_one_ok:
  assumes "replay_one b (program_cores ci) run_id e c data g = Some g'" "sound_settings ci"
    and "list_all float_event provider" "research_ok b ci provider (ck_now c) ((rp_state g)\<lparr>bs_data := data\<rparr>)"
  shows "research_ok b ci provider (ck_now c) (rp_state g')"
proof -
  have "replayed provider (ck_now c) data" using assms(4) by (simp add: research_ok_def)
  from replayed_quoted [OF this assms(3)]
  have "\<forall>name. quoted_in_floats (bs_data ((rp_state g)\<lparr>bs_data := data\<rparr>) name)" by simp
  with assms(1,2,4) run_pipeline_ok show ?thesis by (auto simp: replay_one_def Let_def split: if_splits)
qed

lemma replay_events_ok:
  assumes "replay_events b (program_cores ci) run_id marker cancelled n ending seen g = (stop, c, g')"
    and "sorted (now # map (ck_now \<circ> snd) seen @ [ck_now (snd ending)])" "fst ` set seen \<subseteq> set provider"
    and "sound_settings ci" "list_all float_event provider" "research_ok b ci provider now (rp_state g)"
  shows "research_ok b ci provider (ck_now c) (rp_state g')"
  using assms
proof (induction b "program_cores ci" run_id marker cancelled n ending seen g arbitrary: now rule: replay_events.induct)
  case (2 b run_id marker cancelled n ending e ck rest g)
  have later: "research_ok b ci provider (ck_now ck) (rp_state g)"
    and rest: "sorted (ck_now ck # map (ck_now \<circ> snd) rest @ [ck_now (snd ending)])"
    and given: "fst ` set rest \<subseteq> set provider" "e \<in> set provider"
    using 2(4,5,8) research_ok_mono by (auto simp: comp_def)
  show ?case
  proof (cases "cancelled n \<or> skipped b marker e")
    case True
    with 2(1) [OF _ _ _ rest given(1) 2(6,7) later] 2(3) later show ?thesis by (cases "cancelled n") auto
  next
    case False
    show ?thesis
    proof (cases "apply_event e ck (bs_data (rp_state g))")
      case (Pair out ck')
      then have now: "ck_now ck' = ck_now ck" by (rule apply_event_now)
      show ?thesis
      proof (cases out)
        case (Inr data)
        with Pair later given(2) have "replayed provider (ck_now ck) data"
          by (auto simp: research_ok_def intro: replayed_event)
        with later have before: "research_ok b ci provider (ck_now ck') ((rp_state g)\<lparr>bs_data := data\<rparr>)"
          unfolding now by (simp add: research_ok_def)
        show ?thesis
        proof (cases "replay_one b (program_cores ci) run_id e ck' data g")
          case None
          with 2(3) Pair Inr False later now show ?thesis by auto
        next
          case (Some g1)
          with replay_one_ok before 2(6,7) have "research_ok b ci provider (ck_now ck') (rp_state g1)" by blast
          with 2(2) [of out ck' data g1] 2(3,6,7) rest given(1) Pair Inr False now Some show ?thesis by (auto simp: comp_def)
        qed
      qed (use Pair False 2(3) later now in auto)
    qed
  qed
qed (auto intro: research_ok_mono)

lemma yielded_in: "yields_from limit n previous c es = (seen, ending) \<Longrightarrow> fst ` set seen \<subseteq> set es"
proof (induction es arbitrary: n previous c seen ending)
  case (Cons e es)
  show ?case
  proof (cases "event_key e")
    case (Inr key)
    obtain out c1 where step: "advance_to (re_as_of e) c = (out, c1)" by (cases "advance_to (re_as_of e) c")
    obtain out' c2 where look: "guard (Some (re_as_of e)) c1 = (out', c2)" by (cases "guard (Some (re_as_of e)) c1")
    obtain seen' ending' where rest: "yields_from limit (Suc n) (Some key) c2 es = (seen', ending')"
      by (cases "yields_from limit (Suc n) (Some key) c2 es")
    with Cons Inr step look show ?thesis by (fastforce split: if_splits sum.splits prod.splits)
  qed (use Cons in simp)
qed simp

lemma source_in:
  assumes "replay_source provider limit c = (seen, ending)"
  shows "fst ` set seen \<subseteq> set provider"
proof (cases "sorted_events (fixture_events provider (ck_start_at c) (ck_end_at c))")
  case (Inr es)
  then have "set es \<subseteq> set provider" by (auto simp: sorted_events_def fixture_events_def split: if_splits)
  with assms Inr yielded_in show ?thesis by (fastforce simp: replay_source_def)
qed (use assms in \<open>simp add: replay_source_def\<close>)

text \<open>
  C33.  The backtest runs the program's own research and nothing else: with sound settings, whatever events it
  replays, as long as their prices are floats, every plan it
  follows is one it was given or one that the risk engine made from a replayed state of its symbol, no later
  than now, and that is sound under the settings in force.  Its candidate was confirmed and had not expired,
  and came out of the strategy's evaluation of a replayed state, where it passed every gate: those of bot,
  session, data and, where required, watchlist and book on the context, and those of regime, structure, retest,
  score and, where required, momentum and volume.
  Resumed or cancelled runs are included.
\<close>

theorem backtest_follows_sound_plans:
  assumes "sound_settings ci" "list_all float_event provider"
    and "replay_source provider limit start = (seen, ending)"
    and "replay_events b (program_cores ci) run_id marker cancelled 0 ending seen (start_progress b run_id from_k)
      = (stop, c, g)"
    and "l \<in> set (bs_lifecycles (rp_state g))"
  shows "bl_plan l \<in> set (bc_seed_plans b) \<or> sound_plan ci provider (ck_now c) (bl_plan l)"
proof -
  have "research_ok b ci provider (ck_now start) (rp_state (start_progress b run_id from_k))"
    by (simp add: research_ok_def start_progress_def known_levels_def replayed_start)
  moreover have "sorted (ck_now start # map (ck_now \<circ> snd) seen @ [ck_now (snd ending)])"
    using source_clocks [of provider limit start seen "fst ending" "snd ending"] assms(3) by simp
  ultimately have "research_ok b ci provider (ck_now c) (rp_state g)"
    using replay_events_ok [OF assms(4) _ source_in [OF assms(3)] assms(1,2)] by blast
  with assms(5) show ?thesis by (auto simp: research_ok_def)
qed

section \<open>Expired candidates\<close>

text \<open>A confirmed candidate that has a plan.\<close>

definition holds_key :: "string \<Rightarrow> setup_candidate \<Rightarrow> backtest_state \<Rightarrow> bool" where
  "holds_key key k s \<longleftrightarrow> distinct (map fst (bs_candidates s)) \<and> map_of (bs_candidates s) key = Some k \<and>
     sc_state k = CONFIRMED \<and> sc_candidate_id k \<in> set (map (pr_candidate_id \<circ> bpl_reference) (bs_plans s))"

lemma promote_keeps_key:
  assumes "distinct (map fst ks)" "map_of ks key = Some k" "sc_state k = CONFIRMED"
  shows "distinct (map fst (fold promote_candidate found ks)) \<and> map_of (fold promote_candidate found ks) key = Some k"
  using assms
proof (induction found arbitrary: ks)
  case (Cons k' found)
  have "distinct (map fst (promote_candidate k' ks))"
    using Cons.prems(1) by (auto simp: promote_candidate_def map_of_eq_None_iff distinct_update split: option.split)
  moreover have "map_of (promote_candidate k' ks) key = Some k"
    using Cons.prems(2,3) by (auto simp: promote_candidate_def update_conv' map_add_def split: option.split)
  ultimately show ?case using Cons.IH [of "promote_candidate k' ks"] Cons.prems(3) by simp
qed simp

lemma stage_strategy_holds: "stage_strategy cores now name s = Some s' \<Longrightarrow> holds_key key k s \<Longrightarrow> holds_key key k s'"
  using promote_keeps_key
  by (auto simp: stage_strategy_def holds_key_def split: option.splits core_answer.splits)

lemma risk_step_holds:
  assumes "risk_step cores now name planned entry s = Some s'" "holds_key key k s"
    and "fst entry = key \<Longrightarrow> sc_candidate_id (snd entry) \<in> set planned"
  shows "holds_key key k s'"
  using assms
  by (auto simp: risk_step_def holds_key_def distinct_delete delete_conv' Let_def
      split: prod.splits if_splits option.splits core_answer.splits)

lemma risk_steps_holds:
  assumes "risk_steps cores now name planned entries s = Some s'" "holds_key key k s"
    and "\<forall>entry \<in> set entries. fst entry = key \<longrightarrow> sc_candidate_id (snd entry) \<in> set planned"
  shows "holds_key key k s'"
  using assms
proof (induction entries arbitrary: s)
  case (Cons entry rest)
  then obtain s1 where s1: "risk_step cores now name planned entry s = Some s1"
    "risk_steps cores now name planned rest s1 = Some s'" by (auto simp: bind_eq_Some_conv)
  with risk_step_holds [OF s1(1) Cons.prems(2)] Cons.prems(3) have "holds_key key k s1" by simp
  with Cons.IH [OF s1(2)] Cons.prems(3) show ?case by simp
qed simp

lemma stage_risk_holds:
  assumes "stage_risk cores now name s = Some s'" "holds_key key k s"
  shows "holds_key key k s'"
proof -
  have "snd entry = k" if "entry \<in> set (bs_candidates s)" "fst entry = key" for entry
    using that assms(2) map_of_is_SomeI [of "bs_candidates s" "fst entry" "snd entry"] by (auto simp: holds_key_def)
  with assms(2) show ?thesis
    by (intro risk_steps_holds [OF assms(1) [unfolded stage_risk_def]]) (auto simp: holds_key_def)
qed

lemma run_pipeline_holds:
  assumes "run_pipeline b cores run_id c name s = Some s'" "holds_key key k s"
  shows "holds_key key k s'"
proof -
  have later: "holds_key key k (stage_lifecycle b t name s) = holds_key key k s"
    "holds_key key k (stage_entry_capture c name s) = holds_key key k s"
    "holds_key key k (stage_simulation b run_id c name s) = holds_key key k s" for t s
    by (simp_all add: holds_key_def stage_lifecycle_def stage_entry_capture_def stage_simulation_def Let_def)
  from assms obtain s1 s2 where "stage_strategy cores (ck_now c) name s = Some s1"
    "stage_risk cores (ck_now c) name s1 = Some s2"
    "s' = stage_simulation b run_id c name (stage_entry_capture c name (stage_lifecycle b (ck_now c) name s2))"
    unfolding run_pipeline_def map_option_eq_Some bind_eq_Some_conv by blast
  with stage_strategy_holds stage_risk_holds later assms(2) show ?thesis by metis
qed

lemma replay_one_holds:
  assumes "replay_one b cores run_id e c data g = Some g'" "holds_key key k (rp_state g)"
  shows "holds_key key k (rp_state g')"
proof -
  have "holds_key key k ((rp_state g)\<lparr>bs_data := data\<rparr>)" using assms(2) by (simp add: holds_key_def)
  with assms(1) run_pipeline_holds show ?thesis by (auto simp: replay_one_def Let_def split: if_splits)
qed

text \<open>
  C35.  A setup is planned once in a run: as soon as its candidate has a plan, no later event removes or replaces the
  candidate, expired or not, so that its dedupe key (instrument, type, direction and level) stays taken to the
  end.  The comment promises the expiry of the live job, which frees the key.
\<close>

theorem planned_candidate_keeps_key:
  assumes "replay_events b cores run_id marker cancelled n ending seen g = (stop, c, g')"
    and "holds_key key k (rp_state g)"
  shows "map_of (bs_candidates (rp_state g')) key = Some k"
proof -
  have "holds_key key k (rp_state g')"
    using assms
  proof (induction b cores run_id marker cancelled n ending seen g rule: replay_events.induct)
    case (2 b cores run_id marker cancelled n ending e ck rest g)
    then show ?case using replay_one_holds by (fastforce split: if_splits prod.splits sum.splits option.splits)
  qed simp
  then show ?thesis by (simp add: holds_key_def)
qed

section \<open>Example\<close>

text \<open>One closed candle, too few for the strategy, and a plan given to the run, whose lifecycle starts.\<close>

definition example_core_inputs :: core_inputs where
  "example_core_inputs = \<lparr>ci_strategy = default_strategy_settings, ci_risk = example_risk_settings,
     ci_costs = example_risk_costs, ci_fee_schedule = None, ci_strategy_hash = [], ci_risk_hash = [],
     ci_cost_hash = [], ci_snapshot_version = [], ci_sha = (\<lambda>s. s), ci_candidate_id = (\<lambda>_ _ _. 1),
     ci_plan_id = (\<lambda>_ _. 1)\<rparr>"

definition example_seed :: backtest_plan where
  "example_seed = \<lparr>bpl_reference = example_plan_reference, bpl_eligible = True, bpl_as_of = 0, bpl_expiry_at = 100,
     bpl_entry_low = 126, bpl_entry_high = 128\<rparr>"

definition example_run :: backtest_config where
  "example_run = \<lparr>bc_generator = example_generator, bc_shadow = example_shadow, bc_costs = example_costs,
     bc_fee_schedule = None, bc_config_hash = [], bc_excluded = [], bc_seed_plans = [example_seed], bc_seed_base = 0,
     bc_checkpoint_interval = 1, bc_new_id = (\<lambda>n. n)\<rparr>"

definition example_closed :: replay_event where
  "example_closed = example_tick 3 ''CLOSED_CANDLE'' 1 (RP_Candle \<lparr>rk_timeframe_ms = 300000, rk_timeframe = ''5m'',
     rk_open_time = - 300000000, rk_open = 130, rk_high = 131, rk_low = 129, rk_close = 130, rk_volume = 1,
     rk_trade_count = 1\<rparr>)"

lemma example_settings_sound: "sound_settings example_core_inputs"
  using default_strategy_settings_valid example_settings_valid
  by (simp add: sound_settings_def example_core_inputs_def example_effective)
    (simp add: is_float_def example_risk_settings_def default_risk_settings_def fl_numerals)

lemma example_closed_source:
  "replay_source [example_closed] None example_replay_clock =
     ([(example_closed, example_replay_clock\<lparr>ck_now := 3\<rparr>)], Exhausted, example_replay_clock\<lparr>ck_now := 3\<rparr>)"
  by (simp add: replay_source_def sorted_events_def known_category_def replay_categories_def fixture_events_def
      example_closed_def example_tick_def example_replay_clock_def order_key_def event_key_def
      priority_of_category_def advance_to_def guard_def Let_def)

definition example_market_state :: symbol_state where
  "example_market_state = new_symbol_state\<lparr>ss_candles := (\<lambda>_. [])(''5m'' := [\<lparr>rk_timeframe_ms = 300000,
     rk_timeframe = ''5m'', rk_open_time = - 300000000, rk_open = 130, rk_high = 131, rk_low = 129, rk_close = 130,
     rk_volume = 1, rk_trade_count = 1\<rparr>]), ss_mark_price := Some 130\<rparr>"

lemma example_closed_applied:
  "apply_event example_closed (example_replay_clock\<lparr>ck_now := 3\<rparr>) new_replay_state =
     (Inr (new_replay_state(''BTC'' := example_market_state)), example_replay_clock\<lparr>ck_now := 3\<rparr>)"
  by (simp add: apply_event_def example_closed_def example_tick_def guard_def replay_categories_def
      example_replay_clock_def close_time_def apply_candle_def append_candle_def max_buffer_def new_replay_state_def
      example_market_state_def new_symbol_state_def Let_def)

lemma example_lifecycle:
  assumes "bs_data s ''BTC'' = example_market_state" "bs_candidates s = []" "bs_lifecycles s = []"
    and "bs_plans s = [example_seed]" "ck_now c = 3"
  shows "\<exists>s' l. run_pipeline example_run (program_cores example_core_inputs) 9 c ''BTC'' s = Some s' \<and>
    bs_lifecycles s' = [l] \<and> bl_state l = WATCHING_ENTRY \<and> bl_plan l = example_seed"
proof -
  have few: "strategy_core example_core_inputs 3 ''BTC'' example_market_state = Core_Answer None"
    by (simp add: strategy_core_def strategy_context_def replay_series_def series_from_def example_market_state_def
        example_core_inputs_def default_strategy_settings_def)
  then show ?thesis
    using assms
    by (simp add: run_pipeline_def stage_strategy_def stage_risk_def program_cores_def stage_lifecycle_def
        admit_plans_def starts_lifecycle_def stage_entry_capture_def capture_entry_def stage_simulation_def
        simulate_lifecycle_def lifecycle_step_def new_lifecycle_def replay_last_5m_def example_market_state_def
        example_seed_def example_plan_reference_def breached_def bl_bullish_def pr_bullish_def bl_symbol_def Let_def)
qed

theorem backtest_follows_sound_plans_witness:
  "\<exists>stop c g l. replay_events example_run (program_cores example_core_inputs) 9 None (\<lambda>_. False) 0
      (Exhausted, example_replay_clock\<lparr>ck_now := 3\<rparr>) [(example_closed, example_replay_clock\<lparr>ck_now := 3\<rparr>)]
      (start_progress example_run 9 None) = (stop, c, g) \<and>
    bs_lifecycles (rp_state g) = [l] \<and> bl_state l = WATCHING_ENTRY \<and>
    (bl_plan l \<in> set (bc_seed_plans example_run) \<or> sound_plan example_core_inputs [example_closed] (ck_now c) (bl_plan l))"
proof -
  let ?c = "example_replay_clock\<lparr>ck_now := 3\<rparr>" and ?start = "rp_state (start_progress example_run 9 None)"
  let ?s = "?start\<lparr>bs_data := new_replay_state(''BTC'' := example_market_state)\<rparr>"
  obtain s' l where s': "run_pipeline example_run (program_cores example_core_inputs) 9 ?c ''BTC'' ?s = Some s'"
    and l: "bs_lifecycles s' = [l]" "bl_state l = WATCHING_ENTRY"
    using example_lifecycle [of ?s ?c] by (auto simp: start_progress_def example_run_def)
  have start: "bs_data ?start = new_replay_state" by (simp add: start_progress_def)
  have event: "re_category example_closed = ''CLOSED_CANDLE''" "re_symbol example_closed = ''BTC''"
    by (simp_all add: example_closed_def example_tick_def)
  obtain stop c g where run: "replay_events example_run (program_cores example_core_inputs) 9 None (\<lambda>_. False) 0
      (Exhausted, ?c) [(example_closed, ?c)] (start_progress example_run 9 None) = (stop, c, g)"
    by (metis prod_cases3)
  then have "rp_state g = s'"
    using s'
    by (auto simp: skipped_def already_applied_def is_excluded_def example_run_def [THEN arg_cong, of bc_excluded]
        start example_closed_applied replay_one_def event Let_def)
  with l have l_in: "bs_lifecycles (rp_state g) = [l]" by simp
  moreover have "list_all float_event [example_closed]"
    by (simp add: float_event_def example_closed_def example_tick_def)
  ultimately have "bl_plan l \<in> set (bc_seed_plans example_run) \<or> sound_plan example_core_inputs [example_closed] (ck_now c) (bl_plan l)"
    using backtest_follows_sound_plans [OF example_settings_sound _ example_closed_source run] by simp
  with run l(2) l_in show ?thesis by blast
qed

text \<open>A confirmed candidate that expired half an hour after its instant, and was planned.\<close>

definition example_planned_outcome :: rule_outcome where
  "example_planned_outcome = \<lparr>ro_candidate_type = RANGE_BREAKOUT_UP, ro_direction = CANDIDATE_BULLISH, ro_fractions = [],
     ro_referenced_levels = [], ro_structure_events = [], ro_reclaim_status = [], ro_rejection_status = [],
     ro_retest_status = RETEST_CONFIRMED, ro_confirmed = True\<rparr>"

definition example_expired :: setup_candidate where
  "example_expired = build_candidate (\<lambda>s. s) (\<lambda>_. 2) (example_evaluation\<lparr>ex_as_of := - 1800000000\<rparr>) example_bundle
     example_breakout_regime example_planned_outcome default_strategy_settings"

definition example_kept :: run_progress where
  "example_kept = (start_progress example_run 9 None)\<lparr>rp_state :=
     (rp_state (start_progress example_run 9 None))\<lparr>bs_candidates := [(''key'', example_expired)]\<rparr>\<rparr>"

theorem planned_candidate_keeps_key_witness:
  "sc_expiry_at example_expired < 3 \<and>
   (\<exists>stop c g. replay_events example_run (program_cores example_core_inputs) 9 None (\<lambda>_. False) 0
      (Exhausted, example_replay_clock\<lparr>ck_now := 3\<rparr>) [(example_closed, example_replay_clock\<lparr>ck_now := 3\<rparr>)]
      example_kept = (stop, c, g) \<and> map_of (bs_candidates (rp_state g)) ''key'' = Some example_expired)"
proof -
  have fields: "sc_expiry_at example_expired = 0" "sc_state example_expired = CONFIRMED" "sc_candidate_id example_expired = 2"
    by (simp_all add: example_expired_def build_candidate_def example_planned_outcome_def default_strategy_settings_def
        split: prod.split)
  then have "holds_key ''key'' example_expired (rp_state example_kept)"
    by (simp add: holds_key_def example_kept_def start_progress_def example_run_def example_seed_def
        example_plan_reference_def)
  moreover obtain stop c g where "replay_events example_run (program_cores example_core_inputs) 9 None (\<lambda>_. False) 0
      (Exhausted, example_replay_clock\<lparr>ck_now := 3\<rparr>) [(example_closed, example_replay_clock\<lparr>ck_now := 3\<rparr>)]
      example_kept = (stop, c, g)" by (metis prod_cases3)
  ultimately show ?thesis using planned_candidate_keeps_key fields(1) by fastforce
qed

end
