(* ===== verification/Selection_Rules.thy ===== *)
theory Selection_Rules
  imports Sessions Data_Quality Float_Scores
begin

text \<open>
  The rules of the market selection (\<open>app/selection\<close>): the settings, the thresholds of an instrument
  (\<open>liquidity_filters.py\<close>), the market quality score (\<open>market_quality.py\<close>), the hard gates
  (\<open>eligibility.py\<close>) and the decision about one instrument (\<open>evaluate_instrument\<close>).  Prices and notionals are
  binary64 floats as in the code.  A reason is its code; the display text beside it is left out.
\<close>

section \<open>Settings and values\<close>

text \<open>
  The decoded settings.  A JSON object is an association list with unique keys; the depth window is the decimal
  that the text of its float denotes, the form in which the code uses it.
\<close>

datatype override_value = OV_Float float64 | OV_Bool bool

record selection_settings =
  sel_enabled :: bool
  sel_refresh_seconds :: float64
  sel_min_quality_score :: int
  sel_max_watchlist_size :: int
  sel_allowed_asset_classes :: "string list"
  sel_default_allowlist :: "string list"
  sel_denylist :: "string list"
  sel_require_volume :: bool
  sel_require_fresh_orderbook :: bool
  sel_allow_degraded_data :: bool
  sel_notify_state_changes :: bool
  sel_notify_session_changes :: bool
  sel_symbol_overrides :: "(string \<times> (string \<times> override_value) list) list"
  sel_asset_class_policies :: "(string \<times> (string \<times> bool) list) list"
  sel_depth_window_bps :: decimal
  sel_category_map :: "(string \<times> string) list"
  sel_symbol_map :: "(string \<times> string) list"

definition default_selection_settings :: selection_settings where
  "default_selection_settings = \<lparr>sel_enabled = True, sel_refresh_seconds = 30, sel_min_quality_score = 70,
     sel_max_watchlist_size = 5, sel_allowed_asset_classes = [''EQUITY'', ''CRYPTO''],
     sel_default_allowlist = [''AAPL-PERP'', ''BTC-PERP''], sel_denylist = [], sel_require_volume = True,
     sel_require_fresh_orderbook = True, sel_allow_degraded_data = False, sel_notify_state_changes = False,
     sel_notify_session_changes = False, sel_symbol_overrides = [], sel_asset_class_policies = [],
     sel_depth_window_bps = 25,
     sel_category_map = [(''crypto'', ''CRYPTO''), (''cryptocurrency'', ''CRYPTO''), (''equity'', ''EQUITY''),
       (''equities'', ''EQUITY''), (''stock'', ''EQUITY''), (''stocks'', ''EQUITY''), (''index'', ''INDEX''),
       (''indices'', ''INDEX''), (''commodity'', ''COMMODITY''), (''commodities'', ''COMMODITY''),
       (''fx'', ''FX''), (''forex'', ''FX''), (''currency'', ''FX'')],
     sel_symbol_map = []\<rparr>"

record threshold_settings =
  th_equity_max_spread_bps :: float64
  th_crypto_max_spread_bps :: float64
  th_equity_min_book_depth_pusd :: float64
  th_crypto_min_book_depth_pusd :: float64
  th_equity_min_volume_24h_pusd :: float64
  th_crypto_min_volume_24h_pusd :: float64
  th_equity_max_deviation_bps :: float64
  th_crypto_max_deviation_bps :: float64

definition default_threshold_settings :: threshold_settings where
  "default_threshold_settings = \<lparr>th_equity_max_spread_bps = 20, th_crypto_max_spread_bps = 10,
     th_equity_min_book_depth_pusd = 5000, th_crypto_min_book_depth_pusd = 10000,
     th_equity_min_volume_24h_pusd = 100000, th_crypto_min_volume_24h_pusd = 500000,
     th_equity_max_deviation_bps = 75, th_crypto_max_deviation_bps = 50\<rparr>"

datatype selection_reason =
    Status_Reason eligibility_status | REASON_DATA_DEGRADED | REASON_ORDERBOOK_STALE
  | REASON_SPREAD_UNAVAILABLE | REASON_PRICE_CONSISTENCY_UNAVAILABLE | REASON_DEPTH_ASYMMETRY
  | REASON_QUALITY_BELOW_MINIMUM | REASON_WATCHLIST_FULL | REASON_NOT_IN_ALLOWLIST

datatype selection_state =
    DISCOVERED | CLASSIFIED | PENDING_QUALITY | WATCHLIST_ELIGIBLE | WATCHLIST_ACTIVE | WATCHLIST_PAUSED
  | SEL_REJECTED | SEL_REMOVED

record classification_result =
  cl_asset_class :: asset_class
  cl_source :: string
  cl_rule :: string
  cl_confidence :: float64
  cl_classified_at :: datetime

record resolved_thresholds =
  tv_max_spread_bps :: float64
  tv_min_book_depth_pusd :: float64
  tv_min_volume_24h_pusd :: float64
  tv_max_deviation_bps :: float64
  tv_depth_window_bps :: decimal
  tv_require_volume :: bool
  tv_require_fresh_orderbook :: bool
  tv_allow_degraded_data :: bool
  tv_min_quality_score :: int
  tv_tightened :: bool

record live_snapshot =
  li_instrument_active :: bool
  li_data_quality_status :: "instrument_quality_status option"
  li_book_reliable :: bool
  li_book_fresh :: bool
  li_bid_depth_pusd :: "float64 option"
  li_ask_depth_pusd :: "float64 option"
  li_spread_bps :: "float64 option"
  li_bbo_present :: bool
  li_mark_price :: "float64 option"
  li_index_price :: "float64 option"
  li_mid_price :: "float64 option"
  li_volume_24h_pusd :: "float64 option"
  li_volume_fresh :: bool

record quality_result =
  qy_score :: int
  qy_components :: "(string \<times> float64) list"
  qy_reasons :: "selection_reason list"

record selection_inputs =
  in_instrument_pk :: int
  in_instrument_id :: int
  in_symbol :: string
  in_instrument_enabled :: bool
  in_instrument_status :: string
  in_classification :: classification_result
  in_session :: session_verdict
  in_market :: live_snapshot
  in_thresholds :: resolved_thresholds
  in_denylisted :: bool
  in_allowlisted :: bool
  in_configuration_version :: string
  in_evaluated_at :: datetime

record selection_decision =
  sd_selection_id :: uuid
  sd_instrument_pk :: int
  sd_instrument_id :: int
  sd_symbol :: string
  sd_asset_class :: asset_class
  sd_classification_source :: string
  sd_session_state :: string
  sd_calendar_version :: "string option"
  sd_market_status :: string
  sd_data_quality_status :: "instrument_quality_status option"
  sd_selection_state :: selection_state
  sd_eligibility_status :: eligibility_status
  sd_market_quality_score :: "int option"
  sd_quality_components :: "(string \<times> float64) list"
  sd_reasons :: "selection_reason list"
  sd_configuration_version :: string
  sd_evaluated_at :: datetime

definition eligible :: "selection_decision \<Rightarrow> bool" where
  "eligible d \<longleftrightarrow> sd_eligibility_status d = ELIGIBLE"

section \<open>Thresholds\<close>

text \<open>\<open>float(value)\<close>, \<open>bool(value)\<close> and \<open>int(value)\<close> of an override.\<close>

fun float_of_override :: "override_value \<Rightarrow> float64" where
  "float_of_override (OV_Float x) = x"
| "float_of_override (OV_Bool b) = (if b then 1 else 0)"

fun bool_of_override :: "override_value \<Rightarrow> bool" where
  "bool_of_override (OV_Float x) = (x \<noteq> 0)"
| "bool_of_override (OV_Bool b) = b"

fun int_of_override :: "override_value \<Rightarrow> int" where
  "int_of_override (OV_Float x) = truncate_float x"
| "int_of_override (OV_Bool b) = (if b then 1 else 0)"

definition overridden :: "(override_value \<Rightarrow> 'a) \<Rightarrow> (string \<times> override_value) list \<Rightarrow> string \<Rightarrow> 'a \<Rightarrow> 'a" where
  "overridden convert ov key base = (case map_of ov key of None \<Rightarrow> base | Some v \<Rightarrow> convert v)"

definition resolve_thresholds ::
  "asset_class \<Rightarrow> string \<Rightarrow> selection_settings \<Rightarrow> threshold_settings \<Rightarrow> bool \<Rightarrow> resolved_thresholds" where
  "resolve_thresholds ac name s th thin =
     (let eq = (ac = AC_EQUITY);
          ov = (case map_of (sel_symbol_overrides s) name of None \<Rightarrow> [] | Some ov \<Rightarrow> ov);
          spread = overridden float_of_override ov ''max_spread_bps''
            (if eq then th_equity_max_spread_bps th else th_crypto_max_spread_bps th);
          depth = overridden float_of_override ov ''min_book_depth_pusd''
            (if eq then th_equity_min_book_depth_pusd th else th_crypto_min_book_depth_pusd th);
          volume = overridden float_of_override ov ''min_volume_24h_pusd''
            (if eq then th_equity_min_volume_24h_pusd th else th_crypto_min_volume_24h_pusd th);
          deviation = overridden float_of_override ov ''max_mark_index_mid_deviation_bps''
            (if eq then th_equity_max_deviation_bps th else th_crypto_max_deviation_bps th) in
      \<lparr>tv_max_spread_bps = (if thin then fmul spread (fl (7 / 10)) else spread),
       tv_min_book_depth_pusd = (if thin then fmul depth (3 / 2) else depth),
       tv_min_volume_24h_pusd = (if thin then fmul volume (3 / 2) else volume),
       tv_max_deviation_bps = deviation, tv_depth_window_bps = sel_depth_window_bps s,
       tv_require_volume = overridden bool_of_override ov ''require_volume'' (sel_require_volume s),
       tv_require_fresh_orderbook =
         overridden bool_of_override ov ''require_fresh_orderbook'' (sel_require_fresh_orderbook s),
       tv_allow_degraded_data = overridden bool_of_override ov ''allow_degraded_data'' (sel_allow_degraded_data s),
       tv_min_quality_score = overridden int_of_override ov ''min_quality_score'' (sel_min_quality_score s),
       tv_tightened = thin\<rparr>)"

section \<open>Components of the quality score\<close>

text \<open>A division of the code is never by zero: limits and minima divide only where they are positive.\<close>

definition evaluate_spread ::
  "live_snapshot \<Rightarrow> resolved_thresholds \<Rightarrow> float64 \<Rightarrow> float64 \<times> selection_reason list" where
  "evaluate_spread m t points =
     (case (li_bbo_present m, li_spread_bps m) of
        (True, Some spread) \<Rightarrow>
          let limit = tv_max_spread_bps t; half = fdiv limit 2 in
          if limit \<le> spread then (0, [Status_Reason SPREAD_TOO_WIDE])
          else if spread \<le> half then (points, [])
          else (fdiv (fmul points (fsub limit spread)) (fsub limit half), [])
      | _ \<Rightarrow> (0, [REASON_SPREAD_UNAVAILABLE]))"

definition evaluate_depth ::
  "live_snapshot \<Rightarrow> resolved_thresholds \<Rightarrow> float64 \<Rightarrow> float64 \<times> selection_reason list" where
  "evaluate_depth m t points =
     (if \<not> (li_book_reliable m \<and> li_book_fresh m) then (0, [REASON_SPREAD_UNAVAILABLE])
      else case (li_bid_depth_pusd m, li_ask_depth_pusd m) of
        (Some bid, Some ask) \<Rightarrow>
          let minimum = tv_min_book_depth_pusd t; weak = min bid ask; strong = max bid ask;
              uneven = (if 0 < weak \<and> 3 < fdiv strong weak then [REASON_DEPTH_ASYMMETRY] else []) in
          if weak < minimum then (0, uneven @ [Status_Reason INSUFFICIENT_DEPTH])
          else if fmul minimum (3 / 2) \<le> weak then (points, uneven)
          else (fdiv points 2, uneven)
      | _ \<Rightarrow> (0, [Status_Reason INSUFFICIENT_DEPTH]))"

definition evaluate_volume ::
  "live_snapshot \<Rightarrow> resolved_thresholds \<Rightarrow> float64 \<Rightarrow> float64 \<times> selection_reason list" where
  "evaluate_volume m t points =
     (case (li_volume_24h_pusd m, li_volume_fresh m) of
        (Some volume, True) \<Rightarrow>
          let minimum = tv_min_volume_24h_pusd t in
          if volume < minimum then (0, [Status_Reason LOW_VOLUME])
          else if fmul minimum 2 \<le> volume then (points, [])
          else (fadd (fdiv points 2) (fdiv (fmul (fdiv points 2) (fsub volume minimum)) minimum), [])
      | _ \<Rightarrow> (0, [Status_Reason VOLUME_UNAVAILABLE]))"

fun evaluate_data_quality :: "instrument_quality_status option \<Rightarrow> float64 \<times> selection_reason list" where
  "evaluate_data_quality (Some Q_HEALTHY) = (30, [])"
| "evaluate_data_quality (Some Q_DEGRADED) = (15, [REASON_DATA_DEGRADED])"
| "evaluate_data_quality (Some Q_DATA_STALE) = (0, [Status_Reason EL_DATA_STALE])"
| "evaluate_data_quality (Some Q_DATA_INVALID) = (0, [Status_Reason EL_DATA_INVALID])"
| "evaluate_data_quality (Some Q_ORDERBOOK_RESYNCING) = (0, [Status_Reason EL_ORDERBOOK_RESYNCING])"
| "evaluate_data_quality (Some Q_UNAVAILABLE) = (0, [Status_Reason EL_DATA_UNAVAILABLE])"
| "evaluate_data_quality None = (0, [Status_Reason EL_DATA_UNAVAILABLE])"

definition pairwise_deviation_bps :: "live_snapshot \<Rightarrow> float64 option" where
  "pairwise_deviation_bps m =
     (case filter (\<lambda>p. 0 < p) (List.map_filter id [li_mark_price m, li_index_price m, li_mid_price m]) of
        p # q # ps \<Rightarrow>
          let low = foldl min p (q # ps); high = foldl max p (q # ps); anchor = fdiv (fadd low high) 2 in
          Some (fmul (fdiv (fsub high low) anchor) 10000)
      | _ \<Rightarrow> None)"

definition evaluate_consistency :: "live_snapshot \<Rightarrow> resolved_thresholds \<Rightarrow> float64 \<times> selection_reason list" where
  "evaluate_consistency m t =
     (case pairwise_deviation_bps m of
        None \<Rightarrow> (0, [REASON_PRICE_CONSISTENCY_UNAVAILABLE])
      | Some deviation \<Rightarrow>
          let limit = tv_max_deviation_bps t in
          if limit < deviation then (0, [Status_Reason PRICE_INVALID])
          else if deviation \<le> fdiv limit 2 then (5, [])
          else (fmul 5 (fl (4 / 10)), []))"

definition quality_parts ::
  "live_snapshot \<Rightarrow> resolved_thresholds \<Rightarrow> (string \<times> float64 \<times> selection_reason list) list" where
  "quality_parts m t =
     [(''data_quality'', evaluate_data_quality (li_data_quality_status m)),
      (''spread'', evaluate_spread m t 20),
      (''depth'', evaluate_depth m t 20),
      (''volume'', evaluate_volume m t 15),
      (''market_status'', if li_instrument_active m then (10, []) else (0, [Status_Reason MARKET_INACTIVE])),
      (''price_consistency'', evaluate_consistency m t)]"

definition evaluate_market_quality :: "live_snapshot \<Rightarrow> resolved_thresholds \<Rightarrow> quality_result" where
  "evaluate_market_quality m t =
     (let parts = quality_parts m t;
          components = map (\<lambda>(name, points, reasons). (name, round_to 2 points)) parts;
          score = round_half_even (py_sum (map snd components)) in
      \<lparr>qy_score = max 0 (min 100 score), qy_components = components,
       qy_reasons = concat (map (\<lambda>(name, points, reasons). reasons) parts)\<rparr>)"

section \<open>The hard gates\<close>

text \<open>The status that blocks first, if any, and the reasons collected so far.\<close>

type_synonym gate_state = "eligibility_status option \<times> selection_reason list"

fun reject :: "selection_reason \<Rightarrow> eligibility_status \<Rightarrow> gate_state \<Rightarrow> gate_state" where
  "reject r st (blocking, reasons) = (case blocking of None \<Rightarrow> Some st | Some b \<Rightarrow> Some b, reasons @ [r])"

definition block :: "eligibility_status \<Rightarrow> gate_state \<Rightarrow> gate_state" where
  "block st = reject (Status_Reason st) st"

definition identity_gate :: "selection_inputs \<Rightarrow> gate_state \<Rightarrow> gate_state" where
  "identity_gate i g =
     (if in_instrument_status i = ''DELISTED'' then block INSTRUMENT_DELISTED g
      else if \<not> in_instrument_enabled i then block INSTRUMENT_NOT_CONFIGURED g else g)"

definition denylist_gate :: "selection_inputs \<Rightarrow> gate_state \<Rightarrow> gate_state" where
  "denylist_gate i g = (if in_denylisted i then block DISABLED_BY_CONFIG g else g)"

definition class_gate :: "selection_inputs \<Rightarrow> gate_state \<Rightarrow> gate_state" where
  "class_gate i g =
     (if cl_asset_class (in_classification i) = AC_UNKNOWN then block ASSET_CLASS_UNSUPPORTED g else g)"

definition session_gate :: "selection_inputs \<Rightarrow> gate_state \<Rightarrow> gate_state" where
  "session_gate i g = (case sv_blocking_status (in_session i) of None \<Rightarrow> g | Some st \<Rightarrow> block st g)"

definition market_status_gate :: "selection_inputs \<Rightarrow> gate_state \<Rightarrow> gate_state" where
  "market_status_gate i g =
     (if in_instrument_status i \<noteq> ''ACTIVE'' then
        (if fst g \<noteq> Some INSTRUMENT_DELISTED then block MARKET_INACTIVE g else g)
      else if \<not> li_instrument_active (in_market i) then block MARKET_INACTIVE g else g)"

definition data_gate :: "selection_inputs \<Rightarrow> gate_state \<Rightarrow> gate_state" where
  "data_gate i g =
     (case li_data_quality_status (in_market i) of
        None \<Rightarrow> block EL_DATA_UNAVAILABLE g
      | Some Q_UNAVAILABLE \<Rightarrow> block EL_DATA_UNAVAILABLE g
      | Some Q_DATA_STALE \<Rightarrow> block EL_DATA_STALE g
      | Some Q_DATA_INVALID \<Rightarrow> block EL_DATA_INVALID g
      | Some Q_ORDERBOOK_RESYNCING \<Rightarrow> block EL_ORDERBOOK_RESYNCING g
      | Some Q_DEGRADED \<Rightarrow>
          if \<not> tv_allow_degraded_data (in_thresholds i) then reject REASON_DATA_DEGRADED INELIGIBLE g else g
      | Some Q_HEALTHY \<Rightarrow> g)"

definition book_gate :: "selection_inputs \<Rightarrow> gate_state \<Rightarrow> gate_state" where
  "book_gate i g =
     (let m = in_market i in
      if tv_require_fresh_orderbook (in_thresholds i) \<and> \<not> (li_book_reliable m \<and> li_book_fresh m) then
        (if \<not> li_book_reliable m then block EL_ORDERBOOK_RESYNCING g
         else reject REASON_ORDERBOOK_STALE EL_DATA_STALE g)
      else g)"

definition price_gate :: "selection_inputs \<Rightarrow> gate_state \<Rightarrow> gate_state" where
  "price_gate i g =
     (let m = in_market i; g1 = (if \<not> li_bbo_present m then block PRICE_INVALID g else g) in
      case li_mark_price m of
        None \<Rightarrow> block PRICE_INVALID g1
      | Some p \<Rightarrow> if p \<le> 0 then block PRICE_INVALID g1 else g1)"

definition volume_gate :: "selection_inputs \<Rightarrow> gate_state \<Rightarrow> gate_state" where
  "volume_gate i g =
     (let m = in_market i in
      if \<not> tv_require_volume (in_thresholds i) then g
      else case (li_volume_24h_pusd m, li_volume_fresh m) of
        (Some v, True) \<Rightarrow> if v < tv_min_volume_24h_pusd (in_thresholds i) then block LOW_VOLUME g else g
      | _ \<Rightarrow> block VOLUME_UNAVAILABLE g)"

definition spread_gate :: "selection_inputs \<Rightarrow> gate_state \<Rightarrow> gate_state" where
  "spread_gate i g =
     (case li_spread_bps (in_market i) of
        Some spread \<Rightarrow> if tv_max_spread_bps (in_thresholds i) \<le> spread then block SPREAD_TOO_WIDE g else g
      | None \<Rightarrow> g)"

definition depth_gate :: "selection_inputs \<Rightarrow> gate_state \<Rightarrow> gate_state" where
  "depth_gate i g =
     (case (li_bid_depth_pusd (in_market i), li_ask_depth_pusd (in_market i)) of
        (Some bid, Some ask) \<Rightarrow>
          if min bid ask < tv_min_book_depth_pusd (in_thresholds i) then block INSUFFICIENT_DEPTH g else g
      | _ \<Rightarrow> if tv_require_fresh_orderbook (in_thresholds i) then block INSUFFICIENT_DEPTH g else g)"

definition consistency_gate :: "quality_result \<Rightarrow> gate_state \<Rightarrow> gate_state" where
  "consistency_gate q g = (if Status_Reason PRICE_INVALID \<in> set (qy_reasons q) then block PRICE_INVALID g else g)"

definition score_gate :: "selection_inputs \<Rightarrow> quality_result \<Rightarrow> gate_state \<Rightarrow> gate_state" where
  "score_gate i q g =
     (if qy_score q < tv_min_quality_score (in_thresholds i)
      then reject REASON_QUALITY_BELOW_MINIMUM INELIGIBLE g else g)"

definition evaluate_eligibility ::
  "selection_inputs \<Rightarrow> quality_result \<Rightarrow> eligibility_status \<times> selection_reason list" where
  "evaluate_eligibility i q =
     (let g1 = identity_gate i (None, []); g2 = denylist_gate i g1; g3 = class_gate i g2;
          g4 = session_gate i g3; g5 = market_status_gate i g4; g6 = data_gate i g5; g7 = book_gate i g6;
          g8 = price_gate i g7; g9 = volume_gate i g8; g10 = spread_gate i g9; g11 = depth_gate i g10;
          g12 = consistency_gate q g11; g13 = score_gate i q g12 in
      case g13 of (None, reasons) \<Rightarrow> (ELIGIBLE, reasons) | (Some st, reasons) \<Rightarrow> (st, reasons))"

section \<open>The decision\<close>

definition evaluate_instrument :: "uuid \<Rightarrow> selection_inputs \<Rightarrow> selection_decision" where
  "evaluate_instrument decision_id i =
     (let quality = evaluate_market_quality (in_market i) (in_thresholds i);
          (status, reasons) = evaluate_eligibility i quality in
      \<lparr>sd_selection_id = decision_id, sd_instrument_pk = in_instrument_pk i,
       sd_instrument_id = in_instrument_id i, sd_symbol = in_symbol i,
       sd_asset_class = cl_asset_class (in_classification i),
       sd_classification_source = cl_source (in_classification i),
       sd_session_state = sv_session_state (in_session i),
       sd_calendar_version = sv_calendar_version (in_session i), sd_market_status = in_instrument_status i,
       sd_data_quality_status = li_data_quality_status (in_market i),
       sd_selection_state = (if status = ELIGIBLE then WATCHLIST_ELIGIBLE
         else if li_data_quality_status (in_market i) = None then PENDING_QUALITY else SEL_REJECTED),
       sd_eligibility_status = status, sd_market_quality_score = Some (qy_score quality),
       sd_quality_components = qy_components quality, sd_reasons = reasons,
       sd_configuration_version = in_configuration_version i, sd_evaluated_at = in_evaluated_at i\<rparr>)"

end
