(* ===== verification/Selection_Inputs.thy ===== *)
theory Selection_Inputs
  imports Selection_Rules
begin

text \<open>
  What the market selection reads about an instrument: its asset class (\<open>classification.py\<close>), the policy of the
  class, the verdict of the session, and the live data behind the market snapshot
  (\<open>MarketSelectionService.build_inputs\<close>).  Reading the data quality prunes counters and creates a missing book,
  so the operations return the market state.
\<close>

section \<open>Text\<close>

text \<open>\<open>upper\<close>, \<open>lower\<close> and \<open>strip\<close> on ASCII text, in which instruments and settings are written.\<close>

definition ascii_upper :: "char \<Rightarrow> char" where
  "ascii_upper c = (let n = of_char c :: nat in if 97 \<le> n \<and> n \<le> 122 then char_of (n - 32) else c)"

definition ascii_lower :: "char \<Rightarrow> char" where
  "ascii_lower c = (let n = of_char c :: nat in if 65 \<le> n \<and> n \<le> 90 then char_of (n + 32) else c)"

definition is_space :: "char \<Rightarrow> bool" where
  "is_space c = (let n = of_char c :: nat in n = 32 \<or> (9 \<le> n \<and> n \<le> 13) \<or> (28 \<le> n \<and> n \<le> 31))"

definition upper_case :: "string \<Rightarrow> string" where
  "upper_case = map ascii_upper"

definition lower_case :: "string \<Rightarrow> string" where
  "lower_case = map ascii_lower"

definition strip_space :: "string \<Rightarrow> string" where
  "strip_space cs = rev (dropWhile is_space (rev (dropWhile is_space cs)))"

fun asset_class_value :: "asset_class \<Rightarrow> string" where
  "asset_class_value AC_EQUITY = ''EQUITY''"
| "asset_class_value AC_INDEX = ''INDEX''"
| "asset_class_value AC_CRYPTO = ''CRYPTO''"
| "asset_class_value AC_COMMODITY = ''COMMODITY''"
| "asset_class_value AC_FX = ''FX''"
| "asset_class_value AC_UNKNOWN = ''UNKNOWN''"

section \<open>Classification\<close>

text \<open>The maps of the classifier: keys normalised, of equal keys the last one counts.\<close>

definition normalised_map ::
  "(string \<Rightarrow> string) \<Rightarrow> (string \<times> string) list \<Rightarrow> string \<Rightarrow> string option" where
  "normalised_map key entries = map_of (rev (map (\<lambda>(k, v). (key (strip_space k), upper_case v)) entries))"

definition classify_asset ::
  "selection_settings \<Rightarrow> datetime \<Rightarrow> string \<Rightarrow> string \<Rightarrow> classification_result" where
  "classify_asset s now name category =
     (let category_key = lower_case (strip_space category); symbol_key = upper_case (strip_space name);
          result = (\<lambda>ac source rule confidence. \<lparr>cl_asset_class = ac, cl_source = source, cl_rule = rule,
            cl_confidence = confidence, cl_classified_at = now\<rparr>);
          by_category = (if category_key = [] then None
            else case normalised_map lower_case (sel_category_map s) category_key of None \<Rightarrow> None
            | Some mapped \<Rightarrow> map_option (\<lambda>ac. (ac, mapped)) (asset_class_of mapped));
          by_symbol = (case normalised_map upper_case (sel_symbol_map s) symbol_key of None \<Rightarrow> None
            | Some mapped \<Rightarrow> map_option (\<lambda>ac. (ac, mapped)) (asset_class_of mapped)) in
      case by_category of
        Some (ac, mapped) \<Rightarrow>
          result ac ''metadata_category'' (''category:'' @ category_key @ ''->'' @ mapped) (fl (95 / 100))
      | None \<Rightarrow>
          (case by_symbol of
             Some (ac, mapped) \<Rightarrow>
               result ac ''symbol_rule'' (''symbol:'' @ symbol_key @ ''->'' @ mapped) (fl (6 / 10))
           | None \<Rightarrow> result AC_UNKNOWN ''fallback'' ''no_rule_matched'' 0))"

definition policy_block :: "selection_settings \<Rightarrow> asset_class \<Rightarrow> eligibility_status option" where
  "policy_block s ac =
     (let policy = (case map_of (sel_asset_class_policies s) (asset_class_value ac) of None \<Rightarrow> [] | Some p \<Rightarrow> p) in
      case map_of policy ''enabled'' of
        Some enabled \<Rightarrow> if enabled then None else Some DISABLED_BY_POLICY
      | None \<Rightarrow>
          if ac = AC_UNKNOWN then Some ASSET_CLASS_UNSUPPORTED
          else if asset_class_value ac \<notin> set (sel_allowed_asset_classes s) then Some DISABLED_BY_POLICY
          else None)"

section \<open>The market snapshot\<close>

text \<open>The live data services, or \<open>None\<close> when they are not wired.\<close>

definition no_live_data :: live_snapshot where
  "no_live_data = \<lparr>li_instrument_active = False, li_data_quality_status = None, li_book_reliable = False,
     li_book_fresh = False, li_bid_depth_pusd = None, li_ask_depth_pusd = None, li_spread_bps = None,
     li_bbo_present = False, li_mark_price = None, li_index_price = None, li_mid_price = None,
     li_volume_24h_pusd = None, li_volume_fresh = False\<rparr>"

definition current :: "freshness_status \<Rightarrow> bool" where
  "current f \<longleftrightarrow> f = FRESH \<or> f = AGING"

definition side_depth :: "orderbook_state \<Rightarrow> string \<Rightarrow> decimal \<Rightarrow> float64 option" where
  "side_depth book side window =
     (case (reliable book, mid_price book, depth_within_bps book side window) of
        (True, Some mid, Inr d) \<Rightarrow> Some (fl (dmul d mid)) | _ \<Rightarrow> None)"

definition snapshot_of ::
  "instrument_tracker option \<Rightarrow> orderbook_state \<Rightarrow> instrument_quality_status \<Rightarrow> bool \<Rightarrow> bool \<Rightarrow> bool \<Rightarrow> decimal \<Rightarrow>
     live_snapshot" where
  "snapshot_of tracker book status book_fresh bbo_fresh stats_fresh window =
     (let mid = (if reliable book then mid_price book else None);
          bbo = (case tracker of None \<Rightarrow> None | Some t \<Rightarrow> it_last_bbo t);
          bbo_present = (bbo \<noteq> None \<and> bbo_fresh);
          book_spread = (if reliable book \<and> book_fresh then map_option fl (spread_bps book) else None);
          read = (\<lambda>field. case tracker of None \<Rightarrow> None | Some t \<Rightarrow> map_option fl (field t)) in
      \<lparr>li_instrument_active = True, li_data_quality_status = Some status, li_book_reliable = reliable book,
       li_book_fresh = book_fresh, li_bid_depth_pusd = side_depth book ''bid'' window,
       li_ask_depth_pusd = side_depth book ''ask'' window,
       li_spread_bps = (case bbo of None \<Rightarrow> book_spread
         | Some b \<Rightarrow> (case (bbo_fresh, bbo_spread_bps b) of (True, Some spread) \<Rightarrow> Some (fl spread) | _ \<Rightarrow> book_spread)),
       li_bbo_present = bbo_present, li_mark_price = read it_last_mark_price,
       li_index_price = read it_last_index_price, li_mid_price = map_option fl mid,
       li_volume_24h_pusd = read it_last_volume_24h, li_volume_fresh = stats_fresh\<rparr>)"

text \<open>The status of the data, and whether book, quote and statistics are current.\<close>

definition read_live ::
  "quality_env \<Rightarrow> int \<Rightarrow> market_state \<Rightarrow> (instrument_quality_status \<times> bool \<times> bool \<times> bool) \<times> market_state" where
  "read_live env i s =
     (let (report, s1) = evaluate_quality env i s;
          s2 = s1\<lparr>ms_books := ensure_book i (ms_books s1)\<rparr>;
          (book_freshness, s3) = channel_freshness env i ORDERBOOK s2;
          (bbo_freshness, s4) = channel_freshness env i BBO s3;
          (stats_freshness, s5) = channel_freshness env i STATISTICS s4 in
      ((qr_status report, current book_freshness, current bbo_freshness, current stats_freshness), s5))"

definition take_snapshot ::
  "quality_env option \<Rightarrow> int \<Rightarrow> decimal \<Rightarrow> market_state \<Rightarrow> live_snapshot \<times> market_state" where
  "take_snapshot live i window s =
     (case live of
        None \<Rightarrow> (no_live_data, s)
      | Some env \<Rightarrow>
          let ((status, book_fresh, bbo_fresh, stats_fresh), s') = read_live env i s in
          (snapshot_of (map_of (ms_trackers s') i) (book_of (ms_books s') i) status book_fresh bbo_fresh
             stats_fresh window, s'))"

section \<open>Inputs\<close>

record instrument_row =
  ir_id :: int
  ir_instrument_id :: int
  ir_symbol :: string
  ir_category :: string
  ir_status :: string
  ir_enabled :: bool

definition gated_session ::
  "selection_settings \<Rightarrow> asset_class \<Rightarrow> equity_snapshot \<Rightarrow> crypto_snapshot \<Rightarrow> session_verdict" where
  "gated_session s ac equity crypto =
     (let session = session_verdict_for_asset_class ac equity crypto in
      case (policy_block s ac, sv_blocking_status session) of
        (Some st, None) \<Rightarrow> session\<lparr>sv_analysis_allowed := False, sv_blocking_status := Some st\<rparr>
      | _ \<Rightarrow> session)"

definition build_inputs ::
  "selection_settings \<Rightarrow> threshold_settings \<Rightarrow> string \<Rightarrow> quality_env option \<Rightarrow> datetime \<Rightarrow> instrument_row \<Rightarrow>
     equity_snapshot \<Rightarrow> crypto_snapshot \<Rightarrow> market_state \<Rightarrow> selection_inputs \<times> market_state" where
  "build_inputs s th version live now row equity crypto ms =
     (let classification = classify_asset s now (ir_symbol row) (ir_category row);
          ac = cl_asset_class classification;
          session = gated_session s ac equity crypto;
          thresholds = resolve_thresholds ac (ir_symbol row) s th (sv_limited_liquidity session);
          (market, ms') = take_snapshot live (ir_instrument_id row) (tv_depth_window_bps thresholds) ms;
          name = upper_case (strip_space (ir_symbol row));
          allowlist = map (\<lambda>e. upper_case (strip_space e)) (sel_default_allowlist s);
          denylist = map (\<lambda>e. upper_case (strip_space e)) (sel_denylist s) in
      (\<lparr>in_instrument_pk = ir_id row, in_instrument_id = ir_instrument_id row, in_symbol = ir_symbol row,
        in_instrument_enabled = ir_enabled row, in_instrument_status = ir_status row,
        in_classification = classification, in_session = session, in_market = market,
        in_thresholds = thresholds, in_denylisted = name \<in> set denylist,
        in_allowlisted = (allowlist = [] \<or> name \<in> set allowlist), in_configuration_version = version,
        in_evaluated_at = now\<rparr>, ms'))"

end
