(* ===== verification/Watchlist.thy ===== *)
theory Watchlist
  imports Selection_Inputs "HOL-Library.List_Lexorder" "HOL-Library.Product_Lexorder" "HOL-Library.Char_ord"
begin

text \<open>
  The active watchlist: its tables (\<open>watchlist_repository.py\<close>), the service that reconciles it with fresh
  evaluations (\<open>watchlist_service.py\<close>) and the periodic cycle that drives both (\<open>selection_scheduler.py\<close>).

  A call to the database is done, refused, or done without an answer, and reads the clock; the \<open>n\<close>-th call of a
  run meets \<open>calls n\<close>.  The notifier never raises: its requests are recorded.  Counters and logs are left out.
\<close>

section \<open>Tables\<close>

datatype call_answer = Call_Done | Call_Refused | Call_Unanswered

type_synonym call_log = "nat \<Rightarrow> call_answer \<times> datetime"

record watch_row =
  wr_instrument_pk :: int
  wr_symbol :: string
  wr_state :: selection_state
  wr_asset_class :: asset_class
  wr_quality_score :: "int option"
  wr_eligibility_status :: eligibility_status
  wr_reasons :: "selection_reason list"
  wr_activated_at :: "datetime option"
  wr_paused_at :: "datetime option"
  wr_last_decision_id :: uuid
  wr_created_at :: datetime
  wr_updated_at :: datetime

datatype watchlist_event_type =
    WE_ADDED | WE_PAUSED | WE_REMOVED | WE_RESTORED | WE_SELECTION_REJECTED

record watch_event =
  wx_instrument_pk :: int
  wx_symbol :: string
  wx_event_type :: watchlist_event_type
  wx_from_state :: "selection_state option"
  wx_to_state :: selection_state
  wx_reasons :: "selection_reason list"
  wx_decision_id :: "uuid option"
  wx_created_at :: datetime

text \<open>\<open>upsert_entry\<close>: the symbol of a row is unique, so a symbol that another row holds raises (\<open>None\<close>).\<close>

definition fresh_row :: "datetime \<Rightarrow> int \<Rightarrow> selection_decision \<Rightarrow> selection_state \<Rightarrow> watch_row" where
  "fresh_row now pk d st = \<lparr>wr_instrument_pk = pk, wr_symbol = sd_symbol d, wr_state = st,
     wr_asset_class = sd_asset_class d, wr_quality_score = sd_market_quality_score d,
     wr_eligibility_status = sd_eligibility_status d, wr_reasons = sd_reasons d,
     wr_activated_at = (if st = WATCHLIST_ACTIVE then Some now else None), wr_paused_at = None,
     wr_last_decision_id = sd_selection_id d, wr_created_at = now, wr_updated_at = now\<rparr>"

definition refresh_row :: "datetime \<Rightarrow> selection_decision \<Rightarrow> selection_state \<Rightarrow> watch_row \<Rightarrow> watch_row" where
  "refresh_row now d st r = r\<lparr>wr_symbol := sd_symbol d, wr_state := st, wr_asset_class := sd_asset_class d,
     wr_quality_score := sd_market_quality_score d, wr_eligibility_status := sd_eligibility_status d,
     wr_reasons := sd_reasons d,
     wr_activated_at := (if st = WATCHLIST_ACTIVE \<and> wr_state r \<noteq> WATCHLIST_ACTIVE then Some now
       else wr_activated_at r),
     wr_paused_at := (if st = WATCHLIST_ACTIVE then None
       else if st = WATCHLIST_PAUSED \<and> wr_state r \<noteq> WATCHLIST_PAUSED then Some now else wr_paused_at r),
     wr_last_decision_id := sd_selection_id d, wr_updated_at := now\<rparr>"

definition upsert_entry ::
  "datetime \<Rightarrow> int \<Rightarrow> selection_decision \<Rightarrow> selection_state \<Rightarrow> watch_row list \<Rightarrow> watch_row list option" where
  "upsert_entry now pk d st rows =
     (if list_ex (\<lambda>r. wr_instrument_pk r \<noteq> pk \<and> wr_symbol r = sd_symbol d) rows then None
      else if list_ex (\<lambda>r. wr_instrument_pk r = pk) rows
      then Some (update_where (\<lambda>r. wr_instrument_pk r = pk) (refresh_row now d st) rows)
      else Some (rows @ [refresh_row now d st (fresh_row now pk d st)]))"

definition remove_row :: "int \<Rightarrow> watch_row list \<Rightarrow> watch_row list" where
  "remove_row pk rows = filter (\<lambda>r. wr_instrument_pk r \<noteq> pk) rows"

definition load_all :: "watch_row list \<Rightarrow> watch_row list" where
  "load_all rows = sort_key wr_symbol rows"

section \<open>The service\<close>

record list_entry =
  le_symbol :: string
  le_state :: selection_state

datatype selection_notice =
    Notice_Paused string eligibility_status uuid | Notice_Restored string uuid
  | Notice_Session string string string | Notice_Calendar

record watchlist =
  wa_rows :: "watch_row list"
  wa_events :: "watch_event list"
  wa_entries :: "(int \<times> list_entry) list"
  wa_degraded :: bool
  wa_restored :: bool
  wa_notices :: "selection_notice list"
  wa_calls :: nat

definition new_watchlist :: "watch_row list \<Rightarrow> watchlist" where
  "new_watchlist rows = \<lparr>wa_rows = rows, wa_events = [], wa_entries = [], wa_degraded = False,
     wa_restored = False, wa_notices = [], wa_calls = 0\<rparr>"

definition next_call :: "call_log \<Rightarrow> watchlist \<Rightarrow> (call_answer \<times> datetime) \<times> watchlist" where
  "next_call calls w = (calls (wa_calls w), w\<lparr>wa_calls := Suc (wa_calls w)\<rparr>)"

definition restore :: "call_log \<Rightarrow> watchlist \<Rightarrow> watchlist" where
  "restore calls w =
     (case next_call calls w of
        ((Call_Done, _), w1) \<Rightarrow>
          w1\<lparr>wa_entries := map (\<lambda>r. (wr_instrument_pk r, \<lparr>le_symbol = wr_symbol r, le_state = wr_state r\<rparr>))
               (load_all (wa_rows w1)), wa_restored := True, wa_degraded := False\<rparr>
      | (_, w1) \<Rightarrow> w1\<lparr>wa_degraded := True\<rparr>)"

definition persist_entry ::
  "call_log \<Rightarrow> int \<Rightarrow> selection_decision \<Rightarrow> selection_state \<Rightarrow> watchlist \<Rightarrow> bool \<times> watchlist" where
  "persist_entry calls pk d st w =
     (let ((answer, now), w1) = next_call calls w; failed = (False, w1\<lparr>wa_degraded := True\<rparr>) in
      case (answer, upsert_entry now pk d st (wa_rows w1)) of
        (Call_Done, Some rows) \<Rightarrow> (True, w1\<lparr>wa_rows := rows, wa_degraded := False\<rparr>)
      | (Call_Unanswered, Some rows) \<Rightarrow> (False, w1\<lparr>wa_rows := rows, wa_degraded := True\<rparr>)
      | _ \<Rightarrow> failed)"

definition store_watch_event :: "call_log \<Rightarrow> (datetime \<Rightarrow> watch_event) \<Rightarrow> watchlist \<Rightarrow> bool \<times> watchlist" where
  "store_watch_event calls event w =
     (let ((answer, now), w1) = next_call calls w in
      (answer = Call_Done, if answer = Call_Refused then w1 else w1\<lparr>wa_events := wa_events w1 @ [event now]\<rparr>))"

definition emit_event ::
  "call_log \<Rightarrow> int \<Rightarrow> selection_decision \<Rightarrow> watchlist_event_type \<Rightarrow> selection_state option \<Rightarrow> selection_state \<Rightarrow>
     watchlist \<Rightarrow> watchlist" where
  "emit_event calls pk d event from_state to_state w =
     (let (stored, w1) = store_watch_event calls (\<lambda>now. \<lparr>wx_instrument_pk = pk, wx_symbol = sd_symbol d,
            wx_event_type = event, wx_from_state = from_state, wx_to_state = to_state, wx_reasons = sd_reasons d,
            wx_decision_id = Some (sd_selection_id d), wx_created_at = now\<rparr>) w in
      if stored then w1 else w1\<lparr>wa_degraded := True\<rparr>)"

definition set_entry :: "int \<Rightarrow> string \<Rightarrow> selection_state \<Rightarrow> watchlist \<Rightarrow> watchlist" where
  "set_entry pk name st w =
     w\<lparr>wa_entries := AList.update pk \<lparr>le_symbol = name, le_state = st\<rparr> (wa_entries w)\<rparr>"

definition notify :: "selection_notice \<Rightarrow> watchlist \<Rightarrow> watchlist" where
  "notify n w = w\<lparr>wa_notices := wa_notices w @ [n]\<rparr>"

definition with_state ::
  "selection_decision \<Rightarrow> selection_state \<Rightarrow> selection_reason list \<Rightarrow> selection_decision" where
  "with_state d st extra = d\<lparr>sd_selection_state := st, sd_reasons := sd_reasons d @ extra\<rparr>"

definition to_active ::
  "call_log \<Rightarrow> int \<Rightarrow> selection_inputs \<Rightarrow> selection_decision \<Rightarrow> list_entry option \<Rightarrow> watchlist \<Rightarrow>
     selection_decision \<times> watchlist" where
  "to_active calls pk i d entry w =
     (let final = with_state d WATCHLIST_ACTIVE []; (stored, w1) = persist_entry calls pk final WATCHLIST_ACTIVE w in
      if map_option le_state entry = Some WATCHLIST_ACTIVE then (final, w1)
      else if \<not> stored then (d, w1)
      else
        let (event, w2) = (case entry of None \<Rightarrow> (WE_ADDED, w1)
              | Some e \<Rightarrow> (WE_RESTORED, notify (Notice_Restored (in_symbol i) (sd_selection_id d)) w1)) in
        (final, set_entry pk (in_symbol i) WATCHLIST_ACTIVE
           (emit_event calls pk final event (map_option le_state entry) WATCHLIST_ACTIVE w2)))"

definition to_not_active ::
  "call_log \<Rightarrow> int \<Rightarrow> selection_inputs \<Rightarrow> selection_decision \<Rightarrow> list_entry option \<Rightarrow> selection_reason \<Rightarrow> watchlist \<Rightarrow>
     selection_decision \<times> watchlist" where
  "to_not_active calls pk i d entry reason w =
     (case entry of
        None \<Rightarrow> (with_state d WATCHLIST_ELIGIBLE [reason], w)
      | Some e \<Rightarrow>
          let final = with_state d WATCHLIST_PAUSED [reason];
              (stored, w1) = persist_entry calls pk final WATCHLIST_PAUSED w in
          if le_state e = WATCHLIST_PAUSED \<or> \<not> stored then (final, w1)
          else (final, set_entry pk (in_symbol i) WATCHLIST_PAUSED
             (emit_event calls pk final WE_PAUSED (Some (le_state e)) WATCHLIST_PAUSED w1)))"

definition to_ineligible ::
  "call_log \<Rightarrow> int \<Rightarrow> selection_inputs \<Rightarrow> selection_decision \<Rightarrow> list_entry option \<Rightarrow> watchlist \<Rightarrow>
     selection_decision \<times> watchlist" where
  "to_ineligible calls pk i d entry w =
     (case entry of
        None \<Rightarrow> (d, w)
      | Some e \<Rightarrow>
          let final = with_state d WATCHLIST_PAUSED [];
              (stored, w1) = persist_entry calls pk final WATCHLIST_PAUSED w in
          if le_state e = WATCHLIST_PAUSED \<or> \<not> stored then (final, w1)
          else (final, notify (Notice_Paused (in_symbol i) (sd_eligibility_status d) (sd_selection_id d))
             (set_entry pk (in_symbol i) WATCHLIST_PAUSED
               (emit_event calls pk final WE_PAUSED (Some (le_state e)) WATCHLIST_PAUSED w1))))"

text \<open>\<open>_remove\<close>: an instrument that left the universe; the entry goes when both writes are confirmed.\<close>

definition remove_entry :: "call_log \<Rightarrow> int \<Rightarrow> watchlist \<Rightarrow> watchlist" where
  "remove_entry calls pk w =
     (case map_of (wa_entries w) pk of
        None \<Rightarrow> w
      | Some e \<Rightarrow>
          let ((answer, _), w1) = next_call calls w;
              w2 = (if answer = Call_Refused then w1 else w1\<lparr>wa_rows := remove_row pk (wa_rows w1)\<rparr>) in
          if answer \<noteq> Call_Done then w2\<lparr>wa_degraded := True\<rparr>
          else
            let (stored, w3) = store_watch_event calls (\<lambda>now. \<lparr>wx_instrument_pk = pk, wx_symbol = le_symbol e,
                  wx_event_type = WE_REMOVED, wx_from_state = Some (le_state e), wx_to_state = SEL_REMOVED,
                  wx_reasons = [Status_Reason INSTRUMENT_DELISTED], wx_decision_id = None,
                  wx_created_at = now\<rparr>) w2 in
            if stored then w3\<lparr>wa_entries := AList.delete pk (wa_entries w3)\<rparr> else w3\<lparr>wa_degraded := True\<rparr>)"

section \<open>Reconciliation\<close>

type_synonym evaluation = "selection_inputs \<times> selection_decision"

text \<open>The slice \<open>xs[:n]\<close>.\<close>

definition py_prefix :: "int \<Rightarrow> 'a list \<Rightarrow> 'a list" where
  "py_prefix n xs = (if 0 \<le> n then take (nat n) xs else take (nat (int (length xs) + n)) xs)"

definition watchlist_rank :: "evaluation \<Rightarrow> int \<times> string" where
  "watchlist_rank p = (- (case sd_market_quality_score (snd p) of None \<Rightarrow> 0 | Some score \<Rightarrow> score), in_symbol (fst p))"

definition ranked_candidates :: "evaluation list \<Rightarrow> evaluation list" where
  "ranked_candidates es = sort_key watchlist_rank (filter (\<lambda>(i, d). eligible d \<and> in_allowlisted i) es)"

definition target_active :: "selection_settings \<Rightarrow> evaluation list \<Rightarrow> int list" where
  "target_active s es =
     map (\<lambda>(i, d). in_instrument_pk i) (py_prefix (sel_max_watchlist_size s) (ranked_candidates es))"

definition reconcile_one ::
  "call_log \<Rightarrow> int list \<Rightarrow> evaluation \<Rightarrow> watchlist \<Rightarrow> selection_decision \<times> watchlist" where
  "reconcile_one calls target p w =
     (case p of (i, d) \<Rightarrow>
        let pk = in_instrument_pk i; entry = map_of (wa_entries w) pk in
        if pk \<in> set target then to_active calls pk i d entry w
        else if eligible d then
          to_not_active calls pk i d entry
            (if \<not> in_allowlisted i then REASON_NOT_IN_ALLOWLIST else REASON_WATCHLIST_FULL) w
        else to_ineligible calls pk i d entry w)"

fun reconcile_all ::
  "call_log \<Rightarrow> int list \<Rightarrow> evaluation list \<Rightarrow> (int \<times> selection_decision) list \<Rightarrow> watchlist \<Rightarrow>
     (int \<times> selection_decision) list \<times> watchlist" where
  "reconcile_all calls target [] final w = (final, w)"
| "reconcile_all calls target (p # ps) final w =
     (let (d, w1) = reconcile_one calls target p w in
      reconcile_all calls target ps (AList.update (in_instrument_pk (fst p)) d final) w1)"

definition vanished :: "evaluation list \<Rightarrow> watchlist \<Rightarrow> int list" where
  "vanished es w = filter (\<lambda>pk. pk \<notin> set (map (\<lambda>(i, d). in_instrument_pk i) es)) (map fst (wa_entries w))"

definition reconcile ::
  "selection_settings \<Rightarrow> call_log \<Rightarrow> evaluation list \<Rightarrow> watchlist \<Rightarrow> (int \<times> selection_decision) list \<times> watchlist"
where
  "reconcile s calls es w =
     (let (final, w1) = reconcile_all calls (target_active s es) es [] w in
      (final, fold (remove_entry calls) (vanished es w1) w1))"

definition count_entries :: "selection_state \<Rightarrow> watchlist \<Rightarrow> nat" where
  "count_entries st w = length (filter (\<lambda>(pk, e). le_state e = st) (wa_entries w))"

definition active_rows :: "watchlist \<Rightarrow> watch_row list" where
  "active_rows w = filter (\<lambda>r. wr_state r = WATCHLIST_ACTIVE) (load_all (wa_rows w))"

end
