(* ===== verification/Selection_Cycle.thy ===== *)
theory Selection_Cycle
  imports Watchlist
begin

text \<open>
  The periodic cycle of the market selection (\<open>MarketSelectionCoordinator\<close> in \<open>selection_scheduler.py\<close>):
  sessions, evaluation of every instrument, reconciliation of the watchlist and the history of classifications
  and decisions.  One task runs the cycles, one after the other; a reading of the clock within a cycle is
  \<open>ce_now\<close>, except in the calls to the database.
\<close>

section \<open>State\<close>

record run_report =
  ru_evaluated :: nat
  ru_eligible :: nat
  ru_ineligible :: nat
  ru_active_watchlist :: nat
  ru_paused_watchlist :: nat
  ru_calendar_unavailable :: nat
  ru_equity_session :: string
  ru_crypto_session :: string
  ru_run_at :: datetime

record session_change =
  sn_scope :: string
  sn_from_state :: string
  sn_to_state :: string
  sn_calendar_version :: "string option"
  sn_at :: datetime

record coordinator =
  sco_watchlist :: watchlist
  sco_market :: market_state
  sco_last_equity_state :: "string option"
  sco_last_crypto_state :: "string option"
  sco_last_outcome :: "(int \<times> eligibility_status \<times> selection_state) list"
  sco_last_classification :: "(int \<times> asset_class) list"
  sco_session_changes :: "session_change list"
  sco_classifications :: "(int \<times> string \<times> classification_result) list"
  sco_decisions :: "selection_decision list"
  sco_report :: "run_report option"
  sco_degraded :: bool

definition new_coordinator :: "watch_row list \<Rightarrow> market_state \<Rightarrow> coordinator" where
  "new_coordinator rows ms = \<lparr>sco_watchlist = new_watchlist rows, sco_market = ms,
     sco_last_equity_state = None, sco_last_crypto_state = None, sco_last_outcome = [],
     sco_last_classification = [], sco_session_changes = [], sco_classifications = [], sco_decisions = [],
     sco_report = None, sco_degraded = False\<rparr>"

text \<open>What a cycle finds: the settings, the clock, the rows of the instrument table, and the ids it draws.\<close>

record cycle_env =
  ce_selection :: selection_settings
  ce_thresholds :: threshold_settings
  ce_version :: string
  ce_equity :: equity_session_settings
  ce_calendar :: calendar_data
  ce_zone :: time_zone
  ce_crypto :: crypto_session_settings
  ce_live :: "quality_env option"
  ce_now :: datetime
  ce_instruments :: "instrument_row list"
  ce_decision_id :: "int \<Rightarrow> uuid"
  ce_calls :: call_log

definition equity_now :: "cycle_env \<Rightarrow> equity_snapshot" where
  "equity_now env = evaluate_equity (ce_equity env) (ce_calendar env) (ce_zone env) (ce_now env)"

definition crypto_now :: "cycle_env \<Rightarrow> crypto_snapshot" where
  "crypto_now env = evaluate_crypto (ce_crypto env) (ce_now env)"

definition coordinator_call :: "cycle_env \<Rightarrow> coordinator \<Rightarrow> (call_answer \<times> datetime) \<times> coordinator" where
  "coordinator_call env c =
     (let (a, w) = next_call (ce_calls env) (sco_watchlist c) in (a, c\<lparr>sco_watchlist := w\<rparr>))"

section \<open>Session transitions\<close>

definition record_session_change ::
  "cycle_env \<Rightarrow> string \<Rightarrow> string option \<Rightarrow> string \<Rightarrow> string option \<Rightarrow> coordinator \<Rightarrow> coordinator" where
  "record_session_change env scope before state version c =
     (case before of
        None \<Rightarrow> c
      | Some from_state \<Rightarrow>
          let ((answer, now), c1) = coordinator_call env c;
              c2 = (if answer = Call_Refused then c1
                else c1\<lparr>sco_session_changes := sco_session_changes c1 @
                  [\<lparr>sn_scope = scope, sn_from_state = from_state, sn_to_state = state,
                    sn_calendar_version = version, sn_at = now\<rparr>]\<rparr>) in
          c2\<lparr>sco_watchlist := notify (Notice_Session scope from_state state) (sco_watchlist c2)\<rparr>)"

definition equity_state_text :: "equity_snapshot \<Rightarrow> string" where
  "equity_state_text e =
     (if eq_calendar_available e then equity_state_value (eq_state e) else ''CALENDAR_UNAVAILABLE'')"

definition handle_session_transitions ::
  "cycle_env \<Rightarrow> equity_snapshot \<Rightarrow> crypto_snapshot \<Rightarrow> coordinator \<Rightarrow> coordinator" where
  "handle_session_transitions env equity crypto c =
     (let now_equity = equity_state_text equity; now_crypto = crypto_state_value (cy_state crypto);
          before = sco_last_equity_state c;
          c1 = (if before = Some now_equity then c
            else
              let c' = record_session_change env ''EQUITY'' before now_equity (eq_calendar_version equity) c;
                  c'' = (if before \<noteq> None \<and> now_equity = ''CALENDAR_UNAVAILABLE''
                    then c'\<lparr>sco_watchlist := notify Notice_Calendar (sco_watchlist c')\<rparr> else c') in
              c''\<lparr>sco_last_equity_state := Some now_equity\<rparr>) in
      if sco_last_crypto_state c1 = Some now_crypto then c1
      else (record_session_change env ''CRYPTO'' (sco_last_crypto_state c1) now_crypto None c1)
             \<lparr>sco_last_crypto_state := Some now_crypto\<rparr>)"

section \<open>Evaluation and history\<close>

definition persist_classification :: "cycle_env \<Rightarrow> selection_inputs \<Rightarrow> coordinator \<Rightarrow> coordinator" where
  "persist_classification env i c =
     (let pk = in_instrument_pk i; ac = cl_asset_class (in_classification i) in
      if map_of (sco_last_classification c) pk = Some ac then c
      else
        let ((answer, _), c1) = coordinator_call env c;
            c2 = (if answer = Call_Refused then c1
              else c1\<lparr>sco_classifications := sco_classifications c1 @ [(pk, in_symbol i, in_classification i)]\<rparr>) in
        if answer = Call_Done
        then c2\<lparr>sco_last_classification := AList.update pk ac (sco_last_classification c2)\<rparr>
        else c2\<lparr>sco_degraded := True\<rparr>)"

fun evaluate_rows ::
  "cycle_env \<Rightarrow> equity_snapshot \<Rightarrow> crypto_snapshot \<Rightarrow> instrument_row list \<Rightarrow> coordinator \<Rightarrow>
     evaluation list \<times> coordinator" where
  "evaluate_rows env equity crypto [] c = ([], c)"
| "evaluate_rows env equity crypto (row # rows) c =
     (let (i, ms) = build_inputs (ce_selection env) (ce_thresholds env) (ce_version env) (ce_live env) (ce_now env)
            row equity crypto (sco_market c);
          d = evaluate_instrument (ce_decision_id env (ir_id row)) i;
          (es, c') = evaluate_rows env equity crypto rows (persist_classification env i (c\<lparr>sco_market := ms\<rparr>)) in
      ((i, d) # es, c'))"

definition persist_decision :: "cycle_env \<Rightarrow> int \<times> selection_decision \<Rightarrow> coordinator \<Rightarrow> coordinator" where
  "persist_decision env p c =
     (case p of (pk, d) \<Rightarrow>
        let outcome = (sd_eligibility_status d, sd_selection_state d) in
        if map_of (sco_last_outcome c) pk = Some outcome then c
        else
          let ((answer, _), c1) = coordinator_call env c;
              c2 = (if answer = Call_Refused then c1 else c1\<lparr>sco_decisions := sco_decisions c1 @ [d]\<rparr>) in
          if answer = Call_Done then c2\<lparr>sco_last_outcome := AList.update pk outcome (sco_last_outcome c2)\<rparr>
          else c2\<lparr>sco_degraded := True\<rparr>)"

definition report_of ::
  "cycle_env \<Rightarrow> equity_snapshot \<Rightarrow> crypto_snapshot \<Rightarrow> selection_decision list \<Rightarrow> watchlist \<Rightarrow> run_report" where
  "report_of env equity crypto ds w =
     \<lparr>ru_evaluated = length ds, ru_eligible = length (filter eligible ds),
      ru_ineligible = length (filter (\<lambda>d. \<not> eligible d) ds),
      ru_active_watchlist = count_entries WATCHLIST_ACTIVE w, ru_paused_watchlist = count_entries WATCHLIST_PAUSED w,
      ru_calendar_unavailable = length (filter (\<lambda>d. sd_eligibility_status d = CALENDAR_UNAVAILABLE) ds),
      ru_equity_session = equity_state_value (eq_state equity),
      ru_crypto_session = crypto_state_value (cy_state crypto), ru_run_at = ce_now env\<rparr>"

section \<open>The cycle\<close>

definition reconcile_watchlist ::
  "cycle_env \<Rightarrow> evaluation list \<Rightarrow> coordinator \<Rightarrow> (int \<times> selection_decision) list \<times> coordinator" where
  "reconcile_watchlist env es c =
     (let (final, w) = reconcile (ce_selection env) (ce_calls env) es (sco_watchlist c) in
      (final, c\<lparr>sco_watchlist := w\<rparr>))"

definition finish_selection ::
  "cycle_env \<Rightarrow> equity_snapshot \<Rightarrow> crypto_snapshot \<Rightarrow> evaluation list \<Rightarrow> coordinator \<Rightarrow> coordinator" where
  "finish_selection env equity crypto es c =
     (let (final, c1) = reconcile_watchlist env es c; c2 = fold (persist_decision env) final c1 in
      c2\<lparr>sco_report := Some (report_of env equity crypto (map snd final) (sco_watchlist c2)),
         sco_degraded := wa_degraded (sco_watchlist c2)\<rparr>)"

text \<open>A round of \<open>_run\<close>: a query of the instruments that raises ends the cycle as degraded.\<close>

definition selection_cycle :: "cycle_env \<Rightarrow> coordinator \<Rightarrow> coordinator" where
  "selection_cycle env c =
     (let equity = equity_now env; crypto = crypto_now env;
          c1 = handle_session_transitions env equity crypto c;
          ((answer, _), c2) = coordinator_call env c1 in
      if answer \<noteq> Call_Done then c2\<lparr>sco_degraded := True\<rparr>
      else
        let (es, c3) = evaluate_rows env equity crypto (ce_instruments env) c2 in
        finish_selection env equity crypto es c3)"

definition start_coordinator :: "call_log \<Rightarrow> coordinator \<Rightarrow> coordinator" where
  "start_coordinator calls c = c\<lparr>sco_watchlist := restore calls (sco_watchlist c)\<rparr>"

end
