(* ===== verification/Selection_Safety.thy ===== *)
theory Selection_Safety
  imports Selection_Cycle
begin

text \<open>
  What the gates of the market selection promise: an instrument is eligible exactly when it meets a list of
  conditions that does not mention the order of the gates, and a decision has the status of its first gate.
\<close>

section \<open>Gates\<close>

text \<open>A gate keeps a blocking status and blocks exactly when its condition fails.\<close>

named_theorems gate_facts

lemma reject_status [simp]: "fst (reject r st g) = Some (case fst g of None \<Rightarrow> st | Some b \<Rightarrow> b)"
  by (cases g) (simp split: option.split)

lemma block_status [simp]: "fst (block st g) = Some (case fst g of None \<Rightarrow> st | Some b \<Rightarrow> b)"
  by (simp add: block_def)

lemma identity_gate_open [gate_facts]:
  "fst (identity_gate i g) = None \<longleftrightarrow>
     fst g = None \<and> in_instrument_status i \<noteq> ''DELISTED'' \<and> in_instrument_enabled i"
  by (simp add: identity_gate_def)

lemma denylist_gate_open [gate_facts]: "fst (denylist_gate i g) = None \<longleftrightarrow> fst g = None \<and> \<not> in_denylisted i"
  by (simp add: denylist_gate_def)

lemma class_gate_open [gate_facts]:
  "fst (class_gate i g) = None \<longleftrightarrow> fst g = None \<and> cl_asset_class (in_classification i) \<noteq> AC_UNKNOWN"
  by (simp add: class_gate_def)

lemma session_gate_open [gate_facts]:
  "fst (session_gate i g) = None \<longleftrightarrow> fst g = None \<and> sv_blocking_status (in_session i) = None"
  by (simp add: session_gate_def split: option.split)

lemma market_status_gate_open [gate_facts]:
  "fst (market_status_gate i g) = None \<longleftrightarrow>
     fst g = None \<and> in_instrument_status i = ''ACTIVE'' \<and> li_instrument_active (in_market i)"
  by (auto simp: market_status_gate_def)

definition usable_quality :: "resolved_thresholds \<Rightarrow> instrument_quality_status option \<Rightarrow> bool" where
  "usable_quality t st \<longleftrightarrow> st = Some Q_HEALTHY \<or> (st = Some Q_DEGRADED \<and> tv_allow_degraded_data t)"

lemma data_gate_open [gate_facts]:
  "fst (data_gate i g) = None \<longleftrightarrow>
     fst g = None \<and> usable_quality (in_thresholds i) (li_data_quality_status (in_market i))"
  by (simp add: data_gate_def usable_quality_def split: option.split instrument_quality_status.split)

lemma book_gate_open [gate_facts]:
  "fst (book_gate i g) = None \<longleftrightarrow> fst g = None \<and>
     (tv_require_fresh_orderbook (in_thresholds i) \<longrightarrow> li_book_reliable (in_market i) \<and> li_book_fresh (in_market i))"
  by (auto simp: book_gate_def Let_def)

lemma price_gate_open [gate_facts]:
  "fst (price_gate i g) = None \<longleftrightarrow> fst g = None \<and> li_bbo_present (in_market i) \<and>
     (\<exists>p. li_mark_price (in_market i) = Some p \<and> 0 < p)"
  by (auto simp: price_gate_def Let_def split: option.split)

definition enough_volume :: "resolved_thresholds \<Rightarrow> live_snapshot \<Rightarrow> bool" where
  "enough_volume t m \<longleftrightarrow> li_volume_fresh m \<and> (\<exists>v. li_volume_24h_pusd m = Some v \<and> tv_min_volume_24h_pusd t \<le> v)"

lemma volume_gate_open [gate_facts]:
  "fst (volume_gate i g) = None \<longleftrightarrow> fst g = None \<and>
     (tv_require_volume (in_thresholds i) \<longrightarrow> enough_volume (in_thresholds i) (in_market i))"
  by (auto simp: volume_gate_def enough_volume_def Let_def not_less split: option.split bool.split)

lemma spread_gate_open [gate_facts]:
  "fst (spread_gate i g) = None \<longleftrightarrow> fst g = None \<and>
     (\<forall>x. li_spread_bps (in_market i) = Some x \<longrightarrow> x < tv_max_spread_bps (in_thresholds i))"
  by (auto simp: spread_gate_def not_le split: option.split)

definition enough_depth :: "resolved_thresholds \<Rightarrow> live_snapshot \<Rightarrow> bool" where
  "enough_depth t m \<longleftrightarrow>
     (case (li_bid_depth_pusd m, li_ask_depth_pusd m) of
        (Some bid, Some ask) \<Rightarrow> tv_min_book_depth_pusd t \<le> bid \<and> tv_min_book_depth_pusd t \<le> ask
      | _ \<Rightarrow> \<not> tv_require_fresh_orderbook t)"

lemma depth_gate_open [gate_facts]:
  "fst (depth_gate i g) = None \<longleftrightarrow> fst g = None \<and> enough_depth (in_thresholds i) (in_market i)"
  by (auto simp: depth_gate_def enough_depth_def not_less split: option.split)

lemma consistency_gate_open [gate_facts]:
  "fst (consistency_gate q g) = None \<longleftrightarrow> fst g = None \<and> Status_Reason PRICE_INVALID \<notin> set (qy_reasons q)"
  by (simp add: consistency_gate_def)

lemma score_gate_open [gate_facts]:
  "fst (score_gate i q g) = None \<longleftrightarrow> fst g = None \<and> tv_min_quality_score (in_thresholds i) \<le> qy_score q"
  by (simp add: score_gate_def not_less)

section \<open>Reasons of the quality score\<close>

text \<open>Only the comparison of the prices gives the reason of an invalid price.\<close>

lemma quality_price_reason:
  "Status_Reason PRICE_INVALID \<in> set (qy_reasons (evaluate_market_quality m t)) \<longleftrightarrow>
     (\<exists>d. pairwise_deviation_bps m = Some d \<and> tv_max_deviation_bps t < d)"
proof -
  have data: "Status_Reason PRICE_INVALID \<notin> set (snd (evaluate_data_quality st))" for st
    by (cases st rule: evaluate_data_quality.cases) auto
  have spread: "Status_Reason PRICE_INVALID \<notin> set (snd (evaluate_spread m t x))" for x
    by (auto simp: evaluate_spread_def Let_def split: option.split bool.split)
  have depth: "Status_Reason PRICE_INVALID \<notin> set (snd (evaluate_depth m t x))" for x
    by (auto simp: evaluate_depth_def Let_def split: option.split)
  have volume: "Status_Reason PRICE_INVALID \<notin> set (snd (evaluate_volume m t x))" for x
    by (auto simp: evaluate_volume_def Let_def split: option.split bool.split)
  have prices: "Status_Reason PRICE_INVALID \<in> set (snd (evaluate_consistency m t)) \<longleftrightarrow>
      (\<exists>d. pairwise_deviation_bps m = Some d \<and> tv_max_deviation_bps t < d)"
    by (auto simp: evaluate_consistency_def Let_def split: option.split)
  show ?thesis using data spread depth volume prices
    by (simp add: evaluate_market_quality_def quality_parts_def Let_def case_prod_beta)
qed

section \<open>Eligible instruments\<close>

text \<open>The conditions under which an instrument may be analysed.\<close>

definition consistent_prices :: "resolved_thresholds \<Rightarrow> live_snapshot \<Rightarrow> bool" where
  "consistent_prices t m \<longleftrightarrow> (\<forall>d. pairwise_deviation_bps m = Some d \<longrightarrow> d \<le> tv_max_deviation_bps t)"

definition tradable_market :: "resolved_thresholds \<Rightarrow> live_snapshot \<Rightarrow> bool" where
  "tradable_market t m \<longleftrightarrow> li_instrument_active m \<and> usable_quality t (li_data_quality_status m) \<and>
     (tv_require_fresh_orderbook t \<longrightarrow> li_book_reliable m \<and> li_book_fresh m) \<and>
     li_bbo_present m \<and> (\<exists>p. li_mark_price m = Some p \<and> 0 < p) \<and>
     (tv_require_volume t \<longrightarrow> enough_volume t m) \<and>
     (\<forall>x. li_spread_bps m = Some x \<longrightarrow> x < tv_max_spread_bps t) \<and> enough_depth t m \<and> consistent_prices t m \<and>
     tv_min_quality_score t \<le> qy_score (evaluate_market_quality m t)"

definition analysable :: "selection_inputs \<Rightarrow> bool" where
  "analysable i \<longleftrightarrow> in_instrument_status i = ''ACTIVE'' \<and> in_instrument_enabled i \<and> \<not> in_denylisted i \<and>
     cl_asset_class (in_classification i) \<noteq> AC_UNKNOWN \<and> sv_blocking_status (in_session i) = None \<and>
     tradable_market (in_thresholds i) (in_market i)"

text \<open>The status after all gates is a reason to reject, or none.\<close>

lemma gates_never_eligible:
  assumes "fst g \<noteq> Some ELIGIBLE"
  shows "fst (identity_gate i g) \<noteq> Some ELIGIBLE" "fst (denylist_gate i g) \<noteq> Some ELIGIBLE"
    "fst (class_gate i g) \<noteq> Some ELIGIBLE"
    "sv_blocking_status (in_session i) \<noteq> Some ELIGIBLE \<Longrightarrow> fst (session_gate i g) \<noteq> Some ELIGIBLE"
    "fst (market_status_gate i g) \<noteq> Some ELIGIBLE" "fst (data_gate i g) \<noteq> Some ELIGIBLE"
    "fst (book_gate i g) \<noteq> Some ELIGIBLE" "fst (price_gate i g) \<noteq> Some ELIGIBLE"
    "fst (volume_gate i g) \<noteq> Some ELIGIBLE" "fst (spread_gate i g) \<noteq> Some ELIGIBLE"
    "fst (depth_gate i g) \<noteq> Some ELIGIBLE" "fst (consistency_gate q g) \<noteq> Some ELIGIBLE"
    "fst (score_gate i q g) \<noteq> Some ELIGIBLE"
  using assms
  by (auto simp: identity_gate_def denylist_gate_def class_gate_def session_gate_def market_status_gate_def
      data_gate_def book_gate_def price_gate_def volume_gate_def spread_gate_def depth_gate_def
      consistency_gate_def score_gate_def Let_def
      split: option.split option.split_asm instrument_quality_status.split bool.split)

text \<open>The state behind the last gate.\<close>

definition all_gates :: "selection_inputs \<Rightarrow> quality_result \<Rightarrow> gate_state" where
  "all_gates i q = score_gate i q (consistency_gate q (depth_gate i (spread_gate i (volume_gate i (price_gate i
     (book_gate i (data_gate i (market_status_gate i (session_gate i (class_gate i (denylist_gate i
       (identity_gate i (None, [])))))))))))))"

lemma all_gates_open:
  "fst (all_gates i (evaluate_market_quality (in_market i) (in_thresholds i))) = None \<longleftrightarrow> analysable i"
  unfolding all_gates_def gate_facts quality_price_reason analysable_def tradable_market_def consistent_prices_def
  by (auto simp: not_less)

lemma evaluated_status:
  "fst (evaluate_eligibility i q) = (case fst (all_gates i q) of None \<Rightarrow> ELIGIBLE | Some st \<Rightarrow> st)"
  by (cases "all_gates i q") (simp add: evaluate_eligibility_def all_gates_def Let_def split: option.split)

lemma evaluated_fields:
  "sd_eligibility_status (evaluate_instrument x i) =
     fst (evaluate_eligibility i (evaluate_market_quality (in_market i) (in_thresholds i)))"
  "sd_symbol (evaluate_instrument x i) = in_symbol i"
  "sd_market_quality_score (evaluate_instrument x i) =
     Some (qy_score (evaluate_market_quality (in_market i) (in_thresholds i)))"
  by (simp_all add: evaluate_instrument_def Let_def case_prod_beta)

lemma eligible_when_analysable:
  assumes "sv_blocking_status (in_session i) \<noteq> Some ELIGIBLE"
  shows "eligible (evaluate_instrument x i) \<longleftrightarrow> analysable i"
proof -
  have "fst (all_gates i q) \<noteq> Some ELIGIBLE" for q
    unfolding all_gates_def by (intro gates_never_eligible assms) simp
  then show ?thesis
    by (auto simp: eligible_def evaluated_fields evaluated_status simp flip: all_gates_open split: option.split)
qed

text \<open>A session never blocks with the status of an eligible instrument.\<close>

lemma gated_session_blocks: "sv_blocking_status (gated_session s ac e c) \<noteq> Some ELIGIBLE"
proof -
  have "sv_blocking_status (session_verdict_for_asset_class ac e c) \<noteq> Some ELIGIBLE"
    by (simp add: session_verdict_for_asset_class_def equity_blocking_def)
  moreover have "policy_block s ac \<noteq> Some ELIGIBLE"
    by (simp add: policy_block_def Let_def split: option.split)
  ultimately show ?thesis by (auto simp: gated_session_def Let_def split: option.split)
qed

lemma built_fields:
  "in_session (fst (build_inputs s th v live now row e c ms)) =
     gated_session s (cl_asset_class (classify_asset s now (ir_symbol row) (ir_category row))) e c"
  "in_instrument_pk (fst (build_inputs s th v live now row e c ms)) = ir_id row"
  "in_symbol (fst (build_inputs s th v live now row e c ms)) = ir_symbol row"
  "in_instrument_status (fst (build_inputs s th v live now row e c ms)) = ir_status row"
  by (simp_all add: build_inputs_def Let_def case_prod_beta)

text \<open>
  C39.  An instrument is eligible exactly when it is active, enabled and not denylisted, its class is known, its
  session and policy do not block, and its market is tradable: usable data, a fresh book where required, a
  quote and a mark price, enough volume and depth, a spread below the limit, consistent prices and the
  minimum score.  No other reason, and no order of the gates, decides.
\<close>

theorem eligible_iff_analysable:
  "eligible (evaluate_instrument x (fst (build_inputs s th v live now row e c ms))) \<longleftrightarrow>
     analysable (fst (build_inputs s th v live now row e c ms))"
  by (rule eligible_when_analysable) (simp add: built_fields gated_session_blocks)

end
