(* ===== verification/Watchlist_Safety.thy ===== *)
theory Watchlist_Safety
  imports Watchlist
begin

text \<open>
  The watchlist against its specification: a map from instruments to states.  The table and the memory of the
  service are read as such maps (\<open>stored\<close>, \<open>listed\<close>); the operations update them, and a reconciliation with
  an answering database puts exactly the best allowlisted candidates on the list.
\<close>

section \<open>Table and memory as maps\<close>

definition state_map :: "watch_row list \<Rightarrow> int \<rightharpoonup> selection_state" where
  "state_map rows = map_of (map (\<lambda>r. (wr_instrument_pk r, wr_state r)) rows)"

definition stored :: "watchlist \<Rightarrow> int \<rightharpoonup> selection_state" where
  "stored w = state_map (wa_rows w)"

definition listed :: "watchlist \<Rightarrow> int \<rightharpoonup> selection_state" where
  "listed w = map_option le_state \<circ> map_of (wa_entries w)"

definition one_row_each :: "watch_row list \<Rightarrow> bool" where
  "one_row_each rows \<longleftrightarrow> distinct (map wr_instrument_pk rows)"

lemma state_map_update:
  assumes "one_row_each rows" "list_ex (\<lambda>r. wr_instrument_pk r = pk) rows"
    "\<And>r. wr_instrument_pk (f r) = wr_instrument_pk r" "\<And>r. wr_state (f r) = st"
  shows "state_map (update_where (\<lambda>r. wr_instrument_pk r = pk) f rows) = (state_map rows)(pk \<mapsto> st)"
  using assms
proof (induction rows)
  case (Cons r rows)
  show ?case
  proof (cases "wr_instrument_pk r = pk")
    case True
    have "wr_instrument_pk r \<notin> wr_instrument_pk ` set rows" using Cons.prems(1) by (simp add: one_row_each_def)
    with True have "wr_instrument_pk x \<noteq> pk" if "x \<in> set rows" for x
      using imageI [OF that, of wr_instrument_pk] by metis
    then have "update_where (\<lambda>r. wr_instrument_pk r = pk) f rows = rows"
      by (auto simp: update_where_def intro!: map_idI)
    with True Cons.prems(3,4) show ?thesis by (simp add: state_map_def update_where_def fun_eq_iff)
  next
    case False
    then show ?thesis using Cons by (auto simp: state_map_def update_where_def one_row_each_def fun_upd_twist)
  qed
qed simp

lemma upsert_stored:
  assumes "upsert_entry now pk d st rows = Some rows'" "one_row_each rows"
  shows "state_map rows' = (state_map rows)(pk \<mapsto> st)" and "one_row_each rows'"
proof -
  let ?here = "list_ex (\<lambda>r. wr_instrument_pk r = pk) rows"
  have rows': "rows' = (if ?here then update_where (\<lambda>r. wr_instrument_pk r = pk) (refresh_row now d st) rows
      else rows @ [refresh_row now d st (fresh_row now pk d st)])"
    using assms(1) by (auto simp: upsert_entry_def split: if_splits)
  have "one_row_each rows' \<and> state_map rows' = (state_map rows)(pk \<mapsto> st)"
  proof (cases ?here)
    case True
    have "map wr_instrument_pk (update_where (\<lambda>r. wr_instrument_pk r = pk) (refresh_row now d st) rows) =
        map wr_instrument_pk rows"
      by (induction rows) (auto simp: update_where_def refresh_row_def)
    with True rows' assms(2) state_map_update [OF assms(2) True, of "refresh_row now d st" st]
    show ?thesis by (simp add: one_row_each_def refresh_row_def)
  next
    case False
    then have "state_map rows pk = None" by (auto simp: state_map_def map_of_eq_None_iff list_ex_iff)
    with False rows' assms(2) show ?thesis
      by (auto simp: one_row_each_def state_map_def refresh_row_def fresh_row_def list_ex_iff map_add_def fun_eq_iff
          split: option.split)
  qed
  then show "state_map rows' = (state_map rows)(pk \<mapsto> st)" and "one_row_each rows'" by simp_all
qed

lemma remove_row_stored:
  "state_map (remove_row pk rows) = (state_map rows)(pk := None)"
  "one_row_each rows \<Longrightarrow> one_row_each (remove_row pk rows)"
  by (induction rows) (auto simp: state_map_def remove_row_def one_row_each_def fun_eq_iff)

section \<open>The operations on the maps\<close>

named_theorems map_facts

lemma listed_simps [simp]:
  "listed (w\<lparr>wa_rows := rows\<rparr>) = listed w" "listed (w\<lparr>wa_events := evs\<rparr>) = listed w"
  "listed (w\<lparr>wa_degraded := b\<rparr>) = listed w" "listed (w\<lparr>wa_calls := n\<rparr>) = listed w"
  "listed (w\<lparr>wa_notices := ns\<rparr>) = listed w"
  by (simp_all add: listed_def)

lemma stored_simps [simp]:
  "stored (w\<lparr>wa_rows := rows\<rparr>) = state_map rows" "stored (w\<lparr>wa_events := evs\<rparr>) = stored w"
  "stored (w\<lparr>wa_degraded := b\<rparr>) = stored w" "stored (w\<lparr>wa_calls := n\<rparr>) = stored w"
  "stored (w\<lparr>wa_notices := ns\<rparr>) = stored w" "stored (w\<lparr>wa_entries := es\<rparr>) = stored w"
  by (simp_all add: stored_def)

lemma listed_entries [simp]:
  "listed (w\<lparr>wa_entries := AList.update pk e es\<rparr>) = (map_option le_state \<circ> map_of es)(pk \<mapsto> le_state e)"
  "listed (w\<lparr>wa_entries := AList.delete pk es\<rparr>) = (map_option le_state \<circ> map_of es)(pk := None)"
  by (auto simp: listed_def AList.update_conv' AList.delete_conv' fun_eq_iff)

lemma set_entry_maps [map_facts]:
  "stored (set_entry pk name st w) = stored w" "listed (set_entry pk name st w) = (listed w)(pk \<mapsto> st)"
  "wa_rows (set_entry pk name st w) = wa_rows w"
  by (simp_all add: set_entry_def listed_def [symmetric])

lemma notify_maps [map_facts]:
  "stored (notify n w) = stored w" "listed (notify n w) = listed w" "wa_rows (notify n w) = wa_rows w"
  by (simp_all add: notify_def)

lemma event_maps [map_facts]:
  "stored (snd (store_watch_event calls ev w)) = stored w" "listed (snd (store_watch_event calls ev w)) = listed w"
  "wa_rows (snd (store_watch_event calls ev w)) = wa_rows w"
  "wa_entries (snd (store_watch_event calls ev w)) = wa_entries w"
  by (simp_all add: store_watch_event_def next_call_def case_prod_beta)

lemma emit_event_maps [map_facts]:
  "stored (emit_event calls pk d ev a b w) = stored w" "listed (emit_event calls pk d ev a b w) = listed w"
  "wa_rows (emit_event calls pk d ev a b w) = wa_rows w"
  by (simp_all add: emit_event_def case_prod_beta Let_def event_maps)

text \<open>The condition of the database: no call is lost, or every call is done.\<close>

definition no_lost_calls :: "call_log \<Rightarrow> bool" where
  "no_lost_calls calls \<longleftrightarrow> (\<forall>n. fst (calls n) \<noteq> Call_Unanswered)"

definition answering :: "call_log \<Rightarrow> bool" where
  "answering calls \<longleftrightarrow> (\<forall>n. fst (calls n) = Call_Done)"

lemma answering_loses_nothing: "answering calls \<Longrightarrow> no_lost_calls calls"
  by (simp add: answering_def no_lost_calls_def)

lemma persist_listed [map_facts]: "listed (snd (persist_entry calls pk d st w)) = listed w"
  by (simp add: persist_entry_def next_call_def case_prod_beta Let_def split: option.split call_answer.split)

lemma persist_stored:
  assumes "no_lost_calls calls" "one_row_each (wa_rows w)"
  shows "stored (snd (persist_entry calls pk d st w)) =
      (if fst (persist_entry calls pk d st w) then (stored w)(pk \<mapsto> st) else stored w)"
    and "one_row_each (wa_rows (snd (persist_entry calls pk d st w)))"
proof -
  obtain a t where call: "calls (wa_calls w) = (a, t)" by fastforce
  with assms(1) have "a \<noteq> Call_Unanswered" unfolding no_lost_calls_def by (metis fst_conv)
  then show "stored (snd (persist_entry calls pk d st w)) =
      (if fst (persist_entry calls pk d st w) then (stored w)(pk \<mapsto> st) else stored w)"
    and "one_row_each (wa_rows (snd (persist_entry calls pk d st w)))"
    using call assms(2) upsert_stored
    by (auto simp: persist_entry_def next_call_def Let_def stored_def split: option.split call_answer.split)
qed

section \<open>One instrument\<close>

text \<open>The state an instrument gets, and whether its entry is written at all.\<close>

definition wanted :: "int list \<Rightarrow> int \<Rightarrow> selection_state" where
  "wanted target pk = (if pk \<in> set target then WATCHLIST_ACTIVE else WATCHLIST_PAUSED)"

definition touched :: "int list \<Rightarrow> (int \<rightharpoonup> selection_state) \<Rightarrow> int \<Rightarrow> bool" where
  "touched target f pk \<longleftrightarrow> pk \<in> set target \<or> f pk \<noteq> None"

text \<open>The decision as it is persisted.\<close>

definition persisted :: "int list \<Rightarrow> evaluation \<Rightarrow> selection_decision" where
  "persisted target p = (case p of (i, d) \<Rightarrow>
     with_state d (wanted target (in_instrument_pk i))
       (if in_instrument_pk i \<in> set target \<or> \<not> eligible d then []
        else [if \<not> in_allowlisted i then REASON_NOT_IN_ALLOWLIST else REASON_WATCHLIST_FULL]))"

definition attempt :: "call_log \<Rightarrow> int list \<Rightarrow> evaluation \<Rightarrow> watchlist \<Rightarrow> bool \<times> watchlist" where
  "attempt calls target p w =
     persist_entry calls (in_instrument_pk (fst p)) (persisted target p) (wanted target (in_instrument_pk (fst p))) w"

lemma listed_entry: "map_option le_state (map_of (wa_entries w) pk) = listed w pk"
  by (simp add: listed_def)

lemma listed_none: "listed w pk = None \<longleftrightarrow> map_of (wa_entries w) pk = None"
  by (simp add: listed_def)

lemma listed_some: "map_of (wa_entries w) pk = Some e \<Longrightarrow> listed w pk = Some (le_state e)"
  by (simp add: listed_def)

lemma reconcile_one_maps:
  fixes p :: evaluation and w :: watchlist and target :: "int list"
  defines "pk \<equiv> in_instrument_pk (fst p)"
  shows "touched target (listed w) pk \<Longrightarrow>
      stored (snd (reconcile_one calls target p w)) = stored (snd (attempt calls target p w)) \<and>
      wa_rows (snd (reconcile_one calls target p w)) = wa_rows (snd (attempt calls target p w)) \<and>
      listed (snd (reconcile_one calls target p w)) =
        (if fst (attempt calls target p w) then (listed w)(pk \<mapsto> wanted target pk) else listed w)"
    and "\<not> touched target (listed w) pk \<Longrightarrow> snd (reconcile_one calls target p w) = w"
proof -
  obtain i d where p: "p = (i, d)" by fastforce
  show "touched target (listed w) pk \<Longrightarrow>
      stored (snd (reconcile_one calls target p w)) = stored (snd (attempt calls target p w)) \<and>
      wa_rows (snd (reconcile_one calls target p w)) = wa_rows (snd (attempt calls target p w)) \<and>
      listed (snd (reconcile_one calls target p w)) =
        (if fst (attempt calls target p w) then (listed w)(pk \<mapsto> wanted target pk) else listed w)"
    unfolding p pk_def
    by (auto simp: reconcile_one_def to_active_def to_not_active_def to_ineligible_def attempt_def persisted_def
        wanted_def touched_def case_prod_beta Let_def map_facts listed_entry listed_none listed_some fun_eq_iff
        split: option.split)
  show "\<not> touched target (listed w) pk \<Longrightarrow> snd (reconcile_one calls target p w) = w"
    unfolding p pk_def
    by (auto simp: reconcile_one_def to_not_active_def to_ineligible_def touched_def Let_def listed_none
        split: option.split)
qed

section \<open>The memory knows the table\<close>

definition known :: "watchlist \<Rightarrow> bool" where
  "known w \<longleftrightarrow> one_row_each (wa_rows w) \<and> stored w \<subseteq>\<^sub>m listed w"

lemma reconcile_one_known:
  assumes "known w" "no_lost_calls calls"
  shows "known (snd (reconcile_one calls target p w))"
proof (cases "touched target (listed w) (in_instrument_pk (fst p))")
  case True
  have rows: "one_row_each (wa_rows w)" using assms(1) by (simp add: known_def)
  let ?pk = "in_instrument_pk (fst p)"
  have "stored (snd (attempt calls target p w)) =
      (if fst (attempt calls target p w) then (stored w)(?pk \<mapsto> wanted target ?pk) else stored w)"
    and "one_row_each (wa_rows (snd (attempt calls target p w)))"
    using persist_stored [OF assms(2) rows] by (simp_all add: attempt_def)
  with reconcile_one_maps(1) [OF True, of calls] assms(1) show ?thesis
    by (auto simp: known_def map_le_upd)
qed (use assms reconcile_one_maps(2) in auto)

lemma reconcile_all_known:
  "known w \<Longrightarrow> no_lost_calls calls \<Longrightarrow> known (snd (reconcile_all calls target ps final w))"
proof (induction ps arbitrary: final w)
  case (Cons p ps)
  show ?case using Cons.IH [OF reconcile_one_known [OF Cons.prems]] Cons.prems(2) by (simp add: case_prod_beta)
qed simp

text \<open>A removal may stop after either write.\<close>

lemma remove_entry_maps:
  "\<exists>b c. stored (remove_entry calls pk w) = (if b then (stored w)(pk := None) else stored w) \<and>
      wa_rows (remove_entry calls pk w) = (if b then remove_row pk (wa_rows w) else wa_rows w) \<and>
      listed (remove_entry calls pk w) = (if b \<and> c then (listed w)(pk := None) else listed w) \<and>
      (listed w pk = None \<longrightarrow> \<not> b) \<and> (answering calls \<and> listed w pk \<noteq> None \<longrightarrow> b \<and> c)"
proof (cases "map_of (wa_entries w) pk")
  case None
  then show ?thesis by (intro exI [of _ False]) (simp add: remove_entry_def listed_none)
next
  case (Some e)
  then have there: "listed w pk = Some (le_state e)" by (rule listed_some)
  obtain a t where call: "calls (wa_calls w) = (a, t)" by fastforce
  show ?thesis
  proof (cases "a = Call_Done")
    case True
    let ?c = "fst (calls (Suc (wa_calls w))) = Call_Done"
    have "remove_entry calls pk w = (let w3 = snd (store_watch_event calls (\<lambda>now. \<lparr>wx_instrument_pk = pk,
          wx_symbol = le_symbol e, wx_event_type = WE_REMOVED, wx_from_state = Some (le_state e),
          wx_to_state = SEL_REMOVED, wx_reasons = [Status_Reason INSTRUMENT_DELISTED], wx_decision_id = None,
          wx_created_at = now\<rparr>) (w\<lparr>wa_calls := Suc (wa_calls w), wa_rows := remove_row pk (wa_rows w)\<rparr>)) in
        if ?c then w3\<lparr>wa_entries := AList.delete pk (wa_entries w3)\<rparr> else w3\<lparr>wa_degraded := True\<rparr>)"
      using True Some call
      by (simp add: remove_entry_def next_call_def store_watch_event_def case_prod_beta Let_def)
    then show ?thesis using there
      by (intro exI [of _ True] exI [of _ ?c])
        (simp add: Let_def event_maps remove_row_stored listed_def [symmetric] stored_def [symmetric] answering_def)
  next
    case False
    then have "\<not> answering calls" using call unfolding answering_def by (metis fst_conv)
    then show ?thesis using Some call there False
      by (intro exI [of _ "a \<noteq> Call_Refused"] exI [of _ False])
        (simp add: remove_entry_def next_call_def Let_def remove_row_stored stored_def [symmetric])
  qed
qed

lemma remove_entry_known:
  assumes "known w"
  shows "known (remove_entry calls pk w)"
proof -
  from remove_entry_maps obtain b c where
    "stored (remove_entry calls pk w) = (if b then (stored w)(pk := None) else stored w)"
    "wa_rows (remove_entry calls pk w) = (if b then remove_row pk (wa_rows w) else wa_rows w)"
    "listed (remove_entry calls pk w) = (if b \<and> c then (listed w)(pk := None) else listed w)" by blast
  with assms show ?thesis by (auto simp: known_def remove_row_stored map_le_def)
qed

lemma fold_remove_known: "known w \<Longrightarrow> known (fold (remove_entry calls) pks w)"
  by (induction pks arbitrary: w) (simp_all add: remove_entry_known)

lemma restored_known:
  assumes "one_row_each rows" "fst (calls 0) = Call_Done"
  shows "known (restore calls (new_watchlist rows))"
proof -
  have unique: "distinct (map wr_instrument_pk (load_all rows))"
    using assms(1) by (simp add: one_row_each_def load_all_def distinct_map)
  have table: "map_of (map (\<lambda>r. (wr_instrument_pk r, wr_state r)) (load_all rows)) = state_map rows"
    unfolding state_map_def using unique assms(1)
    by (subst map_of_inject_set) (simp_all add: load_all_def one_row_each_def comp_def)
  have "map_option le_state \<circ> map_of (map (\<lambda>r. (wr_instrument_pk r, \<lparr>le_symbol = wr_symbol r,
        le_state = wr_state r\<rparr>)) rs) = map_of (map (\<lambda>r. (wr_instrument_pk r, wr_state r)) rs)" for rs
    by (induction rs) (auto simp: fun_eq_iff)
  then have "map_option le_state \<circ> map_of (map (\<lambda>r. (wr_instrument_pk r, \<lparr>le_symbol = wr_symbol r,
        le_state = wr_state r\<rparr>)) (load_all rows)) = state_map rows" using table by (rule trans)
  moreover have "calls 0 = (Call_Done, snd (calls 0))" using assms(2) by (metis prod.collapse)
  ultimately show ?thesis using assms(1)
    by (cases "calls 0") (simp add: known_def restore_def next_call_def new_watchlist_def listed_def stored_def)
qed

lemma reconcile_known: "known w \<Longrightarrow> no_lost_calls calls \<Longrightarrow> known (snd (reconcile s calls es w))"
  by (simp add: reconcile_def Let_def case_prod_beta fold_remove_known reconcile_all_known)

section \<open>A cycle with an answering database\<close>

text \<open>Symbols name instruments uniquely, as the instrument table demands.\<close>

definition named :: "(int \<Rightarrow> string) \<Rightarrow> watch_row list \<Rightarrow> bool" where
  "named name rows \<longleftrightarrow> (\<forall>r \<in> set rows. wr_symbol r = name (wr_instrument_pk r))"

lemma persist_answered:
  assumes "answering calls" "inj name" "named name (wa_rows w)" "sd_symbol d = name pk"
  shows "fst (persist_entry calls pk d st w)" and "named name (wa_rows (snd (persist_entry calls pk d st w)))"
proof -
  obtain t where call: "calls (wa_calls w) = (Call_Done, t)"
    using assms(1) unfolding answering_def by (metis prod.collapse)
  have "\<not> list_ex (\<lambda>r. wr_instrument_pk r \<noteq> pk \<and> wr_symbol r = sd_symbol d) (wa_rows w)"
    using assms(2-4) by (auto simp: list_ex_iff named_def inj_eq)
  then obtain rows where rows: "upsert_entry t pk d st (wa_rows w) = Some rows"
    by (cases "list_ex (\<lambda>r. wr_instrument_pk r = pk) (wa_rows w)") (simp_all add: upsert_entry_def)
  moreover have "named name rows"
    using rows assms(3,4)
    by (auto simp: upsert_entry_def named_def refresh_row_def fresh_row_def update_where_def split: if_splits)
  ultimately show "fst (persist_entry calls pk d st w)"
    and "named name (wa_rows (snd (persist_entry calls pk d st w)))"
    using call by (simp_all add: persist_entry_def next_call_def)
qed

text \<open>The specification: what a cycle makes of a map of states.\<close>

definition settled :: "int list \<Rightarrow> int list \<Rightarrow> (int \<rightharpoonup> selection_state) \<Rightarrow> int \<rightharpoonup> selection_state" where
  "settled target pks f pk =
     (if pk \<in> set pks \<and> touched target f pk then Some (wanted target pk) else f pk)"

lemma reconcile_one_settles:
  fixes p :: evaluation and target :: "int list"
  assumes "answering calls" "inj name" "known w" "named name (wa_rows w)"
    "sd_symbol (snd p) = name (in_instrument_pk (fst p))"
  defines "w' \<equiv> snd (reconcile_one calls target p w)" and "pk \<equiv> in_instrument_pk (fst p)"
  shows "listed w' = settled target [pk] (listed w)" and "stored w' = (stored w)(pk := listed w' pk)"
    and "known w'" and "named name (wa_rows w')"
proof -
  note lossless = answering_loses_nothing [OF assms(1)]
  show "known w'" unfolding w'_def by (rule reconcile_one_known [OF assms(3) lossless])
  have "listed w' = settled target [pk] (listed w) \<and> stored w' = (stored w)(pk := listed w' pk) \<and>
    named name (wa_rows w')"
  proof (cases "touched target (listed w) pk")
    case True
    have symbol: "sd_symbol (persisted target p) = name pk"
      using assms(5) by (simp add: persisted_def with_state_def pk_def case_prod_beta)
    have "fst (attempt calls target p w)" "named name (wa_rows (snd (attempt calls target p w)))"
      using persist_answered [OF assms(1,2,4) symbol] by (simp_all add: attempt_def pk_def)
    moreover have "stored (snd (attempt calls target p w)) =
        (if fst (attempt calls target p w) then (stored w)(pk \<mapsto> wanted target pk) else stored w)"
      using persist_stored [OF lossless] assms(3) by (simp add: attempt_def pk_def known_def)
    ultimately show ?thesis
      using reconcile_one_maps(1) [of target w p calls] True
      by (auto simp: w'_def settled_def fun_eq_iff pk_def [symmetric])
  next
    case False
    then have "w' = w" using reconcile_one_maps(2) by (simp add: w'_def pk_def)
    moreover have "stored w pk = None"
      using False assms(3) by (auto simp: known_def touched_def map_le_def dom_def)
    ultimately show ?thesis using False assms(4) by (auto simp: settled_def touched_def)
  qed
  then show "listed w' = settled target [pk] (listed w)" and "stored w' = (stored w)(pk := listed w' pk)"
    and "named name (wa_rows w')" by simp_all
qed

lemma settled_step:
  assumes "pk \<notin> set pks"
  shows "settled target pks (settled target [pk] f) = settled target (pk # pks) f"
  using assms by (auto simp: settled_def touched_def fun_eq_iff)

lemma reconcile_all_settles:
  assumes "answering calls" "inj name"
  shows "known w \<Longrightarrow> named name (wa_rows w) \<Longrightarrow> distinct (map (\<lambda>p. in_instrument_pk (fst p)) ps) \<Longrightarrow>
    (\<And>p. p \<in> set ps \<Longrightarrow> sd_symbol (snd p) = name (in_instrument_pk (fst p))) \<Longrightarrow>
    (let w' = snd (reconcile_all calls target ps final w); pks = map (\<lambda>p. in_instrument_pk (fst p)) ps in
     listed w' = settled target pks (listed w) \<and> named name (wa_rows w') \<and>
     stored w' = (\<lambda>pk. if pk \<in> set pks then listed w' pk else stored w pk))"
proof (induction ps arbitrary: final w)
  case Nil
  then show ?case by (simp add: settled_def fun_eq_iff)
next
  case (Cons p ps)
  let ?w1 = "snd (reconcile_one calls target p w)" and ?pk = "in_instrument_pk (fst p)"
  have symbol: "sd_symbol (snd p) = name ?pk" using Cons.prems(4) by simp
  note step = reconcile_one_settles [OF assms Cons.prems(1,2) symbol, of target]
  have fresh: "?pk \<notin> set (map (\<lambda>p. in_instrument_pk (fst p)) ps)" using Cons.prems(3) by simp
  have distinct: "distinct (map (\<lambda>p. in_instrument_pk (fst p)) ps)" using Cons.prems(3) by simp
  note rest = Cons.IH [OF step(3,4) distinct, unfolded Let_def, OF Cons.prems(4) [OF list.set_intros(2)]]
  let ?w2 = "snd (reconcile_all calls target (p # ps) final w)" and ?pks = "map (\<lambda>p. in_instrument_pk (fst p)) ps"
  have w2: "?w2 = snd (reconcile_all calls target ps (AList.update ?pk (fst (reconcile_one calls target p w)) final) ?w1)"
    by (simp add: case_prod_beta)
  have L: "listed ?w2 = settled target (?pk # ?pks) (listed w)"
    unfolding w2 settled_step [OF fresh, symmetric] step(1) [symmetric] using rest by blast
  have S: "stored ?w2 = (\<lambda>pk. if pk \<in> set ?pks then listed ?w2 pk else stored ?w1 pk)"
    unfolding w2 using rest by blast
  have "listed ?w2 ?pk = listed ?w1 ?pk" unfolding L step(1) by (simp add: settled_def)
  then have "stored ?w2 pk = (if pk \<in> set (?pk # ?pks) then listed ?w2 pk else stored w pk)" for pk
    using fresh unfolding S step(2) by auto
  moreover have "named name (wa_rows ?w2)" unfolding w2 using rest by blast
  ultimately show ?case using L by (simp add: Let_def fun_eq_iff)
qed

lemma remove_answered:
  assumes "answering calls"
  shows "listed (remove_entry calls pk w) = (listed w)(pk := None)"
    and "stored (remove_entry calls pk w) = (if listed w pk = None then stored w else (stored w)(pk := None))"
proof -
  have "listed (remove_entry calls pk w) = (listed w)(pk := None) \<and>
    stored (remove_entry calls pk w) = (if listed w pk = None then stored w else (stored w)(pk := None))"
  proof (cases "listed w pk = None")
    case True
    then show ?thesis by (simp add: remove_entry_def listed_none fun_upd_idem)
  next
    case False
    then show ?thesis using remove_entry_maps [of calls pk w] assms by auto
  qed
  then show "listed (remove_entry calls pk w) = (listed w)(pk := None)"
    and "stored (remove_entry calls pk w) = (if listed w pk = None then stored w else (stored w)(pk := None))"
    by simp_all
qed

lemma fold_remove_answered:
  assumes "answering calls"
  shows "listed (fold (remove_entry calls) pks w) = (\<lambda>pk. if pk \<in> set pks then None else listed w pk) \<and>
    stored (fold (remove_entry calls) pks w) =
      (\<lambda>pk. if pk \<in> set pks \<and> listed w pk \<noteq> None then None else stored w pk)"
  by (induction pks arbitrary: w) (auto simp: remove_answered [OF assms] fun_eq_iff)

text \<open>What the evaluations of one cycle have in common: one for each instrument, under its name.\<close>

definition eval_pk :: "evaluation \<Rightarrow> int" where
  "eval_pk p = in_instrument_pk (fst p)"

definition proper :: "(int \<Rightarrow> string) \<Rightarrow> evaluation list \<Rightarrow> bool" where
  "proper name es \<longleftrightarrow> distinct (map eval_pk es) \<and>
     (\<forall>p \<in> set es. in_symbol (fst p) = name (eval_pk p) \<and> sd_symbol (snd p) = name (eval_pk p))"

definition reconciled_states :: "int list \<Rightarrow> int list \<Rightarrow> (int \<rightharpoonup> selection_state) \<Rightarrow> int \<rightharpoonup> selection_state" where
  "reconciled_states target pks f pk =
     (if pk \<in> set pks \<and> touched target f pk then Some (wanted target pk) else None)"

lemma dom_listed: "pk \<in> fst ` set (wa_entries w) \<longleftrightarrow> listed w pk \<noteq> None"
  by (simp add: listed_none map_of_eq_None_iff)

text \<open>The refinement: with an answering database a cycle computes its specification on table and memory alike.\<close>

lemma reconcile_refines:
  fixes es :: "evaluation list" and s :: selection_settings
  assumes "answering calls" "inj name" "known w" "named name (wa_rows w)" "proper name es"
  defines "w' \<equiv> snd (reconcile s calls es w)"
  shows "stored w' = reconciled_states (target_active s es) (map eval_pk es) (listed w)" and "listed w' = stored w'"
proof -
  let ?target = "target_active s es" and ?pks = "map eval_pk es"
  let ?w1 = "snd (reconcile_all calls ?target es [] w)"
  have pks: "map (\<lambda>p. in_instrument_pk (fst p)) es = ?pks" by (simp add: eval_pk_def)
  have one: "listed ?w1 = settled ?target ?pks (listed w)"
    "stored ?w1 = (\<lambda>pk. if pk \<in> set ?pks then listed ?w1 pk else stored w pk)"
    using reconcile_all_settles [OF assms(1-4), of es ?target "[]", unfolded pks] assms(5)
    by (auto simp: proper_def eval_pk_def Let_def)
  have gone: "pk \<in> set (vanished es ?w1) \<longleftrightarrow> pk \<notin> set ?pks \<and> listed ?w1 pk \<noteq> None" for pk
    by (auto simp: vanished_def dom_listed eval_pk_def case_prod_beta)
  have other: "stored w pk = None" if "listed w pk = None" for pk
    using assms(3) that by (auto simp: known_def map_le_def dom_def)
  have "listed w' = reconciled_states ?target ?pks (listed w) \<and> stored w' = reconciled_states ?target ?pks (listed w)"
    using fold_remove_answered [OF assms(1), of "vanished es ?w1" ?w1] one gone other
    by (auto simp: w'_def reconcile_def Let_def case_prod_beta reconciled_states_def settled_def touched_def fun_eq_iff)
  then show "stored w' = reconciled_states ?target ?pks (listed w)" and "listed w' = stored w'" by simp_all
qed

section \<open>Rank\<close>

lemma take_ranked:
  fixes k :: "'a \<Rightarrow> 'b::linorder"
  assumes "sorted_wrt (\<lambda>x y. k x < k y) xs" "x \<in> set xs"
  shows "x \<in> set (take n xs) \<longleftrightarrow> card {y \<in> set xs. k y < k x} < n"
  using assms
proof (induction xs arbitrary: n)
  case (Cons z xs)
  have above: "k z < k y" if "y \<in> set xs" for y using Cons.prems(1) that by simp
  show ?case
  proof (cases "x = z")
    case True
    then have "{y \<in> set (z # xs). k y < k x} = {}" using above by fastforce
    then have none: "card {y \<in> set (z # xs). k y < k x} = 0" by simp
    have "z \<notin> set (take m xs)" for m using above in_set_takeD by fastforce
    then show ?thesis unfolding none using True by (cases n) auto
  next
    case False
    with Cons.prems(2) have x: "x \<in> set xs" by simp
    then have "{y \<in> set (z # xs). k y < k x} = insert z {y \<in> set xs. k y < k x}" using above by auto
    moreover have "z \<notin> {y \<in> set xs. k y < k x}" using above by fastforce
    ultimately have "card {y \<in> set (z # xs). k y < k x} = Suc (card {y \<in> set xs. k y < k x})" by simp
    then show ?thesis using Cons.IH [of "n - 1"] Cons.prems(1) x False by (cases n) auto
  qed
qed simp

definition candidate :: "evaluation \<Rightarrow> bool" where
  "candidate p \<longleftrightarrow> eligible (snd p) \<and> in_allowlisted (fst p)"

lemma target_ranked:
  assumes "inj name" "proper name es" "0 \<le> sel_max_watchlist_size s"
  shows "pk \<in> set (target_active s es) \<longleftrightarrow>
    (\<exists>p \<in> set es. eval_pk p = pk \<and> candidate p \<and>
      int (card {q \<in> set es. candidate q \<and> watchlist_rank q < watchlist_rank p}) < sel_max_watchlist_size s)"
proof -
  let ?n = "nat (sel_max_watchlist_size s)" and ?xs = "ranked_candidates es"
  have members: "set ?xs = {q \<in> set es. candidate q}"
    by (auto simp: ranked_candidates_def candidate_def)
  have keys: "inj_on eval_pk (set es)" using assms(2) by (simp add: proper_def distinct_map)
  have "inj_on watchlist_rank (set es)"
  proof (rule inj_onI)
    fix p q assume "p \<in> set es" "q \<in> set es" "watchlist_rank p = watchlist_rank q"
    then show "p = q" using assms(1,2) keys by (auto simp: watchlist_rank_def proper_def inj_eq dest: inj_onD)
  qed
  then have "distinct (map watchlist_rank ?xs)"
    using assms(2) by (auto simp: ranked_candidates_def proper_def distinct_map inj_on_def)
  moreover have "sorted (map watchlist_rank ?xs)" by (simp add: ranked_candidates_def)
  ultimately have "sorted_wrt (\<lambda>x y. x < y) (map watchlist_rank ?xs)" by (simp add: strict_sorted_iff)
  then have sorted: "sorted_wrt (\<lambda>x y. watchlist_rank x < watchlist_rank y) ?xs" by (simp add: sorted_wrt_map)
  have each: "p \<in> set (take ?n ?xs) \<longleftrightarrow>
      p \<in> set ?xs \<and> card {q \<in> set ?xs. watchlist_rank q < watchlist_rank p} < ?n" for p
    using take_ranked [OF sorted, of p ?n] in_set_takeD [of p ?n ?xs] by blast
  have "pk \<in> set (target_active s es) \<longleftrightarrow> (\<exists>p \<in> set (take ?n ?xs). eval_pk p = pk)"
    using assms(3) by (auto simp: target_active_def py_prefix_def eval_pk_def case_prod_beta)
  also have "\<dots> \<longleftrightarrow> (\<exists>p \<in> set ?xs. eval_pk p = pk \<and> card {q \<in> set ?xs. watchlist_rank q < watchlist_rank p} < ?n)"
    unfolding Bex_def each by blast
  finally show ?thesis using assms(3) unfolding members by (auto simp: zless_nat_eq_int_zless conj_ac)
qed

section \<open>The list after a cycle\<close>

lemma active_states:
  assumes "one_row_each (wa_rows w)"
  shows "pk \<in> set (map wr_instrument_pk (active_rows w)) \<longleftrightarrow> stored w pk = Some WATCHLIST_ACTIVE"
proof -
  have "distinct (map fst (map (\<lambda>r. (wr_instrument_pk r, wr_state r)) (wa_rows w)))"
    using assms by (simp add: one_row_each_def comp_def)
  from map_of_eq_Some_iff [OF this] show ?thesis
    by (auto simp: active_rows_def load_all_def stored_def state_map_def)
qed

lemma target_length: "0 \<le> sel_max_watchlist_size s \<Longrightarrow> int (length (target_active s es)) \<le> sel_max_watchlist_size s"
  by (simp add: target_active_def py_prefix_def)

lemma py_prefix_subset: "set (py_prefix n xs) \<subseteq> set xs"
  by (auto simp: py_prefix_def dest: in_set_takeD)

lemma target_candidates:
  assumes "pk \<in> set (target_active s es)"
  shows "\<exists>p \<in> set es. eval_pk p = pk \<and> candidate p"
proof -
  have "target_active s es = map eval_pk (py_prefix (sel_max_watchlist_size s) (ranked_candidates es))"
    by (simp add: target_active_def eval_pk_def case_prod_beta)
  with assms obtain p where p: "p \<in> set (py_prefix (sel_max_watchlist_size s) (ranked_candidates es))" "pk = eval_pk p"
    by (metis imageE set_map)
  from p(1) have "p \<in> set (ranked_candidates es)" by (rule subsetD [OF py_prefix_subset])
  then have "p \<in> set es \<and> candidate p" by (simp add: ranked_candidates_def candidate_def case_prod_beta)
  with p(2) show ?thesis by blast
qed

lemma reconciled_active:
  assumes "answering calls" "inj name" "known w" "named name (wa_rows w)" "proper name es"
  shows "set (map wr_instrument_pk (active_rows (snd (reconcile s calls es w)))) = set (target_active s es)"
proof -
  let ?w' = "snd (reconcile s calls es w)"
  have rows: "one_row_each (wa_rows ?w')"
    using reconcile_known [OF assms(3) answering_loses_nothing [OF assms(1)]] by (simp add: known_def)
  have evaluated: "pk \<in> set (map eval_pk es)" if "pk \<in> set (target_active s es)" for pk
    using target_candidates [OF that] by auto
  show ?thesis
  proof (rule set_eqI)
    fix pk
    show "pk \<in> set (map wr_instrument_pk (active_rows ?w')) \<longleftrightarrow> pk \<in> set (target_active s es)"
      unfolding active_states [OF rows] reconcile_refines(1) [OF assms] using evaluated [of pk]
      by (auto simp: reconciled_states_def touched_def wanted_def)
  qed
qed

section \<open>What a failing database leaves\<close>

text \<open>
  A pause whose write fails is reported nevertheless: the decision says \<open>WATCHLIST_PAUSED\<close> while table and
  memory keep the row active, for ineligible instruments and for those without a place alike.
\<close>

lemma unpersisted_pause_reported:
  assumes "fst (calls (wa_calls w)) = Call_Refused" "map_of (wa_entries w) (in_instrument_pk i) = Some e"
    "in_instrument_pk i \<notin> set target"
  shows "sd_selection_state (fst (reconcile_one calls target (i, d) w)) = WATCHLIST_PAUSED"
    and "stored (snd (reconcile_one calls target (i, d) w)) = stored w"
    and "listed (snd (reconcile_one calls target (i, d) w)) = listed w"
proof -
  obtain t where call: "calls (wa_calls w) = (Call_Refused, t)" using assms(1) by (metis prod.collapse)
  then have "persist_entry calls pk x st w = (False, w\<lparr>wa_calls := Suc (wa_calls w), wa_degraded := True\<rparr>)" for pk x st
    by (simp add: persist_entry_def next_call_def)
  then show "sd_selection_state (fst (reconcile_one calls target (i, d) w)) = WATCHLIST_PAUSED"
    and "stored (snd (reconcile_one calls target (i, d) w)) = stored w"
    and "listed (snd (reconcile_one calls target (i, d) w)) = listed w"
    using assms(2,3)
    by (simp_all add: reconcile_one_def to_not_active_def to_ineligible_def with_state_def Let_def)
qed

text \<open>A row that the memory does not know stays as it is, unless its instrument gets a place again.\<close>

definition unknown_row :: "watch_row \<Rightarrow> watchlist \<Rightarrow> bool" where
  "unknown_row r w \<longleftrightarrow> r \<in> set (wa_rows w) \<and> listed w (wr_instrument_pk r) = None"

lemma upsert_other:
  "upsert_entry now pk d st rows = Some rows' \<Longrightarrow> r \<in> set rows \<Longrightarrow> wr_instrument_pk r \<noteq> pk \<Longrightarrow> r \<in> set rows'"
  by (force simp: upsert_entry_def update_where_def split: if_splits)

lemma attempt_other:
  assumes "r \<in> set (wa_rows w)" "wr_instrument_pk r \<noteq> eval_pk p"
  shows "r \<in> set (wa_rows (snd (attempt calls target p w)))"
  using assms upsert_other
  by (auto simp: attempt_def persist_entry_def next_call_def eval_pk_def Let_def
      split: option.split call_answer.split prod.split)

lemma reconcile_one_unknown:
  assumes "unknown_row r w" "wr_instrument_pk r \<notin> set target"
  shows "unknown_row r (snd (reconcile_one calls target p w))"
proof (cases "touched target (listed w) (in_instrument_pk (fst p))")
  case True
  with assms have "wr_instrument_pk r \<noteq> eval_pk p" by (auto simp: touched_def unknown_row_def eval_pk_def)
  with reconcile_one_maps(1) [OF True, of calls] attempt_other [of r w p calls target] assms(1)
  show ?thesis by (auto simp: unknown_row_def eval_pk_def)
qed (use assms reconcile_one_maps(2) in auto)

lemma reconcile_all_unknown:
  "unknown_row r w \<Longrightarrow> wr_instrument_pk r \<notin> set target \<Longrightarrow>
     unknown_row r (snd (reconcile_all calls target ps final w))"
  by (induction ps arbitrary: final w) (simp_all add: case_prod_beta reconcile_one_unknown)

lemma remove_entry_unknown:
  assumes "unknown_row r w"
  shows "unknown_row r (remove_entry calls pk w)"
proof -
  from remove_entry_maps obtain b c where
    "wa_rows (remove_entry calls pk w) = (if b then remove_row pk (wa_rows w) else wa_rows w)"
    "listed (remove_entry calls pk w) = (if b \<and> c then (listed w)(pk := None) else listed w)"
    "listed w pk = None \<longrightarrow> \<not> b" by blast
  with assms show ?thesis by (auto simp: unknown_row_def remove_row_def)
qed

lemma reconcile_unknown:
  assumes "unknown_row r w" "wr_instrument_pk r \<notin> set (target_active s es)"
  shows "unknown_row r (snd (reconcile s calls es w))"
proof -
  have "unknown_row r w \<Longrightarrow> unknown_row r (fold (remove_entry calls) pks w)" for pks w
    by (induction pks arbitrary: w) (simp_all add: remove_entry_unknown)
  with reconcile_all_unknown [OF assms] show ?thesis by (simp add: reconcile_def Let_def case_prod_beta)
qed

end
