(* ===== verification/Watchlist_Cycles.thy ===== *)
theory Watchlist_Cycles
  imports Selection_Safety Watchlist_Safety
begin

text \<open>
  The cycles of the market selection as a whole: what the memory of the service knows in every reachable state,
  which instruments are active after a cycle, and what becomes of rows the memory never learned of.
\<close>

section \<open>Steps that leave the list alone\<close>

definition same_list :: "watchlist \<Rightarrow> watchlist \<Rightarrow> bool" where
  "same_list w w' \<longleftrightarrow> wa_rows w' = wa_rows w \<and> wa_entries w' = wa_entries w"

lemma same_list_facts:
  assumes "same_list w w'"
  shows "stored w' = stored w" "listed w' = listed w" "known w' = known w" "unknown_row r w' = unknown_row r w"
    "active_rows w' = active_rows w" "wa_rows w' = wa_rows w"
  using assms by (simp_all add: same_list_def stored_def listed_def known_def unknown_row_def active_rows_def)

lemma same_list_trans: "same_list a b \<Longrightarrow> same_list b c \<Longrightarrow> same_list a c"
  by (simp add: same_list_def)

lemma call_same: "same_list (sco_watchlist c) (sco_watchlist (snd (coordinator_call env c)))"
  by (simp add: coordinator_call_def next_call_def same_list_def)

lemma session_change_same:
  "wa_rows (sco_watchlist (record_session_change env scope before state version c)) = wa_rows (sco_watchlist c)"
  "wa_entries (sco_watchlist (record_session_change env scope before state version c)) = wa_entries (sco_watchlist c)"
  using call_same [of c env]
  by (simp_all add: record_session_change_def notify_def same_list_def case_prod_beta Let_def split: option.split)

lemma transitions_same:
  "same_list (sco_watchlist c) (sco_watchlist (handle_session_transitions env equity crypto c))"
  by (simp add: handle_session_transitions_def same_list_def notify_def session_change_same Let_def)

lemma classification_same: "same_list (sco_watchlist c) (sco_watchlist (persist_classification env i c))"
  using call_same [of c env]
  by (simp add: persist_classification_def same_list_def case_prod_beta Let_def)

lemma decision_same: "same_list (sco_watchlist c) (sco_watchlist (persist_decision env p c))"
  using call_same [of c env]
  by (simp add: persist_decision_def same_list_def case_prod_beta Let_def)

lemma decisions_same: "same_list (sco_watchlist c) (sco_watchlist (fold (persist_decision env) ps c))"
proof (induction ps arbitrary: c)
  case (Cons p ps)
  show ?case using same_list_trans [OF decision_same Cons.IH] by simp
qed (simp add: same_list_def)

lemma evaluate_rows_same:
  "same_list (sco_watchlist c) (sco_watchlist (snd (evaluate_rows env equity crypto rows c)))"
proof (induction rows arbitrary: c)
  case (Cons row rows)
  let ?b = "build_inputs (ce_selection env) (ce_thresholds env) (ce_version env) (ce_live env) (ce_now env) row
    equity crypto (sco_market c)"
  show ?case
    using same_list_trans [OF classification_same [of "c\<lparr>sco_market := snd ?b\<rparr>" env "fst ?b"] Cons.IH]
    by (simp add: case_prod_beta Let_def)
qed (simp add: same_list_def)

section \<open>The evaluations of a cycle\<close>

definition inputs_of :: "cycle_env \<Rightarrow> instrument_row \<Rightarrow> market_state \<Rightarrow> selection_inputs" where
  "inputs_of env row ms =
     fst (build_inputs (ce_selection env) (ce_thresholds env) (ce_version env) (ce_live env) (ce_now env) row
       (equity_now env) (crypto_now env) ms)"

text \<open>Each instrument is evaluated once, in the market state its predecessors leave.\<close>

lemma evaluate_rows_list:
  "list_all2 (\<lambda>row p. \<exists>ms. p = (inputs_of env row ms, evaluate_instrument (ce_decision_id env (ir_id row)) (inputs_of env row ms)))
     rows (fst (evaluate_rows env (equity_now env) (crypto_now env) rows c))"
  by (induction rows arbitrary: c) (auto simp: case_prod_beta Let_def inputs_of_def)

lemma inputs_fields:
  "in_instrument_pk (inputs_of env row ms) = ir_id row" "in_symbol (inputs_of env row ms) = ir_symbol row"
  "in_instrument_status (inputs_of env row ms) = ir_status row"
  by (simp_all add: inputs_of_def built_fields)

lemma evaluated_eligible: "eligible (evaluate_instrument x (inputs_of env row ms)) \<longleftrightarrow> analysable (inputs_of env row ms)"
  unfolding inputs_of_def by (rule eligible_when_analysable) (simp add: built_fields gated_session_blocks)

text \<open>The state in which the list is reconciled, and the state behind it.\<close>

definition gathered :: "cycle_env \<Rightarrow> coordinator \<Rightarrow> evaluation list \<times> coordinator" where
  "gathered env c = evaluate_rows env (equity_now env) (crypto_now env) (ce_instruments env)
     (snd (coordinator_call env (handle_session_transitions env (equity_now env) (crypto_now env) c)))"

lemma gathered_same: "same_list (sco_watchlist c) (sco_watchlist (snd (gathered env c)))"
  unfolding gathered_def
  by (rule same_list_trans [OF same_list_trans [OF transitions_same call_same] evaluate_rows_same])

lemma finish_selection_list:
  "same_list (snd (reconcile (ce_selection env) (ce_calls env) es (sco_watchlist c)))
     (sco_watchlist (finish_selection env equity crypto es c))"
  using decisions_same [of "snd (reconcile_watchlist env es c)" env "fst (reconcile_watchlist env es c)"]
  by (simp add: finish_selection_def reconcile_watchlist_def case_prod_beta Let_def)

lemma selection_cycle_cases:
  "same_list (sco_watchlist c) (sco_watchlist (selection_cycle env c)) \<or>
   selection_cycle env c = finish_selection env (equity_now env) (crypto_now env) (fst (gathered env c)) (snd (gathered env c))"
proof -
  let ?c1 = "handle_session_transitions env (equity_now env) (crypto_now env) c"
  let ?call = "coordinator_call env ?c1"
  have "selection_cycle env c = (if fst (fst ?call) \<noteq> Call_Done then (snd ?call)\<lparr>sco_degraded := True\<rparr>
      else finish_selection env (equity_now env) (crypto_now env) (fst (gathered env c)) (snd (gathered env c)))"
    by (simp add: selection_cycle_def gathered_def case_prod_beta Let_def)
  moreover have "same_list (sco_watchlist c) (sco_watchlist (snd ?call))"
    by (rule same_list_trans [OF transitions_same call_same])
  ultimately show ?thesis by simp
qed

lemma gathered_list:
  "list_all2 (\<lambda>row p. \<exists>ms. p = (inputs_of env row ms, evaluate_instrument (ce_decision_id env (ir_id row)) (inputs_of env row ms)))
     (ce_instruments env) (fst (gathered env c))"
  unfolding gathered_def by (rule evaluate_rows_list)

lemma gathered_member:
  assumes "p \<in> set (fst (gathered env c))"
  shows "\<exists>row \<in> set (ce_instruments env). \<exists>ms. fst p = inputs_of env row ms \<and>
    snd p = evaluate_instrument (ce_decision_id env (ir_id row)) (inputs_of env row ms)"
proof -
  from assms obtain n where n: "n < length (fst (gathered env c))" "fst (gathered env c) ! n = p"
    by (auto simp: in_set_conv_nth)
  note lists = gathered_list [of env c]
  from list_all2_nthD2 [OF lists n(1)] n(2) list_all2_lengthD [OF lists] n(1) show ?thesis
    by (metis fst_conv nth_mem snd_conv)
qed

lemma gathered_proper:
  assumes "distinct (map ir_id (ce_instruments env))" "\<And>row. row \<in> set (ce_instruments env) \<Longrightarrow> ir_symbol row = name (ir_id row)"
  shows "proper name (fst (gathered env c))"
proof -
  have "list_all2 (\<lambda>row p. ir_id row = eval_pk p) (ce_instruments env) (fst (gathered env c))"
    using gathered_list [of env c] by (rule list_all2_mono) (auto simp: eval_pk_def inputs_fields)
  then have "map ir_id (ce_instruments env) = map eval_pk (fst (gathered env c))"
    by (simp add: list_all2_conv_all_nth list_eq_iff_nth_eq)
  moreover have "in_symbol (fst p) = name (eval_pk p) \<and> sd_symbol (snd p) = name (eval_pk p)"
    if "p \<in> set (fst (gathered env c))" for p
    using gathered_member [OF that] assms(2) by (auto simp: eval_pk_def inputs_fields evaluated_fields)
  ultimately show ?thesis using assms(1) by (simp add: proper_def)
qed

lemma selection_cycle_known:
  assumes "known (sco_watchlist c)" "no_lost_calls (ce_calls env)"
  shows "known (sco_watchlist (selection_cycle env c))"
  using selection_cycle_cases [of c env]
proof
  assume "same_list (sco_watchlist c) (sco_watchlist (selection_cycle env c))"
  then show ?thesis using assms(1) same_list_facts(3) by blast
next
  let ?c = "snd (gathered env c)"
  assume run: "selection_cycle env c = finish_selection env (equity_now env) (crypto_now env) (fst (gathered env c)) ?c"
  have "known (sco_watchlist ?c)" using same_list_facts(3) [OF gathered_same] assms(1) by blast
  then show ?thesis
    unfolding run same_list_facts(3) [OF finish_selection_list] by (rule reconcile_known [OF _ assms(2)])
qed

section \<open>Reachable states\<close>

text \<open>A coordinator that restored its list and whose cycles lose no answer; calls may be refused at any point.\<close>

inductive selection_run :: "coordinator \<Rightarrow> bool" where
  started: "one_row_each rows \<Longrightarrow> fst (calls 0) = Call_Done \<Longrightarrow>
    selection_run (start_coordinator calls (new_coordinator rows ms))"
| cycled: "selection_run c \<Longrightarrow> no_lost_calls (ce_calls env) \<Longrightarrow> selection_run (selection_cycle env c)"

inductive_cases selection_runE: "selection_run c"

lemma selection_run_known: "selection_run c \<Longrightarrow> known (sco_watchlist c)"
proof (induction rule: selection_run.induct)
  case (started rows calls ms)
  then show ?case using restored_known by (simp add: start_coordinator_def new_coordinator_def)
qed (rule selection_cycle_known)

text \<open>
  C37.  Once the list was restored at the start, and as long as no answer of the database is lost, the memory of
  the service knows every row of the watchlist with its state, whatever later calls are refused and in
  whatever order.
\<close>

theorem memory_knows_table:
  assumes "selection_run c" "r \<in> set (wa_rows (sco_watchlist c))"
  shows "map_option le_state (map_of (wa_entries (sco_watchlist c)) (wr_instrument_pk r)) = Some (wr_state r)"
proof -
  let ?w = "sco_watchlist c"
  have known: "known ?w" by (rule selection_run_known [OF assms(1)])
  then have "distinct (map fst (map (\<lambda>r. (wr_instrument_pk r, wr_state r)) (wa_rows ?w)))"
    by (simp add: known_def one_row_each_def comp_def)
  from map_of_eq_Some_iff [OF this] assms(2) have "stored ?w (wr_instrument_pk r) = Some (wr_state r)"
    by (auto simp: stored_def state_map_def)
  with known show ?thesis by (auto simp: known_def map_le_def dom_def listed_entry)
qed

lemma answered_cycle_active:
  assumes "selection_run c" "answering (ce_calls env)" "inj name" "named name (wa_rows (sco_watchlist c))"
    "distinct (map ir_id (ce_instruments env))"
    "\<And>row. row \<in> set (ce_instruments env) \<Longrightarrow> ir_symbol row = name (ir_id row)"
  shows "set (map wr_instrument_pk (active_rows (sco_watchlist (selection_cycle env c)))) =
    set (target_active (ce_selection env) (fst (gathered env c)))"
proof -
  let ?es = "fst (gathered env c)" and ?c = "snd (gathered env c)"
  have "fst (fst (coordinator_call env c')) = Call_Done" for c'
    using assms(2) by (simp add: coordinator_call_def next_call_def answering_def)
  then have run: "selection_cycle env c = finish_selection env (equity_now env) (crypto_now env) ?es ?c"
    by (simp add: selection_cycle_def gathered_def case_prod_beta Let_def)
  have known: "known (sco_watchlist ?c)"
    using same_list_facts(3) [OF gathered_same] selection_run_known [OF assms(1)] by blast
  have named: "named name (wa_rows (sco_watchlist ?c))"
    using same_list_facts(6) [OF gathered_same] assms(4) by simp
  have "proper name ?es" using assms(5,6) by (rule gathered_proper)
  then show ?thesis
    unfolding run same_list_facts(5) [OF finish_selection_list] by (rule reconciled_active [OF assms(2,3) known named])
qed

text \<open>
  C38.  In a run that restored its list at the start and lost no answer of the database so far, with unique
  symbols: after a cycle with an answering database every active row is of an instrument that the cycle found
  analysable and allowlisted: its session is open, its data usable, its market tradable.
\<close>

theorem active_rows_are_analysable:
  assumes "selection_run c" "answering (ce_calls env)" "inj name" "named name (wa_rows (sco_watchlist c))"
    "distinct (map ir_id (ce_instruments env))"
    "\<And>row. row \<in> set (ce_instruments env) \<Longrightarrow> ir_symbol row = name (ir_id row)"
    "r \<in> set (active_rows (sco_watchlist (selection_cycle env c)))"
  shows "\<exists>row \<in> set (ce_instruments env). \<exists>ms. ir_id row = wr_instrument_pk r \<and>
    analysable (inputs_of env row ms) \<and> in_allowlisted (inputs_of env row ms)"
proof -
  have "wr_instrument_pk r \<in> set (target_active (ce_selection env) (fst (gathered env c)))"
    using answered_cycle_active [OF assms(1-6)] assms(7) by auto
  from target_candidates [OF this] obtain p
    where p: "p \<in> set (fst (gathered env c))" "eval_pk p = wr_instrument_pk r" "candidate p" by blast
  from gathered_member [OF p(1)] obtain row ms where row: "row \<in> set (ce_instruments env)"
    "fst p = inputs_of env row ms"
    "snd p = evaluate_instrument (ce_decision_id env (ir_id row)) (inputs_of env row ms)" by blast
  with p(2,3) show ?thesis
    by (intro bexI [OF _ row(1)] exI [of _ ms]) (simp add: eval_pk_def inputs_fields candidate_def evaluated_eligible)
qed

section \<open>The best candidates\<close>

text \<open>
  C36.  Provided the memory knows the table, the evaluations are of distinct instruments under their unique
  symbols and the configured size is not negative: after a reconciliation with an answering database the active
  rows are exactly the best candidates.  An instrument has one when it is eligible and allowlisted and fewer
  candidates than the list has places rank before it, by quality and then by symbol; so at most the
  configured number is active.
\<close>

theorem watchlist_holds_the_best:
  assumes "known w" "answering calls" "inj name" "named name (wa_rows w)" "proper name es"
    "0 \<le> sel_max_watchlist_size s"
  defines "listing \<equiv> active_rows (snd (reconcile s calls es w))"
  shows "(pk \<in> set (map wr_instrument_pk listing) \<longleftrightarrow>
      (\<exists>p \<in> set es. eval_pk p = pk \<and> candidate p \<and>
        int (card {q \<in> set es. candidate q \<and> watchlist_rank q < watchlist_rank p}) < sel_max_watchlist_size s)) \<and>
    int (length listing) \<le> sel_max_watchlist_size s"
proof -
  note active = reconciled_active [OF assms(2,3,1,4,5), of s, folded listing_def]
  have best: "pk \<in> set (map wr_instrument_pk listing) \<longleftrightarrow>
      (\<exists>p \<in> set es. eval_pk p = pk \<and> candidate p \<and>
        int (card {q \<in> set es. candidate q \<and> watchlist_rank q < watchlist_rank p}) < sel_max_watchlist_size s)"
    unfolding active by (rule target_ranked [OF assms(3,5,6)])
  have "one_row_each (wa_rows (snd (reconcile s calls es w)))"
    using reconcile_known [OF assms(1) answering_loses_nothing [OF assms(2)]] by (simp add: known_def)
  then have "distinct (map wr_instrument_pk listing)"
    by (simp add: listing_def active_rows_def load_all_def one_row_each_def distinct_map inj_on_def)
  then have "length listing = card (set (target_active s es))"
    using active distinct_card by (metis length_map)
  then have "int (length listing) \<le> sel_max_watchlist_size s"
    using target_length [OF assms(6), of es] card_length [of "target_active s es"] by linarith
  with best show ?thesis by simp
qed

section \<open>Rows nobody pauses\<close>

lemma selection_cycle_unknown:
  assumes "unknown_row r (sco_watchlist c)"
    "\<And>row. row \<in> set (ce_instruments env) \<Longrightarrow> ir_id row = wr_instrument_pk r \<Longrightarrow> ir_status row \<noteq> ''ACTIVE''"
  shows "unknown_row r (sco_watchlist (selection_cycle env c))"
  using selection_cycle_cases [of c env]
proof
  assume "same_list (sco_watchlist c) (sco_watchlist (selection_cycle env c))"
  then show ?thesis using assms(1) same_list_facts(4) by blast
next
  let ?es = "fst (gathered env c)" and ?c = "snd (gathered env c)"
  assume run: "selection_cycle env c = finish_selection env (equity_now env) (crypto_now env) ?es ?c"
  have "wr_instrument_pk r \<notin> set (target_active (ce_selection env) ?es)"
  proof
    assume "wr_instrument_pk r \<in> set (target_active (ce_selection env) ?es)"
    from target_candidates [OF this] obtain p where p: "p \<in> set ?es" "eval_pk p = wr_instrument_pk r" "candidate p"
      by blast
    from gathered_member [OF p(1)] obtain row ms where row: "row \<in> set (ce_instruments env)"
      "fst p = inputs_of env row ms"
      "snd p = evaluate_instrument (ce_decision_id env (ir_id row)) (inputs_of env row ms)" by blast
    then have "ir_id row = wr_instrument_pk r" "analysable (inputs_of env row ms)"
      using p(2,3) by (simp_all add: eval_pk_def inputs_fields candidate_def evaluated_eligible)
    then show False using assms(2) [OF row(1)] by (simp add: analysable_def inputs_fields)
  qed
  moreover have "unknown_row r (sco_watchlist ?c)" using same_list_facts(4) [OF gathered_same] assms(1) by blast
  ultimately show ?thesis
    unfolding run same_list_facts(4) [OF finish_selection_list] by (intro reconcile_unknown)
qed

lemma runs_unknown:
  assumes "unknown_row r (sco_watchlist c)"
    "\<And>env row. env \<in> set envs \<Longrightarrow> row \<in> set (ce_instruments env) \<Longrightarrow> ir_id row = wr_instrument_pk r \<Longrightarrow>
       ir_status row \<noteq> ''ACTIVE''"
  shows "unknown_row r (sco_watchlist (fold selection_cycle envs c))"
  using assms
proof (induction envs arbitrary: c)
  case (Cons env envs)
  have "unknown_row r (sco_watchlist (selection_cycle env c))"
    by (rule selection_cycle_unknown [OF Cons.prems(1)]) (rule Cons.prems(2), simp_all)
  moreover have "ir_status row \<noteq> ''ACTIVE''"
    if "e \<in> set envs" "row \<in> set (ce_instruments e)" "ir_id row = wr_instrument_pk r" for e row
    using that by (intro Cons.prems(2) [of e row]) simp_all
  ultimately show ?case using Cons.IH by simp
qed simp

text \<open>
  C40.  When the query that restores the list fails at the start, a row that was active then stays active for
  ever: no later cycle pauses or removes it although its instrument is no longer active in the universe or
  left it, because a cycle only pauses what its memory lists.  The jobs that read the table go on with it.
\<close>

theorem forgotten_row_stays_active:
  assumes "r \<in> set rows" "wr_state r = WATCHLIST_ACTIVE" "fst (calls 0) \<noteq> Call_Done"
    "\<And>env row. env \<in> set envs \<Longrightarrow> row \<in> set (ce_instruments env) \<Longrightarrow> ir_id row = wr_instrument_pk r \<Longrightarrow>
       ir_status row \<noteq> ''ACTIVE''"
  shows "r \<in> set (active_rows (sco_watchlist (fold selection_cycle envs (start_coordinator calls (new_coordinator rows ms)))))"
proof -
  have "restore calls (new_watchlist rows) = (new_watchlist rows)\<lparr>wa_calls := 1, wa_degraded := True\<rparr>"
    using assms(3) by (cases "calls 0") (simp add: restore_def next_call_def new_watchlist_def split: call_answer.split)
  then have "unknown_row r (sco_watchlist (start_coordinator calls (new_coordinator rows ms)))"
    using assms(1) by (simp add: unknown_row_def start_coordinator_def new_coordinator_def new_watchlist_def listed_def)
  from runs_unknown [OF this assms(4)] show ?thesis
    using assms(2) by (simp add: unknown_row_def active_rows_def load_all_def)
qed

text \<open>The state of a completed cycle says nothing of failed writes to the histories.\<close>

lemma cycle_degraded_is_watchlists:
  "fst (fst (coordinator_call env (handle_session_transitions env (equity_now env) (crypto_now env) c))) = Call_Done \<Longrightarrow>
   sco_degraded (selection_cycle env c) = wa_degraded (sco_watchlist (selection_cycle env c))"
  by (simp add: selection_cycle_def finish_selection_def case_prod_beta Let_def)

section \<open>An example\<close>

text \<open>An example: one perpetual whose market is the example of \<open>Data_Quality\<close>, under relaxed thresholds.\<close>

definition example_instrument :: instrument_row where
  "example_instrument = \<lparr>ir_id = 1, ir_instrument_id = 7, ir_symbol = ''1'', ir_category = ''crypto'',
     ir_status = ''ACTIVE'', ir_enabled = True\<rparr>"

definition example_cycle :: cycle_env where
  "example_cycle = \<lparr>ce_selection = default_selection_settings\<lparr>sel_default_allowlist := [], sel_require_volume := False,
       sel_min_quality_score := 0\<rparr>,
     ce_thresholds = default_threshold_settings\<lparr>th_crypto_max_spread_bps := 300, th_crypto_min_book_depth_pusd := 0\<rparr>,
     ce_version = ''v1'', ce_equity = default_equity_settings, ce_calendar = us_equity_calendar,
     ce_zone = summer_zone, ce_crypto = default_crypto_settings, ce_live = Some example_env,
     ce_now = 1700000002000000, ce_instruments = [example_instrument], ce_decision_id = (\<lambda>pk. 0),
     ce_calls = (\<lambda>n. (Call_Done, 0))\<rparr>"

definition example_coordinator :: coordinator where
  "example_coordinator = start_coordinator (\<lambda>n. (Call_Done, 0)) (new_coordinator [] example_market)"

text \<open>Some injective naming under which the example has its symbol.\<close>

definition example_name :: "int \<Rightarrow> string" where
  "example_name i = (if 0 \<le> i then replicate (nat i) (CHR ''1'') else CHR ''0'' # replicate (nat (- i)) (CHR ''1''))"

lemma example_name_inj: "inj example_name"
proof (rule injI)
  fix i j assume eq: "example_name i = example_name j"
  then have "length (example_name i) = length (example_name j)" by simp
  moreover have "0 \<le> i \<longleftrightarrow> 0 \<le> j"
    using eq by (cases "nat i"; cases "nat j") (auto simp: example_name_def split: if_splits)
  ultimately show "i = j" by (auto simp: example_name_def split: if_splits)
qed

lemma example_run: "selection_run example_coordinator"
  unfolding example_coordinator_def by (rule selection_run.started) (simp_all add: one_row_each_def)

text \<open>What the cycle reads of the example's market.\<close>

definition example_state :: market_state where
  "example_state = snd (read_live example_env 7 example_market)"

definition example_book_now :: orderbook_state where
  "example_book_now = book_of (ms_books example_state) 7"

definition live_reading where
  "live_reading p = (case p of (flags, s) \<Rightarrow>
     let b = book_of (ms_books s) 7 in
     (flags, map_option (\<lambda>t. (it_last_mark_price t, it_last_index_price t, map_option bbo_spread_bps (it_last_bbo t)))
        (map_of (ms_trackers s) 7), reliable b, mid_price b, ob_bids b, ob_asks b))"

lemma example_evaluated:
  "live_reading (read_live example_env 7 example_market) =
     ((Q_HEALTHY, True, True, False), Some (Some 100, None, Some (Some 200)), True, Some 100, [(99, 1)], [(101, 1)])"
  by code_simp

lemma example_reading:
  "fst (read_live example_env 7 example_market) = (Q_HEALTHY, True, True, False)"
  "map_option (\<lambda>t. (it_last_mark_price t, it_last_index_price t, map_option bbo_spread_bps (it_last_bbo t)))
     (map_of (ms_trackers example_state) 7) = Some (Some 100, None, Some (Some 200))"
  "reliable example_book_now" "mid_price example_book_now = Some 100"
  "ob_bids example_book_now = [(99, 1)]" "ob_asks example_book_now = [(101, 1)]"
  using example_evaluated
  by (simp_all add: live_reading_def case_prod_beta Let_def example_book_now_def example_state_def)

definition example_live :: live_snapshot where
  "example_live = fst (take_snapshot (Some example_env) 7 25 example_market)"

lemma example_depth:
  "\<exists>bid ask. side_depth example_book_now ''bid'' 25 = Some bid \<and> side_depth example_book_now ''ask'' 25 = Some ask \<and>
     0 \<le> bid \<and> 0 \<le> ask"
  using example_reading
  by (auto simp: side_depth_def depth_within_bps_def Let_def dmul_def intro!: fl_nonneg dec_nonneg dsum_nonneg
      mult_nonneg_nonneg)

lemma example_live_fields:
  "li_instrument_active example_live" "li_data_quality_status example_live = Some Q_HEALTHY"
  "li_book_reliable example_live" "li_book_fresh example_live" "li_bbo_present example_live"
  "li_mark_price example_live = Some 100" "li_index_price example_live = None"
  "li_mid_price example_live = Some 100" "li_spread_bps example_live = Some 200"
  "li_bid_depth_pusd example_live = side_depth example_book_now ''bid'' 25"
  "li_ask_depth_pusd example_live = side_depth example_book_now ''ask'' 25"
  using example_reading
  by (auto simp: example_live_def take_snapshot_def snapshot_of_def Let_def case_prod_beta fl_numerals
      example_state_def [symmetric] example_book_now_def [symmetric])

lemma example_deviation: "pairwise_deviation_bps example_live = Some 0"
  by (simp add: pairwise_deviation_bps_def example_live_fields map_filter_def fadd_def fsub_def fdiv_def fmul_def
      fl_numerals)

lemma example_class:
  "cl_asset_class (classify_asset (ce_selection example_cycle) 1700000002000000 ''1'' ''crypto'') = AC_CRYPTO"
  by code_simp

lemma example_session:
  "sv_blocking_status (gated_session (ce_selection example_cycle) AC_CRYPTO e (crypto_now example_cycle)) = None"
  by (simp add: gated_session_def session_verdict_for_asset_class_def policy_block_def crypto_now_def
      evaluate_crypto_def example_cycle_def default_crypto_settings_def active_thin_window_def
      default_selection_settings_def Let_def)

lemma example_classified:
  "cl_asset_class (in_classification (inputs_of example_cycle example_instrument example_market)) = AC_CRYPTO"
  using example_class
  by (simp add: inputs_of_def build_inputs_def example_cycle_def example_instrument_def Let_def case_prod_beta)

lemma example_thresholds:
  "in_thresholds (inputs_of example_cycle example_instrument example_market) =
     resolve_thresholds AC_CRYPTO ''1'' (ce_selection example_cycle) (ce_thresholds example_cycle) False"
  using example_class
  by (simp add: inputs_of_def build_inputs_def example_instrument_def Let_def case_prod_beta gated_session_def session_verdict_for_asset_class_def policy_block_def crypto_now_def
      evaluate_crypto_def example_cycle_def default_crypto_settings_def active_thin_window_def
      default_selection_settings_def)

lemma example_inputs:
  "in_market (inputs_of example_cycle example_instrument example_market) = example_live"
  "sv_blocking_status (in_session (inputs_of example_cycle example_instrument example_market)) = None"
  "in_allowlisted (inputs_of example_cycle example_instrument example_market)"
  "\<not> in_denylisted (inputs_of example_cycle example_instrument example_market)"
  "in_instrument_enabled (inputs_of example_cycle example_instrument example_market)"
  using example_class example_session [of "equity_now example_cycle"]
  by (simp_all add: inputs_of_def build_inputs_def example_instrument_def Let_def case_prod_beta example_live_def
      resolve_thresholds_def example_cycle_def default_selection_settings_def)

lemma example_cycle_fields:
  "ce_instruments example_cycle = [example_instrument]" "ce_decision_id example_cycle pk = 0"
  "ce_calls example_cycle = (\<lambda>n. (Call_Done, 0))"
  "ce_selection example_cycle = default_selection_settings\<lparr>sel_default_allowlist := [], sel_require_volume := False,
     sel_min_quality_score := 0\<rparr>"
  "ce_thresholds example_cycle = default_threshold_settings\<lparr>th_crypto_max_spread_bps := 300,
     th_crypto_min_book_depth_pusd := 0\<rparr>"
  by (simp_all add: example_cycle_def)

lemma example_resolved:
  "resolve_thresholds AC_CRYPTO ''1'' (ce_selection example_cycle) (ce_thresholds example_cycle) False =
     \<lparr>tv_max_spread_bps = 300, tv_min_book_depth_pusd = 0, tv_min_volume_24h_pusd = 500000, tv_max_deviation_bps = 50,
      tv_depth_window_bps = 25, tv_require_volume = False, tv_require_fresh_orderbook = True,
      tv_allow_degraded_data = False, tv_min_quality_score = 0, tv_tightened = False\<rparr>"
  by (simp add: resolve_thresholds_def overridden_def example_cycle_fields default_selection_settings_def
      default_threshold_settings_def Let_def)

lemma example_analysable: "analysable (inputs_of example_cycle example_instrument example_market)"
proof -
  obtain bid ask where "li_bid_depth_pusd example_live = Some bid" "li_ask_depth_pusd example_live = Some ask"
    "0 \<le> bid" "0 \<le> ask"
    using example_depth by (auto simp: example_live_fields)
  then show ?thesis
    by (simp add: analysable_def tradable_market_def example_inputs example_classified example_thresholds
        example_resolved usable_quality_def enough_depth_def consistent_prices_def example_deviation
        example_live_fields(1-9) evaluate_market_quality_def inputs_fields Let_def)
      (simp add: example_instrument_def)
qed

text \<open>The evaluations of the example's cycle, and its target.\<close>

lemma example_gathered:
  "fst (gathered example_cycle example_coordinator) =
     [(inputs_of example_cycle example_instrument example_market,
       evaluate_instrument 0 (inputs_of example_cycle example_instrument example_market))]"
  by (simp add: gathered_def example_coordinator_def start_coordinator_def new_coordinator_def
      handle_session_transitions_def record_session_change_def coordinator_call_def next_call_def
      case_prod_beta Let_def inputs_of_def example_cycle_fields(1,2))

lemma example_named:
  "distinct (map ir_id (ce_instruments example_cycle))"
  "row \<in> set (ce_instruments example_cycle) \<Longrightarrow> ir_symbol row = example_name (ir_id row)"
  "named example_name (wa_rows (sco_watchlist example_coordinator))" "answering (ce_calls example_cycle)"
  by (simp_all add: example_cycle_fields example_instrument_def example_name_def named_def answering_def
      example_coordinator_def start_coordinator_def new_coordinator_def restore_def next_call_def new_watchlist_def)

lemma example_target: "target_active (ce_selection example_cycle) (fst (gathered example_cycle example_coordinator)) = [1]"
proof -
  have "eligible (evaluate_instrument 0 (inputs_of example_cycle example_instrument example_market))"
    using example_analysable by (simp add: evaluated_eligible)
  moreover have "sel_max_watchlist_size (ce_selection example_cycle) = 5"
    by (simp add: example_cycle_fields default_selection_settings_def)
  moreover have "ir_id example_instrument = 1" by (simp add: example_instrument_def)
  ultimately show ?thesis
    by (simp add: target_active_def ranked_candidates_def py_prefix_def example_gathered example_inputs inputs_fields)
qed

lemma example_active:
  "set (map wr_instrument_pk (active_rows (sco_watchlist (selection_cycle example_cycle example_coordinator)))) = {1}"
  using answered_cycle_active [OF example_run example_named(4) example_name_inj example_named(3,1,2)]
  by (simp add: example_target)

section \<open>Witnesses\<close>

theorem active_rows_are_analysable_witness:
  "\<exists>r \<in> set (active_rows (sco_watchlist (selection_cycle example_cycle example_coordinator))).
   \<exists>row \<in> set (ce_instruments example_cycle). \<exists>ms. ir_id row = wr_instrument_pk r \<and>
     analysable (inputs_of example_cycle row ms) \<and> in_allowlisted (inputs_of example_cycle row ms)"
proof -
  have "wr_instrument_pk ` set (active_rows (sco_watchlist (selection_cycle example_cycle example_coordinator))) = {1}"
    using example_active by simp
  then obtain r where r: "r \<in> set (active_rows (sco_watchlist (selection_cycle example_cycle example_coordinator)))"
    by (metis image_empty insert_not_empty last_in_set set_empty2)
  from active_rows_are_analysable [OF example_run example_named(4) example_name_inj example_named(3,1,2) this] r
  show ?thesis by blast
qed

definition example_row :: watch_row where
  "example_row = refresh_row 0 (evaluate_instrument 0 (inputs_of example_cycle example_instrument example_market))
     WATCHLIST_ACTIVE (fresh_row 0 1 (evaluate_instrument 0 (inputs_of example_cycle example_instrument example_market))
       WATCHLIST_ACTIVE)"

lemma example_row_fields: "wr_instrument_pk example_row = 1" "wr_state example_row = WATCHLIST_ACTIVE"
  by (simp_all add: example_row_def refresh_row_def fresh_row_def)

text \<open>A cycle whose calls are all refused.\<close>

definition refused_cycle :: cycle_env where
  "refused_cycle = example_cycle\<lparr>ce_calls := \<lambda>n. (Call_Refused, 0)\<rparr>"

definition restored_coordinator :: coordinator where
  "restored_coordinator = start_coordinator (\<lambda>n. (Call_Done, 0)) (new_coordinator [example_row] example_market)"

theorem memory_knows_table_witness:
  "example_row \<in> set (wa_rows (sco_watchlist (selection_cycle refused_cycle restored_coordinator))) \<and>
   map_option le_state (map_of (wa_entries (sco_watchlist (selection_cycle refused_cycle restored_coordinator)))
     (wr_instrument_pk example_row)) = Some WATCHLIST_ACTIVE"
proof -
  let ?c = "selection_cycle refused_cycle restored_coordinator"
  have "selection_run restored_coordinator"
    unfolding restored_coordinator_def by (rule selection_run.started) (simp_all add: one_row_each_def)
  moreover have "no_lost_calls (ce_calls refused_cycle)" by (simp add: refused_cycle_def no_lost_calls_def)
  ultimately have run: "selection_run ?c" by (rule selection_run.cycled)
  have "fst (fst (coordinator_call refused_cycle c)) = Call_Refused" for c
    by (simp add: refused_cycle_def coordinator_call_def next_call_def)
  then have "?c = (snd (coordinator_call refused_cycle (handle_session_transitions refused_cycle
      (equity_now refused_cycle) (crypto_now refused_cycle) restored_coordinator)))\<lparr>sco_degraded := True\<rparr>"
    by (simp add: selection_cycle_def case_prod_beta Let_def)
  then have "wa_rows (sco_watchlist ?c) = wa_rows (sco_watchlist restored_coordinator)"
    using same_list_facts(6) [OF same_list_trans [OF transitions_same call_same]] by simp
  then have "example_row \<in> set (wa_rows (sco_watchlist ?c))"
    by (simp add: restored_coordinator_def start_coordinator_def new_coordinator_def new_watchlist_def restore_def
        next_call_def)
  from memory_knows_table [OF run this] this show ?thesis by (simp add: example_row_fields)
qed

theorem watchlist_holds_the_best_witness:
  "1 \<in> set (map wr_instrument_pk (active_rows (snd (reconcile (ce_selection example_cycle) (\<lambda>n. (Call_Done, 0))
     (fst (gathered example_cycle example_coordinator)) (new_watchlist [])))))"
proof -
  let ?es = "fst (gathered example_cycle example_coordinator)" and ?s = "ce_selection example_cycle"
  have size: "sel_max_watchlist_size ?s = 5" by (simp add: example_cycle_fields default_selection_settings_def)
  have known: "known (new_watchlist [])"
    by (simp add: known_def one_row_each_def new_watchlist_def stored_def state_map_def)
  have named: "named example_name (wa_rows (new_watchlist []))" by (simp add: named_def new_watchlist_def)
  have proper: "proper example_name ?es" by (rule gathered_proper [OF example_named(1,2)])
  have "1 \<in> set (target_active ?s ?es)" by (simp add: example_target)
  then have best: "\<exists>p \<in> set ?es. eval_pk p = 1 \<and> candidate p \<and>
      int (card {q \<in> set ?es. candidate q \<and> watchlist_rank q < watchlist_rank p}) < sel_max_watchlist_size ?s"
    using target_ranked [OF example_name_inj proper, of ?s] size by simp
  show ?thesis
    using watchlist_holds_the_best [OF known example_named(4) example_name_inj named proper, of ?s 1] best size
    by (simp add: example_cycle_fields(3))
qed

theorem forgotten_row_stays_active_witness:
  "example_row \<in> set (active_rows (sco_watchlist (fold selection_cycle
     [example_cycle\<lparr>ce_instruments := [example_instrument\<lparr>ir_status := ''DELISTED''\<rparr>]\<rparr>, example_cycle\<lparr>ce_instruments := []\<rparr>]
     (start_coordinator (\<lambda>n. (Call_Refused, 0)) (new_coordinator [example_row] example_market)))))"
  by (rule forgotten_row_stays_active) (auto simp: example_row_fields)

end
