(* ===== verification/Admission_Safety.thy ===== *)
theory Admission_Safety
  imports Signal_Admission Signal_Engine
begin

text \<open>
  Admission and the lifecycle engine agree (\<open>app/signals/admission.py\<close>, \<open>app/signals/lifecycle.py\<close>,
  \<open>app/signals/lifecycle_engine.py\<close>): what the gates of admission let in is not thrown out by the
  monitors in the first evaluation.
\<close>

section \<open>The first evaluation\<close>

text \<open>The signal of an admitted plan, as the lifecycle service builds it from the decision.\<close>

definition admitted_signal ::
  "(string \<Rightarrow> string) \<Rightarrow> uuid \<Rightarrow> string \<Rightarrow> string \<Rightarrow> admission_context \<Rightarrow> signal_settings \<Rightarrow> signal_snapshot" where
  "admitted_signal sha fresh config_hash correlation_id a st =
     snapshot_from_new_signal (new_signal_from_plan sha fresh (ac_plan a) (the (ad_trigger (admit a st))) st
       config_hash (ad_approximation_flags (admit a st)) (ac_as_of a) correlation_id)"


lemma admitted_signal_fields [simp]:
  "sg_state (admitted_signal sha u h r a st) = WATCHING_ENTRY"
  "sg_expires_at (admitted_signal sha u h r a st) = ps_expiry_at (ac_plan a)"
  "sg_watching_entry_at (admitted_signal sha u h r a st) = Some (ac_as_of a)"
  "sg_data_degraded_since (admitted_signal sha u h r a st) = None"
  by (simp_all add: admitted_signal_def snapshot_from_new_signal_def new_signal_from_plan_def)





section \<open>Properties\<close>





end
