(* ===== verification/Spec2Isabelle.thy ===== *)
theory Spec2Isabelle
  imports Job_Liveness Persistence_Buffer Telegram_Safety Risk_Safety Strategy_Safety Backtest_Plans Watchlist_Cycles
    Admission_Safety
begin

text \<open>
  Verification of the signal lifecycle of the bot under \<open>src/app\<close>, from the market data that reaches it to
  the transitions it stores.  The program watches the market, admits research plans as signals and moves
  each signal through a closed state machine until it ends; it never trades.  The development follows the
  data through the program.

  Market data.  A frame of the exchange's stream is validated (\<open>data/event_validation.py\<close>, theory
  \<open>Event_Validation\<close>), dropped if it is older than the last one of its channel, and recorded in the tracker
  of its instrument, the order book (\<open>data/orderbook_service.py\<close>, \<open>Orderbook\<close>) and the persistence buffers
  (\<open>data/market_data_service.py\<close>, \<open>Market_Data\<close>).  The data quality service reads the trackers and the book
  and classifies every instrument (\<open>data/data_quality.py\<close>, \<open>Data_Quality\<close>).  A buffer keeps the records until
  a batch is written (\<open>data/persistence_buffer.py\<close>, \<open>Persistence_Buffer\<close>); candles go to the candle table,
  where gaps are searched (\<open>repositories/candle_repository.py\<close>, \<open>data/candle_service.py\<close>, \<open>Candle_Store\<close>).
  \<open>Orderbook\<close> shows that a book that needs no resync is the book of the exchange, \<open>Market_Invariants\<close>
  that nothing invalid is ever stored and that time never goes back in a channel, \<open>Data_Quality\<close> that a
  usable instrument has recent critical data and that evaluating changes nothing an observer can see,
  \<open>Persistence_Buffer\<close> that a buffer is bounded and, flushes aside, the map of the latest records, and
  \<open>Candle_Store\<close> that flushed candles are read back and that gap detection is exact.  Some lemmas state
  losses: an update that arrives during the write of its batch, the coarser timeframes of the candle
  channel, the lock-out after an outlier.

  Sessions and pause.  \<open>Sessions\<close> models the equity calendar, both session managers and the verdict for an
  asset class (\<open>sessions/\<close>, \<open>selection/market_selection_engine.py\<close>) and shows that the equity gate is the
  trading hours of the calendar, widened by the sessions whose analysis the settings switch on; the calendar data is written out and checked for consistency.
  \<open>Bot_State\<close> models the paused flag and its persistence (\<open>bot_state.py\<close>).

  Market selection.  \<open>Selection_Rules\<close> models the settings, the thresholds, the quality score and the hard gates
  of \<open>app/selection\<close>, \<open>Selection_Inputs\<close> the classification of an instrument and the snapshot of its live data
  over \<open>Market_Data\<close>, \<open>Orderbook\<close> and \<open>Data_Quality\<close>.  \<open>Watchlist\<close> models the stored watchlist and its
  reconciliation, \<open>Selection_Cycle\<close> the cycle of the coordinator; every call to the database may be done, refused
  or lose its answer (\<open>call_log\<close>).  \<open>Selection_Safety\<close> shows that the gates amount to one condition without an
  order, \<open>Watchlist_Safety\<close> that the operations update table and memory as maps of states and refine the map a
  cycle specifies, \<open>Watchlist_Cycles\<close> what follows for whole cycles: once the list was restored and while no answer
  is lost, the memory knows the table and the active rows are the best analysable instruments; a row the
  memory never learned of stays active.

  The pure core of the lifecycle (\<open>signals/\<close>).  \<open>Signal_Types\<close> holds its vocabulary and settings,
  \<open>Signal_Machine\<close> the transition map, \<open>Signal_Triggers\<close> the entry triggers, \<open>Signal_Monitors\<close> the nine
  monitors, \<open>Signal_Engine\<close> the evaluation of one signal, \<open>Signal_Admission\<close> the admission gates, and
  \<open>Signal_Keys\<close> the dedupe and idempotency keys and the payloads.  The locales \<open>lifecycle_monitor\<close> and
  \<open>gated_monitor\<close> state what the engine needs of a monitor, \<open>state_graph\<close> and \<open>ranked_graph\<close>
  (\<open>Transition_Graphs\<close>) what a transition map guarantees.  Shown: every computed transition is legal, at most two steps long and moves the signal;
  invalidation outranks targets; unusable data and passed deadlines end a signal; an entry needs every
  gate; a signal that was just admitted is kept or invalidated by a price, never thrown out for its plan, candidate,
  session, time or data (\<open>Admission_Safety\<close>); a lifecycle has at most nine
  transitions; equal keys mean the same transition as long as the digest does not collide.

  The tables (\<open>repositories/\<close>).  \<open>Signal_Repository\<close> models the four lifecycle tables and their operations,
  with the connection faults each may meet.  \<open>Signal_Store\<close> proves about every interleaving of the
  workers' calls: an invariant of the rows, that a version is taken once (locale
  \<open>versioned_store\<close>), that a lease is exclusive (\<open>lease_store\<close>).
  \<open>Signal_History\<close> shows that the event table is the complete history of each signal, unless a connection
  breaks between the two commits of a call: then the gap stays.

  The job.  \<open>Signal_Context\<close> models the queries and conversions of \<open>signals/lifecycle_context.py\<close>,
  \<open>Signal_Job\<close> a cycle of \<open>jobs/signal_lifecycle_monitor.py\<close>: admission of the active plans and evaluation of the
  live signals, as actions on a state that may raise (\<open>Effects\<close>,
  with the locale \<open>effect_order\<close> for what every action keeps).  \<open>Job_Safety\<close> and \<open>Job_Liveness\<close> compose all
  of the above: whatever fails and whatever other workers do, the table stays sound, a transition is
  reported only if it is stored, a paused cycle starts nothing, and the cycle returns; when nothing
  fails, a computed transition is stored, and two cycles of unusable data more than the grace
  period apart end every signal.

  Telegram (\<open>telegram/\<close>).  \<open>Telegram_Text\<close> models the payloads and the formatter and shows that what it renders
  is well-formed HTML as long as it is not truncated, \<open>Telegram_Limits\<close> the retry decision and the rate
  limiter, with the proof that a chat sees no more messages in a minute than configured as long as each goes out
  a few microseconds after its wait; exactly at the boundary one too many passes.  \<open>Telegram_Queue\<close>
  models the delivery table and its repository, \<open>Telegram_Delivery\<close> the enqueue policy and the worker as
  actions, and \<open>Telegram_Safety\<close> shows by an invariant of the table, carried through the calls by the triples of
  \<open>Effects\<close>, that nothing is sent twice and attempts are bounded as long as the database answers and no answer is lost,
  and that nothing important is dropped whatever fails; and that a lost mark sends a message again.

  The strategy (\<open>strategy/\<close>).  \<open>Strategy_Model\<close> holds its vocabulary and settings and builds the series of closed
  candles every feature reads, \<open>Strategy_Features\<close> the features of candles, swings and market structure,
  \<open>Strategy_Levels\<close> liquidity levels, sweeps, rejections and retests, the context of the book and the regime,
  \<open>Strategy_Rules\<close> the six rules and \<open>Strategy_Engine\<close> the evaluation of a context: gates, confirmations, score,
  candidate or rejection (\<open>Float_Scores\<close> has the sums and weights it shares with the risk engine).
  \<open>Strategy_Safety\<close> shows that later candles never change a swing, that structure breaks only on closes, that
  a candidate has passed every gate with a score in range, that valid settings exclude a missing series;
  and that a breakout cannot be confirmed while it holds.  The lengths of windows are assumed positive
  (\<open>positive_windows\<close>) where a definition divides by them; the settings do not ensure it.

  Risk plans (\<open>risk/\<close>).  \<open>Risk_Model\<close> holds the settings and value objects and models the rounding to the
  grid of an instrument (through the shortest text of a float), the entry zone, the invalidation, the targets
  and the size of the reference position; \<open>Risk_Engine\<close> the margin model, the buffer to the hypothetical
  liquidation, the search for a leverage, the gates on costs, the score and the evaluation of a candidate.
  \<open>Risk_Safety\<close> shows that whatever is planned is sound: prices in order from the liquidation to the targets,
  leverage, size, costs and score within the limits in force after the overrides, if these keep the minimal
  distance from being negative (a cap on the leverage below one gives 1x); that rounding a quantity never
  raises it; and that the loop over leverages ends within its fuel, six rounds for a cap of at most three.

  Costs (\<open>costs/\<close>).  \<open>Cost_Model\<close> holds the settings, the fee schedule, the walk of the order book and the
  slippage of a leg, \<open>Cost_Estimates\<close> the funding projection, the economics of targets and invalidation and the
  estimate of a plan, with the proof that no cost is negative and no net number beats its gross one.

  Simulation and backtests (\<open>simulation/\<close>).  \<open>Simulation_Core\<close> models the hypothetical follower of one signal:
  the delay, the modelled legs, funding and the result.  \<open>Simulation_Results\<close> shows that a finished result is
  conservative and the delay bounded, and that slippage is charged twice.  \<open>Replay\<close> models the order of events,
  the clock with its guard, the source and the coverage check, \<open>Backtest\<close> the state events reveal, the
  stages of the pipeline and the loop with its checkpoints.  \<open>Backtest_Safety\<close> carries an invariant of the state
  through every stage: whatever the strategy and risk cores answer (they are the record \<open>research_cores\<close>), no
  run looks ahead and each lifecycle is simulated at most once; resuming and the limit on events lose events.
  \<open>Backtest_Cores\<close> models the contexts a replay gives to \<open>Strategy_Engine\<close> and \<open>Risk_Engine\<close> and makes them the
  cores of the run (\<open>program_cores\<close>); \<open>Backtest_Plans\<close> composes the three: a run follows only sound plans, made
  from its own replayed states for confirmed candidates that passed every gate there, and an expired candidate that was planned keeps its key.
\<close>

text \<open>
  Correspondence.  A class is a \<open>record\<close> and an enumeration a \<open>datatype\<close> with the source's names, the members
  of an enumeration with a prefix where two share a name.  A method is a function of its arguments and its
  state; a mutating method returns the new state.  Of an \<open>async\<close> method the points where other tasks run
  matter: a repository method is one step of a run, an exception of the driver an argument (\<open>db_fault\<close>),
  a buffer flush is two steps around its awaited write, and the job calls the database along a script
  (\<open>db_call\<close>) that says which calls of other workers and which market data come in before each call and
  how the call fails.  The job evaluates its rows one after the other; what concurrent evaluations do to
  other rows is among the calls of the others.  A cycle sees the market data of one quality service;
  several workers have one each.

  Numbers.  A \<open>float\<close> is the rational it denotes and each operation rounds to 53 bits (\<open>Float64\<close>), a
  \<open>Decimal\<close> is rounded to 28 digits (\<open>Decimal28\<close>); infinities and NaN are outside the model, which the
  validators reject on input and the settings exclude.  An instant is its microseconds since the epoch in
  \<open>int\<close>.  Python's integers are \<open>int\<close>; the widths of the integer columns are not modelled.  Decimal
  digits of \<open>n\<close> need at most \<open>n + 1\<close> steps, which is the fuel of \<open>digits_rev\<close>; the search for the next open looks
  14 days ahead, as the code does.  Every other recursion is structural.

  Parameters, because their code is not part of the repository: SHA-256 (hypotheses name the inputs on
  which it must not collide), the time zone database (\<open>time_zone\<close>), fresh identifiers, the text
  a driver gives its exceptions, and JSON parsing, so that payloads arrive parsed.  A database stores what
  it is given: \<open>Numeric\<close> columns return the number written.  Reasons and observations that are display
  text are datatypes that keep the data they interpolate.

  Not modelled: logs, metrics and the Redis mirror, which nothing modelled reads; the exchange adapters and
  the tasks that call the modelled handlers; process start and stop.  Not modelled
  either: the context, the storage and the job of the risk plans, the queries that build a strategy context, the
  statistics of simulations and the walk-forward splits, which read and write documents around the modelled
  engines; the Telegram commands; the other jobs; the dashboard.
\<close>

end
